(* ===== verification/Tempo_Base.thy ===== *)
theory Tempo_Base
  imports Main
begin

text \<open>
  Prelude of the development: thrown JavaScript errors and results, the integers of the
  source (\<^verbatim>\<open>Number.isSafeInteger\<close>), decimal printing and reading, string helpers, and the
  identifier patterns of \<^verbatim>\<open>swamp/extensions/models/_lib/schemas.ts\<close>. The proof hints the
  components share are collected in the named theorem lists declared here.
\<close>

section \<open>Hints shared by the components\<close>

named_theorems res_simps \<open>unfolding of the result type's operations\<close>
named_theorems dec_simps \<open>facts on decimal printing and reading\<close>
named_theorems num_simps \<open>definitions of the arithmetic on JavaScript numbers\<close>

section \<open>Thrown errors\<close>

text \<open>
  \<open>Error m\<close> is \<^verbatim>\<open>new Error(m)\<close>; \<open>ZodError s\<close> is the failure of the schema \<open>s\<close> (the list of
  issues zod would print is not modelled, only which schema failed); \<open>Thrown m\<close> is what a
  callback or an external program threw; \<open>Named c m\<close> is an error of another class \<open>c\<close>, such as
  \<^verbatim>\<open>Deno.errors.NotFound\<close> or \<^verbatim>\<open>AggregateError\<close>. A function that throws returns \<open>Inl\<close>.
\<close>

datatype js_error = Error string | ZodError string | Thrown string | Named string string

type_synonym 'a res = "js_error + 'a"

definition error_message :: "js_error \<Rightarrow> string" where
  "error_message e = (case e of Error m \<Rightarrow> m | ZodError m \<Rightarrow> m | Thrown m \<Rightarrow> m
     | Named _ m \<Rightarrow> m)"

text \<open>
  \<^verbatim>\<open>String(failure)\<close> of an error: its name, a colon and its message, or the name alone when the
  message is empty.
\<close>

definition error_string :: "js_error \<Rightarrow> string" where
  "error_string e =
     (let name = (case e of ZodError _ \<Rightarrow> ''ZodError'' | Named c _ \<Rightarrow> if c = [] then ''Error'' else c
         | _ \<Rightarrow> ''Error'') in
      if error_message e = [] then name else name @ '': '' @ error_message e)"

lemma error_string_not_Nil [simp]: "error_string e \<noteq> []"
  by (cases e) (simp_all add: error_string_def Let_def)

definition bindR :: "'a res \<Rightarrow> ('a \<Rightarrow> 'b res) \<Rightarrow> 'b res" where
  "bindR r f = (case r of Inl e \<Rightarrow> Inl e | Inr x \<Rightarrow> f x)"

lemma bindR_Inl [simp]: "bindR (Inl e) f = Inl e"
  by (simp add: bindR_def)

lemma bindR_Inr [simp]: "bindR (Inr x) f = f x"
  by (simp add: bindR_def)

lemma bindR_eq_Inr [res_simps]: "bindR r f = Inr y \<longleftrightarrow> (\<exists>x. r = Inr x \<and> f x = Inr y)"
  by (cases r) simp_all

text \<open>\<^verbatim>\<open>xs.map(f)\<close> where \<open>f\<close> may throw: the first throw ends the loop.\<close>

fun mapR :: "('a \<Rightarrow> 'b res) \<Rightarrow> 'a list \<Rightarrow> 'b list res" where
  "mapR f [] = Inr []"
| "mapR f (x # xs) = bindR (f x) (\<lambda>y. bindR (mapR f xs) (\<lambda>ys. Inr (y # ys)))"

lemma mapR_eq_Inr: "mapR f xs = Inr ys \<longleftrightarrow> list_all2 (\<lambda>x y. f x = Inr y) xs ys"
  by (induction xs arbitrary: ys) (auto simp: res_simps list_all2_Cons1)

lemma mapR_length: "mapR f xs = Inr ys \<Longrightarrow> length ys = length xs"
  by (auto simp: mapR_eq_Inr dest: list_all2_lengthD)

section \<open>Safe integers\<close>

text \<open>
  Counters, step numbers and versions are JavaScript numbers the code keeps within
  \<^verbatim>\<open>Number.MAX_SAFE_INTEGER\<close>, where double arithmetic on integers is exact; they are modelled
  as \<open>int\<close> together with that bound.
\<close>

definition max_safe_integer :: int where
  "max_safe_integer = 9007199254740991"

definition safe_integer :: "int \<Rightarrow> bool" where
  "safe_integer i \<longleftrightarrow> \<bar>i\<bar> \<le> max_safe_integer"

text \<open>\<^verbatim>\<open>z.number().int().nonnegative()\<close> and \<^verbatim>\<open>z.number().int().positive()\<close>.\<close>

definition z_count :: "int \<Rightarrow> bool" where
  "z_count i \<longleftrightarrow> safe_integer i \<and> 0 \<le> i"

definition z_positive :: "int \<Rightarrow> bool" where
  "z_positive i \<longleftrightarrow> safe_integer i \<and> 0 < i"

section \<open>Decimal numerals\<close>

definition digit_char :: "nat \<Rightarrow> char" where
  "digit_char n = char_of (48 + n)"

definition is_digit :: "char \<Rightarrow> bool" where
  "is_digit c \<longleftrightarrow> 48 \<le> (of_char c :: nat) \<and> (of_char c :: nat) \<le> 57"

fun dec_nat :: "nat \<Rightarrow> string" where
  "dec_nat n = (if n < 10 then [digit_char n] else dec_nat (n div 10) @ [digit_char (n mod 10)])"

declare dec_nat.simps [simp del]

definition dec_int :: "int \<Rightarrow> string" where
  "dec_int i = (if i < 0 then CHR ''-'' # dec_nat (nat (- i)) else dec_nat (nat i))"

definition digits_value :: "string \<Rightarrow> nat" where
  "digits_value s = foldl (\<lambda>a c. 10 * a + (of_char c - 48)) 0 s"

lemma digit_char_is_digit [dec_simps]: "n < 10 \<Longrightarrow> is_digit (digit_char n)"
  by (simp add: digit_char_def is_digit_def)

lemma digit_char_value [dec_simps]: "n < 10 \<Longrightarrow> (of_char (digit_char n) :: nat) - 48 = n"
  by (simp add: digit_char_def)

lemma dec_nat_digits [dec_simps]: "list_all is_digit (dec_nat n)"
proof (induction n rule: dec_nat.induct)
  case (1 n)
  then show ?case
    by (cases "n < 10") (simp_all add: dec_nat.simps [of n] digit_char_is_digit)
qed

lemma dec_nat_not_Nil [simp]: "dec_nat n \<noteq> []"
  by (subst dec_nat.simps) simp

lemma digits_value_dec_nat [dec_simps]: "digits_value (dec_nat n) = n"
proof (induction n rule: dec_nat.induct)
  case (1 n)
  show ?case
  proof (cases "n < 10")
    case True
    then show ?thesis
      by (simp add: dec_nat.simps [of n] digits_value_def digit_char_value)
  next
    case False
    then have "digits_value (dec_nat n) = 10 * (n div 10) + n mod 10"
      using "1.IH" by (simp add: dec_nat.simps [of n] digits_value_def digit_char_value)
    then show ?thesis by simp
  qed
qed

lemma dec_nat_inject [simp]: "dec_nat m = dec_nat n \<longleftrightarrow> m = n"
  by (metis digits_value_dec_nat)

lemma dec_int_nonneg_inject: "0 \<le> i \<Longrightarrow> 0 \<le> j \<Longrightarrow> dec_int i = dec_int j \<longleftrightarrow> i = j"
  by (auto simp: dec_int_def)

lemma dec_nat_only_digits: "\<not> is_digit c \<Longrightarrow> c \<notin> set (dec_nat n)"
  using dec_nat_digits [of n] by (auto simp: list_all_iff)

lemma dec_int_inject [simp]: "dec_int i = dec_int j \<longleftrightarrow> i = j"
proof -
  have "dec_nat n \<noteq> CHR ''-'' # s" for n s
    using dec_nat_only_digits [of "CHR ''-''" n] by (auto simp: is_digit_def)
  from this this [symmetric] show ?thesis by (auto simp: dec_int_def)
qed

section \<open>Identifier patterns\<close>

definition ascii_between :: "nat \<Rightarrow> nat \<Rightarrow> char \<Rightarrow> bool" where
  "ascii_between lo hi c \<longleftrightarrow> lo \<le> (of_char c :: nat) \<and> (of_char c :: nat) \<le> hi"

text \<open>The character class \<^verbatim>\<open>[a-zA-Z0-9_-]\<close>.\<close>

definition id_char :: "char \<Rightarrow> bool" where
  "id_char c \<longleftrightarrow> ascii_between 97 122 c \<or> ascii_between 65 90 c \<or> is_digit c
     \<or> c = CHR ''_'' \<or> c = CHR ''-''"

text \<open>The character class \<^verbatim>\<open>[0-9a-f]\<close>.\<close>

definition hex_char :: "char \<Rightarrow> bool" where
  "hex_char c \<longleftrightarrow> is_digit c \<or> ascii_between 97 102 c"

text \<open>\<^verbatim>\<open>/^[a-zA-Z0-9_-]+$/\<close>, \<^verbatim>\<open>/^[0-9a-f]{40}$/\<close> and \<^verbatim>\<open>/^[0-9a-f]{64}$/\<close>.\<close>

definition run_id_ok :: "string \<Rightarrow> bool" where
  "run_id_ok s \<longleftrightarrow> s \<noteq> [] \<and> list_all id_char s"

definition revision_ok :: "string \<Rightarrow> bool" where
  "revision_ok s \<longleftrightarrow> length s = 40 \<and> list_all hex_char s"

definition sha256_ok :: "string \<Rightarrow> bool" where
  "sha256_ok s \<longleftrightarrow> length s = 64 \<and> list_all hex_char s"

section \<open>Strings\<close>

text \<open>\<^verbatim>\<open>xs.join(sep)\<close>.\<close>

fun js_join :: "string \<Rightarrow> string list \<Rightarrow> string" where
  "js_join sep [] = []"
| "js_join sep [x] = x"
| "js_join sep (x # y # ys) = x @ sep @ js_join sep (y # ys)"

text \<open>\<^verbatim>\<open>s.split(c)\<close> for a one-character separator: always at least one piece.\<close>

fun js_split :: "char \<Rightarrow> string \<Rightarrow> string list" where
  "js_split c [] = [[]]"
| "js_split c (x # xs) =
     (if x = c then [] # js_split c xs
      else (case js_split c xs of [] \<Rightarrow> [[x]] | p # ps \<Rightarrow> (x # p) # ps))"

lemma js_split_not_Nil [simp]: "js_split c s \<noteq> []"
  by (induction s) (simp_all split: list.splits)

lemma js_split_no_sep: "p \<in> set (js_split c s) \<Longrightarrow> c \<notin> set p"
  by (induction s arbitrary: p) (fastforce split: if_splits list.splits)+

lemma js_join_split: "js_join [c] (js_split c s) = s"
proof (induction s)
  case Nil
  then show ?case by simp
next
  case (Cons x xs)
  obtain p ps where "js_split c xs = p # ps"
    by (cases "js_split c xs") simp_all
  with Cons show ?case by (cases ps) auto
qed

lemma js_split_append_sep: "c \<notin> set p \<Longrightarrow> js_split c (p @ c # s) = p # js_split c s"
  by (induction p) auto

lemma js_split_single: "c \<notin> set p \<Longrightarrow> js_split c p = [p]"
  by (induction p) auto

lemma js_split_join:
  "xs \<noteq> [] \<Longrightarrow> (\<forall>x \<in> set xs. c \<notin> set x) \<Longrightarrow> js_split c (js_join [c] xs) = xs"
  by (induction "[c]" xs rule: js_join.induct) (auto simp: js_split_single js_split_append_sep)

definition starts_with :: "string \<Rightarrow> string \<Rightarrow> bool" where
  "starts_with p s \<longleftrightarrow> take (length p) s = p"

lemma starts_with_iff: "starts_with p s \<longleftrightarrow> (\<exists>t. s = p @ t)"
  unfolding starts_with_def by (metis append_eq_conv_conj append_take_drop_id)

lemma starts_with_append [simp]: "starts_with p (p @ s)"
  by (auto simp: starts_with_iff)

end
