(* ===== verification/Js_Number.thy ===== *)
theory Js_Number
  imports Complex_Main "HOL-Library.Log_Nat" Tempo_Base
begin

text \<open>
  JavaScript numbers: IEEE 754 binary64 with round-to-nearest, ties-to-even, written out on
  rationals so that every operation of the model computes. A finite number is \<open>Fin x\<close> with \<open>x\<close>
  the exact value it denotes; the two zeros are one value (no code modelled here tells them
  apart). \<open>rnd64\<close> is the rounding with unbounded exponent, \<open>fl64\<close> adds the overflow to an
  infinity. The laws of rounding the comparisons rest on form the locale \<open>float_rounding\<close>,
  interpreted on \<open>rnd64\<close>.
\<close>

section \<open>Rounding to nearest, ties to even\<close>

definition round_even :: "rat \<Rightarrow> int" where
  "round_even x = (let f = \<lfloor>x\<rfloor>; r = x - of_int f in
     if r < 1 / 2 then f else if 1 / 2 < r then f + 1 else if even f then f else f + 1)"

lemma round_even_of_int [simp]: "round_even (of_int i) = i"
  by (simp add: round_even_def)

lemma round_even_bounds: "\<lfloor>x\<rfloor> \<le> round_even x" "round_even x \<le> \<lfloor>x\<rfloor> + 1"
  by (simp_all add: round_even_def Let_def)

lemma round_even_mono:
  assumes "x \<le> y"
  shows "round_even x \<le> round_even y"
proof (cases "\<lfloor>x\<rfloor> = \<lfloor>y\<rfloor>")
  case True
  with assms show ?thesis by (auto simp: round_even_def Let_def)
next
  case False
  with assms have "\<lfloor>x\<rfloor> + 1 \<le> \<lfloor>y\<rfloor>" using floor_mono [OF assms] by linarith
  then show ?thesis using round_even_bounds(2) [of x] round_even_bounds(1) [of y] by linarith
qed

section \<open>The binary exponent of a rational\<close>

definition pow2 :: "int \<Rightarrow> rat" where
  "pow2 k = (if 0 \<le> k then 2 ^ nat k else 1 / 2 ^ nat (- k))"

lemma pow2_powi: "pow2 k = 2 powi k"
  by (simp add: pow2_def power_int_def inverse_eq_divide power_one_over)

lemma pow2_pos [simp]: "0 < pow2 k" "pow2 k \<noteq> 0" "0 \<le> pow2 k" "\<not> pow2 k < 0"
  by (simp_all add: pow2_powi not_less)

lemma pow2_add: "pow2 (j + k) = pow2 j * pow2 k"
  by (simp add: pow2_powi power_int_add)

lemma pow2_0 [simp]: "pow2 0 = 1"
  by (simp add: pow2_def)

lemma pow2_1 [simp]: "pow2 1 = 2"
  by (simp add: pow2_def)

lemma pow2_Suc: "pow2 (k + 1) = 2 * pow2 k"
  by (simp add: pow2_add)

lemma pow2_mono: "j \<le> k \<Longrightarrow> pow2 j \<le> pow2 k"
  by (simp add: pow2_powi power_int_increasing)

lemma pow2_strict_mono: "j < k \<Longrightarrow> pow2 j < pow2 k"
  by (simp add: pow2_powi power_int_strict_increasing)

lemma pow2_le_iff: "pow2 j \<le> pow2 k \<longleftrightarrow> j \<le> k"
  by (metis linorder_not_le pow2_mono pow2_strict_mono)

lemma pow2_less_iff: "pow2 j < pow2 k \<longleftrightarrow> j < k"
  by (metis linorder_not_le pow2_mono pow2_strict_mono)

lemma pow2_of_int: "0 \<le> k \<Longrightarrow> pow2 k = of_int (2 ^ nat k)"
  by (simp add: pow2_def)

lemma pow2_diff: "pow2 (j - k) = pow2 j / pow2 k"
  using pow2_add [of "j - k" k] by (simp add: field_simps)

lemma pow2_53: "pow2 (53 + k) = of_int (2 ^ 53) * pow2 k"
proof -
  have "pow2 53 = (of_int (2 ^ 53) :: rat)" by (simp add: pow2_def)
  then show ?thesis by (simp only: pow2_add)
qed

definition ilog2 :: "rat \<Rightarrow> int" where
  "ilog2 x = (let (p, q) = quotient_of x; k = bitlen p - bitlen q
              in if pow2 k \<le> x then k else k - 1)"

lemma bitlen_pow2:
  assumes "0 < p"
  shows "pow2 (bitlen p - 1) \<le> of_int p" "of_int p < pow2 (bitlen p)"
proof -
  have b: "1 \<le> bitlen p" using assms by (simp add: bitlen_ge_iff_power)
  from bitlen_bounds [OF assms] have
    "2 ^ nat (bitlen p - 1) \<le> p" "p < 2 ^ nat (bitlen p)" by auto
  then have "(of_int (2 ^ nat (bitlen p - 1)) :: rat) \<le> of_int p"
    "(of_int p :: rat) < of_int (2 ^ nat (bitlen p))"
    by (simp_all only: of_int_le_iff of_int_less_iff)
  then show "pow2 (bitlen p - 1) \<le> of_int p" "of_int p < pow2 (bitlen p)"
    using b by (simp_all add: pow2_of_int)
qed

lemma ilog2_bounds:
  assumes "0 < x"
  shows "pow2 (ilog2 x) \<le> x" "x < pow2 (ilog2 x + 1)"
proof -
  obtain p q where pq: "quotient_of x = (p, q)" by (cases "quotient_of x")
  have q: "0 < q" using quotient_of_denom_pos [OF pq] .
  have x: "x = of_int p / of_int q" using quotient_of_div [OF pq] .
  from assms q have p: "0 < p" by (simp add: x zero_less_divide_iff)
  let ?k = "bitlen p - bitlen q"
  have "x < pow2 (bitlen p) / pow2 (bitlen q - 1)"
    unfolding x using bitlen_pow2 [OF p] bitlen_pow2 [OF q] p q
    by (intro frac_less) simp_all
  also have "\<dots> = pow2 (?k + 1)"
    by (simp flip: pow2_diff add: algebra_simps)
  finally have hi: "x < pow2 (?k + 1)" .
  have "pow2 (?k - 1) = pow2 (bitlen p - 1) / pow2 (bitlen q)"
    by (simp flip: pow2_diff add: algebra_simps)
  also have "\<dots> \<le> x"
    unfolding x using bitlen_pow2 [OF p] bitlen_pow2 [OF q] p q
    by (intro frac_le) (simp_all add: less_imp_le)
  finally have lo: "pow2 (?k - 1) \<le> x" .
  show "pow2 (ilog2 x) \<le> x" "x < pow2 (ilog2 x + 1)"
    using lo hi by (simp_all add: ilog2_def pq Let_def)
qed

lemma ilog2_mono:
  assumes "0 < x" "x \<le> y"
  shows "ilog2 x \<le> ilog2 y"
proof -
  have "pow2 (ilog2 x) < pow2 (ilog2 y + 1)"
    using ilog2_bounds(1) [of x] ilog2_bounds(2) [of y] assms by linarith
  then show ?thesis by (simp add: pow2_less_iff)
qed

section \<open>Binary64 rounding\<close>

text \<open>The exponent of the unit in the last place: 53 significant bits, never below \<open>2^-1074\<close>.\<close>

definition ulp_exp :: "rat \<Rightarrow> int" where
  "ulp_exp x = max (ilog2 x - 52) (- 1074)"

definition rnd_pos :: "rat \<Rightarrow> rat" where
  "rnd_pos x = (let u = pow2 (ulp_exp x) in of_int (round_even (x / u)) * u)"

definition rnd64 :: "rat \<Rightarrow> rat" where
  "rnd64 x = (if x = 0 then 0 else if 0 < x then rnd_pos x else - rnd_pos (- x))"

lemma rnd_pos_le_grid:
  assumes "x \<le> of_int m * pow2 (ulp_exp x)"
  shows "rnd_pos x \<le> of_int m * pow2 (ulp_exp x)"
proof -
  have "x / pow2 (ulp_exp x) \<le> of_int m" using assms by (simp add: divide_le_eq)
  from round_even_mono [OF this] show ?thesis by (simp add: rnd_pos_def Let_def)
qed

lemma rnd_pos_ge_grid:
  assumes "of_int m * pow2 (ulp_exp x) \<le> x"
  shows "of_int m * pow2 (ulp_exp x) \<le> rnd_pos x"
proof -
  have "of_int m \<le> x / pow2 (ulp_exp x)" using assms by (simp add: le_divide_eq)
  from round_even_mono [OF this] show ?thesis by (simp add: rnd_pos_def Let_def)
qed

lemma rnd_pos_on_grid:
  assumes "x = of_int m * pow2 (ulp_exp x)"
  shows "rnd_pos x = x"
proof -
  have "x / pow2 (ulp_exp x) = of_int m" using assms by (simp add: divide_eq_eq)
  then show ?thesis using assms by (simp add: rnd_pos_def Let_def)
qed

lemma pow2_on_grid: "u \<le> k \<Longrightarrow> \<exists>m. pow2 k = of_int m * pow2 u"
  using pow2_add [of "k - u" u] by (auto simp: pow2_of_int)

lemma rnd_pos_mono:
  assumes "0 < x" "x \<le> y"
  shows "rnd_pos x \<le> rnd_pos y"
proof (cases "ulp_exp x = ulp_exp y")
  case True
  have "x / pow2 (ulp_exp y) \<le> y / pow2 (ulp_exp y)"
    using assms by (simp add: divide_right_mono)
  from round_even_mono [OF this] show ?thesis
    by (simp add: rnd_pos_def Let_def True)
next
  case False
  have le: "ilog2 x \<le> ilog2 y" using ilog2_mono assms by blast
  then have lt: "ulp_exp x < ulp_exp y" using False by (auto simp: ulp_exp_def)
  then have u: "ulp_exp x \<le> ilog2 y" "ulp_exp y \<le> ilog2 y" and less: "ilog2 x < ilog2 y"
    by (auto simp: ulp_exp_def)
  have "x < pow2 (ilog2 x + 1)" using ilog2_bounds assms by blast
  also have "\<dots> \<le> pow2 (ilog2 y)" using less by (simp add: pow2_mono)
  finally have x: "x \<le> pow2 (ilog2 y)" by simp
  have y: "pow2 (ilog2 y) \<le> y" using ilog2_bounds(1) [of y] assms by simp
  obtain m n where m: "pow2 (ilog2 y) = of_int m * pow2 (ulp_exp x)"
    and n: "pow2 (ilog2 y) = of_int n * pow2 (ulp_exp y)"
    using u pow2_on_grid by blast
  have "rnd_pos x \<le> pow2 (ilog2 y)" using x rnd_pos_le_grid [of x m] m by simp
  also have "\<dots> \<le> rnd_pos y" using y rnd_pos_ge_grid [of n y] n by simp
  finally show ?thesis .
qed

lemma rnd_pos_nonneg: "0 < x \<Longrightarrow> 0 \<le> rnd_pos x"
  using rnd_pos_ge_grid [of 0 x] by simp


lemma rnd_pos_dyadic:
  assumes "0 < m" "m < 2 ^ 53" "- 1074 \<le> k"
  shows "rnd_pos (of_int m * pow2 k) = of_int m * pow2 k"
proof -
  let ?y = "of_int m * pow2 k"
  have pos: "0 < ?y" using assms by simp
  have "pow2 (ilog2 ?y) \<le> ?y" using ilog2_bounds pos by blast
  also have "\<dots> < of_int (2 ^ 53) * pow2 k"
    using assms by (intro mult_strict_right_mono) (simp_all only: of_int_less_iff pow2_pos)
  also have "\<dots> = pow2 (53 + k)" by (simp only: pow2_53)
  finally have "ilog2 ?y < 53 + k" by (simp add: pow2_less_iff)
  then have "ulp_exp ?y \<le> k" using assms by (simp add: ulp_exp_def)
  then obtain n where "pow2 k = of_int n * pow2 (ulp_exp ?y)"
    using pow2_on_grid by blast
  then have y: "?y = of_int (m * n) * pow2 (ulp_exp ?y)" by (simp only: of_int_mult mult.assoc)
  then show ?thesis by (rule rnd_pos_on_grid)
qed

lemma rnd64_dyadic:
  assumes "\<bar>m\<bar> < 2 ^ 53" "- 1074 \<le> k"
  shows "rnd64 (of_int m * pow2 k) = of_int m * pow2 k"
proof -
  consider "m = 0" | "0 < m" | "0 < - m" by linarith
  then show ?thesis
  proof cases
    case 3
    with assms rnd_pos_dyadic [of "- m" k] show ?thesis
      by (auto simp: rnd64_def mult_less_0_iff zero_less_mult_iff not_less_iff_gr_or_eq)
  qed (use assms rnd_pos_dyadic [of m k] in \<open>simp_all add: rnd64_def\<close>)
qed

lemma rnd64_of_int: "\<bar>i\<bar> < 2 ^ 53 \<Longrightarrow> rnd64 (of_int i) = of_int i"
  using rnd64_dyadic [of i 0] by simp

lemma rnd64_minus: "rnd64 (- x) = - rnd64 x"
  by (simp add: rnd64_def)

lemma rnd64_mono:
  assumes "x \<le> y"
  shows "rnd64 x \<le> rnd64 y"
proof (cases "0 < x")
  case True
  with assms rnd_pos_mono show ?thesis by (simp add: rnd64_def)
next
  case False
  show ?thesis
  proof (cases "y < 0")
    case True
    with assms rnd_pos_mono [of "- y" "- x"] show ?thesis by (simp add: rnd64_def)
  next
    case False
    then show ?thesis
      using \<open>\<not> 0 < x\<close> rnd_pos_nonneg [of "- x"] rnd_pos_nonneg [of y]
      by (auto simp: rnd64_def)
  qed
qed

lemma rnd_pos_form:
  assumes "0 < x"
  shows "\<exists>m k. rnd_pos x = of_int m * pow2 k \<and> \<bar>m\<bar> < 2 ^ 53 \<and> - 1074 \<le> k"
proof -
  let ?u = "ulp_exp x" and ?m = "round_even (x / pow2 (ulp_exp x))"
  have "x < pow2 (ilog2 x + 1)" using ilog2_bounds assms by blast
  also have "\<dots> \<le> pow2 (53 + ?u)" by (intro pow2_mono) (simp add: ulp_exp_def)
  finally have "x / pow2 ?u \<le> of_int (2 ^ 53)"
    by (simp add: divide_le_eq pow2_53)
  from round_even_mono [OF this] have le: "?m \<le> 2 ^ 53" by (simp only: round_even_of_int)
  have "of_int 0 \<le> x / pow2 ?u" using assms by simp
  from round_even_mono [OF this] have ge: "0 \<le> ?m" by (simp only: round_even_of_int)
  have u: "- 1074 \<le> ?u" by (simp add: ulp_exp_def)
  have form: "rnd_pos x = of_int ?m * pow2 ?u" by (simp add: rnd_pos_def Let_def)
  show ?thesis
  proof (cases "?m = 2 ^ 53")
    case True
    have "rnd_pos x = of_int 1 * pow2 (53 + ?u)"
      by (simp only: form True of_int_1 mult_1 pow2_53)
    moreover have "\<bar>1 :: int\<bar> < 2 ^ 53" "- 1074 \<le> 53 + ?u" using u by simp_all
    ultimately show ?thesis by blast
  next
    case False
    with le ge have "\<bar>?m\<bar> < 2 ^ 53" by simp
    with form u show ?thesis by blast
  qed
qed

lemma rnd64_form: "\<exists>m k. rnd64 x = of_int m * pow2 k \<and> \<bar>m\<bar> < 2 ^ 53 \<and> - 1074 \<le> k"
proof -
  consider "x = 0" | "0 < x" | "0 < - x" by linarith
  then show ?thesis
  proof cases
    case 1
    then have "rnd64 x = of_int 0 * pow2 0" by (simp add: rnd64_def)
    then show ?thesis by fastforce
  next
    case 2
    with rnd_pos_form [OF 2] show ?thesis by (simp add: rnd64_def)
  next
    case 3
    from rnd_pos_form [OF 3] obtain m k where
      "rnd_pos (- x) = of_int m * pow2 k" "\<bar>m\<bar> < 2 ^ 53" "- 1074 \<le> k" by blast
    with 3 have "rnd64 x = of_int (- m) * pow2 k" "\<bar>- m\<bar> < 2 ^ 53" by (simp_all add: rnd64_def)
    with \<open>- 1074 \<le> k\<close> show ?thesis by blast
  qed
qed

lemma rnd64_idem: "rnd64 (rnd64 x) = rnd64 x"
  using rnd64_form [of x] rnd64_dyadic by auto

lemma rnd64_double: "rnd64 x = x \<Longrightarrow> rnd64 (2 * x) = 2 * x"
proof -
  assume "rnd64 x = x"
  with rnd64_form [of x] obtain m k where
    "x = of_int m * pow2 k" "\<bar>m\<bar> < 2 ^ 53" "- 1074 \<le> k" by auto
  then have "2 * x = of_int m * pow2 (k + 1)" "- 1074 \<le> k + 1"
    by (simp_all add: pow2_add)
  with rnd64_dyadic [OF \<open>\<bar>m\<bar> < 2 ^ 53\<close>] show ?thesis by metis
qed

section \<open>Evaluating the rounding on a given rational\<close>

text \<open>
  Given the binary exponent \<open>k\<close> of \<open>x\<close> and the nearest multiple \<open>m\<close> of its unit in the last
  place, the rounding is read off without searching for either.
\<close>

lemma ilog2_eqI:
  assumes "pow2 k \<le> x" "x < pow2 (k + 1)"
  shows "ilog2 x = k"
proof -
  have "0 < x" using assms(1) pow2_pos(1) [of k] by linarith
  note b = ilog2_bounds [OF this]
  have "pow2 k < pow2 (ilog2 x + 1)" "pow2 (ilog2 x) < pow2 (k + 1)"
    using b assms by linarith+
  then show ?thesis by (simp add: pow2_less_iff)
qed

lemma round_even_eqI:
  assumes "\<bar>y - of_int m\<bar> < 1 / 2"
  shows "round_even y = m"
proof -
  from assms have b: "y < of_int m + 1 / 2" "of_int m - 1 / 2 < y" by linarith+
  show ?thesis
  proof (cases "of_int m \<le> y")
    case True
    with b have "\<lfloor>y\<rfloor> = m" by (intro floor_unique) linarith+
    with b show ?thesis by (simp add: round_even_def Let_def)
  next
    case False
    with b have "\<lfloor>y\<rfloor> = m - 1" by (intro floor_unique) simp_all
    with b show ?thesis by (simp add: round_even_def Let_def)
  qed
qed

lemma rnd64_eqI:
  assumes "pow2 k \<le> x" "x < pow2 (k + 1)" "- 1022 \<le> k"
    "\<bar>x / pow2 (k - 52) - of_int m\<bar> < 1 / 2"
  shows "rnd64 x = of_int m * pow2 (k - 52)"
proof -
  have "0 < x" using assms(1) pow2_pos(1) [of k] by linarith
  moreover have "ulp_exp x = k - 52"
    using ilog2_eqI [OF assms(1,2)] assms(3) by (simp add: ulp_exp_def)
  ultimately show ?thesis
    using round_even_eqI [OF assms(4)] by (simp add: rnd64_def rnd_pos_def Let_def)
qed

section \<open>The laws the comparisons rest on\<close>

locale float_rounding =
  fixes rnd :: "rat \<Rightarrow> rat"
  assumes mono: "x \<le> y \<Longrightarrow> rnd x \<le> rnd y"
    and odd: "rnd (- x) = - rnd x"
    and idem: "rnd (rnd x) = rnd x"
    and doubling: "rnd x = x \<Longrightarrow> rnd (2 * x) = 2 * x"
    and one: "rnd 1 = 1"
begin

lemma zero: "rnd 0 = 0"
  using odd [of 0] by simp

lemma ge_exact: "rnd a = a \<Longrightarrow> a \<le> x \<Longrightarrow> a \<le> rnd x"
  using mono [of a x] by simp

lemma le_exact: "rnd a = a \<Longrightarrow> x \<le> a \<Longrightarrow> rnd x \<le> a"
  using mono [of x a] by simp

lemma nonneg: "0 \<le> x \<Longrightarrow> 0 \<le> rnd x"
  using ge_exact [of 0 x] zero by simp

lemma scale_up:
  assumes "rnd a = a" "0 \<le> a" "1 \<le> f"
  shows "a \<le> rnd (a * f)"
proof -
  have "a * 1 \<le> a * f" using assms by (intro mult_left_mono)
  with assms(1) show ?thesis by (auto intro: ge_exact)
qed

lemma scale_down:
  assumes "rnd a = a" "0 \<le> a" "f \<le> 1"
  shows "rnd (a * f) \<le> a"
proof -
  have "a * f \<le> a * 1" using assms by (intro mult_left_mono)
  with assms(1) show ?thesis by (auto intro: le_exact)
qed

lemma midpoint_between:
  assumes "rnd a = a" "rnd b = b" "a \<le> b"
  shows "a \<le> rnd (rnd (a + b) / 2)" "rnd (rnd (a + b) / 2) \<le> b"
proof -
  have "2 * a \<le> rnd (a + b)" using doubling [OF assms(1)] assms(3) by (intro ge_exact) simp_all
  then show "a \<le> rnd (rnd (a + b) / 2)" using assms(1) by (intro ge_exact) simp_all
  have "rnd (a + b) \<le> 2 * b" using doubling [OF assms(2)] assms(3) by (intro le_exact) simp_all
  then show "rnd (rnd (a + b) / 2) \<le> b" using assms(2) by (intro le_exact) simp_all
qed

end

interpretation binary64: float_rounding rnd64
  by unfold_locales
    (use rnd64_of_int [of 1] in \<open>simp_all add: rnd64_mono rnd64_minus rnd64_idem rnd64_double\<close>)

section \<open>Number values\<close>

datatype jsnum = NaN | PosInf | NegInf | Fin rat

definition fl64 :: "rat \<Rightarrow> jsnum" where
  "fl64 x = (let y = rnd64 x in
     if pow2 1024 \<le> y then PosInf else if y \<le> - pow2 1024 then NegInf else Fin y)"

text \<open>The values a JavaScript number can have.\<close>

fun is_double :: "jsnum \<Rightarrow> bool" where
  "is_double (Fin x) \<longleftrightarrow> rnd64 x = x \<and> \<bar>x\<bar> < pow2 1024"
| "is_double _ \<longleftrightarrow> True"

lemma is_double_fl64 [simp]: "is_double (fl64 x)"
  by (auto simp: fl64_def Let_def rnd64_idem abs_less_iff not_le)

lemma fl64_exactI: "rnd64 x = y \<Longrightarrow> \<bar>y\<bar> < 2 ^ 1000 \<Longrightarrow> fl64 x = Fin y"
proof -
  assume "rnd64 x = y" "\<bar>y\<bar> < 2 ^ 1000"
  moreover have "(2 ^ 1000 :: rat) < pow2 1024" by (simp add: pow2_def)
  ultimately have "\<not> pow2 1024 \<le> rnd64 x" "\<not> rnd64 x \<le> - pow2 1024" by linarith+
  then show "fl64 x = Fin y" using \<open>rnd64 x = y\<close> by (simp add: fl64_def)
qed

lemma fl64_evalI:
  assumes "pow2 k \<le> x" "x < pow2 (k + 1)" "- 1022 \<le> k" "k < 900"
    "\<bar>x / pow2 (k - 52) - of_int m\<bar> < 1 / 2" "of_int m * pow2 (k - 52) = y" "\<bar>y\<bar> < 2 ^ 1000"
  shows "fl64 x = Fin y"
  using rnd64_eqI [OF assms(1-3) assms(5)] assms(6,7) by (intro fl64_exactI) simp_all

text \<open>\<^verbatim>\<open>Number.isFinite\<close>, the comparisons (false on NaN) and \<^verbatim>\<open>===\<close>.\<close>

fun js_finite :: "jsnum \<Rightarrow> bool" where
  "js_finite (Fin _) \<longleftrightarrow> True"
| "js_finite _ \<longleftrightarrow> False"

fun js_lt :: "jsnum \<Rightarrow> jsnum \<Rightarrow> bool" where
  "js_lt (Fin x) (Fin y) \<longleftrightarrow> x < y"
| "js_lt NaN _ \<longleftrightarrow> False"
| "js_lt _ NaN \<longleftrightarrow> False"
| "js_lt NegInf b \<longleftrightarrow> b \<noteq> NegInf"
| "js_lt PosInf _ \<longleftrightarrow> False"
| "js_lt (Fin _) b \<longleftrightarrow> b = PosInf"

definition js_eq :: "jsnum \<Rightarrow> jsnum \<Rightarrow> bool" where
  "js_eq a b \<longleftrightarrow> a \<noteq> NaN \<and> a = b"

definition js_le :: "jsnum \<Rightarrow> jsnum \<Rightarrow> bool" where
  "js_le a b \<longleftrightarrow> js_lt a b \<or> js_eq a b"

lemma js_le_Fin [simp]: "js_le (Fin x) (Fin y) \<longleftrightarrow> x \<le> y"
  by (auto simp: js_le_def js_eq_def)

lemma js_lt_Fin_left: "js_lt (Fin x) b \<longleftrightarrow> b = PosInf \<or> (\<exists>y. b = Fin y \<and> x < y)"
  by (cases b) auto

lemma js_le_Fin_left: "js_le (Fin x) b \<longleftrightarrow> b = PosInf \<or> (\<exists>y. b = Fin y \<and> x \<le> y)"
  by (cases b) (auto simp: js_le_def js_eq_def)

lemma js_lt_Fin_right: "js_lt a (Fin y) \<longleftrightarrow> a = NegInf \<or> (\<exists>x. a = Fin x \<and> x < y)"
  by (cases a) auto

lemma js_le_Fin_right: "js_le a (Fin y) \<longleftrightarrow> a = NegInf \<or> (\<exists>x. a = Fin x \<and> x \<le> y)"
  by (cases a) (auto simp: js_le_def js_eq_def)

lemma js_lt_irrefl [simp]: "\<not> js_lt a a"
  by (cases a) simp_all

lemma js_lt_trans: "js_lt a b \<Longrightarrow> js_lt b c \<Longrightarrow> js_lt a c"
  by (cases a; cases b; cases c) auto

lemma js_le_lt_trans: "js_le a b \<Longrightarrow> js_lt b c \<Longrightarrow> js_lt a c"
  by (auto simp: js_le_def js_eq_def intro: js_lt_trans)

lemma js_lt_le_trans: "js_lt a b \<Longrightarrow> js_le b c \<Longrightarrow> js_lt a c"
  by (auto simp: js_le_def js_eq_def intro: js_lt_trans)

section \<open>Arithmetic\<close>

definition js_of_int :: "int \<Rightarrow> jsnum" where
  "js_of_int i = fl64 (of_int i)"

text \<open>The integer a JavaScript number is, when \<^verbatim>\<open>Number.isSafeInteger\<close> holds.\<close>

definition safe_int_of :: "jsnum \<Rightarrow> int option" where
  "safe_int_of x = (case x of
     Fin q \<Rightarrow> if of_int \<lfloor>q\<rfloor> = q \<and> safe_integer \<lfloor>q\<rfloor> then Some \<lfloor>q\<rfloor> else None | _ \<Rightarrow> None)"

fun js_neg :: "jsnum \<Rightarrow> jsnum" where
  "js_neg NaN = NaN"
| "js_neg PosInf = NegInf"
| "js_neg NegInf = PosInf"
| "js_neg (Fin x) = Fin (- x)"

fun js_add :: "jsnum \<Rightarrow> jsnum \<Rightarrow> jsnum" where
  "js_add (Fin x) (Fin y) = fl64 (x + y)"
| "js_add NaN _ = NaN"
| "js_add _ NaN = NaN"
| "js_add PosInf NegInf = NaN"
| "js_add NegInf PosInf = NaN"
| "js_add PosInf _ = PosInf"
| "js_add _ PosInf = PosInf"
| "js_add NegInf _ = NegInf"
| "js_add _ NegInf = NegInf"

definition js_sub :: "jsnum \<Rightarrow> jsnum \<Rightarrow> jsnum" where
  "js_sub a b = js_add a (js_neg b)"

definition inf_of_sign :: "rat \<Rightarrow> jsnum" where
  "inf_of_sign x = (if x = 0 then NaN else if 0 < x then PosInf else NegInf)"

fun js_mul :: "jsnum \<Rightarrow> jsnum \<Rightarrow> jsnum" where
  "js_mul (Fin x) (Fin y) = fl64 (x * y)"
| "js_mul NaN _ = NaN"
| "js_mul _ NaN = NaN"
| "js_mul PosInf (Fin y) = inf_of_sign y"
| "js_mul (Fin x) PosInf = inf_of_sign x"
| "js_mul NegInf (Fin y) = inf_of_sign (- y)"
| "js_mul (Fin x) NegInf = inf_of_sign (- x)"
| "js_mul PosInf PosInf = PosInf"
| "js_mul NegInf NegInf = PosInf"
| "js_mul _ _ = NegInf"

text \<open>Division; a zero divisor counts as the positive zero.\<close>

fun js_div :: "jsnum \<Rightarrow> jsnum \<Rightarrow> jsnum" where
  "js_div (Fin x) (Fin y) = (if y = 0 then inf_of_sign x else fl64 (x / y))"
| "js_div NaN _ = NaN"
| "js_div _ NaN = NaN"
| "js_div PosInf (Fin y) = (if y < 0 then NegInf else PosInf)"
| "js_div NegInf (Fin y) = (if y < 0 then PosInf else NegInf)"
| "js_div (Fin x) _ = Fin 0"
| "js_div _ _ = NaN"

text \<open>\<^verbatim>\<open>Math.abs\<close> and \<^verbatim>\<open>Math.max\<close>.\<close>

fun js_abs :: "jsnum \<Rightarrow> jsnum" where
  "js_abs NaN = NaN"
| "js_abs (Fin x) = Fin \<bar>x\<bar>"
| "js_abs _ = PosInf"

definition js_max2 :: "jsnum \<Rightarrow> jsnum \<Rightarrow> jsnum" where
  "js_max2 a b = (if a = NaN \<or> b = NaN then NaN else if js_lt a b then b else a)"

definition js_max :: "jsnum list \<Rightarrow> jsnum" where
  "js_max xs = foldl js_max2 NegInf xs"

lemmas js_arith_defs [num_simps] = js_sub_def js_of_int_def inf_of_sign_def

lemma js_of_int_exact: "\<bar>i\<bar> < 2 ^ 53 \<Longrightarrow> js_of_int i = Fin (of_int i)"
proof -
  assume i: "\<bar>i\<bar> < 2 ^ 53"
  have "(2 ^ 53 :: rat) < pow2 1024" by (simp add: pow2_def)
  moreover have "\<bar>of_int i :: rat\<bar> < 2 ^ 53"
    using i by (metis of_int_abs of_int_less_iff of_int_numeral of_int_power)
  ultimately have "\<bar>of_int i :: rat\<bar> < pow2 1024" by simp
  with i show ?thesis
    by (auto simp: js_of_int_def fl64_def Let_def rnd64_of_int abs_less_iff)
qed

section \<open>Comparisons across a scaling\<close>

text \<open>Scaling a double by a factor of at least one does not bring it below itself.\<close>

lemma js_mul_ge:
  assumes "is_double (Fin p)" "0 \<le> p" "1 \<le> f"
  shows "js_le (Fin p) (js_mul (Fin p) (Fin f))"
proof -
  have "p \<le> rnd64 (p * f)" using assms by (intro binary64.scale_up) simp_all
  moreover have "\<not> rnd64 (p * f) \<le> - pow2 1024"
    using \<open>p \<le> rnd64 (p * f)\<close> assms(2) pow2_pos(1) [of 1024] by linarith
  ultimately show ?thesis
    by (simp add: fl64_def Let_def js_le_Fin_left)
qed

lemma js_mul_le:
  assumes "is_double (Fin p)" "0 \<le> p" "0 \<le> f" "f \<le> 1"
  shows "js_le (js_mul (Fin p) (Fin f)) (Fin p)" "\<exists>y. js_mul (Fin p) (Fin f) = Fin y \<and> 0 \<le> y"
proof -
  have le: "rnd64 (p * f) \<le> p" using assms by (intro binary64.scale_down) simp_all
  have ge: "0 \<le> rnd64 (p * f)" using assms by (intro binary64.nonneg) simp
  have "p < pow2 1024" using assms by simp
  with le have "\<not> pow2 1024 \<le> rnd64 (p * f)" by linarith
  moreover have "\<not> rnd64 (p * f) \<le> - pow2 1024"
    using ge pow2_pos(1) [of 1024] by linarith
  ultimately have eq: "js_mul (Fin p) (Fin f) = Fin (rnd64 (p * f))"
    by (simp add: fl64_def Let_def)
  show "js_le (js_mul (Fin p) (Fin f)) (Fin p)" by (simp only: eq js_le_Fin le)
  show "\<exists>y. js_mul (Fin p) (Fin f) = Fin y \<and> 0 \<le> y" using eq ge by blast
qed

lemma js_one_plus_ge:
  assumes "0 \<le> f" "f \<le> 1"
  shows "\<exists>g. js_add (Fin 1) (Fin f) = Fin g \<and> 1 \<le> g"
proof -
  have lo: "1 \<le> rnd64 (1 + f)" using assms binary64.one by (intro binary64.ge_exact) simp_all
  have "rnd64 2 = 2" using rnd64_of_int [of 2] by simp
  then have hi: "rnd64 (1 + f) \<le> 2" using assms by (intro binary64.le_exact) simp_all
  have "(2 :: rat) < pow2 1024" by (simp add: pow2_def)
  with lo hi show ?thesis by (auto simp: fl64_def Let_def)
qed

text \<open>Rounding stays between two doubles.\<close>

lemma fl64_between:
  assumes "a \<le> x" "x \<le> b" "rnd64 a = a" "rnd64 b = b" "- (2 ^ 1000) < a" "b < 2 ^ 1000"
  shows "\<exists>y. fl64 x = Fin y \<and> a \<le> y \<and> y \<le> b"
proof -
  have "a \<le> rnd64 x" "rnd64 x \<le> b"
    using assms by (auto intro: binary64.ge_exact binary64.le_exact)
  moreover have "(2 ^ 1000 :: rat) < pow2 1024" by (simp add: pow2_def)
  ultimately show ?thesis
    using assms(5,6) by (auto simp: fl64_def Let_def)
qed

text \<open>The maximum of finitely many finite numbers is finite and lies below what they all do.\<close>

lemma js_max2_Fin [simp]: "js_max2 (Fin x) (Fin y) = Fin (max x y)" "js_max2 NegInf (Fin y) = Fin y"
  by (simp_all add: js_max2_def max_def)

lemma foldl_js_max2_Fin: "foldl js_max2 (Fin a) (map Fin xs) = Fin (foldl max a xs)"
  by (induction xs arbitrary: a) simp_all

lemma foldl_max_less: "foldl max (a :: rat) xs < b \<longleftrightarrow> a < b \<and> (\<forall>x \<in> set xs. x < b)"
  by (induction xs arbitrary: a) auto

lemma js_max_Fin: "xs \<noteq> [] \<Longrightarrow> \<exists>y. js_max (map Fin xs) = Fin y \<and> (\<forall>b. y < b \<longleftrightarrow> (\<forall>x \<in> set xs. x < b))"
  by (cases xs) (auto simp: js_max_def foldl_js_max2_Fin foldl_max_less)

lemma fl64_3_100: "fl64 (3 / 100) = Fin (1080863910568919 / 36028797018963968)"
  by (rule fl64_evalI [where k = "- 6" and m = "8646911284551352"]) (simp_all add: pow2_def)

lemma fl64_5_100: "fl64 (5 / 100) = Fin (3602879701896397 / 72057594037927936)"
  by (rule fl64_evalI [where k = "- 5" and m = "7205759403792794"]) (simp_all add: pow2_def)

lemmas fl64_1_20 = fl64_5_100 [simplified]

end
