(* ===== verification/Control.thy ===== *)
theory Control
  imports Js_Number "HOL-Library.Multiset"
begin

text \<open>
  \<^verbatim>\<open>swamp/extensions/models/_lib/control.ts\<close>: the limits checked before a step, the assessment of a
  measurement against the goal (\<open>assessGoal\<close>) and of a candidate against the goal, the best
  tested version and the protected workloads (\<open>assessCandidate\<close>). Errors are pushed on one list
  in the source; here each part returns the errors it pushes and they are concatenated in the
  order of the pushes.
\<close>

section \<open>Limits\<close>

record limits =
  maxAttempts :: int
  maxRepairsPerAttempt :: int
  maxPiCalls :: int
  maxDurationMs :: int

record progress =
  pr_attemptsStarted :: int
  pr_repairsThisAttempt :: int
  pr_piCallsStarted :: int
  pr_elapsedMs :: int
  pr_activeStep :: bool

datatype next_step = NextAttempt | NextRepair | NextPi | NextCommand | NextFinish

datatype limit_action = Wait | WrapUp | Continue

definition integer_check :: "int \<Rightarrow> int \<Rightarrow> string \<Rightarrow> unit res" where
  "integer_check value minimum field =
     (if \<not> safe_integer value \<or> value < minimum
      then Inl (Error (field @ '' must be a safe integer >= '' @ dec_int minimum))
      else Inr ())"

text \<open>The reasons \<^verbatim>\<open>checkLimits\<close> pushes, in its order.\<close>

definition limit_reasons :: "limits \<Rightarrow> progress \<Rightarrow> next_step \<Rightarrow> string list" where
  "limit_reasons l p n =
     (if pr_elapsedMs p \<ge> maxDurationMs l then [''duration''] else []) @
     (if n = NextAttempt \<and> pr_attemptsStarted p \<ge> maxAttempts l then [''attempts''] else []) @
     (if n = NextRepair \<and> pr_repairsThisAttempt p \<ge> maxRepairsPerAttempt l
      then [''repairs''] else []) @
     (if n \<in> {NextAttempt, NextRepair, NextPi} \<and> pr_piCallsStarted p \<ge> maxPiCalls l
      then [''pi-calls''] else [])"

definition checkLimits :: "limits \<Rightarrow> progress \<Rightarrow> next_step \<Rightarrow> (limit_action \<times> string list) res" where
  "checkLimits l p n =
     bindR (integer_check (maxAttempts l) 1 ''maxAttempts'') (\<lambda>_.
     bindR (integer_check (maxRepairsPerAttempt l) 0 ''maxRepairsPerAttempt'') (\<lambda>_.
     bindR (integer_check (maxPiCalls l) 1 ''maxPiCalls'') (\<lambda>_.
     bindR (integer_check (maxDurationMs l) 1 ''maxDurationMs'') (\<lambda>_.
     bindR (integer_check (pr_attemptsStarted p) 0 ''attemptsStarted'') (\<lambda>_.
     bindR (integer_check (pr_repairsThisAttempt p) 0 ''repairsThisAttempt'') (\<lambda>_.
     bindR (integer_check (pr_piCallsStarted p) 0 ''piCallsStarted'') (\<lambda>_.
     bindR (integer_check (pr_elapsedMs p) 0 ''elapsedMs'') (\<lambda>_.
     if pr_activeStep p then Inr (Wait, [])
     else if n = NextFinish then Inr (Continue, [])
     else let reasons = limit_reasons l p n in
       Inr (if reasons \<noteq> [] then WrapUp else Continue, reasons)))))))))"

definition limits_ok :: "limits \<Rightarrow> bool" where
  "limits_ok l \<longleftrightarrow> z_positive (maxAttempts l) \<and> z_count (maxRepairsPerAttempt l)
     \<and> z_positive (maxPiCalls l) \<and> z_positive (maxDurationMs l)"

definition progress_ok :: "progress \<Rightarrow> bool" where
  "progress_ok p \<longleftrightarrow> z_count (pr_attemptsStarted p) \<and> z_count (pr_repairsThisAttempt p)
     \<and> z_count (pr_piCallsStarted p) \<and> z_count (pr_elapsedMs p)"

lemma integer_check_Inr [simp]:
  "integer_check v m f = Inr u \<longleftrightarrow> safe_integer v \<and> m \<le> v"
  by (auto simp: integer_check_def)

lemma checkLimits_Inr:
  "checkLimits l p n = Inr (a, rs) \<longleftrightarrow> limits_ok l \<and> progress_ok p \<and>
     (if pr_activeStep p then a = Wait \<and> rs = []
      else if n = NextFinish then a = Continue \<and> rs = []
      else rs = limit_reasons l p n \<and> a = (if rs \<noteq> [] then WrapUp else Continue))"
  by (auto simp: checkLimits_def res_simps limits_ok_def progress_ok_def z_positive_def z_count_def
      Let_def)

section \<open>Measurements and goals\<close>

record score =
  sc_workload :: string
  sc_adapter :: string
  sc_requestsPerSecond :: jsnum
  sc_valid :: bool

record measurement =
  me_kind :: string
  me_id :: string
  me_revision :: string
  me_protocolId :: string
  me_nativeSha256 :: "string option"
  me_scores :: "score list"

text \<open>\<open>BeatAll\<close> keeps the record's keys in their order.\<close>

datatype goal =
  ImproveBaseline jsnum "string list"
| BeatAll "(string \<times> string list) list"

record protection =
  po_workload :: string
  po_maxDecreaseFraction :: jsnum

datatype status = Valid | Invalid

record comparison =
  co_workload :: string
  co_initial :: "jsnum option"
  co_measured :: "jsnum option"
  co_target :: "jsnum option"
  co_met :: bool

record goal_result =
  gr_initialMeasurement :: string
  gr_measurement :: string
  gr_revision :: string
  gr_status :: status
  gr_targetMet :: "bool option"
  gr_comparisons :: "comparison list"
  gr_errors :: "string list"

definition goal_workloads :: "goal \<Rightarrow> string list" where
  "goal_workloads g = (case g of BeatAll cs \<Rightarrow> map fst cs | ImproveBaseline _ ws \<Rightarrow> ws)"

definition busker :: string where
  "busker = ''busker''"

text \<open>The test of a list of matching cells, shared by \<open>score\<close> and the protected scores.\<close>

definition usable_cells :: "score list \<Rightarrow> bool" where
  "usable_cells cells \<longleftrightarrow> length cells = 1 \<and> sc_valid (hd cells)
     \<and> js_finite (sc_requestsPerSecond (hd cells)) \<and> \<not> js_le (sc_requestsPerSecond (hd cells)) (Fin 0)"

definition matching_cells :: "measurement \<Rightarrow> string \<Rightarrow> string \<Rightarrow> score list" where
  "matching_cells m w a = filter (\<lambda>c. sc_workload c = w \<and> sc_adapter c = a) (me_scores m)"

definition unique_rate :: "measurement \<Rightarrow> string \<Rightarrow> string \<Rightarrow> jsnum option" where
  "unique_rate m w a = (let cells = matching_cells m w a in
     if usable_cells cells then Some (sc_requestsPerSecond (hd cells)) else None)"

text \<open>The inner function \<open>score\<close>: the errors it pushes and its result.\<close>

definition score_cell :: "measurement \<Rightarrow> string \<Rightarrow> string \<Rightarrow> string list \<times> jsnum option" where
  "score_cell m w a = (case unique_rate m w a of
     None \<Rightarrow> ([''Missing, duplicate, or invalid score: '' @ me_id m @ ''/'' @ w @ ''/'' @ a], None)
   | Some r \<Rightarrow> ([], Some r))"

definition competitors_ok :: "string list \<Rightarrow> bool" where
  "competitors_ok adapters \<longleftrightarrow> adapters \<noteq> [] \<and> distinct adapters
     \<and> \<not> list_ex (\<lambda>name. name = [] \<or> name = busker) adapters"

text \<open>The competitors \<^verbatim>\<open>goal.competitors[workload]\<close>.\<close>

definition competitors_of :: "(string \<times> string list) list \<Rightarrow> string \<Rightarrow> string list" where
  "competitors_of cs w = (case map_of cs w of None \<Rightarrow> [] | Some as \<Rightarrow> as)"

text \<open>The target of one workload, with the errors pushed while computing it.\<close>

definition workload_target ::
  "goal \<Rightarrow> measurement \<Rightarrow> string \<Rightarrow> jsnum option \<Rightarrow> string list \<times> jsnum option" where
  "workload_target g initial w baseline = (case g of
     ImproveBaseline multiplier _ \<Rightarrow>
       ([], case baseline of None \<Rightarrow> None | Some b \<Rightarrow> Some (js_mul b multiplier))
   | BeatAll cs \<Rightarrow>
       (let adapters = competitors_of cs w in
        if \<not> competitors_ok adapters then ([''Invalid competitor list: '' @ w], None)
        else let values = map (score_cell initial w) adapters in
          (concat (map fst values),
           if list_all (\<lambda>v. snd v \<noteq> None) values
           then Some (js_max (map (\<lambda>v. the (snd v)) values)) else None)))"

definition compare_workload ::
  "goal \<Rightarrow> measurement \<Rightarrow> measurement \<Rightarrow> string \<Rightarrow> string list \<times> comparison" where
  "compare_workload g initial current w =
     (let (e1, baseline) = score_cell initial w busker;
          (e2, measured) = score_cell current w busker;
          (e3, target0) = workload_target g initial w baseline;
          (e4, target) = (case target0 of
              None \<Rightarrow> ([], None)
            | Some t \<Rightarrow> if \<not> js_finite t then ([''Target exceeds numeric range: '' @ w], None)
                        else ([], Some t));
          met = (case (measured, target) of
              (Some m, Some t) \<Rightarrow> (case g of BeatAll _ \<Rightarrow> js_lt t m | ImproveBaseline _ _ \<Rightarrow> js_le t m)
            | _ \<Rightarrow> False)
      in (e1 @ e2 @ e3 @ e4,
          \<lparr>co_workload = w, co_initial = baseline, co_measured = measured, co_target = target,
           co_met = met\<rparr>))"

definition goal_errors :: "goal \<Rightarrow> measurement \<Rightarrow> measurement \<Rightarrow> string list" where
  "goal_errors g initial current =
     (let ws = goal_workloads g in
     (if me_kind initial \<noteq> ''benchmark'' \<or> me_kind current \<noteq> ''benchmark''
      then [''Not a benchmark''] else []) @
     (if me_id initial = [] \<or> me_id current = [] \<or> me_revision initial = [] \<or> me_revision current = []
      then [''Missing measurement identity''] else []) @
     (if me_protocolId initial = [] \<or> me_protocolId initial \<noteq> me_protocolId current
      then [''Measurement protocols differ''] else []) @
     (if ws = [] \<or> \<not> distinct ws \<or> list_ex (\<lambda>name. name = []) ws
      then [''Workloads must be nonempty and unique''] else []) @
     (case g of
        ImproveBaseline m _ \<Rightarrow>
          if \<not> js_finite m \<or> js_le m (Fin 1) then [''Improvement multiplier must exceed one''] else []
      | BeatAll _ \<Rightarrow> []))"

definition assessGoal :: "goal \<Rightarrow> measurement \<Rightarrow> measurement \<Rightarrow> goal_result" where
  "assessGoal g initial current =
     (let compared = map (compare_workload g initial current) (goal_workloads g);
          errors = goal_errors g initial current @ concat (map fst compared);
          comparisons = map snd compared
      in \<lparr>gr_initialMeasurement = me_id initial, gr_measurement = me_id current,
          gr_revision = me_revision current,
          gr_status = (if errors \<noteq> [] then Invalid else Valid),
          gr_targetMet = (if errors \<noteq> [] then None else Some (list_all co_met comparisons)),
          gr_comparisons = comparisons, gr_errors = errors\<rparr>)"

section \<open>Candidates\<close>

record protection_check =
  pc_workload :: string
  pc_initial :: "jsnum option"
  pc_measured :: "jsnum option"
  pc_minimum :: "jsnum option"
  pc_passed :: bool

record improvement =
  im_workload :: string
  im_best :: "jsnum option"
  im_measured :: "jsnum option"
  im_nondecreasing :: bool
  im_increased :: bool
  im_meetsFloor :: bool

record candidate_result = goal_result +
  cr_improved :: "bool option"
  cr_protectedPerformance :: "bool option"
  cr_bestMeasurement :: string
  cr_protections :: "protection_check list"
  cr_improvements :: "improvement list"

definition fraction_ok :: "jsnum \<Rightarrow> bool" where
  "fraction_ok f \<longleftrightarrow> js_finite f \<and> \<not> js_lt f (Fin 0) \<and> \<not> js_le (Fin 1) f"

definition protected_score :: "string \<Rightarrow> measurement \<Rightarrow> string list \<times> jsnum option" where
  "protected_score w m = (case unique_rate m w busker of
     None \<Rightarrow> ([''Missing, duplicate, or invalid protected score: '' @ me_id m @ ''/'' @ w], None)
   | Some r \<Rightarrow> ([], Some r))"

definition check_protection ::
  "measurement \<Rightarrow> measurement \<Rightarrow> protection \<Rightarrow> string list \<times> protection_check" where
  "check_protection initial current p =
     (let w = po_workload p; f = po_maxDecreaseFraction p;
          e1 = (if w = [] \<or> \<not> fraction_ok f
                then [''Protected workloads require a decrease fraction from zero up to, but not including, one'']
                else []);
          (e2, baseline) = protected_score w initial;
          (e3, measured) = protected_score w current;
          minimum = (case baseline of None \<Rightarrow> None
            | Some b \<Rightarrow> if fraction_ok f then Some (js_mul b (js_sub (Fin 1) f)) else None)
      in (e1 @ e2 @ e3,
          \<lparr>pc_workload = w, pc_initial = baseline, pc_measured = measured, pc_minimum = minimum,
           pc_passed = (case (minimum, measured) of (Some n, Some m) \<Rightarrow> js_le n m | _ \<Rightarrow> False)\<rparr>))"

definition measured_of :: "comparison list \<Rightarrow> string \<Rightarrow> jsnum option" where
  "measured_of cs w = (case find (\<lambda>c. co_workload c = w) cs of None \<Rightarrow> None | Some c \<Rightarrow> co_measured c)"

definition check_improvement ::
  "comparison list \<Rightarrow> comparison list \<Rightarrow> jsnum \<Rightarrow> string \<Rightarrow> improvement" where
  "check_improvement best_cs goal_cs fraction w =
     (let prior = measured_of best_cs w; measured = measured_of goal_cs w;
          holds = (\<lambda>r. case (prior, measured) of (Some p, Some m) \<Rightarrow> r p m | _ \<Rightarrow> False)
      in \<lparr>im_workload = w, im_best = prior, im_measured = measured,
          im_nondecreasing = holds (\<lambda>p m. js_le p m),
          im_increased = holds (\<lambda>p m. js_lt p m),
          im_meetsFloor = holds (\<lambda>p m. js_lt (js_mul p (js_add (Fin 1) fraction)) m)\<rparr>)"

definition candidate_errors :: "protection list \<Rightarrow> jsnum \<Rightarrow> string list" where
  "candidate_errors protections fraction =
     (if \<not> js_finite fraction \<or> js_lt fraction (fl64 (3 / 100)) \<or> js_lt (fl64 (5 / 100)) fraction
      then [''Improvement fraction must be between 3% and 5%''] else []) @
     (if \<not> distinct (map po_workload protections) then [''Duplicate protected workloads''] else [])"

definition assessCandidate ::
  "goal \<Rightarrow> protection list \<Rightarrow> measurement \<Rightarrow> measurement \<Rightarrow> measurement \<Rightarrow> jsnum \<Rightarrow> candidate_result" where
  "assessCandidate g protections initial best current fraction =
     (let goalResult = assessGoal g initial current;
          bestResult = assessGoal g initial best;
          checked = map (check_protection initial current) protections;
          errors = gr_errors goalResult @ gr_errors bestResult
            @ candidate_errors protections fraction @ concat (map fst checked);
          checks = map snd checked;
          improvements = map (check_improvement (gr_comparisons bestResult)
              (gr_comparisons goalResult) fraction)
            (map co_workload (gr_comparisons goalResult));
          protectedPerformance = list_all pc_passed checks;
          meetsFloor = list_all im_meetsFloor improvements
      in \<lparr>gr_initialMeasurement = gr_initialMeasurement goalResult,
          gr_measurement = gr_measurement goalResult,
          gr_revision = gr_revision goalResult,
          gr_status = (if errors \<noteq> [] then Invalid else Valid),
          gr_targetMet = (if errors \<noteq> [] then None
             else Some (gr_targetMet goalResult = Some True \<and> protectedPerformance \<and> meetsFloor)),
          gr_comparisons = gr_comparisons goalResult,
          gr_errors = errors,
          cr_improved = (if errors \<noteq> [] then None else Some (protectedPerformance \<and> meetsFloor)),
          cr_protectedPerformance = (if errors \<noteq> [] then None else Some protectedPerformance),
          cr_bestMeasurement = me_id best,
          cr_protections = checks,
          cr_improvements = improvements\<rparr>)"

section \<open>Rates that count\<close>

lemma unique_rate_Some:
  "unique_rate m w a = Some r \<Longrightarrow> \<exists>x. r = Fin x \<and> 0 < x \<and>
     (\<exists>s \<in> set (me_scores m). sc_requestsPerSecond s = r)"
proof -
  assume "unique_rate m w a = Some r"
  then have u: "usable_cells (matching_cells m w a)"
    and r: "r = sc_requestsPerSecond (hd (matching_cells m w a))"
    by (auto simp: unique_rate_def Let_def split: if_splits)
  then have "matching_cells m w a \<noteq> []" by (auto simp: usable_cells_def)
  then have "hd (matching_cells m w a) \<in> set (me_scores m)"
    using hd_in_set [of "matching_cells m w a"] by (simp add: matching_cells_def)
  moreover from u r have "js_finite r" "\<not> js_le r (Fin 0)" by (simp_all add: usable_cells_def)
  ultimately show ?thesis using r by (cases r) (simp, simp, simp, metis js_le_Fin not_le)
qed

lemma unique_rate_cong_mset:
  assumes "mset (me_scores m) = mset (me_scores m')"
  shows "unique_rate m w a = unique_rate m' w a"
proof -
  have "mset (matching_cells m w a) = mset (matching_cells m' w a)"
    by (simp add: matching_cells_def assms)
  then have "length (matching_cells m w a) = length (matching_cells m' w a)"
    and "length (matching_cells m w a) = 1 \<Longrightarrow> matching_cells m w a = matching_cells m' w a"
    by (auto dest: mset_eq_length simp: length_Suc_conv)
  then show ?thesis by (auto simp: unique_rate_def Let_def usable_cells_def)
qed

definition cell_errors :: "measurement \<Rightarrow> string \<Rightarrow> string \<Rightarrow> string list" where
  "cell_errors m w a = fst (score_cell m w a)"

definition protected_errors :: "string \<Rightarrow> measurement \<Rightarrow> string list" where
  "protected_errors w m = fst (protected_score w m)"

lemma cell_errors_Nil [simp]: "cell_errors m w a = [] \<longleftrightarrow> unique_rate m w a \<noteq> None"
  by (auto simp: cell_errors_def score_cell_def split: option.splits)

lemma protected_errors_Nil [simp]: "protected_errors w m = [] \<longleftrightarrow> unique_rate m w busker \<noteq> None"
  by (auto simp: protected_errors_def protected_score_def split: option.splits)

lemma score_cell_simps:
  "score_cell m w a = (cell_errors m w a, unique_rate m w a)"
  by (auto simp: cell_errors_def score_cell_def split: option.splits)

lemma protected_score_simps:
  "protected_score w m = (protected_errors w m, unique_rate m w busker)"
  by (auto simp: protected_errors_def protected_score_def split: option.splits)

text \<open>The same measurement with its cells listed in another order.\<close>

definition reordered :: "measurement \<Rightarrow> measurement \<Rightarrow> bool" where
  "reordered m' m \<longleftrightarrow> mset (me_scores m') = mset (me_scores m) \<and>
     m' = m\<lparr>me_scores := me_scores m'\<rparr>"

lemma reordered_fields:
  assumes "reordered m' m"
  shows "me_kind m' = me_kind m" "me_id m' = me_id m" "me_revision m' = me_revision m"
    "me_protocolId m' = me_protocolId m"
proof -
  from assms have "m' = m\<lparr>me_scores := me_scores m'\<rparr>" by (simp add: reordered_def)
  then have "f m' = f (m\<lparr>me_scores := me_scores m'\<rparr>)" for f :: "measurement \<Rightarrow> string" by simp
  from this [of me_kind] this [of me_id] this [of me_revision] this [of me_protocolId]
  show "me_kind m' = me_kind m" "me_id m' = me_id m" "me_revision m' = me_revision m"
    "me_protocolId m' = me_protocolId m" by simp_all
qed

lemma reordered_cells:
  assumes "reordered m' m"
  shows "score_cell m' = score_cell m" "protected_score w m' = protected_score w m"
    "unique_rate m' = unique_rate m"
proof -
  have rate: "unique_rate m' w a = unique_rate m w a" for w a
    using assms by (intro unique_rate_cong_mset) (simp add: reordered_def)
  show "score_cell m' = score_cell m" "protected_score w m' = protected_score w m"
    "unique_rate m' = unique_rate m"
    by (auto simp: fun_eq_iff score_cell_def protected_score_def rate reordered_fields [OF assms]
        split: option.split)
qed

section \<open>The verdict on a goal\<close>

text \<open>What makes one workload comparable, and what meets the goal on it.\<close>

definition workload_comparable :: "goal \<Rightarrow> measurement \<Rightarrow> measurement \<Rightarrow> string \<Rightarrow> bool" where
  "workload_comparable g initial current w \<longleftrightarrow>
     unique_rate initial w busker \<noteq> None \<and> unique_rate current w busker \<noteq> None \<and>
     (case g of
        ImproveBaseline k _ \<Rightarrow> js_finite (js_mul (the (unique_rate initial w busker)) k)
      | BeatAll cs \<Rightarrow> competitors_ok (competitors_of cs w) \<and>
          list_all (\<lambda>a. unique_rate initial w a \<noteq> None) (competitors_of cs w))"

definition workload_met :: "goal \<Rightarrow> measurement \<Rightarrow> measurement \<Rightarrow> string \<Rightarrow> bool" where
  "workload_met g initial current w \<longleftrightarrow>
     (case g of
        ImproveBaseline k _ \<Rightarrow>
          js_le (js_mul (the (unique_rate initial w busker)) k) (the (unique_rate current w busker))
      | BeatAll cs \<Rightarrow> list_all (\<lambda>a. js_lt (the (unique_rate initial w a))
          (the (unique_rate current w busker))) (competitors_of cs w))"

lemma beat_all_target:
  assumes "competitors_ok as" "list_all (\<lambda>a. unique_rate i w a \<noteq> None) as"
  shows "\<exists>y. js_max (map (\<lambda>a. the (unique_rate i w a)) as) = Fin y \<and>
    (\<forall>b. y < b \<longleftrightarrow> list_all (\<lambda>a. js_lt (the (unique_rate i w a)) (Fin b)) as)"
proof -
  have "\<exists>f. \<forall>a \<in> set as. unique_rate i w a = Some (Fin (f a))"
    using assms(2) unique_rate_Some by (intro bchoice) (fastforce simp: list_all_iff)
  then obtain f where f: "\<forall>a \<in> set as. unique_rate i w a = Some (Fin (f a))" ..
  then have eq: "map (\<lambda>a. the (unique_rate i w a)) as = map Fin (map f as)"
    by simp
  have "map f as \<noteq> []" using assms(1) by (simp add: competitors_ok_def)
  from js_max_Fin [OF this] f show ?thesis by (auto simp: eq list_all_iff)
qed

lemma concat_map_Nil: "concat (map f xs) = [] \<longleftrightarrow> list_all (\<lambda>x. f x = []) xs"
  by (auto simp: list_all_iff)

lemma compare_workload_errors:
  "fst (compare_workload g i c w) = [] \<longleftrightarrow> workload_comparable g i c w"
proof (cases g)
  case (ImproveBaseline k ws)
  then show ?thesis
    by (auto simp: compare_workload_def workload_comparable_def workload_target_def Let_def
        score_cell_def split: option.splits if_splits prod.splits)
next
  case (BeatAll cs)
  let ?as = "competitors_of cs w"
  have t: "workload_target g i w b =
     (if \<not> competitors_ok ?as then ([''Invalid competitor list: '' @ w], None)
      else (concat (map (\<lambda>a. cell_errors i w a) ?as),
        if list_all (\<lambda>a. unique_rate i w a \<noteq> None) ?as
        then Some (js_max (map (\<lambda>a. the (unique_rate i w a)) ?as)) else None))" for b
    by (auto simp: workload_target_def BeatAll Let_def list_all_iff score_cell_simps comp_def)
  show ?thesis
    using beat_all_target [of ?as i w]
    by (auto simp: compare_workload_def workload_comparable_def t [unfolded BeatAll] Let_def BeatAll
        score_cell_simps concat_map_Nil list_all_iff split: prod.splits option.splits if_splits)
qed

lemma compare_workload_fields [simp]:
  "co_workload (snd (compare_workload g i c w)) = w"
  "co_initial (snd (compare_workload g i c w)) = unique_rate i w busker"
  "co_measured (snd (compare_workload g i c w)) = unique_rate c w busker"
  by (simp_all add: compare_workload_def Let_def score_cell_simps split: prod.splits)

lemma compare_workload_met:
  assumes "workload_comparable g i c w"
  shows "co_met (snd (compare_workload g i c w)) \<longleftrightarrow> workload_met g i c w"
proof (cases g)
  case (ImproveBaseline k ws)
  with assms show ?thesis
    by (auto simp: compare_workload_def workload_comparable_def workload_met_def
        workload_target_def Let_def score_cell_simps split: option.splits if_splits prod.splits)
next
  case (BeatAll cs)
  let ?as = "competitors_of cs w"
  from assms BeatAll have ok: "competitors_ok ?as" "list_all (\<lambda>a. unique_rate i w a \<noteq> None) ?as"
    and "unique_rate c w busker \<noteq> None"
    by (simp_all add: workload_comparable_def)
  then obtain b where b: "unique_rate c w busker = Some (Fin b)" using unique_rate_Some by fast
  obtain y where y: "js_max (map (\<lambda>a. the (unique_rate i w a)) ?as) = Fin y"
    "y < b \<longleftrightarrow> list_all (\<lambda>a. js_lt (the (unique_rate i w a)) (Fin b)) ?as"
    using beat_all_target [OF ok] by blast
  have "workload_target g i w x = (concat (map (\<lambda>a. cell_errors i w a) ?as), Some (Fin y))" for x
    using ok y(1) by (auto simp: workload_target_def BeatAll Let_def list_all_iff score_cell_simps
        comp_def)
  then show ?thesis
    using y(2) b by (simp add: compare_workload_def workload_met_def BeatAll Let_def
        score_cell_simps)
qed

lemma assessGoal_errors:
  "gr_errors (assessGoal g i c) = [] \<longleftrightarrow>
     goal_errors g i c = [] \<and> list_all (workload_comparable g i c) (goal_workloads g)"
  by (simp add: assessGoal_def Let_def concat_map_Nil list_all_iff compare_workload_errors)

lemma assessGoal_status:
  "gr_status (assessGoal g i c) = Valid \<longleftrightarrow> gr_errors (assessGoal g i c) = []"
  by (simp add: assessGoal_def Let_def)

lemma assessGoal_targetMet:
  "gr_targetMet (assessGoal g i c) = Some True \<longleftrightarrow>
     gr_errors (assessGoal g i c) = [] \<and> list_all (workload_met g i c) (goal_workloads g)"
  using assessGoal_errors [of g i c]
  by (auto simp: assessGoal_def Let_def list_all_iff compare_workload_met concat_map_Nil)

lemma measured_of_assessGoal:
  "measured_of (gr_comparisons (assessGoal g i c)) w =
     (if w \<in> set (goal_workloads g) then unique_rate c w busker else None)"
proof -
  have "measured_of (map (\<lambda>w. snd (compare_workload g i c w)) ws) w =
     (if w \<in> set ws then unique_rate c w busker else None)" for ws
    by (induction ws) (auto simp: measured_of_def)
  then show ?thesis by (simp add: assessGoal_def Let_def comp_def)
qed

section \<open>The verdict on a candidate\<close>

lemma check_improvement_floor:
  "im_meetsFloor (check_improvement bc gc f w) \<longleftrightarrow>
     (\<exists>p m. measured_of bc w = Some p \<and> measured_of gc w = Some m \<and>
        js_lt (js_mul p (js_add (Fin 1) f)) m)"
  by (simp add: check_improvement_def Let_def split: option.splits)

lemma check_protection_passed:
  "pc_passed (snd (check_protection i c p)) \<longleftrightarrow> fraction_ok (po_maxDecreaseFraction p) \<and>
     (\<exists>a b. unique_rate i (po_workload p) busker = Some a \<and>
        unique_rate c (po_workload p) busker = Some b \<and>
        js_le (js_mul a (js_sub (Fin 1) (po_maxDecreaseFraction p))) b)"
  by (auto simp: check_protection_def Let_def protected_score_simps
      split: prod.splits option.splits if_splits)

lemma candidate_comparison_workloads:
  "map co_workload (gr_comparisons (assessGoal g i c)) = goal_workloads g"
  by (simp add: assessGoal_def Let_def comp_def)

lemma assessCandidate_verdict:
  "cr_improved (assessCandidate g ps i b c f) =
     (let r = assessCandidate g ps i b c f in
      if gr_errors r \<noteq> [] then None
      else Some (list_all pc_passed (cr_protections r) \<and> list_all im_meetsFloor (cr_improvements r)))"
  "cr_protections (assessCandidate g ps i b c f) = map (\<lambda>p. snd (check_protection i c p)) ps"
  "cr_improvements (assessCandidate g ps i b c f) =
     map (check_improvement (gr_comparisons (assessGoal g i b)) (gr_comparisons (assessGoal g i c)) f)
       (goal_workloads g)"
  by (simp_all add: assessCandidate_def Let_def comp_def
      candidate_comparison_workloads [of g i c, symmetric])

lemma assessCandidate_improved:
  "cr_improved (assessCandidate g ps i b c f) = Some True \<longleftrightarrow>
     gr_errors (assessCandidate g ps i b c f) = [] \<and>
     list_all (\<lambda>p. pc_passed (snd (check_protection i c p))) ps \<and>
     list_all (\<lambda>w. \<exists>x y. unique_rate b w busker = Some x \<and> unique_rate c w busker = Some y \<and>
        js_lt (js_mul x (js_add (Fin 1) f)) y) (goal_workloads g)"
  unfolding assessCandidate_verdict(1) assessCandidate_verdict(2,3) Let_def
  by (simp add: list_all_iff check_improvement_floor measured_of_assessGoal)

lemma assessCandidate_errors:
  "gr_errors (assessCandidate g ps i b c f) = [] \<longleftrightarrow>
     gr_errors (assessGoal g i c) = [] \<and> gr_errors (assessGoal g i b) = [] \<and>
     candidate_errors ps f = [] \<and> list_all (\<lambda>p. fst (check_protection i c p) = []) ps"
  by (simp add: assessCandidate_def Let_def concat_map_Nil list_all_iff)

lemma fraction_bounds:
  assumes "candidate_errors ps f = []"
  shows "\<exists>x. f = Fin x \<and> 0 < x \<and> x \<le> 1"
proof -
  from assms have "js_finite f" "\<not> js_lt f (fl64 (3 / 100))" "\<not> js_lt (fl64 (5 / 100)) f"
    by (auto simp: candidate_errors_def split: if_splits)
  then show ?thesis by (cases f) (simp_all add: fl64_3_100 fl64_1_20)
qed

lemma scaled_prior_below:
  assumes "is_double (Fin p)" "0 < p" "0 \<le> f" "f \<le> 1"
    "js_lt (js_mul (Fin p) (js_add (Fin 1) (Fin f))) (Fin m)"
  shows "p < m"
proof -
  obtain g where g: "js_add (Fin 1) (Fin f) = Fin g" "1 \<le> g"
    using js_one_plus_ge [OF assms(3,4)] by blast
  have "js_le (Fin p) (js_mul (Fin p) (Fin g))"
    using assms g by (intro js_mul_ge) simp_all
  then have "js_lt (Fin p) (Fin m)"
    using assms(5) unfolding g(1) by (rule js_le_lt_trans)
  then show ?thesis by simp
qed

text \<open>The minimum improvement cannot round to nothing.\<close>

lemma improved_beats:
  assumes "cr_improved (assessCandidate g ps initial best current f) = Some True"
    and "\<forall>s \<in> set (me_scores best). is_double (sc_requestsPerSecond s)"
    and "w \<in> set (goal_workloads g)"
  shows "\<exists>x y. unique_rate best w busker = Some (Fin x) \<and> unique_rate current w busker = Some (Fin y)
    \<and> 0 < x \<and> x < y"
proof -
  from assms(1,3) obtain p m where r: "unique_rate best w busker = Some p"
      "unique_rate current w busker = Some m" "js_lt (js_mul p (js_add (Fin 1) f)) m"
    and e: "candidate_errors ps f = []"
    by (auto simp: assessCandidate_improved assessCandidate_errors list_all_iff)
  obtain x where x: "p = Fin x" "0 < x" "is_double p"
    using unique_rate_Some [OF r(1)] assms(2) by fastforce
  obtain y where y: "m = Fin y" using unique_rate_Some [OF r(2)] by blast
  obtain z where z: "f = Fin z" "0 < z" "z \<le> 1" using fraction_bounds [OF e] by blast
  have "x < y" using scaled_prior_below [of x z y] x y z r(3) by simp
  with r x y show ?thesis by blast
qed

section \<open>Properties\<close>

text \<open>Concrete measurements for the witnesses: one Busker rate for H1 and one for TLS H2.\<close>

definition sample_measurement :: "string \<Rightarrow> rat \<Rightarrow> rat \<Rightarrow> measurement" where
  "sample_measurement ident h1 h2 =
     \<lparr>me_kind = ''benchmark'', me_id = ident, me_revision = ''r'', me_protocolId = ''p'',
      me_nativeSha256 = None,
      me_scores =
        [\<lparr>sc_workload = ''h1'', sc_adapter = busker, sc_requestsPerSecond = Fin h1, sc_valid = True\<rparr>,
         \<lparr>sc_workload = ''tls-h2'', sc_adapter = busker, sc_requestsPerSecond = Fin h2,
          sc_valid = True\<rparr>]\<rparr>"

definition sample_protection :: protection where
  "sample_protection = \<lparr>po_workload = ''tls-h2'', po_maxDecreaseFraction = Fin (1 / 4)\<rparr>"

lemmas sample_defs = sample_measurement_def sample_protection_def

lemmas control_defs = assessGoal_errors assessCandidate_errors goal_errors_def candidate_errors_def
  goal_workloads_def workload_comparable_def workload_met_def unique_rate_def matching_cells_def
  usable_cells_def check_protection_def protected_score_simps fraction_ok_def busker_def

lemma sample_rate [simp]:
  "unique_rate (sample_measurement n a b) w busker =
     (if w = ''h1'' \<and> 0 < a then Some (Fin a) else if w = ''tls-h2'' \<and> 0 < b then Some (Fin b)
      else None)"
  by (auto simp: sample_measurement_def control_defs)

lemma fl64_of_dyadic:
  "\<bar>m\<bar> < 2 ^ 53 \<Longrightarrow> 0 \<le> k \<Longrightarrow> k < 900 \<Longrightarrow>
     fl64 (of_int m / 2 ^ nat k) = Fin (of_int m / 2 ^ nat k)"
proof -
  assume m: "\<bar>m\<bar> < 2 ^ 53" and k: "0 \<le> k" "k < 900"
  have eq: "of_int m / 2 ^ nat k = of_int m * pow2 (- k)"
    using k by (cases "k = 0") (simp_all add: pow2_def)
  have "\<bar>of_int m :: rat\<bar> < 2 ^ 53"
    using m by (metis of_int_abs of_int_less_iff of_int_numeral of_int_power)
  moreover have "\<bar>of_int m / 2 ^ nat k :: rat\<bar> \<le> \<bar>of_int m\<bar>"
    by (simp add: divide_le_eq mult_le_cancel_left1)
  ultimately have "\<bar>of_int m / 2 ^ nat k :: rat\<bar> < 2 ^ 1000" by simp
  moreover have "rnd64 (of_int m / 2 ^ nat k) = of_int m / 2 ^ nat k"
    unfolding eq using m k by (intro rnd64_dyadic) simp_all
  ultimately show ?thesis by (intro fl64_exactI) simp_all
qed

text \<open>
  The limit check lets a step start exactly when the limits and counters are well formed,
  no step is active and either the step is a finishing one or the time and every counter it
  would use are below their limits; otherwise it waits, wraps up, or throws.
\<close>

theorem checkLimits_continue_iff:
  "(\<exists>rs. checkLimits l p n = Inr (Continue, rs)) \<longleftrightarrow>
     limits_ok l \<and> progress_ok p \<and> \<not> pr_activeStep p \<and>
     (n = NextFinish \<or>
       pr_elapsedMs p < maxDurationMs l \<and>
       (n \<noteq> NextAttempt \<or> pr_attemptsStarted p < maxAttempts l) \<and>
       (n \<noteq> NextRepair \<or> pr_repairsThisAttempt p < maxRepairsPerAttempt l) \<and>
       (n \<notin> {NextAttempt, NextRepair, NextPi} \<or> pr_piCallsStarted p < maxPiCalls l))"
  by (auto simp: checkLimits_Inr limit_reasons_def)

theorem checkLimits_continue_iff_witness:
  "\<exists>rs. checkLimits \<lparr>maxAttempts = 2, maxRepairsPerAttempt = 1, maxPiCalls = 10, maxDurationMs = 1000\<rparr>
     \<lparr>pr_attemptsStarted = 1, pr_repairsThisAttempt = 0, pr_piCallsStarted = 9, pr_elapsedMs = 999,
      pr_activeStep = False\<rparr> NextRepair = Inr (Continue, rs)"
  unfolding checkLimits_continue_iff
  by (simp add: limits_ok_def progress_ok_def z_positive_def z_count_def safe_integer_def
      max_safe_integer_def)

text \<open>
  C23: the goal is reported met exactly when the comparison has no error and, on every selected
  workload, Busker's current rate reaches the initial rate times the multiplier, or exceeds the
  initial rate of every listed competitor.
\<close>

theorem goal_met_iff:
  "gr_targetMet (assessGoal g initial current) = Some True \<longleftrightarrow>
     goal_errors g initial current = [] \<and>
     (\<forall>w \<in> set (goal_workloads g).
        workload_comparable g initial current w \<and> workload_met g initial current w)"
  by (auto simp: assessGoal_targetMet assessGoal_errors list_all_iff)

theorem goal_met_iff_witness:
  "gr_targetMet (assessGoal (ImproveBaseline (Fin (3 / 2)) [''h1''])
     (sample_measurement ''a'' 1000 100) (sample_measurement ''b'' 1500 100)) = Some True"
proof -
  have "fl64 1500 = Fin 1500" using fl64_of_dyadic [of 1500 0] by simp
  then show ?thesis
    unfolding goal_met_iff
    by (simp add: goal_errors_def goal_workloads_def workload_comparable_def workload_met_def)
      (simp add: sample_measurement_def)
qed

text \<open>
  C3: a candidate reported as improved is strictly faster than the best tested version on every
  selected workload, also after the double rounding of the required minimum: the minimum
  improvement can never round to nothing.
\<close>

theorem improved_beats_best:
  assumes "cr_improved (assessCandidate g ps initial best current f) = Some True"
    and "\<forall>s \<in> set (me_scores best). is_double (sc_requestsPerSecond s)"
    and "w \<in> set (goal_workloads g)"
  shows "\<exists>x y. unique_rate best w busker = Some (Fin x) \<and> unique_rate current w busker = Some (Fin y)
    \<and> 0 < x \<and> x < y"
  using assms by (rule improved_beats)

text \<open>
  C24: an improved candidate keeps every protected workload above its floor, and the floor is the
  declared fraction of the initial measurement, never of a later one: losses cannot add up over
  accepted candidates.
\<close>

theorem improved_keeps_initial_floor:
  assumes "cr_improved (assessCandidate g ps initial best current f) = Some True"
    and "p \<in> set ps"
  shows "\<exists>a b. unique_rate initial (po_workload p) busker = Some a
    \<and> unique_rate current (po_workload p) busker = Some b
    \<and> js_le (js_mul a (js_sub (Fin 1) (po_maxDecreaseFraction p))) b"
  using assms by (auto simp: assessCandidate_improved list_all_iff check_protection_passed)

text \<open>
  The verdict does not depend on the order in which the saved cells of the measurements are
  listed.
\<close>

theorem verdict_ignores_cell_order:
  assumes "reordered i' i" "reordered b' b" "reordered c' c"
  shows "assessCandidate g ps i' b' c' f = assessCandidate g ps i b c f"
proof -
  note cells = reordered_cells [OF assms(1)] reordered_cells [OF assms(2)] reordered_cells [OF assms(3)]
  note meta = reordered_fields [OF assms(1)] reordered_fields [OF assms(2)] reordered_fields [OF assms(3)]
  have "workload_target g i' = workload_target g i"
    by (auto simp: fun_eq_iff workload_target_def cells Let_def split: goal.split)
  then have "compare_workload g i' c' = compare_workload g i c"
    "compare_workload g i' b' = compare_workload g i b"
    by (simp_all add: fun_eq_iff compare_workload_def cells)
  then have "assessGoal g i' c' = assessGoal g i c" "assessGoal g i' b' = assessGoal g i b"
    by (auto simp: assessGoal_def goal_errors_def meta)
  moreover have "check_protection i' c' = check_protection i c"
    by (simp add: fun_eq_iff check_protection_def cells)
  ultimately show ?thesis by (simp add: assessCandidate_def meta)
qed

text \<open>Witnesses for the three properties of an improved candidate.\<close>

lemma sample_improved:
  "cr_improved (assessCandidate (ImproveBaseline (Fin (3 / 2)) [''h1'']) [sample_protection]
     (sample_measurement ''a'' 1000 100) (sample_measurement ''a'' 1000 100)
     (sample_measurement ''b'' 1200 80) (fl64 (5 / 100))) = Some True"
proof -
  have n: "fl64 1500 = Fin 1500" "fl64 (3 / 4) = Fin (3 / 4)" "fl64 75 = Fin 75"
    using fl64_of_dyadic [of 1500 0] fl64_of_dyadic [of 3 2] fl64_of_dyadic [of 75 0] by simp_all
  have f: "fl64 (75660473739824333 / 72057594037927936) = Fin (4728779608739021 / 4503599627370496)"
    by (rule fl64_evalI [where k = 0 and m = 4728779608739021]) (simp_all add: pow2_def)
  have t: "fl64 (591097451092377625 / 562949953421312) = Fin 1050"
    by (rule fl64_evalI [where k = 10 and m = 4617948836659200]) (simp_all add: pow2_def)
  have g: "goal_errors (ImproveBaseline (Fin (3 / 2)) [''h1'']) (sample_measurement ''a'' 1000 100) m = []"
    if "m = sample_measurement ''a'' 1000 100 \<or> m = sample_measurement ''b'' 1200 80" for m
    using that by (auto simp: goal_errors_def goal_workloads_def sample_measurement_def)
  show ?thesis
    unfolding assessCandidate_improved assessCandidate_errors assessGoal_errors
    by (simp add: g candidate_errors_def fl64_1_20 fl64_3_100 workload_comparable_def
        goal_workloads_def check_protection_def Let_def protected_score_simps sample_protection_def
        fraction_ok_def js_sub_def n f t)
qed

theorem improved_beats_best_witness:
  "\<exists>x y. unique_rate (sample_measurement ''a'' 1000 100) ''h1'' busker = Some (Fin x)
    \<and> unique_rate (sample_measurement ''b'' 1200 80) ''h1'' busker = Some (Fin y) \<and> 0 < x \<and> x < y"
proof (rule improved_beats_best [OF sample_improved])
  show "\<forall>s \<in> set (me_scores (sample_measurement ''a'' 1000 100)). is_double (sc_requestsPerSecond s)"
    using rnd64_of_int [of 1000] rnd64_of_int [of 100]
    by (simp add: sample_measurement_def) (simp add: pow2_def)
qed (simp add: goal_workloads_def)

theorem improved_keeps_initial_floor_witness:
  "\<exists>a b. unique_rate (sample_measurement ''a'' 1000 100) ''tls-h2'' busker = Some a
    \<and> unique_rate (sample_measurement ''b'' 1200 80) ''tls-h2'' busker = Some b
    \<and> js_le (js_mul a (js_sub (Fin 1) (Fin (1 / 4)))) b"
  using improved_keeps_initial_floor [OF sample_improved, of sample_protection]
  by (simp add: sample_protection_def)

theorem verdict_ignores_cell_order_witness:
  "assessCandidate (ImproveBaseline (Fin (3 / 2)) [''h1'']) [] (sample_measurement ''a'' 1000 100)
     (sample_measurement ''a'' 1000 100)
     ((sample_measurement ''b'' 1200 80)
        \<lparr>me_scores := rev (me_scores (sample_measurement ''b'' 1200 80))\<rparr>) (Fin (1 / 25)) =
   assessCandidate (ImproveBaseline (Fin (3 / 2)) [''h1'']) [] (sample_measurement ''a'' 1000 100)
     (sample_measurement ''a'' 1000 100) (sample_measurement ''b'' 1200 80) (Fin (1 / 25))"
  by (rule verdict_ignores_cell_order) (simp_all add: reordered_def)

end
