(* ===== verification/Run_State.thy ===== *)
theory Run_State
  imports Control
begin

text \<open>
  \<^verbatim>\<open>swamp/extensions/models/_lib/state.ts\<close>: the saved progress of a run and its two transitions.
  \<open>beginStep\<close> reserves the next step (or wraps the run up when a limit is reached) and
  \<open>finishStep\<close> applies a step's outcome. Both throw on a misuse; the error is an \<open>Inl\<close>. The
  second half of the theory holds the lemmas on single transitions the other components use.
\<close>

section \<open>Data\<close>

datatype phase =
  PPrepare | PBaseline | PStartAttempt | PProfile | PAnalyze | PResearch | PImplement | PTest
| PRepair | PMeasure | PReview | PKeep | PDiscard | PFinish | PDone

datatype profile_event = Ctimer | Wall | Alloc | Jfr

text \<open>\<^verbatim>\<open>OutputReference\<close> of \<^verbatim>\<open>inference.ts\<close>: a saved resource and its version.\<close>

record output_ref =
  or_name :: string
  or_version :: int

record run_state =
  st_runId :: string
  st_phase :: phase
  st_initialRevision :: string
  st_bestRevision :: string
  st_workingRevision :: string
  st_attemptsStarted :: int
  st_repairsThisAttempt :: int
  st_piCallsStarted :: int
  st_elapsedMs :: int
  st_sequence :: int
  st_activeStep :: "int option"
  st_targetMet :: bool
  st_stopReason :: "string option"
  st_requestedProfile :: profile_event
  st_outputs :: "phase \<Rightarrow> output_ref option"

datatype analysis_action = Change | ResearchAction | Stop

text \<open>
  The variants of \<^verbatim>\<open>Outcome\<close>; the optional fields \<^verbatim>\<open>inconclusive\<close> and \<^verbatim>\<open>reason\<close> are options.
\<close>

datatype outcome =
  Prepared
| Measured (mo_revision: string) (mo_valid: bool) (mo_inconclusive: "bool option")
    (mo_targetMet: bool) (mo_improved: bool)
| AttemptStarted
| Profiled
| Analysis analysis_action "string option"
| AnalysisProfile profile_event
| Researched
| Edited string
| Tested string bool
| Reviewed string bool
| Kept string
| Discarded string
| Finished
| Failed string

definition phase_name :: "phase \<Rightarrow> string" where
  "phase_name p = (case p of
     PPrepare \<Rightarrow> ''prepare'' | PBaseline \<Rightarrow> ''baseline'' | PStartAttempt \<Rightarrow> ''start-attempt''
   | PProfile \<Rightarrow> ''profile'' | PAnalyze \<Rightarrow> ''analyze'' | PResearch \<Rightarrow> ''research''
   | PImplement \<Rightarrow> ''implement'' | PTest \<Rightarrow> ''test'' | PRepair \<Rightarrow> ''repair''
   | PMeasure \<Rightarrow> ''measure'' | PReview \<Rightarrow> ''review'' | PKeep \<Rightarrow> ''keep''
   | PDiscard \<Rightarrow> ''discard'' | PFinish \<Rightarrow> ''finish'' | PDone \<Rightarrow> ''done'')"

definition outcome_kind :: "outcome \<Rightarrow> string" where
  "outcome_kind oc = (case oc of
     Prepared \<Rightarrow> ''prepared'' | Measured _ _ _ _ _ \<Rightarrow> ''measurement''
   | AttemptStarted \<Rightarrow> ''attempt-started'' | Profiled \<Rightarrow> ''profile''
   | Analysis _ _ \<Rightarrow> ''analysis'' | AnalysisProfile _ \<Rightarrow> ''analysis''
   | Researched \<Rightarrow> ''research'' | Edited _ \<Rightarrow> ''edited'' | Tested _ _ \<Rightarrow> ''tests''
   | Reviewed _ _ \<Rightarrow> ''review'' | Kept _ \<Rightarrow> ''kept'' | Discarded _ \<Rightarrow> ''discarded''
   | Finished \<Rightarrow> ''finished'' | Failed _ \<Rightarrow> ''error'')"

definition inferencePhases :: "phase list" where
  "inferencePhases = [PAnalyze, PResearch, PImplement, PRepair, PReview]"

definition inference_phase :: "phase \<Rightarrow> bool" where
  "inference_phase p \<longleftrightarrow> p \<in> set inferencePhases"

lemma inference_phase_simps [simp]:
  "inference_phase PAnalyze" "inference_phase PResearch" "inference_phase PImplement"
  "inference_phase PRepair" "inference_phase PReview" "\<not> inference_phase PPrepare"
  "\<not> inference_phase PBaseline" "\<not> inference_phase PStartAttempt" "\<not> inference_phase PProfile"
  "\<not> inference_phase PTest" "\<not> inference_phase PMeasure" "\<not> inference_phase PKeep"
  "\<not> inference_phase PDiscard" "\<not> inference_phase PFinish" "\<not> inference_phase PDone"
  by (simp_all add: inference_phase_def inferencePhases_def)

section \<open>Transitions\<close>

definition newRun :: "string \<Rightarrow> string \<Rightarrow> run_state res" where
  "newRun run_id revision =
     (if \<not> run_id_ok run_id \<or> \<not> revision_ok revision then Inl (Error ''Invalid run identity'')
      else Inr \<lparr>st_runId = run_id, st_phase = PPrepare, st_initialRevision = revision,
        st_bestRevision = revision, st_workingRevision = revision, st_attemptsStarted = 0,
        st_repairsThisAttempt = 0, st_piCallsStarted = 0, st_elapsedMs = 0, st_sequence = 0,
        st_activeStep = None, st_targetMet = False, st_stopReason = None,
        st_requestedProfile = Ctimer, st_outputs = (\<lambda>_. None)\<rparr>)"

definition step_kind :: "phase \<Rightarrow> next_step" where
  "step_kind p =
     (if p = PStartAttempt then NextAttempt
      else if p = PRepair then NextRepair
      else if p = PFinish \<or> p = PDiscard \<or> p = PKeep then NextFinish
      else if inference_phase p then NextPi
      else NextCommand)"

definition progress_of :: "run_state \<Rightarrow> int \<Rightarrow> progress" where
  "progress_of s elapsed =
     \<lparr>pr_attemptsStarted = st_attemptsStarted s, pr_repairsThisAttempt = st_repairsThisAttempt s,
      pr_piCallsStarted = st_piCallsStarted s, pr_elapsedMs = elapsed, pr_activeStep = False\<rparr>"

definition wrap_up :: "run_state \<Rightarrow> int \<Rightarrow> string list \<Rightarrow> run_state" where
  "wrap_up s elapsed reasons =
     (let repairOnly = (length reasons = 1 \<and> hd reasons = ''repairs'') in
      s\<lparr>st_elapsedMs := elapsed,
        st_phase := (if repairOnly then PDiscard else PFinish),
        st_stopReason := (if repairOnly then st_stopReason s
          else Some (''limit:'' @ js_join '','' reasons)),
        st_activeStep := None\<rparr>)"

definition reserve_step :: "run_state \<Rightarrow> int \<Rightarrow> run_state" where
  "reserve_step s elapsed =
     s\<lparr>st_elapsedMs := elapsed,
       st_sequence := st_sequence s + 1,
       st_activeStep := Some (st_sequence s + 1),
       st_attemptsStarted := st_attemptsStarted s + (if st_phase s = PStartAttempt then 1 else 0),
       st_repairsThisAttempt := (if st_phase s = PStartAttempt then 0
         else st_repairsThisAttempt s + (if st_phase s = PRepair then 1 else 0)),
       st_piCallsStarted := st_piCallsStarted s + (if inference_phase (st_phase s) then 1 else 0)\<rparr>"

definition beginStep :: "run_state \<Rightarrow> limits \<Rightarrow> int \<Rightarrow> run_state res" where
  "beginStep s l elapsed =
     (if st_phase s = PDone then Inl (Error ''Run is already finished'')
      else if st_activeStep s \<noteq> None
      then Inl (Error ''A step is active; wait for it or inspect an interrupted run'')
      else if elapsed < st_elapsedMs s then Inl (Error ''Elapsed time moved backwards'')
      else bindR (checkLimits l (progress_of s elapsed) (step_kind (st_phase s)))
        (\<lambda>(action, reasons).
           if action = WrapUp then Inr (wrap_up s elapsed reasons)
           else Inr (reserve_step s elapsed)))"

text \<open>The outcomes \<^verbatim>\<open>requireKind\<close> lets through in each phase.\<close>

definition unexpected :: "outcome \<Rightarrow> phase \<Rightarrow> 'a res" where
  "unexpected oc p = Inl (Error (''Unexpected '' @ outcome_kind oc @ '' result for '' @ phase_name p))"

definition other_revision :: "'a res" where
  "other_revision = Inl (Error ''Result refers to a different code revision'')"

definition finish_measurement :: "run_state \<Rightarrow> run_state \<Rightarrow> outcome \<Rightarrow> run_state res" where
  "finish_measurement s result oc = (case oc of
     Measured revision valid inconclusive targetMet improved \<Rightarrow>
       if revision \<noteq> st_workingRevision s then other_revision
       else if \<not> valid then
         (if st_phase s = PMeasure \<and> inconclusive = Some True
          then Inr (result\<lparr>st_phase := PDiscard, st_targetMet := False\<rparr>)
          else Inr (result\<lparr>st_phase := PFinish,
            st_stopReason := Some (if inconclusive = Some True then ''measurement-inconclusive''
              else ''invalid-measurement''),
            st_targetMet := False\<rparr>))
       else if st_phase s = PBaseline
       then Inr (result\<lparr>st_targetMet := targetMet,
         st_phase := (if targetMet then PFinish else PStartAttempt),
         st_stopReason := (if targetMet then Some ''target-met'' else None)\<rparr>)
       else Inr (result\<lparr>st_targetMet := targetMet,
         st_phase := (if improved \<or> targetMet then PReview else PDiscard)\<rparr>)
   | _ \<Rightarrow> unexpected oc (st_phase s))"

definition finish_edit :: "run_state \<Rightarrow> outcome \<Rightarrow> phase \<Rightarrow> run_state res" where
  "finish_edit result oc p = (case oc of
     Edited revision \<Rightarrow>
       if \<not> revision_ok revision then Inl (Error ''Edited code needs a saved commit'')
       else Inr (result\<lparr>st_workingRevision := revision, st_targetMet := False, st_phase := PTest\<rparr>)
   | _ \<Rightarrow> unexpected oc p)"

definition finish_phase :: "run_state \<Rightarrow> run_state \<Rightarrow> outcome \<Rightarrow> run_state res" where
  "finish_phase s result oc = (case st_phase s of
     PPrepare \<Rightarrow> (case oc of Prepared \<Rightarrow> Inr (result\<lparr>st_phase := PBaseline\<rparr>)
       | _ \<Rightarrow> unexpected oc (st_phase s))
   | PBaseline \<Rightarrow> finish_measurement s result oc
   | PMeasure \<Rightarrow> finish_measurement s result oc
   | PStartAttempt \<Rightarrow> (case oc of
         AttemptStarted \<Rightarrow> Inr (result\<lparr>st_phase := PProfile, st_requestedProfile := Ctimer,
           st_targetMet := False\<rparr>)
       | _ \<Rightarrow> unexpected oc (st_phase s))
   | PProfile \<Rightarrow> (case oc of Profiled \<Rightarrow> Inr (result\<lparr>st_phase := PAnalyze\<rparr>)
       | _ \<Rightarrow> unexpected oc (st_phase s))
   | PAnalyze \<Rightarrow> (case oc of
         Analysis action reason \<Rightarrow>
           (if action = Stop
            then Inr (result\<lparr>st_phase := PFinish, st_stopReason := Some (''analysis:'' @
              (case reason of None \<Rightarrow> ''no further proposal'' | Some r \<Rightarrow> r))\<rparr>)
            else Inr (result\<lparr>st_phase := (if action = Change then PImplement else PResearch)\<rparr>))
       | AnalysisProfile event \<Rightarrow> Inr (result\<lparr>st_phase := PProfile, st_requestedProfile := event\<rparr>)
       | _ \<Rightarrow> unexpected oc (st_phase s))
   | PResearch \<Rightarrow> (case oc of Researched \<Rightarrow> Inr (result\<lparr>st_phase := PAnalyze\<rparr>)
       | _ \<Rightarrow> unexpected oc (st_phase s))
   | PImplement \<Rightarrow> finish_edit result oc (st_phase s)
   | PRepair \<Rightarrow> finish_edit result oc (st_phase s)
   | PTest \<Rightarrow> (case oc of
         Tested revision passed \<Rightarrow>
           if revision \<noteq> st_workingRevision s then other_revision
           else Inr (result\<lparr>st_phase := (if passed then PMeasure else PRepair)\<rparr>)
       | _ \<Rightarrow> unexpected oc (st_phase s))
   | PReview \<Rightarrow> (case oc of
         Reviewed revision passed \<Rightarrow>
           if revision \<noteq> st_workingRevision s then other_revision
           else Inr (result\<lparr>st_phase := (if passed then PKeep else PRepair)\<rparr>)
       | _ \<Rightarrow> unexpected oc (st_phase s))
   | PKeep \<Rightarrow> (case oc of
         Kept revision \<Rightarrow>
           if revision \<noteq> st_workingRevision s then other_revision
           else Inr (result\<lparr>st_bestRevision := revision,
             st_phase := (if st_targetMet s then PFinish else PStartAttempt),
             st_stopReason := (if st_targetMet s then Some ''target-met'' else None)\<rparr>)
       | _ \<Rightarrow> unexpected oc (st_phase s))
   | PDiscard \<Rightarrow> (case oc of
         Discarded revision \<Rightarrow>
           if revision \<noteq> st_bestRevision s
           then Inl (Error ''Discard did not restore the best tested revision'')
           else Inr (result\<lparr>st_workingRevision := revision, st_targetMet := False,
             st_phase := PStartAttempt\<rparr>)
       | _ \<Rightarrow> unexpected oc (st_phase s))
   | PFinish \<Rightarrow> (case oc of
         Finished \<Rightarrow> Inr (result\<lparr>st_phase := PDone,
           st_targetMet := (st_stopReason s = Some ''target-met'')\<rparr>)
       | _ \<Rightarrow> unexpected oc (st_phase s))
   | PDone \<Rightarrow> Inl (Error (''Cannot complete phase '' @ phase_name PDone)))"

definition finishStep :: "run_state \<Rightarrow> int \<Rightarrow> outcome \<Rightarrow> output_ref \<Rightarrow> run_state res" where
  "finishStep s step oc out =
     (if st_activeStep s \<noteq> Some step \<or> step \<noteq> st_sequence s
      then Inl (Error ''Completion does not match active step'')
      else if or_name out = [] \<or> \<not> safe_integer (or_version out) \<or> or_version out < 1
      then Inl (Error ''Completion needs a saved output reference'')
      else let result = s\<lparr>st_activeStep := None,
             st_outputs := (st_outputs s)(st_phase s := Some out)\<rparr> in
        (case oc of
           Failed message \<Rightarrow> Inr (result\<lparr>st_phase := PFinish,
             st_stopReason := Some (''error:'' @ message), st_targetMet := False\<rparr>)
         | _ \<Rightarrow> finish_phase s result oc))"

end
