(* ===== verification/Json.thy ===== *)
theory Json
  imports Js_Number "HOL-Library.Monad_Syntax"
begin

text \<open>
  The values the resources hold and the schema combinators of \<^verbatim>\<open>zod\<close> the source composes its
  schemas from. A schema reads a value and returns the parsed one, or \<open>None\<close> where
  \<^verbatim>\<open>parse\<close> throws; objects keep their properties in the order they were written.
\<close>

datatype json =
  JNull
| JBool bool
| JNum jsnum
| JStr string
| JArr "json list"
| JObj "(string \<times> json) list"

type_synonym 'a schema = "json \<Rightarrow> 'a option"

text \<open>\<^verbatim>\<open>schema.parse(value)\<close>; reading a missing resource gives \<^verbatim>\<open>null\<close>.\<close>

definition zparse :: "string \<Rightarrow> 'a schema \<Rightarrow> json \<Rightarrow> 'a res" where
  "zparse name sch v = (case sch v of None \<Rightarrow> Inl (ZodError name) | Some x \<Rightarrow> Inr x)"

definition or_null :: "json option \<Rightarrow> json" where
  "or_null v = (case v of None \<Rightarrow> JNull | Some x \<Rightarrow> x)"

lemma zparse_Inr [res_simps]: "zparse n sch v = Inr x \<longleftrightarrow> sch v = Some x"
  by (simp add: zparse_def split: option.split)

lemma or_null_Some [simp]: "or_null (Some v) = v"
  by (simp add: or_null_def)

lemma or_null_None [simp]: "or_null None = JNull"
  by (simp add: or_null_def)

section \<open>Scalars\<close>

definition z_bool :: "bool schema" where
  "z_bool v = (case v of JBool b \<Rightarrow> Some b | _ \<Rightarrow> None)"

definition z_string_if :: "(string \<Rightarrow> bool) \<Rightarrow> string schema" where
  "z_string_if ok v = (case v of JStr s \<Rightarrow> if ok s then Some s else None | _ \<Rightarrow> None)"

definition z_string :: "string schema" where
  "z_string = z_string_if (\<lambda>_. True)"

definition z_string_min1 :: "string schema" where
  "z_string_min1 = z_string_if (\<lambda>s. s \<noteq> [])"

text \<open>\<^verbatim>\<open>z.number()\<close> refuses \<^verbatim>\<open>NaN\<close> and the infinities; \<^verbatim>\<open>.int()\<close> also unsafe integers.\<close>

definition z_number_if :: "(jsnum \<Rightarrow> bool) \<Rightarrow> jsnum schema" where
  "z_number_if ok v =
     (case v of JNum x \<Rightarrow> if js_finite x \<and> ok x then Some x else None | _ \<Rightarrow> None)"

definition z_int_if :: "(int \<Rightarrow> bool) \<Rightarrow> int schema" where
  "z_int_if ok v = (case v of
     JNum (Fin q) \<Rightarrow> if of_int \<lfloor>q\<rfloor> = q \<and> ok \<lfloor>q\<rfloor> then Some \<lfloor>q\<rfloor> else None
   | _ \<Rightarrow> None)"

definition j_int :: "int \<Rightarrow> json" where
  "j_int i = JNum (Fin (of_int i))"

definition z_enum :: "(string \<times> 'a) list \<Rightarrow> 'a schema" where
  "z_enum table v = (case v of JStr s \<Rightarrow> map_of table s | _ \<Rightarrow> None)"

definition z_literal :: "string \<Rightarrow> unit schema" where
  "z_literal s v = (if v = JStr s then Some () else None)"

text \<open>\<^verbatim>\<open>z.literal(n)\<close> of a number, \<^verbatim>\<open>z.null()\<close> and \<^verbatim>\<open>z.number().positive()\<close>.\<close>

definition z_literal_int :: "int \<Rightarrow> unit schema" where
  "z_literal_int n v = (if v = JNum (Fin (of_int n)) then Some () else None)"

definition z_null :: "unit schema" where
  "z_null v = (if v = JNull then Some () else None)"

definition z_positive_number :: "jsnum schema" where
  "z_positive_number = z_number_if (js_lt (Fin 0))"

definition z_nullable :: "'a schema \<Rightarrow> 'a option schema" where
  "z_nullable sch v = (if v = JNull then Some None else map_option Some (sch v))"

definition j_nullable :: "('a \<Rightarrow> json) \<Rightarrow> 'a option \<Rightarrow> json" where
  "j_nullable enc x = (case x of None \<Rightarrow> JNull | Some y \<Rightarrow> enc y)"

lemma z_bool_JBool [simp]: "z_bool (JBool b) = Some b"
  by (simp add: z_bool_def)

lemma z_string_if_JStr [simp]: "z_string_if ok (JStr s) = (if ok s then Some s else None)"
  by (simp add: z_string_if_def)

lemma z_string_JStr [simp]: "z_string (JStr s) = Some s"
  by (simp add: z_string_def)

lemma z_string_min1_JStr [simp]: "z_string_min1 (JStr s) = (if s = [] then None else Some s)"
  by (simp add: z_string_min1_def)

lemma z_int_if_j_int [simp]: "z_int_if ok (j_int i) = (if ok i then Some i else None)"
  by (simp add: z_int_if_def j_int_def)

lemma z_enum_JStr [simp]: "z_enum table (JStr s) = map_of table s"
  by (simp add: z_enum_def)

lemma z_literal_JStr [simp]: "z_literal s (JStr t) = (if s = t then Some () else None)"
  by (simp add: z_literal_def)

lemma j_int_neq [simp]: "j_int i \<noteq> JNull" "j_int i \<noteq> JObj kvs" "j_int i \<noteq> JStr s"
  by (simp_all add: j_int_def)

lemma z_nullable_enc [simp]:
  "(\<And>y. enc y \<noteq> JNull) \<Longrightarrow> z_nullable sch (j_nullable enc x) =
     (case x of None \<Rightarrow> Some None | Some y \<Rightarrow> map_option Some (sch (enc y)))"
  by (simp add: z_nullable_def j_nullable_def split: option.split)

section \<open>Arrays and objects\<close>

definition z_array_if :: "('a list \<Rightarrow> bool) \<Rightarrow> 'a schema \<Rightarrow> 'a list schema" where
  "z_array_if ok sch v = (case v of
     JArr vs \<Rightarrow> (case those (map sch vs) of
         Some xs \<Rightarrow> if ok xs then Some xs else None | None \<Rightarrow> None)
   | _ \<Rightarrow> None)"

definition z_array :: "'a schema \<Rightarrow> 'a list schema" where
  "z_array = z_array_if (\<lambda>_. True)"

lemma those_enc: "(\<And>x. x \<in> set xs \<Longrightarrow> sch (enc x) = Some x) \<Longrightarrow>
    those (map sch (map enc xs)) = Some xs"
  by (induction xs) simp_all

lemma those_map_Some: "those (map f xs) = Some ys \<longleftrightarrow> list_all2 (\<lambda>x y. f x = Some y) xs ys"
  by (induction xs arbitrary: ys) (auto simp: list_all2_Cons1 split: option.split)

lemma z_array_if_enc:
  "(\<And>x. x \<in> set xs \<Longrightarrow> sch (enc x) = Some x) \<Longrightarrow> ok xs \<Longrightarrow>
     z_array_if ok sch (JArr (map enc xs)) = Some xs"
  using those_enc [of xs sch enc] by (simp add: z_array_if_def del: map_map)

lemma z_array_enc:
  "(\<And>x. x \<in> set xs \<Longrightarrow> sch (enc x) = Some x) \<Longrightarrow> z_array sch (JArr (map enc xs)) = Some xs"
  by (simp add: z_array_def z_array_if_enc)

text \<open>\<^verbatim>\<open>z.strictObject\<close> refuses a property that is not in its shape.\<close>

definition z_strict :: "string list \<Rightarrow> ((string \<times> json) list \<Rightarrow> 'a option) \<Rightarrow> 'a schema" where
  "z_strict ks body v = (case v of
     JObj kvs \<Rightarrow> if list_all (\<lambda>(k, _). k \<in> set ks) kvs then body kvs else None
   | _ \<Rightarrow> None)"

text \<open>\<^verbatim>\<open>z.looseObject\<close> and \<^verbatim>\<open>z.object\<close> accept further properties.\<close>

definition z_loose :: "((string \<times> json) list \<Rightarrow> 'a option) \<Rightarrow> 'a schema" where
  "z_loose body v = (case v of JObj kvs \<Rightarrow> body kvs | _ \<Rightarrow> None)"

lemma z_loose_JObj [simp]: "z_loose body (JObj kvs) = body kvs"
  by (simp add: z_loose_def)

definition z_field :: "(string \<times> json) list \<Rightarrow> string \<Rightarrow> 'a schema \<Rightarrow> 'a option" where
  "z_field kvs k sch = Option.bind (map_of kvs k) sch"

definition z_optional :: "(string \<times> json) list \<Rightarrow> string \<Rightarrow> 'a schema \<Rightarrow> 'a option option" where
  "z_optional kvs k sch =
     (case map_of kvs k of None \<Rightarrow> Some None | Some v \<Rightarrow> map_option Some (sch v))"

definition j_optional :: "string \<Rightarrow> ('a \<Rightarrow> json) \<Rightarrow> 'a option \<Rightarrow> (string \<times> json) list" where
  "j_optional k enc x = (case x of None \<Rightarrow> [] | Some y \<Rightarrow> [(k, enc y)])"

lemma z_strict_JObj [simp]:
  "z_strict ks body (JObj kvs) = (if list_all (\<lambda>(k, _). k \<in> set ks) kvs then body kvs else None)"
  by (simp add: z_strict_def)

lemma z_field_simps [simp]:
  "z_field ((k, v) # kvs) k' sch = (if k = k' then sch v else z_field kvs k' sch)"
  "z_field [] k' sch = None"
  by (simp_all add: z_field_def)

lemma z_optional_simps [simp]:
  "z_optional ((k, v) # kvs) k' sch = (if k = k' then map_option Some (sch v) else z_optional kvs k' sch)"
  "z_optional [] k' sch = Some None"
  by (simp_all add: z_optional_def)

lemma j_optional_simps [simp]:
  "j_optional k enc None = []" "j_optional k enc (Some x) = [(k, enc x)]"
  by (simp_all add: j_optional_def)

text \<open>\<^verbatim>\<open>z.union\<close>: the first schema that accepts.\<close>

fun z_union :: "'a schema list \<Rightarrow> 'a schema" where
  "z_union [] v = None"
| "z_union (sch # schs) v = (case sch v of None \<Rightarrow> z_union schs v | Some x \<Rightarrow> Some x)"

text \<open>\<^verbatim>\<open>z.record(z.string(), schema)\<close>: an object whose values all fit.\<close>

definition z_dict :: "'a schema \<Rightarrow> (string \<times> 'a) list schema" where
  "z_dict sch v = (case v of
     JObj kvs \<Rightarrow> those (map (\<lambda>(k, x). map_option (Pair k) (sch x)) kvs) | _ \<Rightarrow> None)"

text \<open>\<^verbatim>\<open>z.record(z.string(), z.unknown())\<close>: any object.\<close>

definition z_record :: "json schema" where
  "z_record v = (case v of JObj _ \<Rightarrow> Some v | _ \<Rightarrow> None)"

lemma z_record_JObj [simp]: "z_record (JObj kvs) = Some (JObj kvs)"
  by (simp add: z_record_def)

lemma z_nullable_simps [simp]:
  "z_nullable sch JNull = Some None"
  "z_nullable sch (JStr s) = map_option Some (sch (JStr s))"
  "z_nullable sch (JObj kvs) = map_option Some (sch (JObj kvs))"
  "z_nullable sch (j_int i) = map_option Some (sch (j_int i))"
  by (simp_all add: z_nullable_def)

lemma j_nullable_simps [simp]: "j_nullable enc None = JNull" "j_nullable enc (Some x) = enc x"
  by (simp_all add: j_nullable_def)

end
