(* ===== verification/Schemas.thy ===== *)
theory Schemas
  imports Run_State Json
begin

text \<open>
  \<^verbatim>\<open>_lib/schemas.ts\<close> and the output reference of \<^verbatim>\<open>_lib/inference.ts\<close>: the schemas that check the
  saved state and the saved step results when they are written and read, the values the code
  writes for them, and the round trips. A typed value is accepted by its schema exactly when it
  is well formed.
\<close>

section \<open>Identifiers, references and phases\<close>

definition runIdSchema :: "string schema" where
  "runIdSchema = z_string_if run_id_ok"

definition revisionSchema :: "string schema" where
  "revisionSchema = z_string_if revision_ok"

definition sha256Schema :: "string schema" where
  "sha256Schema = z_string_if sha256_ok"

definition referenceSchema :: "output_ref schema" where
  "referenceSchema = z_strict [''name'', ''version''] (\<lambda>o'. do {
     name \<leftarrow> z_field o' ''name'' z_string_min1;
     version \<leftarrow> z_field o' ''version'' (z_int_if z_positive);
     Some \<lparr>or_name = name, or_version = version\<rparr> })"

definition enc_ref :: "output_ref \<Rightarrow> json" where
  "enc_ref r = JObj [(''name'', JStr (or_name r)), (''version'', j_int (or_version r))]"

definition ref_ok :: "output_ref \<Rightarrow> bool" where
  "ref_ok r \<longleftrightarrow> or_name r \<noteq> [] \<and> z_positive (or_version r)"

definition all_phases :: "phase list" where
  "all_phases = [PPrepare, PBaseline, PStartAttempt, PProfile, PAnalyze, PResearch, PImplement,
     PTest, PRepair, PMeasure, PReview, PKeep, PDiscard, PFinish, PDone]"

definition phase_table :: "(string \<times> phase) list" where
  "phase_table = map (\<lambda>p. (phase_name p, p)) all_phases"

definition phaseSchema :: "phase schema" where
  "phaseSchema = z_enum phase_table"

definition profile_event_name :: "profile_event \<Rightarrow> string" where
  "profile_event_name ev = (case ev of Ctimer \<Rightarrow> ''ctimer'' | Wall \<Rightarrow> ''wall'' | Alloc \<Rightarrow> ''alloc''
     | Jfr \<Rightarrow> ''jfr'')"

definition profileEventSchema :: "profile_event schema" where
  "profileEventSchema = z_enum [(''ctimer'', Ctimer), (''wall'', Wall), (''alloc'', Alloc), (''jfr'', Jfr)]"

lemma runIdSchema_JStr [simp]: "runIdSchema (JStr s) = (if run_id_ok s then Some s else None)"
  by (simp add: runIdSchema_def)

lemma revisionSchema_JStr [simp]: "revisionSchema (JStr s) = (if revision_ok s then Some s else None)"
  by (simp add: revisionSchema_def)

lemma sha256Schema_JStr [simp]: "sha256Schema (JStr s) = (if sha256_ok s then Some s else None)"
  by (simp add: sha256Schema_def)

lemma referenceSchema_enc [simp]: "referenceSchema (enc_ref r) = (if ref_ok r then Some r else None)"
  by (simp add: referenceSchema_def enc_ref_def ref_ok_def)

lemma enc_ref_not_null [simp]: "enc_ref r \<noteq> JNull"
  by (simp add: enc_ref_def)

lemma in_all_phases [simp]: "p \<in> set all_phases"
  by (cases p) (simp_all add: all_phases_def)

lemma phase_name_inject [simp]: "phase_name p = phase_name q \<longleftrightarrow> p = q"
  by (cases p; cases q) (simp_all add: phase_name_def)

lemma phase_table_name [simp]: "map_of phase_table (phase_name p) = Some p"
  by (cases p) (simp_all add: phase_table_def all_phases_def phase_name_def)

lemma phaseSchema_enc [simp]: "phaseSchema (JStr (phase_name p)) = Some p"
  by (simp add: phaseSchema_def)

lemma profileEventSchema_enc [simp]: "profileEventSchema (JStr (profile_event_name ev)) = Some ev"
  by (cases ev) (simp_all add: profileEventSchema_def profile_event_name_def)

section \<open>The saved state\<close>

text \<open>\<^verbatim>\<open>z.partialRecord(phaseSchema, referenceSchema)\<close>.\<close>

definition outputsSchema :: "(phase \<Rightarrow> output_ref option) schema" where
  "outputsSchema v = (case v of
     JObj kvs \<Rightarrow>
       if list_all (\<lambda>(k, r). map_of phase_table k \<noteq> None \<and> referenceSchema r \<noteq> None) kvs
       then Some (\<lambda>p. Option.bind (map_of kvs (phase_name p)) referenceSchema) else None
   | _ \<Rightarrow> None)"

definition enc_outputs :: "(phase \<Rightarrow> output_ref option) \<Rightarrow> json" where
  "enc_outputs f = JObj (concat (map (\<lambda>p. j_optional (phase_name p) enc_ref (f p)) all_phases))"

definition outputs_ok :: "(phase \<Rightarrow> output_ref option) \<Rightarrow> bool" where
  "outputs_ok f \<longleftrightarrow> list_all (\<lambda>p. case f p of None \<Rightarrow> True | Some r \<Rightarrow> ref_ok r) all_phases"

definition runStateSchema :: "run_state schema" where
  "runStateSchema = z_strict [''runId'', ''phase'', ''initialRevision'', ''bestRevision'',
     ''workingRevision'', ''attemptsStarted'', ''repairsThisAttempt'', ''piCallsStarted'',
     ''elapsedMs'', ''sequence'', ''activeStep'', ''targetMet'', ''stopReason'',
     ''requestedProfile'', ''outputs''] (\<lambda>o'. do {
     runId \<leftarrow> z_field o' ''runId'' runIdSchema;
     phase \<leftarrow> z_field o' ''phase'' phaseSchema;
     initialRevision \<leftarrow> z_field o' ''initialRevision'' revisionSchema;
     bestRevision \<leftarrow> z_field o' ''bestRevision'' revisionSchema;
     workingRevision \<leftarrow> z_field o' ''workingRevision'' revisionSchema;
     attemptsStarted \<leftarrow> z_field o' ''attemptsStarted'' (z_int_if z_count);
     repairsThisAttempt \<leftarrow> z_field o' ''repairsThisAttempt'' (z_int_if z_count);
     piCallsStarted \<leftarrow> z_field o' ''piCallsStarted'' (z_int_if z_count);
     elapsedMs \<leftarrow> z_field o' ''elapsedMs'' (z_int_if z_count);
     sequence \<leftarrow> z_field o' ''sequence'' (z_int_if z_count);
     activeStep \<leftarrow> z_field o' ''activeStep'' (z_nullable (z_int_if z_positive));
     targetMet \<leftarrow> z_field o' ''targetMet'' z_bool;
     stopReason \<leftarrow> z_field o' ''stopReason'' (z_nullable z_string);
     requestedProfile \<leftarrow> z_field o' ''requestedProfile'' profileEventSchema;
     outputs \<leftarrow> z_field o' ''outputs'' outputsSchema;
     if activeStep = None \<or> activeStep = Some sequence
     then Some \<lparr>st_runId = runId, st_phase = phase, st_initialRevision = initialRevision,
       st_bestRevision = bestRevision, st_workingRevision = workingRevision,
       st_attemptsStarted = attemptsStarted, st_repairsThisAttempt = repairsThisAttempt,
       st_piCallsStarted = piCallsStarted, st_elapsedMs = elapsedMs, st_sequence = sequence,
       st_activeStep = activeStep, st_targetMet = targetMet, st_stopReason = stopReason,
       st_requestedProfile = requestedProfile, st_outputs = outputs\<rparr>
     else None })"

text \<open>The object \<^verbatim>\<open>{ ...state }\<close> the driver writes.\<close>

definition enc_state :: "run_state \<Rightarrow> json" where
  "enc_state s = JObj [(''runId'', JStr (st_runId s)), (''phase'', JStr (phase_name (st_phase s))),
     (''initialRevision'', JStr (st_initialRevision s)), (''bestRevision'', JStr (st_bestRevision s)),
     (''workingRevision'', JStr (st_workingRevision s)),
     (''attemptsStarted'', j_int (st_attemptsStarted s)),
     (''repairsThisAttempt'', j_int (st_repairsThisAttempt s)),
     (''piCallsStarted'', j_int (st_piCallsStarted s)), (''elapsedMs'', j_int (st_elapsedMs s)),
     (''sequence'', j_int (st_sequence s)), (''activeStep'', j_nullable j_int (st_activeStep s)),
     (''targetMet'', JBool (st_targetMet s)), (''stopReason'', j_nullable JStr (st_stopReason s)),
     (''requestedProfile'', JStr (profile_event_name (st_requestedProfile s))),
     (''outputs'', enc_outputs (st_outputs s))]"

definition state_ok :: "run_state \<Rightarrow> bool" where
  "state_ok s \<longleftrightarrow> run_id_ok (st_runId s) \<and> revision_ok (st_initialRevision s) \<and>
     revision_ok (st_bestRevision s) \<and> revision_ok (st_workingRevision s) \<and>
     z_count (st_attemptsStarted s) \<and> z_count (st_repairsThisAttempt s) \<and>
     z_count (st_piCallsStarted s) \<and> z_count (st_elapsedMs s) \<and> z_count (st_sequence s) \<and>
     (case st_activeStep s of None \<Rightarrow> True | Some n \<Rightarrow> z_positive n \<and> n = st_sequence s) \<and>
     outputs_ok (st_outputs s)"

lemma map_of_outputs:
  "map_of (concat (map (\<lambda>p. j_optional (phase_name p) enc_ref (f p)) ps)) (phase_name q) =
     (if q \<in> set ps then map_option enc_ref (f q) else None)"
  by (induction ps) (auto simp: map_add_def j_optional_def split: option.splits)

lemma outputsSchema_enc: "outputsSchema (enc_outputs f) = (if outputs_ok f then Some f else None)"
proof -
  have "list_all (\<lambda>(k, r). map_of phase_table k \<noteq> None \<and> referenceSchema r \<noteq> None)
      (concat (map (\<lambda>p. j_optional (phase_name p) enc_ref (f p)) ps)) \<longleftrightarrow>
    list_all (\<lambda>p. case f p of None \<Rightarrow> True | Some r \<Rightarrow> ref_ok r) ps" for ps
    by (induction ps) (auto simp: j_optional_def split: option.splits)
  moreover have "Option.bind (map_option enc_ref (f p)) referenceSchema = f p"
    if "outputs_ok f" for p
    using that by (cases "f p")
      (force simp: outputs_ok_def list_all_iff split: option.splits)+
  ultimately show ?thesis
    by (auto simp: outputsSchema_def enc_outputs_def map_of_outputs outputs_ok_def)
qed

lemma runStateSchema_enc: "runStateSchema (enc_state s) = (if state_ok s then Some s else None)"
  by (cases "st_activeStep s"; cases "st_stopReason s")
    (simp_all add: runStateSchema_def enc_state_def outputsSchema_enc state_ok_def)


lemma z_field_Some: "z_field o' k sch = Some x \<Longrightarrow> \<exists>v. sch v = Some x"
  by (auto simp: z_field_def bind_eq_Some_conv)

lemma z_string_if_Some: "z_string_if ok v = Some s \<Longrightarrow> ok s"
  by (auto simp: z_string_if_def split: json.splits if_splits)

lemma z_int_if_Some: "z_int_if ok v = Some i \<Longrightarrow> ok i"
  by (auto simp: z_int_if_def split: json.splits jsnum.splits if_splits)

lemma z_nullable_SomeD: "z_nullable sch v = Some (Some x) \<Longrightarrow> sch v = Some x"
  by (auto simp: z_nullable_def split: if_splits)

lemma referenceSchema_ok: "referenceSchema v = Some r \<Longrightarrow> ref_ok r"
  by (auto simp: referenceSchema_def z_strict_def ref_ok_def bind_eq_Some_conv z_string_min1_def
      split: json.splits if_splits dest!: z_field_Some dest: z_string_if_Some z_int_if_Some)

lemma outputsSchema_ok: "outputsSchema v = Some f \<Longrightarrow> outputs_ok f"
  by (auto simp: outputsSchema_def outputs_ok_def list_all_iff bind_eq_Some_conv
      split: json.splits if_splits option.splits dest: referenceSchema_ok)

lemma runIdSchema_ok: "runIdSchema v = Some x \<Longrightarrow> run_id_ok x"
  unfolding runIdSchema_def by (rule z_string_if_Some)

lemma revisionSchema_ok: "revisionSchema v = Some x \<Longrightarrow> revision_ok x"
  unfolding revisionSchema_def by (rule z_string_if_Some)

lemmas z_fieldE = z_field_Some [THEN exE]

text \<open>What the state schema accepts is well formed, whatever value it reads.\<close>

lemma runStateSchema_ok:
  assumes "runStateSchema v = Some s"
  shows "state_ok s"
proof (cases v)
  case (JObj kvs)
  with assms show ?thesis
    unfolding runStateSchema_def z_strict_def
    by (clarsimp simp: bind_eq_Some_conv state_ok_def split: if_splits)
      (auto elim!: z_fieldE intro: runIdSchema_ok revisionSchema_ok z_int_if_Some outputsSchema_ok
        dest!: z_nullable_SomeD z_int_if_Some split: option.splits)
qed (use assms in \<open>simp_all add: runStateSchema_def z_strict_def\<close>)

section \<open>Step results\<close>

definition analysis_action_name :: "analysis_action \<Rightarrow> string" where
  "analysis_action_name a = (case a of Change \<Rightarrow> ''change'' | ResearchAction \<Rightarrow> ''research''
     | Stop \<Rightarrow> ''stop'')"

definition analysisActionSchema :: "analysis_action schema" where
  "analysisActionSchema = z_enum [(''change'', Change), (''research'', ResearchAction), (''stop'', Stop)]"

text \<open>A variant of \<^verbatim>\<open>outcomeSchema\<close> with no, or with only a \<^verbatim>\<open>revision\<close> and a \<^verbatim>\<open>passed\<close> field.\<close>

definition kind_only :: "string \<Rightarrow> outcome \<Rightarrow> outcome schema" where
  "kind_only k oc = z_strict [''kind''] (\<lambda>o'. do { _ \<leftarrow> z_field o' ''kind'' (z_literal k); Some oc })"

definition kind_revision :: "string \<Rightarrow> (string \<Rightarrow> outcome) \<Rightarrow> outcome schema" where
  "kind_revision k f = z_strict [''kind'', ''revision''] (\<lambda>o'. do {
     _ \<leftarrow> z_field o' ''kind'' (z_literal k);
     revision \<leftarrow> z_field o' ''revision'' revisionSchema;
     Some (f revision) })"

definition kind_passed :: "string \<Rightarrow> (string \<Rightarrow> bool \<Rightarrow> outcome) \<Rightarrow> outcome schema" where
  "kind_passed k f = z_strict [''kind'', ''revision'', ''passed''] (\<lambda>o'. do {
     _ \<leftarrow> z_field o' ''kind'' (z_literal k);
     revision \<leftarrow> z_field o' ''revision'' revisionSchema;
     passed \<leftarrow> z_field o' ''passed'' z_bool;
     Some (f revision passed) })"

definition kind_measurement :: "outcome schema" where
  "kind_measurement = z_strict [''kind'', ''revision'', ''valid'', ''inconclusive'', ''targetMet'',
       ''improved''] (\<lambda>o'. do {
     _ \<leftarrow> z_field o' ''kind'' (z_literal ''measurement'');
     revision \<leftarrow> z_field o' ''revision'' revisionSchema;
     valid \<leftarrow> z_field o' ''valid'' z_bool;
     inconclusive \<leftarrow> z_optional o' ''inconclusive'' z_bool;
     targetMet \<leftarrow> z_field o' ''targetMet'' z_bool;
     improved \<leftarrow> z_field o' ''improved'' z_bool;
     Some (Measured revision valid inconclusive targetMet improved) })"

definition kind_analysis :: "outcome schema" where
  "kind_analysis = z_strict [''kind'', ''action'', ''reason''] (\<lambda>o'. do {
     _ \<leftarrow> z_field o' ''kind'' (z_literal ''analysis'');
     action \<leftarrow> z_field o' ''action'' analysisActionSchema;
     reason \<leftarrow> z_optional o' ''reason'' z_string;
     Some (Analysis action reason) })"

definition kind_analysis_profile :: "outcome schema" where
  "kind_analysis_profile = z_strict [''kind'', ''action'', ''event''] (\<lambda>o'. do {
     _ \<leftarrow> z_field o' ''kind'' (z_literal ''analysis'');
     _ \<leftarrow> z_field o' ''action'' (z_literal ''profile'');
     event \<leftarrow> z_field o' ''event'' profileEventSchema;
     Some (AnalysisProfile event) })"

definition kind_error :: "outcome schema" where
  "kind_error = z_strict [''kind'', ''message''] (\<lambda>o'. do {
     _ \<leftarrow> z_field o' ''kind'' (z_literal ''error'');
     message \<leftarrow> z_field o' ''message'' z_string_min1;
     Some (Failed message) })"

definition outcomeSchema :: "outcome schema" where
  "outcomeSchema = z_union [kind_only ''prepared'' Prepared, kind_measurement,
     kind_only ''attempt-started'' AttemptStarted, kind_only ''profile'' Profiled, kind_analysis,
     kind_analysis_profile, kind_only ''research'' Researched, kind_revision ''edited'' Edited,
     kind_passed ''tests'' Tested, kind_passed ''review'' Reviewed, kind_revision ''kept'' Kept,
     kind_revision ''discarded'' Discarded, kind_only ''finished'' Finished, kind_error]"

definition enc_outcome :: "outcome \<Rightarrow> json" where
  "enc_outcome oc = JObj ((''kind'', JStr (outcome_kind oc)) # (case oc of
     Measured r valid inc met improved \<Rightarrow> [(''revision'', JStr r), (''valid'', JBool valid)]
       @ j_optional ''inconclusive'' JBool inc
       @ [(''targetMet'', JBool met), (''improved'', JBool improved)]
   | Analysis a r \<Rightarrow> (''action'', JStr (analysis_action_name a)) # j_optional ''reason'' JStr r
   | AnalysisProfile ev \<Rightarrow> [(''action'', JStr ''profile''), (''event'', JStr (profile_event_name ev))]
   | Edited r \<Rightarrow> [(''revision'', JStr r)]
   | Tested r ok \<Rightarrow> [(''revision'', JStr r), (''passed'', JBool ok)]
   | Reviewed r ok \<Rightarrow> [(''revision'', JStr r), (''passed'', JBool ok)]
   | Kept r \<Rightarrow> [(''revision'', JStr r)]
   | Discarded r \<Rightarrow> [(''revision'', JStr r)]
   | Failed m \<Rightarrow> [(''message'', JStr m)]
   | _ \<Rightarrow> []))"

fun outcome_ok :: "outcome \<Rightarrow> bool" where
  "outcome_ok (Measured r _ _ _ _) = revision_ok r"
| "outcome_ok (Edited r) = revision_ok r"
| "outcome_ok (Tested r _) = revision_ok r"
| "outcome_ok (Reviewed r _) = revision_ok r"
| "outcome_ok (Kept r) = revision_ok r"
| "outcome_ok (Discarded r) = revision_ok r"
| "outcome_ok (Failed m) = (m \<noteq> [])"
| "outcome_ok _ = True"

lemma analysisActionSchema_enc [simp]: "analysisActionSchema (JStr (analysis_action_name a)) = Some a"
  by (cases a) (simp_all add: analysisActionSchema_def analysis_action_name_def)

lemmas outcome_variant_defs = kind_only_def kind_revision_def kind_passed_def kind_measurement_def
  kind_analysis_def kind_analysis_profile_def kind_error_def

lemma outcomeSchema_enc: "outcomeSchema (enc_outcome oc) = (if outcome_ok oc then Some oc else None)"
proof (cases oc)
  case (Measured r valid inc met improved)
  then show ?thesis
    by (cases inc) (simp_all add: outcomeSchema_def outcome_variant_defs enc_outcome_def outcome_kind_def)
next
  case (Analysis a r)
  then show ?thesis
    by (cases r) (simp_all add: outcomeSchema_def outcome_variant_defs enc_outcome_def outcome_kind_def)
qed (simp_all add: outcomeSchema_def outcome_variant_defs enc_outcome_def outcome_kind_def
  analysisActionSchema_def)

record step_record =
  sr_runId :: string
  sr_step :: int
  sr_phase :: phase
  sr_revision :: string
  sr_outcome :: outcome
  sr_evidence :: "output_ref list"

definition evidenceSchema :: "output_ref list schema" where
  "evidenceSchema = z_array referenceSchema"

definition enc_refs :: "output_ref list \<Rightarrow> json" where
  "enc_refs rs = JArr (map enc_ref rs)"

definition stepResultSchema :: "step_record schema" where
  "stepResultSchema = z_strict [''runId'', ''step'', ''phase'', ''revision'', ''outcome'', ''evidence'']
     (\<lambda>o'. do {
     runId \<leftarrow> z_field o' ''runId'' runIdSchema;
     step \<leftarrow> z_field o' ''step'' (z_int_if z_positive);
     phase \<leftarrow> z_field o' ''phase'' phaseSchema;
     revision \<leftarrow> z_field o' ''revision'' revisionSchema;
     oc \<leftarrow> z_field o' ''outcome'' outcomeSchema;
     evidence \<leftarrow> z_field o' ''evidence'' evidenceSchema;
     Some \<lparr>sr_runId = runId, sr_step = step, sr_phase = phase, sr_revision = revision,
       sr_outcome = oc, sr_evidence = evidence\<rparr> })"

definition enc_step :: "step_record \<Rightarrow> json" where
  "enc_step r = JObj [(''runId'', JStr (sr_runId r)), (''step'', j_int (sr_step r)),
     (''phase'', JStr (phase_name (sr_phase r))), (''revision'', JStr (sr_revision r)),
     (''outcome'', enc_outcome (sr_outcome r)), (''evidence'', enc_refs (sr_evidence r))]"

definition step_ok :: "step_record \<Rightarrow> bool" where
  "step_ok r \<longleftrightarrow> run_id_ok (sr_runId r) \<and> z_positive (sr_step r) \<and> revision_ok (sr_revision r) \<and>
     outcome_ok (sr_outcome r) \<and> list_all ref_ok (sr_evidence r)"

lemma evidenceSchema_enc:
  "evidenceSchema (enc_refs rs) = (if list_all ref_ok rs then Some rs else None)"
proof -
  have "those (map (\<lambda>r. referenceSchema (enc_ref r)) rs) =
      (if list_all ref_ok rs then Some rs else None)"
    by (induction rs) auto
  then show ?thesis
    by (simp add: evidenceSchema_def enc_refs_def z_array_def z_array_if_def comp_def del: referenceSchema_enc)
qed

lemma stepResultSchema_enc: "stepResultSchema (enc_step r) = (if step_ok r then Some r else None)"
  by (simp add: stepResultSchema_def enc_step_def outcomeSchema_enc evidenceSchema_enc step_ok_def)

end
