(* ===== verification/Store.thy ===== *)
theory Store
  imports Schemas
begin

text \<open>
  The resource store of \<^verbatim>\<open>_lib/inference.ts\<close> (\<^verbatim>\<open>interface ResourceStore\<close>): named resources with
  numbered versions. What the code relies on is a locale: a write appends one version and
  answers its reference, a read answers the version asked for or the latest one, and nothing
  else changes. The in-memory store of \<^verbatim>\<open>swamp/tests/fixtures/store.ts\<close> is an instance.
\<close>

section \<open>Actions on a store\<close>

text \<open>
  An asynchronous function that awaits the store: it returns or throws, and what it wrote
  stays written in both cases.
\<close>

type_synonym ('st, 'a) action = "'st \<Rightarrow> 'a res \<times> 'st"

definition returnA :: "'a \<Rightarrow> ('st, 'a) action" where
  "returnA x = (\<lambda>st. (Inr x, st))"

definition liftA :: "'a res \<Rightarrow> ('st, 'a) action" where
  "liftA r = (\<lambda>st. (r, st))"

definition bindA :: "('st, 'a) action \<Rightarrow> ('a \<Rightarrow> ('st, 'b) action) \<Rightarrow> ('st, 'b) action" where
  "bindA m f = (\<lambda>st. case m st of (Inl e, st') \<Rightarrow> (Inl e, st') | (Inr x, st') \<Rightarrow> f x st')"

text \<open>\<^verbatim>\<open>try { m } catch (e) { handler(e) }\<close>.\<close>

definition catchA :: "('st, 'a) action \<Rightarrow> (js_error \<Rightarrow> ('st, 'a) action) \<Rightarrow> ('st, 'a) action" where
  "catchA m h = (\<lambda>st. case m st of (Inl e, st') \<Rightarrow> h e st' | (Inr x, st') \<Rightarrow> (Inr x, st'))"

record 'st store_ops =
  so_write :: "string \<Rightarrow> string \<Rightarrow> json \<Rightarrow> ('st, output_ref) action"
  so_read :: "string \<Rightarrow> int option \<Rightarrow> ('st, json option) action"

lemma bindA_Inr: "bindA m f st = (Inr y, st') \<longleftrightarrow>
    (\<exists>x st1. m st = (Inr x, st1) \<and> f x st1 = (Inr y, st'))"
  by (auto simp: bindA_def split: prod.split sum.split)

lemma bindA_pair: "m st = (Inr x, st1) \<Longrightarrow> bindA m f st = f x st1"
  by (simp add: bindA_def)

lemma bindA_pair_Inl: "m st = (Inl e, st1) \<Longrightarrow> bindA m f st = (Inl e, st1)"
  by (simp add: bindA_def)

lemma returnA_simp [simp]: "returnA x st = (Inr x, st)"
  by (simp add: returnA_def)

lemma liftA_simp [simp]: "liftA r st = (r, st)"
  by (simp add: liftA_def)

lemma bindA_liftA: "bindA (liftA r) f st = (case r of Inl e \<Rightarrow> (Inl e, st) | Inr x \<Rightarrow> f x st)"
  by (simp add: bindA_def split: sum.split)

lemma bindA_returnA [simp]: "bindA (returnA x) f = f x"
  by (simp add: bindA_def fun_eq_iff)

section \<open>The interface\<close>

text \<open>The version asked for, the latest without one; versions count from one.\<close>

definition version_at :: "json list \<Rightarrow> int option \<Rightarrow> json option" where
  "version_at vs v = (let n = (case v of None \<Rightarrow> int (length vs) | Some i \<Rightarrow> i) in
     if 1 \<le> n \<and> n \<le> int (length vs) then Some (vs ! nat (n - 1)) else None)"

lemma version_at_Nil [simp]: "version_at [] v = None"
  by (simp add: version_at_def Let_def)

lemma version_at_latest [simp]: "version_at (vs @ [x]) None = Some x"
  by (simp add: version_at_def)

lemma version_at_new [simp]: "version_at (vs @ [x]) (Some (int (length vs) + 1)) = Some x"
  by (simp add: version_at_def)

lemma version_at_old: "version_at vs (Some n) = Some y \<Longrightarrow> version_at (vs @ [x]) (Some n) = Some y"
  by (auto simp: version_at_def nth_append split: if_splits)

lemma version_at_None_iff [simp]: "version_at vs None = None \<longleftrightarrow> vs = []"
  by (cases vs) (simp_all add: version_at_def)

text \<open>
  \<open>normal spec val\<close> is what the schema of the resource kind parses the value to, the value the
  store keeps.
\<close>

locale resource_store =
  fixes ops :: "'st store_ops"
    and versions :: "'st \<Rightarrow> string \<Rightarrow> json list"
    and normal :: "string \<Rightarrow> json \<Rightarrow> json option"
  assumes read_lookup: "so_read ops name v st = (r, st') \<Longrightarrow>
      st' = st \<and> (case r of Inl _ \<Rightarrow> True | Inr x \<Rightarrow> x = version_at (versions st name) v)"
    and write_appends: "so_write ops spec name val st = (Inr ref', st') \<Longrightarrow>
      (\<exists>w. normal spec val = Some w \<and>
        versions st' = (versions st)(name := versions st name @ [w])) \<and>
      or_name ref' = name \<and> or_version ref' = int (length (versions st name)) + 1"
    and write_fails: "so_write ops spec name val st = (Inl e, st') \<Longrightarrow> versions st' = versions st"
begin

lemma read_Inr: "so_read ops name v st = (Inr x, st') \<Longrightarrow>
    st' = st \<and> x = version_at (versions st name) v"
  using read_lookup by fastforce

lemma write_Inr:
  assumes "so_write ops spec name val st = (Inr ref', st')"
  obtains w where "normal spec val = Some w"
    "versions st' = (versions st)(name := versions st name @ [w])"
    "ref' = \<lparr>or_name = name, or_version = int (length (versions st name)) + 1\<rparr>"
  using write_appends [OF assms] by (cases ref') auto

text \<open>What was written is what the next read sees, under the version the write answered.\<close>

lemma read_after_write:
  assumes "so_write ops spec name val st = (Inr ref', st')"
    and "so_read ops name (Some (or_version ref')) st' = (Inr x, st'')"
  shows "x = normal spec val \<and> x \<noteq> None \<and> st'' = st'"
  using write_appends [OF assms(1)] read_Inr [OF assms(2)] by auto

lemma read_latest_after_write:
  assumes "so_write ops spec name val st = (Inr ref', st')"
    and "so_read ops name None st' = (Inr x, st'')"
  shows "x = normal spec val \<and> x \<noteq> None \<and> st'' = st'"
  using write_appends [OF assms(1)] read_Inr [OF assms(2)] by auto

text \<open>A saved version never changes: later writes leave every earlier reference readable.\<close>

lemma write_keeps_versions:
  assumes "so_write ops spec name val st = (r, st')"
    and "version_at (versions st name') (Some n) = Some y"
  shows "version_at (versions st' name') (Some n) = Some y"
proof (cases r)
  case (Inl e)
  with assms show ?thesis using write_fails by simp
next
  case (Inr ref')
  then show ?thesis
    using write_appends [of spec name val st ref' st'] assms version_at_old by auto
qed

end

text \<open>A store that only fails on a value its schema refuses.\<close>

locale reliable_store = resource_store +
  assumes read_succeeds: "\<exists>x. so_read ops name v st = (Inr x, st)"
    and write_succeeds:
      "normal spec val = Some w \<Longrightarrow> \<exists>ref' st'. so_write ops spec name val st = (Inr ref', st')"
begin

lemma read_eq: "so_read ops name v st = (Inr (version_at (versions st name) v), st)"
  using read_succeeds read_Inr by metis

lemma write_eq:
  assumes "normal spec val = Some w"
  obtains st' where "so_write ops spec name val st =
      (Inr \<lparr>or_name = name, or_version = int (length (versions st name)) + 1\<rparr>, st')"
    "versions st' = (versions st)(name := versions st name @ [w])"
proof -
  obtain ref' st' where w: "so_write ops spec name val st = (Inr ref', st')"
    using write_succeeds [OF assms] by blast
  show ?thesis by (rule write_Inr [OF w], rule that) (use w assms in simp_all)
qed

end

text \<open>The resource kinds of the driver: typed values are kept as they were written.\<close>

locale tempo_store = resource_store +
  assumes state_normal: "normal ''state'' (enc_state s) = (if state_ok s then Some (enc_state s) else None)"
    and step_normal: "normal ''step'' (enc_step r) = (if step_ok r then Some (enc_step r) else None)"

section \<open>The in-memory store\<close>

text \<open>
  The map from names to versions of the test fixture. Its resource table (the schemas of
  \<^verbatim>\<open>model.resources\<close> in \<^verbatim>\<open>tempo.ts\<close>) is an argument: a schema answers the value it stores.
\<close>

type_synonym mem_store = "string \<Rightarrow> json list"
type_synonym resource_table = "string \<Rightarrow> json schema option"

definition mem_read :: "string \<Rightarrow> int option \<Rightarrow> (mem_store, json option) action" where
  "mem_read name v = (\<lambda>st. (Inr (version_at (st name) v), st))"

definition mem_write :: "resource_table \<Rightarrow> string \<Rightarrow> string \<Rightarrow> json \<Rightarrow> (mem_store, output_ref) action" where
  "mem_write table spec name val = (\<lambda>st. case table spec of
     None \<Rightarrow> (Inl (Error (''Unknown resource '' @ spec)), st)
   | Some sch \<Rightarrow> (case sch val of
       None \<Rightarrow> (Inl (ZodError spec), st)
     | Some parsed \<Rightarrow>
         (Inr \<lparr>or_name = name, or_version = int (length (st name)) + 1\<rparr>,
          st(name := st name @ [parsed]))))"

definition mem_ops :: "resource_table \<Rightarrow> mem_store store_ops" where
  "mem_ops table = \<lparr>so_write = mem_write table, so_read = mem_read\<rparr>"

text \<open>\<^verbatim>\<open>parse\<close> answers a new value: the typed one, written back in the order of the shape.\<close>

definition reencode :: "('a \<Rightarrow> json) \<Rightarrow> 'a schema \<Rightarrow> json schema" where
  "reencode enc sch v = map_option enc (sch v)"

definition table_normal :: "resource_table \<Rightarrow> string \<Rightarrow> json \<Rightarrow> json option" where
  "table_normal table spec v = Option.bind (table spec) (\<lambda>sch. sch v)"

interpretation mem: reliable_store "mem_ops table" "\<lambda>st :: mem_store. st" "table_normal table"
  for table
proof
  fix name v r spec val ref' e w and st st' :: mem_store
  show "so_read (mem_ops table) name v st = (r, st') \<Longrightarrow>
      st' = st \<and> (case r of Inl _ \<Rightarrow> True | Inr x \<Rightarrow> x = version_at (st name) v)"
    by (auto simp: mem_ops_def mem_read_def)
  show "so_write (mem_ops table) spec name val st = (Inr ref', st') \<Longrightarrow>
      (\<exists>w. table_normal table spec val = Some w \<and> st' = st(name := st name @ [w])) \<and>
      or_name ref' = name \<and> or_version ref' = int (length (st name)) + 1"
    by (auto simp: mem_ops_def mem_write_def table_normal_def split: option.splits)
  show "so_write (mem_ops table) spec name val st = (Inl e, st') \<Longrightarrow> st' = st"
    by (auto simp: mem_ops_def mem_write_def split: option.splits)
  show "\<exists>x. so_read (mem_ops table) name v st = (Inr x, st)"
    by (simp add: mem_ops_def mem_read_def)
  show "table_normal table spec val = Some w \<Longrightarrow>
      \<exists>ref' st'. so_write (mem_ops table) spec name val st = (Inr ref', st')"
    by (auto simp: mem_ops_def mem_write_def table_normal_def bind_eq_Some_conv)
qed

end
