(* ===== verification/Inference.thy ===== *)
theory Inference
  imports Store
begin

text \<open>
  \<^verbatim>\<open>_lib/inference.ts\<close>: the schemas of the five inference stages, the saving of a response with
  its verdict, and the reading of a saved one; and \<open>readInferenceEffect\<close> of \<^verbatim>\<open>_lib/driver.ts\<close>,
  which turns a saved response into the outcome of the active step. \<^verbatim>\<open>JSON.parse\<close> is the
  argument \<open>jparse\<close>: every statement holds for whatever value it reads from the text.
\<close>

section \<open>Stage results\<close>

definition z_text :: "string schema" where
  "z_text = z_string_if (\<lambda>s. 1 \<le> length s \<and> length s \<le> 12000)"

definition citedSchema :: "output_ref list schema" where
  "citedSchema = z_array_if (\<lambda>xs. 1 \<le> length xs) referenceSchema"

record research_finding =
  rf_claim :: string
  rf_source :: string

datatype severity = Blocking | Suggestion

record review_finding =
  vf_severity :: severity
  vf_file :: string
  vf_description :: string

datatype inference_result =
  AskChange string "string list" "output_ref list"
| AskResearch string "output_ref list"
| AskProfile profile_event string "output_ref list"
| AskStop string "output_ref list"
| ResearchNotes "research_finding list" string "output_ref list"
| EditSummary string "output_ref list"
| ReviewVerdict bool "review_finding list" "output_ref list"

fun result_evidence :: "inference_result \<Rightarrow> output_ref list" where
  "result_evidence (AskChange _ _ ev) = ev"
| "result_evidence (AskResearch _ ev) = ev"
| "result_evidence (AskProfile _ _ ev) = ev"
| "result_evidence (AskStop _ ev) = ev"
| "result_evidence (ResearchNotes _ _ ev) = ev"
| "result_evidence (EditSummary _ ev) = ev"
| "result_evidence (ReviewVerdict _ _ ev) = ev"

definition changeSchema :: "inference_result schema" where
  "changeSchema = z_strict [''action'', ''hypothesis'', ''plan'', ''evidence''] (\<lambda>o'. do {
     _ \<leftarrow> z_field o' ''action'' (z_literal ''change'');
     hypothesis \<leftarrow> z_field o' ''hypothesis'' z_text;
     plan \<leftarrow> z_field o' ''plan'' (z_array_if (\<lambda>xs. 1 \<le> length xs \<and> length xs \<le> 12) z_text);
     evidence \<leftarrow> z_field o' ''evidence'' citedSchema;
     Some (AskChange hypothesis plan evidence) })"

definition askResearchSchema :: "inference_result schema" where
  "askResearchSchema = z_strict [''action'', ''question'', ''evidence''] (\<lambda>o'. do {
     _ \<leftarrow> z_field o' ''action'' (z_literal ''research'');
     question \<leftarrow> z_field o' ''question'' z_text;
     evidence \<leftarrow> z_field o' ''evidence'' citedSchema;
     Some (AskResearch question evidence) })"

definition askProfileSchema :: "inference_result schema" where
  "askProfileSchema = z_strict [''action'', ''event'', ''question'', ''evidence''] (\<lambda>o'. do {
     _ \<leftarrow> z_field o' ''action'' (z_literal ''profile'');
     event \<leftarrow> z_field o' ''event'' profileEventSchema;
     question \<leftarrow> z_field o' ''question'' z_text;
     evidence \<leftarrow> z_field o' ''evidence'' citedSchema;
     Some (AskProfile event question evidence) })"

definition askStopSchema :: "inference_result schema" where
  "askStopSchema = z_strict [''action'', ''reason'', ''evidence''] (\<lambda>o'. do {
     _ \<leftarrow> z_field o' ''action'' (z_literal ''stop'');
     reason \<leftarrow> z_field o' ''reason'' z_text;
     evidence \<leftarrow> z_field o' ''evidence'' citedSchema;
     Some (AskStop reason evidence) })"

definition researchSchema :: "inference_result schema" where
  "researchSchema = z_strict [''findings'', ''recommendation'', ''evidence''] (\<lambda>o'. do {
     findings \<leftarrow> z_field o' ''findings'' (z_array_if (\<lambda>xs. length xs \<le> 20)
       (z_strict [''claim'', ''source''] (\<lambda>f. do {
          claim \<leftarrow> z_field f ''claim'' z_text;
          source \<leftarrow> z_field f ''source'' z_text;
          Some \<lparr>rf_claim = claim, rf_source = source\<rparr> })));
     recommendation \<leftarrow> z_field o' ''recommendation'' z_text;
     evidence \<leftarrow> z_field o' ''evidence'' citedSchema;
     Some (ResearchNotes findings recommendation evidence) })"

definition editSchema :: "inference_result schema" where
  "editSchema = z_strict [''summary'', ''evidence''] (\<lambda>o'. do {
     summary \<leftarrow> z_field o' ''summary'' z_text;
     evidence \<leftarrow> z_field o' ''evidence'' citedSchema;
     Some (EditSummary summary evidence) })"

definition reviewSchema :: "inference_result schema" where
  "reviewSchema = z_strict [''verdict'', ''findings'', ''evidence''] (\<lambda>o'. do {
     pass \<leftarrow> z_field o' ''verdict'' (z_enum [(''pass'', True), (''fail'', False)]);
     findings \<leftarrow> z_field o' ''findings'' (z_array_if (\<lambda>xs. length xs \<le> 30)
       (z_strict [''severity'', ''file'', ''description''] (\<lambda>f. do {
          severity \<leftarrow> z_field f ''severity''
            (z_enum [(''blocking'', Blocking), (''suggestion'', Suggestion)]);
          file \<leftarrow> z_field f ''file'' z_text;
          description \<leftarrow> z_field f ''description'' z_text;
          Some \<lparr>vf_severity = severity, vf_file = file, vf_description = description\<rparr> })));
     evidence \<leftarrow> z_field o' ''evidence'' citedSchema;
     if \<not> pass \<or> \<not> list_ex (\<lambda>f. vf_severity f = Blocking) findings
     then Some (ReviewVerdict pass findings evidence) else None })"

definition inferenceSchemas :: "phase \<Rightarrow> inference_result schema" where
  "inferenceSchemas stage = (case stage of
     PAnalyze \<Rightarrow> z_union [changeSchema, askResearchSchema, askProfileSchema, askStopSchema]
   | PResearch \<Rightarrow> researchSchema
   | PImplement \<Rightarrow> editSchema
   | PRepair \<Rightarrow> editSchema
   | PReview \<Rightarrow> reviewSchema
   | _ \<Rightarrow> (\<lambda>_. None))"

section \<open>Saved inference records\<close>

record inference_context =
  ic_runId :: string
  ic_step :: int
  ic_stage :: phase
  ic_revision :: string
  ic_snapshotSha256 :: string
  ic_inputs :: "output_ref list"

record inference_record = inference_context +
  ir_raw :: output_ref
  ir_valid :: bool
  ir_error :: "string option"
  ir_result :: "json option"

definition stageSchema :: "phase schema" where
  "stageSchema = z_enum [(''analyze'', PAnalyze), (''research'', PResearch),
     (''implement'', PImplement), (''repair'', PRepair), (''review'', PReview)]"

definition inferenceRecordSchema :: "inference_record schema" where
  "inferenceRecordSchema = z_strict [''runId'', ''step'', ''stage'', ''revision'',
     ''snapshotSha256'', ''inputs'', ''raw'', ''status'', ''error'', ''result''] (\<lambda>o'. do {
     runId \<leftarrow> z_field o' ''runId'' z_string_min1;
     step \<leftarrow> z_field o' ''step'' (z_int_if z_positive);
     stage \<leftarrow> z_field o' ''stage'' stageSchema;
     revision \<leftarrow> z_field o' ''revision'' revisionSchema;
     snapshot \<leftarrow> z_field o' ''snapshotSha256'' sha256Schema;
     inputs \<leftarrow> z_field o' ''inputs'' citedSchema;
     raw \<leftarrow> z_field o' ''raw'' referenceSchema;
     valid \<leftarrow> z_field o' ''status'' (z_enum [(''valid'', True), (''invalid'', False)]);
     error \<leftarrow> z_field o' ''error'' (z_nullable z_string);
     result \<leftarrow> z_field o' ''result'' (z_nullable z_record);
     Some \<lparr>ic_runId = runId, ic_step = step, ic_stage = stage, ic_revision = revision,
       ic_snapshotSha256 = snapshot, ic_inputs = inputs, ir_raw = raw, ir_valid = valid,
       ir_error = error, ir_result = result\<rparr> })"

text \<open>\<^verbatim>\<open>inferenceContextSchema\<close> and \<^verbatim>\<open>inferenceRawSchema\<close> of \<^verbatim>\<open>schemas.ts\<close>, with the stricter run id.\<close>

record inference_raw = inference_context +
  rw_text :: string
  rw_exitCode :: "int option"

definition context_body :: "(string \<times> json) list \<Rightarrow> inference_context option" where
  "context_body o' = do {
     runId \<leftarrow> z_field o' ''runId'' runIdSchema;
     step \<leftarrow> z_field o' ''step'' (z_int_if z_positive);
     stage \<leftarrow> z_field o' ''stage'' stageSchema;
     revision \<leftarrow> z_field o' ''revision'' revisionSchema;
     snapshot \<leftarrow> z_field o' ''snapshotSha256'' sha256Schema;
     inputs \<leftarrow> z_field o' ''inputs'' citedSchema;
     Some \<lparr>ic_runId = runId, ic_step = step, ic_stage = stage, ic_revision = revision,
       ic_snapshotSha256 = snapshot, ic_inputs = inputs\<rparr> }"

definition inferenceContextSchema :: "inference_context schema" where
  "inferenceContextSchema = z_strict [''runId'', ''step'', ''stage'', ''revision'',
     ''snapshotSha256'', ''inputs''] context_body"

definition inferenceRawSchema :: "inference_raw schema" where
  "inferenceRawSchema = z_strict [''runId'', ''step'', ''stage'', ''revision'', ''snapshotSha256'',
     ''inputs'', ''text'', ''exitCode''] (\<lambda>o'. do {
     c \<leftarrow> context_body o';
     txt \<leftarrow> z_field o' ''text'' z_string;
     exitCode \<leftarrow> z_field o' ''exitCode'' (z_nullable (z_int_if safe_integer));
     Some (inference_context.extend c \<lparr>rw_text = txt, rw_exitCode = exitCode\<rparr>) })"

text \<open>The properties of a context, written in front of those a record or a raw output adds.\<close>

definition context_fields :: "'a inference_context_scheme \<Rightarrow> (string \<times> json) list" where
  "context_fields c = [(''runId'', JStr (ic_runId c)), (''step'', j_int (ic_step c)),
     (''stage'', JStr (phase_name (ic_stage c))), (''revision'', JStr (ic_revision c)),
     (''snapshotSha256'', JStr (ic_snapshotSha256 c)), (''inputs'', enc_refs (ic_inputs c))]"

definition enc_inference :: "inference_record \<Rightarrow> json" where
  "enc_inference r = JObj (context_fields r @ [(''raw'', enc_ref (ir_raw r)),
     (''status'', JStr (if ir_valid r then ''valid'' else ''invalid'')),
     (''error'', j_nullable JStr (ir_error r)),
     (''result'', (case ir_result r of None \<Rightarrow> JNull | Some v \<Rightarrow> v))])"

definition enc_raw_record :: "inference_raw \<Rightarrow> json" where
  "enc_raw_record r = JObj (context_fields r @
     [(''text'', JStr (rw_text r)), (''exitCode'', j_nullable j_int (rw_exitCode r))])"

definition enc_raw :: "inference_context \<Rightarrow> string \<Rightarrow> int option \<Rightarrow> json" where
  "enc_raw c txt exitCode = JObj (context_fields c @
     [(''text'', JStr txt), (''exitCode'', j_nullable j_int exitCode)])"

definition context_ok :: "'a inference_context_scheme \<Rightarrow> bool" where
  "context_ok c \<longleftrightarrow> ic_runId c \<noteq> [] \<and> z_positive (ic_step c) \<and> inference_phase (ic_stage c) \<and>
     revision_ok (ic_revision c) \<and> sha256_ok (ic_snapshotSha256 c) \<and>
     ic_inputs c \<noteq> [] \<and> list_all ref_ok (ic_inputs c)"

definition is_object :: "json \<Rightarrow> bool" where
  "is_object v = (case v of JObj _ \<Rightarrow> True | _ \<Rightarrow> False)"

definition inference_ok :: "inference_record \<Rightarrow> bool" where
  "inference_ok r \<longleftrightarrow> context_ok r \<and> ref_ok (ir_raw r) \<and>
     (case ir_result r of None \<Rightarrow> True | Some v \<Rightarrow> is_object v)"

lemma citedSchema_enc [simp]:
  "citedSchema (enc_refs rs) = (if rs \<noteq> [] \<and> list_all ref_ok rs then Some rs else None)"
proof -
  have "those (map referenceSchema (map enc_ref rs)) = (if list_all ref_ok rs then Some rs else None)"
    by (induction rs) auto
  then show ?thesis
    by (cases rs) (auto simp: citedSchema_def enc_refs_def z_array_if_def)
qed

lemma stageSchema_enc [simp]:
  "stageSchema (JStr (phase_name p)) = (if inference_phase p then Some p else None)"
  by (cases p) (simp_all add: stageSchema_def phase_name_def)

lemma inferenceRecordSchema_enc:
  assumes "ir_result r \<noteq> Some JNull"
  shows "inferenceRecordSchema (enc_inference r) = (if inference_ok r then Some r else None)"
proof (cases "ir_result r")
  case None
  then show ?thesis
    by (cases "ir_error r") (simp_all add: inferenceRecordSchema_def enc_inference_def
      context_fields_def inference_ok_def context_ok_def)
next
  case (Some v)
  with assms show ?thesis
    by (cases "ir_error r"; cases v) (simp_all add: inferenceRecordSchema_def enc_inference_def
      context_fields_def inference_ok_def context_ok_def is_object_def z_nullable_def z_record_def)
qed


section \<open>Saving and reading a response\<close>

text \<open>The labels \<^verbatim>\<open>name@version\<close> by which cited outputs are compared.\<close>

definition ref_label :: "output_ref \<Rightarrow> string" where
  "ref_label r = or_name r @ ''@'' @ dec_int (or_version r)"

text \<open>
  The verdict on a response. The schemas of all stages are strict, so that what they parse has the keys
  of the response and no other; the model keeps the response itself, which differs from the parsed
  object at most in the order of its keys.
\<close>

definition check_response :: "(string \<Rightarrow> json res) \<Rightarrow> inference_context \<Rightarrow> string \<Rightarrow> int option \<Rightarrow>
    string option \<Rightarrow> json res" where
  "check_response jparse c raw exitCode failure = (case failure of
     Some m \<Rightarrow> Inl (Error m)
   | None \<Rightarrow>
       if exitCode \<noteq> Some 0
       then Inl (Error (''Pi exited with status '' @
         (case exitCode of None \<Rightarrow> ''null'' | Some i \<Rightarrow> dec_int i)))
       else bindR (jparse raw) (\<lambda>v.
         bindR (zparse ''inference'' (inferenceSchemas (ic_stage c)) v) (\<lambda>parsed.
           if list_ex (\<lambda>r. ref_label r \<notin> set (map ref_label (ic_inputs c))) (result_evidence parsed)
           then Inl (Error ''Pi cited an output that was not in its saved inputs'')
           else Inr v)))"

definition inference_name :: "inference_context \<Rightarrow> string \<Rightarrow> string" where
  "inference_name c suffix = ic_runId c @ ''-pi-'' @ dec_int (ic_step c) @ ''-'' @ suffix"

definition verdict_record :: "inference_context \<Rightarrow> output_ref \<Rightarrow> json res \<Rightarrow> inference_record" where
  "verdict_record c raw verdict =
     \<lparr>ic_runId = ic_runId c, ic_step = ic_step c, ic_stage = ic_stage c, ic_revision = ic_revision c,
      ic_snapshotSha256 = ic_snapshotSha256 c, ic_inputs = ic_inputs c, ir_raw = raw,
      ir_valid = (case verdict of Inl _ \<Rightarrow> False | Inr _ \<Rightarrow> True),
      ir_error = (case verdict of Inl e \<Rightarrow> Some (error_message e) | Inr _ \<Rightarrow> None),
      ir_result = (case verdict of Inl _ \<Rightarrow> None | Inr v \<Rightarrow> Some v)\<rparr>"

record saved_inference =
  si_raw :: output_ref
  si_saved :: output_ref
  si_record :: inference_record

definition saveInference :: "'st store_ops \<Rightarrow> (string \<Rightarrow> json res) \<Rightarrow> inference_context \<Rightarrow> string \<Rightarrow>
    int option \<Rightarrow> string option \<Rightarrow> ('st, saved_inference) action" where
  "saveInference ops jparse c rawOutput exitCode failure =
     bindA (so_write ops ''inferenceRaw'' (inference_name c ''raw'') (enc_raw c rawOutput exitCode))
     (\<lambda>raw. bindA (liftA (zparse ''inference'' inferenceRecordSchema (enc_inference
         (verdict_record c raw (check_response jparse c rawOutput exitCode failure)))))
     (\<lambda>rec. bindA (so_write ops ''inference'' (inference_name c ''result'') (enc_inference rec))
     (\<lambda>saved. returnA \<lparr>si_raw = raw, si_saved = saved, si_record = rec\<rparr>)))"

definition inference_mismatch :: "string \<Rightarrow> 'a res" where
  "inference_mismatch field = Inl (Error (''Saved inference '' @ field @ '' does not match''))"

definition readInference :: "'st store_ops \<Rightarrow> output_ref \<Rightarrow> inference_context \<Rightarrow>
    ('st, inference_result) action" where
  "readInference ops reference expected =
     bindA (so_read ops (or_name reference) (Some (or_version reference)))
     (\<lambda>v. bindA (liftA (zparse ''inference'' inferenceRecordSchema (or_null v)))
     (\<lambda>r. liftA
       (if \<not> ir_valid r then Inl (Error ''Cannot use an invalid inference output'')
        else if ic_runId r \<noteq> ic_runId expected then inference_mismatch ''runId''
        else if ic_step r \<noteq> ic_step expected then inference_mismatch ''step''
        else if ic_stage r \<noteq> ic_stage expected then inference_mismatch ''stage''
        else if ic_revision r \<noteq> ic_revision expected then inference_mismatch ''revision''
        else if ic_snapshotSha256 r \<noteq> ic_snapshotSha256 expected
        then inference_mismatch ''snapshotSha256''
        else if ic_inputs r \<noteq> ic_inputs expected
        then Inl (Error ''Saved inference inputs do not match'')
        else zparse ''inference'' (inferenceSchemas (ic_stage r)) (or_null (ir_result r)))))"

section \<open>From a saved response to the outcome of a step\<close>

record step_effect =
  se_outcome :: outcome
  se_evidence :: "output_ref list"

definition effect_outcome :: "run_state \<Rightarrow> string option \<Rightarrow> inference_result \<Rightarrow> outcome res" where
  "effect_outcome s editedRevision result = (case result of
     AskProfile event _ _ \<Rightarrow> Inr (AnalysisProfile event)
   | AskStop reason _ \<Rightarrow> Inr (Analysis Stop (Some reason))
   | AskChange _ _ _ \<Rightarrow> Inr (Analysis Change None)
   | AskResearch _ _ \<Rightarrow> Inr (Analysis ResearchAction None)
   | ReviewVerdict pass _ _ \<Rightarrow> Inr (Reviewed (st_workingRevision s) pass)
   | ResearchNotes _ _ _ \<Rightarrow> Inr Researched
   | EditSummary _ _ \<Rightarrow> (case editedRevision of
       Some r \<Rightarrow> bindR (zparse ''revision'' revisionSchema (JStr r)) (\<lambda>r. Inr (Edited r))
     | None \<Rightarrow> Inl (ZodError ''revision'')))"

definition context_matches :: "run_state \<Rightarrow> inference_context \<Rightarrow> bool" where
  "context_matches s c \<longleftrightarrow> st_activeStep s = Some (st_sequence s) \<and>
     st_activeStep s = Some (ic_step c) \<and> st_runId s = ic_runId c \<and> st_phase s = ic_stage c \<and>
     st_workingRevision s = ic_revision c"

definition readInferenceEffect :: "'st store_ops \<Rightarrow> run_state \<Rightarrow> inference_context \<Rightarrow> output_ref \<Rightarrow>
    string option \<Rightarrow> ('st, step_effect) action" where
  "readInferenceEffect ops s c reference editedRevision =
     catchA
       (bindA (liftA (if context_matches s c then Inr ()
           else Inl (Error ''Inference does not match the active step'')))
        (\<lambda>_. bindA (readInference ops reference c)
        (\<lambda>result. bindA (liftA (effect_outcome s editedRevision result))
        (\<lambda>oc. returnA \<lparr>se_outcome = oc, se_evidence = [reference]\<rparr>))))
       (\<lambda>e. returnA \<lparr>se_outcome = Failed (error_string e), se_evidence = [reference]\<rparr>)"


section \<open>What the schemas guarantee\<close>

lemma z_strict_Some: "z_strict ks body v = Some x \<Longrightarrow>
    \<exists>kvs. v = JObj kvs \<and> list_all (\<lambda>(k, _). k \<in> set ks) kvs \<and> body kvs = Some x"
  by (auto simp: z_strict_def split: json.splits if_splits)

lemma citedSchema_ok: "citedSchema v = Some rs \<Longrightarrow> rs \<noteq> [] \<and> list_all ref_ok rs"
  by (auto simp: citedSchema_def z_array_if_def those_map_Some list_all_length list_all2_conv_all_nth
      split: json.splits option.splits if_splits dest: referenceSchema_ok)

lemmas stage_schema_defs = changeSchema_def askResearchSchema_def askProfileSchema_def
  askStopSchema_def researchSchema_def editSchema_def reviewSchema_def

lemma stage_result_shape:
  "changeSchema v = Some r \<Longrightarrow> \<exists>h p ev. r = AskChange h p ev \<and> is_object v \<and> ev \<noteq> [] \<and> list_all ref_ok ev"
  "askResearchSchema v = Some r \<Longrightarrow> \<exists>q ev. r = AskResearch q ev \<and> is_object v \<and> ev \<noteq> [] \<and> list_all ref_ok ev"
  "askProfileSchema v = Some r \<Longrightarrow> \<exists>e q ev. r = AskProfile e q ev \<and> is_object v \<and> ev \<noteq> [] \<and> list_all ref_ok ev"
  "askStopSchema v = Some r \<Longrightarrow> \<exists>q ev. r = AskStop q ev \<and> is_object v \<and> ev \<noteq> [] \<and> list_all ref_ok ev"
  "researchSchema v = Some r \<Longrightarrow> \<exists>f q ev. r = ResearchNotes f q ev \<and> is_object v \<and> ev \<noteq> [] \<and> list_all ref_ok ev"
  "editSchema v = Some r \<Longrightarrow> \<exists>q ev. r = EditSummary q ev \<and> is_object v \<and> ev \<noteq> [] \<and> list_all ref_ok ev"
  "reviewSchema v = Some r \<Longrightarrow> \<exists>b f ev. r = ReviewVerdict b f ev \<and> is_object v \<and> ev \<noteq> [] \<and>
     list_all ref_ok ev \<and> (b \<longrightarrow> \<not> list_ex (\<lambda>x. vf_severity x = Blocking) f)"
  unfolding stage_schema_defs
  by (drule z_strict_Some, clarsimp simp: bind_eq_Some_conv is_object_def split: if_splits,
      blast dest: z_field_Some citedSchema_ok)+

text \<open>The variants a stage can answer, with the evidence they cite.\<close>

definition stage_accepts :: "phase \<Rightarrow> inference_result \<Rightarrow> bool" where
  "stage_accepts stage r = (case r of
     AskChange _ _ _ \<Rightarrow> stage = PAnalyze | AskResearch _ _ \<Rightarrow> stage = PAnalyze
   | AskProfile _ _ _ \<Rightarrow> stage = PAnalyze | AskStop _ _ \<Rightarrow> stage = PAnalyze
   | ResearchNotes _ _ _ \<Rightarrow> stage = PResearch
   | EditSummary _ _ \<Rightarrow> stage = PImplement \<or> stage = PRepair
   | ReviewVerdict b fs _ \<Rightarrow> stage = PReview \<and>
       (b \<longrightarrow> \<not> list_ex (\<lambda>x. vf_severity x = Blocking) fs))"

lemma inferenceSchemas_accepts:
  assumes "inferenceSchemas stage v = Some r"
  shows "stage_accepts stage r \<and> is_object v \<and> result_evidence r \<noteq> [] \<and> list_all ref_ok (result_evidence r)"
proof (cases stage)
  case PAnalyze
  with assms have "changeSchema v = Some r \<or> askResearchSchema v = Some r \<or>
      askProfileSchema v = Some r \<or> askStopSchema v = Some r"
    by (auto simp: inferenceSchemas_def split: option.splits)
  with PAnalyze show ?thesis by (elim disjE) (auto dest!: stage_result_shape simp: stage_accepts_def)
qed (use assms in \<open>auto simp: inferenceSchemas_def stage_accepts_def dest!: stage_result_shape\<close>)

lemma dec_int_no_at: "CHR ''@'' \<notin> set (dec_int i)"
  using dec_nat_only_digits [of "CHR ''@''"] by (simp add: dec_int_def is_digit_def)

lemma ref_label_inject: "ref_label r = ref_label q \<longleftrightarrow> r = q"
proof
  assume eq: "ref_label r = ref_label q"
  let ?f = "\<lambda>s. takeWhile (\<lambda>c. c \<noteq> CHR ''@'') (rev s)"
  have f: "?f (ref_label x) = rev (dec_int (or_version x))" for x :: output_ref
    using dec_int_no_at [of "or_version x"]
    by (simp add: ref_label_def takeWhile_append)
  from eq f [of r] f [of q] have v: "dec_int (or_version r) = dec_int (or_version q)" by simp
  with eq have "or_name r = or_name q" by (simp add: ref_label_def)
  with v show "r = q" by (cases r; cases q) simp
qed simp


lemma check_response_Inr:
  "check_response jparse c raw exitCode failure = Inr v \<longleftrightarrow>
     failure = None \<and> exitCode = Some 0 \<and> jparse raw = Inr v \<and>
     (\<exists>parsed. inferenceSchemas (ic_stage c) v = Some parsed \<and>
        set (result_evidence parsed) \<subseteq> set (ic_inputs c))"
  by (auto simp: check_response_def res_simps list_ex_iff ref_label_inject subset_iff image_iff
      split: option.splits if_splits)

lemma verdict_record_fields:
  "ir_valid (verdict_record c raw verdict) \<longleftrightarrow> (\<exists>v. verdict = Inr v)"
  "ir_result (verdict_record c raw verdict) = (case verdict of Inl _ \<Rightarrow> None | Inr v \<Rightarrow> Some v)"
  "ir_raw (verdict_record c raw verdict) = raw"
  by (auto simp: verdict_record_def split: sum.splits)

lemma saveInference_Inr:
  assumes "saveInference ops jparse c txt exitCode failure st = (Inr r, st')"
  obtains st1 where
    "so_write ops ''inferenceRaw'' (inference_name c ''raw'') (enc_raw c txt exitCode) st =
       (Inr (si_raw r), st1)"
    "si_record r = verdict_record c (si_raw r) (check_response jparse c txt exitCode failure)"
    "so_write ops ''inference'' (inference_name c ''result'') (enc_inference (si_record r)) st1 =
       (Inr (si_saved r), st')"
    "inference_ok (si_record r)"
proof -
  let ?v = "check_response jparse c txt exitCode failure"
  from assms obtain raw st1 rec saved where s:
    "so_write ops ''inferenceRaw'' (inference_name c ''raw'') (enc_raw c txt exitCode) st = (Inr raw, st1)"
    "inferenceRecordSchema (enc_inference (verdict_record c raw ?v)) = Some rec"
    "so_write ops ''inference'' (inference_name c ''result'') (enc_inference rec) st1 = (Inr saved, st')"
    "r = \<lparr>si_raw = raw, si_saved = saved, si_record = rec\<rparr>"
    by (auto simp: saveInference_def bindA_Inr res_simps)
  have "ir_result (verdict_record c raw ?v) \<noteq> Some JNull"
    using inferenceSchemas_accepts [of "ic_stage c" JNull]
    by (auto simp: verdict_record_fields check_response_Inr is_object_def split: sum.splits)
  from inferenceRecordSchema_enc [OF this] s(2)
  have "rec = verdict_record c raw ?v" "inference_ok rec" by (auto split: if_splits)
  with s show ?thesis by (intro that) simp_all
qed

section \<open>Reading back\<close>

text \<open>A store that keeps inference records as they were written.\<close>

locale inference_store = reliable_store +
  assumes inference_normal: "ir_result r \<noteq> Some JNull \<Longrightarrow> normal ''inference'' (enc_inference r) =
      (if inference_ok r then Some (enc_inference r) else None)"
begin

lemma read_saved_inference:
  assumes save: "saveInference ops jparse c txt exitCode failure st = (Inr r, st')"
  shows "readInference ops (si_saved r) c st' =
    (if ir_valid (si_record r)
     then zparse ''inference'' (inferenceSchemas (ic_stage c)) (or_null (ir_result (si_record r)))
     else Inl (Error ''Cannot use an invalid inference output''), st')"
proof -
  obtain st1 where s:
    "si_record r = verdict_record c (si_raw r) (check_response jparse c txt exitCode failure)"
    "so_write ops ''inference'' (inference_name c ''result'') (enc_inference (si_record r)) st1 =
       (Inr (si_saved r), st')"
    "inference_ok (si_record r)"
    using saveInference_Inr [OF save] by metis
  have n: "ir_result (si_record r) \<noteq> Some JNull"
    using s(3) by (auto simp: inference_ok_def is_object_def split: option.splits)
  from write_appends [OF s(2)] inference_normal [OF n] s(3) have
    "versions st' (inference_name c ''result'') =
       versions st1 (inference_name c ''result'') @ [enc_inference (si_record r)]"
    "or_name (si_saved r) = inference_name c ''result''"
    "or_version (si_saved r) = int (length (versions st1 (inference_name c ''result''))) + 1"
    by auto
  then have "so_read ops (or_name (si_saved r)) (Some (or_version (si_saved r))) st' =
      (Inr (Some (enc_inference (si_record r))), st')"
    using read_eq [of "or_name (si_saved r)" "Some (or_version (si_saved r))" st'] by simp
  moreover have "inferenceRecordSchema (enc_inference (si_record r)) = Some (si_record r)"
    using inferenceRecordSchema_enc [OF n] s(3) by simp
  ultimately show ?thesis
    by (simp add: readInference_def bindA_pair bindA_liftA zparse_def s(1))
      (simp add: verdict_record_def)
qed

end

text \<open>The outcome of an effect fits the phase of the active step.\<close>

lemma effect_outcome_Inr:
  assumes "effect_outcome s edited res = Inr oc" "stage_accepts (st_phase s) res"
  shows "\<exists>s'. finish_phase s r oc = Inr s'"
  using assms
  by (cases res) (auto simp: effect_outcome_def stage_accepts_def finish_phase_def finish_edit_def
      res_simps split: option.splits if_splits)

lemma readInference_Inr:
  assumes "readInference ops ref' c st = (Inr res, st')"
  shows "stage_accepts (ic_stage c) res"
  using assms inferenceSchemas_accepts
  by (auto simp: readInference_def bindA_Inr res_simps inference_mismatch_def split: if_splits)

lemma readInferenceEffect_cases:
  obtains (read) res oc st' where "context_matches s c" "readInference ops ref' c st = (Inr res, st')"
      "effect_outcome s edited res = Inr oc"
      "readInferenceEffect ops s c ref' edited st =
         (Inr \<lparr>se_outcome = oc, se_evidence = [ref']\<rparr>, st')"
    | (failed) e st' where "readInferenceEffect ops s c ref' edited st =
         (Inr \<lparr>se_outcome = Failed (error_string e), se_evidence = [ref']\<rparr>, st')"
proof (cases "context_matches s c")
  case False
  then show ?thesis
    by (intro that(2)) (simp add: readInferenceEffect_def catchA_def bindA_liftA)
next
  case True
  obtain rr st1 where r: "readInference ops ref' c st = (rr, st1)" by fastforce
  show ?thesis
  proof (cases rr)
    case (Inl e)
    with True r show ?thesis
      by (intro that(2)) (simp add: readInferenceEffect_def catchA_def bindA_liftA bindA_def)
  next
    case (Inr res)
    show ?thesis
    proof (cases "effect_outcome s edited res")
      case (Inl e)
      with True r Inr show ?thesis
        by (intro that(2)) (simp add: readInferenceEffect_def catchA_def bindA_liftA bindA_def)
    next
      case oc: (Inr oc)
      with True r Inr show ?thesis
        by (intro that(1)) (simp_all add: readInferenceEffect_def catchA_def bindA_liftA bindA_def)
    qed
  qed
qed

end
