(* ===== verification/Run_Lifecycle.thy ===== *)
theory Run_Lifecycle
  imports Run_State
begin

text \<open>
  The life of a run as a step relation over \<open>beginStep\<close> and \<open>finishStep\<close>: one step reserves the
  next action, as \<^verbatim>\<open>runSavedStep\<close> does, and completes it with any outcome the environment
  reports. Traces list the completed steps. The theory proves what every reachable state of a
  run satisfies, for every behaviour of the tests, measurements, inference and clock.
\<close>

section \<open>One transition\<close>

lemmas finish_simps = finish_phase_def finish_measurement_def finish_edit_def unexpected_def
  other_revision_def

text \<open>What a completed step leaves alone: identity, counters, clock, step number.\<close>

definition ledger :: "run_state \<Rightarrow>
    string \<times> string \<times> int \<times> int \<times> int \<times> int \<times> int \<times> int option \<times> (phase \<Rightarrow> output_ref option)" where
  "ledger s = (st_runId s, st_initialRevision s, st_attemptsStarted s, st_repairsThisAttempt s,
     st_piCallsStarted s, st_elapsedMs s, st_sequence s, st_activeStep s, st_outputs s)"

lemma finish_measurement_ledger: "finish_measurement s r oc = Inr s' \<Longrightarrow> ledger s' = ledger r"
  by (cases oc) (auto simp: finish_simps ledger_def split: if_splits)

lemma finish_edit_ledger: "finish_edit r oc p = Inr s' \<Longrightarrow> ledger s' = ledger r"
  by (cases oc) (auto simp: finish_simps ledger_def split: if_splits)

lemma other_action: "x \<noteq> Stop \<Longrightarrow> x \<noteq> Change \<Longrightarrow> x = ResearchAction"
  by (cases x) simp_all

text \<open>The successful completions of a phase, one disjunct per accepted outcome.\<close>

lemma finish_phase_Inr:
  assumes "finish_phase s r oc = Inr s'"
  shows "case st_phase s of
     PPrepare \<Rightarrow> oc = Prepared \<and> s' = r\<lparr>st_phase := PBaseline\<rparr>
   | PBaseline \<Rightarrow> finish_measurement s r oc = Inr s'
   | PMeasure \<Rightarrow> finish_measurement s r oc = Inr s'
   | PStartAttempt \<Rightarrow> oc = AttemptStarted \<and>
       s' = r\<lparr>st_phase := PProfile, st_requestedProfile := Ctimer, st_targetMet := False\<rparr>
   | PProfile \<Rightarrow> oc = Profiled \<and> s' = r\<lparr>st_phase := PAnalyze\<rparr>
   | PAnalyze \<Rightarrow>
       (\<exists>q. oc = Analysis Stop q \<and>
          (\<exists>t. s' = r\<lparr>st_phase := PFinish, st_stopReason := Some (''analysis:'' @ t)\<rparr>)) \<or>
       (\<exists>q. oc = Analysis Change q \<and> s' = r\<lparr>st_phase := PImplement\<rparr>) \<or>
       (\<exists>q. oc = Analysis ResearchAction q \<and> s' = r\<lparr>st_phase := PResearch\<rparr>) \<or>
       (\<exists>ev. oc = AnalysisProfile ev \<and> s' = r\<lparr>st_phase := PProfile, st_requestedProfile := ev\<rparr>)
   | PResearch \<Rightarrow> oc = Researched \<and> s' = r\<lparr>st_phase := PAnalyze\<rparr>
   | PImplement \<Rightarrow> (\<exists>v. oc = Edited v \<and> revision_ok v \<and>
       s' = r\<lparr>st_workingRevision := v, st_targetMet := False, st_phase := PTest\<rparr>)
   | PRepair \<Rightarrow> (\<exists>v. oc = Edited v \<and> revision_ok v \<and>
       s' = r\<lparr>st_workingRevision := v, st_targetMet := False, st_phase := PTest\<rparr>)
   | PTest \<Rightarrow> (\<exists>ok. oc = Tested (st_workingRevision s) ok \<and>
       s' = r\<lparr>st_phase := (if ok then PMeasure else PRepair)\<rparr>)
   | PReview \<Rightarrow> (\<exists>ok. oc = Reviewed (st_workingRevision s) ok \<and>
       s' = r\<lparr>st_phase := (if ok then PKeep else PRepair)\<rparr>)
   | PKeep \<Rightarrow> oc = Kept (st_workingRevision s) \<and>
       s' = r\<lparr>st_bestRevision := st_workingRevision s,
         st_phase := (if st_targetMet s then PFinish else PStartAttempt),
         st_stopReason := (if st_targetMet s then Some ''target-met'' else None)\<rparr>
   | PDiscard \<Rightarrow> oc = Discarded (st_bestRevision s) \<and>
       s' = r\<lparr>st_workingRevision := st_bestRevision s, st_targetMet := False,
         st_phase := PStartAttempt\<rparr>
   | PFinish \<Rightarrow> oc = Finished \<and>
       s' = r\<lparr>st_phase := PDone, st_targetMet := (st_stopReason s = Some ''target-met'')\<rparr>
   | PDone \<Rightarrow> False"
  using assms
  by (cases "st_phase s"; simp add: finish_phase_def finish_edit_def unexpected_def
      other_revision_def split: outcome.splits if_splits)
    (auto intro: other_action)

lemma finish_phase_ledger: "finish_phase s r oc = Inr s' \<Longrightarrow> ledger s' = ledger r"
  by (drule finish_phase_Inr)
    (auto simp: ledger_def split: phase.splits dest: finish_measurement_ledger)

text \<open>The two ways a step completes.\<close>

definition completed :: "run_state \<Rightarrow> output_ref \<Rightarrow> run_state" where
  "completed s out = s\<lparr>st_activeStep := None, st_outputs := (st_outputs s)(st_phase s := Some out)\<rparr>"

lemma finishStep_cases:
  assumes "finishStep s n oc out = Inr s'"
  obtains (failed) m where "oc = Failed m"
      "s' = (completed s out)\<lparr>st_phase := PFinish, st_stopReason := Some (''error:'' @ m),
         st_targetMet := False\<rparr>"
    | (regular) "\<forall>m. oc \<noteq> Failed m" "finish_phase s (completed s out) oc = Inr s'"
  using assms
  by (cases oc) (auto simp: finishStep_def Let_def completed_def split: if_splits)

lemma finishStep_ledger: "finishStep s n oc out = Inr s' \<Longrightarrow> ledger s' = ledger (completed s out)"
  by (erule finishStep_cases) (simp add: ledger_def, rule finish_phase_ledger)

lemma finishStep_frame:
  assumes "finishStep s n oc out = Inr s'"
  shows "st_runId s' = st_runId s" "st_initialRevision s' = st_initialRevision s"
    "st_attemptsStarted s' = st_attemptsStarted s"
    "st_repairsThisAttempt s' = st_repairsThisAttempt s"
    "st_piCallsStarted s' = st_piCallsStarted s" "st_elapsedMs s' = st_elapsedMs s"
    "st_sequence s' = st_sequence s" "st_activeStep s' = None"
    "st_outputs s' = (st_outputs s)(st_phase s := Some out)"
  using finishStep_ledger [OF assms] by (simp_all add: ledger_def completed_def)

lemma finishStep_active:
  "finishStep s n oc out = Inr s' \<Longrightarrow> st_activeStep s = Some n \<and> n = st_sequence s"
  by (auto simp: finishStep_def split: if_splits)

text \<open>Reserving the next action, with the second call after a wrap-up.\<close>

definition begin_active :: "run_state \<Rightarrow> limits \<Rightarrow> int \<Rightarrow> run_state res" where
  "begin_active s l elapsed = bindR (beginStep s l elapsed)
     (\<lambda>a. if st_activeStep a = None then beginStep a l elapsed else Inr a)"

definition may_start :: "limits \<Rightarrow> run_state \<Rightarrow> int \<Rightarrow> bool" where
  "may_start l s e \<longleftrightarrow> step_kind (st_phase s) = NextFinish \<or>
     limit_reasons l (progress_of s e) (step_kind (st_phase s)) = []"

lemma beginStep_Inr:
  "beginStep s l e = Inr a \<longleftrightarrow> st_phase s \<noteq> PDone \<and> st_activeStep s = None \<and> st_elapsedMs s \<le> e \<and>
     limits_ok l \<and> progress_ok (progress_of s e) \<and>
     a = (if may_start l s e then reserve_step s e
          else wrap_up s e (limit_reasons l (progress_of s e) (step_kind (st_phase s))))"
proof -
  have "checkLimits l (progress_of s e) (step_kind (st_phase s)) = Inr (act, rs) \<longleftrightarrow>
      limits_ok l \<and> progress_ok (progress_of s e) \<and>
      (if step_kind (st_phase s) = NextFinish then act = Continue \<and> rs = []
       else rs = limit_reasons l (progress_of s e) (step_kind (st_phase s)) \<and>
            act = (if rs \<noteq> [] then WrapUp else Continue))" for act rs
    by (simp add: checkLimits_Inr progress_of_def)
  then show ?thesis
    by (auto simp: beginStep_def res_simps may_start_def not_less split: if_splits)
qed

lemma reserve_step_simps [simp]:
  "st_runId (reserve_step s e) = st_runId s" "st_phase (reserve_step s e) = st_phase s"
  "st_initialRevision (reserve_step s e) = st_initialRevision s"
  "st_bestRevision (reserve_step s e) = st_bestRevision s"
  "st_workingRevision (reserve_step s e) = st_workingRevision s"
  "st_elapsedMs (reserve_step s e) = e" "st_sequence (reserve_step s e) = st_sequence s + 1"
  "st_activeStep (reserve_step s e) = Some (st_sequence s + 1)"
  "st_targetMet (reserve_step s e) = st_targetMet s"
  "st_stopReason (reserve_step s e) = st_stopReason s"
  "st_requestedProfile (reserve_step s e) = st_requestedProfile s"
  "st_outputs (reserve_step s e) = st_outputs s"
  "st_attemptsStarted (reserve_step s e) =
     st_attemptsStarted s + (if st_phase s = PStartAttempt then 1 else 0)"
  "st_repairsThisAttempt (reserve_step s e) = (if st_phase s = PStartAttempt then 0
     else st_repairsThisAttempt s + (if st_phase s = PRepair then 1 else 0))"
  "st_piCallsStarted (reserve_step s e) =
     st_piCallsStarted s + (if inference_phase (st_phase s) then 1 else 0)"
  by (simp_all add: reserve_step_def)

text \<open>Wrapping up: a repair over its own limit is discarded, anything else finishes the run.\<close>

definition wrapped :: "run_state \<Rightarrow> run_state \<Rightarrow> int \<Rightarrow> bool" where
  "wrapped s w e \<longleftrightarrow>
     (st_phase w = PDiscard \<and> st_phase s = PRepair \<and>
        w = s\<lparr>st_elapsedMs := e, st_phase := PDiscard\<rparr> \<or>
      st_phase w = PFinish \<and> (\<exists>r. w = s\<lparr>st_elapsedMs := e, st_phase := PFinish,
        st_stopReason := Some (''limit:'' @ r)\<rparr>))"

lemma set_if: "x \<in> set (if b then [y] else []) \<longleftrightarrow> b \<and> x = y"
  by auto

lemma wrap_up_eq:
  "st_activeStep s = None \<Longrightarrow> wrap_up s e rs =
     (if length rs = 1 \<and> hd rs = ''repairs'' then s\<lparr>st_elapsedMs := e, st_phase := PDiscard\<rparr>
      else s\<lparr>st_elapsedMs := e, st_phase := PFinish,
        st_stopReason := Some (''limit:'' @ js_join '','' rs)\<rparr>)"
  by (cases s) (simp add: wrap_up_def Let_def)

lemma repairs_reason:
  assumes "hd (limit_reasons l p n) = ''repairs''" "length (limit_reasons l p n) = 1"
  shows "n = NextRepair"
proof -
  have "hd (limit_reasons l p n) \<in> set (limit_reasons l p n)"
    using assms(2) by (intro hd_in_set) auto
  with assms(1) show ?thesis by (simp add: limit_reasons_def set_if)
qed

lemma wrap_up_wrapped:
  assumes "st_activeStep s = None"
  shows "wrapped s (wrap_up s e (limit_reasons l (progress_of s e) (step_kind (st_phase s)))) e"
proof (cases "length (limit_reasons l (progress_of s e) (step_kind (st_phase s))) = 1 \<and>
    hd (limit_reasons l (progress_of s e) (step_kind (st_phase s))) = ''repairs''")
  case True
  then have "step_kind (st_phase s) = NextRepair" using repairs_reason by blast
  then have "st_phase s = PRepair" by (cases "st_phase s") (simp_all add: step_kind_def)
  with True show ?thesis by (simp add: wrap_up_eq [OF assms] wrapped_def)
next
  case False
  have "\<exists>r. wrap_up s e (limit_reasons l (progress_of s e) (step_kind (st_phase s))) =
      s\<lparr>st_elapsedMs := e, st_phase := PFinish, st_stopReason := Some (''limit:'' @ r)\<rparr>"
    unfolding wrap_up_eq [OF assms] if_not_P [OF False] by blast
  then show ?thesis by (auto simp: wrapped_def)
qed

lemma begin_active_cases:
  assumes "begin_active s l e = Inr a"
  shows "st_phase s \<noteq> PDone" "st_activeStep s = None" "st_elapsedMs s \<le> e"
    "limits_ok l" "progress_ok (progress_of s e)"
    "may_start l s e \<and> a = reserve_step s e \<or>
     \<not> may_start l s e \<and> (\<exists>w. wrapped s w e \<and> a = reserve_step w e)"
proof -
  from assms obtain b where b: "beginStep s l e = Inr b"
    and a: "(if st_activeStep b = None then beginStep b l e else Inr b) = Inr a"
    by (auto simp: begin_active_def res_simps)
  from b have idle: "st_activeStep s = None" by (simp add: beginStep_Inr)
  show "st_phase s \<noteq> PDone" "st_activeStep s = None" "st_elapsedMs s \<le> e"
    "limits_ok l" "progress_ok (progress_of s e)"
    using b by (simp_all add: beginStep_Inr)
  show "may_start l s e \<and> a = reserve_step s e \<or>
     \<not> may_start l s e \<and> (\<exists>w. wrapped s w e \<and> a = reserve_step w e)"
  proof (cases "may_start l s e")
    case True
    with a b show ?thesis by (simp add: beginStep_Inr)
  next
    case False
    with b have w: "wrapped s b e" by (auto simp: beginStep_Inr intro: wrap_up_wrapped)
    then have "may_start l b e" by (auto simp: wrapped_def may_start_def step_kind_def)
    moreover have "st_activeStep b = None"
      using w idle by (auto simp: wrapped_def)
    ultimately have "a = reserve_step b e" using a by (simp add: beginStep_Inr)
    with w False show ?thesis by blast
  qed
qed

lemma begin_active_frame:
  assumes "begin_active s l e = Inr a"
  shows "st_runId a = st_runId s" "st_initialRevision a = st_initialRevision s"
    "st_bestRevision a = st_bestRevision s" "st_workingRevision a = st_workingRevision s"
    "st_targetMet a = st_targetMet s" "st_elapsedMs a = e" "st_outputs a = st_outputs s"
    "st_sequence a = st_sequence s + 1" "st_activeStep a = Some (st_sequence a)"
    "st_phase a \<noteq> PDone"
    "st_attemptsStarted a = st_attemptsStarted s + (if st_phase a = PStartAttempt then 1 else 0)"
    "st_piCallsStarted a = st_piCallsStarted s + (if inference_phase (st_phase a) then 1 else 0)"
  using begin_active_cases(1,6) [OF assms] by (auto simp: wrapped_def)

text \<open>A step that starts in its own phase started within the limits.\<close>

lemma begin_active_within:
  assumes "begin_active s l e = Inr a"
  shows "st_phase a = PStartAttempt \<Longrightarrow> st_attemptsStarted a \<le> maxAttempts l"
    "inference_phase (st_phase a) \<Longrightarrow> st_piCallsStarted a \<le> maxPiCalls l"
    "st_phase a = PRepair \<Longrightarrow> st_repairsThisAttempt a \<le> maxRepairsPerAttempt l"
    "maxDurationMs l \<le> e \<Longrightarrow> st_phase a \<in> {PKeep, PDiscard, PFinish}"
  using begin_active_cases(6) [OF assms]
  by (auto simp: wrapped_def may_start_def limit_reasons_def progress_of_def step_kind_def
      inference_phase_def inferencePhases_def split: if_splits)

section \<open>Runs\<close>

type_synonym trace = "(phase \<times> outcome) list"

inductive run_trace :: "limits \<Rightarrow> run_state \<Rightarrow> trace \<Rightarrow> run_state \<Rightarrow> bool"
  for l :: limits and s0 :: run_state where
  start: "run_trace l s0 [] s0"
| step: "run_trace l s0 tr s \<Longrightarrow> begin_active s l e = Inr a \<Longrightarrow>
     finishStep a (st_sequence a) oc out = Inr s' \<Longrightarrow>
     run_trace l s0 (tr @ [(st_phase a, oc)]) s'"

inductive_cases run_trace_NilE: "run_trace l s0 [] s"

text \<open>
  The saved state a run starts from (\<^verbatim>\<open>newRun\<close>, with the counters and the best revision of a
  preceding run when there is one).
\<close>

definition fresh_run :: "run_state \<Rightarrow> bool" where
  "fresh_run s \<longleftrightarrow> st_phase s = PPrepare \<and> st_activeStep s = None \<and> st_sequence s = 0 \<and>
     st_bestRevision s = st_workingRevision s \<and> \<not> st_targetMet s \<and> st_stopReason s = None \<and>
     st_repairsThisAttempt s = 0 \<and> st_outputs s = (\<lambda>_. None)"

lemma newRun_fresh: "newRun n r = Inr s \<Longrightarrow> fresh_run s"
  by (auto simp: newRun_def fresh_run_def split: if_splits)

text \<open>Runs computed from the clock readings, outcomes and output references of their steps.\<close>

fun run_list :: "limits \<Rightarrow> trace \<Rightarrow> run_state \<Rightarrow> (int \<times> outcome \<times> output_ref) list \<Rightarrow> (trace \<times> run_state) res" where
  "run_list l tr s [] = Inr (tr, s)"
| "run_list l tr s ((e, oc, out) # steps) = bindR (begin_active s l e) (\<lambda>a.
     bindR (finishStep a (st_sequence a) oc out) (\<lambda>s'.
       run_list l (tr @ [(st_phase a, oc)]) s' steps))"

lemma run_list_trace:
  "run_list l tr s steps = Inr (tr', s') \<Longrightarrow> run_trace l s0 tr s \<Longrightarrow> run_trace l s0 tr' s'"
proof (induction steps arbitrary: tr s)
  case Nil
  then show ?case by simp
next
  case (Cons x steps)
  obtain e oc out where x: "x = (e, oc, out)" by (cases x)
  from Cons.prems(1) obtain a t where "begin_active s l e = Inr a"
    "finishStep a (st_sequence a) oc out = Inr t"
    "run_list l (tr @ [(st_phase a, oc)]) t steps = Inr (tr', s')"
    by (auto simp: x res_simps)
  with Cons.IH Cons.prems(2) show ?case by (blast intro: run_trace.step)
qed

section \<open>Counting steps and budgets\<close>

definition count_steps :: "(phase \<Rightarrow> bool) \<Rightarrow> trace \<Rightarrow> int" where
  "count_steps P tr = int (length (filter (\<lambda>x. P (fst x)) tr))"

lemma count_steps_simps [simp]:
  "count_steps P [] = 0"
  "count_steps P (tr @ [x]) = count_steps P tr + (if P (fst x) then 1 else 0)"
  by (simp_all add: count_steps_def)

lemma trace_ledger:
  assumes "run_trace l s0 tr s" "st_activeStep s0 = None"
  shows "st_sequence s = st_sequence s0 + int (length tr) \<and> st_activeStep s = None \<and>
    st_runId s = st_runId s0 \<and> st_initialRevision s = st_initialRevision s0 \<and>
    st_attemptsStarted s = st_attemptsStarted s0 + count_steps (\<lambda>p. p = PStartAttempt) tr \<and>
    st_piCallsStarted s = st_piCallsStarted s0 + count_steps inference_phase tr \<and>
    st_elapsedMs s0 \<le> st_elapsedMs s"
  using assms
proof (induction rule: run_trace.induct)
  case (step tr s e a oc out s')
  then show ?case
    using begin_active_frame [OF step.hyps(2)] begin_active_cases(3) [OF step.hyps(2)]
      finishStep_frame [OF step.hyps(3)] by auto
qed simp

text \<open>The budgets of a run: never more attempts, repairs or inference calls than allowed.\<close>

definition within_budget :: "limits \<Rightarrow> run_state \<Rightarrow> bool" where
  "within_budget l s \<longleftrightarrow> st_attemptsStarted s \<le> maxAttempts l \<and>
     st_piCallsStarted s \<le> maxPiCalls l \<and> st_repairsThisAttempt s \<le> maxRepairsPerAttempt l"

lemma begin_active_budget:
  assumes "begin_active s l e = Inr a" "within_budget l s"
  shows "within_budget l a"
proof -
  have "0 \<le> maxRepairsPerAttempt l"
    using begin_active_cases(4) [OF assms(1)] by (simp add: limits_ok_def z_count_def)
  then have "st_repairsThisAttempt a \<le> maxRepairsPerAttempt l"
    using begin_active_cases(6) [OF assms(1)] begin_active_within(3) [OF assms(1)] assms(2)
    by (auto simp: wrapped_def within_budget_def)
  then show ?thesis
    using begin_active_within(1,2) [OF assms(1)] begin_active_frame(11,12) [OF assms(1)] assms(2)
    by (auto simp: within_budget_def split: if_splits)
qed

lemma trace_budget:
  assumes "run_trace l s0 tr s" "within_budget l s0"
  shows "within_budget l s"
  using assms
proof (induction rule: run_trace.induct)
  case (step tr s e a oc out s')
  then have "within_budget l a" by (auto intro: begin_active_budget)
  then show ?case using finishStep_frame [OF step.hyps(3)] by (simp add: within_budget_def)
qed simp

section \<open>Termination\<close>

text \<open>
  Every completed step spends from a budget: two units for an attempt, four for an inference
  call, and the weight of the phase, which falls along the phases between them.
\<close>

definition phase_weight :: "phase \<Rightarrow> int" where
  "phase_weight p = (case p of
     PPrepare \<Rightarrow> 4 | PBaseline \<Rightarrow> 3 | PStartAttempt \<Rightarrow> 2 | PProfile \<Rightarrow> 3 | PAnalyze \<Rightarrow> 2
   | PResearch \<Rightarrow> 2 | PImplement \<Rightarrow> 2 | PTest \<Rightarrow> 5 | PRepair \<Rightarrow> 3 | PMeasure \<Rightarrow> 4 | PReview \<Rightarrow> 2
   | PKeep \<Rightarrow> 3 | PDiscard \<Rightarrow> 3 | PFinish \<Rightarrow> 1 | PDone \<Rightarrow> 0)"

definition remaining :: "limits \<Rightarrow> run_state \<Rightarrow> int" where
  "remaining l s = 2 * (maxAttempts l - st_attemptsStarted s)
     + 4 * (maxPiCalls l - st_piCallsStarted s) + phase_weight (st_phase s)"

lemma phase_weight_bounds: "0 \<le> phase_weight p" "p \<noteq> PDone \<Longrightarrow> 1 \<le> phase_weight p"
  "phase_weight p = 0 \<longleftrightarrow> p = PDone"
  by (cases p; simp add: phase_weight_def)+

lemma remaining_nonneg: "within_budget l s \<Longrightarrow> 0 \<le> remaining l s"
  using phase_weight_bounds(1) [of "st_phase s"] by (simp add: within_budget_def remaining_def)

definition step_cost :: "phase \<Rightarrow> int" where
  "step_cost p = (if p = PStartAttempt then 2 else if inference_phase p then 4 else 0)"

lemma begin_active_remaining:
  assumes "begin_active s l e = Inr a"
  shows "remaining l a + step_cost (st_phase a) \<le> remaining l s"
proof -
  have "phase_weight (st_phase a) \<le> phase_weight (st_phase s)"
    using begin_active_cases(1,6) [OF assms]
    by (auto simp: wrapped_def phase_weight_def split: phase.split)
  then show ?thesis
    using begin_active_frame(11,12) [OF assms] by (auto simp: remaining_def step_cost_def)
qed

lemma finish_measurement_phase:
  "finish_measurement s r oc = Inr s' \<Longrightarrow>
     st_phase s' \<in> {PFinish, PDiscard, PReview, PStartAttempt} \<and>
     (st_phase s' = PDiscard \<or> st_phase s' = PReview \<longrightarrow> st_phase s \<noteq> PBaseline)"
  by (cases oc) (auto simp: finish_simps split: if_splits)

lemma finish_weight:
  assumes "finishStep s n oc out = Inr s'"
  shows "phase_weight (st_phase s') < phase_weight (st_phase s) + step_cost (st_phase s) \<or>
    st_phase s = PDone \<or> (st_phase s = PFinish \<and> (\<exists>m. oc = Failed m) \<and> st_phase s' = PFinish)"
  using assms
proof (cases rule: finishStep_cases)
  case (failed m)
  then show ?thesis
    by (cases "st_phase s") (simp_all add: phase_weight_def step_cost_def)
next
  case regular
  from finish_phase_Inr [OF regular(2)] show ?thesis
    by (cases "st_phase s")
      (auto simp: phase_weight_def step_cost_def dest!: finish_measurement_phase)
qed

text \<open>Failed attempts to finish: the only steps that spend nothing.\<close>

definition failed_finish :: "phase \<times> outcome \<Rightarrow> bool" where
  "failed_finish x \<longleftrightarrow> fst x = PFinish \<and> (\<exists>m. snd x = Failed m)"

lemma trace_spends:
  assumes "run_trace l s0 tr s"
  shows "int (length (filter (\<lambda>x. \<not> failed_finish x) tr)) + remaining l s \<le> remaining l s0"
  using assms
proof (induction rule: run_trace.induct)
  case (step tr s e a oc out s')
  have a: "remaining l a + step_cost (st_phase a) \<le> remaining l s" "st_phase a \<noteq> PDone"
    using begin_active_remaining begin_active_frame(10) step.hyps(2) by blast+
  have "remaining l s' = remaining l a - phase_weight (st_phase a) + phase_weight (st_phase s')"
    using finishStep_frame [OF step.hyps(3)] by (simp add: remaining_def)
  with a finish_weight [OF step.hyps(3)] step.IH show ?case
    by (auto simp: failed_finish_def step_cost_def)
qed simp

end
