(* ===== verification/Run_Properties.thy ===== *)
theory Run_Properties
  imports Run_Lifecycle
begin

text \<open>
  What the saved state says about the steps that led to it: a version becomes the best one only
  after passing tests, a valid measurement and a passing review of exactly that version, an
  attempt starts from the best version, and a met target is backed by such evidence. The
  invariant is stated once over all reachable states and the properties read it off.
\<close>

section \<open>Evidence in the trace\<close>

definition tested_evidence :: "string \<Rightarrow> trace \<Rightarrow> bool" where
  "tested_evidence r tr \<longleftrightarrow> (\<exists>tr0. tr = tr0 @ [(PTest, Tested r True)])"

definition measured_evidence :: "string \<Rightarrow> bool \<Rightarrow> trace \<Rightarrow> bool" where
  "measured_evidence r met tr \<longleftrightarrow> (\<exists>tr0 inc improved.
     tr = tr0 @ [(PTest, Tested r True), (PMeasure, Measured r True inc met improved)]
     \<and> (improved \<or> met))"

definition accepted_evidence :: "string \<Rightarrow> bool \<Rightarrow> trace \<Rightarrow> bool" where
  "accepted_evidence r met tr \<longleftrightarrow> (\<exists>tr0 inc improved.
     tr = tr0 @ [(PTest, Tested r True), (PMeasure, Measured r True inc met improved),
       (PReview, Reviewed r True)]
     \<and> (improved \<or> met))"

definition kept_step :: "phase \<times> outcome \<Rightarrow> bool" where
  "kept_step x \<longleftrightarrow> (\<exists>r. snd x = Kept r)"

text \<open>The two ways a run starts: tests pass, then a valid baseline measurement.\<close>

definition baseline_prefix :: "string \<Rightarrow> bool \<Rightarrow> trace \<Rightarrow> bool" where
  "baseline_prefix r met tr \<longleftrightarrow> (\<exists>inc improved rest.
     tr = (PPrepare, Prepared) # (PBaseline, Measured r True inc met improved) # rest)"

section \<open>The invariant\<close>

definition phase_evidence :: "trace \<Rightarrow> run_state \<Rightarrow> bool" where
  "phase_evidence tr s \<longleftrightarrow>
     (st_phase s = PMeasure \<longrightarrow> tested_evidence (st_workingRevision s) tr) \<and>
     (st_phase s = PReview \<longrightarrow> measured_evidence (st_workingRevision s) (st_targetMet s) tr) \<and>
     (st_phase s = PKeep \<longrightarrow> accepted_evidence (st_workingRevision s) (st_targetMet s) tr)"

definition best_evidence :: "run_state \<Rightarrow> trace \<Rightarrow> run_state \<Rightarrow> bool" where
  "best_evidence s0 tr s \<longleftrightarrow>
     (st_bestRevision s = st_bestRevision s0 \<and> \<not> list_ex kept_step tr) \<or>
     (\<exists>tr1 tr2 met. tr = tr1 @ (PKeep, Kept (st_bestRevision s)) # tr2 \<and>
        accepted_evidence (st_bestRevision s) met tr1 \<and> \<not> list_ex kept_step tr2)"

definition at_best_phase :: "phase \<Rightarrow> bool" where
  "at_best_phase p \<longleftrightarrow>
     p \<in> {PPrepare, PBaseline, PStartAttempt, PProfile, PAnalyze, PResearch, PImplement}"

definition baseline_evidence :: "run_state \<Rightarrow> trace \<Rightarrow> run_state \<Rightarrow> bool" where
  "baseline_evidence s0 tr s \<longleftrightarrow>
     (st_phase s = PPrepare \<longrightarrow> tr = [] \<and> st_bestRevision s = st_bestRevision s0) \<and>
     (st_phase s = PBaseline \<longrightarrow> tr = [(PPrepare, Prepared)] \<and> st_bestRevision s = st_bestRevision s0) \<and>
     (st_phase s \<notin> {PPrepare, PBaseline, PFinish, PDone} \<longrightarrow>
        baseline_prefix (st_bestRevision s0) False tr) \<and>
     (at_best_phase (st_phase s) \<longrightarrow> st_workingRevision s = st_bestRevision s)"

definition met_evidence :: "run_state \<Rightarrow> trace \<Rightarrow> run_state \<Rightarrow> bool" where
  "met_evidence s0 tr s \<longleftrightarrow> (\<exists>tr1 tr2. tr = tr1 @ tr2 \<and> (\<forall>x \<in> set tr2. fst x = PFinish) \<and>
     ((\<exists>inc improved. tr1 = [(PPrepare, Prepared),
          (PBaseline, Measured (st_bestRevision s) True inc True improved)]) \<or>
      (\<exists>tr0. tr1 = tr0 @ [(PKeep, Kept (st_bestRevision s))] \<and>
          accepted_evidence (st_bestRevision s) True tr0)))"

definition target_evidence :: "run_state \<Rightarrow> trace \<Rightarrow> run_state \<Rightarrow> bool" where
  "target_evidence s0 tr s \<longleftrightarrow>
     (st_stopReason s = Some ''target-met'' \<longrightarrow>
        st_phase s \<in> {PFinish, PDone} \<and> met_evidence s0 tr s) \<and>
     (st_phase s = PDone \<longrightarrow> (st_targetMet s \<longleftrightarrow> st_stopReason s = Some ''target-met''))"

definition run_inv :: "run_state \<Rightarrow> trace \<Rightarrow> run_state \<Rightarrow> bool" where
  "run_inv s0 tr s \<longleftrightarrow> phase_evidence tr s \<and> best_evidence s0 tr s \<and> baseline_evidence s0 tr s \<and>
     target_evidence s0 tr s"

lemmas evidence_defs = phase_evidence_def best_evidence_def baseline_evidence_def target_evidence_def

lemma run_inv_fresh: "fresh_run s \<Longrightarrow> run_inv s [] s"
  by (simp add: run_inv_def evidence_defs fresh_run_def at_best_phase_def)

text \<open>Reserving a step keeps the invariant: only a wrap-up changes anything it mentions.\<close>

lemma run_inv_reserve:
  assumes "run_inv s0 tr s"
  shows "run_inv s0 tr (reserve_step s e)"
  using assms by (simp add: run_inv_def evidence_defs met_evidence_def)

lemma run_inv_wrapped:
  assumes "run_inv s0 tr s" "wrapped s w e" "st_phase s \<noteq> PDone"
  shows "run_inv s0 tr w"
  using assms(2) unfolding wrapped_def
proof (elim disjE conjE exE)
  assume "st_phase s = PRepair" "w = s\<lparr>st_elapsedMs := e, st_phase := PDiscard\<rparr>"
  with assms(1) show ?thesis
    by (simp add: run_inv_def evidence_defs met_evidence_def at_best_phase_def)
next
  fix r
  assume "w = s\<lparr>st_elapsedMs := e, st_phase := PFinish, st_stopReason := Some (''limit:'' @ r)\<rparr>"
  with assms(1) show ?thesis
    by (simp add: run_inv_def evidence_defs met_evidence_def at_best_phase_def)
qed

lemma run_inv_begin:
  assumes "run_inv s0 tr s" "begin_active s l e = Inr a"
  shows "run_inv s0 tr a"
  using begin_active_cases(1,6) [OF assms(2)] assms(1) run_inv_reserve run_inv_wrapped by blast

section \<open>Completing a step keeps the invariant\<close>

lemma not_kept_snoc: "\<not> kept_step x \<Longrightarrow> best_evidence s0 tr a \<Longrightarrow>
    st_bestRevision s' = st_bestRevision a \<Longrightarrow> best_evidence s0 (tr @ [x]) s'"
  unfolding best_evidence_def by (elim disjE exE conjE) (simp, fastforce)

lemma baseline_prefix_snoc: "baseline_prefix r m tr \<Longrightarrow> baseline_prefix r m (tr @ [x])"
  by (auto simp: baseline_prefix_def)

lemma met_evidence_snoc:
  assumes "met_evidence s0 tr a" "st_bestRevision s' = st_bestRevision a"
  shows "met_evidence s0 (tr @ [(PFinish, oc)]) s'"
proof -
  from assms(1) obtain tr1 tr2 where t: "tr = tr1 @ tr2" "\<forall>x \<in> set tr2. fst x = PFinish"
    "(\<exists>inc improved. tr1 = [(PPrepare, Prepared),
          (PBaseline, Measured (st_bestRevision a) True inc True improved)]) \<or>
      (\<exists>tr0. tr1 = tr0 @ [(PKeep, Kept (st_bestRevision a))] \<and>
          accepted_evidence (st_bestRevision a) True tr0)"
    unfolding met_evidence_def by blast
  then show ?thesis unfolding met_evidence_def assms(2)
    by (intro exI [of _ tr1] exI [of _ "tr2 @ [(PFinish, oc)]"]) simp
qed

text \<open>What a measurement completes to.\<close>

lemma finish_measurement_kind:
  assumes "finish_measurement s r oc = Inr s'"
  shows "\<exists>v valid inc met improved. oc = Measured v valid inc met improved"
proof (rule ccontr)
  assume "\<not> ?thesis"
  then have "finish_measurement s r oc = unexpected oc (st_phase s)"
    unfolding finish_measurement_def by (cases oc; simp only: outcome.case; blast)
  with assms show False by (simp only: unexpected_def sum.simps)
qed

lemma finish_measurement_cases:
  assumes "finish_measurement s r oc = Inr s'"
  obtains (retry) inc met improved where
      "oc = Measured (st_workingRevision s) False inc met improved" "st_phase s = PMeasure"
      "s' = r\<lparr>st_phase := PDiscard, st_targetMet := False\<rparr>"
    | (invalid) inc met improved q where
      "oc = Measured (st_workingRevision s) False inc met improved" "q \<noteq> ''target-met''"
      "s' = r\<lparr>st_phase := PFinish, st_stopReason := Some q, st_targetMet := False\<rparr>"
    | (baseline) inc met improved where
      "oc = Measured (st_workingRevision s) True inc met improved" "st_phase s = PBaseline"
      "s' = r\<lparr>st_targetMet := met, st_phase := (if met then PFinish else PStartAttempt),
         st_stopReason := (if met then Some ''target-met'' else None)\<rparr>"
    | (candidate) inc met improved where
      "oc = Measured (st_workingRevision s) True inc met improved" "st_phase s \<noteq> PBaseline"
      "s' = r\<lparr>st_targetMet := met, st_phase := (if improved \<or> met then PReview else PDiscard)\<rparr>"
proof -
  from finish_measurement_kind [OF assms] obtain v valid inc met improved
    where Measured: "oc = Measured v valid inc met improved" by blast
  have v: "v = st_workingRevision s"
  proof (rule ccontr)
    assume "v \<noteq> st_workingRevision s"
    then have "finish_measurement s r oc = other_revision"
      by (simp add: Measured finish_measurement_def)
    with assms show False by (simp add: other_revision_def)
  qed
  note m = Measured [unfolded v]
  show ?thesis
  proof (cases valid)
    case True
    note t = m [unfolded eq_True [THEN iffD2, OF True]]
    show ?thesis
    proof (cases "st_phase s = PBaseline")
      case True
      then have "finish_measurement s r oc = Inr (r\<lparr>st_targetMet := met,
          st_phase := (if met then PFinish else PStartAttempt),
          st_stopReason := (if met then Some ''target-met'' else None)\<rparr>)"
        by (simp add: t finish_measurement_def)
      with assms show ?thesis by (intro that(3) [OF t True]) simp
    next
      case other: False
      then have "finish_measurement s r oc = Inr (r\<lparr>st_targetMet := met,
          st_phase := (if improved \<or> met then PReview else PDiscard)\<rparr>)"
        by (simp add: t finish_measurement_def)
      with assms show ?thesis by (intro that(4) [OF t other]) simp
    qed
  next
    case False
    note u = m [unfolded eq_False [THEN iffD2, OF False]]
    show ?thesis
    proof (cases "st_phase s = PMeasure \<and> inc = Some True")
      case True
      with assms u have "s' = r\<lparr>st_phase := PDiscard, st_targetMet := False\<rparr>"
        by (simp add: finish_measurement_def)
      with True show ?thesis by (intro that(1) [OF u]) simp_all
    next
      case no: False
      let ?q = "if inc = Some True then ''measurement-inconclusive'' else ''invalid-measurement''"
      from no have "finish_measurement s r oc =
          Inr (r\<lparr>st_phase := PFinish, st_stopReason := Some ?q, st_targetMet := False\<rparr>)"
        by (simp add: u finish_measurement_def) blast
      with assms u show ?thesis by (intro that(2) [of inc met improved ?q]) auto
    qed
  qed
qed


lemma phase_evidence_other:
  "st_phase s \<notin> {PMeasure, PReview, PKeep} \<Longrightarrow> phase_evidence tr s"
  by (simp add: phase_evidence_def)

text \<open>Each part of the invariant after a step that neither keeps a version nor finishes the run.\<close>

lemma baseline_started:
  "baseline_evidence s0 tr a \<Longrightarrow> st_phase a \<notin> {PPrepare, PBaseline, PFinish, PDone} \<Longrightarrow>
     baseline_prefix (st_bestRevision s0) False tr"
  by (simp add: baseline_evidence_def)

lemma target_open:
  "target_evidence s0 tr a \<Longrightarrow> st_phase a \<notin> {PFinish, PDone} \<Longrightarrow>
     st_stopReason a \<noteq> Some ''target-met''"
  by (auto simp: target_evidence_def)

lemma run_inv_middle:
  assumes inv: "run_inv s0 tr a" and "\<not> kept_step x"
    and "st_phase a \<notin> {PPrepare, PBaseline, PFinish, PDone}"
    and "st_phase s' \<notin> {PPrepare, PBaseline, PDone}"
    and "st_bestRevision s' = st_bestRevision a"
    and "st_stopReason s' = st_stopReason a \<or> st_stopReason s' \<noteq> Some ''target-met''"
    and "phase_evidence (tr @ [x]) s'"
    and "at_best_phase (st_phase s') \<longrightarrow> st_workingRevision s' = st_bestRevision a"
  shows "run_inv s0 (tr @ [x]) s'"
proof -
  note parts = inv [unfolded run_inv_def]
  have "best_evidence s0 (tr @ [x]) s'"
    using parts assms(2,5) not_kept_snoc by blast
  moreover have "baseline_evidence s0 (tr @ [x]) s'"
    using baseline_started [of s0 tr a] parts assms(3-5,8)
    by (simp add: baseline_evidence_def baseline_prefix_snoc)
  moreover have "target_evidence s0 (tr @ [x]) s'"
    using target_open [of s0 tr a] parts assms(3,4,6)
    by (auto simp: target_evidence_def)
  ultimately show ?thesis using assms(7) by (simp add: run_inv_def)
qed


lemma completed_simps [simp]:
  "st_phase (completed s out) = st_phase s" "st_bestRevision (completed s out) = st_bestRevision s"
  "st_workingRevision (completed s out) = st_workingRevision s"
  "st_targetMet (completed s out) = st_targetMet s"
  "st_stopReason (completed s out) = st_stopReason s"
  by (simp_all add: completed_def)

text \<open>A step that sends the run to its finish without meeting the target.\<close>

lemma run_inv_stopped:
  assumes inv: "run_inv s0 tr a" and "\<not> kept_step x"
    and "st_phase s' = PFinish" "st_bestRevision s' = st_bestRevision a"
    and "st_stopReason s' \<noteq> Some ''target-met''"
  shows "run_inv s0 (tr @ [x]) s'"
proof -
  have "best_evidence s0 (tr @ [x]) s'"
    using inv assms(2,4) not_kept_snoc unfolding run_inv_def by blast
  with assms(3,5) show ?thesis
    by (simp add: run_inv_def phase_evidence_def baseline_evidence_def target_evidence_def
        at_best_phase_def)
qed

lemma run_inv_baseline:
  assumes inv: "run_inv s0 tr a" and p: "st_phase a = PBaseline"
    and m: "finish_measurement a (completed a out) oc = Inr s'"
  shows "run_inv s0 (tr @ [(st_phase a, oc)]) s'"
  using m
proof (cases rule: finish_measurement_cases)
  case (invalid inc met improved q)
  then show ?thesis by (intro run_inv_stopped [OF inv]) (simp_all add: kept_step_def)
next
  case (baseline inc met improved)
  have tr: "tr = [(PPrepare, Prepared)]" "st_bestRevision a = st_bestRevision s0"
    "st_workingRevision a = st_bestRevision a"
    using inv p by (simp_all add: run_inv_def baseline_evidence_def at_best_phase_def)
  then show ?thesis using baseline p
    by (simp add: run_inv_def evidence_defs kept_step_def at_best_phase_def baseline_prefix_def
        met_evidence_def) (rule impI, rule exI [of _ "tr @ [(PBaseline, oc)]"], simp)
qed (simp_all add: p)

lemma run_inv_measure:
  assumes inv: "run_inv s0 tr a" and p: "st_phase a = PMeasure"
    and m: "finish_measurement a (completed a out) oc = Inr s'"
  shows "run_inv s0 (tr @ [(st_phase a, oc)]) s'"
  using m
proof (cases rule: finish_measurement_cases)
  case (retry inc met improved)
  then show ?thesis by (intro run_inv_middle [OF inv])
    (simp_all add: kept_step_def phase_evidence_def at_best_phase_def)
next
  case (invalid inc met improved q)
  then show ?thesis by (intro run_inv_stopped [OF inv]) (simp_all add: kept_step_def)
next
  case (candidate inc met improved)
  from inv p obtain tr0 where "tr = tr0 @ [(PTest, Tested (st_workingRevision a) True)]"
    by (auto simp: run_inv_def phase_evidence_def tested_evidence_def)
  with candidate p show ?thesis by (intro run_inv_middle [OF inv])
    (simp_all add: kept_step_def phase_evidence_def at_best_phase_def measured_evidence_def)
qed (simp_all add: p)

lemma run_inv_review:
  assumes inv: "run_inv s0 tr a" and p: "st_phase a = PReview"
    and "oc = Reviewed (st_workingRevision a) ok"
    and "s' = (completed a out)\<lparr>st_phase := (if ok then PKeep else PRepair)\<rparr>"
  shows "run_inv s0 (tr @ [(st_phase a, oc)]) s'"
proof -
  from inv p have "measured_evidence (st_workingRevision a) (st_targetMet a) tr"
    by (simp add: run_inv_def phase_evidence_def)
  then have "accepted_evidence (st_workingRevision a) (st_targetMet a)
      (tr @ [(PReview, Reviewed (st_workingRevision a) True)])"
    by (auto simp: measured_evidence_def accepted_evidence_def)
  with assms show ?thesis by (intro run_inv_middle [OF inv])
    (simp_all add: kept_step_def phase_evidence_def at_best_phase_def)
qed

lemma run_inv_keep:
  assumes inv: "run_inv s0 tr a" and p: "st_phase a = PKeep"
    and oc: "oc = Kept (st_workingRevision a)"
    and s': "s' = (completed a out)\<lparr>st_bestRevision := st_workingRevision a,
         st_phase := (if st_targetMet a then PFinish else PStartAttempt),
         st_stopReason := (if st_targetMet a then Some ''target-met'' else None)\<rparr>"
  shows "run_inv s0 (tr @ [(st_phase a, oc)]) s'"
proof -
  from inv p have acc: "accepted_evidence (st_workingRevision a) (st_targetMet a) tr"
    by (simp add: run_inv_def phase_evidence_def)
  then have "best_evidence s0 (tr @ [(PKeep, oc)]) s'"
    unfolding best_evidence_def s' oc
    by (intro disjI2 exI [of _ tr] exI [of _ "[]"] exI [of _ "st_targetMet a"]) simp
  moreover have "met_evidence s0 (tr @ [(PKeep, oc)]) s'" if "st_targetMet a"
    using acc that unfolding met_evidence_def s' oc
    by (intro exI [of _ "tr @ [(PKeep, oc)]"] exI [of _ "[]"]) (simp add: oc)
  moreover have "baseline_prefix (st_bestRevision s0) False (tr @ [(PKeep, oc)])"
    using inv p by (simp add: run_inv_def baseline_evidence_def baseline_prefix_snoc)
  ultimately show ?thesis
    by (simp add: run_inv_def phase_evidence_def baseline_evidence_def target_evidence_def s' p
        at_best_phase_def)
qed

lemma run_inv_finished:
  assumes inv: "run_inv s0 tr a" and p: "st_phase a = PFinish" and oc: "oc = Finished"
    and s': "s' = (completed a out)\<lparr>st_phase := PDone,
        st_targetMet := (st_stopReason a = Some ''target-met'')\<rparr>"
  shows "run_inv s0 (tr @ [(st_phase a, oc)]) s'"
proof -
  have "best_evidence s0 (tr @ [(PFinish, oc)]) s'"
    using inv by (intro not_kept_snoc [of _ s0 tr a]) (simp_all add: run_inv_def kept_step_def oc s')
  moreover have "met_evidence s0 (tr @ [(PFinish, oc)]) s'" if "st_stopReason a = Some ''target-met''"
    using inv that by (intro met_evidence_snoc) (simp_all add: run_inv_def target_evidence_def s')
  ultimately show ?thesis
    by (simp add: run_inv_def phase_evidence_def baseline_evidence_def target_evidence_def s' p
        at_best_phase_def)
qed


lemma at_best_phase_revision:
  assumes "run_inv s0 tr a" "st_phase a \<in> {PStartAttempt, PProfile, PAnalyze, PResearch}"
  shows "st_workingRevision a = st_bestRevision a"
  using assms by (auto simp: run_inv_def baseline_evidence_def at_best_phase_def)

lemma run_inv_prepare:
  assumes inv: "run_inv s0 tr a" and "st_phase a = PPrepare" and "finish_phase a (completed a out) oc = Inr s'"
  shows "run_inv s0 (tr @ [(PPrepare, oc)]) s'"
  using assms finish_phase_Inr [OF assms(3)]
  by (simp add: run_inv_def evidence_defs kept_step_def at_best_phase_def)

lemma run_inv_analyze:
  assumes inv: "run_inv s0 tr a" and p: "st_phase a = PAnalyze" and "finish_phase a (completed a out) oc = Inr s'"
  shows "run_inv s0 (tr @ [(PAnalyze, oc)]) s'"
proof -
  have w: "st_workingRevision a = st_bestRevision a" using at_best_phase_revision [OF inv] p by simp
  from finish_phase_Inr [OF assms(3), unfolded p phase.case] consider
      (stop) q t where "oc = Analysis Stop q" "s' = (completed a out)\<lparr>st_phase := PFinish,
        st_stopReason := Some (''analysis:'' @ t)\<rparr>"
    | (change) q where "oc = Analysis Change q" "s' = (completed a out)\<lparr>st_phase := PImplement\<rparr>"
    | (research) q where "oc = Analysis ResearchAction q"
        "s' = (completed a out)\<lparr>st_phase := PResearch\<rparr>"
    | (prof) ev where "oc = AnalysisProfile ev"
        "s' = (completed a out)\<lparr>st_phase := PProfile, st_requestedProfile := ev\<rparr>"
    by blast
  then show ?thesis
  proof cases
    case stop
    then show ?thesis by (intro run_inv_stopped [OF inv]) (simp_all add: kept_step_def)
  qed (use p w in \<open>(intro run_inv_middle [OF inv], simp_all add: kept_step_def phase_evidence_def)[1]\<close>)+
qed

text \<open>The other phases move the run on and leave its counters, best revision and verdicts alone.\<close>

lemma run_inv_forward:
  assumes inv: "run_inv s0 tr a" and "finish_phase a (completed a out) oc = Inr s'"
    and "st_phase a \<in> {PStartAttempt, PProfile, PResearch, PImplement, PRepair, PTest, PDiscard}"
  shows "run_inv s0 (tr @ [(st_phase a, oc)]) s'"
proof (cases "st_phase a \<in> {PStartAttempt, PProfile, PResearch}")
  case True
  then have "st_workingRevision a = st_bestRevision a" using at_best_phase_revision [OF inv] by blast
  with True finish_phase_Inr [OF assms(2)] show ?thesis
    by (intro run_inv_middle [OF inv]) (auto simp: kept_step_def phase_evidence_def)
next
  case False
  with assms(3) finish_phase_Inr [OF assms(2)] show ?thesis
    by (intro run_inv_middle [OF inv])
      (auto simp: kept_step_def phase_evidence_def at_best_phase_def tested_evidence_def split: if_splits)
qed

lemma run_inv_finish:
  assumes inv: "run_inv s0 tr a" and "finishStep a n oc out = Inr s'"
  shows "run_inv s0 (tr @ [(st_phase a, oc)]) s'"
  using assms(2)
proof (cases rule: finishStep_cases)
  case (failed m)
  then show ?thesis by (intro run_inv_stopped [OF inv]) (simp_all add: kept_step_def)
next
  case regular
  note fin = finish_phase_Inr [OF regular(2)]
  show ?thesis
  proof (cases "st_phase a")
    case PPrepare
    with regular(2) show ?thesis by (simp add: run_inv_prepare [OF inv])
  next
    case PAnalyze
    with regular(2) show ?thesis by (simp add: run_inv_analyze [OF inv])
  next
    case PBaseline
    then show ?thesis using fin run_inv_baseline [OF inv PBaseline] by simp
  next
    case PMeasure
    then show ?thesis using fin run_inv_measure [OF inv PMeasure] by simp
  next
    case PReview
    then obtain ok where "oc = Reviewed (st_workingRevision a) ok"
      "s' = (completed a out)\<lparr>st_phase := (if ok then PKeep else PRepair)\<rparr>" using fin by auto
    then show ?thesis by (rule run_inv_review [OF inv PReview])
  next
    case PKeep
    then show ?thesis using fin by (intro run_inv_keep [OF inv PKeep]) simp_all
  next
    case PFinish
    then show ?thesis using fin by (intro run_inv_finished [OF inv PFinish]) simp_all
  qed (use fin run_inv_forward [OF inv regular(2)] in simp_all)
qed

theorem trace_inv:
  assumes "run_trace l s0 tr s" "fresh_run s0"
  shows "run_inv s0 tr s"
  using assms
proof (induction rule: run_trace.induct)
  case start
  then show ?case by (rule run_inv_fresh)
next
  case (step tr s e a oc out s')
  then show ?case using run_inv_begin run_inv_finish by blast
qed


section \<open>A step can always begin\<close>

lemma begin_active_wrap_up:
  assumes "st_phase s \<noteq> PDone" "st_activeStep s = None" "st_elapsedMs s \<le> e"
    "limits_ok l" "progress_ok (progress_of s e)" "\<not> may_start l s e"
  shows "begin_active s l e = Inr (reserve_step (wrap_up s e
    (limit_reasons l (progress_of s e) (step_kind (st_phase s)))) e)"
proof -
  let ?w = "wrap_up s e (limit_reasons l (progress_of s e) (step_kind (st_phase s)))"
  from assms have w: "beginStep s l e = Inr ?w" by (simp add: beginStep_Inr)
  have k: "wrapped s ?w e" by (rule wrap_up_wrapped [OF assms(2)])
  then have i: "st_activeStep ?w = None" using assms(2) by (auto simp: wrapped_def)
  from k have "st_phase ?w \<noteq> PDone \<and> st_elapsedMs ?w = e \<and> may_start l ?w e \<and>
      progress_ok (progress_of ?w e)"
    unfolding wrapped_def
    by (elim disjE conjE exE)
      (simp_all only:, use assms(5) in \<open>simp_all add: may_start_def step_kind_def progress_of_def\<close>)
  then have "beginStep ?w l e = Inr (reserve_step ?w e)" using assms(4) i by (simp add: beginStep_Inr)
  with w i show ?thesis by (simp add: begin_active_def)
qed

lemma begin_active_exists:
  assumes "st_phase s \<noteq> PDone" "st_activeStep s = None" "st_elapsedMs s \<le> e"
    "limits_ok l" "progress_ok (progress_of s e)"
  shows "\<exists>a. begin_active s l e = Inr a"
proof (cases "may_start l s e")
  case True
  with assms have "beginStep s l e = Inr (reserve_step s e)" by (simp add: beginStep_Inr)
  then show ?thesis by (simp add: begin_active_def)
next
  case False
  then show ?thesis using begin_active_wrap_up [OF assms] by blast
qed

section \<open>After the deadline\<close>

definition late_weight :: "phase \<Rightarrow> nat" where
  "late_weight p = (if p = PDone then 0 else if p = PKeep \<or> p = PDiscard then 2 else 1)"

lemma late_begin:
  assumes "begin_active s l e = Inr a" "maxDurationMs l \<le> e"
  shows "st_phase a \<in> {PKeep, PDiscard, PFinish}" "late_weight (st_phase a) \<le> late_weight (st_phase s)"
proof -
  show p: "st_phase a \<in> {PKeep, PDiscard, PFinish}" by (rule begin_active_within(4) [OF assms])
  note b = begin_active_cases [OF assms(1)]
  have first: "\<exists>rs. limit_reasons l (progress_of s e) (step_kind (st_phase s)) = ''duration'' # rs"
    using assms(2) by (simp add: limit_reasons_def progress_of_def)
  show "late_weight (st_phase a) \<le> late_weight (st_phase s)"
  proof (cases "may_start l s e")
    case True
    with b(6) show ?thesis by simp
  next
    case False
    let ?rs = "limit_reasons l (progress_of s e) (step_kind (st_phase s))"
    have "?rs \<noteq> [] \<and> hd ?rs = ''duration''" using first by auto
    then have "st_phase (wrap_up s e ?rs) = PFinish" by (auto simp: wrap_up_eq [OF b(2)])
    moreover have "a = reserve_step (wrap_up s e ?rs) e"
      using begin_active_wrap_up [OF b(1-5) False] assms(1) by simp
    ultimately have "st_phase a = PFinish" by simp
    with b(1) show ?thesis by (simp add: late_weight_def)
  qed
qed

lemma late_finish:
  assumes "finishStep a n oc out = Inr s'" "st_phase a \<in> {PKeep, PDiscard, PFinish}"
  shows "late_weight (st_phase s') < late_weight (st_phase a) \<or>
    failed_finish (st_phase a, oc) \<and> late_weight (st_phase s') = late_weight (st_phase a)"
  using assms(1)
proof (cases rule: finishStep_cases)
  case (failed m)
  with assms(2) show ?thesis by (auto simp: late_weight_def failed_finish_def)
next
  case regular
  from finish_phase_Inr [OF regular(2)] assms(2) show ?thesis
    by (elim insertE emptyE) (auto simp: late_weight_def)
qed

lemma run_list_late:
  assumes "run_list l tr s steps = Inr (tr', s')" "list_all (\<lambda>(e, _, _). maxDurationMs l \<le> e) steps"
  shows "\<exists>more. tr' = tr @ more \<and> list_all (\<lambda>(p, _). p \<in> {PKeep, PDiscard, PFinish}) more \<and>
    length (filter (\<lambda>x. \<not> failed_finish x) more) + late_weight (st_phase s') \<le>
      late_weight (st_phase s)"
  using assms
proof (induction steps arbitrary: tr s)
  case Nil
  then show ?case by simp
next
  case (Cons x steps)
  obtain e oc out where x: "x = (e, oc, out)" by (cases x)
  from Cons.prems x obtain a t where a: "begin_active s l e = Inr a" "maxDurationMs l \<le> e"
    and t: "finishStep a (st_sequence a) oc out = Inr t"
    and rest: "run_list l (tr @ [(st_phase a, oc)]) t steps = Inr (tr', s')"
    by (auto simp: res_simps)
  from Cons.IH [OF rest] Cons.prems(2) obtain more where
    more: "tr' = (tr @ [(st_phase a, oc)]) @ more"
    "list_all (\<lambda>(p, _). p \<in> {PKeep, PDiscard, PFinish}) more"
    "length (filter (\<lambda>x. \<not> failed_finish x) more) + late_weight (st_phase s') \<le>
      late_weight (st_phase t)" by auto
  note late_begin [OF a] late_finish [OF t late_begin(1) [OF a]]
  with more show ?case
    by (intro exI [of _ "(st_phase a, oc) # more"]) auto
qed


section \<open>How a run closes\<close>

lemma begin_active_closing:
  assumes "begin_active s l e = Inr a" "st_phase s = PFinish"
  shows "st_phase a = PFinish"
  using begin_active_cases(6) [OF assms(1)] assms(2) by (auto simp: may_start_def step_kind_def)

text \<open>
  A failed finish is only followed by further attempts to finish, and the first one that succeeds ends
  the run.
\<close>

lemma trace_closes:
  assumes "run_trace l s0 tr s"
  shows "\<exists>work fails last. tr = work @ fails @ last \<and> list_all (\<lambda>x. \<not> failed_finish x) work \<and>
    list_all failed_finish fails \<and> (fails = [] \<longrightarrow> last = []) \<and>
    (last = [] \<and> (fails \<noteq> [] \<longrightarrow> st_phase s = PFinish) \<or> last = [(PFinish, Finished)] \<and> st_phase s = PDone)"
  using assms
proof (induction rule: run_trace.induct)
  case start
  then show ?case by simp
next
  case (step tr s e a oc out s')
  let ?x = "(st_phase a, oc)"
  note b = begin_active_cases(1) [OF step.hyps(2)]
  from step.IH b obtain work fails where tr: "tr = work @ fails" "list_all (\<lambda>x. \<not> failed_finish x) work"
    "list_all failed_finish fails" "fails \<noteq> [] \<longrightarrow> st_phase s = PFinish" by auto
  have failed: "st_phase s' = PFinish" if "failed_finish ?x"
    using step.hyps(3) that by (cases rule: finishStep_cases) (auto simp: failed_finish_def)
  show ?case
  proof (cases "failed_finish ?x")
    case True
    with tr failed show ?thesis
      by (intro exI [of _ work] exI [of _ "fails @ [?x]"] exI [of _ "[]"]) simp
  next
    case False
    show ?thesis
    proof (cases "fails = []")
      case True
      with tr False show ?thesis
        by (intro exI [of _ "work @ [?x]"] exI [of _ "[]"]) simp
    next
      case closing: False
      with tr have p: "st_phase a = PFinish" using begin_active_closing [OF step.hyps(2)] by blast
      from step.hyps(3) have "oc = Finished \<and> st_phase s' = PDone"
      proof (cases rule: finishStep_cases)
        case (failed m)
        with p False show ?thesis by (simp add: failed_finish_def)
      next
        case regular
        with p finish_phase_Inr [OF regular(2)] show ?thesis by auto
      qed
      with p tr closing show ?thesis
        by (intro exI [of _ work] exI [of _ fails] exI [of _ "[?x]"]) simp
    qed
  qed
qed

text \<open>Only the steps before the first failed finish, and the last one, count.\<close>

lemma trace_closes_within:
  assumes "run_trace l s0 tr s"
  obtains work fails last where "tr = work @ fails @ last" "list_all failed_finish fails"
    "last = [] \<or> last = [(PFinish, Finished)]"
    "length (work @ last) = length (filter (\<lambda>x. \<not> failed_finish x) tr)"
proof -
  from trace_closes [OF assms] obtain work fails last where t: "tr = work @ fails @ last"
    "list_all (\<lambda>x. \<not> failed_finish x) work" "list_all failed_finish fails"
    "last = [] \<or> last = [(PFinish, Finished)]" by blast
  moreover have "filter (\<lambda>x. \<not> failed_finish x) work = work" "filter (\<lambda>x. \<not> failed_finish x) fails = []"
    using t(2,3) by (auto simp: filter_id_conv filter_empty_conv list_all_iff)
  ultimately show ?thesis by (intro that [of work fails last]) (auto simp: failed_finish_def)
qed

section \<open>A run can always be ended\<close>

definition closing_outcome :: "run_state \<Rightarrow> outcome" where
  "closing_outcome a = (if st_phase a = PKeep then Kept (st_workingRevision a)
     else if st_phase a = PDiscard then Discarded (st_bestRevision a) else Finished)"

lemma closing_finish:
  fixes out :: output_ref
  assumes "st_activeStep a = Some (st_sequence a)" "st_phase a \<in> {PKeep, PDiscard, PFinish}"
    "or_name out \<noteq> []" "z_positive (or_version out)"
  shows "\<exists>t. finishStep a (st_sequence a) (closing_outcome a) out = Inr t"
proof -
  have f: "finishStep a (st_sequence a) (closing_outcome a) out =
      finish_phase a (completed a out) (closing_outcome a)"
    using assms by (auto simp: finishStep_def Let_def completed_def closing_outcome_def
        z_positive_def)
  from assms(2) consider "st_phase a = PKeep" | "st_phase a = PDiscard" | "st_phase a = PFinish"
    by auto
  then show ?thesis unfolding f
    by cases (simp_all add: finish_phase_def closing_outcome_def)
qed

lemma begin_active_repairs:
  assumes "begin_active s l e = Inr a" "st_phase a \<in> {PKeep, PDiscard, PFinish}"
  shows "st_repairsThisAttempt a = st_repairsThisAttempt s"
  using begin_active_cases(6) [OF assms(1)] assms(2) by (auto simp: wrapped_def)

lemma late_run_ends:
  fixes out :: output_ref
  assumes "st_activeStep s = None" "st_elapsedMs s \<le> e" "maxDurationMs l \<le> e" "limits_ok l"
    "progress_ok (progress_of s e)" "or_name out \<noteq> []" "z_positive (or_version out)"
  shows "\<exists>steps tr' s'. run_list l tr s steps = Inr (tr', s') \<and> st_phase s' = PDone"
  using assms
proof (induction "late_weight (st_phase s)" arbitrary: s tr rule: less_induct)
  case less
  show ?case
  proof (cases "st_phase s = PDone")
    case True
    then have "run_list l tr s [] = Inr (tr, s) \<and> st_phase s = PDone" by simp
    then show ?thesis by blast
  next
    case False
    then obtain a where a: "begin_active s l e = Inr a"
      using begin_active_exists less.prems by blast
    note late = late_begin [OF a less.prems(3)] and frame = begin_active_frame [OF a]
    obtain t where t: "finishStep a (st_sequence a) (closing_outcome a) out = Inr t"
      using closing_finish [of a out] frame(9) late(1) less.prems(6,7) by blast
    note after = finishStep_frame [OF t]
    have "late_weight (st_phase t) < late_weight (st_phase a)"
      using late_finish [OF t late(1)] by (auto simp: failed_finish_def closing_outcome_def)
    moreover have "progress_of t e = progress_of s e"
      using after frame(11,12) begin_active_repairs [OF a late(1)] late(1)
      by (auto simp: progress_of_def)
    ultimately obtain steps tr' s' where
      "run_list l (tr @ [(st_phase a, closing_outcome a)]) t steps = Inr (tr', s')"
      "st_phase s' = PDone"
      using less.hyps [of t "tr @ [(st_phase a, closing_outcome a)]"] less.prems late(2) after frame(6)
      by auto
    with a t have "run_list l tr s ((e, closing_outcome a, out) # steps) = Inr (tr', s') \<and>
        st_phase s' = PDone" by (simp add: res_simps)
    then show ?thesis by blast
  qed
qed

end
