(* ===== verification/Driver.thy ===== *)
theory Driver
  imports Inference Run_Properties
begin

text \<open>
  \<^verbatim>\<open>_lib/driver.ts\<close>: one step of a run on the store. \<open>runSavedStep\<close> reserves the step in the
  saved state, performs its effect, saves the step result and then the state it leads to;
  \<open>recoverSavedStep\<close> applies a result that was saved before an interruption. The writes are not
  a transaction, so the two functions are modelled in the parts between their writes, and the
  lemmas say what each part leaves in any store that keeps the laws of the interface.
\<close>

section \<open>Operations\<close>

definition state_name :: "string \<Rightarrow> string" where
  "state_name runId = runId @ ''-state''"

definition step_name :: "string \<Rightarrow> int \<Rightarrow> string" where
  "step_name runId n = runId @ ''-step-'' @ dec_int n"

definition loadState :: "'st store_ops \<Rightarrow> string \<Rightarrow> ('st, run_state) action" where
  "loadState ops runId =
     bindA (liftA (zparse ''runId'' runIdSchema (JStr runId)))
     (\<lambda>_. bindA (so_read ops (state_name runId) None)
     (\<lambda>v. bindA (liftA (zparse ''state'' runStateSchema (or_null v)))
     (\<lambda>s. if st_runId s \<noteq> runId then liftA (Inl (Error ''Saved state belongs to another run''))
          else returnA s)))"

text \<open>The effect of a step: what \<^verbatim>\<open>perform\<close> returns or throws, with what it wrote.\<close>

type_synonym 'st perform = "run_state \<Rightarrow> ('st, step_effect) action"

text \<open>From the call to the first write, which marks the step active.\<close>

definition reserveSavedStep :: "'st store_ops \<Rightarrow> string \<Rightarrow> limits \<Rightarrow> int \<Rightarrow>
    ('st, run_state \<times> output_ref) action" where
  "reserveSavedStep ops runId l elapsed =
     bindA (loadState ops runId)
     (\<lambda>s. bindA (liftA (beginStep s l elapsed))
     (\<lambda>a. bindA (if st_activeStep a = None then liftA (beginStep a l elapsed) else returnA a)
     (\<lambda>active. bindA (so_read ops (step_name runId (st_sequence active)) None)
     (\<lambda>old. if old \<noteq> None
        then liftA (Inl (Error ''Step output already exists; inspect saved progress''))
        else bindA (so_write ops ''state'' (state_name runId) (enc_state active))
          (\<lambda>started. returnA (active, started))))))"

definition step_record_of :: "string \<Rightarrow> run_state \<Rightarrow> step_effect \<Rightarrow> step_record" where
  "step_record_of runId active effect =
     \<lparr>sr_runId = runId, sr_step = st_sequence active, sr_phase = st_phase active,
      sr_revision = st_workingRevision active, sr_outcome = se_outcome effect,
      sr_evidence = se_evidence effect\<rparr>"

definition parse_step :: "step_record \<Rightarrow> step_record res" where
  "parse_step r = zparse ''step'' stepResultSchema (enc_step r)"

text \<open>The effect the catch clause puts in place of one that threw or does not fit the step.\<close>

definition error_effect :: "js_error \<Rightarrow> output_ref list \<Rightarrow> step_effect" where
  "error_effect e evidence =
     \<lparr>se_outcome = Failed (error_string e),
      se_evidence = (case evidenceSchema (enc_refs evidence) of None \<Rightarrow> [] | Some rs \<Rightarrow> rs)\<rparr>"

definition performStep :: "string \<Rightarrow> run_state \<Rightarrow> 'st perform \<Rightarrow> ('st, step_effect) action" where
  "performStep runId active perform = (\<lambda>st. case perform active st of
     (Inl e, st') \<Rightarrow> (Inr (error_effect e []), st')
   | (Inr effect, st') \<Rightarrow>
       (case bindR (parse_step (step_record_of runId active effect)) (\<lambda>record'.
          finishStep active (st_sequence active) (sr_outcome record')
            \<lparr>or_name = step_name runId (st_sequence active), or_version = 1\<rparr>) of
          Inl e \<Rightarrow> (Inr (error_effect e (se_evidence effect)), st')
        | Inr _ \<Rightarrow> (Inr effect, st')))"

definition saveStepResult :: "'st store_ops \<Rightarrow> string \<Rightarrow> run_state \<Rightarrow> step_effect \<Rightarrow>
    ('st, step_record \<times> output_ref) action" where
  "saveStepResult ops runId active effect =
     bindA (liftA (parse_step (step_record_of runId active effect)))
     (\<lambda>record'. bindA (so_write ops ''step'' (step_name runId (st_sequence active)) (enc_step record'))
     (\<lambda>out. returnA (record', out)))"

definition commitStep :: "'st store_ops \<Rightarrow> string \<Rightarrow> run_state \<Rightarrow> outcome \<Rightarrow> output_ref \<Rightarrow>
    ('st, run_state \<times> output_ref) action" where
  "commitStep ops runId active oc out =
     bindA (liftA (finishStep active (st_sequence active) oc out))
     (\<lambda>s. bindA (so_write ops ''state'' (state_name runId) (enc_state s))
     (\<lambda>completed. returnA (s, completed)))"

record saved_step =
  ss_state :: run_state
  ss_record :: step_record
  ss_handles :: "output_ref list"

definition runSavedStep :: "'st store_ops \<Rightarrow> string \<Rightarrow> limits \<Rightarrow> int \<Rightarrow> 'st perform \<Rightarrow>
    ('st, saved_step) action" where
  "runSavedStep ops runId l elapsed perform =
     bindA (reserveSavedStep ops runId l elapsed)
     (\<lambda>(active, started). bindA (performStep runId active perform)
     (\<lambda>effect. bindA (saveStepResult ops runId active effect)
     (\<lambda>(record', out). bindA (commitStep ops runId active (sr_outcome record') out)
     (\<lambda>(s, completed). returnA \<lparr>ss_state = s, ss_record = record',
        ss_handles = [started, out, completed]\<rparr>))))"

definition recoverSavedStep :: "'st store_ops \<Rightarrow> string \<Rightarrow> ('st, run_state \<times> output_ref) action" where
  "recoverSavedStep ops runId =
     bindA (loadState ops runId)
     (\<lambda>active. if st_activeStep active = None
        then liftA (Inl (Error ''No interrupted step to recover''))
        else bindA (so_read ops (step_name runId (st_sequence active)) (Some 1))
        (\<lambda>saved. case saved of
           None \<Rightarrow> liftA (Inl (Error
             ''Interrupted step has no saved result; inspect its processes and unfinished changes before proceeding''))
         | Some v \<Rightarrow> bindA (liftA (zparse ''step'' stepResultSchema v))
             (\<lambda>record'. if sr_runId record' \<noteq> runId \<or> Some (sr_step record') \<noteq> st_activeStep active \<or>
                 sr_phase record' \<noteq> st_phase active \<or> sr_revision record' \<noteq> st_workingRevision active
               then liftA (Inl (Error ''Saved result does not match the interrupted step''))
               else commitStep ops runId active (sr_outcome record')
                 \<lparr>or_name = step_name runId (st_sequence active), or_version = 1\<rparr>)))"

section \<open>What the parts do\<close>

lemma schemas_null [simp]: "runStateSchema JNull = None" "stepResultSchema JNull = None"
  by (simp_all add: runStateSchema_def stepResultSchema_def z_strict_def)

lemma parse_step_Inr: "parse_step r = Inr r' \<longleftrightarrow> r' = r \<and> step_ok r"
  by (auto simp: parse_step_def zparse_Inr stepResultSchema_enc)

lemma parse_step_if: "parse_step r = (if step_ok r then Inr r else Inl (ZodError ''step''))"
  by (simp add: parse_step_def zparse_def stepResultSchema_enc)

lemma error_effect_eq: "error_effect e ev =
    \<lparr>se_outcome = Failed (error_string e), se_evidence = (if list_all ref_ok ev then ev else [])\<rparr>"
  by (simp add: error_effect_def evidenceSchema_enc)

lemma step_names_differ [simp]:
  "state_name n \<noteq> step_name n i" "step_name n i \<noteq> state_name n"
  "step_name n i = step_name n j \<longleftrightarrow> i = j"
  by (simp_all add: state_name_def step_name_def)

text \<open>The state a reader of the store sees.\<close>

definition saved_state :: "(string \<Rightarrow> json list) \<Rightarrow> string \<Rightarrow> run_state \<Rightarrow> bool" where
  "saved_state vs runId s \<longleftrightarrow> run_id_ok runId \<and> st_runId s = runId \<and>
     Option.bind (version_at (vs (state_name runId)) None) runStateSchema = Some s"

text \<open>
  An effect fits its step when its result has the saved form and its outcome completes the step;
  the effect that is recorded always does.
\<close>

definition effect_fits :: "string \<Rightarrow> run_state \<Rightarrow> step_effect \<Rightarrow> bool" where
  "effect_fits runId a eff \<longleftrightarrow> step_ok (step_record_of runId a eff) \<and>
     (\<exists>s'. finishStep a (st_sequence a) (se_outcome eff)
        \<lparr>or_name = step_name runId (st_sequence a), or_version = 1\<rparr> = Inr s')"

lemma performStep_cases:
  obtains (kept) eff st' where "perform a st = (Inr eff, st')" "effect_fits runId a eff"
      "performStep runId a perform st = (Inr eff, st')"
    | (replaced) e ev where "performStep runId a perform st = (Inr (error_effect e ev), snd (perform a st))"
      "\<And>eff. fst (perform a st) = Inr eff \<Longrightarrow> \<not> effect_fits runId a eff"
proof (cases "perform a st")
  case (Pair r st')
  show ?thesis
  proof (cases r)
    case (Inl e)
    with Pair show ?thesis by (intro that(2)) (simp_all add: performStep_def)
  next
    case (Inr eff)
    let ?c = "bindR (parse_step (step_record_of runId a eff)) (\<lambda>record'.
          finishStep a (st_sequence a) (sr_outcome record')
            \<lparr>or_name = step_name runId (st_sequence a), or_version = 1\<rparr>)"
    have fits: "effect_fits runId a eff \<longleftrightarrow> (\<exists>s'. ?c = Inr s')"
      by (simp add: effect_fits_def bindR_eq_Inr parse_step_Inr) (simp add: step_record_of_def)
    show ?thesis
    proof (cases ?c)
      case (Inl e)
      with Pair Inr fits show ?thesis by (intro that(2)) (simp_all add: performStep_def)
    next
      case ok: (Inr s')
      with Pair Inr fits show ?thesis by (intro that(1) [of eff st']) (simp_all add: performStep_def)
    qed
  qed
qed

lemma performStep_total: "\<exists>eff. performStep runId a perform st = (Inr eff, snd (perform a st))"
  by (rule performStep_cases [of perform a st runId]) auto

context resource_store
begin

lemma loadState_Inr:
  assumes "loadState ops n st = (Inr s, st')"
  shows "st' = st \<and> saved_state (versions st) n s"
proof -
  from assms obtain v where v: "so_read ops (state_name n) None st = (Inr v, st')"
    "runStateSchema (or_null v) = Some s" "st_runId s = n" "run_id_ok n"
    by (auto simp: loadState_def bindA_Inr res_simps split: if_splits)
  obtain w where "v = Some w" using v(2) by (cases v) auto
  moreover have "version_at (versions st (state_name n)) None = v \<and> st' = st"
    using read_Inr [OF v(1)] by simp
  ultimately show ?thesis using v(2-) by (simp add: saved_state_def)
qed


lemma reserveSavedStep_Inr:
  assumes "reserveSavedStep ops n l e st = (Inr (a, started), st')"
  obtains s where "saved_state (versions st) n s" "begin_active s l e = Inr a"
    "versions st (step_name n (st_sequence a)) = []"
    "so_write ops ''state'' (state_name n) (enc_state a) st = (Inr started, st')"
proof -
  from assms obtain s b st1 st2 where l: "loadState ops n st = (Inr s, st1)"
    and b: "beginStep s l e = Inr b"
    and a: "(if st_activeStep b = None then liftA (beginStep b l e) else returnA b) st1 = (Inr a, st2)"
    and r: "\<exists>st3. so_read ops (step_name n (st_sequence a)) None st2 = (Inr None, st3) \<and>
      so_write ops ''state'' (state_name n) (enc_state a) st3 = (Inr started, st')"
    by (fastforce simp: reserveSavedStep_def bindA_Inr split: if_splits)
  from loadState_Inr [OF l] have s: "st1 = st" "saved_state (versions st) n s" by simp_all
  from a b have "begin_active s l e = Inr a" "st2 = st"
    by (auto simp: begin_active_def s split: if_splits)
  moreover from r \<open>st2 = st\<close> have "version_at (versions st (step_name n (st_sequence a))) None = None"
    using read_Inr by fastforce
  moreover from r \<open>st2 = st\<close> have
    "so_write ops ''state'' (state_name n) (enc_state a) st = (Inr started, st')"
    using read_Inr by blast
  ultimately show ?thesis using s by (intro that [of s]) simp_all
qed


end

context tempo_store
begin

lemma state_write:
  assumes "so_write ops ''state'' (state_name n) (enc_state s) st = (Inr out, st')"
  shows "state_ok s"
    "versions st' = (versions st)(state_name n := versions st (state_name n) @ [enc_state s])"
    "st_runId s = n \<Longrightarrow> saved_state (versions st') n s"
proof -
  from write_appends [OF assms] state_normal [of s]
  show ok: "state_ok s" and
    v: "versions st' = (versions st)(state_name n := versions st (state_name n) @ [enc_state s])"
    by (auto split: if_splits)
  show "saved_state (versions st') n s" if "st_runId s = n"
    using ok that by (simp add: saved_state_def v runStateSchema_enc state_ok_def)
qed

lemma step_write:
  assumes "so_write ops ''step'' name (enc_step r) st = (Inr out, st')"
  shows "step_ok r" "versions st' = (versions st)(name := versions st name @ [enc_step r])"
    "or_name out = name" "or_version out = int (length (versions st name)) + 1"
  using write_appends [OF assms] step_normal [of r] by (auto split: if_splits)

text \<open>
  A saved step is one transition of the run state machine: from the state saved before to the
  state saved after, with the outcome and the reference of the saved step result.
\<close>

theorem runSavedStep_refines:
  assumes "runSavedStep ops n l e perform st = (Inr r, st')"
  obtains s a out where "saved_state (versions st) n s" "begin_active s l e = Inr a"
    "finishStep a (st_sequence a) (sr_outcome (ss_record r)) out = Inr (ss_state r)"
    "saved_state (versions st') n (ss_state r)" "or_name out = step_name n (st_sequence a)"
    "sr_phase (ss_record r) = st_phase a" "step_ok (ss_record r)"
proof -
  from assms obtain a started st1 eff st2 rec out st3 s' fin where
    res: "reserveSavedStep ops n l e st = (Inr (a, started), st1)"
    and perf: "performStep n a perform st1 = (Inr eff, st2)"
    and save: "saveStepResult ops n a eff st2 = (Inr (rec, out), st3)"
    and com: "commitStep ops n a (sr_outcome rec) out st3 = (Inr (s', fin), st')"
    and r: "r = \<lparr>ss_state = s', ss_record = rec, ss_handles = [started, out, fin]\<rparr>"
    by (auto simp: runSavedStep_def bindA_Inr split: prod.splits)
  obtain s where s: "saved_state (versions st) n s" "begin_active s l e = Inr a"
    by (rule reserveSavedStep_Inr [OF res])
  from save have rec: "rec = step_record_of n a eff" "step_ok rec"
    "so_write ops ''step'' (step_name n (st_sequence a)) (enc_step rec) st2 = (Inr out, st3)"
    by (auto simp: saveStepResult_def bindA_Inr parse_step_Inr)
  from com have f: "finishStep a (st_sequence a) (sr_outcome rec) out = Inr s'"
    "so_write ops ''state'' (state_name n) (enc_state s') st3 = (Inr fin, st')"
    by (auto simp: commitStep_def bindA_Inr)
  have "st_runId s' = n"
    using finishStep_frame(1) [OF f(1)] begin_active_frame(1) [OF s(2)] s(1)
    by (simp add: saved_state_def)
  with state_write(3) [OF f(2)] have "saved_state (versions st') n s'" by simp
  with s f rec r step_write(3) [OF rec(3)] show ?thesis
    by (intro that [of s a out]) (simp_all add: step_record_of_def)
qed

text \<open>A step that was left active is never run again, whatever its effect and the clock.\<close>

lemma runSavedStep_active:
  assumes "saved_state (versions st) n s" "st_activeStep s \<noteq> None"
    and "runSavedStep ops n l e perform st = (x, st')"
  shows "versions st' = versions st \<and> (\<exists>m. x = Inl m)"
proof -
  obtain y st1 where l: "loadState ops n st = (y, st1)" by fastforce
  have st1: "st1 = st" using l read_lookup
    by (auto simp: loadState_def bindA_def split: prod.splits sum.splits if_splits)
  have "\<exists>m. beginStep s l e = Inl m" using assms(2) by (simp add: beginStep_def)
  moreover have "y = Inr s' \<Longrightarrow> s' = s" for s'
    using loadState_Inr [of n st s' st1] l assms(1) by (auto simp: saved_state_def)
  ultimately have "(\<exists>m. x = Inl m) \<and> st' = st"
    using assms(3) l st1
    by (cases y) (auto simp: runSavedStep_def reserveSavedStep_def bindA_pair bindA_pair_Inl bindA_liftA)
  then show ?thesis by simp
qed

end

section \<open>The state stays well formed\<close>

lemma begin_active_state_ok:
  assumes "begin_active s l e = Inr a" "state_ok s" "st_sequence s < max_safe_integer"
  shows "state_ok a"
proof -
  note fr = begin_active_frame [OF assms(1)] and cs = begin_active_cases [OF assms(1)]
  have lim: "maxAttempts l \<le> max_safe_integer" "maxPiCalls l \<le> max_safe_integer"
    "maxRepairsPerAttempt l \<le> max_safe_integer"
    using cs(4) by (auto simp: limits_ok_def z_positive_def z_count_def safe_integer_def)
  have "st_attemptsStarted a \<le> max_safe_integer"
    using begin_active_within(1) [OF assms(1)] fr(11) lim(1) assms(2)
    by (auto simp: state_ok_def z_count_def safe_integer_def split: if_splits)
  moreover have "st_piCallsStarted a \<le> max_safe_integer"
    using begin_active_within(2) [OF assms(1)] fr(12) lim(2) assms(2)
    by (auto simp: state_ok_def z_count_def safe_integer_def split: if_splits)
  moreover have "0 \<le> st_repairsThisAttempt a \<and> st_repairsThisAttempt a \<le> max_safe_integer"
    using begin_active_within(3) [OF assms(1)] cs(6) lim(3) assms(2)
    by (auto simp: state_ok_def z_count_def safe_integer_def wrapped_def split: if_splits)
  moreover have "z_count e" using cs(5) by (simp add: progress_ok_def progress_of_def)
  ultimately show ?thesis using fr assms(2,3)
    by (auto simp: state_ok_def z_count_def z_positive_def safe_integer_def)
qed

lemma finish_measurement_revisions:
  "finish_measurement s r oc = Inr s' \<Longrightarrow>
     st_bestRevision s' = st_bestRevision r \<and> st_workingRevision s' = st_workingRevision r"
  by (erule finish_measurement_cases) simp_all

lemma finishStep_revisions:
  assumes "finishStep a n oc out = Inr s'" "revision_ok (st_bestRevision a)"
    "revision_ok (st_workingRevision a)"
  shows "revision_ok (st_bestRevision s')" "revision_ok (st_workingRevision s')"
proof -
  have "revision_ok (st_bestRevision s') \<and> revision_ok (st_workingRevision s')"
    using assms(1)
  proof (cases rule: finishStep_cases)
    case (failed m)
    with assms show ?thesis by simp
  next
    case regular
    from finish_phase_Inr [OF regular(2)] assms(2,3) show ?thesis
      by (cases "st_phase a") (auto dest!: finish_measurement_revisions)
  qed
  then show "revision_ok (st_bestRevision s')" "revision_ok (st_workingRevision s')" by simp_all
qed

lemma finishStep_state_ok:
  assumes "finishStep a n oc out = Inr s'" "state_ok a"
  shows "state_ok s'"
proof -
  have "ref_ok out" using assms(1)
    by (auto simp: finishStep_def ref_ok_def z_positive_def split: if_splits)
  then have "outputs_ok (st_outputs s')"
    using finishStep_frame(9) [OF assms(1)] assms(2)
    by (auto simp: state_ok_def outputs_ok_def list_all_iff)
  then show ?thesis
    using finishStep_frame [OF assms(1)] finishStep_revisions [OF assms(1)] assms(2)
    by (simp add: state_ok_def)
qed

section \<open>Recovery and totality on a reliable store\<close>

locale driver_store = tempo_store + reliable_store
begin

lemma loadState_eq: "saved_state (versions st) n s \<Longrightarrow> loadState ops n st = (Inr s, st)"
  by (auto simp: loadState_def saved_state_def bindA_def zparse_def read_eq
      bind_eq_Some_conv)

text \<open>
  An interruption between the two last writes loses nothing: recovery performs exactly the rest
  of the interrupted step.
\<close>

theorem recover_resumes:
  assumes res: "reserveSavedStep ops n l e st = (Inr (a, started), st1)"
    and perf: "performStep n a perform st1 = (Inr eff, st2)"
    and save: "saveStepResult ops n a eff st2 = (Inr (rec, out), st3)"
    and frame: "versions st2 (state_name n) = versions st1 (state_name n)"
      "versions st2 (step_name n (st_sequence a)) = versions st1 (step_name n (st_sequence a))"
  shows "recoverSavedStep ops n st3 = commitStep ops n a (sr_outcome rec) out st3"
proof -
  obtain s where s: "saved_state (versions st) n s" "begin_active s l e = Inr a"
    "versions st (step_name n (st_sequence a)) = []"
    "so_write ops ''state'' (state_name n) (enc_state a) st = (Inr started, st1)"
    by (rule reserveSavedStep_Inr [OF res])
  have id: "st_runId a = n" using begin_active_frame(1) [OF s(2)] s(1) by (simp add: saved_state_def)
  have sv: "saved_state (versions st1) n a" by (rule state_write(3) [OF s(4) id])
  have none: "versions st2 (step_name n (st_sequence a)) = []"
    using state_write(2) [OF s(4)] s(3) frame(2) by simp
  from save have rec: "rec = step_record_of n a eff" "step_ok rec"
    "so_write ops ''step'' (step_name n (st_sequence a)) (enc_step rec) st2 = (Inr out, st3)"
    by (auto simp: saveStepResult_def bindA_Inr parse_step_Inr)
  note w = step_write [OF rec(3)]
  have out: "out = \<lparr>or_name = step_name n (st_sequence a), or_version = 1\<rparr>"
    using w(3,4) none by (cases out) simp
  have "saved_state (versions st3) n a"
    using sv frame(1) w(2) by (simp add: saved_state_def)
  moreover have "version_at (versions st3 (step_name n (st_sequence a))) (Some 1) = Some (enc_step rec)"
    using w(2) none by (simp add: version_at_def)
  moreover have "sr_runId rec = n" "sr_step rec = st_sequence a" "sr_phase rec = st_phase a"
    "sr_revision rec = st_workingRevision a"
    by (simp_all add: rec(1) step_record_of_def)
  moreover have "st_activeStep a = Some (st_sequence a)" using begin_active_frame(9) [OF s(2)] .
  ultimately show ?thesis
    using rec(2) by (simp add: recoverSavedStep_def bindA_def loadState_eq read_eq zparse_def
        stepResultSchema_enc out)
qed

text \<open>Without a saved result nothing is guessed: recovery refuses and leaves the store alone.\<close>

lemma recover_refuses:
  assumes "saved_state (versions st) n a" "st_activeStep a \<noteq> None"
    "versions st (step_name n (st_sequence a)) = []"
  shows "\<exists>m. recoverSavedStep ops n st = (Inl (Error m), st)"
  using assms by (simp add: recoverSavedStep_def bindA_def loadState_eq read_eq)

lemma write_state:
  assumes "state_ok s"
  obtains out st' where "so_write ops ''state'' (state_name n) (enc_state s) st = (Inr out, st')"
  using write_eq [of "''state''" "enc_state s"] state_normal [of s] assms by metis

lemma write_step:
  assumes "step_ok r"
  obtains out st' where "so_write ops ''step'' name (enc_step r) st = (Inr out, st')"
  using write_eq [of "''step''" "enc_step r"] step_normal [of r] assms by metis

text \<open>
  Whatever the effect of a step does, the step is completed and recorded: with its own outcome
  when it fits the step, with an error otherwise.
\<close>

text \<open>What a reserved step performs fits it: the effect itself, or the error that replaces it.\<close>

lemma performed_fits:
  assumes "performStep n a perform st = (Inr eff, st')" "state_ok a" "z_positive (st_sequence a)"
    and "st_activeStep a = Some (st_sequence a)" "st_runId a = n"
  shows "effect_fits n a eff \<and> (fst (perform a st) = Inr eff \<or>
    (\<forall>eff'. fst (perform a st) = Inr eff' \<longrightarrow> \<not> effect_fits n a eff') \<and> (\<exists>m. se_outcome eff = Failed m))"
proof (cases rule: performStep_cases [of perform a st n])
  case (kept eff' st')
  with assms(1) show ?thesis by simp
next
  case (replaced e ev)
  with assms(1) have eff: "eff = error_effect e ev" by simp
  have "effect_fits n a eff"
    using assms(2-) by (auto simp: effect_fits_def eff error_effect_eq step_ok_def
        step_record_of_def state_ok_def finishStep_def step_name_def safe_integer_def max_safe_integer_def)
  with eff replaced(2) show ?thesis by (simp add: error_effect_eq)
qed

text \<open>A fitting effect of a step with a free name is saved and completes the step.\<close>

lemma fitting_effect_saved:
  assumes fits: "effect_fits n a eff" and "state_ok a" and "versions st (step_name n (st_sequence a)) = []"
  obtains s' out fin st1 st2 where "saveStepResult ops n a eff st = (Inr (step_record_of n a eff, out), st1)"
    "commitStep ops n a (se_outcome eff) out st1 = (Inr (s', fin), st2)"
    "out = \<lparr>or_name = step_name n (st_sequence a), or_version = 1\<rparr>"
    "finishStep a (st_sequence a) (se_outcome eff) out = Inr s'"
    "versions st2 = (versions st)(step_name n (st_sequence a) := [enc_step (step_record_of n a eff)],
       state_name n := versions st (state_name n) @ [enc_state s'])"
proof -
  have sok: "step_ok (step_record_of n a eff)" using fits by (simp add: effect_fits_def)
  obtain out st1 where w: "so_write ops ''step'' (step_name n (st_sequence a)) (enc_step (step_record_of n a eff)) st =
      (Inr out, st1)"
    using write_step [OF sok] by metis
  have out: "out = \<lparr>or_name = step_name n (st_sequence a), or_version = 1\<rparr>"
    using step_write(3,4) [OF w] assms(3) by (cases out) simp
  then obtain s' where s': "finishStep a (st_sequence a) (se_outcome eff) out = Inr s'"
    using fits by (auto simp: effect_fits_def)
  obtain fin st2 where c: "so_write ops ''state'' (state_name n) (enc_state s') st1 = (Inr fin, st2)"
    by (rule write_state [OF finishStep_state_ok [OF s' assms(2)]])
  have "versions st2 = (versions st)(step_name n (st_sequence a) := [enc_step (step_record_of n a eff)],
       state_name n := versions st (state_name n) @ [enc_state s'])"
    using step_write(2) [OF w] state_write(2) [OF c] assms(3) by simp
  then show ?thesis
    using that [OF _ _ out s'] s' sok w c by (simp add: saveStepResult_def commitStep_def bindA_def parse_step_if)
qed

text \<open>
  What the store holds after a step: the reserved state in front of the effect, and behind it the result
  of the step, under a name of its own, and the state it leads to. An effect that does not fit leads to
  the finish.
\<close>

theorem runSavedStep_total:
  assumes sv: "saved_state (versions st) n s" and a: "begin_active s l e = Inr a"
    and fresh: "versions st (step_name n (st_sequence a)) = []"
    and seq: "st_sequence s < max_safe_integer"
    and frame: "\<And>st1. versions (snd (perform a st1)) (step_name n (st_sequence a)) =
      versions st1 (step_name n (st_sequence a))"
  shows "\<exists>r st' st1 eff. runSavedStep ops n l e perform st = (Inr r, st') \<and>
    versions st1 = (versions st)(state_name n := versions st (state_name n) @ [enc_state a]) \<and>
    (fst (perform a st1) = Inr eff \<and> effect_fits n a eff \<or>
     (\<forall>eff'. fst (perform a st1) = Inr eff' \<longrightarrow> \<not> effect_fits n a eff') \<and>
        (\<exists>m. se_outcome eff = Failed m) \<and> st_phase (ss_state r) = PFinish) \<and>
    ss_record r = step_record_of n a eff \<and>
    finishStep a (st_sequence a) (se_outcome eff) \<lparr>or_name = step_name n (st_sequence a), or_version = 1\<rparr> =
      Inr (ss_state r) \<and>
    versions st' = (versions (snd (perform a st1)))(step_name n (st_sequence a) := [enc_step (ss_record r)],
      state_name n := versions (snd (perform a st1)) (state_name n) @ [enc_state (ss_state r)])"
proof -
  have ok: "state_ok s" "st_runId s = n"
    using sv by (auto simp: saved_state_def bind_eq_Some_conv dest: runStateSchema_ok)
  have aok: "state_ok a" by (rule begin_active_state_ok [OF a ok(1) seq])
  note fr = begin_active_frame [OF a]
  obtain started st1 where w1:
    "so_write ops ''state'' (state_name n) (enc_state a) st = (Inr started, st1)"
    by (rule write_state [OF aok])
  obtain b where b: "beginStep s l e = Inr b" "(if st_activeStep b = None then beginStep b l e else Inr b) = Inr a"
    using a by (auto simp: begin_active_def res_simps)
  have res: "reserveSavedStep ops n l e st = (Inr (a, started), st1)"
    using b by (auto simp: reserveSavedStep_def bindA_def loadState_eq [OF sv] read_eq fresh w1
        split: if_splits)
  obtain eff where p: "performStep n a perform st1 = (Inr eff, snd (perform a st1))"
    using performStep_total [of n a perform st1] by blast
  have "z_positive (st_sequence a)" using aok fr(9) by (simp add: state_ok_def)
  with performed_fits [OF p aok] fr(1,9) ok(2) have fits: "effect_fits n a eff"
    and which: "fst (perform a st1) = Inr eff \<or>
      (\<forall>eff'. fst (perform a st1) = Inr eff' \<longrightarrow> \<not> effect_fits n a eff') \<and> (\<exists>m. se_outcome eff = Failed m)"
    by simp_all
  have free: "versions (snd (perform a st1)) (step_name n (st_sequence a)) = []"
    using state_write(2) [OF w1] fresh frame [of st1] by simp
  obtain s' out fin st3 st4 where
    sr: "saveStepResult ops n a eff (snd (perform a st1)) = (Inr (step_record_of n a eff, out), st3)"
      "commitStep ops n a (se_outcome eff) out st3 = (Inr (s', fin), st4)"
    and out: "out = \<lparr>or_name = step_name n (st_sequence a), or_version = 1\<rparr>"
    and s': "finishStep a (st_sequence a) (se_outcome eff) out = Inr s'"
    and store: "versions st4 = (versions (snd (perform a st1)))
      (step_name n (st_sequence a) := [enc_step (step_record_of n a eff)],
       state_name n := versions (snd (perform a st1)) (state_name n) @ [enc_state s'])"
    by (rule fitting_effect_saved [OF fits aok free])
  let ?r = "\<lparr>ss_state = s', ss_record = step_record_of n a eff, ss_handles = [started, out, fin]\<rparr>"
  have run: "runSavedStep ops n l e perform st = (Inr ?r, st4)"
    using sr by (simp add: runSavedStep_def bindA_def res p) (simp add: step_record_of_def)
  have "st_phase s' = PFinish" if "se_outcome eff = Failed m" for m
    using s' that by (cases rule: finishStep_cases) simp_all
  with which fits have "fst (perform a st1) = Inr eff \<and> effect_fits n a eff \<or>
     (\<forall>eff'. fst (perform a st1) = Inr eff' \<longrightarrow> \<not> effect_fits n a eff') \<and>
        (\<exists>m. se_outcome eff = Failed m) \<and> st_phase s' = PFinish" by blast
  then show ?thesis
    using run state_write(2) [OF w1] out s' store
    by (intro exI [of _ ?r] exI [of _ st4] exI [of _ st1] exI [of _ eff] conjI) simp_all
qed

end

end
