(* ===== verification/Run_Claims.thy ===== *)
theory Run_Claims
  imports Run_Properties
begin

text \<open>
  The properties of \<^verbatim>\<open>_lib/state.ts\<close>, read off the invariant, the ledger and the budget of
  the reachable states, for every sequence of outcomes, clock readings and output references.
  Two concrete runs, computed with \<open>run_list\<close>, show that the hypotheses are met.
\<close>

section \<open>Concrete runs\<close>

definition sample_limits :: limits where
  "sample_limits = \<lparr>maxAttempts = 2, maxRepairsPerAttempt = 1, maxPiCalls = 9, maxDurationMs = 1000\<rparr>"

definition sample_rev :: "char \<Rightarrow> string" where
  "sample_rev c = replicate 40 c"

definition sample_out :: output_ref where
  "sample_out = \<lparr>or_name = ''step'', or_version = 1\<rparr>"

definition sample_start :: run_state where
  "sample_start = \<lparr>st_runId = ''run-1'', st_phase = PPrepare,
     st_initialRevision = sample_rev (CHR ''a''), st_bestRevision = sample_rev (CHR ''a''),
     st_workingRevision = sample_rev (CHR ''a''), st_attemptsStarted = 0,
     st_repairsThisAttempt = 0, st_piCallsStarted = 0, st_elapsedMs = 0, st_sequence = 0,
     st_activeStep = None, st_targetMet = False, st_stopReason = None,
     st_requestedProfile = Ctimer, st_outputs = (\<lambda>_. None)\<rparr>"

lemma sample_newRun: "newRun ''run-1'' (sample_rev (CHR ''a'')) = Inr sample_start"
proof -
  have "run_id_ok ''run-1''" "revision_ok (sample_rev (CHR ''a''))" by code_simp+
  then show ?thesis by (simp add: newRun_def sample_start_def)
qed

text \<open>One attempt whose version is kept, with the target met or not.\<close>

definition sample_trace :: "bool \<Rightarrow> trace" where
  "sample_trace met =
     [(PPrepare, Prepared), (PBaseline, Measured (sample_rev (CHR ''a'')) True None False False),
      (PStartAttempt, AttemptStarted), (PProfile, Profiled), (PAnalyze, Analysis Change None),
      (PImplement, Edited (sample_rev (CHR ''b''))), (PTest, Tested (sample_rev (CHR ''b'')) True),
      (PMeasure, Measured (sample_rev (CHR ''b'')) True None met True),
      (PReview, Reviewed (sample_rev (CHR ''b'')) True), (PKeep, Kept (sample_rev (CHR ''b'')))]"

definition sample_steps :: "trace \<Rightarrow> (int \<times> outcome \<times> output_ref) list" where
  "sample_steps tr = map (\<lambda>x. (10, snd x, sample_out)) tr"

lemma sample_start_facts: "fresh_run sample_start" "within_budget sample_limits sample_start"
    "st_bestRevision sample_start = sample_rev (CHR ''a'')" "st_runId sample_start = ''run-1''"
    "st_attemptsStarted sample_start = 0" "st_piCallsStarted sample_start = 0"
  by (rule newRun_fresh [OF sample_newRun])
    (simp_all add: sample_start_def within_budget_def sample_limits_def)

lemma sample_kept_computed:
  "case run_list sample_limits [] sample_start (sample_steps (sample_trace False)) of
     Inl _ \<Rightarrow> False
   | Inr (tr, s) \<Rightarrow> tr = sample_trace False \<and> st_phase s = PStartAttempt \<and>
       st_bestRevision s = sample_rev (CHR ''b'')"
  by code_simp

lemma sample_kept_run: "\<exists>s. run_trace sample_limits sample_start (sample_trace False) s \<and>
    st_phase s = PStartAttempt \<and> st_bestRevision s = sample_rev (CHR ''b'')"
proof -
  from sample_kept_computed obtain s where
    "run_list sample_limits [] sample_start (sample_steps (sample_trace False)) =
       Inr (sample_trace False, s)"
    "st_phase s = PStartAttempt" "st_bestRevision s = sample_rev (CHR ''b'')"
    by (auto split: sum.splits)
  then show ?thesis using run_list_trace run_trace.start by blast
qed

lemma sample_met_computed:
  "case run_list sample_limits [] sample_start
      (sample_steps (sample_trace True @ [(PFinish, Finished)])) of
     Inl _ \<Rightarrow> False
   | Inr (tr, s) \<Rightarrow> tr = sample_trace True @ [(PFinish, Finished)] \<and> st_phase s = PDone \<and>
       st_targetMet s \<and> st_bestRevision s = sample_rev (CHR ''b'')"
  by code_simp

lemma sample_met_run:
  "\<exists>s. run_trace sample_limits sample_start (sample_trace True @ [(PFinish, Finished)]) s \<and>
    st_phase s = PDone \<and> st_targetMet s \<and> st_bestRevision s = sample_rev (CHR ''b'')"
proof -
  from sample_met_computed obtain s where
    "run_list sample_limits [] sample_start (sample_steps (sample_trace True @ [(PFinish, Finished)]))
       = Inr (sample_trace True @ [(PFinish, Finished)], s)"
    "st_phase s = PDone" "st_targetMet s" "st_bestRevision s = sample_rev (CHR ''b'')"
    by (auto split: sum.splits)
  then show ?thesis using run_list_trace run_trace.start by blast
qed

section \<open>Properties\<close>

text \<open>
  C1: whatever tests, measurements, inference and the clock report, a run's best version changes
  only by a keep step, and the three steps just before that keep are, in this order, passing
  tests, a valid measurement that improved the best version or met the target, and a passing
  review, all of that very version.
\<close>

theorem best_version_was_accepted:
  assumes "run_trace l s0 tr s" "fresh_run s0" "st_bestRevision s \<noteq> st_bestRevision s0"
  shows "\<exists>tr1 tr2 inc met improved. tr = tr1 @
    [(PTest, Tested (st_bestRevision s) True),
     (PMeasure, Measured (st_bestRevision s) True inc met improved),
     (PReview, Reviewed (st_bestRevision s) True), (PKeep, Kept (st_bestRevision s))] @ tr2 \<and>
    (improved \<or> met)"
proof -
  have "best_evidence s0 tr s" using trace_inv [OF assms(1,2)] by (simp add: run_inv_def)
  with assms(3) obtain tr1 tr2 met where t: "tr = tr1 @ (PKeep, Kept (st_bestRevision s)) # tr2"
    "accepted_evidence (st_bestRevision s) met tr1"
    unfolding best_evidence_def by blast
  from t(2) obtain tr0 inc improved where "tr1 = tr0 @ [(PTest, Tested (st_bestRevision s) True),
      (PMeasure, Measured (st_bestRevision s) True inc met improved),
      (PReview, Reviewed (st_bestRevision s) True)]" "improved \<or> met"
    unfolding accepted_evidence_def by blast
  with t(1) show ?thesis
    by (intro exI [of _ tr0] exI [of _ tr2] exI [of _ inc] exI [of _ met] exI [of _ improved]) simp
qed

theorem best_version_was_accepted_witness:
  "\<exists>s :: run_state. st_bestRevision s = sample_rev (CHR ''b'') \<and>
    (\<exists>tr1 tr2 inc met improved. sample_trace False = tr1 @
    [(PTest, Tested (st_bestRevision s) True),
     (PMeasure, Measured (st_bestRevision s) True inc met improved),
     (PReview, Reviewed (st_bestRevision s) True), (PKeep, Kept (st_bestRevision s))] @ tr2 \<and>
    (improved \<or> met))"
proof -
  from sample_kept_run obtain s where s: "run_trace sample_limits sample_start (sample_trace False) s"
    "st_bestRevision s = sample_rev (CHR ''b'')" by blast
  then have "st_bestRevision s \<noteq> st_bestRevision sample_start"
    by (simp add: sample_start_facts sample_rev_def)
  from best_version_was_accepted [OF s(1) sample_start_facts(1) this] s(2) show ?thesis
    by - (intro exI [of _ s] conjI; assumption)
qed

text \<open>
  C2: when a run is done and reports the target as met, the best version it names was either
  measured valid and on target as the baseline, or was the last one kept, right after passing
  tests, a valid measurement that met the target and a passing review of it; only finishing
  steps came later.
\<close>

theorem target_met_is_backed:
  assumes "run_trace l s0 tr s" "fresh_run s0" "st_phase s = PDone" "st_targetMet s"
  shows "met_evidence s0 tr s"
  using trace_inv [OF assms(1,2)] assms(3,4) by (simp add: run_inv_def target_evidence_def)

theorem target_met_is_backed_witness:
  "\<exists>s. st_phase s = PDone \<and> st_targetMet s \<and>
     met_evidence sample_start (sample_trace True @ [(PFinish, Finished)]) s"
proof -
  from sample_met_run obtain s where
    "run_trace sample_limits sample_start (sample_trace True @ [(PFinish, Finished)]) s"
    "st_phase s = PDone" "st_targetMet s" by blast
  with target_met_is_backed [OF this(1) sample_start_facts(1) this(2,3)] show ?thesis by blast
qed

text \<open>
  C8: an attempt starts, and is profiled, analysed and implemented, on the best version itself,
  and only after the run's initial version was measured as a valid baseline that did not meet
  the target.
\<close>

theorem attempts_start_from_best:
  assumes "run_trace l s0 tr s" "fresh_run s0"
    and "st_phase s \<in> {PStartAttempt, PProfile, PAnalyze, PResearch, PImplement}"
  shows "st_workingRevision s = st_bestRevision s \<and>
    (\<exists>inc improved rest. tr = (PPrepare, Prepared) #
       (PBaseline, Measured (st_bestRevision s0) True inc False improved) # rest)"
proof -
  have p: "at_best_phase (st_phase s)" "st_phase s \<notin> {PPrepare, PBaseline, PFinish, PDone}"
    using assms(3) by (auto simp: at_best_phase_def)
  have "baseline_evidence s0 tr s" using trace_inv [OF assms(1,2)] by (simp add: run_inv_def)
  with p have "st_workingRevision s = st_bestRevision s" "baseline_prefix (st_bestRevision s0) False tr"
    by (simp_all only: baseline_evidence_def simp_thms)
  then show ?thesis by (simp add: baseline_prefix_def)
qed

theorem attempts_start_from_best_witness:
  "\<exists>s :: run_state. st_phase s = PStartAttempt \<and> st_workingRevision s = st_bestRevision s \<and>
    (\<exists>inc improved rest. sample_trace False = (PPrepare, Prepared) #
       (PBaseline, Measured (st_bestRevision sample_start) True inc False improved) # rest)"
proof -
  from sample_kept_run obtain s where s: "run_trace sample_limits sample_start (sample_trace False) s"
    "st_phase s = PStartAttempt" by blast
  then have p: "st_phase s \<in> {PStartAttempt, PProfile, PAnalyze, PResearch, PImplement}" by simp
  from attempts_start_from_best [OF s(1) sample_start_facts(1) p] s(2) show ?thesis
    by - (rule exI [of _ s], elim conjE, intro conjI; assumption)
qed



text \<open>
  C5: a run cannot go on for ever. Its trace is the work of the run, then attempts of the finish
  whose cleanup failed, if any, then at most one finish that succeeds. The work and that finish
  together are at most four steps, two for each allowed attempt and four for each allowed inference
  call; after the first failed finish nothing but finishes follows, and the loop of a run stops at
  each of those (\<^verbatim>\<open>Cleanup failed; inspect the saved finish result before resuming\<close>).
\<close>

theorem run_length_bounded:
  assumes "run_trace l s0 tr s" "fresh_run s0" "within_budget l s0"
  shows "\<exists>work fails last. tr = work @ fails @ last \<and> list_all failed_finish fails \<and>
    (last = [] \<or> last = [(PFinish, Finished)]) \<and>
    int (length (work @ last)) \<le> 4 +
      2 * (maxAttempts l - st_attemptsStarted s0) + 4 * (maxPiCalls l - st_piCallsStarted s0)"
proof -
  obtain work fails last where "tr = work @ fails @ last" "list_all failed_finish fails"
    "last = [] \<or> last = [(PFinish, Finished)]"
    "length (work @ last) = length (filter (\<lambda>x. \<not> failed_finish x) tr)"
    by (rule trace_closes_within [OF assms(1)])
  moreover have "int (length (filter (\<lambda>x. \<not> failed_finish x) tr)) \<le> 4 +
      2 * (maxAttempts l - st_attemptsStarted s0) + 4 * (maxPiCalls l - st_piCallsStarted s0)"
    using trace_spends [OF assms(1)] remaining_nonneg [OF trace_budget [OF assms(1,3)]] assms(2)
    by (simp add: remaining_def phase_weight_def fresh_run_def)
  ultimately show ?thesis by metis
qed

theorem run_length_bounded_witness:
  "\<exists>work fails last. sample_trace False = work @ fails @ last \<and> list_all failed_finish fails \<and>
    int (length (work @ last)) \<le> 4 +
      2 * (maxAttempts sample_limits - st_attemptsStarted sample_start) +
      4 * (maxPiCalls sample_limits - st_piCallsStarted sample_start)"
  using run_length_bounded [OF _ sample_start_facts(1,2)] sample_kept_run by blast

text \<open>
  C7: once the duration limit is reached, a run only keeps, discards or finishes. It takes at most two
  more steps, except that a finish whose cleanup failed may be attempted again: between them lie only
  such failed finishes, and after them at most one finish that succeeds.
\<close>

theorem deadline_stops_work:
  assumes "run_list l [] s steps = Inr (tr, s')"
    and "list_all (\<lambda>(e, _, _). maxDurationMs l \<le> e) steps"
  shows "list_all (\<lambda>(p, _). p \<in> {PKeep, PDiscard, PFinish}) tr \<and>
    (\<exists>work fails last. tr = work @ fails @ last \<and> list_all failed_finish fails \<and>
      (last = [] \<or> last = [(PFinish, Finished)]) \<and> length (work @ last) \<le> 2)"
proof -
  have "late_weight (st_phase s) \<le> 2" by (simp add: late_weight_def)
  with run_list_late [OF assms] have late: "list_all (\<lambda>(p, _). p \<in> {PKeep, PDiscard, PFinish}) tr"
    "length (filter (\<lambda>x. \<not> failed_finish x) tr) \<le> 2" by auto
  obtain work fails last where "tr = work @ fails @ last" "list_all failed_finish fails"
    "last = [] \<or> last = [(PFinish, Finished)]"
    "length (work @ last) = length (filter (\<lambda>x. \<not> failed_finish x) tr)"
    by (rule trace_closes_within [OF run_list_trace [OF assms(1) run_trace.start]])
  with late show ?thesis by metis
qed

theorem deadline_stops_work_witness:
  "\<exists>tr s' work fails last. run_list sample_limits [] sample_start [(2000, Finished, sample_out)] = Inr (tr, s') \<and>
     st_phase s' = PDone \<and> tr = work @ fails @ last \<and> list_all failed_finish fails \<and> length (work @ last) \<le> 2"
proof -
  have "case run_list sample_limits [] sample_start [(2000, Finished, sample_out)] of
      Inl _ \<Rightarrow> False | Inr (tr, s') \<Rightarrow> st_phase s' = PDone" by code_simp
  then obtain tr s' where
    r: "run_list sample_limits [] sample_start [(2000, Finished, sample_out)] = Inr (tr, s')"
    "st_phase s' = PDone" by (auto split: sum.splits)
  have "list_all (\<lambda>(e, _, _). maxDurationMs sample_limits \<le> e) [(2000::int, Finished, sample_out)]"
    by (simp add: sample_limits_def)
  from deadline_stops_work [OF r(1) this] r show ?thesis by blast
qed

text \<open>
  No reachable state is stuck: from every state of a run whose limits are valid, as long as
  the clock is a safe integer, some sequence of outcomes completes the run.
\<close>

theorem run_can_always_end:
  assumes "run_trace l s0 tr s" "fresh_run s0" "within_budget l s0" "limits_ok l"
    and "progress_ok (progress_of s0 (st_elapsedMs s))"
  shows "\<exists>steps tr' s'. run_list l tr s steps = Inr (tr', s') \<and> st_phase s' = PDone"
proof -
  let ?e = "max (st_elapsedMs s) (maxDurationMs l)"
  note led = trace_ledger [OF assms(1)] and bud = trace_budget [OF assms(1,3)]
  have "st_activeStep s = None" using led assms(2) by (simp add: fresh_run_def)
  moreover have "progress_ok (progress_of s ?e)"
  proof -
    have "0 \<le> st_repairsThisAttempt s" using assms(1,2)
    proof (induction rule: run_trace.induct)
      case (step tr s e a oc out s')
      then have "0 \<le> st_repairsThisAttempt a"
        using begin_active_cases(6) [OF step.hyps(2)] by (auto simp: wrapped_def)
      then show ?case using finishStep_frame(4) [OF step.hyps(3)] by simp
    qed (simp add: fresh_run_def)
    moreover have "0 \<le> st_attemptsStarted s" "0 \<le> st_piCallsStarted s"
      using led assms(2,5)
      by (simp_all add: fresh_run_def count_steps_def progress_ok_def progress_of_def z_count_def)
    ultimately show ?thesis using bud assms(4,5)
      by (simp add: progress_ok_def progress_of_def limits_ok_def within_budget_def z_count_def
          z_positive_def safe_integer_def max_def) linarith
  qed
  ultimately show ?thesis
    using late_run_ends [of s ?e l sample_out tr] assms(4)
    by (simp add: sample_out_def z_positive_def safe_integer_def max_safe_integer_def)
qed

theorem run_can_always_end_witness:
  "\<exists>s. st_phase s = PStartAttempt \<and>
    (\<exists>steps tr' s'. run_list sample_limits (sample_trace False) s steps = Inr (tr', s') \<and>
       st_phase s' = PDone)"
proof -
  have e: "case run_list sample_limits [] sample_start (sample_steps (sample_trace False)) of
     Inl _ \<Rightarrow> False
   | Inr (tr, s) \<Rightarrow> tr = sample_trace False \<and> st_phase s = PStartAttempt \<and> st_elapsedMs s = 10"
    by code_simp
  then obtain s where
    s: "run_list sample_limits [] sample_start (sample_steps (sample_trace False)) =
       Inr (sample_trace False, s)" "st_phase s = PStartAttempt" "st_elapsedMs s = 10"
    by (auto split: sum.splits)
  have p: "limits_ok sample_limits" "progress_ok (progress_of sample_start 10)" by code_simp+
  have "run_trace sample_limits sample_start (sample_trace False) s"
    using s(1) run_list_trace run_trace.start by blast
  from run_can_always_end [OF this sample_start_facts(1,2) p(1)] p(2) s show ?thesis by auto
qed

end
