(* ===== verification/Guard.thy ===== *)
theory Guard
  imports Json
begin

text \<open>
  \<^verbatim>\<open>swamp/pi/guard.ts\<close>: the file policy of the tools an inference process may use. Paths are the
  POSIX paths of \<^verbatim>\<open>node:path\<close>; \<^verbatim>\<open>realpath\<close>, \<^verbatim>\<open>readFile\<close> and \<^verbatim>\<open>lstat\<close> answer from the file system
  and are arguments.
\<close>

section \<open>POSIX paths\<close>

text \<open>The segments of an absolute path: empty and single-dot segments vanish, double dots climb.\<close>

definition norm_step :: "string list \<Rightarrow> string \<Rightarrow> string list" where
  "norm_step acc seg =
     (if seg = [] \<or> seg = ''.'' then acc else if seg = ''..'' then butlast acc else acc @ [seg])"

definition norm_segs :: "string list \<Rightarrow> string list" where
  "norm_segs segs = foldl norm_step [] segs"

definition path_segs :: "string \<Rightarrow> string list" where
  "path_segs p = norm_segs (js_split (CHR ''/'') p)"

definition path_of :: "string list \<Rightarrow> string" where
  "path_of segs = CHR ''/'' # js_join ''/'' segs"

definition is_absolute :: "string \<Rightarrow> bool" where
  "is_absolute p \<longleftrightarrow> starts_with ''/'' p"

text \<open>\<^verbatim>\<open>resolve(base, input)\<close> and \<^verbatim>\<open>join(base, piece)\<close> for an absolute base.\<close>

definition resolve_path :: "string \<Rightarrow> string \<Rightarrow> string" where
  "resolve_path base inp =
     path_of (path_segs (if is_absolute inp then inp else base @ ''/'' @ inp))"

definition join_path :: "string \<Rightarrow> string \<Rightarrow> string" where
  "join_path base piece = path_of (path_segs (base @ ''/'' @ piece))"

fun drop_common :: "'a list \<Rightarrow> 'a list \<Rightarrow> 'a list \<times> 'a list" where
  "drop_common (x # xs) (y # ys) = (if x = y then drop_common xs ys else (x # xs, y # ys))"
| "drop_common xs ys = (xs, ys)"

definition relative_path :: "string \<Rightarrow> string \<Rightarrow> string" where
  "relative_path from' to' = (case drop_common (path_segs from') (path_segs to') of
     (up, down) \<Rightarrow> js_join ''/'' (replicate (length up) ''..'' @ down))"

section \<open>The policy\<close>

datatype guard_stage = GAnalyze | GResearch | GImplement | GRepair | GReview

record policy =
  po_workspace :: string
  po_readRoots :: "string list"
  po_stage :: guard_stage

definition guard_stages :: "(string \<times> guard_stage) list" where
  "guard_stages = [(''analyze'', GAnalyze), (''research'', GResearch), (''implement'', GImplement),
     (''repair'', GRepair), (''review'', GReview)]"

definition writePrefixes :: "string list" where
  "writePrefixes = [''src/main/'', ''src/shim/'', ''src/test/clojure/'', ''design/'']"

text \<open>The properties of a parsed policy: an array counts as an object without them.\<close>

definition policy_fields :: "json \<Rightarrow> (string \<times> json) list option" where
  "policy_fields v = (case v of JObj kvs \<Rightarrow> Some kvs | JArr _ \<Rightarrow> Some [] | _ \<Rightarrow> None)"

fun absolute_roots :: "json list \<Rightarrow> string list option" where
  "absolute_roots [] = Some []"
| "absolute_roots (v # vs) = (case v of
     JStr s \<Rightarrow> if is_absolute s then map_option ((#) s) (absolute_roots vs) else None | _ \<Rightarrow> None)"

definition loadPolicy :: "(string \<Rightarrow> string res) \<Rightarrow> (string \<Rightarrow> json res) \<Rightarrow> (string \<Rightarrow> string res) \<Rightarrow>
    string \<Rightarrow> policy res" where
  "loadPolicy readFile jparse realpath path =
     (case bindR (readFile path) jparse of
        Inl _ \<Rightarrow> Inl (Error ''Cannot load Tempo policy'')
      | Inr raw \<Rightarrow> (case policy_fields raw of
          None \<Rightarrow> Inl (Error ''Invalid Tempo policy'')
        | Some kvs \<Rightarrow>
            (case (map_of kvs ''workspace'', map_of kvs ''readRoots'', map_of kvs ''stage'') of
               (Some (JStr workspace), Some (JArr roots), Some (JStr stage)) \<Rightarrow>
                 (case (absolute_roots roots, map_of guard_stages stage) of
                    (Some roots', Some stage') \<Rightarrow>
                      if is_absolute workspace
                      then bindR (realpath workspace) (\<lambda>w. bindR (mapR realpath roots') (\<lambda>rs.
                        Inr \<lparr>po_workspace = w, po_readRoots = rs, po_stage = stage'\<rparr>))
                      else Inl (Error ''Invalid Tempo policy'')
                  | _ \<Rightarrow> Inl (Error ''Invalid Tempo policy''))
             | _ \<Rightarrow> Inl (Error ''Invalid Tempo policy''))))"

section \<open>Authorising a path\<close>

definition contained :: "string \<Rightarrow> string \<Rightarrow> bool" where
  "contained dir path \<longleftrightarrow> (let suffix = relative_path dir path in
     suffix = [] \<or> (\<not> is_absolute suffix \<and> suffix \<noteq> ''..'' \<and> \<not> starts_with ''../'' suffix))"

text \<open>What \<^verbatim>\<open>lstat\<close> answers: the kind of the file and its link count, or an error.\<close>

datatype file_kind = RegularFile | Directory | SymbolicLink | OtherFile

datatype lstat = Lstat file_kind int | NoEntry js_error | LstatError js_error

fun check_pieces :: "(string \<Rightarrow> lstat) \<Rightarrow> string \<Rightarrow> bool \<Rightarrow> string \<Rightarrow> string list \<Rightarrow> unit res" where
  "check_pieces fs tool writing current [] = Inr ()"
| "check_pieces fs tool writing current (piece # rest) =
     (let here = join_path current piece in
      case fs here of
        LstatError e \<Rightarrow> Inl e
      | NoEntry e \<Rightarrow> if writing \<and> tool = ''tempo_write'' then Inr () else Inl e
      | Lstat kind nlink \<Rightarrow>
          if kind = SymbolicLink
          then Inl (Error ''Symlinks are not available to Tempo tools'')
          else if kind \<noteq> RegularFile \<and> kind \<noteq> Directory
          then Inl (Error ''Only regular files and directories are available'')
          else if rest \<noteq> [] \<and> kind \<noteq> Directory
          then Inl (Error ''Parent is not a directory'')
          else if writing \<and> kind = RegularFile \<and> nlink \<noteq> 1
          then Inl (Error ''Hard-linked files cannot be changed'')
          else check_pieces fs tool writing here rest)"

definition ordinary_input :: "string \<Rightarrow> bool" where
  "ordinary_input s \<longleftrightarrow> s \<noteq> [] \<and> list_all (\<lambda>c. 32 \<le> (of_char c :: nat)) s \<and>
     hd s \<noteq> CHR ''~'' \<and> hd s \<noteq> CHR ''@''"

definition authorizePath :: "(string \<Rightarrow> lstat) \<Rightarrow> policy \<Rightarrow> string \<Rightarrow> json \<Rightarrow> string res" where
  "authorizePath fs policy tool inp =
     (if tool \<notin> {''tempo_read'', ''tempo_write'', ''tempo_edit''}
      then Inl (Error ''Tool is not permitted'')
      else (case inp of
        JStr s \<Rightarrow>
          if \<not> ordinary_input s then Inl (Error ''Use an ordinary file path'')
          else let writing = (tool \<noteq> ''tempo_read'') in
            if writing \<and> po_stage policy \<noteq> GImplement \<and> po_stage policy \<noteq> GRepair
            then Inl (Error ''This step is read-only'')
            else let path = resolve_path (po_workspace policy) s;
                     roots = (if writing then [po_workspace policy]
                       else po_workspace policy # po_readRoots policy) in
              (case find (\<lambda>r. contained r path) roots of
                 None \<Rightarrow> Inl (Error ''Path is outside the permitted directories'')
               | Some dir \<Rightarrow>
                   let pieces = filter (\<lambda>p. p \<noteq> []) (js_split (CHR ''/'') (relative_path dir path)) in
                   if list_ex (starts_with ''.'') pieces
                   then Inl (Error ''Hidden files and Git metadata are not available'')
                   else if writing \<and> \<not> list_ex (\<lambda>prefix.
                       starts_with prefix (relative_path (po_workspace policy) path)) writePrefixes
                   then Inl (Error
                     ''Only application source, tests, and design documents can be changed'')
                   else bindR (check_pieces fs tool writing dir pieces) (\<lambda>_. Inr path))
      | _ \<Rightarrow> Inl (Error ''Use an ordinary file path'')))"

section \<open>Facts on paths\<close>

definition clean_seg :: "string \<Rightarrow> bool" where
  "clean_seg s \<longleftrightarrow> s \<noteq> [] \<and> s \<noteq> ''.'' \<and> s \<noteq> ''..'' \<and> CHR ''/'' \<notin> set s"

lemma norm_step_clean: "list_all clean_seg acc \<Longrightarrow> CHR ''/'' \<notin> set seg \<Longrightarrow> list_all clean_seg (norm_step acc seg)"
  by (auto simp: norm_step_def clean_seg_def list_all_iff dest: in_set_butlastD)

lemma foldl_norm_clean: "list_all clean_seg acc \<Longrightarrow> \<forall>s \<in> set segs. CHR ''/'' \<notin> set s \<Longrightarrow>
    list_all clean_seg (foldl norm_step acc segs)"
  by (induction segs arbitrary: acc) (auto intro: norm_step_clean)

lemma path_segs_clean [simp]: "list_all clean_seg (path_segs p)"
  unfolding path_segs_def norm_segs_def
  by (rule foldl_norm_clean) (auto dest: js_split_no_sep)

lemma foldl_norm_id: "list_all clean_seg segs \<Longrightarrow> foldl norm_step acc segs = acc @ segs"
  by (induction segs arbitrary: acc) (auto simp: norm_step_def clean_seg_def)

lemma split_join_clean: "list_all clean_seg segs \<Longrightarrow> segs \<noteq> [] \<Longrightarrow>
    js_split (CHR ''/'') (js_join ''/'' segs) = segs"
  by (intro js_split_join) (auto simp: list_all_iff clean_seg_def)

lemma path_segs_path_of [simp]: "list_all clean_seg segs \<Longrightarrow> path_segs (path_of segs) = segs"
  by (cases "segs = []")
    (simp_all add: path_segs_def path_of_def norm_segs_def split_join_clean foldl_norm_id norm_step_def)

lemma pieces_of_join: "list_all clean_seg segs \<Longrightarrow>
    filter (\<lambda>p. p \<noteq> []) (js_split (CHR ''/'') (js_join ''/'' segs)) = segs"
  by (cases "segs = []") (auto simp: split_join_clean list_all_iff clean_seg_def)

lemma js_split_append: "js_split c (s @ c # t) = js_split c s @ js_split c t"
  by (induction s) (auto split: list.splits)

lemma path_segs_below: "path_segs (base @ CHR ''/'' # p) = foldl norm_step (path_segs base) (js_split (CHR ''/'') p)"
  by (simp add: path_segs_def norm_segs_def js_split_append)

lemma join_path_clean: "clean_seg piece \<Longrightarrow> join_path base piece = path_of (path_segs base @ [piece])"
  by (simp add: join_path_def path_segs_below js_split_single clean_seg_def norm_step_def)

lemma drop_common_iff: "drop_common xs ys = (up, down) \<Longrightarrow>
    \<exists>common. xs = common @ up \<and> ys = common @ down"
proof (induction xs ys arbitrary: up down rule: drop_common.induct)
  case (1 x xs y ys)
  show ?case
  proof (cases "x = y")
    case True
    with 1 obtain common where "xs = common @ up" "ys = common @ down" by auto
    with True show ?thesis by (intro exI [of _ "x # common"]) simp
  next
    case False
    with 1 show ?thesis by (intro exI [of _ "[]"]) simp
  qed
qed simp_all

lemma drop_common_prefix: "drop_common xs (xs @ ys) = ([], ys)"
  by (induction xs) (cases ys; simp)+

lemma starts_with_dots_join: "clean_seg s \<Longrightarrow> \<not> starts_with ''../'' (js_join ''/'' (s # rest))"
  by (cases rest) (auto simp: starts_with_iff clean_seg_def append_eq_Cons_conv Cons_eq_append_conv)

text \<open>Containment is a prefix of segments.\<close>

lemma contained_iff: "contained dir path \<longleftrightarrow> (\<exists>down. path_segs path = path_segs dir @ down)"
proof
  assume c: "contained dir path"
  obtain up down where d: "drop_common (path_segs dir) (path_segs path) = (up, down)" by fastforce
  from drop_common_iff [OF d] obtain common where
    eq: "path_segs dir = common @ up" "path_segs path = common @ down" by blast
  have "up = []"
  proof (rule ccontr)
    assume "up \<noteq> []"
    then obtain u us where u: "up = u # us" by (cases up) auto
    let ?rest = "replicate (length us) ''..'' @ down"
    have rel: "relative_path dir path = js_join ''/'' (''..'' # ?rest)"
      by (simp add: relative_path_def d u)
    show False
      using c unfolding contained_def rel Let_def
      by (cases ?rest) (simp_all add: starts_with_def)
  qed
  with eq show "\<exists>down. path_segs path = path_segs dir @ down" by simp
next
  assume "\<exists>down. path_segs path = path_segs dir @ down"
  then obtain down where d: "path_segs path = path_segs dir @ down" by blast
  have cl: "list_all clean_seg down" using path_segs_clean [of path] by (simp add: d)
  have rel: "relative_path dir path = js_join ''/'' down"
    by (simp add: relative_path_def d drop_common_prefix)
  show "contained dir path"
  proof (cases down)
    case Nil
    then show ?thesis by (simp add: contained_def rel Let_def)
  next
    case (Cons s rest)
    with cl have s: "clean_seg s" by simp
    then have "\<not> is_absolute (js_join ''/'' (s # rest))"
      by (cases rest; cases s) (auto simp: is_absolute_def starts_with_def clean_seg_def)
    moreover have "js_join ''/'' (s # rest) \<noteq> ''..''"
      using s by (cases rest) (auto simp: clean_seg_def append_eq_Cons_conv)
    ultimately show ?thesis
      using starts_with_dots_join [OF s] by (simp add: contained_def rel Let_def Cons)
  qed
qed

lemma relative_below: "path_segs path = path_segs dir @ down \<Longrightarrow> relative_path dir path = js_join ''/'' down"
  by (simp add: relative_path_def drop_common_prefix)

section \<open>What an authorised path is\<close>

definition visible_seg :: "string \<Rightarrow> bool" where
  "visible_seg s \<longleftrightarrow> clean_seg s \<and> \<not> starts_with ''.'' s"

text \<open>
  The file system along the way from a directory down to the path, up to the first name that does
  not exist yet.
\<close>

definition reached :: "(string \<Rightarrow> lstat) \<Rightarrow> string list \<Rightarrow> string list \<Rightarrow> nat \<Rightarrow> bool" where
  "reached fs base down k \<longleftrightarrow> (\<forall>j < k. \<forall>e. fs (path_of (base @ take (Suc j) down)) \<noteq> NoEntry e)"

definition way_safe :: "(string \<Rightarrow> lstat) \<Rightarrow> string \<Rightarrow> string list \<Rightarrow> string list \<Rightarrow> bool" where
  "way_safe fs tool base down \<longleftrightarrow>
     (\<forall>k < length down. reached fs base down k \<longrightarrow>
       (case fs (path_of (base @ take (Suc k) down)) of
          Lstat kind nlink \<Rightarrow> (kind = Directory \<or> kind = RegularFile \<and> Suc k = length down) \<and>
            (tool \<noteq> ''tempo_read'' \<and> kind = RegularFile \<longrightarrow> nlink = 1)
        | NoEntry _ \<Rightarrow> tool = ''tempo_write''
        | LstatError _ \<Rightarrow> False))"

lemma check_pieces_safe:
  assumes "check_pieces fs tool writing cur down = Inr ()" "list_all clean_seg down"
    "k < length down" "reached fs (path_segs cur) down k"
  shows "case fs (path_of (path_segs cur @ take (Suc k) down)) of
        Lstat kind nlink \<Rightarrow> (kind = Directory \<or> kind = RegularFile \<and> Suc k = length down) \<and>
          (writing \<and> kind = RegularFile \<longrightarrow> nlink = 1)
      | NoEntry _ \<Rightarrow> writing \<and> tool = ''tempo_write''
      | LstatError _ \<Rightarrow> False"
  using assms
proof (induction fs tool writing cur down arbitrary: k rule: check_pieces.induct)
  case (1 fs tool writing current)
  then show ?case by simp
next
  case (2 fs tool writing current piece rest)
  have here: "join_path current piece = path_of (path_segs current @ [piece])"
    using 2 by (simp add: join_path_clean)
  have segs: "path_segs (join_path current piece) = path_segs current @ [piece]"
    using 2 by (simp add: here)
  show ?case
  proof (cases "fs (join_path current piece)")
    case (NoEntry e)
    have "k = 0"
    proof (rule ccontr)
      assume "k \<noteq> 0"
      with 2(5) have "fs (path_of (path_segs current @ take (Suc 0) (piece # rest))) \<noteq> NoEntry e"
        unfolding reached_def by blast
      with NoEntry here show False by simp
    qed
    with 2 NoEntry here show ?thesis by (simp add: Let_def split: if_splits)
  next
    case (LstatError e)
    with 2 show ?thesis by (simp add: Let_def)
  next
    case (Lstat kind nlink)
    show ?thesis
    proof (cases k)
      case 0
      with 2 Lstat here show ?thesis
        by (cases kind) (auto simp: Let_def split: if_splits)
    next
      case (Suc i)
      have "reached fs (path_segs current @ [piece]) rest i"
        using 2(5) Suc unfolding reached_def by (auto dest: spec [of _ "Suc _"])
      moreover have "check_pieces fs tool writing (join_path current piece) rest = Inr ()"
        using 2(2) Lstat by (auto simp: Let_def split: if_splits)
      moreover have "i < length rest" "list_all clean_seg rest" using 2(3,4) Suc by auto
      ultimately have "case fs (path_of (path_segs (join_path current piece) @ take (Suc i) rest)) of
          Lstat kind nlink \<Rightarrow> (kind = Directory \<or> kind = RegularFile \<and> Suc i = length rest) \<and>
            (writing \<and> kind = RegularFile \<longrightarrow> nlink = 1)
        | NoEntry _ \<Rightarrow> writing \<and> tool = ''tempo_write'' | LstatError _ \<Rightarrow> False"
        using 2(1) [OF refl Lstat] 2(2) Lstat segs
        by (auto simp: Let_def split: if_splits)
      then show ?thesis by (simp add: segs Suc split: lstat.splits)
    qed
  qed
qed

text \<open>The written prefixes as segments.\<close>

lemma starts_with_prefix_segs:
  assumes "list_all clean_seg down" "starts_with (js_join ''/'' pre @ ''/'') (js_join ''/'' down)"
    and "list_all clean_seg pre" "pre \<noteq> []"
  shows "\<exists>rest. down = pre @ rest \<and> rest \<noteq> []"
proof -
  from assms(2) obtain t where t: "js_join ''/'' down = js_join ''/'' pre @ CHR ''/'' # t"
    by (auto simp: starts_with_iff)
  then have "down \<noteq> []" by auto
  with assms(1) have "js_split (CHR ''/'') (js_join ''/'' down) = down" by (rule split_join_clean)
  moreover have "js_split (CHR ''/'') (js_join ''/'' down) = pre @ js_split (CHR ''/'') t"
    unfolding t js_split_append split_join_clean [OF assms(3,4)] ..
  ultimately show ?thesis by (intro exI [of _ "js_split (CHR ''/'') t"]) simp
qed

definition writable_segs :: "string list list" where
  "writable_segs = [[''src'', ''main''], [''src'', ''shim''], [''src'', ''test'', ''clojure''], [''design'']]"

lemma writePrefixes_segs: "writePrefixes = map (\<lambda>pre. js_join ''/'' pre @ ''/'') writable_segs"
  by (simp add: writePrefixes_def writable_segs_def)

lemma authorizePath_Inr:
  assumes "authorizePath fs policy tool inp = Inr path"
  obtains s dir where "tool \<in> {''tempo_read'', ''tempo_write'', ''tempo_edit''}" "inp = JStr s"
    "path = resolve_path (po_workspace policy) s" "contained dir path"
    "tool \<noteq> ''tempo_read'' \<Longrightarrow> po_stage policy \<in> {GImplement, GRepair} \<and> dir = po_workspace policy \<and>
       list_ex (\<lambda>prefix. starts_with prefix (relative_path (po_workspace policy) path)) writePrefixes"
    "dir \<in> set (po_workspace policy # po_readRoots policy)"
    "\<not> list_ex (starts_with ''.'') (filter (\<lambda>p. p \<noteq> []) (js_split (CHR ''/'') (relative_path dir path)))"
    "check_pieces fs tool (tool \<noteq> ''tempo_read'') dir
       (filter (\<lambda>p. p \<noteq> []) (js_split (CHR ''/'') (relative_path dir path))) = Inr ()"
proof -
  from assms obtain s where s: "inp = JStr s"
    by (cases inp) (auto simp: authorizePath_def split: if_splits)
  let ?path = "resolve_path (po_workspace policy) s"
  let ?roots = "if tool \<noteq> ''tempo_read'' then [po_workspace policy]
    else po_workspace policy # po_readRoots policy"
  from assms s obtain dir where f: "find (\<lambda>r. contained r ?path) ?roots = Some dir"
    by (auto simp: authorizePath_def Let_def split: if_splits option.splits)
  then have "contained dir ?path" "dir \<in> set ?roots"
    by (auto simp: find_Some_iff in_set_conv_nth)
  moreover from assms s f have "path = ?path"
    by (auto simp: authorizePath_def Let_def res_simps split: if_splits)
  ultimately show ?thesis using assms s f
    by (intro that [of s dir]) (auto simp: authorizePath_def Let_def res_simps split: if_splits)
qed

text \<open>The directory an authorised path lies in, and the segments below it.\<close>

lemma authorizePath_below:
  assumes "authorizePath fs policy tool inp = Inr path"
  obtains dir down where "dir \<in> set (po_workspace policy # po_readRoots policy)"
    "path_segs path = path_segs dir @ down" "list_all visible_seg down"
    "way_safe fs tool (path_segs dir) down" "path = path_of (path_segs dir @ down)"
    "tool \<noteq> ''tempo_read'' \<Longrightarrow> po_stage policy \<in> {GImplement, GRepair} \<and> dir = po_workspace policy \<and>
       (\<exists>pre \<in> set writable_segs. \<exists>rest. down = pre @ rest \<and> rest \<noteq> [])"
proof -
  from assms obtain s dir where a: "path = resolve_path (po_workspace policy) s" "contained dir path"
    "tool \<noteq> ''tempo_read'' \<Longrightarrow> po_stage policy \<in> {GImplement, GRepair} \<and> dir = po_workspace policy \<and>
       list_ex (\<lambda>prefix. starts_with prefix (relative_path (po_workspace policy) path)) writePrefixes"
    "dir \<in> set (po_workspace policy # po_readRoots policy)"
    "\<not> list_ex (starts_with ''.'') (filter (\<lambda>p. p \<noteq> []) (js_split (CHR ''/'') (relative_path dir path)))"
    "check_pieces fs tool (tool \<noteq> ''tempo_read'') dir
       (filter (\<lambda>p. p \<noteq> []) (js_split (CHR ''/'') (relative_path dir path))) = Inr ()"
    by (rule authorizePath_Inr) blast
  from a(2) obtain down where d: "path_segs path = path_segs dir @ down"
    unfolding contained_iff by blast
  have cl: "list_all clean_seg down" using path_segs_clean [of path] by (simp add: d)
  have pieces: "filter (\<lambda>p. p \<noteq> []) (js_split (CHR ''/'') (relative_path dir path)) = down"
    unfolding relative_below [OF d] by (rule pieces_of_join [OF cl])
  have "way_safe fs tool (path_segs dir) down"
    using check_pieces_safe [OF a(6) [unfolded pieces] cl]
    unfolding way_safe_def by (fastforce split: lstat.splits)
  moreover have "list_all visible_seg down"
    using cl a(5) [unfolded pieces] by (auto simp: visible_seg_def list_all_iff list_ex_iff)
  moreover have "path = path_of (path_segs dir @ down)"
  proof -
    have "path = path_of (path_segs path)" by (simp add: a(1) resolve_path_def)
    then show ?thesis by (simp add: d)
  qed
  moreover have "\<exists>pre \<in> set writable_segs. \<exists>rest. down = pre @ rest \<and> rest \<noteq> []"
    if "tool \<noteq> ''tempo_read''"
  proof -
    from a(3) [OF that] d obtain pre where p: "pre \<in> set writable_segs"
      "starts_with (js_join ''/'' pre @ ''/'') (js_join ''/'' down)"
      by (auto simp: writePrefixes_segs list_ex_iff relative_below)
    have "list_all clean_seg pre" "pre \<noteq> []"
      using p(1) by (auto simp: writable_segs_def clean_seg_def)
    from starts_with_prefix_segs [OF cl p(2) this] p(1) show ?thesis by blast
  qed
  ultimately show ?thesis using a(3,4) d by (intro that [of dir down]) auto
qed

section \<open>Properties\<close>

definition sample_policy :: policy where
  "sample_policy = \<lparr>po_workspace = ''/w'', po_readRoots = [''/ref''], po_stage = GImplement\<rparr>"

definition sample_fs :: "string \<Rightarrow> lstat" where
  "sample_fs p = (if p = ''/w/src/main/a.clj'' then Lstat RegularFile 1 else Lstat Directory 2)"

lemma sample_authorized:
  "authorizePath sample_fs sample_policy ''tempo_edit'' (JStr ''x/../src/./main/a.clj'') =
     Inr ''/w/src/main/a.clj''"
  by code_simp

text \<open>
  C19: a path the guard authorises lies in one of the policy's directories, whatever dots, double
  slashes and absolute parts the request had: it is that directory followed by proper, visible
  names. For a write or an edit the stage is an editing one, the directory is the workspace and
  the path lies strictly below \<^verbatim>\<open>src/main\<close>, \<^verbatim>\<open>src/shim\<close>, \<^verbatim>\<open>src/test/clojure\<close> or \<^verbatim>\<open>design\<close>.
\<close>

theorem authorized_path_confined:
  assumes "authorizePath fs policy tool inp = Inr path"
  shows "\<exists>dir down. dir \<in> set (po_workspace policy # po_readRoots policy) \<and>
    path = path_of (path_segs dir @ down) \<and> list_all visible_seg down \<and>
    (tool \<noteq> ''tempo_read'' \<longrightarrow> po_stage policy \<in> {GImplement, GRepair} \<and>
       dir = po_workspace policy \<and>
       (\<exists>pre \<in> {[''src'', ''main''], [''src'', ''shim''], [''src'', ''test'', ''clojure''], [''design'']}.
          \<exists>rest. down = pre @ rest \<and> rest \<noteq> []))"
proof -
  obtain dir down where "dir \<in> set (po_workspace policy # po_readRoots policy)"
    "path = path_of (path_segs dir @ down)" "list_all visible_seg down"
    "tool \<noteq> ''tempo_read'' \<Longrightarrow> po_stage policy \<in> {GImplement, GRepair} \<and> dir = po_workspace policy \<and>
       (\<exists>pre \<in> set writable_segs. \<exists>rest. down = pre @ rest \<and> rest \<noteq> [])"
    by (rule authorizePath_below [OF assms]) blast
  moreover have "set writable_segs =
      {[''src'', ''main''], [''src'', ''shim''], [''src'', ''test'', ''clojure''], [''design'']}"
    by (simp add: writable_segs_def)
  ultimately show ?thesis by (intro exI [of _ dir] exI [of _ down]) simp
qed

theorem authorized_path_confined_witness:
  "\<exists>dir down. ''/w/src/main/a.clj'' = path_of (path_segs dir @ down) \<and> dir = ''/w'' \<and>
     list_all visible_seg down"
  using authorized_path_confined [OF sample_authorized] by (auto simp: sample_policy_def)

text \<open>
  On the way to an authorised path, up to the first name that does not exist, there is no
  symbolic link and no special file, every name before the last is a directory, a file that is
  written has no second link, and only \<^verbatim>\<open>tempo_write\<close> may name something that does not exist.
\<close>

theorem authorized_way_has_no_links:
  assumes "authorizePath fs policy tool inp = Inr path"
  shows "\<exists>dir down. dir \<in> set (po_workspace policy # po_readRoots policy) \<and>
    path = path_of (path_segs dir @ down) \<and>
    (\<forall>k < length down. reached fs (path_segs dir) down k \<longrightarrow>
      (case fs (path_of (path_segs dir @ take (Suc k) down)) of
         Lstat kind nlink \<Rightarrow> (kind = Directory \<or> kind = RegularFile \<and> Suc k = length down) \<and>
           (tool \<noteq> ''tempo_read'' \<and> kind = RegularFile \<longrightarrow> nlink = 1)
       | NoEntry _ \<Rightarrow> tool = ''tempo_write''
       | LstatError _ \<Rightarrow> False))"
  by (rule authorizePath_below [OF assms]) (unfold way_safe_def, blast)

theorem authorized_way_has_no_links_witness:
  "\<exists>dir down. dir \<in> {''/w'', ''/ref''} \<and> ''/w/src/main/a.clj'' = path_of (path_segs dir @ down)"
  using authorized_way_has_no_links [OF sample_authorized] by (auto simp: sample_policy_def)

end
