(* ===== verification/Js_Text.thy ===== *)
theory Js_Text
  imports Json "HOL-Library.AList" "HOL-Library.Char_ord" "HOL-Library.List_Lexorder"
    "HOL-Library.Product_Lexorder" "HOL-Library.Multiset"
begin

text \<open>
  JavaScript's string and \<^verbatim>\<open>Map\<close> operations the readers of saved text share: trimming, the
  splits on white space and on line ends, searches, \<^verbatim>\<open>JSON.stringify\<close> of strings, and maps in
  insertion order with their totals by key. Strings hold the characters below 256; comparisons
  of strings are by character code.
\<close>

section \<open>Trimming, splitting, searching\<close>

text \<open>The white space \<^verbatim>\<open>trim\<close> strips and \<^verbatim>\<open>\s\<close> matches, of the characters below 256.\<close>

definition is_space :: "char \<Rightarrow> bool" where
  "is_space c \<longleftrightarrow> (of_char c :: nat) \<in> {9, 10, 11, 12, 13, 32, 160}"

definition js_trim_end :: "string \<Rightarrow> string" where
  "js_trim_end s = rev (dropWhile is_space (rev s))"

definition js_trim :: "string \<Rightarrow> string" where
  "js_trim s = js_trim_end (dropWhile is_space s)"

text \<open>\<^verbatim>\<open>s.split(/\s+/)\<close>.\<close>

function js_fields :: "string \<Rightarrow> string list" where
  "js_fields s = (let p = takeWhile (\<lambda>c. \<not> is_space c) s; r = dropWhile (\<lambda>c. \<not> is_space c) s in
     if r = [] then [p] else p # js_fields (dropWhile is_space r))"
  by pat_completeness auto
termination
proof (relation "measure length")
  fix s :: string and p r
  assume rest: "r = dropWhile (\<lambda>c. \<not> is_space c) s" and "r \<noteq> []"
  then obtain c cs where r: "r = c # cs" and "is_space c"
    by (metis hd_dropWhile list.exhaust list.sel(1))
  then have "length (dropWhile is_space r) \<le> length cs"
    by (simp add: length_dropWhile_le)
  moreover have "length r \<le> length s"
    by (simp add: rest length_dropWhile_le)
  ultimately show "(dropWhile is_space r, s) \<in> measure length"
    using r by simp
qed simp

declare js_fields.simps [simp del]

text \<open>\<^verbatim>\<open>s.split(/\r?\n/)\<close>: a carriage return before a line feed belongs to the separator.\<close>

definition LF :: char where "LF = CHR 0x0A"
definition CR :: char where "CR = CHR 0x0D"

definition strip_cr :: "string \<Rightarrow> string" where
  "strip_cr s = (if s \<noteq> [] \<and> last s = CR then butlast s else s)"

definition js_lines :: "string \<Rightarrow> string list" where
  "js_lines s = (let ps = js_split LF s in map strip_cr (butlast ps) @ [last ps])"

text \<open>\<^verbatim>\<open>s.indexOf(c)\<close> and \<^verbatim>\<open>s.lastIndexOf(c)\<close> of one character, \<open>None\<close> for \<^verbatim>\<open>-1\<close>.\<close>

fun index_of :: "char \<Rightarrow> string \<Rightarrow> nat option" where
  "index_of c [] = None"
| "index_of c (x # xs) = (if x = c then Some 0 else map_option Suc (index_of c xs))"

fun last_index_of :: "char \<Rightarrow> string \<Rightarrow> nat option" where
  "last_index_of c [] = None"
| "last_index_of c (x # xs) = (case last_index_of c xs of
     Some i \<Rightarrow> Some (Suc i) | None \<Rightarrow> if x = c then Some 0 else None)"

fun some_suffix :: "(string \<Rightarrow> bool) \<Rightarrow> string \<Rightarrow> bool" where
  "some_suffix p [] = p []"
| "some_suffix p (c # s) = (p (c # s) \<or> some_suffix p s)"

definition str_includes :: "string \<Rightarrow> string \<Rightarrow> bool" where
  "str_includes sub = some_suffix (starts_with sub)"

lemma takeWhile_all: "list_all P s \<Longrightarrow> takeWhile P s = s"
  by (induction s) auto

lemma dropWhile_all: "list_all P s \<Longrightarrow> dropWhile P s = []"
  by (induction s) auto

lemma js_fields_word: "list_all (\<lambda>c. \<not> is_space c) p \<Longrightarrow> js_fields p = [p]"
  by (subst js_fields.simps) (simp add: takeWhile_all dropWhile_all)

lemma js_fields_Cons:
  assumes "list_all (\<lambda>c. \<not> is_space c) p" "is_space c" "s \<noteq> []" "\<not> is_space (hd s)"
  shows "js_fields (p @ c # s) = p # js_fields s"
proof -
  have t: "takeWhile (\<lambda>c. \<not> is_space c) (p @ c # s) = p"
    and d: "dropWhile (\<lambda>c. \<not> is_space c) (p @ c # s) = c # s"
    using assms by (simp_all add: takeWhile_append dropWhile_append takeWhile_all dropWhile_all
        list_all_iff)
  have "dropWhile is_space (c # s) = s"
    using assms by (cases s) simp_all
  with t d show ?thesis
    by (subst js_fields.simps) (simp only: Let_def, simp)
qed

definition word_ok :: "string \<Rightarrow> bool" where
  "word_ok w \<longleftrightarrow> w \<noteq> [] \<and> list_all (\<lambda>c. \<not> is_space c) w"

lemma word_ok_hd: "word_ok w \<Longrightarrow> w \<noteq> [] \<and> \<not> is_space (hd w)"
  by (cases w) (simp_all add: word_ok_def)

lemma is_space_blank [simp]: "is_space (CHR '' '')"
  by (simp add: is_space_def)

text \<open>Words joined by single blanks are the fields of the line.\<close>

lemma js_fields_join: "ws \<noteq> [] \<Longrightarrow> list_all word_ok ws \<Longrightarrow> js_fields (js_join '' '' ws) = ws"
proof (induction "'' '' :: string" ws rule: js_join.induct)
  case (2 x)
  then show ?case by (simp add: word_ok_def js_fields_word)
next
  case (3 x y ys)
  have "js_join '' '' (y # ys) \<noteq> [] \<and> \<not> is_space (hd (js_join '' '' (y # ys)))"
    using 3(3) word_ok_hd [of y] by (cases ys) simp_all
  then have "js_fields (x @ CHR '' '' # js_join '' '' (y # ys)) = x # js_fields (js_join '' '' (y # ys))"
    using 3(3) by (intro js_fields_Cons) (simp_all add: word_ok_def)
  with 3 show ?case by simp
qed simp

lemma js_trim_end_keep: "s = [] \<or> \<not> is_space (last s) \<Longrightarrow> js_trim_end s = s"
  by (cases s rule: rev_cases) (simp_all add: js_trim_end_def)

lemma js_trim_keep: "s \<noteq> [] \<Longrightarrow> \<not> is_space (hd s) \<Longrightarrow> \<not> is_space (last s) \<Longrightarrow> js_trim s = s"
  by (cases s) (simp_all add: js_trim_def js_trim_end_keep)

lemma js_trim_Cons_space: "is_space c \<Longrightarrow> js_trim (c # s) = js_trim s"
  by (simp add: js_trim_def)

lemma js_trim_snoc_space: "is_space c \<Longrightarrow> js_trim (s @ [c]) = js_trim s"
proof (cases "list_all is_space s")
  case True
  then show "is_space c \<Longrightarrow> js_trim (s @ [c]) = js_trim s"
    by (simp add: js_trim_def js_trim_end_def dropWhile_append dropWhile_all list_all_iff)
next
  case False
  then show "is_space c \<Longrightarrow> js_trim (s @ [c]) = js_trim s"
    by (auto simp: js_trim_def js_trim_end_def dropWhile_append list_all_iff)
qed

lemma index_of_append: "c \<notin> set p \<Longrightarrow> index_of c (p @ c # s) = Some (length p)"
  by (induction p) auto

lemma last_index_of_None [simp]: "last_index_of c s = None \<longleftrightarrow> c \<notin> set s"
  by (induction s) (auto split: option.splits)

lemma last_index_of_append: "c \<notin> set s \<Longrightarrow> last_index_of c (p @ c # s) = Some (length p)"
proof (induction p)
  case Nil
  then show ?case by (auto split: option.split dest: last_index_of_None [THEN iffD2])
qed (auto split: option.split)

section \<open>JSON.stringify\<close>

definition hex_digit :: "nat \<Rightarrow> char" where
  "hex_digit n = ''0123456789abcdef'' ! n"

definition short_escapes :: "(char \<times> char) list" where
  "short_escapes = [(CHR 0x22, CHR 0x22), (CHR 0x5C, CHR 0x5C), (CHR 0x08, CHR ''b''),
     (CHR 0x09, CHR ''t''), (CHR 0x0A, CHR ''n''), (CHR 0x0C, CHR ''f''), (CHR 0x0D, CHR ''r'')]"

definition json_escape :: "char \<Rightarrow> string" where
  "json_escape c = (case map_of short_escapes c of
     Some l \<Rightarrow> [CHR 0x5C, l]
   | None \<Rightarrow> if (of_char c :: nat) < 32
       then CHR 0x5C # ''u00'' @ [hex_digit (of_char c div 16), hex_digit (of_char c mod 16)]
       else [c])"

definition quote_json :: "string \<Rightarrow> string" where
  "quote_json s = CHR 0x22 # concat (map json_escape s) @ [CHR 0x22]"

definition strings_json :: "string list \<Rightarrow> string" where
  "strings_json xs = ''['' @ js_join '','' (map quote_json xs) @ '']''"

lemma hex_digit_inject: "m < 16 \<Longrightarrow> n < 16 \<Longrightarrow> hex_digit m = hex_digit n \<longleftrightarrow> m = n"
  unfolding hex_digit_def by (rule nth_eq_iff_index_eq) simp_all

lemma control_escape_inject:
  assumes "(of_char c :: nat) < 32" "(of_char d :: nat) < 32"
    and "hex_digit (of_char c div 16) = hex_digit (of_char d div 16)"
    and "hex_digit (of_char c mod 16) = hex_digit (of_char d mod 16)"
  shows "c = d"
proof -
  have "(of_char c :: nat) div 16 = of_char d div 16" "(of_char c :: nat) mod 16 = of_char d mod 16"
    using assms by (simp_all add: hex_digit_inject)
  then have "(of_char c :: nat) = of_char d"
    by (metis div_mult_mod_eq)
  then show ?thesis by simp
qed

lemma short_escapes_letter: "map_of short_escapes c = Some l \<Longrightarrow> l \<noteq> CHR ''u''"
  by (auto simp: short_escapes_def split: if_splits)

lemma short_escapes_inject:
  "map_of short_escapes c = Some l \<Longrightarrow> map_of short_escapes d = Some l \<Longrightarrow> c = d"
  by (auto simp: short_escapes_def split: if_splits)

lemma short_escapes_backslash: "map_of short_escapes c = None \<Longrightarrow> c \<noteq> CHR 0x5C \<and> c \<noteq> CHR 0x22"
  by (auto simp: short_escapes_def)

lemma json_escape_cases:
  obtains (short) l where "map_of short_escapes c = Some l" "json_escape c = [CHR 0x5C, l]"
  | (control) "map_of short_escapes c = None" "(of_char c :: nat) < 32" "json_escape c =
      [CHR 0x5C, CHR ''u'', CHR ''0'', CHR ''0'', hex_digit (of_char c div 16), hex_digit (of_char c mod 16)]"
  | (plain) "map_of short_escapes c = None" "json_escape c = [c]"
proof (cases "map_of short_escapes c")
  case None
  then show ?thesis
    by (cases "(of_char c :: nat) < 32") (rule control plain; simp add: json_escape_def)+
next
  case (Some l)
  then show ?thesis by (intro short) (simp_all add: json_escape_def)
qed

lemma json_escape_prefix:
  assumes "json_escape c @ x = json_escape d @ y"
  shows "c = d \<and> x = y"
  using assms
  by (cases c rule: json_escape_cases; cases d rule: json_escape_cases)
    (auto dest: short_escapes_letter short_escapes_inject short_escapes_backslash
      intro: control_escape_inject)

lemma json_escape_hd: "\<exists>a r. json_escape c = a # r \<and> a \<noteq> CHR 0x22"
  by (cases c rule: json_escape_cases) (auto dest: short_escapes_backslash)

lemma quote_json_prefix: "quote_json s @ x = quote_json t @ y \<Longrightarrow> s = t \<and> x = y"
proof -
  have "s = t \<and> x = y" if "concat (map json_escape s) @ CHR 0x22 # x = concat (map json_escape t) @ CHR 0x22 # y"
    using that
  proof (induction s arbitrary: t)
    case Nil
    then show ?case using json_escape_hd by (cases t) (auto, metis append_Cons list.inject)
  next
    case (Cons c s)
    show ?case
    proof (cases t)
      case Nil
      with Cons.prems json_escape_hd [of c] show ?thesis by auto
    next
      case t: (Cons d t')
      with Cons.prems json_escape_prefix [of c _ d] have "c = d"
        "concat (map json_escape s) @ CHR 0x22 # x = concat (map json_escape t') @ CHR 0x22 # y"
        by auto
      with Cons.IH [of t'] t show ?thesis by simp
    qed
  qed
  then show "quote_json s @ x = quote_json t @ y \<Longrightarrow> s = t \<and> x = y"
    by (simp add: quote_json_def)
qed

lemma quote_json_inject [simp]: "quote_json s = quote_json t \<longleftrightarrow> s = t"
  using quote_json_prefix [of s "[]" t "[]"] by auto

lemma join_quoted_prefix:
  "js_join '','' (map quote_json xs) @ CHR '']'' # x = js_join '','' (map quote_json ys) @ CHR '']'' # y
     \<Longrightarrow> xs = ys"
proof (induction xs arbitrary: ys)
  case Nil
  then show ?case by (cases ys; cases "tl ys") (simp_all add: quote_json_def)
next
  case (Cons a xs)
  then obtain b ys' where ys: "ys = b # ys'" by (cases ys; cases xs) (auto simp: quote_json_def)
  have join: "js_join '','' (map quote_json (c # zs)) = quote_json c @
      (if zs = [] then [] else CHR '','' # js_join '','' (map quote_json zs))" for c zs
    by (cases zs) simp_all
  from Cons.prems ys have eq: "quote_json a @ (if xs = [] then [] else CHR '','' # js_join '','' (map quote_json xs))
        @ CHR '']'' # x =
      quote_json b @ (if ys' = [] then [] else CHR '','' # js_join '','' (map quote_json ys')) @ CHR '']'' # y"
    by (simp only: join append_assoc)
  from quote_json_prefix [OF eq] have "a = b" by simp
  moreover have "xs = ys'"
    using quote_json_prefix [OF eq] Cons.IH [of ys'] by (cases "xs = []"; cases "ys' = []") auto
  ultimately show ?case using ys by simp
qed

lemma strings_json_inject [simp]: "strings_json xs = strings_json ys \<longleftrightarrow> xs = ys"
proof
  assume "strings_json xs = strings_json ys"
  then show "xs = ys" using join_quoted_prefix [where x = "[]" and y = "[]"] by (simp add: strings_json_def)
qed simp

section \<open>Totals by key\<close>

text \<open>
  A JavaScript \<^verbatim>\<open>Map\<close> of numbers keeps its keys in the order they were first set. \<open>tally\<close> is the
  map that adding weights one after the other builds.
\<close>

definition lookup0 :: "(string \<times> int) list \<Rightarrow> string \<Rightarrow> int" where
  "lookup0 m k = (case map_of m k of None \<Rightarrow> 0 | Some w \<Rightarrow> w)"

definition bump :: "(string \<times> int) list \<Rightarrow> string \<times> int \<Rightarrow> (string \<times> int) list" where
  "bump m kw = AList.update (fst kw) (lookup0 m (fst kw) + snd kw) m"

definition tally :: "(string \<times> int) list \<Rightarrow> (string \<times> int) list" where
  "tally kws = foldl bump [] kws"

definition key_total :: "(string \<times> int) list \<Rightarrow> string \<Rightarrow> int" where
  "key_total kws k = sum_list (map snd (filter (\<lambda>kw. fst kw = k) kws))"

lemma lookup0_update [simp]: "lookup0 (AList.update k w m) j = (if j = k then w else lookup0 m j)"
  by (simp add: lookup0_def update_conv')

lemma lookup0_bump [simp]: "lookup0 (bump m kw) j = lookup0 m j + (if fst kw = j then snd kw else 0)"
  by (simp add: bump_def)

lemma key_total_simps [simp]:
  "key_total [] k = 0"
  "key_total (kw # kws) k = (if fst kw = k then snd kw else 0) + key_total kws k"
  "key_total (xs @ ys) k = key_total xs k + key_total ys k"
  by (simp_all add: key_total_def)

lemma tally_Nil [simp]: "tally [] = []"
  by (simp add: tally_def)

lemma tally_append: "tally (xs @ ys) = foldl bump (tally xs) ys"
  by (simp add: tally_def)

lemma lookup0_foldl_bump: "lookup0 (foldl bump m kws) k = lookup0 m k + key_total kws k"
  by (induction kws arbitrary: m) auto

lemma lookup0_tally [simp]: "lookup0 (tally kws) k = key_total kws k"
  by (simp add: tally_def lookup0_foldl_bump) (simp add: lookup0_def)

lemma keys_tally: "set (map fst (tally kws)) = set (map fst kws)"
proof -
  have "fst ` set (foldl bump m kws) = fst ` set m \<union> fst ` set kws" for m
    by (induction kws arbitrary: m) (auto simp: bump_def dom_update)
  then show ?thesis by (simp add: tally_def)
qed

lemma distinct_tally: "distinct (map fst (tally kws))"
proof -
  have "distinct (map fst m) \<Longrightarrow> distinct (map fst (foldl bump m kws))" for m
    by (induction kws arbitrary: m) (simp_all add: bump_def distinct_update)
  then show ?thesis by (simp add: tally_def)
qed

lemma tally_entry: "(k, w) \<in> set (tally kws) \<longleftrightarrow> k \<in> fst ` set kws \<and> w = key_total kws k"
proof -
  have "(k, w) \<in> set (tally kws) \<longleftrightarrow> map_of (tally kws) k = Some w"
    by (simp add: distinct_tally)
  moreover have "map_of (tally kws) k = None \<longleftrightarrow> k \<notin> fst ` set kws"
    using keys_tally [of kws] by (simp add: map_of_eq_None_iff)
  moreover have "lookup0 (tally kws) k = key_total kws k" by simp
  ultimately show ?thesis by (auto simp: lookup0_def split: option.splits)
qed

text \<open>The weights are shared out among the keys.\<close>

lemma sum_tally: "sum_list (map snd (tally kws)) = sum_list (map snd kws)"
proof -
  have "sum_list (map snd (AList.update k w m)) = sum_list (map snd m) - lookup0 m k + w"
    if "distinct (map fst m)" for k :: string and w m
    using that by (induction m) (auto simp: lookup0_def map_of_eq_None_iff [THEN iffD2] split: option.split)
  then have step: "sum_list (map snd (bump m kw)) = sum_list (map snd m) + snd kw"
    if "distinct (map fst m)" for m kw
    using that by (simp add: bump_def)
  have "distinct (map fst m) \<Longrightarrow> sum_list (map snd (foldl bump m kws)) =
      sum_list (map snd m) + sum_list (map snd kws)" for m
  proof (induction kws arbitrary: m)
    case (Cons kw kws)
    have "distinct (map fst (bump m kw))"
      using Cons.prems by (simp add: bump_def distinct_update)
    with Cons show ?case by (simp add: step)
  qed simp
  from this [of "[]"] show ?thesis by (simp add: tally_def)
qed

text \<open>
  The entries by falling total, equal totals by name: the order does not depend on how the map
  was built.
\<close>

definition rank_key :: "string \<times> int \<Rightarrow> int \<times> string" where
  "rank_key e = (- snd e, fst e)"

lemma inj_rank_key [simp]: "inj rank_key"
  by (auto simp: inj_def rank_key_def)

definition key_totals :: "(string \<times> int) list \<Rightarrow> (string \<times> int) list" where
  "key_totals kws = map (\<lambda>k. (k, key_total kws k)) (remdups (map fst kws))"

lemma ranked_tally: "sort_key rank_key (tally kws) = sort_key rank_key (key_totals kws)"
proof (rule sort_key_inj_key_eq)
  have "distinct (map fst (key_totals kws))"
    by (simp add: key_totals_def comp_def)
  then have "distinct (tally kws)" "distinct (key_totals kws)"
    using distinct_tally distinct_map by blast+
  moreover have "set (tally kws) = set (key_totals kws)"
    by (force simp: tally_entry key_totals_def)
  ultimately show "mset (tally kws) = mset (sort_key rank_key (key_totals kws))"
    by (simp add: set_eq_iff_mset_eq_distinct)
  show "inj_on rank_key (set (tally kws))"
    using inj_rank_key by (rule inj_on_subset) simp
qed simp

end
