(* ===== verification/Host.thy ===== *)
theory Host
  imports Store Guard Js_Text
begin

text \<open>
  What the components that run programs use of their surroundings: the file operations, child
  processes, environment and clock of \<^verbatim>\<open>Deno\<close>, gathered in one record of actions that every
  definition takes as an argument. Nothing is assumed of them; a theorem holds for every
  behaviour of the host. The theory also has the control structures of asynchronous code
  (\<^verbatim>\<open>throw\<close>, \<^verbatim>\<open>try\<close>, \<^verbatim>\<open>finally\<close>, loops) with the facts that read a successful run backwards.
\<close>

section \<open>Control structures\<close>

definition throwA :: "js_error \<Rightarrow> ('st, 'a) action" where
  "throwA e = liftA (Inl e)"

definition guardA :: "bool \<Rightarrow> string \<Rightarrow> ('st, unit) action" where
  "guardA ok message = (if ok then returnA () else throwA (Error message))"

definition thenA :: "('st, 'a) action \<Rightarrow> ('st, 'b) action \<Rightarrow> ('st, 'b) action" where
  "thenA m k = bindA m (\<lambda>_. k)"

definition whenA :: "bool \<Rightarrow> ('st, 'a) action \<Rightarrow> ('st, unit) action" where
  "whenA c m = (if c then thenA m (returnA ()) else returnA ())"

text \<open>What \<^verbatim>\<open>try\<close> sees: the result of the block or what it threw.\<close>

definition tryA :: "('st, 'a) action \<Rightarrow> ('st, 'a res) action" where
  "tryA m = (\<lambda>st. case m st of (r, st') \<Rightarrow> (Inr r, st'))"

text \<open>\<^verbatim>\<open>try { m } finally { f }\<close>: an error of the last block hides the first one.\<close>

definition finallyA :: "('st, 'a) action \<Rightarrow> ('st, 'b) action \<Rightarrow> ('st, 'a) action" where
  "finallyA m f = bindA (tryA m) (\<lambda>r. thenA f (liftA r))"

fun forA :: "('a \<Rightarrow> ('st, unit) action) \<Rightarrow> 'a list \<Rightarrow> ('st, unit) action" where
  "forA f [] = returnA ()"
| "forA f (x # xs) = thenA (f x) (forA f xs)"

fun mapA :: "('a \<Rightarrow> ('st, 'b) action) \<Rightarrow> 'a list \<Rightarrow> ('st, 'b list) action" where
  "mapA f [] = returnA []"
| "mapA f (x # xs) = bindA (f x) (\<lambda>y. bindA (mapA f xs) (\<lambda>ys. returnA (y # ys)))"

definition not_found :: "js_error \<Rightarrow> bool" where
  "not_found e = (case e of Named c _ \<Rightarrow> c = ''NotFound'' | _ \<Rightarrow> False)"

text \<open>
  The idiom \<^verbatim>\<open>try { await probe; throw new Error(message) } catch (e) { if (!(e instanceof NotFound)) throw e }\<close>:
  the file must not exist.
\<close>

definition absentA :: "('st, 'a) action \<Rightarrow> string \<Rightarrow> ('st, unit) action" where
  "absentA probe message = catchA (thenA probe (throwA (Error message)))
     (\<lambda>e. if not_found e then returnA () else throwA e)"

text \<open>Facts that read a successful run backwards, from its last action to its first.\<close>

named_theorems run_simps \<open>successful runs of composed actions\<close>

lemma returnA_Inr [run_simps]: "returnA x st = (Inr y, st') \<longleftrightarrow> y = x \<and> st' = st"
  by (auto simp: returnA_def)

lemma throwA_Inr [run_simps]: "throwA e st \<noteq> (Inr y, st')"
  by (simp add: throwA_def)

lemma liftA_Inr [run_simps]: "liftA r st = (Inr y, st') \<longleftrightarrow> r = Inr y \<and> st' = st"
  by auto

lemma guardA_Inr [run_simps]: "guardA ok message st = (Inr u, st') \<longleftrightarrow> ok \<and> st' = st"
  by (auto simp: guardA_def throwA_def)

lemma thenA_Inr [run_simps]: "thenA m k st = (Inr y, st') \<longleftrightarrow>
    (\<exists>x st1. m st = (Inr x, st1) \<and> k st1 = (Inr y, st'))"
  by (simp add: thenA_def bindA_Inr)

lemma bindA_Inr' [run_simps]: "bindA m f st = (Inr y, st') \<longleftrightarrow>
    (\<exists>x st1. m st = (Inr x, st1) \<and> f x st1 = (Inr y, st'))"
  by (rule bindA_Inr)

lemma tryA_Inr [run_simps]: "tryA m st = (Inr r, st') \<longleftrightarrow> m st = (r, st')"
  by (auto simp: tryA_def split: prod.splits)

lemma catchA_Inr [run_simps]: "catchA m f st = (Inr y, st') \<longleftrightarrow>
    m st = (Inr y, st') \<or> (\<exists>e st1. m st = (Inl e, st1) \<and> f e st1 = (Inr y, st'))"
  by (auto simp: catchA_def split: prod.splits sum.splits)

lemma case_sum_run [run_simps]: "(case r of Inl e \<Rightarrow> f e | Inr x \<Rightarrow> g x) st = (Inr y, st') \<longleftrightarrow>
    (\<exists>e. r = Inl e \<and> f e st = (Inr y, st')) \<or> (\<exists>x. r = Inr x \<and> g x st = (Inr y, st'))"
  by (cases r) simp_all

lemma case_option_run [run_simps]: "(case r of None \<Rightarrow> f | Some x \<Rightarrow> g x) st = (Inr y, st') \<longleftrightarrow>
    (r = None \<and> f st = (Inr y, st')) \<or> (\<exists>x. r = Some x \<and> g x st = (Inr y, st'))"
  by (cases r) simp_all

lemma if_run [run_simps]: "(if c then f else g) st = (Inr y, st') \<longleftrightarrow>
    (c \<and> f st = (Inr y, st')) \<or> (\<not> c \<and> g st = (Inr y, st'))"
  by simp

lemma whenA_Inr: "whenA c m st = (Inr u, st') \<longleftrightarrow>
    (if c then \<exists>x. m st = (Inr x, st') else st' = st)"
  by (auto simp: whenA_def run_simps)

lemma finallyA_Inr: "finallyA m f st = (Inr y, st') \<longleftrightarrow>
    (\<exists>st1 x. m st = (Inr y, st1) \<and> f st1 = (Inr x, st'))"
  by (auto simp: finallyA_def run_simps)

lemma absentA_Inr: "absentA probe message st = (Inr u, st') \<longleftrightarrow>
    (\<exists>e. probe st = (Inl e, st') \<and> not_found e)"
  by (auto simp: absentA_def catchA_def thenA_def bindA_def throwA_def not_found_def
      split: prod.splits sum.splits if_splits)

lemma mapA_Inr: "mapA f xs st = (Inr ys, st') \<Longrightarrow>
    length ys = length xs \<and> (\<forall>i < length xs. \<exists>st1 st2. f (xs ! i) st1 = (Inr (ys ! i), st2))"
  by (induction xs arbitrary: ys st) (fastforce simp: run_simps nth_Cons split: nat.splits)+

lemma forA_Inr: "forA f xs st = (Inr u, st') \<Longrightarrow> x \<in> set xs \<Longrightarrow> \<exists>st1 st2. f x st1 = (Inr (), st2)"
  by (induction xs arbitrary: st) (auto simp: run_simps)

section \<open>The operations of the host\<close>

record file_stat =
  fi_isFile :: bool
  fi_isDirectory :: bool
  fi_isSymlink :: bool
  fi_size :: int

record dir_entry =
  de_name :: string
  de_isFile :: bool
  de_isDirectory :: bool
  de_isSymlink :: bool

text \<open>
  \<^verbatim>\<open>new Deno.Command(command, { args, cwd, env, clearEnv })\<close> and what \<^verbatim>\<open>output()\<close> resolves to, with
  the bytes of the two streams as text.
\<close>

record command =
  cm_command :: string
  cm_args :: "string list"
  cm_cwd :: "string option"
  cm_env :: "(string \<times> string) list"
  cm_clearEnv :: bool

record command_status =
  cs_success :: bool
  cs_code :: int
  cs_signal :: "string option"

record command_output =
  co_success :: bool
  co_stdout :: string
  co_stderr :: string

definition run_program :: "string \<Rightarrow> string list \<Rightarrow> command" where
  "run_program c args = \<lparr>cm_command = c, cm_args = args, cm_cwd = None, cm_env = [], cm_clearEnv = False\<rparr>"

text \<open>
  File contents are texts whose characters are single bytes; \<^verbatim>\<open>create\<close> opens a new file for
  writing and closes it, \<^verbatim>\<open>spawn\<close> answers a handle whose \<^verbatim>\<open>status\<close> resolves when the child ends.
  \<open>h_readAt file start size\<close> seeks and reads until the buffer is full or the file ends.
\<close>

record 'st host =
  h_output :: "command \<Rightarrow> ('st, command_output) action"
  h_spawn :: "command \<Rightarrow> ('st, nat) action"
  h_status :: "nat \<Rightarrow> ('st, command_status) action"
  h_stat :: "string \<Rightarrow> ('st, file_stat) action"
  h_lstat :: "string \<Rightarrow> ('st, file_stat) action"
  h_realPath :: "string \<Rightarrow> ('st, string) action"
  h_readFile :: "string \<Rightarrow> ('st, string) action"
  h_readDir :: "string \<Rightarrow> ('st, dir_entry list) action"
  h_open :: "string \<Rightarrow> ('st, nat) action"
  h_close :: "nat \<Rightarrow> ('st, unit) action"
  h_fileSize :: "nat \<Rightarrow> ('st, int) action"
  h_readAt :: "nat \<Rightarrow> int \<Rightarrow> int \<Rightarrow> ('st, string) action"
  h_mkdir :: "string \<Rightarrow> bool \<Rightarrow> ('st, unit) action"
  h_create :: "string \<Rightarrow> ('st, unit) action"
  h_remove :: "string \<Rightarrow> ('st, unit) action"
  h_environ :: "('st, (string \<times> string) list) action"
  h_cwd :: "('st, string) action"
  h_now :: "('st, int) action"
  h_sleep :: "int \<Rightarrow> ('st, unit) action"

text \<open>A host that offers nothing, to build concrete ones from.\<close>

definition bare_host :: "'st host" where
  "bare_host =
     \<lparr>h_output = (\<lambda>_. throwA (Thrown ''absent'')), h_spawn = (\<lambda>_. throwA (Thrown ''absent'')),
      h_status = (\<lambda>_. throwA (Thrown ''absent'')), h_stat = (\<lambda>_. throwA (Named ''NotFound'' [])),
      h_lstat = (\<lambda>_. throwA (Named ''NotFound'' [])), h_realPath = returnA,
      h_readFile = (\<lambda>_. throwA (Named ''NotFound'' [])), h_readDir = (\<lambda>_. returnA []),
      h_open = (\<lambda>_. throwA (Named ''NotFound'' [])), h_close = (\<lambda>_. returnA ()),
      h_fileSize = (\<lambda>_. returnA 0), h_readAt = (\<lambda>_ _ _. returnA []),
      h_mkdir = (\<lambda>_ _. returnA ()), h_create = (\<lambda>_. returnA ()), h_remove = (\<lambda>_. returnA ()),
      h_environ = returnA [], h_cwd = returnA ''/'', h_now = returnA 0, h_sleep = (\<lambda>_. returnA ())\<rparr>"

definition env_get :: "'st host \<Rightarrow> string \<Rightarrow> ('st, string option) action" where
  "env_get h name = bindA (h_environ h) (\<lambda>env. returnA (map_of env name))"

text \<open>A string in a condition: neither missing nor empty.\<close>

definition truthy :: "string option \<Rightarrow> bool" where
  "truthy s = (case s of None \<Rightarrow> False | Some t \<Rightarrow> t \<noteq> [])"

text \<open>\<^verbatim>\<open>[error, text].filter(Boolean).join("; ")\<close>.\<close>

definition add_error :: "string option \<Rightarrow> string \<Rightarrow> string option" where
  "add_error error text = Some (js_join ''; ''
     (filter (\<lambda>s. s \<noteq> []) ((case error of None \<Rightarrow> [] | Some e \<Rightarrow> [e]) @ [text])))"

lemma add_error_not_None [simp]: "add_error e t \<noteq> None"
  by (simp add: add_error_def)

section \<open>More of \<^verbatim>\<open>node:path\<close>\<close>

definition strip_slashes :: "string \<Rightarrow> string" where
  "strip_slashes p = rev (dropWhile (\<lambda>c. c = CHR ''/'') (rev p))"

definition basename_path :: "string \<Rightarrow> string" where
  "basename_path p = (let t = strip_slashes p in
     case last_index_of (CHR ''/'') t of None \<Rightarrow> t | Some i \<Rightarrow> drop (Suc i) t)"

definition dirname_path :: "string \<Rightarrow> string" where
  "dirname_path p =
     (if p = [] then ''.''
      else case last_index_of (CHR ''/'') (strip_slashes (tl p)) of
        None \<Rightarrow> if is_absolute p then ''/'' else ''.''
      | Some i \<Rightarrow> if is_absolute p \<and> i = 0 then ''//'' else take (Suc i) p)"

text \<open>\<^verbatim>\<open>resolve(path)\<close> of one argument: against the working directory.\<close>

definition resolveA :: "'st host \<Rightarrow> string \<Rightarrow> ('st, string) action" where
  "resolveA h p = (if is_absolute p then returnA (resolve_path [] p)
     else bindA (h_cwd h) (\<lambda>cwd. returnA (resolve_path cwd p)))"

text \<open>\<^verbatim>\<open>join(await Deno.realPath(dirname(path)), basename(path))\<close>.\<close>

definition real_parent :: "'st host \<Rightarrow> string \<Rightarrow> ('st, string) action" where
  "real_parent h p = bindA (h_realPath h (dirname_path p)) (\<lambda>d. returnA (join_path d (basename_path p)))"

end
