(* ===== verification/Statistics.thy ===== *)
theory Statistics
  imports Json "HOL-Library.Multiset"
begin

text \<open>
  The statistics of \<^verbatim>\<open>_lib/benchmark.ts\<close>: the summary of sample rates, the critical value of
  Student's t distribution by bisection on an integral, and the confidence interval of the mean.
  Additions, products and quotients are binary64; the functions of \<^verbatim>\<open>Math\<close> and the operator
  \<^verbatim>\<open>**\<close>, which ECMAScript leaves to the implementation, are arguments, and no law of theirs is
  assumed.
\<close>

section \<open>Sample rates\<close>

fun num_value :: "jsnum \<Rightarrow> rat" where
  "num_value (Fin x) = x"
| "num_value _ = 0"

definition js_positive :: "jsnum \<Rightarrow> bool" where
  "js_positive x \<longleftrightarrow> js_finite x \<and> js_lt (Fin 0) x"

definition sampleSummary :: "jsnum list \<Rightarrow> (jsnum list \<times> jsnum) res" where
  "sampleSummary samples =
     (if samples = [] \<or> list_ex (\<lambda>rate. \<not> js_finite rate \<or> js_le rate (Fin 0)) samples
      then Inl (Error ''Benchmark needs positive finite sample rates'')
      else let rates = sort_key num_value samples; midpoint = length rates div 2 in
        Inr (rates, if length rates mod 2 \<noteq> 0 then rates ! midpoint
          else js_div (js_add (rates ! (midpoint - 1)) (rates ! midpoint)) (Fin 2)))"

section \<open>Integrals of powers of sine and cosine\<close>

record js_math =
  m_sin :: "jsnum \<Rightarrow> jsnum"
  m_cos :: "jsnum \<Rightarrow> jsnum"
  m_tan :: "jsnum \<Rightarrow> jsnum"
  m_sqrt :: "jsnum \<Rightarrow> jsnum"
  m_pow :: "jsnum \<Rightarrow> jsnum \<Rightarrow> jsnum"

definition js_nat :: "nat \<Rightarrow> jsnum" where
  "js_nat n = js_of_int (int n)"

definition cosine_step :: "js_math \<Rightarrow> jsnum \<Rightarrow> jsnum \<Rightarrow> jsnum \<times> jsnum \<Rightarrow> nat \<Rightarrow> jsnum \<times> jsnum" where
  "cosine_step m sine cosine eo exponent =
     (let previous = (if odd exponent then snd eo else fst eo);
          current = js_div (js_add (js_mul sine (m_pow m cosine (js_nat (exponent - 1))))
            (js_mul (js_nat (exponent - 1)) previous)) (js_nat exponent) in
      if odd exponent then (fst eo, current) else (current, snd eo))"

definition cosinePowerIntegral :: "js_math \<Rightarrow> jsnum \<Rightarrow> nat \<Rightarrow> jsnum" where
  "cosinePowerIntegral m angle pow =
     (let eo = foldl (cosine_step m (m_sin m angle) (m_cos m angle)) (angle, m_sin m angle)
        [2..<pow + 1] in
      if odd pow then snd eo else fst eo)"

definition sinePowerIntegral :: "js_math \<Rightarrow> jsnum \<Rightarrow> nat \<Rightarrow> jsnum" where
  "sinePowerIntegral m angle pow =
     (if pow = 0 then angle
      else if pow = 1 then js_mul (Fin 2) (m_pow m (m_sin m (js_div angle (Fin 2))) (Fin 2))
      else let panels = 128; step = js_div angle (js_nat panels);
               ends = js_add (m_pow m (m_sin m (Fin 0)) (js_nat pow))
                 (m_pow m (m_sin m angle) (js_nat pow));
               sum = foldl (\<lambda>sum index. js_add sum
                   (js_mul (if odd index then Fin 4 else Fin 2)
                     (m_pow m (m_sin m (js_mul (js_nat index) step)) (js_nat pow))))
                 ends [1..<panels] in
        js_div (js_mul sum step) (Fin 3))"

section \<open>The critical value\<close>

text \<open>\<^verbatim>\<open>Math.PI\<close>, and the double nearest to \<^verbatim>\<open>1e-6\<close>.\<close>

definition js_pi :: jsnum where
  "js_pi = Fin (884279719003555 / 281474976710656)"

definition micro :: jsnum where
  "micro = fl64 (1 / 1000000)"

definition bisect_step :: "(jsnum \<Rightarrow> jsnum) \<Rightarrow> jsnum \<Rightarrow> jsnum \<times> jsnum \<Rightarrow> jsnum \<times> jsnum" where
  "bisect_step area target lu =
     (let midpoint = js_div (js_add (fst lu) (snd lu)) (Fin 2) in
      if js_lt (area midpoint) target then (midpoint, snd lu) else (fst lu, midpoint))"

definition bisect :: "(jsnum \<Rightarrow> jsnum) \<Rightarrow> jsnum \<Rightarrow> nat \<Rightarrow> jsnum \<times> jsnum" where
  "bisect area target n = (bisect_step area target ^^ n) (Fin 0, js_div js_pi (Fin 2))"

definition studentTCritical :: "js_math \<Rightarrow> int \<Rightarrow> jsnum \<Rightarrow> jsnum res" where
  "studentTCritical m sampleCount confidenceLevel =
     (if \<not> safe_integer sampleCount \<or> sampleCount < 2 \<or> \<not> js_finite confidenceLevel \<or>
         js_le confidenceLevel (Fin 0) \<or> js_le (Fin 1) confidenceLevel
      then Inl (Error ''Student-t needs at least two samples and confidence in (0, 1)'')
      else
        let degrees = sampleCount - 1; power = nat (degrees - 1);
            whole = cosinePowerIntegral m (js_div js_pi (Fin 2)) power;
            useHead = js_lt confidenceLevel (Fin (1 / 2));
            target = js_mul whole (if useHead then confidenceLevel else js_sub (Fin 1) confidenceLevel) in
        if \<not> (js_lt (Fin 0) target \<and> js_lt target whole)
        then Inl (Error ''Confidence cannot be resolved at numeric precision'')
        else
          let area = (\<lambda>midpoint. if useHead then cosinePowerIntegral m midpoint power
                else sinePowerIntegral m midpoint power);
              (lower, upper) = bisect area target 96;
              critical = (if useHead then js_mul (m_sqrt m (js_of_int degrees)) (m_tan m upper)
                else js_div (m_sqrt m (js_of_int degrees)) (m_tan m lower));
              achieved = (if useHead then cosinePowerIntegral m upper power
                else sinePowerIntegral m lower power) in
          if js_lt (js_mul target micro) (js_abs (js_sub achieved target))
          then Inl (Error ''Confidence cannot be resolved at numeric precision'')
          else if \<not> js_finite critical \<or> js_le critical (Fin 0)
          then Inl (Error ''Student-t critical value is not finite'')
          else Inr critical)"

section \<open>The confidence interval\<close>

record precision =
  pn_relativeHalfWidth :: jsnum
  pn_confidenceLevel :: jsnum

definition precision_ok :: "precision \<Rightarrow> bool" where
  "precision_ok p \<longleftrightarrow> list_all (\<lambda>x. js_finite x \<and> js_lt (Fin 0) x \<and> js_lt x (Fin 1))
     [pn_relativeHalfWidth p, pn_confidenceLevel p]"

text \<open>\<^verbatim>\<open>z.number().finite().gt(0).lt(1).default(value)\<close>.\<close>

definition z_fraction :: "(string \<times> json) list \<Rightarrow> string \<Rightarrow> jsnum \<Rightarrow> jsnum option" where
  "z_fraction o' k fallback = (case map_of o' k of
     None \<Rightarrow> Some fallback | Some v \<Rightarrow> z_number_if (\<lambda>x. js_lt (Fin 0) x \<and> js_lt x (Fin 1)) v)"

definition defaultPrecision :: precision where
  "defaultPrecision = \<lparr>pn_relativeHalfWidth = fl64 (5 / 100), pn_confidenceLevel = fl64 (95 / 100)\<rparr>"

definition precisionSchema :: "precision schema" where
  "precisionSchema = z_strict [''relativeHalfWidth'', ''confidenceLevel''] (\<lambda>o'. do {
     relativeHalfWidth \<leftarrow> z_fraction o' ''relativeHalfWidth'' (pn_relativeHalfWidth defaultPrecision);
     confidenceLevel \<leftarrow> z_fraction o' ''confidenceLevel'' (pn_confidenceLevel defaultPrecision);
     Some \<lparr>pn_relativeHalfWidth = relativeHalfWidth, pn_confidenceLevel = confidenceLevel\<rparr> })"

text \<open>\<^verbatim>\<open>precisionSchema.parse\<close> of a typed value.\<close>

definition check_precision :: "precision \<Rightarrow> precision res" where
  "check_precision p = (if precision_ok p then Inr p else Inl (ZodError ''precision''))"

record precision_summary =
  ps_rates :: "jsnum list"
  ps_mean :: jsnum
  ps_sampleSD :: jsnum
  ps_tCritical :: jsnum
  ps_ciHalfWidth :: jsnum
  ps_relativeHalfWidth :: jsnum

definition js_sum :: "jsnum list \<Rightarrow> jsnum" where
  "js_sum xs = foldl js_add (Fin 0) xs"

definition precisionSummary :: "js_math \<Rightarrow> jsnum list \<Rightarrow> precision \<Rightarrow> precision_summary res" where
  "precisionSummary m samples precision =
     bindR (check_precision precision) (\<lambda>checked.
     bindR (sampleSummary samples) (\<lambda>(rates, median).
       if length rates < 2 then Inl (Error ''Precision requires at least two samples'')
       else
         let scale = last rates;
             normalizedRates = map (\<lambda>rate. js_div rate scale) rates;
             whole = js_sum rates;
             mean = (if js_finite whole then js_div whole (js_nat (length rates))
               else js_mul (js_div (js_sum normalizedRates) (js_nat (length rates))) scale);
             normalizedMean = js_div mean scale;
             normalizedSumSquares = foldl (\<lambda>sum rate.
               js_add sum (m_pow m (js_sub rate normalizedMean) (Fin 2))) (Fin 0) normalizedRates;
             normalizedSD = m_sqrt m (js_div normalizedSumSquares (js_nat (length rates - 1)));
             sampleSD = js_mul normalizedSD scale in
         bindR (studentTCritical m (int (length rates)) (pn_confidenceLevel checked)) (\<lambda>tCritical.
         let relativeHalfWidth = js_div (js_mul tCritical normalizedSD)
               (js_mul (m_sqrt m (js_nat (length rates))) normalizedMean);
             ciHalfWidth = js_mul relativeHalfWidth mean in
         if \<not> js_finite mean \<or> js_le mean (Fin 0) \<or> \<not> js_finite sampleSD \<or>
            \<not> js_finite ciHalfWidth \<or> \<not> js_finite relativeHalfWidth
         then Inl (Error ''Precision calculation is not finite'')
         else Inr \<lparr>ps_rates = rates, ps_mean = mean, ps_sampleSD = sampleSD, ps_tCritical = tCritical,
           ps_ciHalfWidth = ciHalfWidth, ps_relativeHalfWidth = relativeHalfWidth\<rparr>)))"

text \<open>The half width of a summary, which may be missing.\<close>

definition meetsPrecision :: "jsnum option \<Rightarrow> precision \<Rightarrow> bool res" where
  "meetsPrecision halfWidth precision = bindR (check_precision precision) (\<lambda>checked.
     case halfWidth of
       None \<Rightarrow> Inl (Error ''Precision statistic is missing or nonfinite'')
     | Some w \<Rightarrow> if \<not> js_finite w \<or> js_lt w (Fin 0)
         then Inl (Error ''Precision statistic is missing or nonfinite'')
         else Inr (js_le w (pn_relativeHalfWidth checked)))"

section \<open>Order of the samples\<close>

lemma sampleSummary_Inr: "sampleSummary samples = Inr (rates, median) \<Longrightarrow>
    samples \<noteq> [] \<and> list_all js_positive samples \<and> rates = sort_key num_value samples"
  by (auto simp: sampleSummary_def Let_def js_positive_def list_ex_iff list_all_iff js_le_def
      js_eq_def js_lt.simps split: if_splits elim!: js_finite.elims)

lemma inj_num_value: "inj_on num_value {x. js_finite x}"
  by (auto simp: inj_on_def elim!: js_finite.elims)

lemma sort_rates_mset:
  assumes "mset xs = mset ys" "list_all js_finite xs"
  shows "sort_key num_value xs = sort_key num_value ys"
proof (rule sort_key_inj_key_eq)
  show "mset xs = mset (sort_key num_value ys)" using assms(1) by simp
  show "inj_on num_value (set xs)"
    by (rule inj_on_subset [OF inj_num_value]) (use assms(2) in \<open>auto simp: list_all_iff\<close>)
qed simp

lemma sampleSummary_mset:
  assumes "mset xs = mset ys"
  shows "sampleSummary xs = sampleSummary ys"
proof -
  have set: "set xs = set ys" using assms by (rule mset_eq_setD)
  then have e: "xs = [] \<longleftrightarrow> ys = []" by (cases xs; cases ys) auto
  have ex: "list_ex P xs = list_ex P ys" for P
    using set by (simp add: list_ex_iff)
  show ?thesis
  proof (cases "list_all js_finite xs")
    case True
    from sort_rates_mset [OF assms True] show ?thesis
      unfolding sampleSummary_def e ex by simp
  next
    case False
    then have "list_ex (\<lambda>rate. \<not> js_finite rate \<or> js_le rate (Fin 0)) xs"
      by (auto simp: list_ex_iff list_all_iff)
    then show ?thesis unfolding sampleSummary_def ex by simp
  qed
qed

section \<open>The bisection\<close>

definition half_pi :: rat where
  "half_pi = 884279719003555 / 562949953421312"

lemma half_pi: "js_div js_pi (Fin 2) = Fin half_pi" "rnd64 half_pi = half_pi" "0 < half_pi" "half_pi < 2"
proof -
  have eq: "half_pi = of_int 884279719003555 * pow2 (- 49)" by (simp add: half_pi_def pow2_def)
  show r: "rnd64 half_pi = half_pi" by (simp only: eq) (rule rnd64_dyadic, simp_all)
  show "0 < half_pi" "half_pi < 2" by (simp_all add: half_pi_def)
  have "fl64 half_pi = Fin half_pi" by (rule fl64_exactI [OF r]) (simp add: half_pi_def)
  then show "js_div js_pi (Fin 2) = Fin half_pi" by (simp add: js_pi_def half_pi_def)
qed

text \<open>
  A bracket of the target: both ends are doubles between 0 and half of pi, and an end that has
  moved is on its side of the target.
\<close>

definition bracket :: "(jsnum \<Rightarrow> jsnum) \<Rightarrow> jsnum \<Rightarrow> rat \<Rightarrow> rat \<Rightarrow> bool" where
  "bracket area target l u \<longleftrightarrow> 0 \<le> l \<and> l \<le> u \<and> u \<le> half_pi \<and>
     (l = 0 \<or> js_lt (area (Fin l)) target) \<and> (u = half_pi \<or> \<not> js_lt (area (Fin u)) target)"

lemma midpoint_Fin:
  assumes "rnd64 l = l" "rnd64 u = u" "0 \<le> l" "l \<le> u" "u \<le> half_pi"
  obtains x where "js_div (js_add (Fin l) (Fin u)) (Fin 2) = Fin x" "rnd64 x = x" "l \<le> x" "x \<le> u"
proof -
  have "rnd64 4 = 4" using rnd64_of_int [of 4] by simp
  moreover have lu: "0 \<le> l + u" "l + u \<le> 4" "u < 2 ^ 1000" using assms(3-5) half_pi(4) by simp_all
  ultimately have "fl64 (l + u) = Fin (rnd64 (l + u))"
    using fl64_between [of 0 "l + u" 4] binary64.zero by (auto simp: fl64_def Let_def split: if_splits)
  then have m: "js_div (js_add (Fin l) (Fin u)) (Fin 2) = fl64 (rnd64 (l + u) / 2)"
    by simp
  note between = binary64.midpoint_between [OF assms(1,2,4)]
  have "fl64 (rnd64 (l + u) / 2) = Fin (rnd64 (rnd64 (l + u) / 2))"
    using between assms(3) lu(3) by (intro fl64_exactI) auto
  with m show ?thesis using between that rnd64_idem by metis
qed

lemma bisect_bracket:
  "\<exists>l u. bisect area target n = (Fin l, Fin u) \<and> rnd64 l = l \<and> rnd64 u = u \<and> bracket area target l u"
proof (induction n)
  case 0
  show ?case
    using half_pi binary64.zero by (simp add: bisect_def bracket_def)
next
  case (Suc n)
  then obtain l u where lu: "bisect area target n = (Fin l, Fin u)" "rnd64 l = l" "rnd64 u = u"
    and b: "bracket area target l u" by blast
  have "0 \<le> l" "l \<le> u" "u \<le> half_pi" using b by (simp_all add: bracket_def)
  then obtain x where x: "js_div (js_add (Fin l) (Fin u)) (Fin 2) = Fin x" "rnd64 x = x" "l \<le> x" "x \<le> u"
    using midpoint_Fin [OF lu(2,3)] by blast
  have step: "bisect area target (Suc n) = (if js_lt (area (Fin x)) target then (Fin x, Fin u) else (Fin l, Fin x))"
    using lu(1) x(1) by (simp add: bisect_def bisect_step_def Let_def)
  show ?case
  proof (cases "js_lt (area (Fin x)) target")
    case True
    with b x have "bracket area target x u" by (simp add: bracket_def)
    with True step lu(3) x(2) show ?thesis by auto
  next
    case False
    with b x have "bracket area target l x" by (simp add: bracket_def)
    with False step lu(2) x(2) show ?thesis by auto
  qed
qed

text \<open>The area that the bisection compares and the tail it looks for.\<close>

definition tail_area :: "js_math \<Rightarrow> int \<Rightarrow> jsnum \<Rightarrow> jsnum \<Rightarrow> jsnum" where
  "tail_area m n c = (\<lambda>angle. if js_lt c (Fin (1 / 2)) then cosinePowerIntegral m angle (nat (n - 2))
     else sinePowerIntegral m angle (nat (n - 2)))"

definition tail_target :: "js_math \<Rightarrow> int \<Rightarrow> jsnum \<Rightarrow> jsnum" where
  "tail_target m n c = js_mul (cosinePowerIntegral m (js_div js_pi (Fin 2)) (nat (n - 2)))
     (if js_lt c (Fin (1 / 2)) then c else js_sub (Fin 1) c)"

lemma studentTCritical_Inr:
  assumes "studentTCritical m n c = Inr t" "bisect (tail_area m n c) (tail_target m n c) 96 = (l, u)"
  shows "2 \<le> n" "js_lt (Fin 0) c" "js_lt c (Fin 1)" "js_lt (Fin 0) (tail_target m n c)"
    "\<not> js_lt (js_mul (tail_target m n c) micro)
       (js_abs (js_sub (tail_area m n c (if js_lt c (Fin (1 / 2)) then u else l)) (tail_target m n c)))"
    "t = (if js_lt c (Fin (1 / 2)) then js_mul (m_sqrt m (js_of_int (n - 1))) (m_tan m u)
       else js_div (m_sqrt m (js_of_int (n - 1))) (m_tan m l))"
    "js_positive t"
proof -
  have n: "n - 1 - 1 = n - 2" by simp
  have pos: "js_finite x \<and> \<not> js_le x (Fin 0) \<longleftrightarrow> js_positive x" for x
    by (cases x) (auto simp: js_positive_def js_le_def js_eq_def)
  have neg: "\<not> js_le (Fin 1) c \<longleftrightarrow> js_lt c (Fin 1)" if "js_finite c"
    using that by (cases c) (auto simp: js_le_def js_eq_def)
  note d = assms(1) [unfolded studentTCritical_def Let_def n]
  have area: "(\<lambda>midpoint. if js_lt c (Fin (1 / 2)) then cosinePowerIntegral m midpoint (nat (n - 2))
      else sinePowerIntegral m midpoint (nat (n - 2))) = tail_area m n c"
    by (simp add: tail_area_def)
  have app: "(if js_lt c (Fin (1 / 2)) then cosinePowerIntegral m u (nat (n - 2))
      else sinePowerIntegral m l (nat (n - 2))) = tail_area m n c (if js_lt c (Fin (1 / 2)) then u else l)"
    by (simp add: tail_area_def)
  note d = d [unfolded area app, folded tail_target_def, unfolded assms(2) prod.case]
  show "2 \<le> n" "js_lt (Fin 0) (tail_target m n c)"
    "\<not> js_lt (js_mul (tail_target m n c) micro)
       (js_abs (js_sub (tail_area m n c (if js_lt c (Fin (1 / 2)) then u else l)) (tail_target m n c)))"
    "t = (if js_lt c (Fin (1 / 2)) then js_mul (m_sqrt m (js_of_int (n - 1))) (m_tan m u)
       else js_div (m_sqrt m (js_of_int (n - 1))) (m_tan m l))"
    using d by (auto simp: tail_area_def split: if_splits)
  show "js_positive t" using d pos [of t] by (auto split: if_splits)
  show "js_lt (Fin 0) c" "js_lt c (Fin 1)"
    using d pos [of c] neg by (auto simp: js_positive_def split: if_splits)
qed

lemma js_positive_iff: "js_positive x \<longleftrightarrow> js_finite x \<and> \<not> js_le x (Fin 0)"
  by (cases x) (auto simp: js_positive_def js_le_def js_eq_def)

lemma precisionSummary_mset: "mset xs = mset ys \<Longrightarrow> precisionSummary m xs p = precisionSummary m ys p"
  by (simp only: precisionSummary_def sampleSummary_mset [of xs ys])

lemma precisionSummary_Inr:
  assumes "precisionSummary m samples p = Inr s"
  shows "precision_ok p" "ps_rates s = sort_key num_value samples" "list_all js_positive samples"
    "2 \<le> length samples" "js_positive (ps_mean s)" "js_finite (ps_sampleSD s)"
    "js_finite (ps_ciHalfWidth s)" "js_finite (ps_relativeHalfWidth s)"
    "studentTCritical m (int (length samples)) (pn_confidenceLevel p) = Inr (ps_tCritical s)"
proof -
  note d = assms [unfolded precisionSummary_def bindR_eq_Inr check_precision_def, simplified Let_def]
  obtain rates median where r: "sampleSummary samples = Inr (rates, median)" "precision_ok p"
    using d by (auto split: if_splits)
  note rates = sampleSummary_Inr [OF r(1)]
  from d r rates show "precision_ok p" "ps_rates s = sort_key num_value samples"
    "list_all js_positive samples" "2 \<le> length samples" "js_positive (ps_mean s)"
    "js_finite (ps_sampleSD s)" "js_finite (ps_ciHalfWidth s)" "js_finite (ps_relativeHalfWidth s)"
    "studentTCritical m (int (length samples)) (pn_confidenceLevel p) = Inr (ps_tCritical s)"
    by (auto simp: js_positive_iff bindR_eq_Inr split: if_splits)
qed

text \<open>Math functions with constant answers, enough to run the code to its end.\<close>

definition sample_math :: js_math where
  "sample_math = \<lparr>m_sin = (\<lambda>x. Fin 1), m_cos = (\<lambda>x. Fin 1), m_tan = (\<lambda>x. Fin 2),
     m_sqrt = (\<lambda>x. Fin 1), m_pow = (\<lambda>x y. Fin (1 / 8))\<rparr>"

lemma fl64_int: "\<bar>i\<bar> < 2 ^ 53 \<Longrightarrow> fl64 (of_int i) = Fin (of_int i)"
  using js_of_int_exact by (simp add: js_of_int_def)

lemma fl64_quarters: "\<bar>i\<bar> < 2 ^ 40 \<Longrightarrow> fl64 (of_int i / 4) = Fin (of_int i / 4)"
proof -
  assume i: "\<bar>i\<bar> < 2 ^ 40"
  have eq: "of_int i / 4 = of_int i * pow2 (- 2)" by (simp add: pow2_def)
  have "rnd64 (of_int i / 4) = of_int i / 4" unfolding eq using i by (intro rnd64_dyadic) simp_all
  moreover have "\<bar>of_int i :: rat\<bar> < 2 ^ 40"
    using i by (metis of_int_abs of_int_less_iff of_int_numeral of_int_power)
  ultimately show ?thesis by (intro fl64_exactI) simp_all
qed

lemma sample_critical: "studentTCritical sample_math 3 (Fin (3 / 4)) = Inr (Fin (1 / 2))"
proof -
  have q: "fl64 (1 / 4) = Fin (1 / 4)" "fl64 (1 / 2) = Fin (1 / 2)" "fl64 2 = Fin 2" "fl64 0 = Fin 0"
    using fl64_quarters [of 1] fl64_quarters [of 2] fl64_int [of 2] fl64_int [of 0] by simp_all
  have fields: "m_sqrt sample_math x = Fin 1" "m_tan sample_math x = Fin 2" for x
    by (simp_all add: sample_math_def)
  have whole: "cosinePowerIntegral sample_math a 1 = Fin 1" for a
    by (simp add: cosinePowerIntegral_def sample_math_def)
  have area: "sinePowerIntegral sample_math a 1 = Fin (1 / 4)" for a
    by (simp add: sinePowerIntegral_def sample_math_def q)
  obtain l u where b: "bisect (\<lambda>midpoint. Fin (1 / 4)) (Fin (1 / 4)) 96 = (Fin l, Fin u)"
    using bisect_bracket by blast
  obtain e where e: "js_mul (Fin (1 / 4)) micro = Fin e" "0 \<le> e"
  proof -
    obtain x where x: "micro = Fin x" "0 \<le> x" "x \<le> 1"
      using fl64_between [of 0 "1 / 1000000" 1] binary64.zero binary64.one
      by (auto simp: micro_def)
    then obtain y where "fl64 (1 / 4 * x) = Fin y" "0 \<le> y"
      using fl64_between [of 0 "1 / 4 * x" 1] binary64.zero binary64.one by auto
    then have "js_mul (Fin (1 / 4)) micro = Fin y" unfolding x(1) by simp
    then show ?thesis using \<open>0 \<le> y\<close> by (rule that)
  qed
  have t: "js_mul (Fin 1) (js_sub (Fin 1) (Fin (3 / 4))) = Fin (1 / 4)"
    by (simp add: js_sub_def q)
  show ?thesis
    using e b t whole area
    by (simp add: studentTCritical_def Let_def safe_integer_def max_safe_integer_def js_le_def
        js_eq_def js_sub_def q fields)
qed

section \<open>Properties\<close>

text \<open>
  C29: A critical value the code returns comes from a bisection that kept the target bracketed.
  Whatever the implementation's trigonometric functions answer, the two ends are doubles between
  0 and half of pi in their order; an end that moved is on its side of the target area; the area
  at the end the value is read from is not farther than a millionth of the target from it; and
  the value is positive and finite.
\<close>

theorem critical_value_is_bracketed:
  assumes "studentTCritical m n c = Inr t"
  shows "\<exists>l u. bisect (tail_area m n c) (tail_target m n c) 96 = (Fin l, Fin u) \<and>
    bracket (tail_area m n c) (tail_target m n c) l u \<and>
    \<not> js_lt (js_mul (tail_target m n c) micro) (js_abs (js_sub
       (tail_area m n c (Fin (if js_lt c (Fin (1 / 2)) then u else l))) (tail_target m n c))) \<and>
    t = (if js_lt c (Fin (1 / 2)) then js_mul (m_sqrt m (js_of_int (n - 1))) (m_tan m (Fin u))
      else js_div (m_sqrt m (js_of_int (n - 1))) (m_tan m (Fin l))) \<and> js_positive t"
proof -
  obtain l u where b: "bisect (tail_area m n c) (tail_target m n c) 96 = (Fin l, Fin u)"
      "bracket (tail_area m n c) (tail_target m n c) l u"
    using bisect_bracket by blast
  note t = studentTCritical_Inr [OF assms b(1)]
  from b t(5-7) show ?thesis
    by (intro exI [of _ l] exI [of _ u]) (cases "js_lt c (Fin (1 / 2))"; simp)
qed

text \<open>
  The precision of a score depends on the rates and not on the order in which they were
  sampled. When it is returned there are at least two rates, all positive and finite, listed in
  rising order; mean and critical value are positive and finite, and both half widths are finite.
\<close>

theorem precision_of_a_set_of_rates:
  assumes "mset xs = mset ys"
  shows "precisionSummary m xs p = precisionSummary m ys p \<and>
    (\<forall>s. precisionSummary m xs p = Inr s \<longrightarrow>
       2 \<le> length xs \<and> list_all js_positive xs \<and> mset (ps_rates s) = mset ys \<and>
       sorted (map num_value (ps_rates s)) \<and> js_positive (ps_mean s) \<and> js_positive (ps_tCritical s) \<and>
       js_finite (ps_ciHalfWidth s) \<and> js_finite (ps_relativeHalfWidth s))"
proof (intro conjI allI impI)
  show "precisionSummary m xs p = precisionSummary m ys p" by (rule precisionSummary_mset [OF assms])
  fix s assume s: "precisionSummary m xs p = Inr s"
  note d = precisionSummary_Inr [OF s]
  obtain l u where "bisect (tail_area m (int (length xs)) (pn_confidenceLevel p))
      (tail_target m (int (length xs)) (pn_confidenceLevel p)) 96 = (l, u)" by fastforce
  from studentTCritical_Inr(7) [OF d(9) this] show "js_positive (ps_tCritical s)" .
  show "mset (ps_rates s) = mset ys" "sorted (map num_value (ps_rates s))"
    using assms d(2) by simp_all
  show "2 \<le> length xs" by (rule d(4))
  show "list_all js_positive xs" by (rule d(3))
  show "js_positive (ps_mean s)" by (rule d(5))
  show "js_finite (ps_ciHalfWidth s)" by (rule d(7))
  show "js_finite (ps_relativeHalfWidth s)" by (rule d(8))
qed

theorem critical_value_is_bracketed_witness:
  "\<exists>l u. bracket (tail_area sample_math 3 (Fin (3 / 4))) (tail_target sample_math 3 (Fin (3 / 4))) l u \<and>
     js_positive (Fin (1 / 2))"
  using critical_value_is_bracketed [OF sample_critical] by blast

theorem precision_of_a_set_of_rates_witness:
  "precisionSummary sample_math [Fin 4, Fin 2, Fin 3] defaultPrecision =
     precisionSummary sample_math [Fin 2, Fin 3, Fin 4] defaultPrecision"
  using precision_of_a_set_of_rates [of "[Fin 4, Fin 2, Fin 3]" "[Fin 2, Fin 3, Fin 4]"] by simp

end
