(* ===== verification/Benchmark.thy ===== *)
theory Benchmark
  imports Statistics Schemas
begin

text \<open>
  The reports of \<^verbatim>\<open>_lib/benchmark.ts\<close>: the schema of a benchmark's EDN report and the checks a
  report must pass to count as the benchmark that was asked for. \<^verbatim>\<open>new URL(value).href\<close> is an
  argument.
\<close>

section \<open>Data\<close>

datatype protocol = H1 | TlsH1 | TlsH2

datatype adapter = Busker | Aleph | Capra | Hirundo | HttpExchange | HttpKit | Jetty | Undertow

definition protocol_name :: "protocol \<Rightarrow> string" where
  "protocol_name p = (case p of H1 \<Rightarrow> ''h1'' | TlsH1 \<Rightarrow> ''tls-h1'' | TlsH2 \<Rightarrow> ''tls-h2'')"

definition adapter_name :: "adapter \<Rightarrow> string" where
  "adapter_name a = (case a of Busker \<Rightarrow> ''busker'' | Aleph \<Rightarrow> ''aleph'' | Capra \<Rightarrow> ''capra''
     | Hirundo \<Rightarrow> ''hirundo'' | HttpExchange \<Rightarrow> ''http-exchange'' | HttpKit \<Rightarrow> ''http-kit''
     | Jetty \<Rightarrow> ''jetty'' | Undertow \<Rightarrow> ''undertow'')"

definition protocolSchema :: "protocol schema" where
  "protocolSchema = z_enum (map (\<lambda>p. (protocol_name p, p)) [H1, TlsH1, TlsH2])"

definition adapterSchema :: "adapter schema" where
  "adapterSchema = z_enum (map (\<lambda>a. (adapter_name a, a))
     [Busker, Aleph, Capra, Hirundo, HttpExchange, HttpKit, Jetty, Undertow])"

record parameters =
  pa_warmup :: int
  pa_duration :: int
  pa_repetitions :: int
  pa_connections :: int
  pa_streams :: int
  pa_threads :: int
  pa_buskerWorkers :: "int option"

definition parameter_body :: "(string \<times> json) list \<Rightarrow> parameters option" where
  "parameter_body o' = do {
     warmup \<leftarrow> z_field o' ''warmup'' (z_int_if z_positive);
     duration \<leftarrow> z_field o' ''duration'' (z_int_if z_positive);
     repetitions \<leftarrow> z_field o' ''repetitions'' (z_int_if z_positive);
     connections \<leftarrow> z_field o' ''connections'' (z_int_if z_positive);
     streams \<leftarrow> z_field o' ''streams'' (z_int_if z_positive);
     threads \<leftarrow> z_field o' ''threads'' (z_int_if z_positive);
     workers \<leftarrow> z_optional o' ''busker-workers'' (z_int_if z_positive);
     Some \<lparr>pa_warmup = warmup, pa_duration = duration, pa_repetitions = repetitions,
       pa_connections = connections, pa_streams = streams, pa_threads = threads,
       pa_buskerWorkers = workers\<rparr> }"

definition benchmarkParametersSchema :: "parameters schema" where
  "benchmarkParametersSchema = z_strict [''warmup'', ''duration'', ''repetitions'', ''connections'',
     ''streams'', ''threads'', ''busker-workers''] parameter_body"

definition scoredRepetitions :: "int \<Rightarrow> bool" where
  "scoredRepetitions n \<longleftrightarrow> n = 3 \<or> n = 6"

definition scorePolicyVersion :: string where
  "scorePolicyVersion = ''arithmetic-mean-student-t-v1''"

record environment =
  ev_checkout :: string
  ev_revision :: string
  ev_dirty :: bool
  ev_nativeSha256 :: string
  ev_nativeResource :: string
  ev_buskerResource :: string
  ev_javaVersion :: string
  ev_jvmOptions :: "string list"
  ev_processors :: int
  ev_maxHeapBytes :: jsnum

definition environmentSchema :: "environment schema" where
  "environmentSchema = z_loose (\<lambda>o'. do {
     _ \<leftarrow> z_field o' ''busker-mode'' (z_literal ''local'');
     checkout \<leftarrow> z_field o' ''busker-checkout'' z_string;
     revision \<leftarrow> z_field o' ''busker-revision'' z_string;
     dirty \<leftarrow> z_field o' ''busker-dirty?'' z_bool;
     sha \<leftarrow> z_field o' ''native-sha256'' sha256Schema;
     _ \<leftarrow> z_field o' ''native-version'' z_null;
     nativeResource \<leftarrow> z_field o' ''native-resource'' z_string;
     buskerResource \<leftarrow> z_field o' ''busker-resource'' z_string;
     java \<leftarrow> z_field o' ''java-version'' z_string;
     options \<leftarrow> z_field o' ''jvm-options'' (z_array z_string);
     processors \<leftarrow> z_field o' ''processors'' (z_int_if z_positive);
     heap \<leftarrow> z_field o' ''max-heap-bytes'' z_positive_number;
     Some \<lparr>ev_checkout = checkout, ev_revision = revision, ev_dirty = dirty,
       ev_nativeSha256 = sha, ev_nativeResource = nativeResource, ev_buskerResource = buskerResource,
       ev_javaVersion = java, ev_jvmOptions = options, ev_processors = processors,
       ev_maxHeapBytes = heap\<rparr> })"

record rate_sample =
  rs_requestsPerSecond :: jsnum
  rs_requests :: int
  rs_environment :: environment
  rs_protocol :: string
  rs_workersEffective :: "int list option"

definition workersSchema :: "int list schema" where
  "workersSchema = z_strict [''ready'', ''measurement-start'', ''measurement-end''] (\<lambda>o'. do {
     ready \<leftarrow> z_field o' ''ready'' (z_int_if z_positive);
     start \<leftarrow> z_field o' ''measurement-start'' (z_int_if z_positive);
     finish \<leftarrow> z_field o' ''measurement-end'' (z_int_if z_positive);
     Some [ready, start, finish] })"

definition sampleSchema :: "rate_sample schema" where
  "sampleSchema = z_loose (\<lambda>o'. do {
     _ \<leftarrow> z_field o' ''status'' (z_literal ''ok'');
     rate \<leftarrow> z_field o' ''requests-per-second'' z_positive_number;
     requests \<leftarrow> z_field o' ''requests'' (z_int_if z_positive);
     environment \<leftarrow> z_field o' ''environment'' environmentSchema;
     protocol \<leftarrow> z_field o' ''response'' (z_loose (\<lambda>r. do {
       _ \<leftarrow> z_field r ''status'' (z_literal_int 200);
       _ \<leftarrow> z_field r ''body'' (z_literal ''Hello World'');
       z_field r ''protocol'' z_string }));
     workers \<leftarrow> z_optional o' ''busker-workers-effective'' workersSchema;
     Some \<lparr>rs_requestsPerSecond = rate, rs_requests = requests, rs_environment = environment,
       rs_protocol = protocol, rs_workersEffective = workers\<rparr> })"

record cell =
  ce_requestsPerSecond :: jsnum
  ce_range :: "jsnum \<times> jsnum"
  ce_samples :: "rate_sample list"

definition rangeSchema :: "(jsnum \<times> jsnum) schema" where
  "rangeSchema v = (case v of
     JArr [a, b] \<Rightarrow> do { x \<leftarrow> z_positive_number a; y \<leftarrow> z_positive_number b; Some (x, y) }
   | _ \<Rightarrow> None)"

definition cellSchema :: "cell schema" where
  "cellSchema = z_loose (\<lambda>o'. do {
     _ \<leftarrow> z_field o' ''status'' (z_literal ''ok'');
     rate \<leftarrow> z_field o' ''requests-per-second'' z_positive_number;
     range \<leftarrow> z_field o' ''range'' rangeSchema;
     samples \<leftarrow> z_field o' ''samples'' (z_array_if (\<lambda>xs. xs \<noteq> []) sampleSchema);
     Some \<lparr>ce_requestsPerSecond = rate, ce_range = range, ce_samples = samples\<rparr> })"

record report =
  re_environment :: environment
  re_h2loadVersion :: string
  re_parameters :: parameters
  re_protocol :: protocol
  re_adapter :: adapter
  re_results :: "(string \<times> (string \<times> cell) list) list"

definition reportSchema :: "report schema" where
  "reportSchema = z_loose (\<lambda>o'. do {
     (environment, h2load) \<leftarrow> z_field o' ''environment'' (\<lambda>v. do {
       e \<leftarrow> environmentSchema v;
       h \<leftarrow> z_loose (\<lambda>kvs. z_field kvs ''h2load-version'' z_string) v;
       Some (e, h) });
     (parameters, protocol, adapter) \<leftarrow> z_field o' ''parameters'' (z_loose (\<lambda>kvs. do {
       ps \<leftarrow> parameter_body kvs;
       protocol \<leftarrow> z_field kvs ''protocol'' protocolSchema;
       adapter \<leftarrow> z_field kvs ''adapter'' adapterSchema;
       Some (ps, protocol, adapter) }));
     results \<leftarrow> z_field o' ''results'' (z_array (z_loose (\<lambda>kvs. do {
       adapter \<leftarrow> z_field kvs ''adapter'' z_string;
       protocols \<leftarrow> z_field kvs ''protocols'' (z_dict cellSchema);
       Some (adapter, protocols) })));
     Some \<lparr>re_environment = environment, re_h2loadVersion = h2load, re_parameters = parameters,
       re_protocol = protocol, re_adapter = adapter, re_results = results\<rparr> })"

section \<open>Validation\<close>

datatype purpose = Smoke | MeasurementPurpose

record expectation =
  ex_checkout :: string
  ex_revision :: string
  ex_nativeSha256 :: string
  ex_nativeResource :: string
  ex_sourceResource :: string
  ex_protocol :: protocol
  ex_adapter :: adapter
  ex_purpose :: purpose
  ex_parameters :: parameters

text \<open>\<open>url s\<close> is \<^verbatim>\<open>new URL(s).href\<close>, \<open>None\<close> where the constructor throws.\<close>

definition resourceURL :: "(string \<Rightarrow> string option) \<Rightarrow> string \<Rightarrow> string res" where
  "resourceURL url value = (case url value of
     None \<Rightarrow> Inl (Error ''Invalid resource URL'') | Some href \<Rightarrow> Inr href)"

text \<open>The keys of the expected parameters that differ, in the order of the schema.\<close>

definition wrong_parameters :: "parameters \<Rightarrow> parameters \<Rightarrow> string list" where
  "wrong_parameters actual expected = map fst (filter (\<lambda>(_, same). \<not> same)
     [(''warmup'', pa_warmup actual = pa_warmup expected),
      (''duration'', pa_duration actual = pa_duration expected),
      (''repetitions'', pa_repetitions actual = pa_repetitions expected),
      (''connections'', pa_connections actual = pa_connections expected),
      (''streams'', pa_streams actual = pa_streams expected),
      (''threads'', pa_threads actual = pa_threads expected),
      (''busker-workers'', pa_buskerWorkers expected = None \<or>
         pa_buskerWorkers actual = pa_buskerWorkers expected)])"

fun each :: "('a \<Rightarrow> unit res) \<Rightarrow> 'a list \<Rightarrow> unit res" where
  "each f [] = Inr ()"
| "each f (x # xs) = bindR (f x) (\<lambda>_. each f xs)"

definition check_environment :: "(string \<Rightarrow> string option) \<Rightarrow> expectation \<Rightarrow> string \<Rightarrow>
    environment \<Rightarrow> unit res" where
  "check_environment url expected java e =
     (let mismatch = Inl (Error ''Benchmark source or native library does not match'') in
      if ev_checkout e \<noteq> ex_checkout expected \<or> ev_revision e \<noteq> ex_revision expected \<or>
         ev_nativeSha256 e \<noteq> ex_nativeSha256 expected
      then mismatch
      else bindR (resourceURL url (ev_nativeResource e)) (\<lambda>native.
        if native \<noteq> ex_nativeResource expected then mismatch
        else bindR (resourceURL url (ev_buskerResource e)) (\<lambda>source.
          if source \<noteq> ex_sourceResource expected then mismatch
          else if ex_purpose expected = MeasurementPurpose \<and> ev_dirty e
          then Inl (Error ''Cannot score dirty source'')
          else if ev_javaVersion e \<noteq> java then Inl (Error ''JVM versions differ'')
          else Inr ())))"

definition required_flags :: "string list" where
  "required_flags = [''-Xms512m'', ''-Xmx2g'', ''-XX:ActiveProcessorCount=2'', ''-Dbusker.bench.local=true'']"

definition check_sample :: "protocol \<Rightarrow> rate_sample \<Rightarrow> unit res" where
  "check_sample protocol s =
     (if rs_protocol s \<noteq> (if protocol = TlsH2 then ''HTTP_2'' else ''HTTP_1_1'')
      then Inl (Error ''Negotiated protocol does not match'')
      else bindR (each (\<lambda>flag. if flag \<notin> set (ev_jvmOptions (rs_environment s))
          then Inl (Error (''Missing JVM flag: '' @ flag)) else Inr ()) required_flags) (\<lambda>_.
        if ev_processors (rs_environment s) \<noteq> 2 \<or>
           \<not> js_eq (ev_maxHeapBytes (rs_environment s)) (Fin 2147483648)
        then Inl (Error ''Unexpected sample JVM limits'') else Inr ()))"

definition workers_differ :: "expectation \<Rightarrow> rate_sample list \<Rightarrow> bool" where
  "workers_differ expected samples = (case pa_buskerWorkers (ex_parameters expected) of
     None \<Rightarrow> False
   | Some n \<Rightarrow> ex_adapter expected \<noteq> Busker \<or> list_ex (\<lambda>s. case rs_workersEffective s of
       None \<Rightarrow> True | Some counts \<Rightarrow> list_ex (\<lambda>c. c \<noteq> n) counts) samples)"

record benchmark_summary =
  bs_purpose :: purpose
  bs_protocol :: protocol
  bs_adapter :: adapter
  bs_diagnosticRate :: jsnum
  bs_score :: "jsnum option"
  bs_samples :: "jsnum list"
  bs_javaVersion :: string
  bs_h2loadVersion :: string
  bs_parameters :: parameters

text \<open>The mean, scaled by the greatest rate when the sum overflows.\<close>

definition diagnostic_mean :: "jsnum list \<Rightarrow> jsnum" where
  "diagnostic_mean rates =
     (let scale = last rates; whole = js_sum rates in
      if js_finite whole then js_div whole (js_nat (length rates))
      else js_mul (js_div (foldl (\<lambda>sum rate. js_add sum (js_div rate scale)) (Fin 0) rates)
        (js_nat (length rates))) scale)"

definition validate_cell :: "(string \<Rightarrow> string option) \<Rightarrow> report \<Rightarrow> expectation \<Rightarrow> cell \<Rightarrow>
    benchmark_summary res" where
  "validate_cell url report expected cell =
     (if int (length (ce_samples cell)) \<noteq> pa_repetitions (ex_parameters expected)
      then Inl (Error ''Missing benchmark repetitions'')
      else if workers_differ expected (ce_samples cell)
      then Inl (Error ''Effective Busker worker count differs'')
      else
        bindR (each (check_environment url expected (ev_javaVersion (re_environment report)))
          (re_environment report # map rs_environment (ce_samples cell))) (\<lambda>_.
        bindR (each (check_sample (ex_protocol expected)) (ce_samples cell)) (\<lambda>_.
        let sampleRates = map rs_requestsPerSecond (ce_samples cell) in
        bindR (sampleSummary sampleRates) (\<lambda>(rates, median).
          if js_lt (fl64 (1 / 100)) (js_abs (js_sub median (ce_requestsPerSecond cell))) \<or>
             \<not> js_eq (fst (ce_range cell)) (hd rates) \<or> \<not> js_eq (snd (ce_range cell)) (last rates)
          then Inl (Error ''Benchmark summary does not match its samples'')
          else let mean = diagnostic_mean rates in
            if \<not> js_finite mean then Inl (Error ''Benchmark mean is not finite'')
            else Inr \<lparr>bs_purpose = ex_purpose expected, bs_protocol = ex_protocol expected,
              bs_adapter = ex_adapter expected, bs_diagnosticRate = mean, bs_score = None,
              bs_samples = sampleRates, bs_javaVersion = ev_javaVersion (re_environment report),
              bs_h2loadVersion = re_h2loadVersion report,
              bs_parameters = ex_parameters expected\<rparr>))))"

definition validateBenchmark :: "(string \<Rightarrow> string option) \<Rightarrow> json \<Rightarrow> expectation \<Rightarrow>
    benchmark_summary res" where
  "validateBenchmark url value expected =
     bindR (zparse ''report'' reportSchema value) (\<lambda>report.
       if re_protocol report \<noteq> ex_protocol expected then Inl (Error ''Wrong benchmark protocol'')
       else (case wrong_parameters (re_parameters report) (ex_parameters expected) of
         key # _ \<Rightarrow> Inl (Error (''Wrong benchmark parameter: '' @ key))
       | [] \<Rightarrow>
         (case re_results report of
           [(name, cells)] \<Rightarrow>
             if name \<noteq> adapter_name (ex_adapter expected) \<or> re_adapter report \<noteq> ex_adapter expected
             then Inl (Error ''Expected exactly one result for the selected adapter'')
             else (case (cells, map_of cells (protocol_name (ex_protocol expected))) of
               ([_], Some cell) \<Rightarrow> validate_cell url report expected cell
             | _ \<Rightarrow> Inl (Error ''Unexpected benchmark cells''))
         | _ \<Rightarrow> Inl (Error ''Expected exactly one result for the selected adapter''))))"

section \<open>What validation establishes\<close>

lemma each_Inr: "each f xs = Inr u \<longleftrightarrow> (\<forall>x \<in> set xs. f x = Inr ())"
  by (induction xs) (auto simp: res_simps)

text \<open>An environment the benchmark may have run in.\<close>

definition source_matches :: "(string \<Rightarrow> string option) \<Rightarrow> expectation \<Rightarrow> string \<Rightarrow> environment \<Rightarrow> bool" where
  "source_matches url expected java e \<longleftrightarrow>
     ev_checkout e = ex_checkout expected \<and> ev_revision e = ex_revision expected \<and>
     ev_nativeSha256 e = ex_nativeSha256 expected \<and>
     url (ev_nativeResource e) = Some (ex_nativeResource expected) \<and>
     url (ev_buskerResource e) = Some (ex_sourceResource expected) \<and>
     \<not> (ex_purpose expected = MeasurementPurpose \<and> ev_dirty e) \<and> ev_javaVersion e = java"

lemma check_environment_Inr: "check_environment url expected java e = Inr u \<longleftrightarrow> source_matches url expected java e"
  by (auto simp: check_environment_def source_matches_def resourceURL_def Let_def res_simps
      split: option.splits if_splits)

definition limits_match :: "protocol \<Rightarrow> rate_sample \<Rightarrow> bool" where
  "limits_match protocol s \<longleftrightarrow> rs_protocol s = (if protocol = TlsH2 then ''HTTP_2'' else ''HTTP_1_1'') \<and>
     set required_flags \<subseteq> set (ev_jvmOptions (rs_environment s)) \<and>
     ev_processors (rs_environment s) = 2 \<and> ev_maxHeapBytes (rs_environment s) = Fin 2147483648"

lemma check_sample_Inr: "check_sample protocol s = Inr u \<longleftrightarrow> limits_match protocol s"
proof -
  have "each (\<lambda>flag. if flag \<notin> set (ev_jvmOptions (rs_environment s))
      then Inl (Error (''Missing JVM flag: '' @ flag)) else Inr ()) required_flags = Inr v \<longleftrightarrow>
    set required_flags \<subseteq> set (ev_jvmOptions (rs_environment s))" for v
    by (auto simp: each_Inr split: if_splits)
  then show ?thesis
    by (auto simp: check_sample_def limits_match_def bindR_eq_Inr js_eq_def split: if_splits)
qed

lemma wrong_parameters_Nil: "wrong_parameters actual expected = [] \<longleftrightarrow>
    actual = expected\<lparr>pa_buskerWorkers := pa_buskerWorkers actual\<rparr> \<and>
    (pa_buskerWorkers expected = None \<or> pa_buskerWorkers actual = pa_buskerWorkers expected)"
  by (cases actual; cases expected) (auto simp: wrong_parameters_def)

lemma validate_cell_Inr:
  assumes "validate_cell url report expected cell = Inr b"
  shows "int (length (ce_samples cell)) = pa_repetitions (ex_parameters expected)"
    "\<not> workers_differ expected (ce_samples cell)"
    "\<forall>e \<in> set (re_environment report # map rs_environment (ce_samples cell)).
       source_matches url expected (ev_javaVersion (re_environment report)) e"
    "\<forall>s \<in> set (ce_samples cell). limits_match (ex_protocol expected) s"
    "bs_samples b = map rs_requestsPerSecond (ce_samples cell)"
    "list_all js_positive (bs_samples b)" "js_finite (bs_diagnosticRate b)"
    "ce_range cell = (hd (sort_key num_value (bs_samples b)), last (sort_key num_value (bs_samples b)))"
    "bs_purpose b = ex_purpose expected" "bs_protocol b = ex_protocol expected"
    "bs_adapter b = ex_adapter expected" "bs_parameters b = ex_parameters expected" "bs_score b = None"
    "bs_javaVersion b = ev_javaVersion (re_environment report)"
    "\<exists>rates median. sampleSummary (bs_samples b) = Inr (rates, median) \<and>
       \<not> js_lt (fl64 (1 / 100)) (js_abs (js_sub median (ce_requestsPerSecond cell)))"
proof -
  let ?rates = "map rs_requestsPerSecond (ce_samples cell)"
  from assms obtain rates median where
    n: "int (length (ce_samples cell)) = pa_repetitions (ex_parameters expected)"
      "\<not> workers_differ expected (ce_samples cell)"
    and env: "each (check_environment url expected (ev_javaVersion (re_environment report)))
        (re_environment report # map rs_environment (ce_samples cell)) = Inr ()"
    and sample: "each (check_sample (ex_protocol expected)) (ce_samples cell) = Inr ()"
    and rates: "sampleSummary ?rates = Inr (rates, median)"
    and close: "\<not> js_lt (fl64 (1 / 100)) (js_abs (js_sub median (ce_requestsPerSecond cell)))"
    and rest: "js_eq (fst (ce_range cell)) (hd rates)" "js_eq (snd (ce_range cell)) (last rates)"
      "js_finite (diagnostic_mean rates)"
      "b = \<lparr>bs_purpose = ex_purpose expected, bs_protocol = ex_protocol expected,
         bs_adapter = ex_adapter expected, bs_diagnosticRate = diagnostic_mean rates, bs_score = None,
         bs_samples = ?rates, bs_javaVersion = ev_javaVersion (re_environment report),
         bs_h2loadVersion = re_h2loadVersion report, bs_parameters = ex_parameters expected\<rparr>"
    unfolding validate_cell_def Let_def
    by (auto simp: bindR_eq_Inr split: if_splits)
  note sorted = sampleSummary_Inr [OF rates]
  show "int (length (ce_samples cell)) = pa_repetitions (ex_parameters expected)"
    "\<not> workers_differ expected (ce_samples cell)" by (rule n)+
  show "\<forall>e \<in> set (re_environment report # map rs_environment (ce_samples cell)).
       source_matches url expected (ev_javaVersion (re_environment report)) e"
    using env unfolding each_Inr check_environment_Inr .
  show "\<forall>s \<in> set (ce_samples cell). limits_match (ex_protocol expected) s"
    using sample unfolding each_Inr check_sample_Inr .
  show "ce_range cell = (hd (sort_key num_value (bs_samples b)), last (sort_key num_value (bs_samples b)))"
    using rest(1,2,4) sorted by (simp add: js_eq_def prod_eq_iff)
  show "bs_samples b = map rs_requestsPerSecond (ce_samples cell)"
    "list_all js_positive (bs_samples b)" "js_finite (bs_diagnosticRate b)"
    "bs_purpose b = ex_purpose expected" "bs_protocol b = ex_protocol expected"
    "bs_adapter b = ex_adapter expected" "bs_parameters b = ex_parameters expected" "bs_score b = None"
    "bs_javaVersion b = ev_javaVersion (re_environment report)"
    using rest sorted by simp_all
  show "\<exists>rates median. sampleSummary (bs_samples b) = Inr (rates, median) \<and>
       \<not> js_lt (fl64 (1 / 100)) (js_abs (js_sub median (ce_requestsPerSecond cell)))"
    using rates close rest(4) by (intro exI [of _ rates] exI [of _ median]) simp
qed

lemma validateBenchmark_Inr:
  assumes "validateBenchmark url value expected = Inr b"
  obtains report cell where "reportSchema value = Some report"
    "re_protocol report = ex_protocol expected" "re_adapter report = ex_adapter expected"
    "wrong_parameters (re_parameters report) (ex_parameters expected) = []"
    "re_results report = [(adapter_name (ex_adapter expected), [(protocol_name (ex_protocol expected), cell)])]"
    "validate_cell url report expected cell = Inr b"
  using assms unfolding validateBenchmark_def
  by (auto simp: bindR_eq_Inr zparse_Inr split: if_splits list.splits option.splits)

section \<open>A sample report\<close>

definition sample_sha :: string where
  "sample_sha = replicate 64 (CHR ''a'')"

definition sample_revision :: string where
  "sample_revision = replicate 40 (CHR ''a'')"

definition sample_environment_fields :: "(string \<times> json) list" where
  "sample_environment_fields = [(''busker-mode'', JStr ''local''), (''busker-checkout'', JStr ''/w''),
     (''busker-revision'', JStr sample_revision), (''busker-dirty?'', JBool False),
     (''native-sha256'', JStr sample_sha), (''native-version'', JNull),
     (''native-resource'', JStr ''file:/n''), (''busker-resource'', JStr ''file:/b''),
     (''java-version'', JStr ''25''), (''jvm-options'', JArr (map JStr required_flags)),
     (''processors'', j_int 2), (''max-heap-bytes'', j_int 2147483648)]"

definition sample_environment :: environment where
  "sample_environment = \<lparr>ev_checkout = ''/w'', ev_revision = sample_revision, ev_dirty = False,
     ev_nativeSha256 = sample_sha, ev_nativeResource = ''file:/n'', ev_buskerResource = ''file:/b'',
     ev_javaVersion = ''25'', ev_jvmOptions = required_flags, ev_processors = 2,
     ev_maxHeapBytes = Fin 2147483648\<rparr>"

definition sample_parameters :: parameters where
  "sample_parameters = \<lparr>pa_warmup = 1, pa_duration = 1, pa_repetitions = 1, pa_connections = 4,
     pa_streams = 1, pa_threads = 2, pa_buskerWorkers = None\<rparr>"

definition sample_report :: json where
  "sample_report = JObj [
     (''environment'', JObj (sample_environment_fields @ [(''h2load-version'', JStr ''1'')])),
     (''parameters'', JObj [(''warmup'', j_int 1), (''duration'', j_int 1), (''repetitions'', j_int 1),
        (''connections'', j_int 4), (''streams'', j_int 1), (''threads'', j_int 2),
        (''protocol'', JStr ''tls-h2''), (''adapter'', JStr ''busker'')]),
     (''results'', JArr [JObj [(''adapter'', JStr ''busker''), (''protocols'', JObj [(''tls-h2'', JObj [
        (''status'', JStr ''ok''), (''requests-per-second'', j_int 100),
        (''range'', JArr [j_int 100, j_int 100]),
        (''samples'', JArr [JObj [(''status'', JStr ''ok''), (''requests-per-second'', j_int 100),
           (''requests'', j_int 500), (''environment'', JObj sample_environment_fields),
           (''response'', JObj [(''status'', j_int 200), (''body'', JStr ''Hello World''),
              (''protocol'', JStr ''HTTP_2'')])]])])])]])]"

definition sample_rate_sample :: rate_sample where
  "sample_rate_sample = \<lparr>rs_requestsPerSecond = Fin 100, rs_requests = 500,
     rs_environment = sample_environment, rs_protocol = ''HTTP_2'', rs_workersEffective = None\<rparr>"

definition sample_cell :: cell where
  "sample_cell = \<lparr>ce_requestsPerSecond = Fin 100, ce_range = (Fin 100, Fin 100),
     ce_samples = [sample_rate_sample]\<rparr>"

definition sample_expectation :: "purpose \<Rightarrow> expectation" where
  "sample_expectation p = \<lparr>ex_checkout = ''/w'', ex_revision = sample_revision, ex_nativeSha256 = sample_sha,
     ex_nativeResource = ''file:///n'', ex_sourceResource = ''file:///b'', ex_protocol = TlsH2,
     ex_adapter = Busker, ex_purpose = p, ex_parameters = sample_parameters\<rparr>"

definition sample_url :: "string \<Rightarrow> string option" where
  "sample_url s = (if starts_with ''file:/'' s then Some (''file:///'' @ drop 6 s) else None)"

lemma sample_environment_read:
  "environmentSchema (JObj (sample_environment_fields @ kvs)) = Some sample_environment"
proof -
  have "sha256_ok sample_sha" by code_simp
  then show ?thesis
    by (simp add: environmentSchema_def sample_environment_fields_def sample_environment_def
        required_flags_def z_null_def z_positive_number_def z_number_if_def z_array_def z_array_if_def
        sha256Schema_def z_positive_def safe_integer_def max_safe_integer_def j_int_def z_int_if_def)
qed

lemma sample_report_read: "reportSchema sample_report = Some \<lparr>re_environment = sample_environment,
    re_h2loadVersion = ''1'', re_parameters = sample_parameters, re_protocol = TlsH2, re_adapter = Busker,
    re_results = [(''busker'', [(''tls-h2'', sample_cell)])]\<rparr>"
proof -
  have h: "map_of (sample_environment_fields @ [(''h2load-version'', JStr ''1'')]) ''h2load-version'' =
      Some (JStr ''1'')"
    by (simp add: sample_environment_fields_def)
  have sample: "sampleSchema (JObj [(''status'', JStr ''ok''), (''requests-per-second'', j_int 100),
       (''requests'', j_int 500), (''environment'', JObj sample_environment_fields),
       (''response'', JObj [(''status'', j_int 200), (''body'', JStr ''Hello World''),
          (''protocol'', JStr ''HTTP_2'')])]) = Some sample_rate_sample"
    using sample_environment_read [of "[]"]
    by (simp add: sampleSchema_def sample_rate_sample_def z_positive_number_def z_number_if_def
        z_literal_int_def z_positive_def safe_integer_def max_safe_integer_def j_int_def z_int_if_def)
  have cell: "cellSchema (JObj [(''status'', JStr ''ok''), (''requests-per-second'', j_int 100),
        (''range'', JArr [j_int 100, j_int 100]), (''samples'', JArr [JObj
          [(''status'', JStr ''ok''), (''requests-per-second'', j_int 100),
           (''requests'', j_int 500), (''environment'', JObj sample_environment_fields),
           (''response'', JObj [(''status'', j_int 200), (''body'', JStr ''Hello World''),
              (''protocol'', JStr ''HTTP_2'')])]])]) = Some sample_cell"
    using sample by (simp add: cellSchema_def sample_cell_def rangeSchema_def z_array_if_def
        z_positive_number_def z_number_if_def j_int_def)
  show ?thesis
    using sample_environment_read [of "[(''h2load-version'', JStr ''1'')]"] h cell
    by (simp add: reportSchema_def sample_report_def z_field_def [of "_ @ _"] parameter_body_def
        sample_parameters_def protocolSchema_def adapterSchema_def protocol_name_def adapter_name_def
        z_dict_def z_array_def z_array_if_def z_positive_def safe_integer_def max_safe_integer_def)
qed

lemma sample_validated: "\<exists>b. validateBenchmark sample_url sample_report (sample_expectation p) = Inr b"
proof -
  have f: "fl64 0 = Fin 0" "fl64 100 = Fin 100" "fl64 1 = Fin 1"
    using fl64_int [of 0] fl64_int [of 100] fl64_int [of 1] by simp_all
  obtain e where e: "fl64 (1 / 100) = Fin e" "0 \<le> e"
    using fl64_between [of 0 "1 / 100" 1] binary64.zero binary64.one by auto
  have env: "check_environment sample_url (sample_expectation p) ''25'' sample_environment = Inr ()"
    by (simp add: check_environment_Inr source_matches_def sample_expectation_def sample_environment_def sample_url_def
        starts_with_def)
  have limits: "check_sample TlsH2 sample_rate_sample = Inr ()"
    by (simp add: check_sample_Inr limits_match_def sample_rate_sample_def sample_environment_def)
  have rates: "sampleSummary [Fin 100] = Inr ([Fin 100], Fin 100)"
    by (simp add: sampleSummary_def Let_def js_le_def js_eq_def)
  let ?r = "\<lparr>re_environment = sample_environment, re_h2loadVersion = ''1'',
    re_parameters = sample_parameters, re_protocol = TlsH2, re_adapter = Busker,
    re_results = [(''busker'', [(''tls-h2'', sample_cell)])]\<rparr>"
  have "\<exists>b. validate_cell sample_url ?r (sample_expectation p) sample_cell = Inr b"
    using env limits rates e
    by (simp add: validate_cell_def Let_def
        sample_cell_def sample_rate_sample_def sample_expectation_def sample_parameters_def
        workers_differ_def sample_environment_def diagnostic_mean_def js_sum_def js_nat_def
        js_of_int_def js_eq_def js_sub_def f)
  moreover have "wrong_parameters sample_parameters sample_parameters = []"
    by (simp add: wrong_parameters_Nil)
  ultimately show ?thesis
    by (auto simp: validateBenchmark_def zparse_def sample_report_read sample_expectation_def
        adapter_name_def protocol_name_def)
qed

section \<open>Properties\<close>

text \<open>
  C27: A validated benchmark is the one that was asked for. Its report names the expected protocol and
  adapter and ran with the expected parameters, the count of workers as far as one was asked for; it
  has exactly one cell, of that adapter and protocol, with the expected number of samples; the parent
  and every sample ran the expected checkout, revision, native library and source, undirtied when it is
  to be scored, on one Java version; every sample shows the negotiated protocol, the JVM flags and
  limits and the worker count asked for; and the rates it hands on are those of the samples, all
  positive and finite, with the report's range as their extremes and its rate within a hundredth of
  their median, and no score yet.
\<close>

theorem validated_benchmark_matches:
  assumes "validateBenchmark url value expected = Inr b"
  shows "\<exists>report cell. reportSchema value = Some report \<and>
    re_protocol report = ex_protocol expected \<and> re_adapter report = ex_adapter expected \<and>
    re_parameters report = (ex_parameters expected)\<lparr>pa_buskerWorkers := pa_buskerWorkers (re_parameters report)\<rparr> \<and>
    (pa_buskerWorkers (ex_parameters expected) = None \<or>
       pa_buskerWorkers (re_parameters report) = pa_buskerWorkers (ex_parameters expected)) \<and>
    re_results report = [(adapter_name (ex_adapter expected), [(protocol_name (ex_protocol expected), cell)])] \<and>
    int (length (ce_samples cell)) = pa_repetitions (re_parameters report) \<and>
    (\<forall>e \<in> set (re_environment report # map rs_environment (ce_samples cell)).
       source_matches url expected (bs_javaVersion b) e) \<and>
    (\<forall>s \<in> set (ce_samples cell). limits_match (ex_protocol expected) s) \<and>
    \<not> workers_differ expected (ce_samples cell) \<and>
    bs_samples b = map rs_requestsPerSecond (ce_samples cell) \<and> list_all js_positive (bs_samples b) \<and>
    ce_range cell = (hd (sort_key num_value (bs_samples b)), last (sort_key num_value (bs_samples b))) \<and>
    (\<exists>rates median. sampleSummary (bs_samples b) = Inr (rates, median) \<and>
       \<not> js_lt (fl64 (1 / 100)) (js_abs (js_sub median (ce_requestsPerSecond cell)))) \<and>
    bs_purpose b = ex_purpose expected \<and> bs_protocol b = ex_protocol expected \<and> bs_adapter b = ex_adapter expected \<and>
    bs_parameters b = ex_parameters expected \<and> bs_score b = None"
proof -
  obtain report cell where r: "reportSchema value = Some report"
      "re_protocol report = ex_protocol expected" "re_adapter report = ex_adapter expected"
      "re_results report = [(adapter_name (ex_adapter expected), [(protocol_name (ex_protocol expected), cell)])]"
    and w: "wrong_parameters (re_parameters report) (ex_parameters expected) = []"
    and v: "validate_cell url report expected cell = Inr b"
    using assms by (rule validateBenchmark_Inr)
  note c = validate_cell_Inr [OF v]
  have p: "re_parameters report = (ex_parameters expected)\<lparr>pa_buskerWorkers := pa_buskerWorkers (re_parameters report)\<rparr>"
    "pa_buskerWorkers (ex_parameters expected) = None \<or>
       pa_buskerWorkers (re_parameters report) = pa_buskerWorkers (ex_parameters expected)"
    using w by (simp_all only: wrong_parameters_Nil)
  have "pa_repetitions (re_parameters report) = pa_repetitions (ex_parameters expected)"
    by (subst p(1)) simp
  then have n: "int (length (ce_samples cell)) = pa_repetitions (re_parameters report)" using c(1) by simp
  show ?thesis
    by (intro exI [of _ report] exI [of _ cell] conjI)
      (rule r p n c(3) [folded c(14)] c(2,4-6) c(8-13,15))+
qed

theorem validated_benchmark_matches_witness:
  "\<exists>b report cell. validateBenchmark sample_url sample_report (sample_expectation MeasurementPurpose) = Inr b \<and>
     reportSchema sample_report = Some report \<and>
     re_results report = [(''busker'', [(''tls-h2'', cell)])] \<and> re_protocol report = TlsH2 \<and>
     int (length (ce_samples cell)) = pa_repetitions (re_parameters report) \<and> list_all js_positive (bs_samples b)"
proof -
  obtain b where b: "validateBenchmark sample_url sample_report (sample_expectation MeasurementPurpose) = Inr b"
    using sample_validated by blast
  have e: "ex_protocol (sample_expectation MeasurementPurpose) = TlsH2" "ex_adapter (sample_expectation MeasurementPurpose) = Busker"
    "adapter_name Busker = ''busker''" "protocol_name TlsH2 = ''tls-h2''"
    by (simp_all add: sample_expectation_def adapter_name_def protocol_name_def)
  from validated_benchmark_matches [OF b] b show ?thesis unfolding e by blast
qed

end
