(* ===== verification/Measurement.thy ===== *)
theory Measurement
  imports Benchmark Inference Js_Text
begin

text \<open>
  \<^verbatim>\<open>_lib/measurement.ts\<close>: a measurement read back from the saved benchmark outputs, whose scores
  count only as the statistics of the samples saved with them, and the comparison of three
  measurements that a step of a run saves. \<^verbatim>\<open>JSON.stringify\<close> of a number is an argument.
\<close>

section \<open>Saved benchmark outputs\<close>

fun json_text :: "(jsnum \<Rightarrow> string) \<Rightarrow> json \<Rightarrow> string" where
  "json_text numstr JNull = ''null''"
| "json_text numstr (JBool b) = (if b then ''true'' else ''false'')"
| "json_text numstr (JNum x) = numstr x"
| "json_text numstr (JStr s) = quote_json s"
| "json_text numstr (JArr vs) = ''['' @ js_join '','' (map (json_text numstr) vs) @ '']''"
| "json_text numstr (JObj kvs) =
     ''{'' @ js_join '','' (map (\<lambda>(k, v). quote_json k @ '':'' @ json_text numstr v) kvs) @ ''}''"

definition benchmarkMethod :: string where
  "benchmarkMethod = ''pinned-server-10-11-client-12-13''"

record cpu_place =
  cp_cpu :: int
  cp_core :: string
  cp_package :: string
  cp_l3 :: string
  cp_l3Size :: string
  cp_siblings :: string

record placement =
  pl_topology :: "cpu_place list"
  pl_realH2load :: string

definition cpuSchema :: "cpu_place schema" where
  "cpuSchema = z_strict [''cpu'', ''core'', ''package'', ''l3'', ''l3Size'', ''siblings''] (\<lambda>o'. do {
     cpu \<leftarrow> z_field o' ''cpu'' (z_int_if safe_integer);
     core \<leftarrow> z_field o' ''core'' z_string;
     package \<leftarrow> z_field o' ''package'' z_string;
     l3 \<leftarrow> z_field o' ''l3'' z_string;
     l3Size \<leftarrow> z_field o' ''l3Size'' z_string;
     siblings \<leftarrow> z_field o' ''siblings'' z_string;
     Some \<lparr>cp_cpu = cpu, cp_core = core, cp_package = package, cp_l3 = l3, cp_l3Size = l3Size,
       cp_siblings = siblings\<rparr> })"

definition placementProvenanceSchema :: "placement schema" where
  "placementProvenanceSchema = z_strict [''topology'', ''realH2load''] (\<lambda>o'. do {
     topology \<leftarrow> z_field o' ''topology'' (z_array cpuSchema);
     realH2load \<leftarrow> z_field o' ''realH2load'' z_string_min1;
     Some \<lparr>pl_topology = topology, pl_realH2load = realH2load\<rparr> })"

definition enc_cpu :: "cpu_place \<Rightarrow> json" where
  "enc_cpu c = JObj [(''cpu'', j_int (cp_cpu c)), (''core'', JStr (cp_core c)),
     (''package'', JStr (cp_package c)), (''l3'', JStr (cp_l3 c)), (''l3Size'', JStr (cp_l3Size c)),
     (''siblings'', JStr (cp_siblings c))]"

definition enc_placement :: "placement \<Rightarrow> json" where
  "enc_placement p = JObj [(''topology'', JArr (map enc_cpu (pl_topology p))),
     (''realH2load'', JStr (pl_realH2load p))]"

record saved_summary =
  sm_protocol :: protocol
  sm_adapter :: adapter
  sm_score :: jsnum
  sm_diagnosticRate :: jsnum
  sm_javaVersion :: string
  sm_h2loadVersion :: string
  sm_parameters :: parameters
  sm_samples :: "jsnum list"
  sm_sampleSD :: jsnum
  sm_tCritical :: jsnum
  sm_ciHalfWidth :: jsnum
  sm_relativeHalfWidth :: jsnum

definition z_nonnegative_number :: "jsnum schema" where
  "z_nonnegative_number = z_number_if (js_le (Fin 0))"

definition z_samples :: "nat \<Rightarrow> nat \<Rightarrow> jsnum list schema" where
  "z_samples lo hi = z_array_if (\<lambda>xs. lo \<le> length xs \<and> length xs \<le> hi) z_positive_number"

definition savedSummarySchema :: "saved_summary schema" where
  "savedSummarySchema = z_loose (\<lambda>o'. do {
     _ \<leftarrow> z_field o' ''kind'' (z_literal ''benchmark'');
     protocol \<leftarrow> z_field o' ''protocol'' protocolSchema;
     adapter \<leftarrow> z_field o' ''adapter'' adapterSchema;
     score \<leftarrow> z_field o' ''score'' z_positive_number;
     diagnosticRate \<leftarrow> z_field o' ''diagnosticRate'' z_positive_number;
     java \<leftarrow> z_field o' ''javaVersion'' z_string_min1;
     h2load \<leftarrow> z_field o' ''h2loadVersion'' z_string_min1;
     parameters \<leftarrow> z_field o' ''parameters'' benchmarkParametersSchema;
     samples \<leftarrow> z_field o' ''samples'' (z_samples 6 12);
     sampleSD \<leftarrow> z_field o' ''sampleSD'' z_nonnegative_number;
     tCritical \<leftarrow> z_field o' ''tCritical'' z_positive_number;
     ciHalfWidth \<leftarrow> z_field o' ''ciHalfWidth'' z_nonnegative_number;
     relativeHalfWidth \<leftarrow> z_field o' ''relativeHalfWidth'' z_nonnegative_number;
     Some \<lparr>sm_protocol = protocol, sm_adapter = adapter, sm_score = score,
       sm_diagnosticRate = diagnosticRate, sm_javaVersion = java, sm_h2loadVersion = h2load,
       sm_parameters = parameters, sm_samples = samples, sm_sampleSD = sampleSD,
       sm_tCritical = tCritical, sm_ciHalfWidth = ciHalfWidth,
       sm_relativeHalfWidth = relativeHalfWidth\<rparr> })"

record saved_benchmark =
  sb_runId :: string
  sb_protocol :: protocol
  sb_adapter :: adapter
  sb_revision :: string
  sb_nativeSha256 :: string
  sb_hostname :: string
  sb_precision :: precision
  sb_plannedSamples :: int
  sb_placement :: placement
  sb_cleanup :: string
  sb_summary :: saved_summary
  sb_batches :: "jsnum list list"

definition savedBenchmarkSchema :: "saved_benchmark schema" where
  "savedBenchmarkSchema = z_loose (\<lambda>o'. do {
     runId \<leftarrow> z_field o' ''runId'' z_string;
     _ \<leftarrow> z_field o' ''purpose'' (z_literal ''measurement'');
     protocol \<leftarrow> z_field o' ''protocol'' protocolSchema;
     adapter \<leftarrow> z_field o' ''adapter'' adapterSchema;
     revision \<leftarrow> z_field o' ''revision'' z_string;
     sha \<leftarrow> z_field o' ''nativeSha256'' sha256Schema;
     hostname \<leftarrow> z_field o' ''hostname'' z_string_min1;
     _ \<leftarrow> z_field o' ''method'' (z_literal benchmarkMethod);
     _ \<leftarrow> z_field o' ''scorePolicyVersion'' (z_literal scorePolicyVersion);
     precision \<leftarrow> z_field o' ''precision'' precisionSchema;
     planned \<leftarrow> z_field o' ''plannedSamples'' (z_int_if (\<lambda>n. n = 6 \<or> n = 12));
     placement \<leftarrow> z_field o' ''placement'' placementProvenanceSchema;
     _ \<leftarrow> z_field o' ''valid'' (\<lambda>v. if v = JBool True then Some () else None);
     _ \<leftarrow> z_field o' ''inconclusive'' (\<lambda>v. if v = JBool False then Some () else None);
     _ \<leftarrow> z_field o' ''exitCode'' (z_literal_int 0);
     cleanup \<leftarrow> z_field o' ''cleanup'' (z_string_if (\<lambda>s. s = ''absent'' \<or> s = ''stopped''));
     summary \<leftarrow> z_field o' ''summary'' savedSummarySchema;
     batches \<leftarrow> z_field o' ''batches'' (z_array_if (\<lambda>bs. length bs = 2)
       (z_loose (\<lambda>b. z_field b ''samples'' (z_samples 3 6))));
     Some \<lparr>sb_runId = runId, sb_protocol = protocol, sb_adapter = adapter, sb_revision = revision,
       sb_nativeSha256 = sha, sb_hostname = hostname, sb_precision = precision,
       sb_plannedSamples = planned, sb_placement = placement, sb_cleanup = cleanup,
       sb_summary = summary, sb_batches = batches\<rparr> })"

section \<open>Reading a measurement\<close>

definition pooled_rates :: "saved_benchmark \<Rightarrow> jsnum list" where
  "pooled_rates r = concat (sb_batches r)"

definition repetitions_of :: "saved_benchmark \<Rightarrow> int" where
  "repetitions_of r = pa_repetitions (sm_parameters (sb_summary r))"

text \<open>The saved statistics are those of the saved samples.\<close>

definition statistics_match :: "saved_summary \<Rightarrow> precision_summary \<Rightarrow> bool" where
  "statistics_match s pooled \<longleftrightarrow> js_eq (ps_mean pooled) (sm_score s) \<and>
     js_eq (ps_mean pooled) (sm_diagnosticRate s) \<and> js_eq (ps_sampleSD pooled) (sm_sampleSD s) \<and>
     js_eq (ps_tCritical pooled) (sm_tCritical s) \<and> js_eq (ps_ciHalfWidth pooled) (sm_ciHalfWidth s) \<and>
     js_eq (ps_relativeHalfWidth pooled) (sm_relativeHalfWidth s) \<and> ps_rates pooled = sm_samples s"

definition unsupported :: "'a res" where
  "unsupported = Inl (Error ''Benchmark samples do not support the saved score'')"

definition check_record :: "js_math \<Rightarrow> string \<Rightarrow> string \<Rightarrow> precision \<Rightarrow> saved_benchmark \<Rightarrow> unit res" where
  "check_record m runId revision precision r =
     (if sb_runId r \<noteq> runId \<or> sb_revision r \<noteq> revision \<or>
         sb_protocol r \<noteq> sm_protocol (sb_summary r) \<or> sb_adapter r \<noteq> sm_adapter (sb_summary r)
      then Inl (Error ''Benchmark output does not match the run, revision, or protocol'')
      else if sb_precision r \<noteq> precision
      then Inl (Error ''Benchmark precision differs from run configuration'')
      else bindR (precisionSummary m (pooled_rates r) precision) (\<lambda>pooled.
        if \<not> scoredRepetitions (repetitions_of r) \<or> sb_plannedSamples r \<noteq> 2 * repetitions_of r \<or>
           list_ex (\<lambda>b. int (length b) \<noteq> repetitions_of r) (sb_batches r) \<or>
           int (length (sm_samples (sb_summary r))) \<noteq> sb_plannedSamples r
        then unsupported
        else bindR (meetsPrecision (Some (ps_relativeHalfWidth pooled)) precision) (\<lambda>meets.
          if \<not> meets \<or> \<not> statistics_match (sb_summary r) pooled then unsupported else Inr ())))"

fun read_records :: "'st store_ops \<Rightarrow> js_math \<Rightarrow> string \<Rightarrow> string \<Rightarrow> precision \<Rightarrow> output_ref list \<Rightarrow>
    ('st, (output_ref \<times> saved_benchmark) list) action" where
  "read_records ops m runId revision precision [] = returnA []"
| "read_records ops m runId revision precision (reference # rest) =
     bindA (liftA (if ref_ok reference then Inr () else Inl (ZodError ''reference''))) (\<lambda>_.
     bindA (so_read ops (or_name reference) (Some (or_version reference))) (\<lambda>v.
     bindA (liftA (zparse ''benchmark'' savedBenchmarkSchema (or_null v))) (\<lambda>r.
     bindA (liftA (check_record m runId revision precision r)) (\<lambda>_.
     bindA (read_records ops m runId revision precision rest) (\<lambda>records.
     returnA ((reference, r) # records))))))"

text \<open>\<^verbatim>\<open>localeCompare\<close> orders the three protocols by their names.\<close>

definition protocol_rank :: "protocol \<Rightarrow> nat" where
  "protocol_rank p = (case p of H1 \<Rightarrow> 0 | TlsH1 \<Rightarrow> 1 | TlsH2 \<Rightarrow> 2)"

definition enc_precision :: "precision \<Rightarrow> json" where
  "enc_precision p = JObj [(''relativeHalfWidth'', JNum (pn_relativeHalfWidth p)),
     (''confidenceLevel'', JNum (pn_confidenceLevel p))]"

definition enc_parameters :: "parameters \<Rightarrow> json" where
  "enc_parameters p = JObj ([(''warmup'', j_int (pa_warmup p)), (''duration'', j_int (pa_duration p)),
     (''repetitions'', j_int (pa_repetitions p)), (''connections'', j_int (pa_connections p)),
     (''streams'', j_int (pa_streams p)), (''threads'', j_int (pa_threads p))] @
     j_optional ''busker-workers'' j_int (pa_buskerWorkers p))"

definition signature_of :: "(jsnum \<Rightarrow> string) \<Rightarrow> saved_benchmark \<Rightarrow> string" where
  "signature_of numstr r = json_text numstr (JObj [(''hostname'', JStr (sb_hostname r)),
     (''method'', JStr benchmarkMethod), (''scorePolicyVersion'', JStr scorePolicyVersion),
     (''precision'', enc_precision (sb_precision r)), (''plannedSamples'', j_int (sb_plannedSamples r)),
     (''placement'', enc_placement (sb_placement r)),
     (''javaVersion'', JStr (sm_javaVersion (sb_summary r))),
     (''h2loadVersion'', JStr (sm_h2loadVersion (sb_summary r))),
     (''parameters'', enc_parameters (sm_parameters (sb_summary r)))])"

fun settings_of :: "(jsnum \<Rightarrow> string) \<Rightarrow> (protocol \<times> string) list \<Rightarrow> saved_benchmark list \<Rightarrow>
    (protocol \<times> string) list res" where
  "settings_of numstr settings [] = Inr settings"
| "settings_of numstr settings (r # rest) =
     (let signature = signature_of numstr r in
      if map_of settings (sb_protocol r) \<notin> {None, Some signature}
      then Inl (Error ''Benchmark settings differ within a protocol'')
      else settings_of numstr (AList.update (sb_protocol r) signature settings) rest)"

definition protocol_id :: "(jsnum \<Rightarrow> string) \<Rightarrow> (protocol \<times> string) list \<Rightarrow> string" where
  "protocol_id numstr settings = json_text numstr (JArr (map (\<lambda>(p, sig).
     JArr [JStr (protocol_name p), JStr sig]) (sort_key (\<lambda>s. protocol_rank (fst s)) settings)))"

definition measurement_of :: "(jsnum \<Rightarrow> string) \<Rightarrow> string \<Rightarrow> (output_ref \<times> saved_benchmark) list \<Rightarrow>
    measurement res" where
  "measurement_of numstr revision unsorted =
     (let records = sort_key (\<lambda>r. protocol_rank (sb_protocol (snd r))) unsorted;
          rs = map snd records in
      if \<not> distinct (map (\<lambda>r. (sb_protocol r, sb_adapter r)) rs)
      then Inl (Error ''Duplicate benchmark protocols'')
      else if card (set (map sb_nativeSha256 rs)) \<noteq> 1
      then Inl (Error ''Native library differs within the measurement'')
      else if card (set (map sb_hostname rs)) \<noteq> 1
      then Inl (Error ''Measurement spans different hosts'')
      else bindR (settings_of numstr [] rs) (\<lambda>settings.
        Inr \<lparr>me_kind = ''benchmark'', me_id = js_join '','' (map (\<lambda>r. ref_label (fst r)) records),
          me_revision = revision, me_protocolId = protocol_id numstr settings,
          me_nativeSha256 = Some (sb_nativeSha256 (hd rs)),
          me_scores = map (\<lambda>r. \<lparr>sc_workload = protocol_name (sb_protocol r),
            sc_adapter = adapter_name (sb_adapter r), sc_requestsPerSecond = sm_score (sb_summary r),
            sc_valid = True\<rparr>) rs\<rparr>))"

definition readMeasurement :: "'st store_ops \<Rightarrow> js_math \<Rightarrow> (jsnum \<Rightarrow> string) \<Rightarrow> string \<Rightarrow> string \<Rightarrow>
    output_ref list \<Rightarrow> precision \<Rightarrow> ('st, measurement) action" where
  "readMeasurement ops m numstr runId revision references precision =
     (if references = [] then liftA (Inl (Error ''A measurement needs saved benchmark outputs''))
      else bindA (read_records ops m runId revision precision references)
        (\<lambda>records. liftA (measurement_of numstr revision records)))"

end
