(* ===== verification/Support.thy ===== *)
theory Support
  imports Host Measurement
begin

text \<open>
  \<^verbatim>\<open>_lib/support.ts\<close>: the manifest of the files that drive a run (workflow, prompts, extensions)
  and its comparison with a reviewed Git commit. The hashes of \<^verbatim>\<open>node:crypto\<close> and the collation of
  \<^verbatim>\<open>localeCompare\<close> are arguments; the host answers what directories, files and git hold.
\<close>

section \<open>The manifest\<close>

definition runtimePaths :: "string list" where
  "runtimePaths = [''.swamp.yaml'', ''extensions'', ''models'', ''workflows'', ''prompts'', ''pi'', ''clojure'']"

record support_file =
  sf_path :: string
  sf_sha256 :: string

record manifest =
  mf_sha256 :: string
  mf_files :: "support_file list"

text \<open>
  \<^verbatim>\<open>visit\<close> descends into directories. The depth is bounded: each level adds at least two characters
  to a path, and a host refuses a path of more than 4096 of them before the bound is reached.
\<close>

definition max_depth :: nat where
  "max_depth = 4096"

fun visit_support :: "'st host \<Rightarrow> (string \<Rightarrow> string) \<Rightarrow> nat \<Rightarrow> string \<Rightarrow> string \<Rightarrow> ('st, support_file list) action" where
  "visit_support h sha256 0 directory path = throwA (Named ''RangeError'' path)"
| "visit_support h sha256 (Suc depth) directory path =
     (let full = join_path directory path in
      bindA (h_lstat h full) (\<lambda>stat.
      if fi_isSymlink stat then throwA (Error (''Support symlink is not permitted: '' @ path))
      else if fi_isDirectory stat then
        bindA (h_readDir h full) (\<lambda>entries.
        bindA (mapA (\<lambda>entry. visit_support h sha256 depth directory (path @ ''/'' @ de_name entry)) entries)
          (\<lambda>files. returnA (concat files)))
      else if fi_isFile stat then
        bindA (h_readFile h full) (\<lambda>bytes. returnA [\<lparr>sf_path = path, sf_sha256 = sha256 bytes\<rparr>])
      else throwA (Error (''Unsupported support file: '' @ path))))"

text \<open>A stable sort by a comparison, as \<^verbatim>\<open>Array.prototype.sort\<close>.\<close>

fun insert_by :: "('a \<Rightarrow> 'a \<Rightarrow> bool) \<Rightarrow> 'a \<Rightarrow> 'a list \<Rightarrow> 'a list" where
  "insert_by le x [] = [x]"
| "insert_by le x (y # ys) = (if le x y then x # y # ys else y # insert_by le x ys)"

definition sort_by :: "('a \<Rightarrow> 'a \<Rightarrow> bool) \<Rightarrow> 'a list \<Rightarrow> 'a list" where
  "sort_by le xs = foldr (insert_by le) xs []"

definition enc_file :: "support_file \<Rightarrow> json" where
  "enc_file f = JObj [(''path'', JStr (sf_path f)), (''sha256'', JStr (sf_sha256 f))]"

definition enc_manifest :: "manifest \<Rightarrow> json" where
  "enc_manifest m = JObj [(''sha256'', JStr (mf_sha256 m)), (''files'', JArr (map enc_file (mf_files m)))]"

text \<open>Manifests hold no numbers, so how numbers print does not matter.\<close>

definition plain_text :: "json \<Rightarrow> string" where
  "plain_text = json_text (\<lambda>_. [])"

text \<open>The hashes and the collation the functions use.\<close>

record crypto =
  cr_sha256 :: "string \<Rightarrow> string"
  cr_sha1 :: "string \<Rightarrow> string"
  cr_collate :: "string \<Rightarrow> string \<Rightarrow> bool"

definition supportManifest :: "'st host \<Rightarrow> crypto \<Rightarrow> string \<Rightarrow> ('st, manifest) action" where
  "supportManifest h cr directory =
     bindA (mapA (visit_support h (cr_sha256 cr) max_depth directory) runtimePaths) (\<lambda>visited.
     let files = sort_by (\<lambda>a b. cr_collate cr (sf_path a) (sf_path b)) (concat visited) in
     returnA \<lparr>mf_sha256 = cr_sha256 cr (plain_text (JArr (map enc_file files))), mf_files = files\<rparr>)"

definition verifySupport :: "'st host \<Rightarrow> crypto \<Rightarrow> string \<Rightarrow> manifest \<Rightarrow> ('st, unit) action" where
  "verifySupport h cr directory expected =
     bindA (supportManifest h cr directory) (\<lambda>actual.
     guardA (plain_text (enc_manifest actual) = plain_text (enc_manifest expected))
       ''Support code changed; stop and inspect this run before any further effect'')"

section \<open>The reviewed commit\<close>

definition review_git :: "'st host \<Rightarrow> string \<Rightarrow> string list \<Rightarrow> ('st, string) action" where
  "review_git h repository args =
     bindA (h_output h \<lparr>cm_command = ''git'', cm_args = args, cm_cwd = Some repository, cm_env = [], cm_clearEnv = False\<rparr>)
     (\<lambda>result. if \<not> co_success result
       then throwA (Error (''Cannot inspect reviewed support commit: '' @ co_stderr result))
       else returnA (co_stdout result))"

text \<open>\<^verbatim>\<open>/^(100644|100755) blob ([0-9a-f]{40})\tswamp\/(.+)$/\<close>: the path and its blob.\<close>

definition tree_entry :: "string \<Rightarrow> (string \<times> string) option" where
  "tree_entry e =
     (let oid = take 40 (drop 12 e); after = drop 52 e; path = drop 7 after in
      if (starts_with ''100644 blob '' e \<or> starts_with ''100755 blob '' e) \<and> revision_ok oid \<and>
         starts_with (CHR 0x09 # ''swamp/'') after \<and> path \<noteq> [] \<and> LF \<notin> set path \<and> CR \<notin> set path
      then Some (path, oid) else None)"

fun read_tree :: "(string \<times> string) list \<Rightarrow> string list \<Rightarrow> (string \<times> string) list res" where
  "read_tree blobs [] = Inr blobs"
| "read_tree blobs (e # es) = (case tree_entry e of
     None \<Rightarrow> Inl (Error ''Reviewed support contains an unexpected Git entry'')
   | Some (path, oid) \<Rightarrow>
       if path \<in> fst ` set blobs then Inl (Error ''Reviewed support contains an unexpected Git entry'')
       else read_tree (blobs @ [(path, oid)]) es)"

definition file_set_error :: "(string \<times> string) list \<Rightarrow> manifest \<Rightarrow> string" where
  "file_set_error blobs m = ''Support file set differs from reviewed Git commit: missing '' @
     js_join '', '' (filter (\<lambda>p. p \<notin> fst ` set blobs) (map sf_path (mf_files m))) @ ''; unexpected '' @
     js_join '', '' (filter (\<lambda>p. p \<notin> sf_path ` set (mf_files m)) (map fst blobs))"

text \<open>The object identity git gives to a file: the hash of a header and its bytes.\<close>

definition blob_oid :: "crypto \<Rightarrow> string \<Rightarrow> string" where
  "blob_oid cr bytes = cr_sha1 cr (''blob '' @ dec_nat (length bytes) @ CHR 0x00 # bytes)"

definition check_blob :: "'st host \<Rightarrow> crypto \<Rightarrow> (string \<times> string) list \<Rightarrow> string \<Rightarrow> support_file \<Rightarrow> ('st, unit) action" where
  "check_blob h cr blobs directory file =
     bindA (h_readFile h (join_path directory (sf_path file))) (\<lambda>bytes.
     guardA (map_of blobs (sf_path file) = Some (blob_oid cr bytes))
       (''Support file differs from reviewed Git commit: '' @ sf_path file))"

definition tree_args :: "string \<Rightarrow> string list" where
  "tree_args revision = [''ls-tree'', ''-r'', ''-z'', ''--full-tree'', revision, ''--''] @
     map (\<lambda>path. ''swamp/'' @ path) runtimePaths"

definition verifyReviewedSupport :: "'st host \<Rightarrow> crypto \<Rightarrow> string \<Rightarrow> string \<Rightarrow> string \<Rightarrow> manifest \<Rightarrow>
    ('st, unit) action" where
  "verifyReviewedSupport h cr repository revision directory m =
     thenA (guardA (revision_ok revision) ''Reviewed support needs a full Git commit hash'')
     (bindA (review_git h repository [''cat-file'', ''-t'', revision]) (\<lambda>kind.
      thenA (guardA (js_trim kind = ''commit'') ''Reviewed support revision is not a commit'')
      (bindA (review_git h repository [''rev-parse'', ''--show-object-format'']) (\<lambda>objectFormat.
       thenA (guardA (js_trim objectFormat = ''sha1'')
         (''Reviewed support requires the repository'' @ [CHR 39] @ ''s SHA-1 Git object format''))
       (bindA (review_git h repository (tree_args revision)) (\<lambda>tree.
        bindA (liftA (read_tree [] (filter (\<lambda>e. e \<noteq> []) (js_split (CHR 0x00) tree)))) (\<lambda>blobs.
        thenA (guardA (length blobs = length (mf_files m)) (file_set_error blobs m))
        (forA (check_blob h cr blobs directory) (mf_files m)))))))))"

section \<open>What the checks establish\<close>

text \<open>The text of a manifest determines it.\<close>

definition file_text :: "support_file \<Rightarrow> string" where
  "file_text f = plain_text (enc_file f)"

lemma file_text_eq: "file_text f = ''{'' @ quote_json ''path'' @ '':'' @ quote_json (sf_path f) @ '','' @
    quote_json ''sha256'' @ '':'' @ quote_json (sf_sha256 f) @ ''}''"
  by (simp add: file_text_def plain_text_def enc_file_def)

lemma file_text_prefix: "file_text f @ x = file_text g @ y \<Longrightarrow> f = g \<and> x = y"
proof -
  assume "file_text f @ x = file_text g @ y"
  then have eq: "quote_json (sf_path f) @ '','' @ quote_json ''sha256'' @ '':'' @ quote_json (sf_sha256 f) @ ''}'' @ x =
      quote_json (sf_path g) @ '','' @ quote_json ''sha256'' @ '':'' @ quote_json (sf_sha256 g) @ ''}'' @ y"
    by (simp add: file_text_eq)
  from quote_json_prefix [OF this] have "sf_path f = sf_path g"
    "quote_json (sf_sha256 f) @ ''}'' @ x = quote_json (sf_sha256 g) @ ''}'' @ y" by simp_all
  with quote_json_prefix [OF this(2)] show ?thesis by simp
qed

lemma join_files_prefix:
  "js_join '','' (map file_text fs) @ CHR '']'' # x = js_join '','' (map file_text gs) @ CHR '']'' # y \<Longrightarrow> fs = gs"
proof (induction fs arbitrary: gs)
  case Nil
  then show ?case by (cases gs; cases "tl gs") (simp_all add: file_text_eq)
next
  case (Cons a fs)
  then obtain b gs' where gs: "gs = b # gs'" by (cases gs; cases fs) (auto simp: file_text_eq)
  have join: "js_join '','' (map file_text (c # zs)) = file_text c @
      (if zs = [] then [] else CHR '','' # js_join '','' (map file_text zs))" for c zs
    by (cases zs) simp_all
  from Cons.prems gs have eq: "file_text a @ (if fs = [] then [] else CHR '','' # js_join '','' (map file_text fs))
        @ CHR '']'' # x =
      file_text b @ (if gs' = [] then [] else CHR '','' # js_join '','' (map file_text gs')) @ CHR '']'' # y"
    by (simp only: join append_assoc)
  from file_text_prefix [OF eq] have "a = b" by simp
  moreover have "fs = gs'"
    using file_text_prefix [OF eq] Cons.IH [of gs'] by (cases "fs = []"; cases "gs' = []") auto
  ultimately show ?case using gs by simp
qed

lemma manifest_text_inject: "plain_text (enc_manifest m) = plain_text (enc_manifest n) \<longleftrightarrow> m = n"
proof
  assume "plain_text (enc_manifest m) = plain_text (enc_manifest n)"
  moreover have "plain_text (enc_manifest k) = ''{'' @ quote_json ''sha256'' @ '':'' @ quote_json (mf_sha256 k) @ '','' @
      quote_json ''files'' @ '':['' @ js_join '','' (map file_text (mf_files k)) @ '']}''" for k
    by (simp add: enc_manifest_def plain_text_def file_text_def [abs_def] comp_def)
  ultimately have eq: "quote_json (mf_sha256 m) @ '','' @ quote_json ''files'' @ '':['' @ js_join '','' (map file_text (mf_files m)) @ '']}'' =
      quote_json (mf_sha256 n) @ '','' @ quote_json ''files'' @ '':['' @ js_join '','' (map file_text (mf_files n)) @ '']}''"
    by simp
  from quote_json_prefix [OF this] have "mf_sha256 m = mf_sha256 n"
    "js_join '','' (map file_text (mf_files m)) @ '']}'' = js_join '','' (map file_text (mf_files n)) @ '']}''"
    by simp_all
  with join_files_prefix [where x = "''}''" and y = "''}''"] show "m = n" by simp
qed simp

lemma verifySupport_Inr: "verifySupport h cr directory expected st = (Inr (), st') \<longleftrightarrow>
    supportManifest h cr directory st = (Inr expected, st')"
  by (auto simp: verifySupport_def run_simps manifest_text_inject)

lemma read_tree_Inr: "read_tree blobs es = Inr blobs' \<Longrightarrow> distinct (map fst blobs) \<Longrightarrow>
    distinct (map fst blobs') \<and> (\<exists>new. blobs' = blobs @ new \<and> list_all2 (\<lambda>e b. tree_entry e = Some b) es new)"
proof (induction blobs es rule: read_tree.induct)
  case (2 blobs e es)
  then obtain path oid where e: "tree_entry e = Some (path, oid)" "path \<notin> fst ` set blobs"
    "read_tree (blobs @ [(path, oid)]) es = Inr blobs'"
    by (auto split: option.splits if_splits)
  with 2 have "distinct (map fst blobs') \<and>
      (\<exists>new. blobs' = (blobs @ [(path, oid)]) @ new \<and> list_all2 (\<lambda>e b. tree_entry e = Some b) es new)"
    by simp
  then obtain new where "distinct (map fst blobs')" "blobs' = blobs @ ((path, oid) # new)"
    "list_all2 (\<lambda>e b. tree_entry e = Some b) es new" by auto
  with e(1) show ?case by (intro conjI exI [of _ "(path, oid) # new"]) simp_all
qed auto

text \<open>
  A file of the support directory has the bytes git holds under an object identity, up to the
  collision of two texts under that hash.
\<close>

definition reviewed_file :: "'st host \<Rightarrow> crypto \<Rightarrow> string \<Rightarrow> (string \<times> string) list \<Rightarrow> string \<Rightarrow> bool" where
  "reviewed_file h cr directory blobs path \<longleftrightarrow> (\<exists>s1 s2 bytes.
     h_readFile h (join_path directory path) s1 = (Inr bytes, s2) \<and> (path, blob_oid cr bytes) \<in> set blobs)"

lemma verifyReviewedSupport_Inr:
  assumes "verifyReviewedSupport h cr repository revision directory m st = (Inr (), st')"
  obtains st1 st2 tree blobs where "review_git h repository (tree_args revision) st1 = (Inr tree, st2)"
    "read_tree [] (filter (\<lambda>e. e \<noteq> []) (js_split (CHR 0x00) tree)) = Inr blobs"
    "length blobs = length (mf_files m)" "distinct (map fst blobs)"
    "\<forall>f \<in> set (mf_files m). reviewed_file h cr directory blobs (sf_path f)"
proof -
  from assms obtain st1 tree st2 blobs where r: "review_git h repository (tree_args revision) st1 = (Inr tree, st2)"
    "read_tree [] (filter (\<lambda>e. e \<noteq> []) (js_split (CHR 0x00) tree)) = Inr blobs"
    "length blobs = length (mf_files m)" "forA (check_blob h cr blobs directory) (mf_files m) st2 = (Inr (), st')"
    by (auto simp: verifyReviewedSupport_def run_simps)
  have "distinct (map fst blobs)" using read_tree_Inr [OF r(2)] by simp
  moreover have "reviewed_file h cr directory blobs (sf_path f)" if f: "f \<in> set (mf_files m)" for f
  proof -
    from forA_Inr [OF r(4) f] obtain s1 s2 where "check_blob h cr blobs directory f s1 = (Inr (), s2)" by blast
    then show ?thesis
      by (auto simp: check_blob_def run_simps reviewed_file_def dest!: map_of_SomeD)
  qed
  ultimately show ?thesis using r by (intro that) blast+
qed

lemma same_files:
  assumes "length blobs = length paths" "distinct (map fst blobs)" "distinct paths" "set paths \<subseteq> fst ` set blobs"
  shows "set paths = fst ` set blobs"
proof -
  have "card (set paths) = card (set (map fst blobs))"
    unfolding distinct_card [OF assms(2)] distinct_card [OF assms(3)] using assms(1) by simp
  with assms(4) show ?thesis using card_subset_eq [of "set (map fst blobs)" "set paths"] by simp
qed

section \<open>Properties\<close>

text \<open>
  C34: Accepted support code is the reviewed code. When the check of the support directory against a
  commit succeeds, git listed the support files of that commit, every file of the manifest was
  read with exactly the bytes of one of the listed blobs, and, the paths of the manifest being
  distinct, no listed file is missing from it and none was added.
\<close>

theorem accepted_support_is_reviewed:
  assumes "verifyReviewedSupport h cr repository revision directory m st = (Inr (), st')"
  shows "\<exists>st1 st2 tree blobs. review_git h repository (tree_args revision) st1 = (Inr tree, st2) \<and>
    read_tree [] (filter (\<lambda>e. e \<noteq> []) (js_split (CHR 0x00) tree)) = Inr blobs \<and>
    (\<forall>f \<in> set (mf_files m). reviewed_file h cr directory blobs (sf_path f)) \<and>
    (distinct (map sf_path (mf_files m)) \<longrightarrow> sf_path ` set (mf_files m) = fst ` set blobs)"
proof (rule verifyReviewedSupport_Inr [OF assms])
  fix st1 st2 tree blobs
  assume r: "review_git h repository (tree_args revision) st1 = (Inr tree, st2)"
    "read_tree [] (filter (\<lambda>e. e \<noteq> []) (js_split (CHR 0x00) tree)) = Inr blobs"
    "length blobs = length (mf_files m)" "distinct (map fst blobs)"
    "\<forall>f \<in> set (mf_files m). reviewed_file h cr directory blobs (sf_path f)"
  then have "set (map sf_path (mf_files m)) \<subseteq> fst ` set blobs"
    by (force simp: reviewed_file_def)
  with r same_files [of blobs "map sf_path (mf_files m)"]
  have "distinct (map sf_path (mf_files m)) \<longrightarrow> sf_path ` set (mf_files m) = fst ` set blobs" by simp
  with r show ?thesis by blast
qed

definition reviewed_crypto :: crypto where
  "reviewed_crypto = \<lparr>cr_sha256 = (\<lambda>_. replicate 64 (CHR ''e'')), cr_sha1 = (\<lambda>_. replicate 40 (CHR ''d'')),
     cr_collate = (\<lambda>_ _. True)\<rparr>"

definition reviewed_tree :: string where
  "reviewed_tree = ''100644 blob '' @ replicate 40 (CHR ''d'') @ CHR 0x09 # ''swamp/.swamp.yaml'' @ [CHR 0x00]"

definition reviewed_host :: "unit host" where
  "reviewed_host = bare_host\<lparr>h_readFile := \<lambda>_. returnA ''x'',
     h_output := \<lambda>c. returnA \<lparr>co_success = True,
       co_stdout = (if hd (cm_args c) = ''cat-file'' then ''commit'' else if hd (cm_args c) = ''rev-parse''
         then ''sha1'' else reviewed_tree), co_stderr = []\<rparr>\<rparr>"

definition reviewed_manifest :: manifest where
  "reviewed_manifest = \<lparr>mf_sha256 = replicate 64 (CHR ''e''),
     mf_files = [\<lparr>sf_path = ''.swamp.yaml'', sf_sha256 = replicate 64 (CHR ''e'')\<rparr>]\<rparr>"

lemma reviewed_accepted: "verifyReviewedSupport reviewed_host reviewed_crypto ''/r'' (replicate 40 (CHR ''a'')) ''/s''
    reviewed_manifest () = (Inr (), ())"
  by code_simp

theorem accepted_support_is_reviewed_witness:
  "\<exists>blobs. reviewed_file reviewed_host reviewed_crypto ''/s'' blobs ''.swamp.yaml'' \<and> {''.swamp.yaml''} = fst ` set blobs"
  using accepted_support_is_reviewed [OF reviewed_accepted] by (auto simp: reviewed_manifest_def)

end
