(* ===== verification/Workspace.thy ===== *)
theory Workspace
  imports Host
begin

text \<open>
  \<^verbatim>\<open>_lib/workspace.ts\<close>: the isolated checkout of a run. Every operation first verifies that the
  checkout is the detached worktree of the run; a snapshot adds a private reference and never
  overwrites one; only a revision saved under the references of the run can be selected. What
  \<^verbatim>\<open>git\<close> does is the host's; the facts on references state what of its documented behaviour they
  rely on.
\<close>

section \<open>Git commands\<close>

record workspace =
  ws_repository :: string
  ws_path :: string
  ws_runId :: string
  ws_initialRevision :: string

text \<open>Variables that would redirect git are removed from its environment.\<close>

definition git_command :: "(string \<times> string) list \<Rightarrow> string \<Rightarrow> string list \<Rightarrow> command" where
  "git_command env cwd args =
     \<lparr>cm_command = ''git'', cm_args = args, cm_cwd = Some cwd,
      cm_env = filter (\<lambda>(name, _). \<not> starts_with ''GIT_'' name) env, cm_clearEnv = True\<rparr>"

definition git :: "'st host \<Rightarrow> string \<Rightarrow> string list \<Rightarrow> ('st, string) action" where
  "git h cwd args =
     bindA (h_environ h) (\<lambda>env.
     bindA (h_output h (git_command env cwd args)) (\<lambda>result.
     if \<not> co_success result
     then throwA (Error (''git '' @ hd args @ '' failed: '' @ js_trim (co_stderr result)))
     else returnA (js_trim (co_stdout result))))"

definition full_revision :: "string \<Rightarrow> string res" where
  "full_revision r = (if revision_ok r then Inr r else Inl (Error ''Expected a full Git commit ID''))"

definition tempo_refs :: "string \<Rightarrow> string" where
  "tempo_refs runId = ''refs/tempo/'' @ runId @ ''/''"

definition snapshot_ref :: "workspace \<Rightarrow> string \<Rightarrow> string res" where
  "snapshot_ref w name =
     (if run_id_ok (ws_runId w) \<and> run_id_ok name then Inr (tempo_refs (ws_runId w) @ name)
      else Inl (Error ''Invalid snapshot name''))"

definition zero_oid :: string where
  "zero_oid = replicate 40 (CHR ''0'')"

definition common_dir :: "string list" where
  "common_dir = [''rev-parse'', ''--path-format=absolute'', ''--git-common-dir'']"

definition verify_worktree :: "'st host \<Rightarrow> workspace \<Rightarrow> ('st, unit) action" where
  "verify_worktree h w =
     bindA (h_realPath h (ws_repository w)) (\<lambda>root'.
     let expected = join_path (join_path root' ''.worktrees'') (''tempo-'' @ ws_runId w) in
     thenA (guardA (ws_path w = expected) ''Unexpected worktree location'')
     (bindA (h_realPath h (ws_path w)) (\<lambda>real.
     thenA (guardA (real = expected) ''Unexpected worktree location'')
     (bindA (git h (ws_path w) [''rev-parse'', ''--show-toplevel'']) (\<lambda>toplevel.
     thenA (guardA (toplevel = expected) ''Not the experiment worktree'')
     (bindA (git h (ws_path w) common_dir) (\<lambda>common.
     bindA (git h root' common_dir) (\<lambda>shared.
     thenA (guardA (common = shared) ''Worktree belongs to another repository'')
     (bindA (liftA (snapshot_ref w ''initial'')) (\<lambda>initial.
     bindA (git h root' [''rev-parse'', ''--verify'', initial]) (\<lambda>saved.
     thenA (guardA (saved = ws_initialRevision w) ''Run identity does not match its saved revision'')
     (bindA (git h (ws_path w) [''rev-parse'', ''--symbolic-full-name'', ''HEAD'']) (\<lambda>head.
     guardA (head = ''HEAD'') ''Experiment must use detached HEAD'')))))))))))))"

definition worktree_status :: "'st host \<Rightarrow> string \<Rightarrow> ('st, string) action" where
  "worktree_status h path = git h path [''status'', ''--porcelain'', ''--untracked-files=all'']"

section \<open>Operations\<close>

definition createWorkspace :: "'st host \<Rightarrow> string \<Rightarrow> string \<Rightarrow> string \<Rightarrow> ('st, workspace) action" where
  "createWorkspace h repository runId requested =
     bindA (h_realPath h repository) (\<lambda>root'.
     bindA (git h root' [''rev-parse'', ''--show-toplevel'']) (\<lambda>toplevel.
     thenA (guardA (toplevel = root') ''Repository must be its top-level directory'')
     (let directory = join_path root' ''.worktrees'' in
      bindA (h_realPath h directory) (\<lambda>real.
      thenA (guardA (real = directory) ''Worktree directory must not be a symlink'')
      (thenA (git h root' [''check-ignore'', ''--quiet'', ''--'', ''.worktrees/''])
      (bindA (git h root' [''rev-parse'', ''--verify'', ''--end-of-options'', requested @ ''^{commit}'']) (\<lambda>commit.
       bindA (liftA (full_revision commit)) (\<lambda>initialRevision.
       let w = \<lparr>ws_repository = root', ws_path = join_path directory (''tempo-'' @ runId),
                ws_runId = runId, ws_initialRevision = initialRevision\<rparr> in
       bindA (liftA (snapshot_ref w ''initial'')) (\<lambda>initial.
       thenA (git h root' [''update-ref'', initial, initialRevision, zero_oid])
       (thenA (catchA (git h root' [''worktree'', ''add'', ''--detach'', ws_path w, initialRevision])
          (\<lambda>cause. thenA (git h root' [''update-ref'', ''-d'', initial, initialRevision]) (throwA cause)))
       (thenA (verify_worktree h w) (returnA w))))))))))))"

record checkout =
  ck_path :: string
  ck_revision :: string
  ck_dirty :: bool

definition inspectCheckout :: "'st host \<Rightarrow> string \<Rightarrow> ('st, checkout) action" where
  "inspectCheckout h repository =
     bindA (h_realPath h repository) (\<lambda>path.
     bindA (git h path [''rev-parse'', ''--show-toplevel'']) (\<lambda>toplevel.
     thenA (guardA (toplevel = path) ''Expected a checkout root'')
     (bindA (git h path [''rev-parse'', ''HEAD'']) (\<lambda>head.
      bindA (liftA (full_revision head)) (\<lambda>commit.
      bindA (worktree_status h path) (\<lambda>status.
      returnA \<lparr>ck_path = path, ck_revision = commit, ck_dirty = status \<noteq> []\<rparr>))))))"

definition verifyWorkspaceRevision :: "'st host \<Rightarrow> workspace \<Rightarrow> string \<Rightarrow> ('st, unit) action" where
  "verifyWorkspaceRevision h w expected =
     thenA (verify_worktree h w)
     (thenA (liftA (full_revision expected))
     (bindA (git h (ws_path w) [''rev-parse'', ''HEAD'']) (\<lambda>head.
      thenA (guardA (head = expected) ''Worktree revision does not match the saved step'')
      (bindA (worktree_status h (ws_path w)) (\<lambda>status.
       guardA (status = []) ''Worktree has unsaved source changes'')))))"

definition snapshotWorkspace :: "'st host \<Rightarrow> workspace \<Rightarrow> string \<Rightarrow> ('st, string) action" where
  "snapshotWorkspace h w name =
     thenA (verify_worktree h w)
     (bindA (liftA (snapshot_ref w name)) (\<lambda>target.
      thenA (guardA (name \<noteq> ''initial'' \<and> name \<noteq> ''best'') ''Use an experiment snapshot name'')
      (bindA (git h (ws_path w) [''rev-parse'', ''HEAD'']) (\<lambda>head.
       bindA (liftA (full_revision head)) (\<lambda>parent.
       thenA (git h (ws_path w) [''add'', ''--all'', ''--'', ''.''])
       (bindA (git h (ws_path w) [''write-tree'']) (\<lambda>tree.
        bindA (git h (ws_path w) [''rev-parse'', ''HEAD^{tree}'']) (\<lambda>parentTree.
        bindA (if tree = parentTree then returnA parent
          else bindA (git h (ws_path w) [''commit-tree'', tree, ''-p'', parent, ''-m'',
              ''tempo: save private experiment checkpoint'']) (\<lambda>c. liftA (full_revision c))) (\<lambda>commit.
        thenA (git h (ws_path w) [''update-ref'', target, commit, zero_oid])
        (thenA (git h (ws_path w) [''update-ref'', ''HEAD'', commit, parent])
          (returnA commit)))))))))))"

definition selectWorkspaceRevision :: "'st host \<Rightarrow> workspace \<Rightarrow> string \<Rightarrow> ('st, unit) action" where
  "selectWorkspaceRevision h w commit =
     thenA (verify_worktree h w)
     (thenA (liftA (full_revision commit))
     (bindA (worktree_status h (ws_path w)) (\<lambda>status.
      thenA (guardA (status = []) ''Save unfinished changes before selecting another revision'')
      (bindA (git h (ws_repository w) [''for-each-ref'', ''--format=%(objectname)'', tempo_refs (ws_runId w)])
       (\<lambda>listing.
       thenA (guardA (commit \<in> set (js_split LF listing)) ''Revision is not a saved part of this run'')
       (thenA (git h (ws_path w) [''switch'', ''--detach'', commit]) (returnA ())))))))"

definition markBestRevision :: "'st host \<Rightarrow> workspace \<Rightarrow> string \<Rightarrow> ('st, unit) action" where
  "markBestRevision h w commit =
     thenA (verify_worktree h w)
     (thenA (liftA (full_revision commit))
     (bindA (git h (ws_path w) [''rev-parse'', ''HEAD'']) (\<lambda>head.
      thenA (guardA (head = commit) ''Best revision must match the worktree'')
      (bindA (worktree_status h (ws_path w)) (\<lambda>status.
       thenA (guardA (status = []) ''Best revision must be clean'')
       (bindA (liftA (snapshot_ref w ''best'')) (\<lambda>best.
        thenA (git h (ws_repository w) [''update-ref'', best, commit]) (returnA ()))))))))"

section \<open>What the operations do to the references\<close>

text \<open>
  The documented behaviour of git the facts below rely on. \<open>refs st\<close> are the references all
  worktrees share. The listed commands leave them alone, and so does \<^verbatim>\<open>update-ref HEAD\<close> on a
  detached head; \<^verbatim>\<open>update-ref name new old\<close> succeeds only when the reference had the old value
  (zeros: when there was none) and changes no other one.
\<close>

definition plain_commands :: "string list" where
  "plain_commands = [''rev-parse'', ''status'', ''add'', ''write-tree'', ''commit-tree'']"

definition git_reference_laws :: "'st host \<Rightarrow> ('st \<Rightarrow> string \<Rightarrow> string option) \<Rightarrow> bool" where
  "git_reference_laws h refs \<longleftrightarrow>
     (\<forall>p st r st'. h_realPath h p st = (r, st') \<longrightarrow> refs st' = refs st) \<and>
     (\<forall>st r st'. h_environ h st = (r, st') \<longrightarrow> refs st' = refs st) \<and>
     (\<forall>env cwd c args st out st'. h_output h (git_command env cwd (c # args)) st = (Inr out, st') \<longrightarrow>
        c \<in> set plain_commands \<longrightarrow> refs st' = refs st) \<and>
     (\<forall>env cwd name new old st out st'.
        h_output h (git_command env cwd [''update-ref'', name, new, old]) st = (Inr out, st') \<longrightarrow>
        co_success out \<longrightarrow>
        (if name = ''HEAD'' then refs st' = refs st
         else refs st name = (if old = zero_oid then None else Some old) \<and>
           refs st' = (refs st)(name := Some new)))"

lemma git_Inr:
  assumes "git h cwd args st = (Inr out, st')"
  obtains env st1 result where "h_environ h st = (Inr env, st1)"
    "h_output h (git_command env cwd args) st1 = (Inr result, st')" "co_success result"
    "out = js_trim (co_stdout result)"
  using assms by (auto simp: git_def run_simps)

lemma git_plain:
  assumes "git_reference_laws h refs" "git h cwd (c # args) st = (Inr out, st')" "c \<in> set plain_commands"
  shows "refs st' = refs st"
  using assms(2)
proof (rule git_Inr)
  fix env st1 result
  assume "h_environ h st = (Inr env, st1)" "h_output h (git_command env cwd (c # args)) st1 = (Inr result, st')"
  with assms(1,3) have "refs st1 = refs st" "refs st' = refs st1"
    unfolding git_reference_laws_def by metis+
  then show ?thesis by simp
qed

lemma git_update_ref:
  assumes "git_reference_laws h refs" "git h cwd [''update-ref'', name, new, old] st = (Inr out, st')"
  shows "if name = ''HEAD'' then refs st' = refs st
    else refs st name = (if old = zero_oid then None else Some old) \<and> refs st' = (refs st)(name := Some new)"
  using assms(2)
proof (rule git_Inr)
  fix env st1 result
  assume "h_environ h st = (Inr env, st1)" "co_success result"
    "h_output h (git_command env cwd [''update-ref'', name, new, old]) st1 = (Inr result, st')"
  with assms(1) have "refs st1 = refs st" "if name = ''HEAD'' then refs st' = refs st1
    else refs st1 name = (if old = zero_oid then None else Some old) \<and> refs st' = (refs st1)(name := Some new)"
    unfolding git_reference_laws_def by metis+
  then show ?thesis by (cases "name = ''HEAD''") simp_all
qed

lemma plain_members: "''rev-parse'' \<in> set plain_commands" "''status'' \<in> set plain_commands"
    "''add'' \<in> set plain_commands" "''write-tree'' \<in> set plain_commands" "''commit-tree'' \<in> set plain_commands"
  by (simp_all add: plain_commands_def)

lemma realPath_refs: "git_reference_laws h refs \<Longrightarrow> h_realPath h p st = (Inr r, st') \<Longrightarrow> refs st' = refs st"
  unfolding git_reference_laws_def by metis

lemma verify_worktree_refs:
  assumes laws: "git_reference_laws h refs" and v: "verify_worktree h w st = (Inr (), st')"
  shows "refs st' = refs st"
proof -
  note plain = git_plain [OF laws _ plain_members(1)] and real = realPath_refs [OF laws]
  from v obtain r1 s1 r2 s2 r3 s3 r4 s4 r5 s5 i r6 s6 r7 where
    "h_realPath h (ws_repository w) st = (Inr r1, s1)" "h_realPath h (ws_path w) s1 = (Inr r2, s2)"
    "git h (ws_path w) [''rev-parse'', ''--show-toplevel''] s2 = (Inr r3, s3)"
    "git h (ws_path w) common_dir s3 = (Inr r4, s4)" "git h r1 common_dir s4 = (Inr r5, s5)"
    "git h r1 [''rev-parse'', ''--verify'', i] s5 = (Inr r6, s6)"
    "git h (ws_path w) [''rev-parse'', ''--symbolic-full-name'', ''HEAD''] s6 = (Inr r7, st')"
    by (auto simp: verify_worktree_def Let_def run_simps)
  from real [OF this(1)] real [OF this(2)] plain [OF this(3)] plain [OF this(4) [unfolded common_dir_def]]
    plain [OF this(5) [unfolded common_dir_def]] plain [OF this(6)] plain [OF this(7)]
  show ?thesis by simp
qed

lemma snapshotWorkspace_refs:
  assumes laws: "git_reference_laws h refs" and s: "snapshotWorkspace h w name st = (Inr commit, st')"
  shows "\<exists>target. snapshot_ref w name = Inr target \<and> name \<notin> {''initial'', ''best''} \<and>
    refs st target = None \<and> refs st' = (refs st)(target := Some commit) \<and> revision_ok commit"
proof -
  note plain = git_plain [OF laws _ plain_members(1)]
  from s obtain s1 target r2 s2 s3 o3 o4 s4 o5 s5 s6 o7 s7 o8 where
    v: "verify_worktree h w st = (Inr (), s1)" "snapshot_ref w name = Inr target"
      "name \<notin> {''initial'', ''best''}"
    and read: "git h (ws_path w) [''rev-parse'', ''HEAD''] s1 = (Inr r2, s2)" "revision_ok r2"
      "git h (ws_path w) [''add'', ''--all'', ''--'', ''.''] s2 = (Inr o3, s3)"
      "git h (ws_path w) [''write-tree''] s3 = (Inr o4, s4)"
      "git h (ws_path w) [''rev-parse'', ''HEAD^{tree}''] s4 = (Inr o5, s5)"
    and c: "(if o4 = o5 then returnA r2
        else bindA (git h (ws_path w) [''commit-tree'', o4, ''-p'', r2, ''-m'',
            ''tempo: save private experiment checkpoint'']) (\<lambda>c. liftA (full_revision c))) s5 = (Inr commit, s6)"
    and upd: "git h (ws_path w) [''update-ref'', target, commit, zero_oid] s6 = (Inr o7, s7)"
      "git h (ws_path w) [''update-ref'', ''HEAD'', commit, r2] s7 = (Inr o8, st')"
    by (auto simp: snapshotWorkspace_def full_revision_def run_simps split: if_splits)
  have "refs s6 = refs s5 \<and> revision_ok commit"
    using c read(2) git_plain [OF laws _ plain_members(5), of "ws_path w"]
    by (auto simp: run_simps full_revision_def split: if_splits)
  moreover have "refs s5 = refs st"
    using verify_worktree_refs [OF laws v(1)] plain [OF read(1)] plain [OF read(5)]
      git_plain [OF laws read(3) plain_members(3)] git_plain [OF laws read(4) plain_members(4)] by simp
  moreover have "target \<noteq> ''HEAD''"
    using v(2) by (auto simp: snapshot_ref_def tempo_refs_def split: if_splits)
  ultimately show ?thesis
    using v git_update_ref [OF laws upd(1)] git_update_ref [OF laws upd(2)] by auto
qed

text \<open>Only a revision among the saved references of the run is ever checked out.\<close>

lemma selectWorkspaceRevision_Inr:
  assumes "selectWorkspaceRevision h w commit st = (Inr (), st')"
  obtains st1 listing st2 out where
    "git h (ws_repository w) [''for-each-ref'', ''--format=%(objectname)'', tempo_refs (ws_runId w)] st1 =
       (Inr listing, st2)" "commit \<in> set (js_split LF listing)"
    "git h (ws_path w) [''switch'', ''--detach'', commit] st2 = (Inr out, st')"
  using assms by (auto simp: selectWorkspaceRevision_def full_revision_def run_simps split: if_splits)

lemma verifyWorkspaceRevision_Inr:
  assumes "verifyWorkspaceRevision h w expected st = (Inr (), st')"
  obtains st1 st2 where "git h (ws_path w) [''rev-parse'', ''HEAD''] st1 = (Inr expected, st2)"
    "worktree_status h (ws_path w) st2 = (Inr [], st')" "revision_ok expected"
  using assms by (auto simp: verifyWorkspaceRevision_def full_revision_def run_simps split: if_splits)


section \<open>A concrete repository\<close>

definition toy_workspace :: workspace where
  "toy_workspace = \<lparr>ws_repository = ''/r'', ws_path = ''/r/.worktrees/tempo-run-1'', ws_runId = ''run-1'',
     ws_initialRevision = replicate 40 (CHR ''a'')\<rparr>"

definition toy_answers :: "(string list \<times> string) list" where
  "toy_answers = [([''rev-parse'', ''--show-toplevel''], ''/r/.worktrees/tempo-run-1''), (common_dir, ''/r/.git''),
     ([''rev-parse'', ''--verify'', ''refs/tempo/run-1/initial''], replicate 40 (CHR ''a'')),
     ([''rev-parse'', ''--symbolic-full-name'', ''HEAD''], ''HEAD''),
     ([''rev-parse'', ''HEAD''], replicate 40 (CHR ''a'')), ([''add'', ''--all'', ''--'', ''.''], []),
     ([''write-tree''], ''t1''), ([''rev-parse'', ''HEAD^{tree}''], ''t0''),
     ([''commit-tree'', ''t1'', ''-p'', replicate 40 (CHR ''a''), ''-m'', ''tempo: save private experiment checkpoint''],
        replicate 40 (CHR ''c''))]"

definition toy_git :: "string list \<Rightarrow> (string \<Rightarrow> string option) \<Rightarrow> command_output \<times> (string \<Rightarrow> string option)" where
  "toy_git args refs =
     (if length args = 4 \<and> hd args = ''update-ref'' then
        (if args ! 1 = ''HEAD'' then (\<lparr>co_success = True, co_stdout = [], co_stderr = []\<rparr>, refs)
         else if refs (args ! 1) = (if args ! 3 = zero_oid then None else Some (args ! 3))
         then (\<lparr>co_success = True, co_stdout = [], co_stderr = []\<rparr>, refs(args ! 1 \<mapsto> args ! 2))
         else (\<lparr>co_success = False, co_stdout = [], co_stderr = ''ref exists''\<rparr>, refs))
      else case map_of toy_answers args of
        Some out \<Rightarrow> (\<lparr>co_success = True, co_stdout = out, co_stderr = []\<rparr>, refs)
      | None \<Rightarrow> (\<lparr>co_success = False, co_stdout = [], co_stderr = ''unknown''\<rparr>, refs))"

definition toy_host :: "(string \<Rightarrow> string option) host" where
  "toy_host = bare_host\<lparr>h_output := \<lambda>c refs. (case toy_git (cm_args c) refs of (out, refs') \<Rightarrow> (Inr out, refs'))\<rparr>"

lemma toy_host_simps [simp]:
  "h_realPath toy_host = returnA" "h_environ toy_host = returnA []"
  "h_output toy_host c refs = (case toy_git (cm_args c) refs of (out, refs') \<Rightarrow> (Inr out, refs'))"
  by (simp_all add: toy_host_def bare_host_def)

lemma toy_laws: "git_reference_laws toy_host (\<lambda>refs. refs)"
  by (auto simp: git_reference_laws_def git_command_def toy_git_def plain_commands_def
      split: option.splits if_splits)

lemma toy_git_run:
  "git toy_host cwd args refs = (case toy_git args refs of (out, refs') \<Rightarrow>
     (if co_success out then Inr (js_trim (co_stdout out))
      else Inl (Error (''git '' @ hd args @ '' failed: '' @ js_trim (co_stderr out))), refs'))"
  by (simp add: git_def git_command_def bindA_def throwA_def split: prod.split)

lemma toy_snapshot: "snapshotWorkspace toy_host toy_workspace ''edit-3'' Map.empty =
    (Inr (replicate 40 (CHR ''c'')), [''refs/tempo/run-1/edit-3'' \<mapsto> replicate 40 (CHR ''c'')])"
proof -
  have names: "snapshot_ref toy_workspace ''initial'' = Inr ''refs/tempo/run-1/initial''"
    "snapshot_ref toy_workspace ''edit-3'' = Inr ''refs/tempo/run-1/edit-3''"
    "join_path (join_path ''/r'' ''.worktrees'') ''tempo-run-1'' = ''/r/.worktrees/tempo-run-1''"
    "ws_runId toy_workspace = ''run-1''"
    "ws_path toy_workspace = ''/r/.worktrees/tempo-run-1''" "ws_repository toy_workspace = ''/r''"
    "ws_initialRevision toy_workspace = replicate 40 (CHR ''a'')"
    "full_revision (replicate 40 (CHR ''a'')) = Inr (replicate 40 (CHR ''a''))"
    "full_revision (replicate 40 (CHR ''c'')) = Inr (replicate 40 (CHR ''c''))"
    by code_simp+
  have plain: "git toy_host cwd args refs = (Inr out, refs)"
    if "map_of toy_answers args = Some out" "hd args \<noteq> ''update-ref''" "js_trim out = out" for cwd args refs out
    using that by (simp add: toy_git_run toy_git_def)
  have trims: "js_trim (replicate 40 (CHR ''a'')) = replicate 40 (CHR ''a'')"
    "js_trim (replicate 40 (CHR ''c'')) = replicate 40 (CHR ''c'')" "js_trim ''/r/.worktrees/tempo-run-1'' = ''/r/.worktrees/tempo-run-1''"
    "js_trim ''/r/.git'' = ''/r/.git''" "js_trim ''HEAD'' = ''HEAD''" "js_trim [] = []" "js_trim ''t1'' = ''t1''" "js_trim ''t0'' = ''t0''"
    by code_simp+
  have answers: "git toy_host cwd [''rev-parse'', ''--show-toplevel''] refs = (Inr ''/r/.worktrees/tempo-run-1'', refs)"
    "git toy_host cwd common_dir refs = (Inr ''/r/.git'', refs)"
    "git toy_host cwd [''rev-parse'', ''--verify'', ''refs/tempo/run-1/initial''] refs = (Inr (replicate 40 (CHR ''a'')), refs)"
    "git toy_host cwd [''rev-parse'', ''--symbolic-full-name'', ''HEAD''] refs = (Inr ''HEAD'', refs)"
    "git toy_host cwd [''rev-parse'', ''HEAD''] refs = (Inr (replicate 40 (CHR ''a'')), refs)"
    "git toy_host cwd [''add'', ''--all'', ''--'', ''.''] refs = (Inr [], refs)"
    "git toy_host cwd [''write-tree''] refs = (Inr ''t1'', refs)"
    "git toy_host cwd [''rev-parse'', ''HEAD^{tree}''] refs = (Inr ''t0'', refs)"
    "git toy_host cwd [''commit-tree'', ''t1'', ''-p'', replicate 40 (CHR ''a''), ''-m'',
       ''tempo: save private experiment checkpoint''] refs = (Inr (replicate 40 (CHR ''c'')), refs)" for cwd refs
    by (rule plain; simp add: toy_answers_def common_dir_def trims)+
  have verified: "verify_worktree toy_host toy_workspace refs = (Inr (), refs)" for refs
    by (simp add: verify_worktree_def Let_def names answers bindA_def thenA_def guardA_def)
  have update: "git toy_host cwd [''update-ref'', ''refs/tempo/run-1/edit-3'', new, zero_oid] Map.empty =
      (Inr [], [''refs/tempo/run-1/edit-3'' \<mapsto> new])"
    "git toy_host cwd [''update-ref'', ''HEAD'', new, old] refs = (Inr [], refs)" for cwd new old refs
    by (simp_all add: toy_git_run toy_git_def trims)
  show ?thesis
    by (simp add: snapshotWorkspace_def verified names answers update bindA_def thenA_def guardA_def
       )
qed

section \<open>Properties\<close>

text \<open>
  C33: A snapshot of an experiment only adds. When git behaves as documented, saving the worktree of
  a run creates one reference of the run that did not exist before, never the initial or the best
  one, points it at a full commit, and leaves every other reference as it was; so what earlier
  steps saved stays reachable.
\<close>

theorem snapshot_adds_one_reference:
  assumes "git_reference_laws h refs" "snapshotWorkspace h w name st = (Inr commit, st')"
  shows "\<exists>target. snapshot_ref w name = Inr target \<and> name \<notin> {''initial'', ''best''} \<and>
    refs st target = None \<and> refs st' = (refs st)(target := Some commit) \<and> revision_ok commit"
  by (rule snapshotWorkspace_refs [OF assms])

theorem snapshot_adds_one_reference_witness:
  "\<exists>target. snapshot_ref toy_workspace ''edit-3'' = Inr target \<and>
     [''refs/tempo/run-1/edit-3'' \<mapsto> replicate 40 (CHR ''c'')] = [target \<mapsto> replicate 40 (CHR ''c'')]"
  using snapshot_adds_one_reference [OF toy_laws toy_snapshot] by auto

end
