(* ===== verification/Comparison.thy ===== *)
theory Comparison
  imports Measurement
begin

text \<open>
  The comparison a measurement step saves (\<^verbatim>\<open>comparisonSchema\<close> and \<^verbatim>\<open>compareSavedMeasurements\<close>
  of \<^verbatim>\<open>_lib/measurement.ts\<close>): the three measurements are read back from the store, the verdict
  of \<^verbatim>\<open>control.ts\<close> on them is saved with the policy it was reached under, and the outcome of the
  step repeats the verdict.
\<close>

section \<open>The saved comparison\<close>

record parent_identity =
  pi_runId :: string
  pi_sha256 :: string

record saved_comparison =
  sc_runId :: string
  sc_revision :: string
  sc_error :: "string option"
  sc_goal :: goal
  sc_protections :: "protection list"
  sc_minimumImprovementFraction :: jsnum
  sc_precision :: precision
  sc_initial :: "output_ref list"
  sc_best :: "output_ref list"
  sc_current :: "output_ref list"
  sc_parent :: "parent_identity option"
  sc_result :: "candidate_result option"

definition z_number :: "jsnum schema" where
  "z_number = z_number_if (\<lambda>_. True)"

definition j_dict :: "('a \<Rightarrow> json) \<Rightarrow> (string \<times> 'a) list \<Rightarrow> json" where
  "j_dict enc kvs = JObj (map (\<lambda>(k, v). (k, enc v)) kvs)"

definition j_strings :: "string list \<Rightarrow> json" where
  "j_strings ss = JArr (map JStr ss)"

definition goalSchema :: "goal schema" where
  "goalSchema = z_union [
     z_strict [''kind'', ''multiplier'', ''workloads''] (\<lambda>o'. do {
       _ \<leftarrow> z_field o' ''kind'' (z_literal ''improve-baseline'');
       multiplier \<leftarrow> z_field o' ''multiplier'' z_number;
       workloads \<leftarrow> z_field o' ''workloads'' (z_array z_string);
       Some (ImproveBaseline multiplier workloads) }),
     z_strict [''kind'', ''competitors''] (\<lambda>o'. do {
       _ \<leftarrow> z_field o' ''kind'' (z_literal ''beat-all'');
       competitors \<leftarrow> z_field o' ''competitors'' (z_dict (z_array z_string));
       Some (BeatAll competitors) })]"

definition enc_goal :: "goal \<Rightarrow> json" where
  "enc_goal g = (case g of
     ImproveBaseline m ws \<Rightarrow> JObj [(''kind'', JStr ''improve-baseline''), (''multiplier'', JNum m),
       (''workloads'', j_strings ws)]
   | BeatAll cs \<Rightarrow> JObj [(''kind'', JStr ''beat-all''), (''competitors'', j_dict j_strings cs)])"

definition protectionSchema :: "protection schema" where
  "protectionSchema = z_strict [''workload'', ''maxDecreaseFraction''] (\<lambda>o'. do {
     workload \<leftarrow> z_field o' ''workload'' z_string;
     fraction \<leftarrow> z_field o' ''maxDecreaseFraction'' z_number;
     Some \<lparr>po_workload = workload, po_maxDecreaseFraction = fraction\<rparr> })"

definition enc_protection :: "protection \<Rightarrow> json" where
  "enc_protection p = JObj [(''workload'', JStr (po_workload p)),
     (''maxDecreaseFraction'', JNum (po_maxDecreaseFraction p))]"

definition comparisonRowSchema :: "comparison schema" where
  "comparisonRowSchema = z_strict [''workload'', ''initial'', ''measured'', ''target'', ''met''] (\<lambda>o'. do {
     workload \<leftarrow> z_field o' ''workload'' z_string;
     initial \<leftarrow> z_field o' ''initial'' (z_nullable z_number);
     measured \<leftarrow> z_field o' ''measured'' (z_nullable z_number);
     target \<leftarrow> z_field o' ''target'' (z_nullable z_number);
     met \<leftarrow> z_field o' ''met'' z_bool;
     Some \<lparr>co_workload = workload, co_initial = initial, co_measured = measured, co_target = target,
       co_met = met\<rparr> })"

definition enc_comparison_row :: "comparison \<Rightarrow> json" where
  "enc_comparison_row c = JObj [(''workload'', JStr (co_workload c)),
     (''initial'', j_nullable JNum (co_initial c)), (''measured'', j_nullable JNum (co_measured c)),
     (''target'', j_nullable JNum (co_target c)), (''met'', JBool (co_met c))]"

definition protectionRowSchema :: "protection_check schema" where
  "protectionRowSchema = z_strict [''workload'', ''initial'', ''measured'', ''minimum'', ''passed''] (\<lambda>o'. do {
     workload \<leftarrow> z_field o' ''workload'' z_string;
     initial \<leftarrow> z_field o' ''initial'' (z_nullable z_number);
     measured \<leftarrow> z_field o' ''measured'' (z_nullable z_number);
     minimum \<leftarrow> z_field o' ''minimum'' (z_nullable z_number);
     passed \<leftarrow> z_field o' ''passed'' z_bool;
     Some \<lparr>pc_workload = workload, pc_initial = initial, pc_measured = measured,
       pc_minimum = minimum, pc_passed = passed\<rparr> })"

definition enc_protection_row :: "protection_check \<Rightarrow> json" where
  "enc_protection_row c = JObj [(''workload'', JStr (pc_workload c)),
     (''initial'', j_nullable JNum (pc_initial c)), (''measured'', j_nullable JNum (pc_measured c)),
     (''minimum'', j_nullable JNum (pc_minimum c)), (''passed'', JBool (pc_passed c))]"

definition improvementRowSchema :: "improvement schema" where
  "improvementRowSchema = z_strict [''workload'', ''best'', ''measured'', ''nondecreasing'', ''increased'',
       ''meetsFloor''] (\<lambda>o'. do {
     workload \<leftarrow> z_field o' ''workload'' z_string;
     best \<leftarrow> z_field o' ''best'' (z_nullable z_number);
     measured \<leftarrow> z_field o' ''measured'' (z_nullable z_number);
     nondecreasing \<leftarrow> z_field o' ''nondecreasing'' z_bool;
     increased \<leftarrow> z_field o' ''increased'' z_bool;
     meetsFloor \<leftarrow> z_field o' ''meetsFloor'' z_bool;
     Some \<lparr>im_workload = workload, im_best = best, im_measured = measured,
       im_nondecreasing = nondecreasing, im_increased = increased, im_meetsFloor = meetsFloor\<rparr> })"

definition enc_improvement_row :: "improvement \<Rightarrow> json" where
  "enc_improvement_row i = JObj [(''workload'', JStr (im_workload i)),
     (''best'', j_nullable JNum (im_best i)), (''measured'', j_nullable JNum (im_measured i)),
     (''nondecreasing'', JBool (im_nondecreasing i)), (''increased'', JBool (im_increased i)),
     (''meetsFloor'', JBool (im_meetsFloor i))]"

definition status_name :: "status \<Rightarrow> string" where
  "status_name s = (case s of Valid \<Rightarrow> ''valid'' | Invalid \<Rightarrow> ''invalid'')"

definition resultSchema :: "candidate_result schema" where
  "resultSchema = z_strict [''kind'', ''initialMeasurement'', ''measurement'', ''revision'',
       ''bestMeasurement'', ''status'', ''targetMet'', ''improved'', ''protectedPerformance'', ''errors'',
       ''comparisons'', ''protections'', ''improvements''] (\<lambda>o'. do {
     _ \<leftarrow> z_field o' ''kind'' (z_literal ''goal-result'');
     initialMeasurement \<leftarrow> z_field o' ''initialMeasurement'' z_string;
     measurement \<leftarrow> z_field o' ''measurement'' z_string;
     revision \<leftarrow> z_field o' ''revision'' z_string;
     bestMeasurement \<leftarrow> z_field o' ''bestMeasurement'' z_string;
     status \<leftarrow> z_field o' ''status'' (z_enum [(''valid'', Valid), (''invalid'', Invalid)]);
     targetMet \<leftarrow> z_field o' ''targetMet'' (z_nullable z_bool);
     improved \<leftarrow> z_field o' ''improved'' (z_nullable z_bool);
     protectedPerformance \<leftarrow> z_field o' ''protectedPerformance'' (z_nullable z_bool);
     errors \<leftarrow> z_field o' ''errors'' (z_array z_string);
     comparisons \<leftarrow> z_field o' ''comparisons'' (z_array comparisonRowSchema);
     protections \<leftarrow> z_field o' ''protections'' (z_array protectionRowSchema);
     improvements \<leftarrow> z_field o' ''improvements'' (z_array improvementRowSchema);
     Some \<lparr>gr_initialMeasurement = initialMeasurement, gr_measurement = measurement,
       gr_revision = revision, gr_status = status, gr_targetMet = targetMet,
       gr_comparisons = comparisons, gr_errors = errors, cr_improved = improved,
       cr_protectedPerformance = protectedPerformance, cr_bestMeasurement = bestMeasurement,
       cr_protections = protections, cr_improvements = improvements\<rparr> })"

definition enc_result :: "candidate_result \<Rightarrow> json" where
  "enc_result r = JObj [(''kind'', JStr ''goal-result''),
     (''initialMeasurement'', JStr (gr_initialMeasurement r)), (''measurement'', JStr (gr_measurement r)),
     (''revision'', JStr (gr_revision r)), (''status'', JStr (status_name (gr_status r))),
     (''targetMet'', j_nullable JBool (gr_targetMet r)),
     (''comparisons'', JArr (map enc_comparison_row (gr_comparisons r))),
     (''errors'', j_strings (gr_errors r)), (''improved'', j_nullable JBool (cr_improved r)),
     (''protectedPerformance'', j_nullable JBool (cr_protectedPerformance r)),
     (''bestMeasurement'', JStr (cr_bestMeasurement r)),
     (''protections'', JArr (map enc_protection_row (cr_protections r))),
     (''improvements'', JArr (map enc_improvement_row (cr_improvements r)))]"

definition parentSchema :: "parent_identity schema" where
  "parentSchema = z_strict [''runId'', ''sha256''] (\<lambda>o'. do {
     runId \<leftarrow> z_field o' ''runId'' z_string;
     sha256 \<leftarrow> z_field o' ''sha256'' sha256Schema;
     Some \<lparr>pi_runId = runId, pi_sha256 = sha256\<rparr> })"

definition enc_parent :: "parent_identity \<Rightarrow> json" where
  "enc_parent p = JObj [(''runId'', JStr (pi_runId p)), (''sha256'', JStr (pi_sha256 p))]"

definition improvement_fraction_ok :: "jsnum \<Rightarrow> bool" where
  "improvement_fraction_ok f \<longleftrightarrow> js_le (fl64 (3 / 100)) f \<and> js_le f (fl64 (5 / 100))"

definition comparisonSchema :: "saved_comparison schema" where
  "comparisonSchema = z_strict [''runId'', ''revision'', ''error'', ''policy'', ''initial'', ''best'',
       ''current'', ''parent'', ''result''] (\<lambda>o'. do {
     runId \<leftarrow> z_field o' ''runId'' z_string;
     revision \<leftarrow> z_field o' ''revision'' z_string;
     error \<leftarrow> z_field o' ''error'' (z_nullable z_string);
     (goal, protections, fraction, precision) \<leftarrow> z_field o' ''policy'' (z_strict [''goal'', ''protections'',
         ''minimumImprovementFraction'', ''scorePolicyVersion'', ''precision''] (\<lambda>p. do {
       goal \<leftarrow> z_field p ''goal'' goalSchema;
       protections \<leftarrow> z_field p ''protections'' (z_array protectionSchema);
       fraction \<leftarrow> z_field p ''minimumImprovementFraction'' (z_number_if improvement_fraction_ok);
       _ \<leftarrow> z_field p ''scorePolicyVersion'' (z_literal scorePolicyVersion);
       precision \<leftarrow> z_field p ''precision'' precisionSchema;
       Some (goal, protections, fraction, precision) }));
     initial \<leftarrow> z_field o' ''initial'' (z_array referenceSchema);
     best \<leftarrow> z_field o' ''best'' (z_array referenceSchema);
     current \<leftarrow> z_field o' ''current'' (z_array referenceSchema);
     parent \<leftarrow> z_optional o' ''parent'' parentSchema;
     result \<leftarrow> z_field o' ''result'' (z_nullable resultSchema);
     Some \<lparr>sc_runId = runId, sc_revision = revision, sc_error = error, sc_goal = goal,
       sc_protections = protections, sc_minimumImprovementFraction = fraction,
       sc_precision = precision, sc_initial = initial, sc_best = best, sc_current = current,
       sc_parent = parent, sc_result = result\<rparr> })"

definition enc_comparison :: "saved_comparison \<Rightarrow> json" where
  "enc_comparison c = JObj ([(''runId'', JStr (sc_runId c)), (''revision'', JStr (sc_revision c)),
     (''initial'', enc_refs (sc_initial c)), (''best'', enc_refs (sc_best c)),
     (''current'', enc_refs (sc_current c))] @ j_optional ''parent'' enc_parent (sc_parent c) @
     [(''policy'', JObj [(''goal'', enc_goal (sc_goal c)),
        (''protections'', JArr (map enc_protection (sc_protections c))),
        (''minimumImprovementFraction'', JNum (sc_minimumImprovementFraction c)),
        (''scorePolicyVersion'', JStr scorePolicyVersion), (''precision'', enc_precision (sc_precision c))]),
      (''result'', j_nullable enc_result (sc_result c)),
      (''error'', j_nullable JStr (sc_error c))])"

section \<open>Comparing saved measurements\<close>

record comparison_refs =
  rf_initial :: "output_ref list"
  rf_best :: "output_ref list"
  rf_current :: "output_ref list"

record parent_measurements =
  pm_initial :: "measurement option"
  pm_best :: "measurement option"
  pm_identity :: parent_identity

text \<open>The parent's measurement where there is one, else the one read from the store.\<close>

definition parent_or :: "measurement option \<Rightarrow> ('st, measurement) action \<Rightarrow> ('st, measurement) action" where
  "parent_or given read = (case given of Some m \<Rightarrow> returnA m | None \<Rightarrow> read)"

definition requalification_differs :: "measurement \<Rightarrow> measurement \<Rightarrow> bool" where
  "requalification_differs current best \<longleftrightarrow> me_revision current \<noteq> me_revision best \<or>
     me_nativeSha256 current \<in> {None, Some []} \<or> me_nativeSha256 current \<noteq> me_nativeSha256 best \<or>
     me_protocolId current \<noteq> me_protocolId best"

definition assess_saved :: "'st store_ops \<Rightarrow> js_math \<Rightarrow> (jsnum \<Rightarrow> string) \<Rightarrow> run_state \<Rightarrow> goal \<Rightarrow>
    protection list \<Rightarrow> comparison_refs \<Rightarrow> jsnum \<Rightarrow> precision \<Rightarrow> measurement option \<Rightarrow>
    measurement option \<Rightarrow> ('st, candidate_result) action" where
  "assess_saved ops m numstr s g protections refs fraction precision parent_initial parent_best =
     bindA (parent_or parent_initial
       (readMeasurement ops m numstr (st_runId s) (st_initialRevision s) (rf_initial refs) precision))
     (\<lambda>initial. bindA (parent_or parent_best
       (readMeasurement ops m numstr (st_runId s) (st_bestRevision s) (rf_best refs) precision))
     (\<lambda>best. bindA (readMeasurement ops m numstr (st_runId s) (st_workingRevision s)
         (rf_current refs) precision)
     (\<lambda>current.
       if st_phase s = PBaseline \<and>
          (case parent_best of None \<Rightarrow> False | Some b \<Rightarrow> requalification_differs current b)
       then liftA (Inl (Error ''Best requalification changed native bytes or settings''))
       else returnA (assessCandidate g protections initial best current fraction))))"

definition comparison_name :: "run_state \<Rightarrow> string" where
  "comparison_name s = st_runId s @ ''-comparison-'' @ dec_int (st_sequence s)"

definition comparison_of :: "run_state \<Rightarrow> goal \<Rightarrow> protection list \<Rightarrow> comparison_refs \<Rightarrow> jsnum \<Rightarrow>
    precision \<Rightarrow> parent_identity option \<Rightarrow> candidate_result option \<Rightarrow> string option \<Rightarrow> saved_comparison" where
  "comparison_of s g protections refs fraction precision parent result error =
     \<lparr>sc_runId = st_runId s, sc_revision = st_workingRevision s, sc_error = error, sc_goal = g,
      sc_protections = protections, sc_minimumImprovementFraction = fraction,
      sc_precision = precision, sc_initial = rf_initial refs, sc_best = rf_best refs,
      sc_current = rf_current refs, sc_parent = parent, sc_result = result\<rparr>"

definition comparison_effect :: "run_state \<Rightarrow> measurement option \<Rightarrow> candidate_result option \<Rightarrow>
    output_ref \<Rightarrow> step_effect" where
  "comparison_effect s parent_initial result saved =
     \<lparr>se_outcome =
        (if st_phase s = PBaseline \<and> parent_initial \<noteq> None \<and>
            Option.bind result cr_protectedPerformance \<noteq> Some True
         then Failed ''Best requalification failed original H2 floor or comparability''
         else Measured (st_workingRevision s) (map_option gr_status result = Some Valid) None
           (Option.bind result gr_targetMet = Some True) (Option.bind result cr_improved = Some True)),
      se_evidence = [saved]\<rparr>"

definition compareSavedMeasurements :: "'st store_ops \<Rightarrow> js_math \<Rightarrow> (jsnum \<Rightarrow> string) \<Rightarrow> run_state \<Rightarrow>
    goal \<Rightarrow> protection list \<Rightarrow> comparison_refs \<Rightarrow> jsnum \<Rightarrow> precision \<Rightarrow> parent_measurements option \<Rightarrow>
    ('st, step_effect) action" where
  "compareSavedMeasurements ops m numstr s g protections refs fraction precision parent =
     (if st_phase s \<notin> {PBaseline, PMeasure} \<or> st_activeStep s \<noteq> Some (st_sequence s)
      then liftA (Inl (Error ''Comparison requires an active measurement step''))
      else
        let initial = Option.bind parent pm_initial; best = Option.bind parent pm_best in
        bindA (catchA
          (bindA (assess_saved ops m numstr s g protections refs fraction precision initial best)
            (\<lambda>r. returnA (Some r, None)))
          (\<lambda>e. returnA (None, Some (error_string e))))
        (\<lambda>(result, error). bindA (so_write ops ''comparison'' (comparison_name s)
            (enc_comparison (comparison_of s g protections refs fraction precision
              (map_option pm_identity parent) result error)))
        (\<lambda>saved. returnA (comparison_effect s initial result
           \<lparr>or_name = or_name saved, or_version = or_version saved\<rparr>))))"

section \<open>The saved form reads back\<close>

lemma z_number_if_JNum [simp]: "z_number_if ok (JNum x) = (if js_finite x \<and> ok x then Some x else None)"
  by (simp add: z_number_if_def)

lemma z_number_JNum [simp]: "z_number (JNum x) = (if js_finite x then Some x else None)"
  by (simp add: z_number_def)

lemma z_array_enc_if:
  assumes "\<And>x. sch (enc x) = (if ok x then Some x else None)"
  shows "z_array sch (JArr (map enc xs)) = (if list_all ok xs then Some xs else None)"
proof -
  have "those (map (\<lambda>x. sch (enc x)) xs) = (if list_all ok xs then Some xs else None)"
    by (induction xs) (simp_all add: assms)
  then show ?thesis by (simp add: z_array_def z_array_if_def comp_def)
qed

lemma z_strings_enc [simp]: "z_array z_string (j_strings ss) = Some ss"
  by (simp add: j_strings_def z_array_enc)

lemma z_dict_enc:
  assumes "\<And>x. sch (enc x) = Some x"
  shows "z_dict sch (j_dict enc kvs) = Some kvs"
proof -
  have "those (map ((\<lambda>(k, x). map_option (Pair k) (sch x)) \<circ> (\<lambda>(k, v). (k, enc v))) kvs) = Some kvs"
    by (induction kvs) (auto simp: assms)
  then show ?thesis by (simp add: z_dict_def j_dict_def)
qed

definition num_ok :: "jsnum option \<Rightarrow> bool" where
  "num_ok x \<longleftrightarrow> (case x of None \<Rightarrow> True | Some y \<Rightarrow> js_finite y)"

lemma z_nullable_number [simp]:
  "z_nullable z_number (j_nullable JNum x) = (if num_ok x then Some x else None)"
  by (auto simp: num_ok_def split: option.split)

lemma z_nullable_bool [simp]: "z_nullable z_bool (j_nullable JBool x) = Some x"
  by (simp split: option.split)

lemma z_nullable_string [simp]: "z_nullable z_string (j_nullable JStr x) = Some x"
  by (simp split: option.split)

definition goal_ok :: "goal \<Rightarrow> bool" where
  "goal_ok g \<longleftrightarrow> (case g of ImproveBaseline m _ \<Rightarrow> js_finite m | BeatAll _ \<Rightarrow> True)"

lemma goalSchema_enc: "goalSchema (enc_goal g) = (if goal_ok g then Some g else None)"
  by (cases g) (simp_all add: goalSchema_def enc_goal_def goal_ok_def z_dict_enc)

lemma protectionSchema_enc:
  "protectionSchema (enc_protection p) = (if js_finite (po_maxDecreaseFraction p) then Some p else None)"
  by (cases p) (simp add: protectionSchema_def enc_protection_def)

definition comparison_row_ok :: "comparison \<Rightarrow> bool" where
  "comparison_row_ok c \<longleftrightarrow> num_ok (co_initial c) \<and> num_ok (co_measured c) \<and> num_ok (co_target c)"

definition protection_row_ok :: "protection_check \<Rightarrow> bool" where
  "protection_row_ok c \<longleftrightarrow> num_ok (pc_initial c) \<and> num_ok (pc_measured c) \<and> num_ok (pc_minimum c)"

definition improvement_row_ok :: "improvement \<Rightarrow> bool" where
  "improvement_row_ok i \<longleftrightarrow> num_ok (im_best i) \<and> num_ok (im_measured i)"

definition result_ok :: "candidate_result \<Rightarrow> bool" where
  "result_ok r \<longleftrightarrow> list_all comparison_row_ok (gr_comparisons r) \<and>
     list_all protection_row_ok (cr_protections r) \<and> list_all improvement_row_ok (cr_improvements r)"

lemma comparisonRowSchema_enc:
  "comparisonRowSchema (enc_comparison_row c) = (if comparison_row_ok c then Some c else None)"
  by (cases c) (simp add: comparisonRowSchema_def enc_comparison_row_def comparison_row_ok_def)

lemma protectionRowSchema_enc:
  "protectionRowSchema (enc_protection_row c) = (if protection_row_ok c then Some c else None)"
  by (cases c) (simp add: protectionRowSchema_def enc_protection_row_def protection_row_ok_def)

lemma improvementRowSchema_enc:
  "improvementRowSchema (enc_improvement_row i) = (if improvement_row_ok i then Some i else None)"
  by (cases i) (simp add: improvementRowSchema_def enc_improvement_row_def improvement_row_ok_def)

lemmas row_arrays = z_array_enc_if [OF comparisonRowSchema_enc] z_array_enc_if [OF protectionRowSchema_enc]
  z_array_enc_if [OF improvementRowSchema_enc] z_array_enc_if [OF protectionSchema_enc]

lemma statusSchema_enc [simp]: "map_of [(''valid'', Valid), (''invalid'', Invalid)] (status_name s) = Some s"
  by (cases s) (simp_all add: status_name_def)

lemma resultSchema_enc: "resultSchema (enc_result r) = (if result_ok r then Some r else None)"
  by (cases r) (simp add: resultSchema_def enc_result_def result_ok_def row_arrays del: map_of.simps)

lemma parentSchema_enc: "parentSchema (enc_parent p) = (if sha256_ok (pi_sha256 p) then Some p else None)"
  by (cases p) (simp add: parentSchema_def enc_parent_def)

lemma precisionSchema_enc: "precisionSchema (enc_precision p) = (if precision_ok p then Some p else None)"
  by (cases p) (simp add: precisionSchema_def enc_precision_def z_fraction_def precision_ok_def)

lemma refs_enc: "z_array referenceSchema (enc_refs rs) = (if list_all ref_ok rs then Some rs else None)"
  using evidenceSchema_enc by (simp add: evidenceSchema_def)

definition comparison_ok :: "saved_comparison \<Rightarrow> bool" where
  "comparison_ok c \<longleftrightarrow> goal_ok (sc_goal c) \<and>
     list_all (\<lambda>p. js_finite (po_maxDecreaseFraction p)) (sc_protections c) \<and>
     js_finite (sc_minimumImprovementFraction c) \<and>
     improvement_fraction_ok (sc_minimumImprovementFraction c) \<and> precision_ok (sc_precision c) \<and>
     list_all ref_ok (sc_initial c @ sc_best c @ sc_current c) \<and>
     (case sc_parent c of None \<Rightarrow> True | Some p \<Rightarrow> sha256_ok (pi_sha256 p)) \<and>
     (case sc_result c of None \<Rightarrow> True | Some r \<Rightarrow> result_ok r)"

lemma enc_not_null [simp]: "enc_result r \<noteq> JNull" "enc_parent p \<noteq> JNull"
  by (simp_all add: enc_result_def enc_parent_def)

lemma nullable_result [simp]:
  "z_nullable resultSchema (enc_result r) = (if result_ok r then Some (Some r) else None)"
  by (simp add: z_nullable_def resultSchema_enc)

lemma comparisonSchema_enc: "comparisonSchema (enc_comparison c) = (if comparison_ok c then Some c else None)"
  by (cases "sc_parent c"; cases "sc_result c"; cases c)
    (simp_all add: comparisonSchema_def enc_comparison_def comparison_ok_def goalSchema_enc
      row_arrays precisionSchema_enc refs_enc parentSchema_enc resultSchema_enc)

section \<open>What a saved measurement rests on\<close>

lemma is_double_inf_of_sign: "is_double (inf_of_sign x)"
  by (simp add: inf_of_sign_def)

lemma is_double_js_mul: "is_double (js_mul x y)"
  by (cases "(x, y)" rule: js_mul.cases) (simp_all add: is_double_inf_of_sign)

lemma is_double_js_div: "is_double (js_div x y)"
  using binary64.zero
  by (cases "(x, y)" rule: js_div.cases) (simp_all add: is_double_inf_of_sign)

lemma precision_mean_double: "precisionSummary m samples p = Inr s \<Longrightarrow> is_double (ps_mean s)"
  by (auto simp: precisionSummary_def bindR_eq_Inr Let_def is_double_js_mul is_double_js_div
      split: if_splits)

lemma check_record_Inr:
  assumes "check_record m runId revision precision r = Inr u"
  shows "sb_runId r = runId" "sb_revision r = revision" "sb_precision r = precision"
    "\<exists>pooled. precisionSummary m (pooled_rates r) precision = Inr pooled \<and>
       js_le (ps_relativeHalfWidth pooled) (pn_relativeHalfWidth precision) \<and>
       ps_mean pooled = sm_score (sb_summary r) \<and> ps_rates pooled = sm_samples (sb_summary r)"
    "\<forall>b \<in> set (sb_batches r). int (length b) = repetitions_of r" "scoredRepetitions (repetitions_of r)"
  using assms
  by (auto simp: check_record_def unsupported_def bindR_eq_Inr meetsPrecision_def check_precision_def
      statistics_match_def js_eq_def list_ex_iff split: if_splits)

text \<open>A saved benchmark output that supports its score.\<close>

definition supports :: "js_math \<Rightarrow> string \<Rightarrow> string \<Rightarrow> precision \<Rightarrow> saved_benchmark \<Rightarrow> jsnum \<Rightarrow> bool" where
  "supports m runId revision precision r rate \<longleftrightarrow> sb_runId r = runId \<and> sb_revision r = revision \<and>
     (\<exists>pooled. precisionSummary m (pooled_rates r) precision = Inr pooled \<and> ps_mean pooled = rate \<and>
        js_le (ps_relativeHalfWidth pooled) (pn_relativeHalfWidth precision))"

definition benchmark_at :: "(string \<Rightarrow> json list) \<Rightarrow> output_ref \<Rightarrow> saved_benchmark \<Rightarrow> bool" where
  "benchmark_at vs ref' r \<longleftrightarrow> (\<exists>v. version_at (vs (or_name ref')) (Some (or_version ref')) = Some v \<and>
     savedBenchmarkSchema v = Some r)"

definition measurement_backed :: "js_math \<Rightarrow> (string \<Rightarrow> json list) \<Rightarrow> string \<Rightarrow> string \<Rightarrow> precision \<Rightarrow>
    output_ref list \<Rightarrow> measurement \<Rightarrow> bool" where
  "measurement_backed m vs runId revision precision refs me \<longleftrightarrow>
     (\<forall>s \<in> set (me_scores me). \<exists>ref' \<in> set refs. \<exists>r. benchmark_at vs ref' r \<and>
        protocol_name (sb_protocol r) = sc_workload s \<and> adapter_name (sb_adapter r) = sc_adapter s \<and>
        supports m runId revision precision r (sc_requestsPerSecond s))"

lemma measurement_of_scores:
  assumes "measurement_of numstr revision records = Inr me" "s \<in> set (me_scores me)"
  obtains ref' r where "(ref', r) \<in> set records" "sc_workload s = protocol_name (sb_protocol r)"
    "sc_adapter s = adapter_name (sb_adapter r)" "sc_requestsPerSecond s = sm_score (sb_summary r)"
proof -
  have "me_scores me = map (\<lambda>r. \<lparr>sc_workload = protocol_name (sb_protocol r),
      sc_adapter = adapter_name (sb_adapter r), sc_requestsPerSecond = sm_score (sb_summary r),
      sc_valid = True\<rparr>) (map snd (sort_key (\<lambda>r. protocol_rank (sb_protocol (snd r))) records))"
    using assms(1) by (auto simp: measurement_of_def Let_def bindR_eq_Inr split: if_splits)
  with assms(2) obtain e where "e \<in> set records"
      "s = \<lparr>sc_workload = protocol_name (sb_protocol (snd e)), sc_adapter = adapter_name (sb_adapter (snd e)),
        sc_requestsPerSecond = sm_score (sb_summary (snd e)), sc_valid = True\<rparr>"
    by auto
  then show ?thesis using that [of "fst e" "snd e"] by simp
qed

lemma unique_rate_score:
  assumes "unique_rate me w a = Some x"
  obtains s where "s \<in> set (me_scores me)" "sc_workload s = w" "sc_adapter s = a" "sc_requestsPerSecond s = x"
proof -
  from assms have "map sc_requestsPerSecond (matching_cells me w a) = [x]"
    by (auto simp: unique_rate_def usable_cells_def Let_def length_Suc_conv split: list.splits if_splits)
  then obtain s where "matching_cells me w a = [s]" "sc_requestsPerSecond s = x" by auto
  then have "s \<in> set (matching_cells me w a)" by simp
  with \<open>sc_requestsPerSecond s = x\<close> show ?thesis
    by (intro that [of s]) (auto simp: matching_cells_def)
qed

text \<open>The assessment as \<^verbatim>\<open>compareSavedMeasurements\<close> sees it: a result or the text of an error.\<close>

definition assessed :: "'st store_ops \<Rightarrow> js_math \<Rightarrow> (jsnum \<Rightarrow> string) \<Rightarrow> run_state \<Rightarrow> goal \<Rightarrow> protection list \<Rightarrow>
    comparison_refs \<Rightarrow> jsnum \<Rightarrow> precision \<Rightarrow> parent_measurements option \<Rightarrow>
    ('st, candidate_result option \<times> string option) action" where
  "assessed ops m numstr s g protections refs fraction precision parent =
     catchA (bindA (assess_saved ops m numstr s g protections refs fraction precision (Option.bind parent pm_initial)
         (Option.bind parent pm_best)) (\<lambda>r. returnA (Some r, None))) (\<lambda>e. returnA (None, Some (error_string e)))"

lemma compareSavedMeasurements_eq:
  assumes "st_phase s \<in> {PBaseline, PMeasure}" "st_activeStep s = Some (st_sequence s)"
  shows "compareSavedMeasurements ops m numstr s g protections refs fraction precision parent =
    bindA (assessed ops m numstr s g protections refs fraction precision parent) (\<lambda>(result, error).
      bindA (so_write ops ''comparison'' (comparison_name s)
          (enc_comparison (comparison_of s g protections refs fraction precision (map_option pm_identity parent) result error)))
        (\<lambda>saved. returnA (comparison_effect s (Option.bind parent pm_initial) result
           \<lparr>or_name = or_name saved, or_version = or_version saved\<rparr>)))"
  using assms unfolding compareSavedMeasurements_def assessed_def Let_def by (simp only: if_False) auto

context resource_store begin

lemma read_records_Inr:
  assumes "read_records ops m runId revision precision refs st = (Inr records, st')"
  shows "st' = st \<and> map fst records = refs \<and>
    (\<forall>(ref', r) \<in> set records. benchmark_at (versions st) ref' r \<and> check_record m runId revision precision r = Inr ())"
  using assms
proof (induction refs arbitrary: st records)
  case Nil
  then show ?case by simp
next
  case (Cons ref' refs)
  from Cons.prems obtain v st1 r rest where
    read: "so_read ops (or_name ref') (Some (or_version ref')) st = (Inr v, st1)"
    and r: "savedBenchmarkSchema (or_null v) = Some r" "check_record m runId revision precision r = Inr ()"
    and rest: "read_records ops m runId revision precision refs st1 = (Inr rest, st')"
    and records: "records = (ref', r) # rest"
    by (auto simp: bindA_Inr zparse_Inr)
  have v: "st1 = st" "v = version_at (versions st (or_name ref')) (Some (or_version ref'))"
    using read_Inr [OF read] by simp_all
  have "v \<noteq> None" using r(1) by (cases v) (simp_all add: savedBenchmarkSchema_def z_loose_def)
  with v r have "benchmark_at (versions st) ref' r" by (auto simp: benchmark_at_def)
  with Cons.IH [OF rest [unfolded v(1)]] r(2) records v(1) show ?case by simp
qed

text \<open>Every score of a measurement is supported by the samples of a saved output of that code.\<close>

lemma readMeasurement_Inr:
  assumes "readMeasurement ops m numstr runId revision refs precision st = (Inr me, st')"
  shows "st' = st \<and> measurement_backed m (versions st) runId revision precision refs me \<and>
    me_revision me = revision \<and> (\<forall>s \<in> set (me_scores me). is_double (sc_requestsPerSecond s))"
proof -
  from assms obtain records st1 where
    records: "read_records ops m runId revision precision refs st = (Inr records, st1)"
    and me: "measurement_of numstr revision records = Inr me" "st' = st1"
    by (auto simp: readMeasurement_def bindA_Inr split: if_splits)
  note r = read_records_Inr [OF records]
  have backed: "\<exists>ref' \<in> set refs. \<exists>r. benchmark_at (versions st) ref' r \<and>
      protocol_name (sb_protocol r) = sc_workload s \<and> adapter_name (sb_adapter r) = sc_adapter s \<and>
      supports m runId revision precision r (sc_requestsPerSecond s)"
    if s: "s \<in> set (me_scores me)" for s
  proof (rule measurement_of_scores [OF me(1) s])
    fix ref' r assume e: "(ref', r) \<in> set records" "sc_workload s = protocol_name (sb_protocol r)"
      "sc_adapter s = adapter_name (sb_adapter r)" "sc_requestsPerSecond s = sm_score (sb_summary r)"
    with r have "benchmark_at (versions st) ref' r" "check_record m runId revision precision r = Inr ()"
      by auto
    moreover have "ref' \<in> set refs" using r e(1) by force
    ultimately show ?thesis
      using e check_record_Inr [of m runId revision precision r "()"] by (auto simp: supports_def)
  qed
  moreover have "is_double (sc_requestsPerSecond s)" if "s \<in> set (me_scores me)" for s
    using backed [OF that] by (auto simp: supports_def dest: precision_mean_double)
  moreover have "me_revision me = revision"
    using me(1) by (auto simp: measurement_of_def Let_def bindR_eq_Inr split: if_splits)
  ultimately show ?thesis using r me(2) by (simp add: measurement_backed_def)
qed

lemma read_records_state: "snd (read_records ops m runId revision precision refs st) = st"
proof (induction refs)
  case (Cons ref' refs)
  obtain r st1 where read: "so_read ops (or_name ref') (Some (or_version ref')) st = (r, st1)"
    by (cases "so_read ops (or_name ref') (Some (or_version ref')) st")
  then have "st1 = st" using read_lookup by blast
  with read Cons show ?case
    by (auto simp: bindA_def split: sum.split prod.split)
qed simp

lemma readMeasurement_state: "snd (readMeasurement ops m numstr runId revision refs precision st) = st"
  using read_records_state [of m runId revision precision refs st]
  by (auto simp: readMeasurement_def bindA_def split: sum.split prod.split)

lemma assess_saved_state:
  "snd (assess_saved ops m numstr s g protections refs fraction precision parent_initial parent_best st) = st"
proof -
  have parent: "snd (parent_or given read st) = st" if "snd (read st) = st" for given read
    using that by (simp add: parent_or_def split: option.split)
  have bind: "snd (bindA a f st) = st" if "snd (a st) = st" "\<And>x. snd (f x st) = st" for a f
    using that by (cases "a st") (auto simp: bindA_def split: sum.split)
  show ?thesis
    unfolding assess_saved_def
    by (intro bind parent readMeasurement_state) simp
qed

text \<open>The verdict of a comparison is that of \<^verbatim>\<open>assessCandidate\<close> on measurements read from the store.\<close>

lemma assess_saved_Inr:
  assumes "assess_saved ops m numstr s g protections refs fraction precision parent_initial parent_best st = (Inr r, st')"
  obtains initial best current where
    "r = assessCandidate g protections initial best current fraction"
    "parent_initial = Some initial \<or> parent_initial = None \<and>
       measurement_backed m (versions st) (st_runId s) (st_initialRevision s) precision (rf_initial refs) initial \<and>
       (\<forall>s \<in> set (me_scores initial). is_double (sc_requestsPerSecond s))"
    "parent_best = Some best \<or> parent_best = None \<and>
       measurement_backed m (versions st) (st_runId s) (st_bestRevision s) precision (rf_best refs) best \<and>
       (\<forall>s \<in> set (me_scores best). is_double (sc_requestsPerSecond s))"
    "measurement_backed m (versions st) (st_runId s) (st_workingRevision s) precision (rf_current refs) current"
proof -
  from assms obtain initial best current st1 st2 where
    i: "parent_or parent_initial
       (readMeasurement ops m numstr (st_runId s) (st_initialRevision s) (rf_initial refs) precision) st = (Inr initial, st1)"
    and b: "parent_or parent_best
       (readMeasurement ops m numstr (st_runId s) (st_bestRevision s) (rf_best refs) precision) st1 = (Inr best, st2)"
    and c: "readMeasurement ops m numstr (st_runId s) (st_workingRevision s) (rf_current refs) precision st2 = (Inr current, st')"
    and r: "r = assessCandidate g protections initial best current fraction"
    by (auto simp: assess_saved_def bindA_Inr split: if_splits)
  have given: "st1 = st0 \<and> (given = Some me \<or> given = None \<and>
       measurement_backed m (versions st0) (st_runId s) revision precision rs me \<and>
       (\<forall>s \<in> set (me_scores me). is_double (sc_requestsPerSecond s)))"
    if "parent_or given (readMeasurement ops m numstr (st_runId s) revision rs precision) st0 = (Inr me, st1)"
    for given revision rs st0 st1 me
    using that readMeasurement_Inr [of m numstr "st_runId s" revision rs precision st0 me st1]
    by (cases given) (simp_all add: parent_or_def returnA_def)
  show ?thesis
    using given [OF i] given [OF b] readMeasurement_Inr [OF c] r by (intro that [of initial best current]) simp_all
qed

end

locale comparison_store = resource_store +
  assumes comparison_normal: "normal ''comparison'' (enc_comparison c) =
      (if comparison_ok c then Some (enc_comparison c) else None)"
begin

lemma assessed_cases:
  fixes parent :: "parent_measurements option" and m numstr s g protections refs fraction precision
  defines "run \<equiv> assess_saved ops m numstr s g protections refs fraction precision (Option.bind parent pm_initial)
    (Option.bind parent pm_best)"
  obtains (result) r where "run st = (Inr r, st)"
      "assessed ops m numstr s g protections refs fraction precision parent st = (Inr (Some r, None), st)"
    | (error) e where "run st = (Inl e, st)"
      "assessed ops m numstr s g protections refs fraction precision parent st = (Inr (None, Some (error_string e)), st)"
proof -
  have a: "run st = (fst (run st), st)" unfolding run_def using assess_saved_state by (metis surjective_pairing)
  show ?thesis
  proof (cases "fst (run st)")
    case (Inl e)
    with a have "run st = (Inl e, st)" by simp
    then show ?thesis by (intro error) (simp_all add: assessed_def run_def [symmetric] catchA_def bindA_def)
  next
    case (Inr r)
    with a have "run st = (Inr r, st)" by simp
    then show ?thesis by (intro result) (simp_all add: assessed_def run_def [symmetric] catchA_def bindA_def)
  qed
qed

lemma compareSavedMeasurements_Inr:
  assumes "compareSavedMeasurements ops m numstr s g protections refs fraction precision parent st = (Inr eff, st')"
  obtains result error where
    "st_phase s \<in> {PBaseline, PMeasure}" "st_activeStep s = Some (st_sequence s)"
    "(\<exists>r. assess_saved ops m numstr s g protections refs fraction precision (Option.bind parent pm_initial)
        (Option.bind parent pm_best) st = (Inr r, st) \<and> result = Some r \<and> error = None) \<or>
     (\<exists>e. assess_saved ops m numstr s g protections refs fraction precision (Option.bind parent pm_initial)
        (Option.bind parent pm_best) st = (Inl e, st) \<and> result = None \<and> error = Some (error_string e))"
    "comparison_ok (comparison_of s g protections refs fraction precision (map_option pm_identity parent) result error)"
    "versions st' = (versions st)(comparison_name s := versions st (comparison_name s) @
       [enc_comparison (comparison_of s g protections refs fraction precision
          (map_option pm_identity parent) result error)])"
    "eff = comparison_effect s (Option.bind parent pm_initial) result
       \<lparr>or_name = comparison_name s, or_version = int (length (versions st (comparison_name s))) + 1\<rparr>"
proof -
  let ?c = "comparison_of s g protections refs fraction precision (map_option pm_identity parent)"
  have phase: "st_phase s \<in> {PBaseline, PMeasure} \<and> st_activeStep s = Some (st_sequence s)"
    using assms by (auto simp: compareSavedMeasurements_def split: if_splits)
  obtain result error where re: "assessed ops m numstr s g protections refs fraction precision parent st = (Inr (result, error), st)"
      "(\<exists>r. assess_saved ops m numstr s g protections refs fraction precision (Option.bind parent pm_initial)
          (Option.bind parent pm_best) st = (Inr r, st) \<and> result = Some r \<and> error = None) \<or>
       (\<exists>e. assess_saved ops m numstr s g protections refs fraction precision (Option.bind parent pm_initial)
          (Option.bind parent pm_best) st = (Inl e, st) \<and> result = None \<and> error = Some (error_string e))"
    by (rule assessed_cases [of m numstr s g protections refs fraction precision parent st]) blast+
  from assms have "bindA (so_write ops ''comparison'' (comparison_name s) (enc_comparison (?c result error)))
      (\<lambda>saved. returnA (comparison_effect s (Option.bind parent pm_initial) result
           \<lparr>or_name = or_name saved, or_version = or_version saved\<rparr>)) st = (Inr eff, st')"
    using phase by (simp only: compareSavedMeasurements_eq
        bindA_pair [where m = "assessed ops m numstr s g protections refs fraction precision parent", OF re(1)] prod.case)
  then obtain saved where w: "so_write ops ''comparison'' (comparison_name s) (enc_comparison (?c result error)) st = (Inr saved, st')"
    and eff: "eff = comparison_effect s (Option.bind parent pm_initial) result
           \<lparr>or_name = or_name saved, or_version = or_version saved\<rparr>"
    by (auto simp: bindA_Inr)
  from w show ?thesis
  proof (rule write_Inr)
    fix w' assume w': "normal ''comparison'' (enc_comparison (?c result error)) = Some w'"
      "versions st' = (versions st)(comparison_name s := versions st (comparison_name s) @ [w'])"
      "saved = \<lparr>or_name = comparison_name s, or_version = int (length (versions st (comparison_name s))) + 1\<rparr>"
    then have "comparison_ok (?c result error)" "w' = enc_comparison (?c result error)"
      by (simp_all add: comparison_normal split: if_splits)
    with phase w' eff re(2) show ?thesis by (intro that [of result error]) simp_all
  qed
qed

text \<open>What an improvement that a step reports rests on.\<close>

lemma improved_outcome:
  assumes "compareSavedMeasurements ops m numstr s g protections refs fraction precision parent st = (Inr eff, st')"
    and "se_outcome eff = Measured revd valid inc met True" "w \<in> set (goal_workloads g)"
    and "\<And>b. Option.bind parent pm_best = Some b \<Longrightarrow> \<forall>s \<in> set (me_scores b). is_double (sc_requestsPerSecond s)"
  shows "\<exists>rc x y. (\<exists>ref' \<in> set (rf_current refs). benchmark_at (versions st) ref' rc) \<and>
    protocol_name (sb_protocol rc) = w \<and> sb_adapter rc = Busker \<and>
    supports m (st_runId s) (st_workingRevision s) precision rc (Fin y) \<and>
    revd = st_workingRevision s \<and> 0 < x \<and> x < y \<and>
    (case Option.bind parent pm_best of
       Some b \<Rightarrow> unique_rate b w busker = Some (Fin x)
     | None \<Rightarrow> \<exists>rb. (\<exists>ref' \<in> set (rf_best refs). benchmark_at (versions st) ref' rb) \<and>
         protocol_name (sb_protocol rb) = w \<and> sb_adapter rb = Busker \<and>
         supports m (st_runId s) (st_bestRevision s) precision rb (Fin x))"
proof (rule compareSavedMeasurements_Inr [OF assms(1)])
  let ?run = "assess_saved ops m numstr s g protections refs fraction precision (Option.bind parent pm_initial)
        (Option.bind parent pm_best) st"
  fix result error
  assume r: "(\<exists>r. ?run = (Inr r, st) \<and> result = Some r \<and> error = None) \<or>
     (\<exists>e. ?run = (Inl e, st) \<and> result = None \<and> error = Some (error_string e))"
    and eff: "eff = comparison_effect s (Option.bind parent pm_initial) result
       \<lparr>or_name = comparison_name s, or_version = int (length (versions st (comparison_name s))) + 1\<rparr>"
  from eff assms(2) have rev: "revd = st_workingRevision s" and imp: "Option.bind result cr_improved = Some True"
    by (auto simp: comparison_effect_def split: if_splits)
  with r obtain a where a: "?run = (Inr a, st)" "cr_improved a = Some True"
    by auto
  obtain initial best current where c: "a = assessCandidate g protections initial best current fraction"
      "Option.bind parent pm_best = Some best \<or> Option.bind parent pm_best = None \<and>
         measurement_backed m (versions st) (st_runId s) (st_bestRevision s) precision (rf_best refs) best \<and>
         (\<forall>s \<in> set (me_scores best). is_double (sc_requestsPerSecond s))"
      "measurement_backed m (versions st) (st_runId s) (st_workingRevision s) precision (rf_current refs) current"
    by (rule assess_saved_Inr [OF a(1)])
  have doubles: "\<forall>s \<in> set (me_scores best). is_double (sc_requestsPerSecond s)"
    using c(2) assms(4) by blast
  obtain x y where xy: "unique_rate best w busker = Some (Fin x)" "unique_rate current w busker = Some (Fin y)"
      "0 < x" "x < y"
    using improved_beats [OF a(2) [unfolded c(1)] doubles assms(3)] by blast
  have busker: "adapter_name ad = busker \<longleftrightarrow> ad = Busker" for ad
    by (cases ad) (simp_all add: adapter_name_def busker_def)
  have backed: "\<exists>r. (\<exists>ref' \<in> set rs. benchmark_at (versions st) ref' r) \<and> protocol_name (sb_protocol r) = w \<and>
      sb_adapter r = Busker \<and> supports m (st_runId s) revision precision r z"
    if "measurement_backed m (versions st) (st_runId s) revision precision rs me" "unique_rate me w busker = Some z"
    for me revision rs z
    using that(1) unique_rate_score [OF that(2)] busker unfolding measurement_backed_def by metis
  obtain rc where rc: "(\<exists>ref' \<in> set (rf_current refs). benchmark_at (versions st) ref' rc)"
      "protocol_name (sb_protocol rc) = w" "sb_adapter rc = Busker"
      "supports m (st_runId s) (st_workingRevision s) precision rc (Fin y)"
    using backed [OF c(3) xy(2)] by blast
  have "case Option.bind parent pm_best of
       Some b \<Rightarrow> unique_rate b w busker = Some (Fin x)
     | None \<Rightarrow> \<exists>rb. (\<exists>ref' \<in> set (rf_best refs). benchmark_at (versions st) ref' rb) \<and>
         protocol_name (sb_protocol rb) = w \<and> sb_adapter rb = Busker \<and>
         supports m (st_runId s) (st_bestRevision s) precision rb (Fin x)"
    using c(2) backed [of "st_bestRevision s" "rf_best refs" best "Fin x"] xy(1) by fastforce
  with rc xy rev show ?thesis by blast
qed

end

section \<open>Every verdict can be saved\<close>

lemma unique_rate_finite: "num_ok (unique_rate me w a)"
  using unique_rate_Some [of me w a] by (cases "unique_rate me w a") (auto simp: num_ok_def)

lemma score_cell_rate: "snd (score_cell me w a) = unique_rate me w a"
  by (simp add: score_cell_def split: option.split)

lemma compare_workload_row_ok: "comparison_row_ok (snd (compare_workload g i c w))"
  using unique_rate_finite [of i w busker] unique_rate_finite [of c w busker]
  by (auto simp: compare_workload_def comparison_row_ok_def score_cell_def num_ok_def Let_def
      split: prod.splits option.splits if_splits)

lemma check_protection_row_ok:
  assumes "\<forall>s \<in> set (me_scores i). is_double (sc_requestsPerSecond s)"
  shows "protection_row_ok (snd (check_protection i c p))"
proof -
  let ?f = "po_maxDecreaseFraction p" and ?w = "po_workload p"
  have "num_ok (pc_minimum (snd (check_protection i c p)))"
  proof (cases "unique_rate i ?w busker")
    case None
    then show ?thesis by (simp add: check_protection_def protected_score_def Let_def num_ok_def split: prod.split)
  next
    case (Some b)
    obtain x where x: "b = Fin x" "0 < x" "is_double b"
      using unique_rate_Some [OF Some] assms by fastforce
    have "js_finite (js_mul b (js_sub (Fin 1) ?f))" if ok: "fraction_ok ?f"
    proof -
      obtain f where f: "?f = Fin f" "0 \<le> f" "f < 1"
        using ok by (cases ?f) (auto simp: fraction_ok_def not_less not_le)
      have "rnd64 1 = 1" "rnd64 0 = 0" by (rule binary64.one binary64.zero)+
      then obtain z where z: "fl64 (1 - f) = Fin z" "0 \<le> z" "z \<le> 1"
        using fl64_between [of 0 "1 - f" 1] f by auto
      then have "js_sub (Fin 1) ?f = Fin z" by (simp add: js_sub_def f(1))
      then show ?thesis
        using js_mul_le(2) [of x z] x z(2,3) by auto
    qed
    with Some show ?thesis
      by (auto simp: check_protection_def protected_score_def Let_def num_ok_def split: prod.split)
  qed
  then show ?thesis
    using unique_rate_finite [of i ?w busker] unique_rate_finite [of c ?w busker]
    by (auto simp: protection_row_ok_def check_protection_def protected_score_def num_ok_def Let_def
        split: prod.splits option.splits)
qed

lemma assessCandidate_result_ok:
  assumes "\<forall>s \<in> set (me_scores i). is_double (sc_requestsPerSecond s)"
  shows "result_ok (assessCandidate g ps i b c f)"
proof -
  have "gr_comparisons (assessCandidate g ps i b c f) = map (\<lambda>w. snd (compare_workload g i c w)) (goal_workloads g)"
    by (simp add: assessCandidate_def assessGoal_def Let_def)
  moreover have "improvement_row_ok (check_improvement (gr_comparisons (assessGoal g i b))
      (gr_comparisons (assessGoal g i c)) f w)" for w
    using unique_rate_finite
    by (auto simp: improvement_row_ok_def check_improvement_def Let_def measured_of_assessGoal num_ok_def)
  ultimately show ?thesis
    using compare_workload_row_ok check_protection_row_ok [OF assms]
    by (simp add: result_ok_def assessCandidate_verdict(2,3) list_all_iff)
qed

locale reliable_comparison_store = comparison_store + reliable_store
begin

text \<open>
  A comparison under a well-formed policy is always saved: a failure to read a measurement is
  saved as its error, and no verdict holds a number the schema would refuse.
\<close>

lemma comparison_total:
  assumes "st_phase s \<in> {PBaseline, PMeasure}" "st_activeStep s = Some (st_sequence s)"
    and "goal_ok g" "list_all (\<lambda>p. js_finite (po_maxDecreaseFraction p)) protections"
    and "js_finite fraction" "improvement_fraction_ok fraction" "precision_ok precision"
    and "list_all ref_ok (rf_initial refs @ rf_best refs @ rf_current refs)"
    and "\<forall>i. Option.bind parent pm_initial = Some i \<longrightarrow> (\<forall>s \<in> set (me_scores i). is_double (sc_requestsPerSecond s))"
    and "\<forall>p. parent = Some p \<longrightarrow> sha256_ok (pi_sha256 (pm_identity p))"
  shows "\<exists>result error st'. compareSavedMeasurements ops m numstr s g protections refs fraction precision parent st =
    (Inr (comparison_effect s (Option.bind parent pm_initial) result
       \<lparr>or_name = comparison_name s, or_version = int (length (versions st (comparison_name s))) + 1\<rparr>), st') \<and>
    versions st' = (versions st)(comparison_name s := versions st (comparison_name s) @
       [enc_comparison (comparison_of s g protections refs fraction precision (map_option pm_identity parent) result error)]) \<and>
    comparisonSchema (enc_comparison (comparison_of s g protections refs fraction precision (map_option pm_identity parent) result error)) =
      Some (comparison_of s g protections refs fraction precision (map_option pm_identity parent) result error) \<and>
    (case fst (assess_saved ops m numstr s g protections refs fraction precision (Option.bind parent pm_initial)
        (Option.bind parent pm_best) st) of
       Inl e \<Rightarrow> result = None \<and> error = Some (error_string e) | Inr r \<Rightarrow> result = Some r \<and> error = None)"
proof -
  let ?c = "comparison_of s g protections refs fraction precision (map_option pm_identity parent)"
  let ?run = "assess_saved ops m numstr s g protections refs fraction precision (Option.bind parent pm_initial)
        (Option.bind parent pm_best) st"
  obtain result error where re: "assessed ops m numstr s g protections refs fraction precision parent st = (Inr (result, error), st)"
      "result = None \<or> (\<exists>r. result = Some r \<and> result_ok r)"
      "case fst ?run of
         Inl e \<Rightarrow> result = None \<and> error = Some (error_string e) | Inr r \<Rightarrow> result = Some r \<and> error = None"
  proof (cases rule: assessed_cases [of m numstr s g protections refs fraction precision parent st])
    case (result r)
    obtain i b c where "r = assessCandidate g protections i b c fraction"
        "Option.bind parent pm_initial = Some i \<or> Option.bind parent pm_initial = None \<and>
         measurement_backed m (versions st) (st_runId s) (st_initialRevision s) precision (rf_initial refs) i \<and>
         (\<forall>s \<in> set (me_scores i). is_double (sc_requestsPerSecond s))"
      by (rule assess_saved_Inr [OF result(1)])
    with assms(9) have "result_ok r" using assessCandidate_result_ok by blast
    with result show ?thesis by (intro that [of "Some r" None]) simp_all
  next
    case (error e)
    then show ?thesis by (intro that [of None "Some (error_string e)"]) simp_all
  qed
  have ok: "comparison_ok (?c result error)"
    using assms(3-8,10) re(2) by (auto simp: comparison_ok_def comparison_of_def split: option.splits)
  then have "normal ''comparison'' (enc_comparison (?c result error)) = Some (enc_comparison (?c result error))"
    by (simp add: comparison_normal)
  then obtain st' where w: "so_write ops ''comparison'' (comparison_name s) (enc_comparison (?c result error)) st =
      (Inr \<lparr>or_name = comparison_name s, or_version = int (length (versions st (comparison_name s))) + 1\<rparr>, st')"
      "versions st' = (versions st)(comparison_name s := versions st (comparison_name s) @ [enc_comparison (?c result error)])"
    by (rule write_eq)
  have "compareSavedMeasurements ops m numstr s g protections refs fraction precision parent st =
      (Inr (comparison_effect s (Option.bind parent pm_initial) result
       \<lparr>or_name = comparison_name s, or_version = int (length (versions st (comparison_name s))) + 1\<rparr>), st')"
    by (simp only: compareSavedMeasurements_eq [OF assms(1,2)]
        bindA_pair [where m = "assessed ops m numstr s g protections refs fraction precision parent", OF re(1)] prod.case)
      (simp add: bindA_def w(1))
  then show ?thesis
    using w(2) comparisonSchema_enc [of "?c result error"] ok re(3) by (intro exI conjI) simp_all
qed

end

end
