(* ===== verification/Run_Config.thy ===== *)
theory Run_Config
  imports Support Workspace Comparison "HOL-Library.List_Lexorder" "HOL-Library.Char_ord"
begin

text \<open>
  The arguments and the saved configuration of a run (\<^verbatim>\<open>runArgumentsSchema\<close>, \<^verbatim>\<open>runConfigSchema\<close>,
  \<^verbatim>\<open>workspaceSchema\<close> and the other resource schemas of \<^verbatim>\<open>_lib/run.ts\<close>): the policy checks beyond the
  shape, the values written, and that an accepted configuration reads back as it was written.
\<close>

section \<open>Arguments\<close>

definition limitsSchema :: "limits schema" where
  "limitsSchema = z_strict [''maxAttempts'', ''maxRepairsPerAttempt'', ''maxPiCalls'', ''maxDurationMs''] (\<lambda>o'. do {
     attempts \<leftarrow> z_field o' ''maxAttempts'' (z_int_if z_positive);
     repairs \<leftarrow> z_field o' ''maxRepairsPerAttempt'' (z_int_if z_count);
     piCalls \<leftarrow> z_field o' ''maxPiCalls'' (z_int_if z_positive);
     duration \<leftarrow> z_field o' ''maxDurationMs'' (z_int_if z_positive);
     Some \<lparr>maxAttempts = attempts, maxRepairsPerAttempt = repairs, maxPiCalls = piCalls,
       maxDurationMs = duration\<rparr> })"

definition enc_limits :: "limits \<Rightarrow> json" where
  "enc_limits l = JObj [(''maxAttempts'', j_int (maxAttempts l)),
     (''maxRepairsPerAttempt'', j_int (maxRepairsPerAttempt l)), (''maxPiCalls'', j_int (maxPiCalls l)),
     (''maxDurationMs'', j_int (maxDurationMs l))]"

record run_policy =
  rp_goal :: goal
  rp_protections :: "protection list"
  rp_minimumImprovementFraction :: jsnum
  rp_precision :: precision

text \<open>\<^verbatim>\<open>schema.default(value)\<close> of a property.\<close>

definition z_default :: "(string \<times> json) list \<Rightarrow> string \<Rightarrow> 'a schema \<Rightarrow> 'a \<Rightarrow> 'a option" where
  "z_default o' k sch fallback' = map_option (\<lambda>x. case x of None \<Rightarrow> fallback' | Some y \<Rightarrow> y) (z_optional o' k sch)"

definition policySchema :: "run_policy schema" where
  "policySchema = z_strict [''goal'', ''protections'', ''minimumImprovementFraction'', ''scorePolicyVersion'',
       ''precision''] (\<lambda>o'. do {
     goal \<leftarrow> z_field o' ''goal'' goalSchema;
     protections \<leftarrow> z_field o' ''protections'' (z_array protectionSchema);
     fraction \<leftarrow> z_field o' ''minimumImprovementFraction'' (z_number_if improvement_fraction_ok);
     _ \<leftarrow> z_default o' ''scorePolicyVersion'' (z_literal scorePolicyVersion) ();
     precision \<leftarrow> z_default o' ''precision'' precisionSchema defaultPrecision;
     Some \<lparr>rp_goal = goal, rp_protections = protections, rp_minimumImprovementFraction = fraction,
       rp_precision = precision\<rparr> })"

definition enc_policy :: "run_policy \<Rightarrow> json" where
  "enc_policy p = JObj [(''goal'', enc_goal (rp_goal p)),
     (''protections'', JArr (map enc_protection (rp_protections p))),
     (''minimumImprovementFraction'', JNum (rp_minimumImprovementFraction p)),
     (''scorePolicyVersion'', JStr scorePolicyVersion), (''precision'', enc_precision (rp_precision p))]"

record parent_bundle =
  pb_path :: string
  pb_sha256 :: string

definition parentBundleSchema :: "parent_bundle schema" where
  "parentBundleSchema = z_strict [''path'', ''sha256''] (\<lambda>o'. do {
     path \<leftarrow> z_field o' ''path'' z_string_min1;
     sha256 \<leftarrow> z_field o' ''sha256'' (z_string_if sha256_ok);
     Some \<lparr>pb_path = path, pb_sha256 = sha256\<rparr> })"

definition enc_parent_bundle :: "parent_bundle \<Rightarrow> json" where
  "enc_parent_bundle p = JObj [(''path'', JStr (pb_path p)), (''sha256'', JStr (pb_sha256 p))]"

record run_arguments =
  ra_runId :: string
  ra_repository :: string
  ra_revision :: string
  ra_directory :: string
  ra_supportDirectory :: string
  ra_supportSha256 :: string
  ra_supportRevision :: string
  ra_parentEvidence :: "parent_bundle option"
  ra_experimentBrief :: "string option"
  ra_credentialDirectory :: string
  ra_referenceRoots :: "string list"
  ra_limits :: limits
  ra_policy :: run_policy
  ra_parameters :: parameters

definition brief_ok :: "string \<Rightarrow> bool" where
  "brief_ok s \<longleftrightarrow> 1 \<le> length s \<and> length s \<le> 32768"

definition campaign_id_ok :: "string \<Rightarrow> bool" where
  "campaign_id_ok s \<longleftrightarrow> run_id_ok s \<and> length s \<le> 80"

section \<open>The policy checks\<close>

definition policy_workloads :: "run_policy \<Rightarrow> string list" where
  "policy_workloads p = (case rp_goal p of
     BeatAll competitors \<Rightarrow> map fst competitors | ImproveBaseline _ workloads \<Rightarrow> workloads)"

definition all_adapters :: "adapter list" where
  "all_adapters = [Busker, Aleph, Capra, Hirundo, HttpExchange, HttpKit, Jetty, Undertow]"

definition supported_competitors :: "string \<Rightarrow> string list" where
  "supported_competitors protocol = filter (\<lambda>adapter. adapter \<noteq> ''busker'' \<and>
       (protocol = ''h1'' \<or> (adapter \<noteq> ''capra'' \<and>
          (protocol \<noteq> ''tls-h2'' \<or> adapter \<notin> {''http-exchange'', ''http-kit''}))) \<and>
       \<not> (protocol = ''tls-h1'' \<and> adapter = ''http-kit''))
     (map adapter_name all_adapters)"

text \<open>\<^verbatim>\<open>superRefine\<close>: the issues beyond the shape, in the order they are added.\<close>

definition issue :: "bool \<Rightarrow> string \<Rightarrow> string list" where
  "issue c message = (if c then [message] else [])"

definition parameter_issues :: "run_arguments \<Rightarrow> string list" where
  "parameter_issues a =
     (let p = ra_parameters a; workloads = policy_workloads (ra_policy a);
          protected = map po_workload (rp_protections (ra_policy a)) in
      issue (\<not> scoredRepetitions (pa_repetitions p))
        ''Scored measurements require three or six samples per batch'' @
      issue (''h1'' \<in> set workloads \<and> ''tls-h2'' \<notin> set protected)
        ''H1 optimization requires an explicit TLS H2 allowance'' @
      issue (pa_connections p mod pa_streams p \<noteq> 0 \<or>
          (pa_connections p div pa_streams p) mod pa_threads p \<noteq> 0)
        ''Connections must divide into streams and client threads'' @
      issue (workloads = [] \<or> \<not> distinct workloads) ''Select unique workloads'' @
      concat (map (\<lambda>name. issue (protocolSchema (JStr name) = None) (''Unsupported workload: '' @ name))
        (workloads @ protected)))"

text \<open>
  The adapter lists are compared as texts of sorted lists. The source sorts by \<^verbatim>\<open>localeCompare\<close>;
  whether two lists have the same sorted text does not depend on the order, as long as it tells
  the supported names apart, so the lexicographic one stands for it.
\<close>

definition goal_issues :: "run_arguments \<Rightarrow> string list" where
  "goal_issues a =
     (let ps = rp_protections (ra_policy a) in
      (case rp_goal (ra_policy a) of
         ImproveBaseline multiplier _ \<Rightarrow> issue (js_le multiplier (Fin 1)) ''Multiplier must exceed one''
       | BeatAll _ \<Rightarrow> []) @
      issue (\<not> distinct (map po_workload ps) \<or>
          list_ex (\<lambda>p. js_lt (po_maxDecreaseFraction p) (Fin 0) \<or> js_le (Fin 1) (po_maxDecreaseFraction p)) ps)
        ''Invalid protected workloads'' @
      (case rp_goal (ra_policy a) of
         ImproveBaseline _ _ \<Rightarrow> []
       | BeatAll competitors \<Rightarrow> concat (map (\<lambda>(protocol, adapters).
           let supported = supported_competitors protocol in
           issue (strings_json (sort adapters) \<noteq> strings_json (sort supported))
             (''Beat-all requires all supported competitors for '' @ protocol @ '': '' @
              js_join '', '' supported)) competitors)))"

definition argument_issues :: "run_arguments \<Rightarrow> string list" where
  "argument_issues a = parameter_issues a @ goal_issues a"

definition argument_keys :: "string list" where
  "argument_keys = [''confirmLive'', ''runId'', ''repository'', ''revision'', ''directory'', ''supportDirectory'',
     ''supportSha256'', ''supportRevision'', ''parentEvidence'', ''experimentBrief'', ''credentialDirectory'',
     ''referenceRoots'', ''limits'', ''policy'', ''benchmarkMethod'', ''parameters'']"

definition argument_body :: "(string \<times> json) list \<Rightarrow> run_arguments option" where
  "argument_body o' = do {
     live \<leftarrow> z_field o' ''confirmLive'' z_bool;
     _ \<leftarrow> (if live then Some () else None);
     runId \<leftarrow> z_field o' ''runId'' (z_string_if campaign_id_ok);
     repository \<leftarrow> z_field o' ''repository'' z_string_min1;
     revision \<leftarrow> z_field o' ''revision'' revisionSchema;
     directory \<leftarrow> z_field o' ''directory'' z_string_min1;
     supportDirectory \<leftarrow> z_field o' ''supportDirectory'' z_string_min1;
     supportSha256 \<leftarrow> z_field o' ''supportSha256'' (z_string_if sha256_ok);
     supportRevision \<leftarrow> z_field o' ''supportRevision'' revisionSchema;
     parentEvidence \<leftarrow> z_optional o' ''parentEvidence'' parentBundleSchema;
     experimentBrief \<leftarrow> z_default o' ''experimentBrief'' (z_nullable (z_string_if brief_ok)) None;
     credentialDirectory \<leftarrow> z_field o' ''credentialDirectory'' z_string_min1;
     referenceRoots \<leftarrow> z_field o' ''referenceRoots'' (z_array z_string);
     limits' \<leftarrow> z_field o' ''limits'' limitsSchema;
     policy' \<leftarrow> z_field o' ''policy'' policySchema;
     _ \<leftarrow> z_field o' ''benchmarkMethod'' (z_literal benchmarkMethod);
     parameters' \<leftarrow> z_field o' ''parameters'' benchmarkParametersSchema;
     Some \<lparr>ra_runId = runId, ra_repository = repository, ra_revision = revision, ra_directory = directory,
       ra_supportDirectory = supportDirectory, ra_supportSha256 = supportSha256,
       ra_supportRevision = supportRevision, ra_parentEvidence = parentEvidence,
       ra_experimentBrief = experimentBrief, ra_credentialDirectory = credentialDirectory,
       ra_referenceRoots = referenceRoots, ra_limits = limits', ra_policy = policy',
       ra_parameters = parameters'\<rparr> }"

definition runArgumentsSchema :: "run_arguments schema" where
  "runArgumentsSchema v = Option.bind (z_strict argument_keys argument_body v)
     (\<lambda>a. if argument_issues a = [] then Some a else None)"

definition enc_arguments :: "run_arguments \<Rightarrow> json" where
  "enc_arguments a = JObj ([(''confirmLive'', JBool True), (''runId'', JStr (ra_runId a)),
     (''repository'', JStr (ra_repository a)), (''revision'', JStr (ra_revision a)),
     (''directory'', JStr (ra_directory a)), (''supportDirectory'', JStr (ra_supportDirectory a)),
     (''supportSha256'', JStr (ra_supportSha256 a)), (''supportRevision'', JStr (ra_supportRevision a))] @
     j_optional ''parentEvidence'' enc_parent_bundle (ra_parentEvidence a) @
     j_optional ''experimentBrief'' JStr (ra_experimentBrief a) @
     [(''credentialDirectory'', JStr (ra_credentialDirectory a)),
      (''referenceRoots'', JArr (map JStr (ra_referenceRoots a))), (''limits'', enc_limits (ra_limits a)),
      (''policy'', enc_policy (ra_policy a)), (''benchmarkMethod'', JStr benchmarkMethod),
      (''parameters'', enc_parameters (ra_parameters a))])"

section \<open>The saved configuration\<close>

record run_config =
  rc_arguments :: run_arguments
  rc_startedAtMs :: int
  rc_supportManifest :: manifest
  rc_cliVersion :: string
  rc_dataDirectory :: string

definition supportFileSchema :: "support_file schema" where
  "supportFileSchema = z_strict [''path'', ''sha256''] (\<lambda>o'. do {
     path \<leftarrow> z_field o' ''path'' z_string;
     sha256 \<leftarrow> z_field o' ''sha256'' (z_string_if sha256_ok);
     Some \<lparr>sf_path = path, sf_sha256 = sha256\<rparr> })"

definition manifestSchema :: "manifest schema" where
  "manifestSchema = z_strict [''sha256'', ''files''] (\<lambda>o'. do {
     sha256 \<leftarrow> z_field o' ''sha256'' (z_string_if sha256_ok);
     files \<leftarrow> z_field o' ''files'' (z_array supportFileSchema);
     Some \<lparr>mf_sha256 = sha256, mf_files = files\<rparr> })"

definition runConfigSchema :: "run_config schema" where
  "runConfigSchema = z_strict [''arguments'', ''scorePolicyVersion'', ''startedAtMs'', ''supportManifest'',
       ''cliVersion'', ''dataDirectory''] (\<lambda>o'. do {
     arguments \<leftarrow> z_field o' ''arguments'' (runArgumentsSchema);
     _ \<leftarrow> z_field o' ''scorePolicyVersion'' (z_literal scorePolicyVersion);
     startedAtMs \<leftarrow> z_field o' ''startedAtMs'' (z_int_if z_positive);
     supportManifest \<leftarrow> z_field o' ''supportManifest'' manifestSchema;
     cliVersion \<leftarrow> z_field o' ''cliVersion'' z_string_min1;
     dataDirectory \<leftarrow> z_field o' ''dataDirectory'' z_string_min1;
     Some \<lparr>rc_arguments = arguments, rc_startedAtMs = startedAtMs, rc_supportManifest = supportManifest,
       rc_cliVersion = cliVersion, rc_dataDirectory = dataDirectory\<rparr> })"

definition enc_config :: "run_config \<Rightarrow> json" where
  "enc_config c = JObj [(''arguments'', enc_arguments (rc_arguments c)),
     (''scorePolicyVersion'', JStr scorePolicyVersion), (''startedAtMs'', j_int (rc_startedAtMs c)),
     (''supportManifest'', enc_manifest (rc_supportManifest c)), (''cliVersion'', JStr (rc_cliVersion c)),
     (''dataDirectory'', JStr (rc_dataDirectory c))]"


section \<open>The other resources of a run\<close>

definition workspaceSchema :: "workspace schema" where
  "workspaceSchema = z_strict [''repository'', ''path'', ''runId'', ''initialRevision''] (\<lambda>o'. do {
     repository \<leftarrow> z_field o' ''repository'' z_string;
     path \<leftarrow> z_field o' ''path'' z_string;
     runId \<leftarrow> z_field o' ''runId'' runIdSchema;
     initialRevision \<leftarrow> z_field o' ''initialRevision'' revisionSchema;
     Some \<lparr>ws_repository = repository, ws_path = path, ws_runId = runId,
       ws_initialRevision = initialRevision\<rparr> })"

definition enc_workspace :: "workspace \<Rightarrow> json" where
  "enc_workspace w = JObj [(''repository'', JStr (ws_repository w)), (''path'', JStr (ws_path w)),
     (''runId'', JStr (ws_runId w)), (''initialRevision'', JStr (ws_initialRevision w))]"

text \<open>The frozen inputs of inference: the project's \<^verbatim>\<open>AGENTS.md\<close> and the prepared brief.\<close>

record context_file =
  cf_runId :: string
  cf_source :: string
  cf_sha256 :: string
  cf_text :: string

definition contextFileSchema :: "string \<Rightarrow> (string \<Rightarrow> bool) \<Rightarrow> context_file schema" where
  "contextFileSchema source text_ok = z_strict [''runId'', ''source'', ''sha256'', ''text''] (\<lambda>o'. do {
     runId \<leftarrow> z_field o' ''runId'' runIdSchema;
     _ \<leftarrow> z_field o' ''source'' (z_literal source);
     sha256 \<leftarrow> z_field o' ''sha256'' (z_string_if sha256_ok);
     text' \<leftarrow> z_field o' ''text'' (z_string_if text_ok);
     Some \<lparr>cf_runId = runId, cf_source = source, cf_sha256 = sha256, cf_text = text'\<rparr> })"

definition agents_source :: string where
  "agents_source = ''untracked project AGENTS.md''"

definition brief_source :: string where
  "brief_source = ''prepared experiment brief''"

definition agentsContextSchema :: "context_file schema" where
  "agentsContextSchema = contextFileSchema agents_source (\<lambda>_. True)"

definition experimentBriefSchema :: "context_file schema" where
  "experimentBriefSchema = contextFileSchema brief_source brief_ok"

definition enc_context_file :: "context_file \<Rightarrow> json" where
  "enc_context_file c = JObj [(''runId'', JStr (cf_runId c)), (''source'', JStr (cf_source c)),
     (''sha256'', JStr (cf_sha256 c)), (''text'', JStr (cf_text c))]"

text \<open>\<^verbatim>\<open>z.object({ runId }).catchall(z.json())\<close>: the value itself, when it names a run.\<close>

definition runDetailSchema :: "json schema" where
  "runDetailSchema v = map_option (\<lambda>_. v) (z_loose (\<lambda>o'. z_field o' ''runId'' runIdSchema) v)"

section \<open>Reading back what was written\<close>

definition policy_ok :: "run_policy \<Rightarrow> bool" where
  "policy_ok p \<longleftrightarrow> goal_ok (rp_goal p) \<and>
     list_all (\<lambda>q. js_finite (po_maxDecreaseFraction q)) (rp_protections p) \<and>
     js_finite (rp_minimumImprovementFraction p) \<and>
     improvement_fraction_ok (rp_minimumImprovementFraction p) \<and> precision_ok (rp_precision p)"

definition parameters_ok :: "parameters \<Rightarrow> bool" where
  "parameters_ok p \<longleftrightarrow> list_all z_positive [pa_warmup p, pa_duration p, pa_repetitions p, pa_connections p,
     pa_streams p, pa_threads p] \<and> (case pa_buskerWorkers p of None \<Rightarrow> True | Some n \<Rightarrow> z_positive n)"

definition arguments_ok :: "run_arguments \<Rightarrow> bool" where
  "arguments_ok a \<longleftrightarrow> campaign_id_ok (ra_runId a) \<and> ra_repository a \<noteq> [] \<and>
     revision_ok (ra_revision a) \<and> ra_directory a \<noteq> [] \<and> ra_supportDirectory a \<noteq> [] \<and>
     sha256_ok (ra_supportSha256 a) \<and> revision_ok (ra_supportRevision a) \<and>
     (case ra_parentEvidence a of None \<Rightarrow> True | Some p \<Rightarrow> pb_path p \<noteq> [] \<and> sha256_ok (pb_sha256 p)) \<and>
     (case ra_experimentBrief a of None \<Rightarrow> True | Some b \<Rightarrow> brief_ok b) \<and>
     ra_credentialDirectory a \<noteq> [] \<and> limits_ok (ra_limits a) \<and> policy_ok (ra_policy a) \<and>
     parameters_ok (ra_parameters a) \<and> argument_issues a = []"

definition config_ok :: "run_config \<Rightarrow> bool" where
  "config_ok c \<longleftrightarrow> arguments_ok (rc_arguments c) \<and> z_positive (rc_startedAtMs c) \<and>
     sha256_ok (mf_sha256 (rc_supportManifest c)) \<and>
     list_all (\<lambda>f. sha256_ok (sf_sha256 f)) (mf_files (rc_supportManifest c)) \<and>
     rc_cliVersion c \<noteq> [] \<and> rc_dataDirectory c \<noteq> []"

lemma limitsSchema_enc: "limitsSchema (enc_limits l) = (if limits_ok l then Some l else None)"
  by (cases l) (simp add: limitsSchema_def enc_limits_def limits_ok_def)

lemma policySchema_enc: "policySchema (enc_policy p) = (if policy_ok p then Some p else None)"
  by (cases p) (simp add: policySchema_def enc_policy_def policy_ok_def z_default_def goalSchema_enc
      row_arrays precisionSchema_enc)

lemma parentBundleSchema_enc: "parentBundleSchema (enc_parent_bundle p) =
    (if pb_path p \<noteq> [] \<and> sha256_ok (pb_sha256 p) then Some p else None)"
  by (cases p) (simp add: parentBundleSchema_def enc_parent_bundle_def)

lemma parametersSchema_enc: "benchmarkParametersSchema (enc_parameters p) =
    (if parameters_ok p then Some p else None)"
proof (cases p)
  case (fields w d r c s t b)
  then show ?thesis
    by (cases b) (simp_all add: benchmarkParametersSchema_def enc_parameters_def parameters_ok_def parameter_body_def)
qed

lemma manifestSchema_enc: "manifestSchema (enc_manifest m) =
    (if sha256_ok (mf_sha256 m) \<and> list_all (\<lambda>f. sha256_ok (sf_sha256 f)) (mf_files m) then Some m else None)"
proof -
  have entry: "supportFileSchema (enc_file f) = (if sha256_ok (sf_sha256 f) then Some f else None)" for f
    by (cases f) (simp add: supportFileSchema_def enc_file_def)
  show ?thesis
    by (cases m) (simp add: manifestSchema_def enc_manifest_def z_array_enc_if [OF entry])
qed

lemma enc_argument_parts [simp]: "enc_parent_bundle p \<noteq> JNull" "enc_limits l \<noteq> JNull"
  by (simp_all add: enc_parent_bundle_def enc_limits_def)

lemma runArgumentsSchema_enc:
  "runArgumentsSchema (enc_arguments a) = (if arguments_ok a then Some a else None)"
proof -
  have roots: "z_array z_string (JArr (map JStr rs)) = Some rs" for rs
    by (rule z_array_enc) simp
  note simps = runArgumentsSchema_def enc_arguments_def argument_body_def argument_keys_def arguments_ok_def
    limitsSchema_enc policySchema_enc parametersSchema_enc parentBundleSchema_enc z_default_def roots
  show ?thesis
  proof (cases a)
    case (fields i r v d sd ss sr pe eb cd rr l p pa)
    then show ?thesis
      by (cases pe; cases eb) (simp_all add: simps)
  qed
qed

lemma runConfigSchema_enc:
  "runConfigSchema (enc_config c) = (if config_ok c then Some c else None)"
  by (cases c) (simp add: runConfigSchema_def enc_config_def config_ok_def runArgumentsSchema_enc manifestSchema_enc)

lemma workspaceSchema_enc: "workspaceSchema (enc_workspace w) =
    (if run_id_ok (ws_runId w) \<and> revision_ok (ws_initialRevision w) then Some w else None)"
  by (cases w) (simp add: workspaceSchema_def enc_workspace_def)

section \<open>What accepted arguments are\<close>

lemma z_strict_SomeD: "z_strict ks body v = Some x \<Longrightarrow> \<exists>o'. body o' = Some x"
  by (cases v) (auto simp: z_strict_def split: if_splits)

lemma limitsSchema_ok: "limitsSchema v = Some l \<Longrightarrow> limits_ok l"
  unfolding limitsSchema_def
  by (drule z_strict_SomeD)
    (auto simp: bind_eq_Some_conv limits_ok_def elim!: z_fieldE dest!: z_int_if_Some)

lemma parametersSchema_ok: "benchmarkParametersSchema v = Some p \<Longrightarrow> parameters_ok p"
  unfolding benchmarkParametersSchema_def
  by (drule z_strict_SomeD)
    (auto simp: parameter_body_def bind_eq_Some_conv parameters_ok_def z_optional_def
      split: option.splits elim!: z_fieldE dest!: z_int_if_Some)

lemma argument_body_ok:
  assumes "argument_body o' = Some a"
  shows "campaign_id_ok (ra_runId a)" "revision_ok (ra_revision a)" "limits_ok (ra_limits a)"
    "parameters_ok (ra_parameters a)"
proof -
  from assms obtain i r l p where a: "ra_runId a = i" "ra_revision a = r" "ra_limits a = l" "ra_parameters a = p"
    "z_field o' ''runId'' (z_string_if campaign_id_ok) = Some i" "z_field o' ''revision'' revisionSchema = Some r"
    "z_field o' ''limits'' limitsSchema = Some l" "z_field o' ''parameters'' benchmarkParametersSchema = Some p"
    by (auto simp: argument_body_def bind_eq_Some_conv split: if_splits)
  show "campaign_id_ok (ra_runId a)" "revision_ok (ra_revision a)" "limits_ok (ra_limits a)"
    "parameters_ok (ra_parameters a)"
    using a(5-8) unfolding a(1-4)
    by (auto elim!: z_fieldE dest: z_string_if_Some revisionSchema_ok limitsSchema_ok parametersSchema_ok)
qed

lemma issue_Nil [simp]: "issue c m = [] \<longleftrightarrow> \<not> c"
  by (simp add: issue_def)

lemma protocolSchema_JStr: "protocolSchema (JStr s) \<noteq> None \<longleftrightarrow> (\<exists>p. s = protocol_name p)"
proof
  assume "protocolSchema (JStr s) \<noteq> None"
  then show "\<exists>p. s = protocol_name p"
    by (auto simp: protocolSchema_def split: if_splits)
next
  assume "\<exists>p. s = protocol_name p"
  then obtain p where "s = protocol_name p" by blast
  then show "protocolSchema (JStr s) \<noteq> None"
    by (cases p) (simp_all add: protocolSchema_def protocol_name_def)
qed

lemma protocol_names: "(\<forall>s \<in> set ws. protocolSchema (JStr s) \<noteq> None) \<longleftrightarrow> (\<exists>ps. ws = map protocol_name ps)"
proof
  assume "\<forall>s \<in> set ws. protocolSchema (JStr s) \<noteq> None"
  then show "\<exists>ps. ws = map protocol_name ps"
    unfolding protocolSchema_JStr
  proof (induction ws)
    case (Cons w ws)
    then obtain p ps where "w = protocol_name p" "ws = map protocol_name ps" by auto
    then show ?case by (intro exI [of _ "p # ps"]) simp
  qed simp
next
  assume "\<exists>ps. ws = map protocol_name ps"
  then show "\<forall>s \<in> set ws. protocolSchema (JStr s) \<noteq> None" unfolding protocolSchema_JStr by auto
qed

lemma argument_issues_Nil:
  assumes "argument_issues a = []"
  shows "scoredRepetitions (pa_repetitions (ra_parameters a))"
    "pa_connections (ra_parameters a) mod pa_streams (ra_parameters a) = 0"
    "(pa_connections (ra_parameters a) div pa_streams (ra_parameters a)) mod pa_threads (ra_parameters a) = 0"
    "policy_workloads (ra_policy a) \<noteq> []" "distinct (policy_workloads (ra_policy a))"
    "\<forall>s \<in> set (policy_workloads (ra_policy a) @ map po_workload (rp_protections (ra_policy a))).
       protocolSchema (JStr s) \<noteq> None"
    "''h1'' \<in> set (policy_workloads (ra_policy a)) \<Longrightarrow> ''tls-h2'' \<in> po_workload ` set (rp_protections (ra_policy a))"
    "distinct (map po_workload (rp_protections (ra_policy a)))"
    "\<forall>p \<in> set (rp_protections (ra_policy a)). \<not> js_lt (po_maxDecreaseFraction p) (Fin 0) \<and>
       \<not> js_le (Fin 1) (po_maxDecreaseFraction p)"
    "rp_goal (ra_policy a) = ImproveBaseline m ws \<Longrightarrow> \<not> js_le m (Fin 1)"
    "rp_goal (ra_policy a) = BeatAll cs \<Longrightarrow> (q, adapters) \<in> set cs \<Longrightarrow>
       sort adapters = sort (supported_competitors q)"
  using assms
  by (auto simp: argument_issues_def parameter_issues_def goal_issues_def Let_def list_ex_iff Control.concat_map_Nil)

lemma goal_rules:
  assumes "argument_issues a = []"
  shows "case rp_goal (ra_policy a) of
       ImproveBaseline m _ \<Rightarrow> \<forall>f. m = Fin f \<longrightarrow> 1 < f
     | BeatAll cs \<Rightarrow> \<forall>(q, adapters) \<in> set cs. set adapters = set (supported_competitors q) \<and> busker \<notin> set adapters"
proof (cases "rp_goal (ra_policy a)")
  case (ImproveBaseline m ws)
  with argument_issues_Nil(10) [OF assms this] show ?thesis by auto
next
  case (BeatAll cs)
  have "set adapters = set (supported_competitors q)" if "(q, adapters) \<in> set cs" for q adapters
    using argument_issues_Nil(11) [OF assms BeatAll that] set_sort by metis
  moreover have "busker \<notin> set (supported_competitors q)" for q
    by (auto simp: supported_competitors_def busker_def)
  ultimately show ?thesis using BeatAll by fastforce
qed

lemma even_division:
  assumes "argument_issues a = []" "parameters_ok (ra_parameters a)"
  shows "\<exists>k. pa_connections (ra_parameters a) = pa_streams (ra_parameters a) * (pa_threads (ra_parameters a) * k) \<and> 0 < k"
proof -
  let ?p = "ra_parameters a"
  note rules = argument_issues_Nil [OF assms(1)]
  have pos: "0 < pa_connections ?p" "0 < pa_streams ?p" "0 < pa_threads ?p"
    using assms(2) by (simp_all add: parameters_ok_def z_positive_def)
  obtain n where n: "pa_connections ?p = pa_streams ?p * n" using rules(2) by fastforce
  then have "pa_connections ?p div pa_streams ?p = n" using pos by simp
  then obtain k where k: "n = pa_threads ?p * k" using rules(3) by fastforce
  from n k pos have "0 < k" by (simp add: zero_less_mult_iff)
  with n k show ?thesis by blast
qed

text \<open>
  C35: Accepted arguments make sense, whatever value they were read from. The identity and the revision
  have their form and the limits are positive; the workloads are distinct protocols and there is
  at least one; each protected protocol is named once, with an allowed decrease from zero to below
  one, and TLS H2 is protected when H1 is optimised; the target of an improvement lies above the
  baseline; beating all means the supported competitors of each protocol, Busker not among them;
  and the connections divide evenly over streams and threads.
\<close>

theorem accepted_arguments_are_sound:
  assumes "runArgumentsSchema v = Some a"
  shows "campaign_id_ok (ra_runId a) \<and> revision_ok (ra_revision a) \<and> limits_ok (ra_limits a) \<and>
    (\<exists>ps. policy_workloads (ra_policy a) = map protocol_name ps \<and> ps \<noteq> [] \<and> distinct ps \<and>
       (H1 \<in> set ps \<longrightarrow> (\<exists>p \<in> set (rp_protections (ra_policy a)). po_workload p = protocol_name TlsH2))) \<and>
    (\<exists>ps. map po_workload (rp_protections (ra_policy a)) = map protocol_name ps \<and> distinct ps) \<and>
    (\<forall>p \<in> set (rp_protections (ra_policy a)). \<forall>f. po_maxDecreaseFraction p = Fin f \<longrightarrow> 0 \<le> f \<and> f < 1) \<and>
    (case rp_goal (ra_policy a) of
       ImproveBaseline m _ \<Rightarrow> \<forall>f. m = Fin f \<longrightarrow> 1 < f
     | BeatAll cs \<Rightarrow> \<forall>(q, adapters) \<in> set cs. set adapters = set (supported_competitors q) \<and> busker \<notin> set adapters) \<and>
    (\<exists>k. pa_connections (ra_parameters a) = pa_streams (ra_parameters a) * (pa_threads (ra_parameters a) * k) \<and> 0 < k)"
proof -
  from assms obtain o' where a: "argument_body o' = Some a" "argument_issues a = []"
    by (auto simp: runArgumentsSchema_def bind_eq_Some_conv split: if_splits dest!: z_strict_SomeD)
  note body = argument_body_ok [OF a(1)] and rules = argument_issues_Nil [OF a(2)]
  from rules(6) obtain ps qs where
    ps: "policy_workloads (ra_policy a) = map protocol_name ps" and
    qs: "map po_workload (rp_protections (ra_policy a)) = map protocol_name qs"
    using protocol_names by (metis UnCI set_append)
  have "ps \<noteq> []" "distinct ps" "distinct qs"
    using rules(4,5,8) ps qs by (auto simp: distinct_map)
  moreover have "\<exists>p \<in> set (rp_protections (ra_policy a)). po_workload p = protocol_name TlsH2" if "H1 \<in> set ps"
  proof -
    have "''h1'' \<in> set (policy_workloads (ra_policy a))"
      using that ps by (force simp: protocol_name_def)
    from rules(7) [OF this] show ?thesis by (auto simp: protocol_name_def)
  qed
  moreover have "\<forall>p \<in> set (rp_protections (ra_policy a)). \<forall>f. po_maxDecreaseFraction p = Fin f \<longrightarrow> 0 \<le> f \<and> f < 1"
    using rules(9) by fastforce
  ultimately show ?thesis using body(1-3) ps qs goal_rules [OF a(2)] even_division [OF a(2) body(4)] by blast
qed

text \<open>Concrete arguments: improve H1 by half, protecting TLS H2.\<close>

definition five_percent :: jsnum where
  "five_percent = fl64 (5 / 100)"

definition concrete_policy :: run_policy where
  "concrete_policy = \<lparr>rp_goal = ImproveBaseline (Fin (3 / 2)) [''h1''],
     rp_protections = [\<lparr>po_workload = ''tls-h2'', po_maxDecreaseFraction = Fin (1 / 4)\<rparr>],
     rp_minimumImprovementFraction = five_percent,
     rp_precision = \<lparr>pn_relativeHalfWidth = Fin (1 / 2), pn_confidenceLevel = Fin (3 / 4)\<rparr>\<rparr>"

definition concrete_arguments :: run_arguments where
  "concrete_arguments = \<lparr>ra_runId = ''run-1'', ra_repository = ''/r'', ra_revision = replicate 40 (CHR ''a''),
     ra_directory = ''/logs'', ra_supportDirectory = ''/s'', ra_supportSha256 = replicate 64 (CHR ''e''),
     ra_supportRevision = replicate 40 (CHR ''a''), ra_parentEvidence = None, ra_experimentBrief = None,
     ra_credentialDirectory = ''/c'', ra_referenceRoots = [],
     ra_limits = \<lparr>maxAttempts = 2, maxRepairsPerAttempt = 1, maxPiCalls = 8, maxDurationMs = 1000\<rparr>,
     ra_policy = concrete_policy,
     ra_parameters = \<lparr>pa_warmup = 1, pa_duration = 1, pa_repetitions = 3, pa_connections = 8, pa_streams = 2,
       pa_threads = 2, pa_buskerWorkers = None\<rparr>\<rparr>"

lemma concrete_arguments_ok: "arguments_ok concrete_arguments"
proof -
  have "policy_ok concrete_policy"
    by (simp add: policy_ok_def concrete_policy_def goal_ok_def five_percent_def improvement_fraction_ok_def
        precision_ok_def fl64_1_20 fl64_3_100)
  moreover have "campaign_id_ok ''run-1''" "revision_ok (replicate 40 (CHR ''a''))"
    "sha256_ok (replicate 64 (CHR ''e''))" by code_simp+
  moreover have "limits_ok (ra_limits concrete_arguments)" "parameters_ok (ra_parameters concrete_arguments)"
    by (simp_all add: concrete_arguments_def limits_ok_def parameters_ok_def z_positive_def z_count_def
        safe_integer_def max_safe_integer_def)
  moreover have "argument_issues concrete_arguments = []"
    by (simp add: argument_issues_def parameter_issues_def goal_issues_def concrete_arguments_def concrete_policy_def
        policy_workloads_def issue_def scoredRepetitions_def protocolSchema_def protocol_name_def)
  ultimately show ?thesis by (simp add: arguments_ok_def) (simp add: concrete_arguments_def)
qed

theorem accepted_arguments_are_sound_witness:
  "limits_ok (ra_limits concrete_arguments) \<and>
     (\<exists>ps. policy_workloads (ra_policy concrete_arguments) = map protocol_name ps \<and> ps \<noteq> [] \<and> distinct ps)"
proof -
  have "runArgumentsSchema (enc_arguments concrete_arguments) = Some concrete_arguments"
    by (simp add: runArgumentsSchema_enc concrete_arguments_ok)
  from accepted_arguments_are_sound [OF this] show ?thesis by blast
qed

end
