(* ===== verification/Tempo_Store.thy ===== *)
theory Tempo_Store
  imports Driver Run_Claims Run_Config
begin

text \<open>
  The resource kinds of \<^verbatim>\<open>tempo.ts\<close> (\<^verbatim>\<open>model.resources\<close>) and the in-memory store of the
  test fixture with them, for which the laws of the store interfaces are discharged.
\<close>

section \<open>Schemas kept as JSON\<close>

text \<open>
  A strict object whose parsed value is only stored: each property with what it accepts, \<open>None\<close> for
  an absent one, in the order of the shape.
\<close>

type_synonym shape_prop = "json option \<Rightarrow> json option option"

definition needed :: "json schema \<Rightarrow> shape_prop" where
  "needed sch v = Option.bind v (\<lambda>x. map_option Some (sch x))"

definition optional :: "json schema \<Rightarrow> shape_prop" where
  "optional sch v = (case v of None \<Rightarrow> Some None | Some x \<Rightarrow> map_option Some (sch x))"

definition defaulted :: "json \<Rightarrow> json schema \<Rightarrow> shape_prop" where
  "defaulted d sch v = (case v of None \<Rightarrow> Some (Some d) | Some x \<Rightarrow> map_option Some (sch x))"

fun shape_body :: "(string \<times> shape_prop) list \<Rightarrow> (string \<times> json) list \<Rightarrow> (string \<times> json) list option" where
  "shape_body [] kvs = Some []"
| "shape_body ((k, p) # ps) kvs = do {
     x \<leftarrow> p (map_of kvs k);
     rest \<leftarrow> shape_body ps kvs;
     Some (case x of None \<Rightarrow> rest | Some y \<Rightarrow> (k, y) # rest) }"

definition z_shape :: "(string \<times> shape_prop) list \<Rightarrow> json schema" where
  "z_shape ps = z_strict (map fst ps) (\<lambda>kvs. map_option JObj (shape_body ps kvs))"

definition js_null_or :: "json schema \<Rightarrow> json schema" where
  "js_null_or sch = reencode (j_nullable (\<lambda>v. v)) (z_nullable sch)"

definition js_text :: "(string \<Rightarrow> bool) \<Rightarrow> json schema" where
  "js_text ok = reencode JStr (z_string_if ok)"

definition js_int :: "(int \<Rightarrow> bool) \<Rightarrow> json schema" where
  "js_int ok = reencode j_int (z_int_if ok)"

definition js_num :: "jsnum schema \<Rightarrow> json schema" where
  "js_num sch = reencode JNum sch"

definition js_items :: "(json list \<Rightarrow> bool) \<Rightarrow> json schema \<Rightarrow> json schema" where
  "js_items ok sch = reencode JArr (z_array_if ok sch)"

definition js_flag :: "json schema" where
  "js_flag = reencode JBool z_bool"

definition js_reference :: "json schema" where
  "js_reference = reencode enc_ref referenceSchema"

definition cleanup_names :: "string list" where
  "cleanup_names = [''absent'', ''stopped'', ''failed'']"

section \<open>The resources of a run\<close>

definition excerptShape :: "json schema" where
  "excerptShape = z_shape [(''text'', needed (js_text (\<lambda>_. True))), (''totalBytes'', needed (js_int z_count)),
     (''truncated'', needed js_flag)]"

definition testExecutionSchema :: "json schema" where
  "testExecutionSchema = z_shape
     [(''runId'', needed (js_text run_id_ok)),
      (''step'', needed (js_int z_positive)),
      (''revision'', needed (js_text revision_ok)),
      (''command'', needed (js_text (\<lambda>s. s = ''bb''))),
      (''args'', needed (js_items (\<lambda>xs. xs = [JStr ''qa'']) (js_text (\<lambda>_. True)))),
      (''valid'', needed js_flag),
      (''passed'', needed js_flag),
      (''sourceUnchanged'', needed js_flag),
      (''error'', needed (js_null_or (js_text (\<lambda>_. True)))),
      (''exitCode'', needed (js_null_or (js_int safe_integer))),
      (''signal'', needed (js_null_or (js_text (\<lambda>_. True)))),
      (''cleanup'', needed (js_null_or (js_text (\<lambda>s. s \<in> set cleanup_names)))),
      (''failureOutput'', needed (js_null_or
        (z_shape [(''stdout'', needed excerptShape), (''stderr'', needed excerptShape)]))),
      (''artifacts'', needed (js_items (\<lambda>_. True) js_reference))]"

definition summaryShape :: "json schema" where
  "summaryShape = z_shape
     [(''kind'', needed (js_text (\<lambda>s. s \<in> {''smoke'', ''benchmark''}))),
      (''protocol'', needed (reencode (\<lambda>p. JStr (protocol_name p)) protocolSchema)),
      (''adapter'', needed (reencode (\<lambda>a. JStr (adapter_name a)) adapterSchema)),
      (''diagnosticRate'', needed (js_num z_positive_number)),
      (''score'', needed (js_null_or (js_num z_positive_number))),
      (''javaVersion'', needed (js_text (\<lambda>_. True))),
      (''h2loadVersion'', needed (js_text (\<lambda>_. True))),
      (''parameters'', needed (reencode enc_parameters benchmarkParametersSchema)),
      (''samples'', needed (js_items (\<lambda>xs. length xs \<in> {1..12}) (js_num z_positive_number))),
      (''sampleSD'', optional (js_num z_nonnegative_number)),
      (''tCritical'', optional (js_num z_positive_number)),
      (''ciHalfWidth'', optional (js_num z_nonnegative_number)),
      (''relativeHalfWidth'', optional (js_num z_nonnegative_number))]"

definition benchmarkRecordSchema :: "json schema" where
  "benchmarkRecordSchema = z_shape
     [(''runId'', needed (js_text run_id_ok)),
      (''purpose'', needed (js_text (\<lambda>s. s \<in> {''smoke'', ''measurement''}))),
      (''protocol'', needed (reencode (\<lambda>p. JStr (protocol_name p)) protocolSchema)),
      (''adapter'', needed (reencode (\<lambda>a. JStr (adapter_name a)) adapterSchema)),
      (''revision'', needed (js_text revision_ok)),
      (''nativeSha256'', needed (js_text sha256_ok)),
      (''hostname'', needed (js_text (\<lambda>_. True))),
      (''method'', needed (js_text (\<lambda>s. s = benchmarkMethod))),
      (''scorePolicyVersion'', needed (js_text (\<lambda>s. s = scorePolicyVersion))),
      (''precision'', needed (reencode enc_precision precisionSchema)),
      (''plannedSamples'', needed (js_int (\<lambda>n. n \<in> {1, 6, 12}))),
      (''placement'', needed (reencode enc_placement placementProvenanceSchema)),
      (''valid'', needed js_flag),
      (''inconclusive'', defaulted (JBool False) js_flag),
      (''error'', needed (js_null_or (js_text (\<lambda>_. True)))),
      (''summary'', needed (js_null_or summaryShape)),
      (''batches'', needed (js_items (\<lambda>bs. length bs \<le> 2) (z_shape
        [(''output'', optional (js_text (\<lambda>_. True))),
         (''samples'', needed (js_items (\<lambda>xs. length xs \<in> {1..6}) (js_num z_positive_number)))]))),
      (''files'', needed (js_items (\<lambda>_. True) (z_shape
        [(''path'', needed (js_text (\<lambda>_. True))), (''reference'', needed js_reference)]))),
      (''omitted'', needed (js_items (\<lambda>_. True) (js_text (\<lambda>_. True)))),
      (''logs'', needed (js_items (\<lambda>_. True) js_reference)),
      (''exitCode'', needed (js_null_or (js_int safe_integer))),
      (''cleanup'', needed (js_null_or (js_text (\<lambda>s. s \<in> set cleanup_names))))]"

definition piExecutionSchema :: "json schema" where
  "piExecutionSchema = z_shape
     [(''runId'', needed (js_text run_id_ok)),
      (''step'', needed (js_int z_positive)),
      (''revision'', needed (js_text revision_ok)),
      (''success'', needed js_flag),
      (''error'', needed (js_null_or (js_text (\<lambda>_. True)))),
      (''exitCode'', needed (js_null_or (js_int safe_integer))),
      (''signal'', needed (js_null_or (js_text (\<lambda>_. True)))),
      (''cleanup'', needed (js_null_or (js_text (\<lambda>s. s \<in> set cleanup_names)))),
      (''modelTurns'', needed (js_null_or (js_int z_count))),
      (''totalTokens'', needed (js_null_or (js_int z_count))),
      (''artifacts'', needed (js_items (\<lambda>_. True) js_reference))]"

text \<open>\<^verbatim>\<open>z.json()\<close>: JSON whose numbers are finite.\<close>

fun finite_json :: "json \<Rightarrow> bool" where
  "finite_json (JNum x) \<longleftrightarrow> js_finite x"
| "finite_json (JArr vs) \<longleftrightarrow> list_all finite_json vs"
| "finite_json (JObj kvs) \<longleftrightarrow> list_all (\<lambda>(k, v). finite_json v) kvs"
| "finite_json _ \<longleftrightarrow> True"

definition js_finite_record :: "json schema" where
  "js_finite_record v = (case v of JObj _ \<Rightarrow> if finite_json v then Some v else None | _ \<Rightarrow> None)"

definition profileRecordSchema :: "json schema" where
  "profileRecordSchema = z_shape
     [(''runId'', needed (js_text run_id_ok)),
      (''revision'', needed (js_text revision_ok)),
      (''event'', needed (reencode (\<lambda>ev. JStr (profile_event_name ev)) profileEventSchema)),
      (''protocol'', needed (reencode (\<lambda>p. JStr (protocol_name p)) protocolSchema)),
      (''method'', needed (js_text (\<lambda>s. s = benchmarkMethod))),
      (''placement'', needed (reencode enc_placement placementProvenanceSchema)),
      (''diagnosticOnly'', needed (\<lambda>v. if v = JBool True then Some v else None)),
      (''score'', needed (\<lambda>v. if v = JNull then Some v else None)),
      (''valid'', needed js_flag),
      (''error'', needed (js_null_or (js_text (\<lambda>_. True)))),
      (''nativeSha256'', needed (js_text (\<lambda>_. True))),
      (''hostname'', needed (js_text (\<lambda>_. True))),
      (''summary'', needed (js_null_or js_finite_record)),
      (''exitCode'', needed (js_null_or (js_int safe_integer))),
      (''cleanup'', needed (js_null_or (js_text (\<lambda>s. s \<in> set cleanup_names)))),
      (''files'', needed (js_items (\<lambda>_. True) (z_shape
        [(''path'', needed (js_text (\<lambda>_. True))),
         (''reference'', needed (z_shape [(''name'', needed (js_text (\<lambda>_. True))),
            (''version'', needed (js_int z_positive))]))]))),
      (''omitted'', needed (js_items (\<lambda>_. True) (js_text (\<lambda>_. True))))]"

text \<open>\<^verbatim>\<open>z.union([agentsContextSchema, experimentBriefSchema])\<close>: the first that accepts.\<close>

definition inferenceInputSchema :: "context_file schema" where
  "inferenceInputSchema v = (case agentsContextSchema v of Some c \<Rightarrow> Some c | None \<Rightarrow> experimentBriefSchema v)"

definition tempo_resources :: resource_table where
  "tempo_resources spec =
     (if spec = ''state'' then Some (reencode enc_state runStateSchema)
      else if spec = ''step'' then Some (reencode enc_step stepResultSchema)
      else if spec = ''inference'' then Some (reencode enc_inference inferenceRecordSchema)
      else if spec = ''inferenceRaw'' then Some (reencode enc_raw_record inferenceRawSchema)
      else if spec = ''comparison'' then Some (reencode enc_comparison comparisonSchema)
      else if spec = ''inferenceInput'' then Some (reencode enc_context_file inferenceInputSchema)
      else if spec = ''runConfig'' then Some (reencode enc_config runConfigSchema)
      else if spec = ''workspace'' then Some (reencode enc_workspace workspaceSchema)
      else if spec = ''runDetail'' then Some runDetailSchema
      else if spec = ''runReport'' then Some runDetailSchema
      else if spec = ''testExecution'' then Some testExecutionSchema
      else if spec = ''benchmark'' then Some benchmarkRecordSchema
      else if spec = ''piExecution'' then Some piExecutionSchema
      else if spec = ''profile'' then Some profileRecordSchema
      else None)"

lemma tempo_normal:
  "table_normal tempo_resources ''state'' (enc_state s) = (if state_ok s then Some (enc_state s) else None)"
  "table_normal tempo_resources ''step'' (enc_step r) = (if step_ok r then Some (enc_step r) else None)"
  "ir_result i \<noteq> Some JNull \<Longrightarrow> table_normal tempo_resources ''inference'' (enc_inference i) =
     (if inference_ok i then Some (enc_inference i) else None)"
  "table_normal tempo_resources ''comparison'' (enc_comparison c) =
     (if comparison_ok c then Some (enc_comparison c) else None)"
  by (simp_all add: table_normal_def tempo_resources_def reencode_def runStateSchema_enc
      stepResultSchema_enc inferenceRecordSchema_enc comparisonSchema_enc)

lemma run_normal:
  "table_normal tempo_resources ''runConfig'' (enc_config f) = (if config_ok f then Some (enc_config f) else None)"
  "table_normal tempo_resources ''workspace'' (enc_workspace w) =
     (if run_id_ok (ws_runId w) \<and> revision_ok (ws_initialRevision w) then Some (enc_workspace w) else None)"
  "table_normal tempo_resources ''runDetail'' v = runDetailSchema v"
  "table_normal tempo_resources ''runReport'' v = runDetailSchema v"
  by (simp_all add: table_normal_def tempo_resources_def reencode_def runConfigSchema_enc workspaceSchema_enc)

section \<open>The in-memory store\<close>

definition tempo_store_ops :: "mem_store store_ops" where
  "tempo_store_ops = mem_ops tempo_resources"

interpretation mem_driver: driver_store tempo_store_ops "\<lambda>st :: mem_store. st"
  "table_normal tempo_resources"
  unfolding driver_store_def tempo_store_def tempo_store_axioms_def tempo_store_ops_def
  using mem.reliable_store_axioms [of tempo_resources] mem.resource_store_axioms [of tempo_resources]
  by (simp add: tempo_normal)

interpretation mem_inference: inference_store tempo_store_ops "\<lambda>st :: mem_store. st"
  "table_normal tempo_resources"
  unfolding inference_store_def inference_store_axioms_def tempo_store_ops_def
  using mem.reliable_store_axioms [of tempo_resources] by (simp add: tempo_normal)

interpretation mem_comparison: reliable_comparison_store tempo_store_ops "\<lambda>st :: mem_store. st"
  "table_normal tempo_resources"
  unfolding reliable_comparison_store_def comparison_store_def comparison_store_axioms_def
    tempo_store_ops_def
  using mem.reliable_store_axioms [of tempo_resources] mem.resource_store_axioms [of tempo_resources]
  by (simp add: tempo_normal)

end
