(* ===== verification/Driver_Claims.thy ===== *)
theory Driver_Claims
  imports Tempo_Store
begin

text \<open>
  The driver and the inference records on the in-memory store of \<open>Tempo_Store\<close>: the properties of a
  saved step, of recovery and of saved responses.
\<close>

section \<open>A concrete store\<close>

definition sample_store :: mem_store where
  "sample_store = (\<lambda>_. [])(state_name ''run-1'' := [enc_state sample_start])"

definition sample_perform :: "mem_store perform" where
  "sample_perform a = returnA \<lparr>se_outcome = Prepared, se_evidence = []\<rparr>"

lemma sample_state_ok: "state_ok sample_start"
  by code_simp

lemma sample_saved: "saved_state sample_store ''run-1'' sample_start"
  using sample_state_ok
  by (simp add: saved_state_def sample_store_def version_at_def runStateSchema_enc
      sample_start_facts(4)) (simp add: state_ok_def sample_start_facts(4))

lemma sample_begin: "begin_active sample_start sample_limits 5 = Inr (reserve_step sample_start 5)"
proof -
  have "limits_ok sample_limits" "progress_ok (progress_of sample_start 5)"
    "may_start sample_limits sample_start 5" by code_simp+
  moreover have "st_phase sample_start = PPrepare" "st_activeStep sample_start = None"
    "st_elapsedMs sample_start = 0" by (simp_all add: sample_start_def)
  ultimately have "beginStep sample_start sample_limits 5 = Inr (reserve_step sample_start 5)"
    unfolding beginStep_Inr by simp
  then show ?thesis by (simp add: begin_active_def)
qed

lemma sample_sequence: "st_sequence (reserve_step sample_start 5) = 1"
  "st_sequence sample_start = 0"
  by (simp_all add: sample_start_def)

lemma sample_step_free: "sample_store (step_name ''run-1'' i) = []"
  by (simp add: sample_store_def)

lemma sample_run: "\<exists>r st'. runSavedStep tempo_store_ops ''run-1'' sample_limits 5 sample_perform
    sample_store = (Inr r, st')"
  using mem_driver.runSavedStep_total [OF sample_saved sample_begin sample_step_free, of sample_perform]
  by (simp add: sample_perform_def sample_sequence max_safe_integer_def) blast

section \<open>Properties of the driver\<close>

text \<open>
  C12: a step the driver completes is exactly one transition of the run state machine: it starts
  from the saved state, completes the reserved step with the outcome of the saved step result,
  and leaves the resulting state as the one the next reader sees, whatever the effect wrote.
\<close>

theorem saved_step_is_one_transition:
  assumes "runSavedStep tempo_store_ops n l e perform st = (Inr r, st')"
  shows "\<exists>s a out. saved_state st n s \<and> begin_active s l e = Inr a \<and>
    finishStep a (st_sequence a) (sr_outcome (ss_record r)) out = Inr (ss_state r) \<and>
    saved_state st' n (ss_state r) \<and> or_name out = step_name n (st_sequence a) \<and>
    sr_phase (ss_record r) = st_phase a \<and> step_ok (ss_record r)"
  by (rule mem_driver.runSavedStep_refines [OF assms]) blast

theorem saved_step_is_one_transition_witness:
  "\<exists>(r :: saved_step) st'. saved_state st' ''run-1'' (ss_state r) \<and> step_ok (ss_record r)"
proof -
  from sample_run obtain r st' where r: "runSavedStep tempo_store_ops ''run-1'' sample_limits 5
    sample_perform sample_store = (Inr r, st')" by blast
  from saved_step_is_one_transition [OF r] show ?thesis by blast
qed

text \<open>
  C13: every effect ends in a saved step result and a saved state. The state with the reserved step is
  saved before the effect; in the store the effect leaves, the result of the step is saved next, as the
  first version under its name, and the state it completes to is saved last, where the next reader
  finds it. The result is of this run, step, phase and revision. An effect that fits the step is recorded with
  its own outcome and evidence; one that throws, or answers an outcome the phase does not accept, is
  recorded as an error, and the saved state is at the finish.
\<close>

theorem every_effect_is_recorded:
  assumes "saved_state st n s" "begin_active s l e = Inr a" "st (step_name n (st_sequence a)) = []"
    "st_sequence s < max_safe_integer"
    "\<And>st1. snd (perform a st1) (step_name n (st_sequence a)) = st1 (step_name n (st_sequence a))"
  shows "\<exists>r st' st1 eff. runSavedStep tempo_store_ops n l e perform st = (Inr r, st') \<and>
    st1 = st(state_name n := st (state_name n) @ [enc_state a]) \<and>
    (fst (perform a st1) = Inr eff \<and> effect_fits n a eff \<or>
     (\<forall>eff'. fst (perform a st1) = Inr eff' \<longrightarrow> \<not> effect_fits n a eff') \<and>
        (\<exists>m. se_outcome eff = Failed m) \<and> st_phase (ss_state r) = PFinish) \<and>
    ss_record r = step_record_of n a eff \<and>
    finishStep a (st_sequence a) (se_outcome eff) \<lparr>or_name = step_name n (st_sequence a), or_version = 1\<rparr> =
      Inr (ss_state r) \<and>
    st' = (snd (perform a st1))(step_name n (st_sequence a) := [enc_step (ss_record r)],
      state_name n := snd (perform a st1) (state_name n) @ [enc_state (ss_state r)]) \<and>
    saved_state st' n (ss_state r)"
proof -
  obtain r st' st1 eff where t: "runSavedStep tempo_store_ops n l e perform st = (Inr r, st')"
    and rest: "st1 = st(state_name n := st (state_name n) @ [enc_state a])"
      "fst (perform a st1) = Inr eff \<and> effect_fits n a eff \<or>
        (\<forall>eff'. fst (perform a st1) = Inr eff' \<longrightarrow> \<not> effect_fits n a eff') \<and>
          (\<exists>m. se_outcome eff = Failed m) \<and> st_phase (ss_state r) = PFinish"
      "ss_record r = step_record_of n a eff"
      "finishStep a (st_sequence a) (se_outcome eff) \<lparr>or_name = step_name n (st_sequence a), or_version = 1\<rparr> =
        Inr (ss_state r)"
      "st' = (snd (perform a st1))(step_name n (st_sequence a) := [enc_step (ss_record r)],
        state_name n := snd (perform a st1) (state_name n) @ [enc_state (ss_state r)])"
    using mem_driver.runSavedStep_total [where perform = perform, OF assms] by (elim exE conjE) (rule that)
  have "saved_state st' n (ss_state r)" by (rule mem_driver.runSavedStep_refines [OF t]) blast
  with t rest show ?thesis by blast
qed

theorem every_effect_is_recorded_witness:
  "\<exists>r st'. runSavedStep tempo_store_ops ''run-1'' sample_limits 5
     (\<lambda>a st. (Inl (Thrown ''boom''), st)) sample_store = (Inr r, st') \<and>
     st' (step_name ''run-1'' 1) = [enc_step (ss_record r)] \<and> saved_state st' ''run-1'' (ss_state r) \<and>
     (\<exists>m. sr_outcome (ss_record r) = Failed m) \<and> st_phase (ss_state r) = PFinish"
proof -
  define boom :: "mem_store perform" where "boom = (\<lambda>a st. (Inl (Thrown ''boom''), st))"
  have n: "st_sequence sample_start < max_safe_integer" by (simp add: sample_sequence max_safe_integer_def)
  have frame: "snd (boom a st1) x = st1 x" for a st1 x by (simp add: boom_def)
  from every_effect_is_recorded [where perform = boom, OF sample_saved sample_begin sample_step_free n frame]
  obtain r st' st1 eff where r: "runSavedStep tempo_store_ops ''run-1'' sample_limits 5 boom sample_store = (Inr r, st')"
      "saved_state st' ''run-1'' (ss_state r)"
      "ss_record r = step_record_of ''run-1'' (reserve_step sample_start 5) eff"
    and d: "fst (boom (reserve_step sample_start 5) st1) = Inr eff \<or>
      (\<exists>m. se_outcome eff = Failed m) \<and> st_phase (ss_state r) = PFinish"
    and s': "st' = (snd (boom (reserve_step sample_start 5) st1))
      (step_name ''run-1'' (st_sequence (reserve_step sample_start 5)) := [enc_step (ss_record r)],
       state_name ''run-1'' := snd (boom (reserve_step sample_start 5) st1) (state_name ''run-1'') @ [enc_state (ss_state r)])"
    by blast
  from d have "(\<exists>m. se_outcome eff = Failed m) \<and> st_phase (ss_state r) = PFinish" by (simp add: boom_def)
  moreover have "st' (step_name ''run-1'' 1) = [enc_step (ss_record r)]"
    unfolding s' by (simp add: sample_sequence step_name_def state_name_def)
  ultimately show ?thesis using r unfolding boom_def [symmetric]
    by (intro exI [of _ r] exI [of _ st']) (simp add: step_record_of_def)
qed

text \<open>
  C14: an interruption between the saving of the step result and of the state it leads to loses
  nothing: recovery does exactly the remaining part of the interrupted step, with the same state,
  reference and store, provided the effect left the run's own resources alone.
\<close>

theorem recovery_completes_the_step:
  assumes "reserveSavedStep tempo_store_ops n l e st = (Inr (a, started), st1)"
    "performStep n a perform st1 = (Inr eff, st2)"
    "saveStepResult tempo_store_ops n a eff st2 = (Inr (rec, out), st3)"
    "st2 (state_name n) = st1 (state_name n)"
    "st2 (step_name n (st_sequence a)) = st1 (step_name n (st_sequence a))"
  shows "recoverSavedStep tempo_store_ops n st3 =
    commitStep tempo_store_ops n a (sr_outcome rec) out st3"
  by (rule mem_driver.recover_resumes [OF assms])

theorem recovery_completes_the_step_witness:
  "\<exists>(rec :: step_record) out st3. recoverSavedStep tempo_store_ops ''run-1'' st3 =
     commitStep tempo_store_ops ''run-1'' (reserve_step sample_start 5) (sr_outcome rec) out st3"
proof -
  from sample_run obtain a started st1 eff st2 rec out st3 where s:
    "reserveSavedStep tempo_store_ops ''run-1'' sample_limits 5 sample_store = (Inr (a, started), st1)"
    "performStep ''run-1'' a sample_perform st1 = (Inr eff, st2)"
    "saveStepResult tempo_store_ops ''run-1'' a eff st2 = (Inr (rec, out), st3)"
    by (auto simp: runSavedStep_def bindA_Inr split: prod.splits)
  have "st2 = st1"
    using s(2) performStep_total [of "''run-1''" a sample_perform st1]
    by (simp add: sample_perform_def)
  then have "recoverSavedStep tempo_store_ops ''run-1'' st3 =
      commitStep tempo_store_ops ''run-1'' a (sr_outcome rec) out st3"
    by (intro recovery_completes_the_step [OF s]) simp_all
  moreover have "a = reserve_step sample_start 5"
  proof -
    obtain s where s': "saved_state sample_store ''run-1'' s" "begin_active s sample_limits 5 = Inr a"
      by (rule mem_driver.reserveSavedStep_Inr [OF s(1)])
    then have "s = sample_start" using sample_saved by (simp add: saved_state_def)
    with s' sample_begin show ?thesis by simp
  qed
  ultimately show ?thesis by blast
qed

text \<open>
  C15: a step left active by an interruption before its result was saved is never repeated:
  running and recovering both throw, and the store keeps what it held.
\<close>

theorem interrupted_effect_not_repeated:
  assumes "saved_state st n a" "st_activeStep a \<noteq> None" "st (step_name n (st_sequence a)) = []"
  shows "(\<exists>m. runSavedStep tempo_store_ops n l e perform st = (Inl m, st)) \<and>
    (\<exists>m. recoverSavedStep tempo_store_ops n st = (Inl (Error m), st))"
proof -
  obtain x st' where r: "runSavedStep tempo_store_ops n l e perform st = (x, st')" by fastforce
  from mem_driver.runSavedStep_active [OF assms(1,2) r] r mem_driver.recover_refuses [OF assms]
  show ?thesis by auto
qed

theorem interrupted_effect_not_repeated_witness:
  "\<exists>m. runSavedStep tempo_store_ops ''run-1'' sample_limits 9 sample_perform
     ((\<lambda>_. [])(state_name ''run-1'' := [enc_state (reserve_step sample_start 5)])) =
     (Inl m, (\<lambda>_. [])(state_name ''run-1'' := [enc_state (reserve_step sample_start 5)]))"
proof -
  let ?st = "(\<lambda>_. [])(state_name ''run-1'' := [enc_state (reserve_step sample_start 5)])"
  have ok: "state_ok (reserve_step sample_start 5)" by code_simp
  then have "saved_state ?st ''run-1'' (reserve_step sample_start 5)"
    by (simp add: saved_state_def version_at_def runStateSchema_enc sample_start_facts(4))
      (simp add: state_ok_def sample_start_facts(4))
  from interrupted_effect_not_repeated [OF this] show ?thesis by simp
qed

text \<open>
  The transitions keep the form the state schema demands, as long as the step number is below
  the largest safe integer, and a state of that form reads back exactly as it was written.
\<close>

theorem transitions_keep_saved_form:
  assumes "state_ok s" "begin_active s l e = Inr a" "st_sequence s < max_safe_integer"
    and "finishStep a n oc out = Inr s'"
  shows "state_ok a \<and> runStateSchema (enc_state a) = Some a \<and>
    state_ok s' \<and> runStateSchema (enc_state s') = Some s'"
  using begin_active_state_ok [OF assms(2,1,3)] finishStep_state_ok [OF assms(4)]
  by (simp add: runStateSchema_enc)

theorem transitions_keep_saved_form_witness:
  "\<exists>s'. finishStep (reserve_step sample_start 5) 1 Prepared sample_out = Inr s' \<and>
     runStateSchema (enc_state s') = Some s'"
proof -
  have "\<exists>s'. finishStep (reserve_step sample_start 5) 1 Prepared sample_out = Inr s'"
    by (simp add: finishStep_def finish_phase_def sample_start_def sample_out_def safe_integer_def
        max_safe_integer_def)
  then obtain s' where s': "finishStep (reserve_step sample_start 5) 1 Prepared sample_out = Inr s'"
    by blast
  have "st_sequence sample_start < max_safe_integer"
    by (simp add: sample_sequence max_safe_integer_def)
  from transitions_keep_saved_form [OF sample_state_ok sample_begin this s'] s' show ?thesis by blast
qed

text \<open>
  A step result is accepted by its schema exactly when it is well formed, and the accepted
  value is the one that was written; so a saved result never changes by being read.
\<close>

theorem step_result_roundtrip:
  "stepResultSchema (enc_step r) = (if step_ok r then Some r else None)"
  by (rule stepResultSchema_enc)

section \<open>Properties of the inference records\<close>

text \<open>
  C17: a response is saved as valid only when the process succeeded, the text parses and has the
  form of its stage, and every output it cites is one of the saved inputs, at its exact version.
\<close>

theorem valid_response_is_checked:
  assumes "saveInference ops jparse c txt exitCode failure st = (Inr r, st')"
    and "ir_valid (si_record r)"
  shows "failure = None \<and> exitCode = Some 0 \<and> (\<exists>v parsed. jparse txt = Inr v \<and>
    ir_result (si_record r) = Some v \<and> inferenceSchemas (ic_stage c) v = Some parsed \<and>
    result_evidence parsed \<noteq> [] \<and> set (result_evidence parsed) \<subseteq> set (ic_inputs c))"
proof -
  from saveInference_Inr [OF assms(1)] obtain raw where
    r: "si_record r = verdict_record c raw (check_response jparse c txt exitCode failure)" by metis
  with assms(2) obtain v where v: "check_response jparse c txt exitCode failure = Inr v"
    by (auto simp: verdict_record_fields)
  with r have "ir_result (si_record r) = Some v" by (simp add: verdict_record_fields)
  with v show ?thesis by (auto simp: check_response_Inr dest: inferenceSchemas_accepts)
qed

definition sample_context :: inference_context where
  "sample_context = \<lparr>ic_runId = ''run-1'', ic_step = 7, ic_stage = PImplement,
     ic_revision = sample_rev (CHR ''a''), ic_snapshotSha256 = replicate 64 (CHR ''b''),
     ic_inputs = [\<lparr>or_name = ''handoff'', or_version = 2\<rparr>]\<rparr>"

definition sample_response :: json where
  "sample_response = JObj [(''summary'', JStr ''faster''),
     (''evidence'', enc_refs [\<lparr>or_name = ''handoff'', or_version = 2\<rparr>])]"

lemma sample_response_checked:
  "check_response (\<lambda>_. Inr sample_response) sample_context ''{}'' (Some 0) None = Inr sample_response"
  by (simp add: check_response_Inr inferenceSchemas_def sample_context_def editSchema_def
      sample_response_def z_text_def ref_ok_def z_positive_def safe_integer_def max_safe_integer_def)

lemma sample_saved_inference:
  "\<exists>r st'. saveInference tempo_store_ops (\<lambda>_. Inr sample_response) sample_context ''{}'' (Some 0) None
     (\<lambda>_. []) = (Inr r, st') \<and> ir_valid (si_record r)"
proof -
  let ?raw = "\<lparr>or_name = inference_name sample_context ''raw'', or_version = 1\<rparr>"
  let ?rec = "verdict_record sample_context ?raw (Inr sample_response)"
  have c: "context_ok sample_context" "run_id_ok (ic_runId sample_context)" by code_simp+
  have "inferenceRawSchema (enc_raw sample_context ''{}'' (Some 0)) \<noteq> None"
    using c by (simp add: inferenceRawSchema_def enc_raw_def context_fields_def context_body_def
        context_ok_def safe_integer_def max_safe_integer_def)
  then obtain st1 where w: "so_write tempo_store_ops ''inferenceRaw''
      (inference_name sample_context ''raw'') (enc_raw sample_context ''{}'' (Some 0)) (\<lambda>_. []) =
      (Inr ?raw, st1)"
    by (auto simp: tempo_store_ops_def mem_ops_def mem_write_def tempo_resources_def reencode_def)
  have ok: "inference_ok ?rec" by code_simp
  have n: "ir_result ?rec \<noteq> Some JNull" by (simp add: verdict_record_def sample_response_def)
  obtain out st2 where w2: "so_write tempo_store_ops ''inference''
      (inference_name sample_context ''result'') (enc_inference ?rec) st1 = (Inr out, st2)"
    using ok n mem_driver.write_eq [of "''inference''" "enc_inference ?rec"]
      mem_inference.inference_normal [OF n] by metis
  have "saveInference tempo_store_ops (\<lambda>_. Inr sample_response) sample_context ''{}'' (Some 0) None
     (\<lambda>_. []) = (Inr \<lparr>si_raw = ?raw, si_saved = out, si_record = ?rec\<rparr>, st2)"
    using ok w2 by (simp add: saveInference_def bindA_def w sample_response_checked zparse_def
        inferenceRecordSchema_enc [OF n])
  then show ?thesis by (simp add: verdict_record_def)
qed

theorem valid_response_is_checked_witness:
  "\<exists>v parsed. inferenceSchemas PImplement v = Some parsed \<and> result_evidence parsed \<noteq> [] \<and>
     set (result_evidence parsed) \<subseteq> {\<lparr>or_name = ''handoff'', or_version = 2\<rparr>}"
proof -
  from sample_saved_inference obtain r st' where
    "saveInference tempo_store_ops (\<lambda>_. Inr sample_response) sample_context ''{}'' (Some 0) None
     (\<lambda>_. []) = (Inr r, st')" "ir_valid (si_record r)" by blast
  from valid_response_is_checked [OF this] show ?thesis
    by (auto simp: sample_context_def)
qed

text \<open>
  C18: reading a saved response back under its reference and its context gives the parsed result
  when it was valid, and an error when it was not.
\<close>

theorem saved_response_reads_back:
  assumes "saveInference tempo_store_ops jparse c txt exitCode failure st = (Inr r, st')"
  shows "readInference tempo_store_ops (si_saved r) c st' =
    (if ir_valid (si_record r)
     then zparse ''inference'' (inferenceSchemas (ic_stage c)) (or_null (ir_result (si_record r)))
     else Inl (Error ''Cannot use an invalid inference output''), st')"
  by (rule mem_inference.read_saved_inference [OF assms])

theorem saved_response_reads_back_witness:
  "\<exists>(r :: saved_inference) st'. readInference tempo_store_ops (si_saved r) sample_context st' =
     (zparse ''inference'' (inferenceSchemas PImplement) (or_null (ir_result (si_record r))), st')"
proof -
  from sample_saved_inference obtain r st' where
    r: "saveInference tempo_store_ops (\<lambda>_. Inr sample_response) sample_context ''{}'' (Some 0) None
     (\<lambda>_. []) = (Inr r, st')" "ir_valid (si_record r)" by blast
  from saved_response_reads_back [OF r(1)] r(2) have
    "readInference tempo_store_ops (si_saved r) sample_context st' =
     (zparse ''inference'' (inferenceSchemas (ic_stage sample_context)) (or_null (ir_result (si_record r))), st')"
    by simp
  moreover have "ic_stage sample_context = PImplement" by (simp add: sample_context_def)
  ultimately show ?thesis by metis
qed

text \<open>A passing review saved for an active review step.\<close>

definition sample_review_context :: inference_context where
  "sample_review_context = sample_context\<lparr>ic_stage := PReview\<rparr>"

definition sample_review_state :: run_state where
  "sample_review_state = sample_start\<lparr>st_phase := PReview, st_sequence := 7, st_activeStep := Some 7\<rparr>"

definition sample_review :: json where
  "sample_review = JObj [(''verdict'', JStr ''pass''), (''findings'', JArr []),
     (''evidence'', enc_refs [\<lparr>or_name = ''handoff'', or_version = 2\<rparr>])]"

definition sample_review_store :: mem_store where
  "sample_review_store = (\<lambda>_. [])(''resp'' := [enc_inference
     (verdict_record sample_review_context sample_out (Inr sample_review))])"

lemma sample_review_effect:
  "readInferenceEffect tempo_store_ops sample_review_state sample_review_context
     \<lparr>or_name = ''resp'', or_version = 1\<rparr> None sample_review_store =
   (Inr \<lparr>se_outcome = Reviewed (sample_rev (CHR ''a'')) True,
      se_evidence = [\<lparr>or_name = ''resp'', or_version = 1\<rparr>]\<rparr>, sample_review_store)"
proof -
  let ?rec = "verdict_record sample_review_context sample_out (Inr sample_review)"
  have ok: "inference_ok ?rec" by code_simp
  have n: "ir_result ?rec \<noteq> Some JNull" by (simp add: verdict_record_def sample_review_def)
  have parse: "inferenceSchemas PReview sample_review =
      Some (ReviewVerdict True [] [\<lparr>or_name = ''handoff'', or_version = 2\<rparr>])"
    by (simp add: inferenceSchemas_def reviewSchema_def sample_review_def z_array_if_def ref_ok_def
        z_positive_def safe_integer_def max_safe_integer_def)
  have match: "context_matches sample_review_state sample_review_context"
    by (simp add: context_matches_def sample_review_state_def sample_review_context_def
        sample_context_def sample_start_def)
  have read: "readInference tempo_store_ops \<lparr>or_name = ''resp'', or_version = 1\<rparr>
      sample_review_context sample_review_store =
      (Inr (ReviewVerdict True [] [\<lparr>or_name = ''handoff'', or_version = 2\<rparr>]), sample_review_store)"
    using ok inferenceRecordSchema_enc [OF n]
    by (simp add: readInference_def bindA_def mem_driver.read_eq sample_review_store_def version_at_def
        zparse_def) (simp add: verdict_record_def sample_review_context_def parse)
  show ?thesis
    using match by (simp add: readInferenceEffect_def catchA_def bindA_def read effect_outcome_def)
      (simp add: sample_review_state_def sample_start_def)
qed

text \<open>
  C16: turning a saved response into an effect never throws and cites exactly the response. Its
  outcome is an error or one the phase of the active step accepts, so that the state machine
  never rejects an inference effect; a passing review comes from a response with no blocking
  finding.
\<close>

theorem inference_effect_fits_phase:
  "\<exists>eff st'. readInferenceEffect ops s c reference edited st = (Inr eff, st') \<and>
     se_evidence eff = [reference] \<and>
     ((\<exists>m. se_outcome eff = Failed m) \<or> (\<exists>s'. finish_phase s t (se_outcome eff) = Inr s')) \<and>
     (se_outcome eff = Reviewed v True \<longrightarrow> (\<exists>fs ev st'. readInference ops reference c st =
        (Inr (ReviewVerdict True fs ev), st') \<and> \<not> list_ex (\<lambda>x. vf_severity x = Blocking) fs))"
proof (cases rule: readInferenceEffect_cases [of s c ops reference st edited])
  case (read res oc st')
  have acc: "stage_accepts (st_phase s) res"
    using readInference_Inr [OF read(2)] read(1) by (simp add: context_matches_def)
  then have "\<exists>s'. finish_phase s t oc = Inr s'" using effect_outcome_Inr [OF read(3)] by blast
  moreover have "\<exists>fs ev. res = ReviewVerdict True fs ev \<and>
      \<not> list_ex (\<lambda>x. vf_severity x = Blocking) fs" if "oc = Reviewed v True"
    using read(3) acc that by (cases res) (auto simp: effect_outcome_def stage_accepts_def res_simps
        split: option.splits)
  ultimately show ?thesis using read(2,4) by auto
next
  case (failed e st')
  then show ?thesis by auto
qed

theorem inference_effect_fits_phase_witness:
  "\<exists>fs ev st'. readInference tempo_store_ops \<lparr>or_name = ''resp'', or_version = 1\<rparr>
     sample_review_context sample_review_store = (Inr (ReviewVerdict True fs ev), st') \<and>
     \<not> list_ex (\<lambda>x. vf_severity x = Blocking) fs"
  using inference_effect_fits_phase [of tempo_store_ops sample_review_state sample_review_context
      "\<lparr>or_name = ''resp'', or_version = 1\<rparr>" None sample_review_store sample_review_state
      "sample_rev (CHR ''a'')"]
  unfolding sample_review_effect by auto

end
