(* ===== verification/Comparison_Claims.thy ===== *)
theory Comparison_Claims
  imports Driver_Claims
begin

text \<open>
  The properties of a saved comparison on the store with the resource kinds of \<^verbatim>\<open>tempo.ts\<close>, and
  the concrete benchmark outputs of their witnesses: six equal rates for the best and for the
  working revision, and Math functions simple enough to follow the statistics by hand.
\<close>

section \<open>Concrete benchmark outputs\<close>

definition check_math :: js_math where
  "check_math = \<lparr>m_sin = (\<lambda>x. Fin 1), m_cos = (\<lambda>x. Fin 0), m_tan = (\<lambda>x. Fin 2),
     m_sqrt = (\<lambda>x. if x = Fin 0 then Fin 0 else Fin 1),
     m_pow = (\<lambda>x y. if y = Fin 4 then NaN else if y = Fin 3 then Fin 4
       else if y = Fin 1 then Fin (- half_pi) else Fin 0)\<rparr>"

definition check_precision_value :: precision where
  "check_precision_value = \<lparr>pn_relativeHalfWidth = Fin (1 / 2), pn_confidenceLevel = Fin (3 / 4)\<rparr>"

definition bench_parameters :: parameters where
  "bench_parameters = \<lparr>pa_warmup = 1, pa_duration = 1, pa_repetitions = 3, pa_connections = 1,
     pa_streams = 1, pa_threads = 1, pa_buskerWorkers = None\<rparr>"

definition bench_json :: "string \<Rightarrow> int \<Rightarrow> json" where
  "bench_json revision r = JObj [(''runId'', JStr ''run-1''), (''purpose'', JStr ''measurement''),
     (''protocol'', JStr ''h1''), (''adapter'', JStr ''busker''), (''revision'', JStr revision),
     (''nativeSha256'', JStr sample_sha), (''hostname'', JStr ''h''), (''method'', JStr benchmarkMethod),
     (''scorePolicyVersion'', JStr scorePolicyVersion), (''precision'', enc_precision check_precision_value),
     (''plannedSamples'', j_int 6), (''placement'', enc_placement \<lparr>pl_topology = [], pl_realH2load = ''b''\<rparr>),
     (''valid'', JBool True), (''inconclusive'', JBool False), (''exitCode'', j_int 0),
     (''cleanup'', JStr ''stopped''),
     (''summary'', JObj [(''kind'', JStr ''benchmark''), (''protocol'', JStr ''h1''),
        (''adapter'', JStr ''busker''), (''score'', j_int r), (''diagnosticRate'', j_int r),
        (''javaVersion'', JStr ''25''), (''h2loadVersion'', JStr ''1''),
        (''parameters'', enc_parameters bench_parameters),
        (''samples'', JArr (map j_int (replicate 6 r))), (''sampleSD'', j_int 0),
        (''tCritical'', JNum (Fin (1 / 2))), (''ciHalfWidth'', j_int 0), (''relativeHalfWidth'', j_int 0)]),
     (''batches'', JArr (replicate 2 (JObj [(''samples'', JArr (map j_int (replicate 3 r)))])))]"

definition bench_record :: "string \<Rightarrow> int \<Rightarrow> saved_benchmark" where
  "bench_record revision r = \<lparr>sb_runId = ''run-1'', sb_protocol = H1, sb_adapter = Busker,
     sb_revision = revision, sb_nativeSha256 = sample_sha, sb_hostname = ''h'',
     sb_precision = check_precision_value, sb_plannedSamples = 6,
     sb_placement = \<lparr>pl_topology = [], pl_realH2load = ''b''\<rparr>, sb_cleanup = ''stopped'',
     sb_summary = \<lparr>sm_protocol = H1, sm_adapter = Busker, sm_score = Fin (of_int r),
       sm_diagnosticRate = Fin (of_int r), sm_javaVersion = ''25'', sm_h2loadVersion = ''1'',
       sm_parameters = bench_parameters, sm_samples = replicate 6 (Fin (of_int r)), sm_sampleSD = Fin 0,
       sm_tCritical = Fin (1 / 2), sm_ciHalfWidth = Fin 0, sm_relativeHalfWidth = Fin 0\<rparr>,
     sb_batches = replicate 2 (replicate 3 (Fin (of_int r)))\<rparr>"

lemma positive_number_int [simp]:
  "z_positive_number (j_int r) = (if 0 < r then Some (Fin (of_int r)) else None)"
  by (simp add: z_positive_number_def j_int_def)

lemma positive_number_JNum [simp]:
  "z_positive_number (JNum (Fin x)) = (if 0 < x then Some (Fin x) else None)"
  by (simp add: z_positive_number_def)

lemma nonnegative_number_int [simp]:
  "z_nonnegative_number (j_int r) = (if 0 \<le> r then Some (Fin (of_int r)) else None)"
  by (simp add: z_nonnegative_number_def j_int_def)

lemma z_samples_replicate: "0 < r \<Longrightarrow> lo \<le> n \<Longrightarrow> n \<le> hi \<Longrightarrow>
    z_samples lo hi (JArr (map j_int (replicate n r))) = Some (replicate n (Fin (of_int r)))"
proof -
  assume r: "0 < r" "lo \<le> n" "n \<le> hi"
  have "those (map z_positive_number (map j_int (replicate n r))) = Some (replicate n (Fin (of_int r)))"
    using r(1) by (induction n) simp_all
  then show ?thesis using r by (simp add: z_samples_def z_array_if_def del: map_map map_replicate)
qed

lemma bench_json_read:
  assumes "0 < r"
  shows "savedBenchmarkSchema (bench_json revision r) = Some (bench_record revision r)"
proof -
  have sha: "sha256_ok sample_sha" by code_simp
  have zero: "z_literal_int 0 (j_int 0) = Some ()" by (simp add: z_literal_int_def j_int_def)
  have params: "benchmarkParametersSchema (enc_parameters bench_parameters) = Some bench_parameters"
    by (simp add: benchmarkParametersSchema_def enc_parameters_def bench_parameters_def parameter_body_def
        z_positive_def safe_integer_def max_safe_integer_def)
  have place: "placementProvenanceSchema (enc_placement \<lparr>pl_topology = [], pl_realH2load = ''b''\<rparr>) =
      Some \<lparr>pl_topology = [], pl_realH2load = ''b''\<rparr>"
    by (simp add: placementProvenanceSchema_def enc_placement_def z_array_def z_array_if_def)
  have precision: "precisionSchema (enc_precision check_precision_value) = Some check_precision_value"
    by (simp add: precisionSchema_enc) (simp add: precision_ok_def check_precision_value_def)
  have summary: "savedSummarySchema (JObj [(''kind'', JStr ''benchmark''), (''protocol'', JStr ''h1''),
        (''adapter'', JStr ''busker''), (''score'', j_int r), (''diagnosticRate'', j_int r),
        (''javaVersion'', JStr ''25''), (''h2loadVersion'', JStr ''1''),
        (''parameters'', enc_parameters bench_parameters),
        (''samples'', JArr (map j_int (replicate 6 r))), (''sampleSD'', j_int 0),
        (''tCritical'', JNum (Fin (1 / 2))), (''ciHalfWidth'', j_int 0), (''relativeHalfWidth'', j_int 0)])
      = Some (sb_summary (bench_record revision r))"
    using assms params z_samples_replicate [of r 6 6 12]
    by (simp add: savedSummarySchema_def bench_record_def protocolSchema_def adapterSchema_def
        protocol_name_def adapter_name_def del: map_replicate)
  show ?thesis
    using assms sha zero params place precision summary z_samples_replicate [of r 3 3 6]
    by (simp add: savedBenchmarkSchema_def bench_json_def bench_record_def protocolSchema_def
        adapterSchema_def protocol_name_def adapter_name_def z_array_if_def numeral_2_eq_2
        del: map_replicate)
qed

text \<open>Six equal rates: no spread, and a critical value that follows from the constant functions.\<close>

lemma fl64_numeral [simp]: "(numeral k :: int) < 2 ^ 53 \<Longrightarrow> fl64 (numeral k) = Fin (numeral k)"
  using fl64_int [of "numeral k"] by simp

lemma fl64_small [simp]: "fl64 0 = Fin 0" "fl64 1 = Fin 1" "fl64 (1 / 4) = Fin (1 / 4)"
    "fl64 (1 / 2) = Fin (1 / 2)"
  using fl64_int [of 0] fl64_int [of 1] fl64_quarters [of 1] fl64_quarters [of 2] by simp_all

lemma js_lt_NaN [simp]: "\<not> js_lt x NaN"
  by (cases x) simp_all

lemma check_critical: "studentTCritical check_math 6 (Fin (3 / 4)) = Inr (Fin (1 / 2))"
proof -
  have fields: "m_sqrt check_math x = (if x = Fin 0 then Fin 0 else Fin 1)" "m_tan check_math x = Fin 2" for x
    by (simp_all add: check_math_def)
  obtain z where z: "fl64 (2 / 3) = Fin z"
    using fl64_between [of 0 "2 / 3" 1] binary64.zero binary64.one by auto
  have pi: "fl64 half_pi = Fin half_pi" "fl64 (- half_pi) = Fin (- half_pi)"
    using half_pi by (auto intro!: fl64_exactI simp: rnd64_minus)
  have whole: "cosinePowerIntegral check_math (js_div js_pi (Fin 2)) 4 = Fin 1"
    by (simp add: cosinePowerIntegral_def check_math_def half_pi(1) upt_rec cosine_step_def Let_def
        js_nat_def js_of_int_def z pi)
  have foldl_NaN: "foldl (\<lambda>sum index. js_add sum (f index)) NaN xs = NaN" for f :: "nat \<Rightarrow> jsnum" and xs
    by (induction xs) simp_all
  have "m_pow check_math x (js_nat 4) = NaN" for x
    by (simp add: check_math_def js_nat_def js_of_int_def)
  then have area: "sinePowerIntegral check_math a 4 = NaN" for a
    by (simp add: sinePowerIntegral_def Let_def foldl_NaN)
  obtain l u where b: "bisect (\<lambda>midpoint. NaN) (Fin (1 / 4)) 96 = (Fin l, Fin u)"
    using bisect_bracket by blast
  have "js_sub (Fin 1) (Fin (3 / 4)) = Fin (1 / 4)" by (simp add: js_sub_def)
  moreover have "js_sub NaN (Fin (1 / 4)) = NaN" by (simp add: js_sub_def)
  ultimately show ?thesis
    using b whole area fields
    by (simp add: studentTCritical_def Let_def safe_integer_def max_safe_integer_def js_le_def js_eq_def
        js_of_int_def)
qed

lemma bench_precision:
  assumes "r = 64 \<or> r = 128"
  shows "precisionSummary check_math (replicate 6 (Fin (of_int r))) check_precision_value =
    Inr \<lparr>ps_rates = replicate 6 (Fin (of_int r)), ps_mean = Fin (of_int r), ps_sampleSD = Fin 0,
      ps_tCritical = Fin (1 / 2), ps_ciHalfWidth = Fin 0, ps_relativeHalfWidth = Fin 0\<rparr>"
proof -
  have ok: "precision_ok check_precision_value"
    by (simp add: precision_ok_def check_precision_value_def)
  have six: "replicate 6 x = [x, x, x, x, x, x]" for x :: jsnum
    by (simp add: numeral_eq_Suc)
  have fields: "m_sqrt check_math x = (if x = Fin 0 then Fin 0 else Fin 1)"
    "m_pow check_math x (Fin 2) = Fin 0" for x
    by (simp_all add: check_math_def)
  from assms show ?thesis
    using ok check_critical
    by (elim disjE)
      (simp_all add: precisionSummary_def check_precision_def sampleSummary_def six Let_def js_le_def
        js_eq_def js_sum_def js_nat_def js_of_int_def js_sub_def fields check_precision_value_def)
qed

lemma bench_checked:
  assumes "r = 64 \<or> r = 128"
  shows "check_record check_math ''run-1'' revision check_precision_value (bench_record revision r) = Inr ()"
proof -
  have pooled: "pooled_rates (bench_record revision r) = replicate 6 (Fin (of_int r))"
    by (simp add: pooled_rates_def bench_record_def numeral_eq_Suc)
  have "precision_ok check_precision_value"
    by (simp add: precision_ok_def check_precision_value_def)
  then show ?thesis
    using assms
    by (simp add: check_record_def pooled bench_precision [OF assms])
      (simp add: bench_record_def repetitions_of_def bench_parameters_def scoredRepetitions_def
        meetsPrecision_def check_precision_def statistics_match_def js_eq_def check_precision_value_def
        numeral_2_eq_2)
qed

definition bench_measurement :: "string \<Rightarrow> output_ref \<Rightarrow> int \<Rightarrow> measurement" where
  "bench_measurement revision ref' r = \<lparr>me_kind = ''benchmark'', me_id = ref_label ref',
     me_revision = revision, me_protocolId = protocol_id (\<lambda>_. ''0'')
       [(H1, signature_of (\<lambda>_. ''0'') (bench_record [] 64))], me_nativeSha256 = Some sample_sha,
     me_scores = [\<lparr>sc_workload = ''h1'', sc_adapter = ''busker'', sc_requestsPerSecond = Fin (of_int r),
       sc_valid = True\<rparr>]\<rparr>"

lemma bench_measured: "measurement_of (\<lambda>_. ''0'') revision [(ref', bench_record revision r)] =
    Inr (bench_measurement revision ref' r)"
  by (simp add: measurement_of_def bench_measurement_def Let_def signature_of_def)
    (simp add: bench_record_def protocol_name_def adapter_name_def)

section \<open>A concrete comparison\<close>

definition best_revision :: string where
  "best_revision = replicate 40 (CHR ''b'')"

definition bench_ref :: "string \<Rightarrow> output_ref" where
  "bench_ref n = \<lparr>or_name = n, or_version = 1\<rparr>"

definition bench_store :: mem_store where
  "bench_store = (\<lambda>_. [])(''best'' := [bench_json best_revision 64], ''work'' := [bench_json ''w'' 128])"

definition bench_refs :: comparison_refs where
  "bench_refs = \<lparr>rf_initial = [bench_ref ''best''], rf_best = [bench_ref ''best''],
     rf_current = [bench_ref ''work'']\<rparr>"

definition bench_state :: run_state where
  "bench_state = sample_start\<lparr>st_runId := ''run-1'', st_phase := PMeasure, st_initialRevision := best_revision,
     st_bestRevision := best_revision, st_workingRevision := ''w'', st_sequence := 9, st_activeStep := Some 9\<rparr>"

definition bench_goal :: goal where
  "bench_goal = ImproveBaseline (Fin (3 / 2)) [''h1'']"

lemma bench_read:
  assumes "r = 64 \<or> r = 128" "st n = [bench_json revision r]" "n \<noteq> []"
  shows "readMeasurement tempo_store_ops check_math (\<lambda>_. ''0'') ''run-1'' revision [bench_ref n]
      check_precision_value st = (Inr (bench_measurement revision (bench_ref n) r), st)"
proof -
  have "so_read tempo_store_ops n (Some 1) st = (Inr (Some (bench_json revision r)), st)"
    using assms(2) by (simp add: tempo_store_ops_def mem_ops_def mem_read_def version_at_def)
  then show ?thesis
    using assms(1,3) bench_json_read [of r revision] bench_checked [of r revision]
    by (auto simp: readMeasurement_def bench_ref_def bindA_def zparse_def ref_ok_def z_positive_def
        safe_integer_def max_safe_integer_def bench_measured)
qed

definition bench_fraction :: jsnum where
  "bench_fraction = fl64 (5 / 100)"

definition bench_verdict :: candidate_result where
  "bench_verdict = assessCandidate bench_goal [] (bench_measurement best_revision (bench_ref ''best'') 64)
     (bench_measurement best_revision (bench_ref ''best'') 64)
     (bench_measurement ''w'' (bench_ref ''work'') 128) bench_fraction"

text \<open>The measurement of the best revision, as the store holds it or as a parent run hands it on.\<close>

definition bench_best :: measurement where
  "bench_best = bench_measurement best_revision (bench_ref ''best'') 64"

definition bench_parent :: parent_measurements where
  "bench_parent = \<lparr>pm_initial = Some bench_best, pm_best = Some bench_best,
     pm_identity = \<lparr>pi_runId = ''run-0'', pi_sha256 = replicate 64 (CHR ''a'')\<rparr>\<rparr>"

lemma bench_parent_ok: "sha256_ok (pi_sha256 (pm_identity bench_parent))"
  "Option.bind (Some bench_parent) pm_initial = Some bench_best" "Option.bind (Some bench_parent) pm_best = Some bench_best"
proof -
  have "sha256_ok (replicate 64 (CHR ''a''))" by code_simp
  then show "sha256_ok (pi_sha256 (pm_identity bench_parent))" by (simp add: bench_parent_def)
qed (simp_all add: bench_parent_def)

lemma bench_best_double: "\<forall>s \<in> set (me_scores bench_best). is_double (sc_requestsPerSecond s)"
  using rnd64_of_int [of 64] by (simp add: bench_best_def bench_measurement_def) (simp add: pow2_def)

lemma bench_assessed:
  assumes "p0 \<in> {None, Some bench_best}" "pb \<in> {None, Some bench_best}"
  shows "assess_saved tempo_store_ops check_math (\<lambda>_. ''0'') bench_state bench_goal [] bench_refs
    bench_fraction check_precision_value p0 pb bench_store = (Inr bench_verdict, bench_store)"
proof -
  have "bench_store ''best'' = [bench_json best_revision 64]" "bench_store ''work'' = [bench_json ''w'' 128]"
    by (simp_all add: bench_store_def)
  then have reads: "readMeasurement tempo_store_ops check_math (\<lambda>_. ''0'') ''run-1'' best_revision
      [bench_ref ''best''] check_precision_value bench_store =
        (Inr (bench_measurement best_revision (bench_ref ''best'') 64), bench_store)"
    "readMeasurement tempo_store_ops check_math (\<lambda>_. ''0'') ''run-1'' ''w''
      [bench_ref ''work''] check_precision_value bench_store =
        (Inr (bench_measurement ''w'' (bench_ref ''work'') 128), bench_store)"
    by (simp_all add: bench_read)
  show ?thesis
    using assms by (auto simp: assess_saved_def parent_or_def bench_state_def bench_refs_def bindA_def reads
        bench_verdict_def bench_best_def returnA_def)
qed

lemma bench_improved: "cr_improved bench_verdict = Some True"
proof -
  have f: "fl64 (75660473739824333 / 72057594037927936) = Fin (4728779608739021 / 4503599627370496)"
    by (rule fl64_evalI [where k = 0 and m = 4728779608739021]) (simp_all add: pow2_def)
  have m: "fl64 (4728779608739021 / 70368744177664) = Fin (4728779608739021 / 70368744177664)"
    using fl64_of_dyadic [of 4728779608739021 46] by simp
  have rates: "unique_rate (bench_measurement revision ref' r) ''h1'' busker = Some (Fin (of_int r))"
    if "0 < r" for revision ref' r
    using that by (simp add: bench_measurement_def control_defs)
  have json: "json_text f (JArr vs) \<noteq> []" for f vs by simp
  have e: "goal_errors bench_goal (bench_measurement best_revision (bench_ref ''best'') 64)
      (bench_measurement revision ref' r) = []"
    if "revision \<noteq> []" "or_name ref' \<noteq> []" for revision ref' r
    using that json [of "\<lambda>_. ''0''"]
    by (simp add: goal_errors_def bench_goal_def goal_workloads_def bench_measurement_def bench_ref_def
        ref_label_def best_revision_def protocol_id_def del: json_text.simps)
  show ?thesis
    unfolding bench_verdict_def assessCandidate_improved assessCandidate_errors assessGoal_errors
    using e [of best_revision "bench_ref ''best''"] e [of "''w''" "bench_ref ''work''"] rates
    by (simp add: bench_ref_def best_revision_def candidate_errors_def fl64_1_20 fl64_3_100 workload_comparable_def
        bench_goal_def goal_workloads_def bench_fraction_def f m)
qed

lemma bench_policy: "goal_ok bench_goal" "js_finite bench_fraction" "improvement_fraction_ok bench_fraction"
    "precision_ok check_precision_value"
    "list_all ref_ok (rf_initial bench_refs @ rf_best bench_refs @ rf_current bench_refs)"
    "st_phase bench_state = PMeasure" "st_activeStep bench_state = Some (st_sequence bench_state)"
  by (simp_all add: goal_ok_def bench_goal_def bench_fraction_def fl64_1_20 fl64_3_100 improvement_fraction_ok_def precision_ok_def
      check_precision_value_def bench_refs_def bench_ref_def ref_ok_def z_positive_def safe_integer_def
      max_safe_integer_def bench_state_def)

lemma bench_compared:
  assumes "parent \<in> {None, Some bench_parent}"
  shows "\<exists>st' eff valid met. compareSavedMeasurements tempo_store_ops check_math (\<lambda>_. ''0'') bench_state
    bench_goal [] bench_refs bench_fraction check_precision_value parent bench_store = (Inr eff, st') \<and>
    se_outcome eff = Measured ''w'' valid None met True"
proof -
  have given: "Option.bind parent pm_initial \<in> {None, Some bench_best}" "Option.bind parent pm_best \<in> {None, Some bench_best}"
    using assms bench_parent_ok by auto
  have doubles: "\<forall>i. Option.bind parent pm_initial = Some i \<longrightarrow> (\<forall>s \<in> set (me_scores i). is_double (sc_requestsPerSecond s))"
    using given(1) bench_best_double by auto
  have digest: "\<forall>p. parent = Some p \<longrightarrow> sha256_ok (pi_sha256 (pm_identity p))"
    using assms bench_parent_ok(1) by auto
  obtain result error st' where c: "compareSavedMeasurements tempo_store_ops check_math (\<lambda>_. ''0'') bench_state
      bench_goal [] bench_refs bench_fraction check_precision_value parent bench_store =
      (Inr (comparison_effect bench_state (Option.bind parent pm_initial) result
        \<lparr>or_name = comparison_name bench_state, or_version = int (length (bench_store (comparison_name bench_state))) + 1\<rparr>), st')"
    and "result = Some bench_verdict"
    using mem_comparison.comparison_total [of bench_state bench_goal "[]" bench_fraction check_precision_value
        bench_refs parent check_math "\<lambda>_. ''0''" bench_store, OF _ _ _ _ _ _ _ _ doubles digest] bench_policy
    by (auto simp: bench_assessed [OF given])
  moreover have "st_workingRevision bench_state = ''w''" "st_phase bench_state = PMeasure"
    by (simp_all add: bench_state_def)
  ultimately show ?thesis
    by (auto simp: comparison_effect_def bench_improved)
qed

section \<open>Properties\<close>

text \<open>
  C30: An improvement that a measurement step reports is backed by saved samples. For every
  workload of the goal the store holds, at the references compared, a benchmark of Busker for the
  working revision of this run; the mean of the samples saved with it, recomputed and within the
  configured precision, is the rate compared. It is greater than the rate of the best revision: that
  of such a benchmark of the best revision, or, where a run goes on from a parent whose best still
  stands, the one rate the parent's measurement gives for the workload. The rates a parent hands on
  are doubles, as every number of the program is.
\<close>

theorem improved_outcome_is_backed:
  assumes "compareSavedMeasurements tempo_store_ops m numstr s g protections refs fraction precision parent st = (Inr eff, st')"
    and "se_outcome eff = Measured revd valid inc met True" "w \<in> set (goal_workloads g)"
    and "\<And>b. Option.bind parent pm_best = Some b \<Longrightarrow> \<forall>s \<in> set (me_scores b). is_double (sc_requestsPerSecond s)"
  shows "\<exists>rc x y. (\<exists>ref' \<in> set (rf_current refs). benchmark_at st ref' rc) \<and>
    protocol_name (sb_protocol rc) = w \<and> sb_adapter rc = Busker \<and>
    supports m (st_runId s) (st_workingRevision s) precision rc (Fin y) \<and>
    revd = st_workingRevision s \<and> 0 < x \<and> x < y \<and>
    (case Option.bind parent pm_best of
       Some b \<Rightarrow> unique_rate b w busker = Some (Fin x)
     | None \<Rightarrow> \<exists>rb. (\<exists>ref' \<in> set (rf_best refs). benchmark_at st ref' rb) \<and>
         protocol_name (sb_protocol rb) = w \<and> sb_adapter rb = Busker \<and>
         supports m (st_runId s) (st_bestRevision s) precision rb (Fin x))"
  by (rule mem_comparison.improved_outcome [OF assms])

theorem improved_outcome_is_backed_witness:
  "(\<exists>rb rc x y. supports check_math ''run-1'' best_revision check_precision_value rb (Fin x) \<and>
    supports check_math ''run-1'' ''w'' check_precision_value rc (Fin y) \<and> 0 < x \<and> x < y) \<and>
   (\<exists>rc x y. unique_rate bench_best ''h1'' busker = Some (Fin x) \<and>
    supports check_math ''run-1'' ''w'' check_precision_value rc (Fin y) \<and> 0 < x \<and> x < y)"
proof
  have w: "''h1'' \<in> set (goal_workloads bench_goal)" by (simp add: bench_goal_def goal_workloads_def)
  from bench_compared [of None] obtain st' eff valid met where c: "compareSavedMeasurements tempo_store_ops check_math
      (\<lambda>_. ''0'') bench_state bench_goal [] bench_refs bench_fraction check_precision_value None bench_store =
      (Inr eff, st')" "se_outcome eff = Measured ''w'' valid None met True" by blast
  from improved_outcome_is_backed [OF c w]
  show "\<exists>rb rc x y. supports check_math ''run-1'' best_revision check_precision_value rb (Fin x) \<and>
    supports check_math ''run-1'' ''w'' check_precision_value rc (Fin y) \<and> 0 < x \<and> x < y"
    by (auto simp: bench_state_def)
  from bench_compared [of "Some bench_parent"] obtain st' eff valid met where p: "compareSavedMeasurements tempo_store_ops
      check_math (\<lambda>_. ''0'') bench_state bench_goal [] bench_refs bench_fraction check_precision_value
      (Some bench_parent) bench_store = (Inr eff, st')" "se_outcome eff = Measured ''w'' valid None met True" by blast
  have "\<forall>s \<in> set (me_scores b). is_double (sc_requestsPerSecond s)"
    if "Option.bind (Some bench_parent) pm_best = Some b" for b
    using that bench_best_double bench_parent_ok(3) by simp
  from improved_outcome_is_backed [OF p w this]
  show "\<exists>rc x y. unique_rate bench_best ''h1'' busker = Some (Fin x) \<and>
    supports check_math ''run-1'' ''w'' check_precision_value rc (Fin y) \<and> 0 < x \<and> x < y"
    unfolding bench_parent_ok(3) option.case by (auto simp: bench_state_def)
qed

text \<open>
  C31: A comparison under a well-formed policy always ends in one saved record. Whatever the store
  holds, a measurement step saves exactly one comparison, with its policy, its references and the
  identity of the parent run there may be, and answers it as its evidence; the record reads back as
  it was written, with the verdict on the measurements read or handed on by the parent, or with the
  error that reading them gave. The step fails where a run that goes on from a parent requalifies the
  parent's best and the verdict does not protect the performance; otherwise its outcome claims
  validity, the target and an improvement only as that verdict does.
\<close>

theorem comparison_always_saved:
  assumes "st_phase s \<in> {PBaseline, PMeasure}" "st_activeStep s = Some (st_sequence s)"
    and "goal_ok g" "list_all (\<lambda>p. js_finite (po_maxDecreaseFraction p)) protections"
    and "js_finite fraction" "improvement_fraction_ok fraction" "precision_ok precision"
    and "list_all ref_ok (rf_initial refs @ rf_best refs @ rf_current refs)"
    and "\<And>i. Option.bind parent pm_initial = Some i \<Longrightarrow> \<forall>s \<in> set (me_scores i). is_double (sc_requestsPerSecond s)"
    and "\<And>p. parent = Some p \<Longrightarrow> sha256_ok (pi_sha256 (pm_identity p))"
  shows "\<exists>c st' eff. compareSavedMeasurements tempo_store_ops m numstr s g protections refs fraction precision parent st =
      (Inr eff, st') \<and> st' = st(comparison_name s := st (comparison_name s) @ [enc_comparison c]) \<and>
    comparisonSchema (enc_comparison c) = Some c \<and>
    se_evidence eff = [\<lparr>or_name = comparison_name s, or_version = int (length (st (comparison_name s))) + 1\<rparr>] \<and>
    sc_goal c = g \<and> sc_current c = rf_current refs \<and> sc_best c = rf_best refs \<and> sc_initial c = rf_initial refs \<and>
    sc_revision c = st_workingRevision s \<and> sc_parent c = map_option pm_identity parent \<and>
    se_outcome eff =
      (if st_phase s = PBaseline \<and> Option.bind parent pm_initial \<noteq> None \<and>
          Option.bind (sc_result c) cr_protectedPerformance \<noteq> Some True
       then Failed ''Best requalification failed original H2 floor or comparability''
       else Measured (st_workingRevision s) (map_option gr_status (sc_result c) = Some Valid) None
         (Option.bind (sc_result c) gr_targetMet = Some True) (Option.bind (sc_result c) cr_improved = Some True)) \<and>
    (case fst (assess_saved tempo_store_ops m numstr s g protections refs fraction precision
        (Option.bind parent pm_initial) (Option.bind parent pm_best) st) of
       Inl e \<Rightarrow> sc_result c = None \<and> sc_error c = Some (error_string e)
     | Inr r \<Rightarrow> sc_result c = Some r \<and> sc_error c = None)"
proof -
  have given: "\<forall>i. Option.bind parent pm_initial = Some i \<longrightarrow> (\<forall>s \<in> set (me_scores i). is_double (sc_requestsPerSecond s))"
    "\<forall>p. parent = Some p \<longrightarrow> sha256_ok (pi_sha256 (pm_identity p))"
    using assms(9,10) by blast+
  let ?c = "comparison_of s g protections refs fraction precision (map_option pm_identity parent)"
  obtain result error st' where c: "compareSavedMeasurements tempo_store_ops m numstr s g protections refs fraction precision parent st =
      (Inr (comparison_effect s (Option.bind parent pm_initial) result
        \<lparr>or_name = comparison_name s, or_version = int (length (st (comparison_name s))) + 1\<rparr>), st')"
    "st' = st(comparison_name s := st (comparison_name s) @ [enc_comparison (?c result error)])"
    "comparisonSchema (enc_comparison (?c result error)) = Some (?c result error)"
    "case fst (assess_saved tempo_store_ops m numstr s g protections refs fraction precision
        (Option.bind parent pm_initial) (Option.bind parent pm_best) st) of
       Inl e \<Rightarrow> result = None \<and> error = Some (error_string e) | Inr r \<Rightarrow> result = Some r \<and> error = None"
    using mem_comparison.comparison_total [where parent = parent and st = st and m = m and numstr = numstr,
        OF assms(1-8) given] by (elim exE conjE) (rule that)
  show ?thesis
    by (intro exI conjI, rule c(1), rule c(2), rule c(3))
      (use c(4) in \<open>simp_all add: comparison_effect_def comparison_of_def split: sum.splits\<close>)
qed

theorem comparison_always_saved_witness:
  "\<exists>c st' eff. compareSavedMeasurements tempo_store_ops check_math (\<lambda>_. ''0'') bench_state bench_goal [] bench_refs
      bench_fraction check_precision_value (Some bench_parent) bench_store = (Inr eff, st') \<and>
    sc_result c = Some bench_verdict \<and> sc_parent c = Some (pm_identity bench_parent) \<and>
    st' (comparison_name bench_state) = [enc_comparison c]"
proof -
  have e: "bench_store (comparison_name bench_state) = []"
    by (simp add: bench_store_def comparison_name_def bench_state_def)
  have doubles: "\<forall>s \<in> set (me_scores i). is_double (sc_requestsPerSecond s)"
    if "Option.bind (Some bench_parent) pm_initial = Some i" for i
    using that bench_best_double bench_parent_ok(2) by simp
  have digest: "sha256_ok (pi_sha256 (pm_identity p))" if "Some bench_parent = Some p" for p
    using that bench_parent_ok(1) by simp
  have "assess_saved tempo_store_ops check_math (\<lambda>_. ''0'') bench_state bench_goal [] bench_refs
    bench_fraction check_precision_value (Option.bind (Some bench_parent) pm_initial)
    (Option.bind (Some bench_parent) pm_best) bench_store = (Inr bench_verdict, bench_store)"
    by (rule bench_assessed) (simp_all only: bench_parent_ok, simp_all)
  then show ?thesis
    using e comparison_always_saved [of bench_state bench_goal "[]" bench_fraction check_precision_value
        bench_refs "Some bench_parent" check_math "\<lambda>_. ''0''" bench_store, OF _ _ _ _ _ _ _ _ doubles digest] bench_policy
    by (auto simp: )
qed

end
