(* ===== verification/Pi_Events.thy ===== *)
theory Pi_Events
  imports Guard Js_Text
begin

text \<open>
  \<^verbatim>\<open>_lib/pi.ts\<close>: the tools and arguments an inference process is started with, and the reading of
  its event stream. A stream is accepted only when it shows one session under the expected file
  policy, no tool outside it, and a finished response. \<^verbatim>\<open>JSON.parse\<close> and the printing of
  numbers by \<^verbatim>\<open>String\<close> are arguments.
\<close>

section \<open>Starting the process\<close>

definition piTools :: "guard_stage \<Rightarrow> string list" where
  "piTools stage = (if stage = GImplement \<or> stage = GRepair
     then [''tempo_read'', ''tempo_edit'', ''tempo_write'', ''tempo_repl_eval'']
     else [''tempo_read''])"

record pi_paths =
  pp_extension :: string
  pp_policy :: string
  pp_systemPrompt :: string
  pp_taskPrompt :: string
  pp_manifest :: string

definition piArguments :: "guard_stage \<Rightarrow> pi_paths \<Rightarrow> string list res" where
  "piArguments stage paths =
     (if list_ex (\<lambda>p. \<not> is_absolute p) [pp_extension paths, pp_policy paths, pp_systemPrompt paths,
        pp_taskPrompt paths, pp_manifest paths]
      then Inl (Error ''Pi input paths must be absolute'')
      else Inr [''--provider'', ''openai-codex'', ''--model'', ''gpt-6-astra'', ''--thinking'',
        ''medium'', ''--mode'', ''json'', ''--no-session'', ''--no-approve'', ''--no-context-files'',
        ''--no-extensions'', ''--no-skills'', ''--no-prompt-templates'', ''--no-themes'',
        ''--no-builtin-tools'', ''--tools'', js_join '','' (piTools stage),
        ''--extension'', pp_extension paths, ''--tempo-policy'', pp_policy paths,
        ''--system-prompt'', pp_systemPrompt paths, ''--'', CHR ''@'' # pp_taskPrompt paths,
        CHR ''@'' # pp_manifest paths])"

section \<open>Events\<close>

type_synonym pi_event = "(string \<times> json) list"

definition eventSchema :: "pi_event schema" where
  "eventSchema = z_loose (\<lambda>kvs. do { _ \<leftarrow> z_field kvs ''type'' z_string; Some kvs })"

definition event_type :: "pi_event \<Rightarrow> string" where
  "event_type ev = (case map_of ev ''type'' of Some (JStr s) \<Rightarrow> s | _ \<Rightarrow> [])"

definition policySchema :: "policy schema" where
  "policySchema = z_strict [''workspace'', ''readRoots'', ''stage''] (\<lambda>kvs. do {
     workspace \<leftarrow> z_field kvs ''workspace'' z_string;
     readRoots \<leftarrow> z_field kvs ''readRoots'' (z_array z_string);
     stage \<leftarrow> z_field kvs ''stage'' (z_enum guard_stages);
     Some \<lparr>po_workspace = workspace, po_readRoots = readRoots, po_stage = stage\<rparr> })"

record assistant =
  as_provider :: string
  as_model :: string
  as_stopReason :: string
  as_content :: "(string \<times> string option) list"
  as_totalTokens :: int

definition blockSchema :: "(string \<times> string option) schema" where
  "blockSchema = z_loose (\<lambda>kvs. do {
     kind \<leftarrow> z_field kvs ''type'' z_string;
     txt \<leftarrow> z_optional kvs ''text'' z_string;
     Some (kind, txt) })"

definition assistantSchema :: "assistant schema" where
  "assistantSchema = z_loose (\<lambda>kvs. do {
     _ \<leftarrow> z_field kvs ''role'' (z_literal ''assistant'');
     provider \<leftarrow> z_field kvs ''provider'' z_string;
     model \<leftarrow> z_field kvs ''model'' z_string;
     stopReason \<leftarrow> z_field kvs ''stopReason'' z_string;
     content \<leftarrow> z_field kvs ''content'' (z_array blockSchema);
     tokens \<leftarrow> z_field kvs ''usage'' (z_loose (\<lambda>u. z_field u ''totalTokens'' (z_int_if z_count)));
     Some \<lparr>as_provider = provider, as_model = model, as_stopReason = stopReason,
       as_content = content, as_totalTokens = tokens\<rparr> })"

text \<open>\<^verbatim>\<open>String(value)\<close>; an absent property prints as \<^verbatim>\<open>undefined\<close>.\<close>

fun js_string :: "(jsnum \<Rightarrow> string) \<Rightarrow> json \<Rightarrow> string" where
  "js_string numstr JNull = ''null''"
| "js_string numstr (JBool b) = (if b then ''true'' else ''false'')"
| "js_string numstr (JNum x) = numstr x"
| "js_string numstr (JStr s) = s"
| "js_string numstr (JArr vs) =
     js_join '','' (map (\<lambda>v. if v = JNull then [] else js_string numstr v) vs)"
| "js_string numstr (JObj _) = ''[object Object]''"

definition tool_name :: "(jsnum \<Rightarrow> string) \<Rightarrow> pi_event \<Rightarrow> string" where
  "tool_name numstr ev = (case map_of ev ''toolName'' of
     None \<Rightarrow> ''undefined'' | Some v \<Rightarrow> js_string numstr v)"

definition entrySchema :: "(string option \<times> json option) schema" where
  "entrySchema = z_loose (\<lambda>kvs. do {
     customType \<leftarrow> z_optional kvs ''customType'' z_string;
     Some (customType, map_of kvs ''data'') })"

text \<open>A property as \<^verbatim>\<open>parse\<close> sees it: an absent one fails every schema the stream uses.\<close>

definition parse_property :: "string \<Rightarrow> pi_event \<Rightarrow> string \<Rightarrow> 'a schema \<Rightarrow> 'a res" where
  "parse_property name ev k sch = (case map_of ev k of
     None \<Rightarrow> Inl (ZodError name) | Some v \<Rightarrow> zparse name sch v)"

section \<open>Reading the stream\<close>

record pi_state =
  ps_header :: bool
  ps_guarded :: bool
  ps_settled :: bool
  ps_last :: "assistant option"
  ps_modelTurns :: int
  ps_totalTokens :: jsnum

definition parse_line :: "(string \<Rightarrow> json res) \<Rightarrow> string \<Rightarrow> pi_event res" where
  "parse_line jparse line =
     (case bindR (jparse (if line \<noteq> [] \<and> last line = CHR 0x0D then butlast line else line))
        (zparse ''event'' eventSchema) of
        Inl _ \<Rightarrow> Inl (Error ''Invalid Pi JSONL record'')
      | Inr ev \<Rightarrow> Inr ev)"

definition check_entry :: "policy \<Rightarrow> pi_event \<Rightarrow> bool res" where
  "check_entry expected ev =
     bindR (parse_property ''entry'' ev ''entry'' entrySchema) (\<lambda>(customType, data).
       if customType = Some ''tempo-policy''
       then bindR (case data of None \<Rightarrow> Inl (ZodError ''policy'')
           | Some d \<Rightarrow> zparse ''policy'' policySchema d)
         (\<lambda>actual. if actual \<noteq> expected then Inl (Error ''Pi loaded a different file policy'')
            else Inr True)
       else Inr False)"

definition check_message :: "pi_event \<Rightarrow> assistant option res" where
  "check_message ev =
     bindR (parse_property ''message'' ev ''message''
         (z_loose (\<lambda>kvs. do { role \<leftarrow> z_field kvs ''role'' z_string; Some (role, kvs) })))
       (\<lambda>(role, kvs). if role = ''assistant''
          then bindR (zparse ''assistant'' assistantSchema (JObj kvs)) (\<lambda>m.
            if as_provider m \<noteq> ''openai-codex'' \<or> as_model m \<noteq> ''gpt-6-astra''
            then Inl (Error ''Pi used a different provider or model'') else Inr (Some m))
          else Inr None)"

definition pi_step :: "(jsnum \<Rightarrow> string) \<Rightarrow> policy \<Rightarrow> pi_state \<Rightarrow> pi_event \<Rightarrow> pi_state res" where
  "pi_step numstr expected st ev =
     (let kind = event_type ev in
      if \<not> ps_header st \<and> kind \<noteq> ''session'' then Inl (Error ''Pi session header is missing'')
      else if kind = ''session''
      then if ps_header st then Inl (Error ''Multiple Pi sessions in one step'')
        else Inr (st\<lparr>ps_header := True\<rparr>)
      else if kind = ''entry_appended''
      then bindR (check_entry expected ev) (\<lambda>declares.
        Inr (if declares then st\<lparr>ps_guarded := True\<rparr> else st))
      else if kind = ''tool_execution_start''
      then if \<not> ps_guarded st \<or> tool_name numstr ev \<notin> set (piTools (po_stage expected))
        then Inl (Error ''Pi used a tool outside the assigned policy'') else Inr st
      else if kind = ''agent_start'' then Inr (st\<lparr>ps_settled := False\<rparr>)
      else if kind = ''agent_settled'' then Inr (st\<lparr>ps_settled := True\<rparr>)
      else if kind = ''message_end''
      then bindR (check_message ev) (\<lambda>m. case m of None \<Rightarrow> Inr st
        | Some a \<Rightarrow> Inr (st\<lparr>ps_last := Some a, ps_modelTurns := ps_modelTurns st + 1,
            ps_totalTokens := js_add (ps_totalTokens st) (js_of_int (as_totalTokens a)),
            ps_settled := False\<rparr>))
      else Inr st)"

fun pi_lines :: "(string \<Rightarrow> json res) \<Rightarrow> (jsnum \<Rightarrow> string) \<Rightarrow> policy \<Rightarrow> pi_state \<Rightarrow> string list \<Rightarrow>
    pi_state res" where
  "pi_lines jparse numstr expected st [] = Inr st"
| "pi_lines jparse numstr expected st (line # lines) =
     bindR (parse_line jparse line) (\<lambda>ev. bindR (pi_step numstr expected st ev) (\<lambda>st'.
       pi_lines jparse numstr expected st' lines))"

definition pi_start :: pi_state where
  "pi_start = \<lparr>ps_header = False, ps_guarded = False, ps_settled = False, ps_last = None,
     ps_modelTurns = 0, ps_totalTokens = Fin 0\<rparr>"

record pi_response =
  pr_response :: string
  pr_modelTurns :: int
  pr_totalTokens :: jsnum

definition text_blocks :: "(string \<times> string option) list \<Rightarrow> string res" where
  "text_blocks content = bindR
     (mapR (\<lambda>(_, txt). case txt of None \<Rightarrow> Inl (Error ''Pi text block has no text'')
        | Some t \<Rightarrow> Inr t) (filter (\<lambda>(kind, _). kind = ''text'') content))
     (\<lambda>ts. Inr (js_join [] ts))"

definition pi_finish :: "pi_state \<Rightarrow> pi_response res" where
  "pi_finish st = (case ps_last st of
     None \<Rightarrow> Inl (Error ''Pi did not finish a successful guarded response'')
   | Some m \<Rightarrow>
       if \<not> ps_header st \<or> \<not> ps_guarded st \<or> \<not> ps_settled st \<or> as_stopReason m \<noteq> ''stop''
       then Inl (Error ''Pi did not finish a successful guarded response'')
       else if list_ex (\<lambda>(kind, _). kind \<notin> {''text'', ''thinking''}) (as_content m)
       then Inl (Error ''Pi ended with unfinished tool work'')
       else bindR (text_blocks (as_content m)) (\<lambda>response.
         if js_trim response = [] then Inl (Error ''Pi response is empty'')
         else Inr \<lparr>pr_response = response, pr_modelTurns = ps_modelTurns st,
           pr_totalTokens = ps_totalTokens st\<rparr>))"

definition parsePiEvents :: "(string \<Rightarrow> json res) \<Rightarrow> (jsnum \<Rightarrow> string) \<Rightarrow> string \<Rightarrow> policy \<Rightarrow> pi_response res" where
  "parsePiEvents jparse numstr txt expected =
     (if txt = [] \<or> last txt \<noteq> CHR 0x0A then Inl (Error ''Incomplete Pi JSONL stream'')
      else bindR (pi_lines jparse numstr expected pi_start (js_split (CHR 0x0A) (butlast txt))) pi_finish)"

section \<open>What an accepted stream contains\<close>

definition declares_policy :: "policy \<Rightarrow> pi_event \<Rightarrow> bool" where
  "declares_policy expected ev \<longleftrightarrow> event_type ev = ''entry_appended'' \<and> check_entry expected ev = Inr True"

definition tool_start :: "pi_event \<Rightarrow> bool" where
  "tool_start ev \<longleftrightarrow> event_type ev = ''tool_execution_start''"

definition assistant_of :: "pi_event \<Rightarrow> assistant option" where
  "assistant_of ev = (if event_type ev = ''message_end''
     then (case check_message ev of Inr (Some m) \<Rightarrow> Some m | _ \<Rightarrow> None) else None)"

definition assistants :: "pi_event list \<Rightarrow> assistant list" where
  "assistants evs = List.map_filter assistant_of evs"

definition unsettles :: "pi_event \<Rightarrow> bool" where
  "unsettles ev \<longleftrightarrow> event_type ev = ''agent_start'' \<or> assistant_of ev \<noteq> None"

fun settled_after :: "pi_event list \<Rightarrow> bool \<Rightarrow> bool" where
  "settled_after [] b = b"
| "settled_after (ev # evs) b = settled_after evs
     (if unsettles ev then False else if event_type ev = ''agent_settled'' then True else b)"

text \<open>Tools are only used after the policy was declared, and only those of the stage.\<close>

fun tools_guarded :: "(jsnum \<Rightarrow> string) \<Rightarrow> policy \<Rightarrow> bool \<Rightarrow> pi_event list \<Rightarrow> bool" where
  "tools_guarded numstr expected g [] = True"
| "tools_guarded numstr expected g (ev # evs) =
     ((tool_start ev \<longrightarrow> g \<and> tool_name numstr ev \<in> set (piTools (po_stage expected))) \<and>
      tools_guarded numstr expected (g \<or> declares_policy expected ev) evs)"

lemma assistants_simps [simp]:
  "assistants [] = []"
  "assistants (ev # evs) = (case assistant_of ev of None \<Rightarrow> assistants evs | Some m \<Rightarrow> m # assistants evs)"
  by (simp_all add: assistants_def map_filter_simps split: option.split)

lemma pi_step_header:
  assumes "pi_step numstr expected st ev = Inr st'"
  shows "event_type ev = ''session'' \<longleftrightarrow> \<not> ps_header st"
  using assms by (cases "event_type ev = ''session''"; cases "ps_header st") (simp_all add: pi_step_def)

lemma pi_step_entry:
  assumes "pi_step numstr expected st ev = Inr st'" "event_type ev = ''entry_appended''" "ps_header st"
  obtains d where "check_entry expected ev = Inr d" "st' = (if d then st\<lparr>ps_guarded := True\<rparr> else st)"
proof -
  have "bindR (check_entry expected ev) (\<lambda>d. Inr (if d then st\<lparr>ps_guarded := True\<rparr> else st)) = Inr st'"
    using assms by (simp add: pi_step_def)
  then show ?thesis using that by (cases "check_entry expected ev") simp_all
qed

lemma pi_step_tool:
  assumes "pi_step numstr expected st ev = Inr st'" "event_type ev = ''tool_execution_start''" "ps_header st"
  shows "ps_guarded st" "tool_name numstr ev \<in> set (piTools (po_stage expected))" "st' = st"
proof -
  have "(if \<not> ps_guarded st \<or> tool_name numstr ev \<notin> set (piTools (po_stage expected))
      then Inl (Error ''Pi used a tool outside the assigned policy'') else Inr st) = Inr st'"
    using assms by (simp add: pi_step_def)
  then show "ps_guarded st" "tool_name numstr ev \<in> set (piTools (po_stage expected))" "st' = st"
    by (simp_all split: if_split_asm)
qed

lemma pi_step_message:
  assumes "pi_step numstr expected st ev = Inr st'" "event_type ev = ''message_end''" "ps_header st"
  obtains (silent) "check_message ev = Inr None" "st' = st"
    | (answer) m where "check_message ev = Inr (Some m)"
        "st' = st\<lparr>ps_last := Some m, ps_modelTurns := ps_modelTurns st + 1,
            ps_totalTokens := js_add (ps_totalTokens st) (js_of_int (as_totalTokens m)),
            ps_settled := False\<rparr>"
proof -
  have m: "bindR (check_message ev) (\<lambda>m. case m of None \<Rightarrow> Inr st
      | Some a \<Rightarrow> Inr (st\<lparr>ps_last := Some a, ps_modelTurns := ps_modelTurns st + 1,
          ps_totalTokens := js_add (ps_totalTokens st) (js_of_int (as_totalTokens a)),
          ps_settled := False\<rparr>)) = Inr st'"
    using assms by (simp add: pi_step_def)
  then obtain a where "check_message ev = Inr a" by (cases "check_message ev") simp_all
  with m show ?thesis using that by (cases a) simp_all
qed

lemma pi_step_cases:
  assumes "pi_step numstr expected st ev = Inr st'"
  obtains (session) "event_type ev = ''session''" "\<not> ps_header st" "st' = st\<lparr>ps_header := True\<rparr>"
    | (entry) d where "ps_header st" "event_type ev = ''entry_appended''" "check_entry expected ev = Inr d"
        "st' = (if d then st\<lparr>ps_guarded := True\<rparr> else st)"
    | (tool) "ps_header st" "event_type ev = ''tool_execution_start''" "ps_guarded st"
        "tool_name numstr ev \<in> set (piTools (po_stage expected))" "st' = st"
    | (agent) "ps_header st" "event_type ev = ''agent_start''" "st' = st\<lparr>ps_settled := False\<rparr>"
    | (settle) "ps_header st" "event_type ev = ''agent_settled''" "st' = st\<lparr>ps_settled := True\<rparr>"
    | (silent) "ps_header st" "event_type ev = ''message_end''" "check_message ev = Inr None" "st' = st"
    | (answer) m where "ps_header st" "event_type ev = ''message_end''" "check_message ev = Inr (Some m)"
        "st' = st\<lparr>ps_last := Some m, ps_modelTurns := ps_modelTurns st + 1,
            ps_totalTokens := js_add (ps_totalTokens st) (js_of_int (as_totalTokens m)),
            ps_settled := False\<rparr>"
    | (other) "ps_header st" "event_type ev \<notin> {''session'', ''entry_appended'',
        ''tool_execution_start'', ''agent_start'', ''agent_settled'', ''message_end''}" "st' = st"
proof -
  note head = pi_step_header [OF assms]
  let ?k = "event_type ev"
  consider (a) "?k = ''session''" | (b) "?k = ''entry_appended''" | (c) "?k = ''tool_execution_start''"
    | (d) "?k = ''agent_start''" | (e) "?k = ''agent_settled''" | (f) "?k = ''message_end''"
    | (g) "?k \<notin> {''session'', ''entry_appended'', ''tool_execution_start'', ''agent_start'',
        ''agent_settled'', ''message_end''}" by blast
  then show ?thesis
  proof cases
    case a
    with head assms show ?thesis by (intro session [OF a]) (simp_all add: pi_step_def)
  next
    case b
    with head have h: "ps_header st" by simp
    from assms b h show ?thesis by (rule pi_step_entry) (fact entry [OF h b])
  next
    case c
    with head have h: "ps_header st" by simp
    from pi_step_tool [OF assms c h] show ?thesis by (intro tool [OF h c])
  next
    case d
    with head assms show ?thesis by (intro agent [OF _ d]) (simp_all add: pi_step_def)
  next
    case e
    with head assms show ?thesis by (intro settle [OF _ e]) (simp_all add: pi_step_def)
  next
    case f
    with head have h: "ps_header st" by simp
    from assms f h show ?thesis by (rule pi_step_message) (fact silent [OF h f], fact answer [OF h f])
  next
    case g
    with head assms show ?thesis by (intro other [OF _ g]) (simp_all add: pi_step_def)
  qed
qed

lemma pi_step_Inr:
  assumes "pi_step numstr expected st ev = Inr st'"
  shows "ps_guarded st' \<longleftrightarrow> ps_guarded st \<or> declares_policy expected ev"
    "tool_start ev \<Longrightarrow> ps_guarded st \<and> tool_name numstr ev \<in> set (piTools (po_stage expected))"
    "ps_settled st' = (if unsettles ev then False
       else if event_type ev = ''agent_settled'' then True else ps_settled st)"
    "ps_last st' = (case assistant_of ev of None \<Rightarrow> ps_last st | Some m \<Rightarrow> Some m)"
    "ps_modelTurns st' = ps_modelTurns st + (if assistant_of ev = None then 0 else 1)"
    "ps_totalTokens st' = (case assistant_of ev of None \<Rightarrow> ps_totalTokens st
       | Some m \<Rightarrow> js_add (ps_totalTokens st) (js_of_int (as_totalTokens m)))"
  by (cases rule: pi_step_cases [OF assms];
      simp add: declares_policy_def tool_start_def assistant_of_def unsettles_def)+

lemma pi_lines_Inr:
  assumes "pi_lines jparse numstr expected st lines = Inr st'"
  shows "\<exists>evs. mapR (parse_line jparse) lines = Inr evs \<and>
    tools_guarded numstr expected (ps_guarded st) evs \<and>
    (ps_guarded st' \<longleftrightarrow> ps_guarded st \<or> list_ex (declares_policy expected) evs) \<and>
    ps_settled st' = settled_after evs (ps_settled st) \<and>
    ps_last st' = (if assistants evs = [] then ps_last st else Some (last (assistants evs))) \<and>
    ps_modelTurns st' = ps_modelTurns st + int (length (assistants evs)) \<and>
    ps_totalTokens st' = foldl (\<lambda>t m. js_add t (js_of_int (as_totalTokens m)))
      (ps_totalTokens st) (assistants evs)"
  using assms
proof (induction lines arbitrary: st)
  case Nil
  then show ?case by simp
next
  case (Cons line lines)
  then obtain ev st1 where ev: "parse_line jparse line = Inr ev"
    and step: "pi_step numstr expected st ev = Inr st1"
    and rest: "pi_lines jparse numstr expected st1 lines = Inr st'" by (auto simp: res_simps)
  note f = pi_step_Inr [OF step]
  from Cons.IH [OF rest] obtain evs where
    e: "mapR (parse_line jparse) lines = Inr evs"
      "tools_guarded numstr expected (ps_guarded st1) evs"
      "ps_guarded st' \<longleftrightarrow> ps_guarded st1 \<or> list_ex (declares_policy expected) evs"
      "ps_settled st' = settled_after evs (ps_settled st1)"
      "ps_last st' = (if assistants evs = [] then ps_last st1 else Some (last (assistants evs)))"
      "ps_modelTurns st' = ps_modelTurns st1 + int (length (assistants evs))"
      "ps_totalTokens st' = foldl (\<lambda>t m. js_add t (js_of_int (as_totalTokens m)))
        (ps_totalTokens st1) (assistants evs)" by blast
  show ?case
  proof (rule exI [of _ "ev # evs"], intro conjI)
    show "mapR (parse_line jparse) (line # lines) = Inr (ev # evs)" using ev e(1) by simp
    show "tools_guarded numstr expected (ps_guarded st) (ev # evs)" using f(1,2) e(2) by auto
    show "ps_guarded st' \<longleftrightarrow> ps_guarded st \<or> list_ex (declares_policy expected) (ev # evs)"
      using f(1) e(3) by auto
    show "ps_settled st' = settled_after (ev # evs) (ps_settled st)" using f(3) e(4) by simp
    show "ps_last st' = (if assistants (ev # evs) = [] then ps_last st
        else Some (last (assistants (ev # evs))))"
      using f(4) e(5) by (auto split: option.split)
    show "ps_modelTurns st' = ps_modelTurns st + int (length (assistants (ev # evs)))"
      using f(5) e(6) by (auto split: option.split)
    show "ps_totalTokens st' = foldl (\<lambda>t m. js_add t (js_of_int (as_totalTokens m)))
        (ps_totalTokens st) (assistants (ev # evs))"
      using f(6) e(7) by (auto split: option.split)
  qed
qed

lemma tools_guarded_earlier:
  assumes "tools_guarded numstr expected g evs" "i < length evs" "tool_start (evs ! i)"
  shows "tool_name numstr (evs ! i) \<in> set (piTools (po_stage expected)) \<and>
    (g \<or> (\<exists>j < i. declares_policy expected (evs ! j)))"
  using assms
proof (induction evs arbitrary: g i)
  case (Cons ev evs)
  show ?case
  proof (cases i)
    case 0
    with Cons show ?thesis by auto
  next
    case (Suc k)
    with Cons.IH [of "g \<or> declares_policy expected ev" k] Cons.prems have
      "tool_name numstr (evs ! k) \<in> set (piTools (po_stage expected)) \<and>
       ((g \<or> declares_policy expected ev) \<or> (\<exists>j < k. declares_policy expected (evs ! j)))"
      by auto
    with Suc show ?thesis by (auto intro: exI [of _ "0::nat"] exI [of _ "Suc _"])
  qed
qed simp

lemma settled_after_True:
  "settled_after evs b \<Longrightarrow> \<not> b \<Longrightarrow> \<exists>pre ev post. evs = pre @ ev # post \<and>
     event_type ev = ''agent_settled'' \<and> \<not> list_ex unsettles post"
proof (induction evs arbitrary: b)
  case (Cons ev evs)
  let ?b = "if unsettles ev then False else if event_type ev = ''agent_settled'' then True else b"
  show ?case
  proof (cases "settled_after evs False")
    case True
    with Cons.IH obtain pre x post where "evs = pre @ x # post"
      "event_type x = ''agent_settled''" "\<not> list_ex unsettles post" by blast
    then show ?thesis by (intro exI [of _ "ev # pre"] exI [of _ x] exI [of _ post]) simp
  next
    case False
    with Cons.prems have b: "event_type ev = ''agent_settled''" by (auto split: if_splits)
    have "\<not> list_ex unsettles xs" if "settled_after xs True" "\<not> settled_after xs False" for xs
      using that by (induction xs) (auto split: if_splits)
    moreover have "settled_after evs True"
      using Cons.prems False by (auto split: if_splits)
    ultimately have "\<not> list_ex unsettles evs" using False by blast
    with b show ?thesis by (intro exI [of _ "[]"] exI [of _ ev] exI [of _ evs]) simp
  qed
qed simp

lemma parsePiEvents_Inr:
  assumes "parsePiEvents jparse numstr txt expected = Inr r"
  obtains evs where "txt \<noteq> []" "last txt = CHR 0x0A"
    "mapR (parse_line jparse) (js_split (CHR 0x0A) (butlast txt)) = Inr evs"
    "tools_guarded numstr expected False evs" "list_ex (declares_policy expected) evs"
    "settled_after evs False" "assistants evs \<noteq> []"
    "as_stopReason (last (assistants evs)) = ''stop''"
    "\<not> list_ex (\<lambda>(kind, _). kind \<notin> {''text'', ''thinking''}) (as_content (last (assistants evs)))"
    "text_blocks (as_content (last (assistants evs))) = Inr (pr_response r)"
    "js_trim (pr_response r) \<noteq> []" "pr_modelTurns r = int (length (assistants evs))"
    "pr_totalTokens r = foldl (\<lambda>t m. js_add t (js_of_int (as_totalTokens m))) (Fin 0) (assistants evs)"
proof -
  from assms obtain st where l: "pi_lines jparse numstr expected pi_start
      (js_split (CHR 0x0A) (butlast txt)) = Inr st" and f: "pi_finish st = Inr r"
    and t: "txt \<noteq> []" "last txt = CHR 0x0A"
    by (auto simp: parsePiEvents_def res_simps split: if_splits)
  from pi_lines_Inr [OF l] obtain evs where e:
    "mapR (parse_line jparse) (js_split (CHR 0x0A) (butlast txt)) = Inr evs"
    "tools_guarded numstr expected False evs"
    "ps_guarded st = list_ex (declares_policy expected) evs"
    "ps_settled st = settled_after evs False"
    "ps_last st = (if assistants evs = [] then None else Some (last (assistants evs)))"
    "ps_modelTurns st = int (length (assistants evs))"
    "ps_totalTokens st = foldl (\<lambda>t m. js_add t (js_of_int (as_totalTokens m))) (Fin 0) (assistants evs)"
    by (auto simp: pi_start_def)
  from f e show ?thesis
    by (intro that [OF t e(1,2)])
      (auto simp: pi_finish_def res_simps split: option.splits if_splits)
qed

section \<open>Properties\<close>

definition sample_events :: "string \<Rightarrow> json res" where
  "sample_events line = (case map_of
     [(''s'', JObj [(''type'', JStr ''session'')]),
      (''p'', JObj [(''type'', JStr ''entry_appended''), (''entry'', JObj
         [(''customType'', JStr ''tempo-policy''), (''data'', JObj [(''workspace'', JStr ''/w''),
           (''readRoots'', JArr [JStr ''/ref'']), (''stage'', JStr ''implement'')])])]),
      (''t'', JObj [(''type'', JStr ''tool_execution_start''), (''toolName'', JStr ''tempo_edit'')]),
      (''m'', JObj [(''type'', JStr ''message_end''), (''message'', JObj
         [(''role'', JStr ''assistant''), (''provider'', JStr ''openai-codex''),
          (''model'', JStr ''gpt-6-astra''), (''stopReason'', JStr ''stop''),
          (''content'', JArr [JObj [(''type'', JStr ''text''), (''text'', JStr ''ok'')]]),
          (''usage'', JObj [(''totalTokens'', j_int 7)])])]),
      (''e'', JObj [(''type'', JStr ''agent_settled'')])] line of
     None \<Rightarrow> Inl (Error ''Unexpected token'') | Some v \<Rightarrow> Inr v)"

definition sample_stream :: string where
  "sample_stream = js_join [CHR 0x0A] [''s'', ''p'', ''t'', ''m'', ''e''] @ [CHR 0x0A]"

lemma z_string_array: "those (map z_string (map JStr xs)) = Some xs"
  by (induction xs) simp_all

lemma sample_stream_accepted:
  "\<exists>r. parsePiEvents sample_events f sample_stream sample_policy = Inr r"
  by (simp add: parsePiEvents_def sample_stream_def parse_line_def sample_events_def zparse_def
      eventSchema_def z_loose_def pi_step_def pi_start_def event_type_def check_entry_def
      parse_property_def entrySchema_def policySchema_def guard_stages_def sample_policy_def
      z_array_def z_array_if_def tool_name_def piTools_def check_message_def assistantSchema_def
      blockSchema_def z_count_def safe_integer_def max_safe_integer_def pi_finish_def
      text_blocks_def js_trim_def js_trim_end_def is_space_def)

text \<open>
  C22: in an accepted stream every tool call names a tool of the assigned stage, and comes after an
  entry in which the process declared exactly the expected policy: directories and stage. A
  stage that does not edit has only the reading tool.
\<close>

theorem accepted_tools_are_guarded:
  assumes "parsePiEvents jparse numstr txt expected = Inr r"
  shows "\<exists>evs. mapR (parse_line jparse) (js_split (CHR 0x0A) (butlast txt)) = Inr evs \<and>
    (\<forall>i < length evs. tool_start (evs ! i) \<longrightarrow>
       tool_name numstr (evs ! i) \<in> set (piTools (po_stage expected)) \<and>
       (po_stage expected \<notin> {GImplement, GRepair} \<longrightarrow> tool_name numstr (evs ! i) = ''tempo_read'') \<and>
       (\<exists>j < i. declares_policy expected (evs ! j)))"
proof -
  obtain evs where e: "mapR (parse_line jparse) (js_split (CHR 0x0A) (butlast txt)) = Inr evs"
    "tools_guarded numstr expected False evs"
    by (rule parsePiEvents_Inr [OF assms]) blast
  have "tool_name numstr (evs ! i) \<in> set (piTools (po_stage expected)) \<and>
      (\<exists>j < i. declares_policy expected (evs ! j))"
    if "i < length evs" "tool_start (evs ! i)" for i
    using tools_guarded_earlier [OF e(2) that] by blast
  moreover have "name = ''tempo_read''"
    if "po_stage expected \<notin> {GImplement, GRepair}" "name \<in> set (piTools (po_stage expected))" for name
    using that by (simp add: piTools_def)
  ultimately show ?thesis using e(1) by blast
qed

theorem accepted_tools_are_guarded_witness:
  "\<exists>evs. mapR (parse_line sample_events) [''s'', ''p'', ''t'', ''m'', ''e''] = Inr evs \<and>
    tool_start (evs ! 2) \<and> (\<exists>j < 2. declares_policy sample_policy (evs ! j))"
proof -
  have lines: "js_split (CHR 0x0A) (butlast sample_stream) = [''s'', ''p'', ''t'', ''m'', ''e'']"
    by (simp add: sample_stream_def)
  from sample_stream_accepted obtain r where
    "parsePiEvents sample_events (\<lambda>_. []) sample_stream sample_policy = Inr r" by blast
  from accepted_tools_are_guarded [OF this] obtain evs where e:
    "mapR (parse_line sample_events) [''s'', ''p'', ''t'', ''m'', ''e''] = Inr evs"
    "\<forall>i < length evs. tool_start (evs ! i) \<longrightarrow> (\<exists>j < i. declares_policy sample_policy (evs ! j))"
    unfolding lines by blast
  moreover have "tool_start (evs ! 2) \<and> length evs = 5"
    using e(1) by (auto simp: parse_line_def sample_events_def zparse_def eventSchema_def z_loose_def
        tool_start_def event_type_def)
  ultimately show ?thesis by (intro exI [of _ evs]) auto
qed

text \<open>
  The response of an accepted stream is the concatenated text of the last answer of the
  expected model, which stopped by itself and left no tool work; the process settled after it
  without starting again, and the turns and tokens are those of all its answers.
\<close>

theorem accepted_response_is_final:
  assumes "parsePiEvents jparse numstr txt expected = Inr r"
  shows "\<exists>evs pre ev post. mapR (parse_line jparse) (js_split (CHR 0x0A) (butlast txt)) = Inr evs \<and>
    assistants evs \<noteq> [] \<and> as_stopReason (last (assistants evs)) = ''stop'' \<and>
    text_blocks (as_content (last (assistants evs))) = Inr (pr_response r) \<and>
    js_trim (pr_response r) \<noteq> [] \<and>
    evs = pre @ ev # post \<and> event_type ev = ''agent_settled'' \<and> \<not> list_ex unsettles post \<and>
    pr_modelTurns r = int (length (assistants evs)) \<and>
    pr_totalTokens r = foldl (\<lambda>t m. js_add t (js_of_int (as_totalTokens m))) (Fin 0) (assistants evs)"
proof -
  obtain evs where e: "mapR (parse_line jparse) (js_split (CHR 0x0A) (butlast txt)) = Inr evs"
    "settled_after evs False" "assistants evs \<noteq> []"
    "as_stopReason (last (assistants evs)) = ''stop''"
    "text_blocks (as_content (last (assistants evs))) = Inr (pr_response r)"
    "js_trim (pr_response r) \<noteq> []" "pr_modelTurns r = int (length (assistants evs))"
    "pr_totalTokens r = foldl (\<lambda>t m. js_add t (js_of_int (as_totalTokens m))) (Fin 0) (assistants evs)"
    by (rule parsePiEvents_Inr [OF assms]) blast
  from settled_after_True [OF e(2)] obtain pre ev post where "evs = pre @ ev # post"
    "event_type ev = ''agent_settled''" "\<not> list_ex unsettles post" by blast
  with e show ?thesis by blast
qed

theorem accepted_response_is_final_witness:
  "\<exists>(r :: pi_response) evs. mapR (parse_line sample_events) [''s'', ''p'', ''t'', ''m'', ''e''] = Inr evs \<and>
    pr_modelTurns r = int (length (assistants evs)) \<and> assistants evs \<noteq> []"
proof -
  have lines: "js_split (CHR 0x0A) (butlast sample_stream) = [''s'', ''p'', ''t'', ''m'', ''e'']"
    by (simp add: sample_stream_def)
  from sample_stream_accepted obtain r where
    "parsePiEvents sample_events (\<lambda>_. []) sample_stream sample_policy = Inr r" by blast
  from accepted_response_is_final [OF this] show ?thesis unfolding lines by blast
qed

end
