(* ===== verification/Profile.thy ===== *)
theory Profile
  imports Js_Text
begin

text \<open>
  \<^verbatim>\<open>_lib/profile.ts\<close>: the summary of a collapsed-stack profile. The loop over the lines keeps
  running totals by thread role, leaf, frame and complete stack; the theory shows that the
  summary is the one computed from the samples at once.
\<close>

section \<open>One line\<close>

datatype thread_role = EventLoop | VirtualCarrier | VirtualThread | WakeNotifier | LifecycleThread
  | GcThread | CompilerThread | OtherJvm | Unattributed

definition role_name :: "thread_role \<Rightarrow> string" where
  "role_name r = (case r of
     EventLoop \<Rightarrow> ''event-loop'' | VirtualCarrier \<Rightarrow> ''virtual-carrier''
   | VirtualThread \<Rightarrow> ''virtual-thread'' | WakeNotifier \<Rightarrow> ''wake-notifier''
   | LifecycleThread \<Rightarrow> ''lifecycle'' | GcThread \<Rightarrow> ''gc'' | CompilerThread \<Rightarrow> ''compiler''
   | OtherJvm \<Rightarrow> ''other-jvm'' | Unattributed \<Rightarrow> ''unattributed'')"

definition role :: "string option \<Rightarrow> thread_role" where
  "role name = (case name of None \<Rightarrow> Unattributed | Some n \<Rightarrow>
     if starts_with ''h2o-evloop'' n then EventLoop
     else if starts_with ''ForkJoinPool'' n then VirtualCarrier
     else if starts_with ''VirtualThread'' n then VirtualThread
     else if starts_with ''busker-wake'' n then WakeNotifier
     else if starts_with ''busker-lifecycl'' n then LifecycleThread
     else if list_ex (\<lambda>p. starts_with p n) [''GC Thread'', ''G1 '', ''ZGC'', ''ZWorker''] then GcThread
     else if str_includes ''Compiler'' n then CompilerThread
     else OtherJvm)"

record stack_sample =
  sa_thread :: "string option"
  sa_frames :: "string list"
  sa_weight :: int

definition sa_role :: "stack_sample \<Rightarrow> thread_role" where
  "sa_role s = role (sa_thread s)"

text \<open>What \<^verbatim>\<open>.\<close> of a regular expression matches.\<close>

definition no_line_end :: "string \<Rightarrow> bool" where
  "no_line_end s \<longleftrightarrow> LF \<notin> set s \<and> CR \<notin> set s"

text \<open>
  \<^verbatim>\<open>/^(\S.*) ([0-9]+)$/\<close>: the digits at the end are preceded by a blank, which is the last one.
\<close>

definition match_weighted :: "string \<Rightarrow> (string \<times> string) option" where
  "match_weighted s =
     (let digits = rev (takeWhile is_digit (rev s)); rest = dropWhile is_digit (rev s) in
      if digits = [] \<or> rest = [] \<or> hd rest \<noteq> CHR '' '' then None
      else let stack = rev (tl rest) in
        if stack = [] \<or> is_space (hd stack) \<or> \<not> no_line_end stack then None
        else Some (stack, digits))"

text \<open>\<^verbatim>\<open>/^\[(.+) tid=\d+\]$/\<close>: the thread's name.\<close>

definition match_thread :: "string \<Rightarrow> string option" where
  "match_thread frame =
     (if frame = [] \<or> hd frame \<noteq> CHR ''['' \<or> last frame \<noteq> CHR '']'' then None
      else let inner = rev (butlast (tl frame)); digits = takeWhile is_digit inner;
               rest = dropWhile is_digit inner in
        if digits = [] \<or> \<not> starts_with (rev '' tid='') rest then None
        else let name = rev (drop 5 rest) in
          if name = [] \<or> \<not> no_line_end name then None else Some name)"

definition line_error :: "string \<Rightarrow> nat \<Rightarrow> 'a res" where
  "line_error what index = Inl (Error (what @ dec_nat (index + 1)))"

text \<open>The body of the loop up to the thread's role; \<open>None\<close> for a blank line.\<close>

definition parse_stack :: "nat \<Rightarrow> string \<Rightarrow> stack_sample option res" where
  "parse_stack index raw =
     (if js_trim raw = [] then Inr None
      else case match_weighted (js_trim_end raw) of
        None \<Rightarrow> line_error ''Malformed collapsed stack at line '' index
      | Some (stack, digits) \<Rightarrow>
          let weight = int (digits_value digits); frames = js_split (CHR '';'') stack in
          if \<not> safe_integer weight \<or> weight \<le> 0 then line_error ''Invalid profile weight at line '' index
          else if list_ex (\<lambda>frame. js_trim frame = []) frames then line_error ''Empty frame at line '' index
          else let thread = match_thread (hd frames);
                   frames' = (if thread \<noteq> None then tl frames else frames) in
            if frames' = [] then line_error ''Thread without stack at line '' index
            else Inr (Some \<lparr>sa_thread = thread, sa_frames = frames', sa_weight = weight\<rparr>))"

section \<open>Running totals\<close>

type_synonym counts = "(string \<times> int) list"

definition add :: "counts \<Rightarrow> string \<Rightarrow> int \<Rightarrow> counts res" where
  "add counts key weight =
     (let sum = lookup0 counts key + weight in
      if \<not> safe_integer sum then Inl (Error ''Profile weight exceeds safe integer range'')
      else Inr (AList.update key sum counts))"

fun add_frames :: "counts \<Rightarrow> string list \<Rightarrow> int \<Rightarrow> counts res" where
  "add_frames counts [] weight = Inr counts"
| "add_frames counts (f # fs) weight =
     bindR (add counts f weight) (\<lambda>counts'. add_frames counts' fs weight)"

text \<open>\<^verbatim>\<open>new Set(xs)\<close> in its order.\<close>

definition js_set :: "'a list \<Rightarrow> 'a list" where
  "js_set xs = rev (remdups (rev xs))"

definition stack_key :: "thread_role \<times> string list \<Rightarrow> string" where
  "stack_key d = ''['' @ quote_json (role_name (fst d)) @ '','' @ strings_json (snd d) @ '']''"

definition unknown_frame :: "string \<Rightarrow> bool" where
  "unknown_frame f \<longleftrightarrow> str_includes ''[unknown'' f \<or> str_includes ''unknown_Java'' f
     \<or> str_includes ''not_walkable'' f"

definition overflow_frame :: "string \<Rightarrow> bool" where
  "overflow_frame f \<longleftrightarrow> str_includes ''frame_buffer_overflow'' f"

text \<open>\<^verbatim>\<open>/java[/.]lang[/.]VirtualThread(?:[.$/]|$)/\<close> and \<^verbatim>\<open>/DowncallStub|^clj_h2o_|^h2o_/\<close>.\<close>

definition virtual_frame :: "string \<Rightarrow> bool" where
  "virtual_frame = some_suffix (\<lambda>t. starts_with ''java'' t \<and> length t \<ge> 23 \<and>
     t ! 4 \<in> {CHR ''/'', CHR ''.''} \<and> starts_with ''lang'' (drop 5 t) \<and>
     t ! 9 \<in> {CHR ''/'', CHR ''.''} \<and> starts_with ''VirtualThread'' (drop 10 t) \<and>
     (drop 23 t = [] \<or> hd (drop 23 t) \<in> {CHR ''.'', CHR ''$'', CHR ''/''}))"

definition native_frame :: "string \<Rightarrow> bool" where
  "native_frame f \<longleftrightarrow> str_includes ''DowncallStub'' f \<or> starts_with ''clj_h2o_'' f \<or> starts_with ''h2o_'' f"

record profile_state =
  pf_leaves :: counts
  pf_inclusive :: counts
  pf_roles :: counts
  pf_stacks :: counts
  pf_stackDetails :: "(string \<times> (thread_role \<times> string list)) list"
  pf_totalWeight :: int
  pf_stackLines :: nat
  pf_maxDepth :: nat
  pf_unknownFrameWeight :: int
  pf_missingThreadWeight :: int
  pf_overflowWeight :: int
  pf_virtualThreadNativeWeight :: int

definition profile_start :: profile_state where
  "profile_start = \<lparr>pf_leaves = [], pf_inclusive = [], pf_roles = [], pf_stacks = [],
     pf_stackDetails = [], pf_totalWeight = 0, pf_stackLines = 0, pf_maxDepth = 0,
     pf_unknownFrameWeight = 0, pf_missingThreadWeight = 0, pf_overflowWeight = 0,
     pf_virtualThreadNativeWeight = 0\<rparr>"

definition add_stack :: "profile_state \<Rightarrow> stack_sample \<Rightarrow> profile_state res" where
  "add_stack st s =
     (let weight = sa_weight s; frames = sa_frames s; totalWeight = pf_totalWeight st + weight;
          key = stack_key (sa_role s, frames) in
      if \<not> safe_integer totalWeight then Inl (Error ''Profile total exceeds safe integer range'')
      else bindR (add (pf_roles st) (role_name (sa_role s)) weight) (\<lambda>roles.
        bindR (add (pf_leaves st) (last frames) weight) (\<lambda>leaves.
        bindR (add_frames (pf_inclusive st) (js_set frames) weight) (\<lambda>inclusive.
        bindR (add (pf_stacks st) key weight) (\<lambda>stacks.
        Inr \<lparr>pf_leaves = leaves, pf_inclusive = inclusive, pf_roles = roles, pf_stacks = stacks,
          pf_stackDetails = AList.update key (sa_role s, frames) (pf_stackDetails st),
          pf_totalWeight = totalWeight, pf_stackLines = pf_stackLines st + 1,
          pf_maxDepth = max (pf_maxDepth st) (length frames),
          pf_unknownFrameWeight = pf_unknownFrameWeight st
            + (if list_ex unknown_frame frames then weight else 0),
          pf_missingThreadWeight = pf_missingThreadWeight st
            + (if sa_thread s = None then weight else 0),
          pf_overflowWeight = pf_overflowWeight st
            + (if list_ex overflow_frame frames then weight else 0),
          pf_virtualThreadNativeWeight = pf_virtualThreadNativeWeight st
            + (if list_ex virtual_frame frames \<and> list_ex native_frame frames then weight else 0)\<rparr>)))))"

fun profile_lines :: "nat \<Rightarrow> profile_state \<Rightarrow> string list \<Rightarrow> profile_state res" where
  "profile_lines index st [] = Inr st"
| "profile_lines index st (raw # rest) =
     bindR (parse_stack index raw) (\<lambda>sample. case sample of
       None \<Rightarrow> profile_lines (index + 1) st rest
     | Some s \<Rightarrow> bindR (add_stack st s) (\<lambda>st'. profile_lines (index + 1) st' rest))"

section \<open>The summary\<close>

record profile_input =
  in_event :: string
  in_completedRequests :: jsnum
  in_collapsed :: string
  in_top :: "jsnum option"

record metric =
  me_weight :: int
  me_percent :: jsnum
  me_perMillionRequests :: jsnum

record profile_summary =
  su_event :: string
  su_unit :: string
  su_completedRequests :: int
  su_totalWeight :: int
  su_weightPerMillionRequests :: jsnum
  su_stackLines :: nat
  su_maxDepth :: nat
  su_unknownFrames :: metric
  su_missingThread :: metric
  su_stackOverflow :: metric
  su_virtualThreadNative :: metric
  su_threadRoles :: "(string \<times> metric) list"
  su_leaves :: "(string \<times> metric) list"
  su_inclusiveFrames :: "(string \<times> metric) list"
  su_completeStacks :: "((thread_role \<times> string list) \<times> metric) list"
  su_limitations :: "string list"

definition metric_of :: "int \<Rightarrow> int \<Rightarrow> int \<Rightarrow> metric" where
  "metric_of requests whole weight = \<lparr>me_weight = weight,
     me_percent = js_mul (js_div (js_of_int weight) (js_of_int whole)) (Fin 100),
     me_perMillionRequests =
       js_mul (js_div (js_of_int weight) (js_of_int requests)) (Fin 1000000)\<rparr>"

definition ranked :: "counts \<Rightarrow> nat \<Rightarrow> (string \<times> int) list" where
  "ranked counts limit = take limit (sort_key rank_key counts)"

definition profile_limitations :: "string \<Rightarrow> string list" where
  "profile_limitations event =
     [''Inclusive frame weights overlap; do not add them.'',
      ''A profile is diagnostic evidence, not a benchmark score.'',
      ''No observed native call does not prove virtual-thread safety.''] @
     (if event = ''alloc'' then [''Allocation weights are not exact bytes per request.''] else []) @
     (if event = ''wall'' then [''Wall samples include idle waits; they are not CPU time.''] else [])"

definition profile_top :: "profile_input \<Rightarrow> nat res" where
  "profile_top inp = (case safe_int_of (case in_top inp of None \<Rightarrow> Fin 20 | Some x \<Rightarrow> x) of
     Some t \<Rightarrow> if 1 \<le> t \<and> t \<le> 100 then Inr (nat t)
       else Inl (Error ''top must be an integer from 1 to 100'')
   | None \<Rightarrow> Inl (Error ''top must be an integer from 1 to 100''))"

definition summary_of :: "profile_input \<Rightarrow> int \<Rightarrow> nat \<Rightarrow> profile_state \<Rightarrow> profile_summary" where
  "summary_of inp requests limit st =
     (let metric = metric_of requests (pf_totalWeight st);
          rows = map (\<lambda>(name, weight). (name, metric weight)) in
      \<lparr>su_event = in_event inp,
       su_unit = (if in_event inp = ''alloc'' then ''allocation-weight'' else ''samples''),
       su_completedRequests = requests, su_totalWeight = pf_totalWeight st,
       su_weightPerMillionRequests = me_perMillionRequests (metric (pf_totalWeight st)),
       su_stackLines = pf_stackLines st, su_maxDepth = pf_maxDepth st,
       su_unknownFrames = metric (pf_unknownFrameWeight st),
       su_missingThread = metric (pf_missingThreadWeight st),
       su_stackOverflow = metric (pf_overflowWeight st),
       su_virtualThreadNative = metric (pf_virtualThreadNativeWeight st),
       su_threadRoles = rows (ranked (pf_roles st) (length (pf_roles st))),
       su_leaves = rows (ranked (pf_leaves st) limit),
       su_inclusiveFrames = rows (ranked (pf_inclusive st) limit),
       su_completeStacks = map (\<lambda>(name, weight).
         (the (map_of (pf_stackDetails st) name), metric weight)) (ranked (pf_stacks st) limit),
       su_limitations = profile_limitations (in_event inp)\<rparr>)"

definition summarizeProfile :: "profile_input \<Rightarrow> profile_summary res" where
  "summarizeProfile inp =
     (if in_event inp \<notin> {''cpu'', ''ctimer'', ''wall'', ''alloc''}
      then Inl (Error ''Unsupported profile event'')
      else case safe_int_of (in_completedRequests inp) of
        None \<Rightarrow> Inl (Error ''completedRequests must be a positive safe integer'')
      | Some requests \<Rightarrow>
          if requests \<le> 0 then Inl (Error ''completedRequests must be a positive safe integer'')
          else bindR (profile_top inp) (\<lambda>limit.
            bindR (profile_lines 0 profile_start (js_lines (in_collapsed inp))) (\<lambda>st.
              if pf_totalWeight st = 0 then Inl (Error ''Profile has no samples'')
              else Inr (summary_of inp requests limit st))))"

section \<open>The summary at once\<close>

definition weights_by :: "(stack_sample \<Rightarrow> string list) \<Rightarrow> stack_sample list \<Rightarrow> counts" where
  "weights_by keys samples = concat (map (\<lambda>s. map (\<lambda>k. (k, sa_weight s)) (keys s)) samples)"

definition weight_where :: "(stack_sample \<Rightarrow> bool) \<Rightarrow> stack_sample list \<Rightarrow> int" where
  "weight_where P samples = sum_list (map sa_weight (filter P samples))"

definition total_weight :: "stack_sample list \<Rightarrow> int" where
  "total_weight samples = sum_list (map sa_weight samples)"

definition stack_of :: "stack_sample \<Rightarrow> thread_role \<times> string list" where
  "stack_of s = (sa_role s, sa_frames s)"

definition role_keys :: "stack_sample \<Rightarrow> string list" where
  "role_keys s = [role_name (sa_role s)]"

definition leaf_keys :: "stack_sample \<Rightarrow> string list" where
  "leaf_keys s = [last (sa_frames s)]"

definition frame_keys :: "stack_sample \<Rightarrow> string list" where
  "frame_keys s = js_set (sa_frames s)"

definition stack_keys :: "stack_sample \<Rightarrow> string list" where
  "stack_keys s = [stack_key (stack_of s)]"

lemma js_set_simps [simp]: "set (js_set xs) = set xs" "distinct (js_set xs)"
  by (simp_all add: js_set_def)

lemma weights_by_append [simp]: "weights_by keys (xs @ ys) = weights_by keys xs @ weights_by keys ys"
  by (simp add: weights_by_def)

lemma weights_by_single: "weights_by keys [s] = map (\<lambda>k. (k, sa_weight s)) (keys s)"
  by (simp add: weights_by_def)

lemma weight_where_append [simp]: "weight_where P (xs @ ys) = weight_where P xs + weight_where P ys"
  by (simp add: weight_where_def)

lemma weight_where_single [simp]: "weight_where P [s] = (if P s then sa_weight s else 0)"
  by (simp add: weight_where_def)

lemma total_weight_simps [simp]: "total_weight [] = 0"
  "total_weight (s # xs) = sa_weight s + total_weight xs"
  "total_weight (xs @ ys) = total_weight xs + total_weight ys"
  by (simp_all add: total_weight_def)

text \<open>The loop's state after a list of samples.\<close>

definition built :: "stack_sample list \<Rightarrow> profile_state" where
  "built samples = \<lparr>pf_leaves = tally (weights_by leaf_keys samples),
     pf_inclusive = tally (weights_by frame_keys samples),
     pf_roles = tally (weights_by role_keys samples),
     pf_stacks = tally (weights_by stack_keys samples),
     pf_stackDetails = foldl (\<lambda>m s. AList.update (stack_key (stack_of s)) (stack_of s) m) [] samples,
     pf_totalWeight = total_weight samples, pf_stackLines = length samples,
     pf_maxDepth = foldl (\<lambda>d s. max d (length (sa_frames s))) 0 samples,
     pf_unknownFrameWeight = weight_where (\<lambda>s. list_ex unknown_frame (sa_frames s)) samples,
     pf_missingThreadWeight = weight_where (\<lambda>s. sa_thread s = None) samples,
     pf_overflowWeight = weight_where (\<lambda>s. list_ex overflow_frame (sa_frames s)) samples,
     pf_virtualThreadNativeWeight = weight_where (\<lambda>s. list_ex virtual_frame (sa_frames s) \<and>
       list_ex native_frame (sa_frames s)) samples\<rparr>"

definition sample_ok :: "stack_sample \<Rightarrow> bool" where
  "sample_ok s \<longleftrightarrow> 0 < sa_weight s \<and> sa_frames s \<noteq> []"

lemma built_Nil: "built [] = profile_start"
  by (simp add: built_def profile_start_def weights_by_def weight_where_def)

lemma key_total_single:
  "distinct ks \<Longrightarrow> key_total (map (\<lambda>k. (k, w)) ks) k = (if k \<in> set ks then w else 0)"
  by (induction ks) auto

lemma weights_by_bounds:
  assumes "list_all sample_ok samples" "\<forall>s. distinct (keys s)"
  shows "0 \<le> key_total (weights_by keys samples) k"
    "key_total (weights_by keys samples) k \<le> total_weight samples"
  using assms(1)
  by (induction samples) (auto simp: weights_by_def sample_ok_def key_total_single assms(2))

lemma total_weight_nonneg: "list_all sample_ok samples \<Longrightarrow> 0 \<le> total_weight samples"
  by (induction samples) (auto simp: sample_ok_def)

text \<open>No key outweighs the total, so only the total's own check can fail.\<close>

lemma safe_between: "safe_integer b \<Longrightarrow> 0 \<le> a \<Longrightarrow> a \<le> b \<Longrightarrow> safe_integer a"
  by (simp add: safe_integer_def)

lemma add_eq: "safe_integer (lookup0 counts k + w) \<Longrightarrow> add counts k w = Inr (bump counts (k, w))"
  by (simp add: add_def bump_def)

lemma add_frames_eq:
  assumes "\<forall>k \<in> set ks. safe_integer (lookup0 counts k + w)" "distinct ks"
  shows "add_frames counts ks w = Inr (foldl bump counts (map (\<lambda>k. (k, w)) ks))"
  using assms
proof (induction ks arbitrary: counts)
  case (Cons k ks)
  then have "\<forall>j \<in> set ks. safe_integer (lookup0 (bump counts (k, w)) j + w)"
    by auto
  with Cons show ?case by (simp add: add_eq)
qed simp

lemma add_stack_built:
  assumes "list_all sample_ok samples" "sample_ok s"
  shows "add_stack (built samples) s =
    (if safe_integer (total_weight samples + sa_weight s) then Inr (built (samples @ [s]))
     else Inl (Error ''Profile total exceeds safe integer range''))"
proof (cases "safe_integer (total_weight samples + sa_weight s)")
  case True
  have safe: "safe_integer (lookup0 (tally (weights_by keys samples)) k + sa_weight s)"
    if "\<forall>s. distinct (keys s)" for keys k
    using weights_by_bounds [OF assms(1) that, of k] assms(2) True
    by (intro safe_between [OF True]) (auto simp: sample_ok_def)
  have keys: "\<forall>s. distinct (role_keys s)" "\<forall>s. distinct (leaf_keys s)" "\<forall>s. distinct (frame_keys s)"
    "\<forall>s. distinct (stack_keys s)"
    by (simp_all add: role_keys_def leaf_keys_def frame_keys_def stack_keys_def)
  note safe = safe [of role_keys, OF keys(1)] safe [of leaf_keys, OF keys(2)]
    safe [of frame_keys, OF keys(3)] safe [of stack_keys, OF keys(4)]
  have "add (tally (weights_by role_keys samples)) (role_name (sa_role s)) (sa_weight s) =
      Inr (tally (weights_by role_keys (samples @ [s])))"
    by (simp add: add_eq [OF safe(1)] tally_append weights_by_single role_keys_def)
  moreover have "add (tally (weights_by leaf_keys samples)) (last (sa_frames s)) (sa_weight s) =
      Inr (tally (weights_by leaf_keys (samples @ [s])))"
    by (simp add: add_eq [OF safe(2)] tally_append weights_by_single leaf_keys_def)
  moreover have "add_frames (tally (weights_by frame_keys samples)) (js_set (sa_frames s)) (sa_weight s) =
      Inr (tally (weights_by frame_keys (samples @ [s])))"
    using safe(3) by (simp add: add_frames_eq tally_append weights_by_single frame_keys_def)
  moreover have "add (tally (weights_by stack_keys samples)) (stack_key (sa_role s, sa_frames s)) (sa_weight s) =
      Inr (tally (weights_by stack_keys (samples @ [s])))"
    by (simp add: add_eq [OF safe(4)] tally_append weights_by_single stack_keys_def stack_of_def)
  ultimately show ?thesis
    using True by (simp add: add_stack_def Let_def built_def stack_of_def)
next
  case False
  then show ?thesis by (simp add: add_stack_def Let_def built_def)
qed

text \<open>The samples of the lines, all parsed at once.\<close>

fun stack_samples :: "nat \<Rightarrow> string list \<Rightarrow> stack_sample list res" where
  "stack_samples index [] = Inr []"
| "stack_samples index (raw # rest) =
     bindR (parse_stack index raw) (\<lambda>sample. bindR (stack_samples (index + 1) rest) (\<lambda>samples.
       Inr (case sample of None \<Rightarrow> samples | Some s \<Rightarrow> s # samples)))"

lemma parse_stack_ok: "parse_stack index raw = Inr (Some s) \<Longrightarrow> sample_ok s"
  by (auto simp: parse_stack_def line_error_def sample_ok_def Let_def split: if_splits option.splits)

lemma stack_samples_ok: "stack_samples index ls = Inr samples \<Longrightarrow> list_all sample_ok samples"
  by (induction ls arbitrary: index samples)
    (auto simp: res_simps split: option.splits intro: parse_stack_ok)

text \<open>A total beyond the safe integers stays beyond them: weights only add.\<close>

lemma unsafe_total_stays:
  assumes "list_all sample_ok (xs @ [s])" "list_all sample_ok zs" "\<not> safe_integer (total_weight xs + sa_weight s)"
  shows "\<not> safe_integer (total_weight (xs @ s # zs))"
proof -
  have "0 \<le> total_weight zs" "0 \<le> total_weight (xs @ [s])"
    by (rule total_weight_nonneg [OF assms(2)], rule total_weight_nonneg [OF assms(1)])
  then show ?thesis
    using assms(3) safe_between [of "total_weight (xs @ s # zs)" "total_weight xs + sa_weight s"] by auto
qed

lemma profile_lines_built:
  assumes "list_all sample_ok xs"
  shows "profile_lines index (built xs) ls = Inr st \<longleftrightarrow>
    (\<exists>ys. stack_samples index ls = Inr ys \<and> st = built (xs @ ys) \<and>
      (ys = [] \<or> safe_integer (total_weight (xs @ ys))))"
  using assms
proof (induction ls arbitrary: index xs)
  case Nil
  then show ?case by auto
next
  case (Cons raw rest)
  show ?case
  proof (cases "parse_stack index raw")
    case (Inl e)
    then show ?thesis by simp
  next
    case parsed: (Inr sample)
    show ?thesis
    proof (cases sample)
      case None
      with parsed Cons show ?thesis by (auto simp: res_simps)
    next
      case (Some s)
      with parsed have s: "sample_ok s" by (simp add: parse_stack_ok)
      with Cons.prems have xs: "list_all sample_ok (xs @ [s])" by simp
      note IH = Cons.IH [OF xs, of "index + 1"]
      have loop: "profile_lines index (built xs) (raw # rest) =
          bindR (add_stack (built xs) s) (\<lambda>st'. profile_lines (index + 1) st' rest)"
        using parsed Some by simp
      have samples: "stack_samples index (raw # rest) = Inr ys \<longleftrightarrow>
          (\<exists>zs. stack_samples (index + 1) rest = Inr zs \<and> ys = s # zs)" for ys
        using parsed Some by (auto simp: res_simps)
      show ?thesis
      proof (cases "safe_integer (total_weight xs + sa_weight s)")
        case True
        then have "safe_integer (total_weight (xs @ s # zs))" if "zs = []" for zs
          using that by simp
        with True show ?thesis
          unfolding loop samples add_stack_built [OF Cons.prems s]
          by (simp only: if_True bindR_Inr IH append_assoc append_Cons append_Nil) blast
      next
        case False
        then have "\<not> safe_integer (total_weight (xs @ s # zs))" if "stack_samples (index + 1) rest = Inr zs" for zs
          using unsafe_total_stays [OF xs stack_samples_ok [OF that]] by blast
        with False show ?thesis
          unfolding loop samples add_stack_built [OF Cons.prems s]
          by (simp only: if_False bindR_Inl) blast
      qed
    qed
  qed
qed

definition heaviest :: "nat \<Rightarrow> (stack_sample \<Rightarrow> string list) \<Rightarrow> stack_sample list \<Rightarrow> counts" where
  "heaviest limit keys samples = take limit (sort_key rank_key (key_totals (weights_by keys samples)))"

definition stack_rank :: "stack_sample list \<Rightarrow> thread_role \<times> string list \<Rightarrow> int \<times> string" where
  "stack_rank samples d = (- weight_where (\<lambda>s. stack_of s = d) samples, stack_key d)"

definition reference_summary :: "profile_input \<Rightarrow> int \<Rightarrow> nat \<Rightarrow> stack_sample list \<Rightarrow> profile_summary" where
  "reference_summary inp requests limit samples =
     (let metric = metric_of requests (total_weight samples);
          rows = map (\<lambda>(name, weight). (name, metric weight));
          share = (\<lambda>P. metric (weight_where P samples));
          has = (\<lambda>p s. list_ex p (sa_frames s)) in
      \<lparr>su_event = in_event inp,
       su_unit = (if in_event inp = ''alloc'' then ''allocation-weight'' else ''samples''),
       su_completedRequests = requests, su_totalWeight = total_weight samples,
       su_weightPerMillionRequests = me_perMillionRequests (metric (total_weight samples)),
       su_stackLines = length samples,
       su_maxDepth = foldl (\<lambda>d s. max d (length (sa_frames s))) 0 samples,
       su_unknownFrames = share (has unknown_frame),
       su_missingThread = share (\<lambda>s. sa_thread s = None),
       su_stackOverflow = share (has overflow_frame),
       su_virtualThreadNative = share (\<lambda>s. has virtual_frame s \<and> has native_frame s),
       su_threadRoles = rows (heaviest (length samples) role_keys samples),
       su_leaves = rows (heaviest limit leaf_keys samples),
       su_inclusiveFrames = rows (heaviest limit frame_keys samples),
       su_completeStacks = map (\<lambda>d. (d, share (\<lambda>s. stack_of s = d)))
         (take limit (sort_key (stack_rank samples) (remdups (map stack_of samples)))),
       su_limitations = profile_limitations (in_event inp)\<rparr>)"

lemma role_name_inject [simp]: "role_name a = role_name b \<longleftrightarrow> a = b"
  by (cases a; cases b) (simp_all add: role_name_def)

lemma stack_key_inject [simp]: "stack_key d = stack_key e \<longleftrightarrow> d = e"
proof
  assume "stack_key d = stack_key e"
  then have eq: "quote_json (role_name (fst d)) @ '','' @ strings_json (snd d) @ '']'' =
      quote_json (role_name (fst e)) @ '','' @ strings_json (snd e) @ '']''"
    by (simp add: stack_key_def)
  from quote_json_prefix [OF eq] show "d = e" by (simp add: prod_eq_iff)
qed simp

lemma key_total_stacks:
  "key_total (weights_by stack_keys samples) (stack_key d) = weight_where (\<lambda>s. stack_of s = d) samples"
  by (induction samples) (simp_all add: weights_by_def weight_where_def stack_keys_def)

lemma stack_details:
  "d \<in> stack_of ` set samples \<Longrightarrow>
     map_of (foldl (\<lambda>m s. AList.update (stack_key (stack_of s)) (stack_of s) m) [] samples) (stack_key d) = Some d"
  by (induction samples rule: rev_induct) (auto simp: update_conv')

lemma ranked_stacks:
  "sort_key rank_key (tally (weights_by stack_keys samples)) =
     map (\<lambda>d. (stack_key d, weight_where (\<lambda>s. stack_of s = d) samples))
       (sort_key (stack_rank samples) (remdups (map stack_of samples)))" (is "_ = map ?g ?ds")
proof (rule sort_key_inj_key_eq)
  let ?K = "weights_by stack_keys samples"
  have "distinct (tally ?K)" using distinct_tally distinct_map by blast
  moreover have "inj ?g" by (auto simp: inj_def)
  then have "distinct (map ?g ?ds)" by (auto simp: distinct_map intro: inj_on_subset)
  moreover have "fst ` set ?K = stack_key ` stack_of ` set samples"
    by (simp add: weights_by_def stack_keys_def image_image)
  then have "e \<in> set (tally ?K) \<longleftrightarrow> e \<in> set (map ?g ?ds)" for e
    by (cases e) (auto simp: tally_entry key_total_stacks)
  then have "set (tally ?K) = set (map ?g ?ds)" by blast
  ultimately show "mset (tally ?K) = mset (map ?g ?ds)"
    using set_eq_iff_mset_eq_distinct by blast
  show "inj_on rank_key (set (tally ?K))"
    using inj_rank_key by (rule inj_on_subset) simp
  have "rank_key \<circ> ?g = stack_rank samples"
    by (simp add: fun_eq_iff rank_key_def stack_rank_def)
  then show "sorted (map rank_key (map ?g ?ds))" by simp
qed

lemma length_tally_le: "length (tally (weights_by role_keys samples)) \<le> length samples"
proof -
  have "length (tally (weights_by role_keys samples)) =
      card (set (map fst (weights_by role_keys samples)))"
    by (metis distinct_card distinct_tally keys_tally length_map)
  also have "\<dots> \<le> length (map fst (weights_by role_keys samples))" by (rule card_length)
  also have "\<dots> = length samples"
    by (simp add: weights_by_def role_keys_def length_concat comp_def sum_list_triv)
  finally show ?thesis .
qed

lemma summary_of_built: "summary_of inp requests limit (built samples) =
    reference_summary inp requests limit samples"
proof -
  have "map (\<lambda>(name, weight). (the (map_of (pf_stackDetails (built samples)) name), g weight))
      (ranked (tally (weights_by stack_keys samples)) limit) =
    map (\<lambda>d. (d, g (weight_where (\<lambda>s. stack_of s = d) samples)))
      (take limit (sort_key (stack_rank samples) (remdups (map stack_of samples))))" for g :: "int \<Rightarrow> metric"
    by (auto simp: ranked_def ranked_stacks take_map built_def stack_details dest!: in_set_takeD)
  moreover have "ranked (tally (weights_by role_keys samples)) (length (tally (weights_by role_keys samples)))
      = heaviest (length samples) role_keys samples"
    using length_tally_le by (simp add: ranked_def heaviest_def flip: ranked_tally)
  ultimately show ?thesis
    by (simp add: summary_of_def reference_summary_def Let_def built_def heaviest_def ranked_def
        ranked_tally)
qed

lemma total_weight_pos: "list_all sample_ok samples \<Longrightarrow> samples \<noteq> [] \<Longrightarrow> 0 < total_weight samples"
  using total_weight_nonneg by (cases samples) (fastforce simp: sample_ok_def)+

lemma summarizeProfile_Inr:
  "summarizeProfile inp = Inr s \<longleftrightarrow> in_event inp \<in> {''cpu'', ''ctimer'', ''wall'', ''alloc''} \<and>
     (\<exists>requests limit samples. safe_int_of (in_completedRequests inp) = Some requests \<and> 0 < requests \<and>
        profile_top inp = Inr limit \<and> stack_samples 0 (js_lines (in_collapsed inp)) = Inr samples \<and>
        samples \<noteq> [] \<and> safe_integer (total_weight samples) \<and>
        s = reference_summary inp requests limit samples)"
proof -
  have loop: "bindR (profile_lines 0 profile_start ls)
        (\<lambda>st. if pf_totalWeight st = 0 then Inl e else Inr (f st)) = Inr s \<longleftrightarrow>
      (\<exists>samples. stack_samples 0 ls = Inr samples \<and> samples \<noteq> [] \<and>
        safe_integer (total_weight samples) \<and> s = f (built samples))" for ls f e
  proof -
    have "pf_totalWeight (built ys) = 0 \<longleftrightarrow> ys = []" if "stack_samples 0 ls = Inr ys" for ys
      using total_weight_pos [OF stack_samples_ok [OF that]] by (cases "ys = []") (auto simp: built_def)
    then show ?thesis
      using profile_lines_built [of "[]" 0 ls] by (auto simp: built_Nil bindR_eq_Inr split: if_splits)
  qed
  consider (event) "in_event inp \<notin> {''cpu'', ''ctimer'', ''wall'', ''alloc''}"
    | (requests) "in_event inp \<in> {''cpu'', ''ctimer'', ''wall'', ''alloc''}"
      "safe_int_of (in_completedRequests inp) = None"
    | (ok) r where "in_event inp \<in> {''cpu'', ''ctimer'', ''wall'', ''alloc''}"
      "safe_int_of (in_completedRequests inp) = Some r"
    by blast
  then show ?thesis
  proof cases
    case ok
    show ?thesis
    proof (cases "r \<le> 0 \<or> (\<exists>e. profile_top inp = Inl e)")
      case True
      with ok show ?thesis by (auto simp: summarizeProfile_def)
    next
      case False
      then obtain limit where limit: "profile_top inp = Inr limit" and r: "0 < r"
        by (cases "profile_top inp") auto
      with ok have "summarizeProfile inp =
          bindR (profile_lines 0 profile_start (js_lines (in_collapsed inp)))
            (\<lambda>st. if pf_totalWeight st = 0 then Inl (Error ''Profile has no samples'')
               else Inr (summary_of inp r limit st))"
        by (simp add: summarizeProfile_def)
      then show ?thesis
        using ok limit r by (simp only: loop summary_of_built) simp
    qed
  qed (simp_all add: summarizeProfile_def)
qed

text \<open>A share of the total is a percentage.\<close>

lemma percent_bounds:
  assumes "0 \<le> w" "w \<le> whole" "0 < whole" "safe_integer whole"
  shows "\<exists>p. me_percent (metric_of requests whole w) = Fin p \<and> 0 \<le> p \<and> p \<le> 100"
proof -
  have "js_of_int w = Fin (of_int w)" "js_of_int whole = Fin (of_int whole)"
    using assms by (simp_all add: js_of_int_exact safe_integer_def max_safe_integer_def)
  then have d: "js_div (js_of_int w) (js_of_int whole) = fl64 (of_int w / of_int whole)"
    using assms(3) by simp
  have q: "0 \<le> (of_int w / of_int whole :: rat)" "of_int w / of_int whole \<le> (1 :: rat)"
    using assms(1-3) by simp_all
  obtain x where x: "fl64 (of_int w / of_int whole) = Fin x" "0 \<le> x" "x \<le> 1"
    using fl64_between [OF q] binary64.zero binary64.one by auto
  have "0 \<le> x * 100" "x * 100 \<le> 100" using x(2,3) by simp_all
  moreover have "rnd64 100 = 100" using rnd64_of_int [of 100] by simp
  ultimately obtain y where "fl64 (x * 100) = Fin y" "0 \<le> y" "y \<le> 100"
    using fl64_between [of 0 "x * 100" 100] binary64.zero by auto
  then show ?thesis by (simp add: metric_of_def d x(1))
qed

lemma key_total_pos:
  assumes "list_all sample_ok samples" "k \<in> fst ` set (weights_by keys samples)"
  shows "0 < key_total (weights_by keys samples) k"
proof -
  have pos: "\<forall>e \<in> set (weights_by keys samples). 0 < snd e"
    using assms(1) by (auto simp: weights_by_def list_all_iff sample_ok_def)
  have "0 \<le> key_total kws k \<and> (k \<in> fst ` set kws \<longrightarrow> 0 < key_total kws k)"
    if "\<forall>e \<in> set kws. 0 < snd e" for kws
    using that by (induction kws) (auto simp: add_pos_nonneg add_nonneg_pos)
  with pos assms(2) show ?thesis by blast
qed

lemma heaviest_entry:
  assumes "list_all sample_ok samples" "\<forall>s. distinct (keys s)"
    and "(k, w) \<in> set (heaviest limit keys samples)"
  shows "0 < w \<and> w \<le> total_weight samples"
proof -
  have "(k, w) \<in> set (key_totals (weights_by keys samples))"
    using assms(3) by (auto simp: heaviest_def dest: in_set_takeD)
  then have "k \<in> fst ` set (weights_by keys samples)" "w = key_total (weights_by keys samples) k"
    by (auto simp: key_totals_def)
  then show ?thesis
    using key_total_pos [OF assms(1)] weights_by_bounds [OF assms(1,2)] by simp
qed

lemma heaviest_sorted:
  "sorted_wrt (\<lambda>x y. me_weight (snd y) \<le> me_weight (snd x))
     (map (\<lambda>(n, w). (n, metric_of requests whole w)) (heaviest limit keys samples))"
proof -
  have "sorted_wrt (\<lambda>x y. rank_key x \<le> rank_key y) (heaviest limit keys samples)"
    using sorted_sort_key [of rank_key] by (simp add: heaviest_def sorted_wrt_take sorted_map)
  then show ?thesis
    unfolding sorted_wrt_map
    by (rule sorted_wrt_mono_rel [rotated]) (auto simp: rank_key_def metric_of_def less_eq_prod_def)
qed

lemma distinct_keys [simp]: "distinct (role_keys s)" "distinct (leaf_keys s)" "distinct (frame_keys s)"
  by (simp_all add: role_keys_def leaf_keys_def frame_keys_def)

lemma roles_sum: "sum_list (map snd (heaviest (length samples) role_keys samples)) = total_weight samples"
proof -
  let ?K = "weights_by role_keys samples"
  have "heaviest (length samples) role_keys samples = sort_key rank_key (tally ?K)"
    using length_tally_le by (simp add: heaviest_def flip: ranked_tally)
  then have "mset (heaviest (length samples) role_keys samples) = mset (tally ?K)" by simp
  then have "sum_list (map snd (heaviest (length samples) role_keys samples)) = sum_list (map snd (tally ?K))"
    by (metis mset_map sum_mset_sum_list)
  also have "\<dots> = total_weight samples"
    by (simp add: sum_tally weights_by_def role_keys_def total_weight_def comp_def map_concat concat_map_singleton)
  finally show ?thesis .
qed

lemma weight_where_bounds:
  "list_all sample_ok samples \<Longrightarrow> 0 \<le> weight_where P samples \<and> weight_where P samples \<le> total_weight samples"
  by (induction samples) (auto simp: weight_where_def sample_ok_def)

definition percentage :: "jsnum \<Rightarrow> bool" where
  "percentage x \<longleftrightarrow> (\<exists>p. x = Fin p \<and> 0 \<le> p \<and> p \<le> 100)"

definition sample_profile :: profile_input where
  "sample_profile = \<lparr>in_event = ''ctimer'', in_completedRequests = Fin 10,
     in_collapsed = ''[h2o-evloop-0 tid=7];run;clj_h2o_poll 3'' @ [CR, LF]
       @ ''java/lang/VirtualThread.run;clj_h2o_poll 1'' @ [LF],
     in_top = Some (Fin 1)\<rparr>"

lemma sample_profile_samples:
  "stack_samples 0 (js_lines (in_collapsed sample_profile)) =
     Inr [\<lparr>sa_thread = Some ''h2o-evloop-0'', sa_frames = [''run'', ''clj_h2o_poll''], sa_weight = 3\<rparr>,
       \<lparr>sa_thread = None, sa_frames = [''java/lang/VirtualThread.run'', ''clj_h2o_poll''], sa_weight = 1\<rparr>]"
  by code_simp

lemma sample_profile_accepted: "\<exists>s. summarizeProfile sample_profile = Inr s \<and> su_totalWeight s = 4"
  unfolding summarizeProfile_Inr sample_profile_samples
  by (simp add: sample_profile_def safe_int_of_def profile_top_def safe_integer_def
      max_safe_integer_def reference_summary_def Let_def)

section \<open>Properties\<close>

text \<open>
  C25: A profile summary is the one computed at once from the samples of the profile's non-blank
  lines. It is returned exactly when the event is known, the request count and the row limit are
  in range, every such line is a stack with a positive weight, and the weights have a safe sum;
  then each thread role, leaf frame, frame and complete stack carries the weight of the samples
  that show it, a frame that repeats in a stack counted once, ranked by weight and then name.
\<close>

theorem profile_summary_is_reference:
  "summarizeProfile inp = Inr s \<longleftrightarrow> in_event inp \<in> {''cpu'', ''ctimer'', ''wall'', ''alloc''} \<and>
     (\<exists>requests limit samples. safe_int_of (in_completedRequests inp) = Some requests \<and> 0 < requests \<and>
        profile_top inp = Inr limit \<and> stack_samples 0 (js_lines (in_collapsed inp)) = Inr samples \<and>
        samples \<noteq> [] \<and> safe_integer (total_weight samples) \<and>
        s = reference_summary inp requests limit samples)"
  by (rule summarizeProfile_Inr)

text \<open>
  The thread roles share out the whole weight of a summarised profile; every leaf, frame and
  role has a positive weight of at most the total and a percentage between 0 and 100 (rounding
  included), as have the weights of unknown frames, missing threads, overflows and native calls
  on virtual threads; and the leaves and frames come heaviest first, at most 100 of them.
\<close>

theorem profile_weights_bounded:
  assumes "summarizeProfile inp = Inr s"
  shows "sum_list (map (\<lambda>row. me_weight (snd row)) (su_threadRoles s)) = su_totalWeight s \<and>
    (\<forall>row \<in> set (su_threadRoles s @ su_leaves s @ su_inclusiveFrames s).
       0 < me_weight (snd row) \<and> me_weight (snd row) \<le> su_totalWeight s \<and> percentage (me_percent (snd row))) \<and>
    (\<forall>m \<in> {su_unknownFrames s, su_missingThread s, su_stackOverflow s, su_virtualThreadNative s}.
       0 \<le> me_weight m \<and> me_weight m \<le> su_totalWeight s \<and> percentage (me_percent m)) \<and>
    (\<forall>rows \<in> {su_leaves s, su_inclusiveFrames s}. length rows \<le> 100 \<and>
       sorted_wrt (\<lambda>x y. me_weight (snd y) \<le> me_weight (snd x)) rows)"
proof -
  from assms obtain requests limit samples where
    samples: "stack_samples 0 (js_lines (in_collapsed inp)) = Inr samples" "samples \<noteq> []"
      "safe_integer (total_weight samples)"
    and limit: "profile_top inp = Inr limit" and s: "s = reference_summary inp requests limit samples"
    unfolding summarizeProfile_Inr by blast
  have ok: "list_all sample_ok samples" by (rule stack_samples_ok [OF samples(1)])
  have pos: "0 < total_weight samples" by (rule total_weight_pos [OF ok samples(2)])
  let ?m = "metric_of requests (total_weight samples)"
  have percent: "percentage (me_percent (?m w))" if "0 \<le> w" "w \<le> total_weight samples" for w
    using percent_bounds [OF that pos samples(3)] by (simp add: percentage_def)
  have weight [simp]: "me_weight (?m w) = w" for w by (simp add: metric_of_def)
  have "limit \<le> 100" using limit by (auto simp: profile_top_def split: option.splits if_splits)
  moreover have row: "0 < w \<and> w \<le> total_weight samples \<and> percentage (me_percent (?m w))"
    if "(n, w) \<in> set (heaviest k keys samples)" "\<forall>s. distinct (keys s)" for n w k keys
    using heaviest_entry [OF ok that(2,1)] percent by simp
  moreover have "sum_list (map (\<lambda>row. me_weight (snd row))
      (map (\<lambda>(n, w). (n, ?m w)) (heaviest (length samples) role_keys samples))) = total_weight samples"
    using roles_sum [of samples] by (simp add: comp_def case_prod_unfold)
  ultimately show ?thesis
    using weight_where_bounds [OF ok] percent heaviest_sorted
    by (simp add: s reference_summary_def Let_def) (auto simp: heaviest_def)
qed

theorem profile_weights_bounded_witness:
  "\<exists>s. summarizeProfile sample_profile = Inr s \<and> su_totalWeight s = 4 \<and>
     sum_list (map (\<lambda>row. me_weight (snd row)) (su_threadRoles s)) = 4"
  using sample_profile_accepted profile_weights_bounded [of sample_profile] by auto

end
