(* ===== verification/Counters.thy ===== *)
theory Counters
  imports Js_Text Store
begin

text \<open>
  \<^verbatim>\<open>_lib/counters.ts\<close>: reading the kernel's counters of a process and of its control group, and
  the cost of a measured interval. The files under \<^verbatim>\<open>/proc\<close> and \<^verbatim>\<open>/sys\<close> are read one after
  the other while the process runs: reading is an action on a state the reader does not own.
\<close>

section \<open>Process counters\<close>

record process_counters =
  pc_pid :: int
  pc_name :: string
  pc_startTicks :: int
  pc_userTicks :: int
  pc_systemTicks :: int
  pc_voluntarySwitches :: "int option"
  pc_involuntarySwitches :: "int option"
  pc_schedulerRunNs :: "int option"
  pc_schedulerWaitNs :: "int option"
  pc_allowedCpus :: "string option"

text \<open>
  \<^verbatim>\<open>/^\d+$/\<close> and \<^verbatim>\<open>Number\<close>: a numeral above the safe integers rounds to at least \<^verbatim>\<open>2^53\<close>.
\<close>

definition count :: "string option \<Rightarrow> string \<Rightarrow> int res" where
  "count value field = (case value of
     None \<Rightarrow> Inl (Error (''Missing or invalid '' @ field))
   | Some v \<Rightarrow>
       if v = [] \<or> \<not> list_all is_digit v then Inl (Error (''Missing or invalid '' @ field))
       else let result = int (digits_value v) in
         if \<not> safe_integer result then Inl (Error (field @ '' exceeds safe integer range''))
         else Inr result)"

definition nth_opt :: "'a list \<Rightarrow> nat \<Rightarrow> 'a option" where
  "nth_opt xs i = (if i < length xs then Some (xs ! i) else None)"

text \<open>One line of \<^verbatim>\<open>status\<close>; without a colon \<^verbatim>\<open>slice(0, -1)\<close> drops the last character.\<close>

definition status_pair :: "string \<Rightarrow> string \<times> string" where
  "status_pair line = (case index_of (CHR '':'') line of
     None \<Rightarrow> (butlast line, js_trim line)
   | Some i \<Rightarrow> (take i line, js_trim (drop (i + 1) line)))"

text \<open>The map of the lines: a repeated key keeps its last value.\<close>

definition statuses :: "string option \<Rightarrow> string \<Rightarrow> string option" where
  "statuses status = map_of (rev (map status_pair
     (js_split LF (case status of None \<Rightarrow> [] | Some s \<Rightarrow> s))))"

definition statusCount :: "string option \<Rightarrow> string \<Rightarrow> int option res" where
  "statusCount status key = (case statuses status key of
     None \<Rightarrow> Inr None | Some v \<Rightarrow> bindR (count (Some v) key) (\<lambda>n. Inr (Some n)))"

definition scheduler_count :: "string option \<Rightarrow> nat \<Rightarrow> string \<Rightarrow> int option res" where
  "scheduler_count schedstat i field = (case schedstat of
     None \<Rightarrow> Inr None
   | Some s \<Rightarrow> bindR (count (nth_opt (js_fields (js_trim s)) i) field) (\<lambda>n. Inr (Some n)))"

definition parseProcess :: "string \<Rightarrow> string option \<Rightarrow> string option \<Rightarrow> process_counters res" where
  "parseProcess stat status schedstat =
     (case (index_of (CHR ''('') stat, last_index_of (CHR '')'') stat) of
        (Some op, Some close) \<Rightarrow>
          if op < 1 \<or> close \<le> op then Inl (Error ''Invalid process stat'')
          else let fields = js_fields (js_trim (drop (close + 1) stat)) in
            bindR (count (Some (js_trim (take op stat))) ''pid'') (\<lambda>pid.
            bindR (count (nth_opt fields 19) ''startTicks'') (\<lambda>startTicks.
            bindR (count (nth_opt fields 11) ''userTicks'') (\<lambda>userTicks.
            bindR (count (nth_opt fields 12) ''systemTicks'') (\<lambda>systemTicks.
            bindR (statusCount status ''voluntary_ctxt_switches'') (\<lambda>voluntary.
            bindR (statusCount status ''nonvoluntary_ctxt_switches'') (\<lambda>involuntary.
            bindR (scheduler_count schedstat 0 ''schedulerRunNs'') (\<lambda>runNs.
            bindR (scheduler_count schedstat 1 ''schedulerWaitNs'') (\<lambda>waitNs.
            Inr \<lparr>pc_pid = pid, pc_name = take (close - (op + 1)) (drop (op + 1) stat),
              pc_startTicks = startTicks, pc_userTicks = userTicks, pc_systemTicks = systemTicks,
              pc_voluntarySwitches = voluntary, pc_involuntarySwitches = involuntary,
              pc_schedulerRunNs = runNs, pc_schedulerWaitNs = waitNs,
              pc_allowedCpus = statuses status ''Cpus_allowed_list''\<rparr>))))))))
      | _ \<Rightarrow> Inl (Error ''Invalid process stat''))"

section \<open>Control group counters\<close>

text \<open>
  Setting a property of an object: a number assigned to \<^verbatim>\<open>__proto__\<close> is ignored.
\<close>

definition set_number :: "string \<Rightarrow> int \<Rightarrow> (string \<times> int) list \<Rightarrow> (string \<times> int) list" where
  "set_number k n obj = (if k = ''__proto__'' then obj else AList.update k n obj)"

definition cpu_stat_line :: "(string \<times> int) list \<Rightarrow> string \<Rightarrow> (string \<times> int) list res" where
  "cpu_stat_line obj line = (case js_fields (js_trim line) of
     [key, value] \<Rightarrow>
       if map_of obj key \<noteq> None then Inl (Error ''Invalid cgroup CPU stat'')
       else bindR (count (Some value) key) (\<lambda>n. Inr (set_number key n obj))
   | _ \<Rightarrow> Inl (Error ''Invalid cgroup CPU stat''))"

fun foldR :: "('s \<Rightarrow> 'a \<Rightarrow> 's res) \<Rightarrow> 's \<Rightarrow> 'a list \<Rightarrow> 's res" where
  "foldR f s [] = Inr s"
| "foldR f s (x # xs) = bindR (f s x) (\<lambda>s'. foldR f s' xs)"

definition parseCpuStat :: "string \<Rightarrow> (string \<times> int) list res" where
  "parseCpuStat txt =
     bindR (foldR cpu_stat_line [] (js_split LF (js_trim txt))) (\<lambda>obj.
       if map_of obj ''usage_usec'' = None then Inl (Error ''Missing cgroup CPU usage'') else Inr obj)"

record pressure_row =
  pw_totalUs :: int
  pw_avg10 :: jsnum
  pw_avg60 :: jsnum
  pw_avg300 :: jsnum

text \<open>\<^verbatim>\<open>Number\<close> of digits and points: \<^verbatim>\<open>NaN\<close> unless they form a decimal numeral.\<close>

definition js_decimal :: "string \<Rightarrow> jsnum" where
  "js_decimal s = (let w = takeWhile is_digit s; r = dropWhile is_digit s in
     case r of
       [] \<Rightarrow> if w = [] then NaN else fl64 (of_nat (digits_value w))
     | _ # f \<Rightarrow>
         if hd r \<noteq> CHR ''.'' \<or> \<not> list_all is_digit f \<or> (w = [] \<and> f = []) then NaN
         else fl64 (of_nat (digits_value (w @ f)) / 10 ^ length f))"

definition pressure_pair :: "string \<Rightarrow> (string \<times> string) res" where
  "pressure_pair pair = (case js_split (CHR ''='') pair of
     [key, value] \<Rightarrow>
       if key \<in> {''avg10'', ''avg60'', ''avg300'', ''total''} \<and> value \<noteq> [] \<and>
          list_all (\<lambda>c. is_digit c \<or> c = CHR ''.'') value
       then Inr (key, value) else Inl (Error ''Invalid CPU pressure value'')
   | _ \<Rightarrow> Inl (Error ''Invalid CPU pressure value''))"

definition pressure_average :: "(string \<times> string) list \<Rightarrow> string \<Rightarrow> jsnum res" where
  "pressure_average pairs name =
     (let value = (case map_of (rev pairs) name of None \<Rightarrow> NaN | Some v \<Rightarrow> js_decimal v) in
      if \<not> js_finite value \<or> js_lt value (Fin 0) \<or> js_lt (Fin 100) value
      then Inl (Error ''Invalid pressure average'') else Inr value)"

definition pressure_line :: "(string \<times> pressure_row) list \<Rightarrow> string \<Rightarrow> (string \<times> pressure_row) list res" where
  "pressure_line obj line = (case js_fields (js_trim line) of
     kind # pairs \<Rightarrow>
       if kind \<notin> {''some'', ''full''} \<or> map_of obj kind \<noteq> None
       then Inl (Error ''Invalid CPU pressure row'')
       else bindR (mapR pressure_pair pairs) (\<lambda>values.
         if card (set (map fst values)) \<noteq> 4 \<or> length pairs \<noteq> 4
         then Inl (Error ''Missing or duplicate CPU pressure values'')
         else bindR (count (map_of (rev values) ''total'') ''pressure total'') (\<lambda>totalUs.
           bindR (pressure_average values ''avg10'') (\<lambda>avg10.
           bindR (pressure_average values ''avg60'') (\<lambda>avg60.
           bindR (pressure_average values ''avg300'') (\<lambda>avg300.
           Inr (AList.update kind \<lparr>pw_totalUs = totalUs, pw_avg10 = avg10, pw_avg60 = avg60,
             pw_avg300 = avg300\<rparr> obj))))))
   | [] \<Rightarrow> Inl (Error ''Invalid CPU pressure row''))"

definition parsePressure :: "string \<Rightarrow> (string \<times> pressure_row) list res" where
  "parsePressure txt = foldR pressure_line [] (js_split LF (js_trim txt))"

section \<open>The cost of an interval\<close>

definition delta :: "int option \<Rightarrow> int option \<Rightarrow> int option res" where
  "delta before after = (case (before, after) of
     (Some b, Some a) \<Rightarrow> if a < b then Inl (Error ''Counter decreased; samples are not comparable'')
       else Inr (Some (a - b))
   | _ \<Rightarrow> Inr None)"

record process_cost =
  co_pid :: int
  co_startTicks :: int
  co_userSeconds :: jsnum
  co_systemSeconds :: jsnum
  co_cpuMicrosPerRequest :: jsnum
  co_voluntarySwitches :: "int option"
  co_involuntarySwitches :: "int option"
  co_schedulerRunNs :: "int option"
  co_schedulerWaitNs :: "int option"

text \<open>Ticks are always present, so the quotient of their difference is one of a number.\<close>

definition tick_seconds :: "int \<Rightarrow> int \<Rightarrow> int \<Rightarrow> jsnum res" where
  "tick_seconds before after hz = bindR (delta (Some before) (Some after)) (\<lambda>d.
     Inr (js_div (js_of_int (the d)) (js_of_int hz)))"

definition processCost :: "process_counters \<Rightarrow> process_counters \<Rightarrow> jsnum \<Rightarrow> jsnum \<Rightarrow> process_cost res" where
  "processCost before after ticksPerSecond requests =
     (if pc_pid before \<noteq> pc_pid after \<or> pc_startTicks before \<noteq> pc_startTicks after
      then Inl (Error ''Process identity changed'')
      else case (safe_int_of ticksPerSecond, safe_int_of requests) of
        (Some hz, Some n) \<Rightarrow>
          if hz \<le> 0 \<or> n \<le> 0
          then Inl (Error ''Expected positive clock frequency and request count'')
          else bindR (tick_seconds (pc_userTicks before) (pc_userTicks after) hz) (\<lambda>user.
            bindR (tick_seconds (pc_systemTicks before) (pc_systemTicks after) hz) (\<lambda>system.
            bindR (delta (pc_voluntarySwitches before) (pc_voluntarySwitches after)) (\<lambda>voluntary.
            bindR (delta (pc_involuntarySwitches before) (pc_involuntarySwitches after)) (\<lambda>involuntary.
            bindR (delta (pc_schedulerRunNs before) (pc_schedulerRunNs after)) (\<lambda>runNs.
            bindR (delta (pc_schedulerWaitNs before) (pc_schedulerWaitNs after)) (\<lambda>waitNs.
            Inr \<lparr>co_pid = pc_pid before, co_startTicks = pc_startTicks before,
              co_userSeconds = user, co_systemSeconds = system,
              co_cpuMicrosPerRequest =
                js_div (js_mul (js_add user system) (Fin 1000000)) (js_of_int n),
              co_voluntarySwitches = voluntary, co_involuntarySwitches = involuntary,
              co_schedulerRunNs = runNs, co_schedulerWaitNs = waitNs\<rparr>))))))
      | _ \<Rightarrow> Inl (Error ''Expected positive clock frequency and request count''))"

section \<open>Capturing a process\<close>

text \<open>
  What \<^verbatim>\<open>Deno.readTextFile\<close> does: the text, a file that is not there or not permitted, or
  another error. Reading takes place in a state that other processes change.
\<close>

datatype file_read = FileText string | FileAbsent js_error | FileError js_error

record 'st proc_system =
  fs_read :: "string \<Rightarrow> 'st \<Rightarrow> file_read \<times> 'st"
  fs_entries :: "string \<Rightarrow> ('st, string list) action"
  fs_now :: "('st, string) action"

text \<open>The paths found missing so far are part of the state of a capture.\<close>

type_synonym ('st, 'a) capture = "('st \<times> string list, 'a) action"

definition liftC :: "('st, 'a) action \<Rightarrow> ('st, 'a) capture" where
  "liftC m = (\<lambda>(st, missing). case m st of (r, st') \<Rightarrow> (r, (st', missing)))"

definition read_optional :: "'st proc_system \<Rightarrow> string \<Rightarrow> ('st, string option) capture" where
  "read_optional fs path = (\<lambda>(st, missing). case fs_read fs path st of
     (FileText t, st') \<Rightarrow> (Inr (Some t), (st', missing))
   | (FileAbsent e, st') \<Rightarrow> (Inr None, (st', missing @ [path]))
   | (FileError e, st') \<Rightarrow> (Inl e, (st', missing)))"

definition read_required :: "'st proc_system \<Rightarrow> string \<Rightarrow> ('st, string) capture" where
  "read_required fs path = (\<lambda>(st, missing). case fs_read fs path st of
     (FileText t, st') \<Rightarrow> (Inr t, (st', missing))
   | (FileAbsent e, st') \<Rightarrow> (Inl e, (st', missing))
   | (FileError e, st') \<Rightarrow> (Inl e, (st', missing)))"

definition sample_process :: "'st proc_system \<Rightarrow> string \<Rightarrow> ('st, process_counters option) capture" where
  "sample_process fs base =
     bindA (read_optional fs (base @ ''/stat'')) (\<lambda>stat. case stat of
       None \<Rightarrow> returnA None
     | Some s \<Rightarrow>
         bindA (read_optional fs (base @ ''/status'')) (\<lambda>status.
         bindA (read_optional fs (base @ ''/schedstat'')) (\<lambda>schedstat.
         bindA (liftA (parseProcess s status schedstat)) (\<lambda>p. returnA (Some p)))))"

fun sample_threads :: "'st proc_system \<Rightarrow> string \<Rightarrow> string list \<Rightarrow> ('st, process_counters list) capture" where
  "sample_threads fs base [] = returnA []"
| "sample_threads fs base (entry # rest) =
     (if entry = [] \<or> \<not> list_all is_digit entry then sample_threads fs base rest
      else bindA (sample_process fs (base @ ''/task/'' @ entry)) (\<lambda>thread.
        bindA (sample_threads fs base rest) (\<lambda>threads.
        returnA (case thread of None \<Rightarrow> threads | Some t \<Rightarrow> t # threads))))"

text \<open>\<^verbatim>\<open>/^0::(\\/[^\\r\\n]*)$/m\<close>: the first line of that form.\<close>

definition unified_cgroup :: "string \<Rightarrow> string option" where
  "unified_cgroup txt = map_option (drop 3)
     (find (starts_with ''0::/'') (concat (map (js_split CR) (js_split LF txt))))"

record process_capture =
  ca_startedAt :: string
  ca_finishedAt :: string
  ca_process :: process_counters
  ca_threads :: "process_counters list"
  ca_cgroupPath :: string
  ca_cgroupCpu :: "(string \<times> int) list option"
  ca_cgroupPressure :: "(string \<times> pressure_row) list option"
  ca_memoryEvents :: "string option"
  ca_missing :: "string list"

definition mapO :: "('a \<Rightarrow> 'b res) \<Rightarrow> 'a option \<Rightarrow> 'b option res" where
  "mapO f x = (case x of None \<Rightarrow> Inr None | Some y \<Rightarrow> bindR (f y) (\<lambda>z. Inr (Some z)))"

definition captureProcess :: "'st proc_system \<Rightarrow> jsnum \<Rightarrow> ('st, process_capture) action" where
  "captureProcess fs pid = (\<lambda>st0. case safe_int_of pid of
     None \<Rightarrow> (Inl (Error ''Invalid process id''), st0)
   | Some n \<Rightarrow>
     if n \<le> 0 then (Inl (Error ''Invalid process id''), st0)
     else let proc = ''/proc/'' @ dec_int n in
     (case
       (bindA (liftC (fs_now fs)) (\<lambda>startedAt.
        bindA (sample_process fs proc) (\<lambda>first. case first of
          None \<Rightarrow> liftA (Inl (Error ''Target process is absent or unreadable''))
        | Some process \<Rightarrow>
        bindA (liftC (fs_entries fs (proc @ ''/task''))) (\<lambda>entries.
        bindA (sample_threads fs proc entries) (\<lambda>threads.
        bindA (read_required fs (proc @ ''/cgroup'')) (\<lambda>cgroup. case unified_cgroup cgroup of
          None \<Rightarrow> liftA (Inl (Error ''Unified process cgroup is unavailable''))
        | Some unified \<Rightarrow>
        if \<exists>part \<in> set (js_split (CHR ''/'') unified). part = ''..'' \<or> part = ''.''
        then liftA (Inl (Error ''Unified process cgroup is unavailable''))
        else let base = ''/sys/fs/cgroup'' @ unified in
        bindA (read_optional fs (base @ ''/cpu.stat'')) (\<lambda>cpu.
        bindA (read_optional fs (base @ ''/cpu.pressure'')) (\<lambda>pressure.
        bindA (read_optional fs (base @ ''/memory.events'')) (\<lambda>memoryEvents.
        bindA (sample_process fs proc) (\<lambda>final. case final of
          None \<Rightarrow> liftA (Inl (Error ''Target process changed during capture''))
        | Some finalProcess \<Rightarrow>
        if pc_startTicks finalProcess \<noteq> pc_startTicks process
        then liftA (Inl (Error ''Target process changed during capture''))
        else
        bindA (liftC (fs_now fs)) (\<lambda>finishedAt.
        bindA (liftA (mapO parseCpuStat cpu)) (\<lambda>cgroupCpu.
        bindA (liftA (mapO parsePressure pressure)) (\<lambda>cgroupPressure.
        returnA \<lparr>ca_startedAt = startedAt, ca_finishedAt = finishedAt, ca_process = process,
          ca_threads = sort_key pc_pid threads, ca_cgroupPath = unified, ca_cgroupCpu = cgroupCpu,
          ca_cgroupPressure = cgroupPressure, ca_memoryEvents = memoryEvents,
          ca_missing = []\<rparr>)))))))))))))
        (st0, []) of
      (Inl e, (st, missing)) \<Rightarrow> (Inl e, st)
    | (Inr capture, (st, missing)) \<Rightarrow> (Inr (capture\<lparr>ca_missing := missing\<rparr>), st)))"

section \<open>What the kernel writes reads back\<close>

definition TAB :: char where "TAB = CHR 0x09"

text \<open>The formats of \<^verbatim>\<open>/proc/PID/stat\<close> and \<^verbatim>\<open>/proc/PID/status\<close>: the name may hold any character.\<close>

definition kernel_stat :: "nat \<Rightarrow> string \<Rightarrow> string list \<Rightarrow> string" where
  "kernel_stat pid name cells = dec_nat pid @ '' ('' @ name @ '') '' @ js_join '' '' cells @ [LF]"

definition kernel_status :: "(string \<times> string) list \<Rightarrow> string" where
  "kernel_status kvs = concat (map (\<lambda>(k, v). k @ [CHR '':'', TAB] @ v @ [LF]) kvs)"

lemma is_digit_not_space: "is_digit c \<Longrightarrow> \<not> is_space c"
  by (auto simp: is_digit_def is_space_def)

lemma word_ok_dec_nat [simp]: "word_ok (dec_nat n)"
  using dec_nat_digits [of n] by (auto simp: word_ok_def list_all_iff is_digit_not_space)

lemma word_trim: "word_ok w \<Longrightarrow> js_trim w = w"
  by (intro js_trim_keep) (auto simp: word_ok_def list_all_iff)

lemma count_dec_nat: "safe_integer (int n) \<Longrightarrow> count (Some (dec_nat n)) field = Inr (int n)"
  using dec_nat_digits [of n] by (simp add: count_def digits_value_dec_nat)

lemma join_words:
  assumes "ws \<noteq> []" "list_all word_ok ws"
  shows "js_join '' '' ws \<noteq> []" "\<not> is_space (hd (js_join '' '' ws))" "\<not> is_space (last (js_join '' '' ws))"
proof -
  have "js_join '' '' ws \<noteq> [] \<and> \<not> is_space (hd (js_join '' '' ws)) \<and> \<not> is_space (last (js_join '' '' ws))"
    using assms
  proof (induction "'' '' :: string" ws rule: js_join.induct)
    case (2 x)
    then show ?case by (auto simp: word_ok_def list_all_iff)
  next
    case (3 x y ys)
    then show ?case using word_ok_hd [of x] by simp
  qed simp
  then show "js_join '' '' ws \<noteq> []" "\<not> is_space (hd (js_join '' '' ws))"
    "\<not> is_space (last (js_join '' '' ws))" by simp_all
qed

lemma set_js_join: "set (js_join sep ws) \<subseteq> set sep \<union> (\<Union>w \<in> set ws. set w)"
  by (induction sep ws rule: js_join.induct) auto

lemma statuses_kernel:
  assumes "\<forall>(k, v) \<in> set kvs. CHR '':'' \<notin> set k \<and> LF \<notin> set k \<and> LF \<notin> set v" "key \<noteq> []"
  shows "statuses (Some (kernel_status kvs)) key = map_option js_trim (map_of (rev kvs) key)"
proof -
  have "map status_pair (js_split LF (kernel_status kvs)) = map (\<lambda>(k, v). (k, js_trim v)) kvs @ [([], [])]"
    using assms(1)
  proof (induction kvs)
    case Nil
    then show ?case by (simp add: kernel_status_def status_pair_def js_trim_def js_trim_end_def)
  next
    case (Cons kv kvs)
    obtain k v where kv: "kv = (k, v)" by (cases kv)
    have "js_split LF (kernel_status (kv # kvs)) =
        (k @ [CHR '':'', TAB] @ v) # js_split LF (kernel_status kvs)"
      using Cons.prems js_split_append_sep [of LF "k @ [CHR '':'', TAB] @ v"]
      by (simp add: kernel_status_def kv LF_def TAB_def)
    moreover have "status_pair (k @ [CHR '':'', TAB] @ v) = (k, js_trim v)"
      using Cons.prems index_of_append [of "CHR '':''" k]
      by (simp add: status_pair_def kv js_trim_Cons_space TAB_def is_space_def)
    ultimately show ?case using Cons by (simp add: kv)
  qed
  then have "statuses (Some (kernel_status kvs)) key =
      map_of (([], []) # rev (map (\<lambda>(k, v). (k, js_trim v)) kvs)) key"
    by (simp add: statuses_def)
  also have "\<dots> = map_option js_trim (map_of (rev kvs) key)"
    using assms(2) by (simp add: rev_map map_of_map)
  finally show ?thesis .
qed

lemma js_trim_blank_around:
  assumes "s \<noteq> []" "\<not> is_space (hd s)" "\<not> is_space (last s)"
  shows "js_trim (CHR '' '' # s @ [LF]) = s"
  using js_trim_snoc_space [of LF "CHR '' '' # s"] assms
  by (simp add: js_trim_Cons_space js_trim_keep LF_def is_space_def)

text \<open>The three parts of the line: the first opening and the last closing bracket delimit the name.\<close>

lemma kernel_stat_parts:
  assumes "list_all word_ok cells" "cells \<noteq> []" "\<forall>w \<in> set cells. CHR '')'' \<notin> set w"
  shows "index_of (CHR ''('') (kernel_stat pid name cells) = Some (length (dec_nat pid) + 1)"
    "last_index_of (CHR '')'') (kernel_stat pid name cells) = Some (length (dec_nat pid) + 2 + length name)"
    "js_fields (js_trim (drop (length (dec_nat pid) + 2 + length name + 1) (kernel_stat pid name cells))) = cells"
    "js_trim (take (length (dec_nat pid) + 1) (kernel_stat pid name cells)) = dec_nat pid"
proof -
  have no: "CHR ''('' \<notin> set (dec_nat pid @ '' '')"
    using dec_nat_only_digits [of "CHR ''(''" pid] by (simp add: is_digit_def)
  show "index_of (CHR ''('') (kernel_stat pid name cells) = Some (length (dec_nat pid) + 1)"
    using index_of_append [OF no] by (simp add: kernel_stat_def)
  have "CHR '')'' \<notin> set ('' '' @ js_join '' '' cells @ [LF])"
    using assms(3) set_js_join [of "'' ''" cells] by (auto simp: LF_def)
  from last_index_of_append [OF this, of "dec_nat pid @ '' ('' @ name"]
  show "last_index_of (CHR '')'') (kernel_stat pid name cells) = Some (length (dec_nat pid) + 2 + length name)"
    by (simp add: kernel_stat_def)
  have "drop (length (dec_nat pid) + 2 + length name + 1) (kernel_stat pid name cells) =
      CHR '' '' # js_join '' '' cells @ [LF]"
    by (simp add: kernel_stat_def numeral_3_eq_3)
  then show "js_fields (js_trim (drop (length (dec_nat pid) + 2 + length name + 1) (kernel_stat pid name cells))) = cells"
    by (simp add: js_trim_blank_around join_words [OF assms(2,1)] js_fields_join [OF assms(2,1)])
  have "take (length (dec_nat pid) + 1) (kernel_stat pid name cells) = dec_nat pid @ '' ''"
    by (simp add: kernel_stat_def)
  then show "js_trim (take (length (dec_nat pid) + 1) (kernel_stat pid name cells)) = dec_nat pid"
    using js_trim_snoc_space [of "CHR '' ''" "dec_nat pid"] word_trim [of "dec_nat pid"] by simp
qed

lemma kernel_schedstat: "js_fields (js_trim (js_join '' '' [dec_nat r, dec_nat w, dec_nat n] @ [LF])) =
    [dec_nat r, dec_nat w, dec_nat n]"
proof -
  have ok: "[dec_nat r, dec_nat w, dec_nat n] \<noteq> []" "list_all word_ok [dec_nat r, dec_nat w, dec_nat n]"
    by simp_all
  show ?thesis
    using js_trim_snoc_space [of LF "js_join '' '' [dec_nat r, dec_nat w, dec_nat n]"]
      js_trim_keep [OF join_words [OF ok]] js_fields_join [OF ok]
    by (simp add: LF_def is_space_def)
qed

lemma map_of_revD: "map_of (rev kvs) k = Some v \<Longrightarrow> (k, v) \<in> set kvs"
  by (metis map_of_SomeD set_rev)

section \<open>Costs of consecutive intervals\<close>

definition counters_ok :: "process_counters \<Rightarrow> bool" where
  "counters_ok p \<longleftrightarrow> 0 \<le> pc_userTicks p \<and> safe_integer (pc_userTicks p) \<and>
     0 \<le> pc_systemTicks p \<and> safe_integer (pc_systemTicks p)"

lemma count_ok: "count v field = Inr n \<Longrightarrow> 0 \<le> n \<and> safe_integer n"
  by (auto simp: count_def Let_def split: option.splits if_splits)

lemma parseProcess_ok: "parseProcess stat status schedstat = Inr p \<Longrightarrow> counters_ok p"
  by (auto simp: parseProcess_def counters_ok_def res_simps Let_def split: option.splits if_splits
      dest: count_ok)

definition opt_plus :: "int option \<Rightarrow> int option \<Rightarrow> int option" where
  "opt_plus x y = (case (x, y) of (Some i, Some j) \<Rightarrow> Some (i + j) | _ \<Rightarrow> None)"

lemma delta_add:
  "delta a b = Inr x \<Longrightarrow> delta b c = Inr y \<Longrightarrow> b \<noteq> None \<Longrightarrow> delta a c = Inr (opt_plus x y)"
  by (auto simp: delta_def opt_plus_def split: option.splits if_splits)

lemma fl64_mono: "x \<le> y \<Longrightarrow> js_le (fl64 x) (fl64 y)"
  using binary64.mono [of x y] pow2_pos(1) [of 1024]
  by (auto simp: fl64_def Let_def js_le_def js_eq_def)

text \<open>Dividing by the same clock keeps the order of the intervals.\<close>

lemma tick_seconds_mono:
  assumes "tick_seconds a b hz = Inr x" "tick_seconds a c hz = Inr y" "b \<le> c" "0 < hz"
    and "0 \<le> a" "safe_integer c" "safe_integer hz"
  shows "js_le x y"
proof -
  have "a \<le> b" using assms(1) by (auto simp: tick_seconds_def delta_def res_simps split: if_splits)
  then have "\<bar>b - a\<bar> < 2 ^ 53" "\<bar>c - a\<bar> < 2 ^ 53" "\<bar>hz\<bar> < 2 ^ 53"
    using assms(3,5-7) by (simp_all add: safe_integer_def max_safe_integer_def)
  then have "x = fl64 (of_int (b - a) / of_int hz)" "y = fl64 (of_int (c - a) / of_int hz)"
    using assms(1,2,4) by (auto simp: tick_seconds_def delta_def js_of_int_exact res_simps split: if_splits)
  moreover have "(of_int (b - a) / of_int hz :: rat) \<le> of_int (c - a) / of_int hz"
    using assms(3,4) by (intro divide_right_mono) simp_all
  ultimately show ?thesis by (simp only: fl64_mono)
qed

lemma tick_seconds_ok: "a \<le> b \<Longrightarrow> \<exists>x. tick_seconds a b hz = Inr x"
  by (simp add: tick_seconds_def delta_def)

lemma tick_seconds_le: "tick_seconds a b hz = Inr x \<Longrightarrow> a \<le> b"
  by (auto simp: tick_seconds_def delta_def res_simps split: if_splits)

lemma processCost_Inr:
  "processCost a b hz n = Inr c \<longleftrightarrow> pc_pid a = pc_pid b \<and> pc_startTicks a = pc_startTicks b \<and>
     (\<exists>h k u s. safe_int_of hz = Some h \<and> safe_int_of n = Some k \<and> 0 < h \<and> 0 < k \<and>
       tick_seconds (pc_userTicks a) (pc_userTicks b) h = Inr u \<and>
       tick_seconds (pc_systemTicks a) (pc_systemTicks b) h = Inr s \<and>
       delta (pc_voluntarySwitches a) (pc_voluntarySwitches b) = Inr (co_voluntarySwitches c) \<and>
       delta (pc_involuntarySwitches a) (pc_involuntarySwitches b) = Inr (co_involuntarySwitches c) \<and>
       delta (pc_schedulerRunNs a) (pc_schedulerRunNs b) = Inr (co_schedulerRunNs c) \<and>
       delta (pc_schedulerWaitNs a) (pc_schedulerWaitNs b) = Inr (co_schedulerWaitNs c) \<and>
       co_pid c = pc_pid a \<and> co_startTicks c = pc_startTicks a \<and>
       co_userSeconds c = u \<and> co_systemSeconds c = s \<and>
       co_cpuMicrosPerRequest c = js_div (js_mul (js_add u s) (Fin 1000000)) (js_of_int k))"
  by (cases c; cases "safe_int_of hz"; cases "safe_int_of n")
    (auto simp: processCost_def bindR_eq_Inr)

lemma safe_int_of_safe: "safe_int_of x = Some i \<Longrightarrow> safe_integer i"
  by (auto simp: safe_int_of_def split: jsnum.splits if_splits)

definition complete :: "process_counters \<Rightarrow> bool" where
  "complete p \<longleftrightarrow> pc_voluntarySwitches p \<noteq> None \<and> pc_involuntarySwitches p \<noteq> None \<and>
     pc_schedulerRunNs p \<noteq> None \<and> pc_schedulerWaitNs p \<noteq> None"

definition sample_cells :: "string list" where
  "sample_cells = map dec_nat [1, 2, 3, 4, 5, 6, 7, 8, 9, 10, 11, 120, 30, 14, 15, 16, 17, 18, 19, 5000]"

definition sample_counters :: "int \<Rightarrow> process_counters" where
  "sample_counters n = \<lparr>pc_pid = 7, pc_name = ''java'', pc_startTicks = 50, pc_userTicks = 10 * n,
     pc_systemTicks = n, pc_voluntarySwitches = Some (3 * n), pc_involuntarySwitches = Some n,
     pc_schedulerRunNs = Some (1000 * n), pc_schedulerWaitNs = Some n, pc_allowedCpus = None\<rparr>"

section \<open>Properties\<close>

text \<open>
  C26: The counters of a process are read back from the lines the kernel writes, whatever its
  name holds (brackets and blanks included): the numbers of the status line by their positions
  after the last closing bracket, the switches by their keys, the scheduler's times by position.
\<close>

theorem kernel_counters_read_back:
  assumes "length cells \<ge> 20" "\<forall>w \<in> set cells. word_ok w \<and> CHR '')'' \<notin> set w"
    and "cells ! 11 = dec_nat user" "cells ! 12 = dec_nat sys" "cells ! 19 = dec_nat start"
    and "\<forall>(k, v) \<in> set kvs. CHR '':'' \<notin> set k \<and> LF \<notin> set k \<and> LF \<notin> set v"
    and "map_of (rev kvs) ''voluntary_ctxt_switches'' = Some (dec_nat vol)"
    and "map_of (rev kvs) ''nonvoluntary_ctxt_switches'' = Some (dec_nat invol)"
    and "\<forall>n \<in> {pid, user, sys, start, vol, invol, run, wait}. safe_integer (int n)"
  shows "parseProcess (kernel_stat pid name cells) (Some (kernel_status kvs))
      (Some (js_join '' '' [dec_nat run, dec_nat wait, dec_nat slices] @ [LF])) =
    Inr \<lparr>pc_pid = int pid, pc_name = name, pc_startTicks = int start, pc_userTicks = int user,
      pc_systemTicks = int sys, pc_voluntarySwitches = Some (int vol),
      pc_involuntarySwitches = Some (int invol), pc_schedulerRunNs = Some (int run),
      pc_schedulerWaitNs = Some (int wait),
      pc_allowedCpus = map_option js_trim (map_of (rev kvs) ''Cpus_allowed_list'')\<rparr>"
proof -
  have cells: "list_all word_ok cells" "cells \<noteq> []" "\<forall>w \<in> set cells. CHR '')'' \<notin> set w"
    using assms(1,2) by (auto simp: list_all_iff)
  note parts = kernel_stat_parts [OF cells, of pid name]
  have "take (length (dec_nat pid) + 2 + length name - (length (dec_nat pid) + 2))
      (drop (length (dec_nat pid) + 2) (kernel_stat pid name cells)) = name"
    by (simp add: kernel_stat_def)
  moreover have "statusCount (Some (kernel_status kvs)) k = Inr (Some (int n))"
    if "map_of (rev kvs) k = Some (dec_nat n)" "safe_integer (int n)" "k \<noteq> []" for k n
    using that by (simp add: statusCount_def statuses_kernel [OF assms(6)] word_trim count_dec_nat)
  moreover have "scheduler_count (Some (js_join '' '' [dec_nat run, dec_nat wait, dec_nat slices] @ [LF])) 0 f
      = Inr (Some (int run))"
    "scheduler_count (Some (js_join '' '' [dec_nat run, dec_nat wait, dec_nat slices] @ [LF])) 1 f
      = Inr (Some (int wait))" for f
    using assms(9) by (simp_all only: scheduler_count_def option.case kernel_schedstat)
      (simp_all add: nth_opt_def count_dec_nat)
  ultimately show ?thesis
    using assms(1,3-5,7-9) parts
    by (simp add: parseProcess_def Let_def nth_opt_def count_dec_nat statuses_kernel [OF assms(6)]
        add.commute add.left_commute)
qed

text \<open>
  Costs of consecutive intervals add up. When the intervals from a first to a second and
  from the second to a third snapshot of a process both have a cost, so has the whole interval:
  its switches and scheduler times are the sums, and its user and system seconds are, rounding
  included, no less than those of the first part.
\<close>

theorem interval_costs_add_up:
  assumes "processCost a b hz n = Inr x" "processCost b c hz m = Inr y"
    and "complete b" "counters_ok a" "counters_ok c"
  shows "\<exists>z. processCost a c hz n = Inr z \<and>
    co_voluntarySwitches z = opt_plus (co_voluntarySwitches x) (co_voluntarySwitches y) \<and>
    co_involuntarySwitches z = opt_plus (co_involuntarySwitches x) (co_involuntarySwitches y) \<and>
    co_schedulerRunNs z = opt_plus (co_schedulerRunNs x) (co_schedulerRunNs y) \<and>
    co_schedulerWaitNs z = opt_plus (co_schedulerWaitNs x) (co_schedulerWaitNs y) \<and>
    js_le (co_userSeconds x) (co_userSeconds z) \<and> js_le (co_systemSeconds x) (co_systemSeconds z)"
proof -
  obtain h k where x: "safe_int_of hz = Some h" "safe_int_of n = Some k" "0 < h" "0 < k"
      "pc_pid a = pc_pid b" "pc_startTicks a = pc_startTicks b"
      "tick_seconds (pc_userTicks a) (pc_userTicks b) h = Inr (co_userSeconds x)"
      "tick_seconds (pc_systemTicks a) (pc_systemTicks b) h = Inr (co_systemSeconds x)"
    and dx: "delta (pc_voluntarySwitches a) (pc_voluntarySwitches b) = Inr (co_voluntarySwitches x)"
      "delta (pc_involuntarySwitches a) (pc_involuntarySwitches b) = Inr (co_involuntarySwitches x)"
      "delta (pc_schedulerRunNs a) (pc_schedulerRunNs b) = Inr (co_schedulerRunNs x)"
      "delta (pc_schedulerWaitNs a) (pc_schedulerWaitNs b) = Inr (co_schedulerWaitNs x)"
    using assms(1) by (auto simp: processCost_Inr)
  have y: "pc_pid b = pc_pid c" "pc_startTicks b = pc_startTicks c"
      "pc_userTicks b \<le> pc_userTicks c" "pc_systemTicks b \<le> pc_systemTicks c"
    and dy: "delta (pc_voluntarySwitches b) (pc_voluntarySwitches c) = Inr (co_voluntarySwitches y)"
      "delta (pc_involuntarySwitches b) (pc_involuntarySwitches c) = Inr (co_involuntarySwitches y)"
      "delta (pc_schedulerRunNs b) (pc_schedulerRunNs c) = Inr (co_schedulerRunNs y)"
      "delta (pc_schedulerWaitNs b) (pc_schedulerWaitNs c) = Inr (co_schedulerWaitNs y)"
    using assms(2) by (auto simp: processCost_Inr dest: tick_seconds_le)
  obtain u s where us: "tick_seconds (pc_userTicks a) (pc_userTicks c) h = Inr u"
      "tick_seconds (pc_systemTicks a) (pc_systemTicks c) h = Inr s"
    using tick_seconds_ok tick_seconds_le [OF x(7)] tick_seconds_le [OF x(8)] y(3,4) order_trans by metis
  let ?z = "\<lparr>co_pid = pc_pid a, co_startTicks = pc_startTicks a, co_userSeconds = u, co_systemSeconds = s,
    co_cpuMicrosPerRequest = js_div (js_mul (js_add u s) (Fin 1000000)) (js_of_int k),
    co_voluntarySwitches = opt_plus (co_voluntarySwitches x) (co_voluntarySwitches y),
    co_involuntarySwitches = opt_plus (co_involuntarySwitches x) (co_involuntarySwitches y),
    co_schedulerRunNs = opt_plus (co_schedulerRunNs x) (co_schedulerRunNs y),
    co_schedulerWaitNs = opt_plus (co_schedulerWaitNs x) (co_schedulerWaitNs y)\<rparr>"
  have "processCost a c hz n = Inr ?z"
    using x y us assms(3) delta_add [OF dx(1) dy(1)] delta_add [OF dx(2) dy(2)]
      delta_add [OF dx(3) dy(3)] delta_add [OF dx(4) dy(4)]
    by (simp add: processCost_Inr complete_def)
  moreover have "js_le (co_userSeconds x) u" "js_le (co_systemSeconds x) s"
    using tick_seconds_mono [OF x(7) us(1) y(3) x(3)] tick_seconds_mono [OF x(8) us(2) y(4) x(3)]
      assms(4,5) safe_int_of_safe [OF x(1)] by (simp_all add: counters_ok_def)
  ultimately show ?thesis by (intro exI [of _ ?z]) simp
qed

theorem kernel_counters_read_back_witness:
  "parseProcess (kernel_stat 42 ''a) (b'' sample_cells)
      (Some (kernel_status [(''Name'', ''x''), (''voluntary_ctxt_switches'', dec_nat 8),
        (''nonvoluntary_ctxt_switches'', dec_nat 9)]))
      (Some (js_join '' '' [dec_nat 100, dec_nat 200, dec_nat 3] @ [LF])) =
    Inr \<lparr>pc_pid = 42, pc_name = ''a) (b'', pc_startTicks = 5000, pc_userTicks = 120,
      pc_systemTicks = 30, pc_voluntarySwitches = Some 8, pc_involuntarySwitches = Some 9,
      pc_schedulerRunNs = Some 100, pc_schedulerWaitNs = Some 200, pc_allowedCpus = None\<rparr>"
proof -
  have no: "CHR '')'' \<notin> set (dec_nat n)" "LF \<notin> set (dec_nat n)" for n
    by (simp_all add: dec_nat_only_digits is_digit_def LF_def)
  show ?thesis
    using kernel_counters_read_back [where cells = sample_cells and pid = 42 and name = "''a) (b''"
        and user = 120 and sys = 30 and start = 5000 and vol = 8 and invol = 9 and run = 100
        and wait = 200 and slices = 3 and kvs = "[(''Name'', ''x''),
          (''voluntary_ctxt_switches'', dec_nat 8), (''nonvoluntary_ctxt_switches'', dec_nat 9)]"]
    by (simp add: sample_cells_def no no(2) [unfolded LF_def] safe_integer_def max_safe_integer_def LF_def)
qed

theorem interval_costs_add_up_witness:
  "\<exists>z. processCost (sample_counters 1) (sample_counters 4) (Fin 100) (Fin 10) = Inr z \<and>
     co_voluntarySwitches z = Some 9"
proof -
  have "\<exists>x. processCost (sample_counters i) (sample_counters j) (Fin 100) (Fin 10) = Inr x \<and>
      co_voluntarySwitches x = Some (3 * j - 3 * i)" if "i \<le> j" for i j
    using that by (simp add: processCost_def sample_counters_def safe_int_of_def safe_integer_def
        max_safe_integer_def tick_seconds_def delta_def)
  from this [of 1 2] this [of 2 4] obtain x y where
    "processCost (sample_counters 1) (sample_counters 2) (Fin 100) (Fin 10) = Inr x"
    "processCost (sample_counters 2) (sample_counters 4) (Fin 100) (Fin 10) = Inr y"
    "co_voluntarySwitches x = Some 3" "co_voluntarySwitches y = Some 6" by auto
  then show ?thesis
    using interval_costs_add_up [of "sample_counters 1" "sample_counters 2" "Fin 100" "Fin 10" x
        "sample_counters 4" "Fin 10" y]
    by (auto simp: complete_def counters_ok_def sample_counters_def safe_integer_def
        max_safe_integer_def opt_plus_def)
qed

end
