(* ===== verification/Process.thy ===== *)
theory Process
  imports Host
begin

text \<open>
  \<^verbatim>\<open>_lib/process.ts\<close> and \<^verbatim>\<open>_lib/repl.ts\<close>: commands run in a named systemd scope that is stopped
  afterwards, and the REPL of an experiment. A scope is only ever stopped under the description
  this program gave it, and a command counts as successful only when its executable started,
  its process succeeded and its scope is gone.
\<close>

section \<open>Scopes\<close>

record command_spec =
  sp_id :: string
  sp_command :: string
  sp_args :: "string list"
  sp_cwd :: string
  sp_env :: "(string \<times> string) list"
  sp_stdoutPath :: string
  sp_stderrPath :: string

record scope =
  sc_unit :: string
  sc_description :: string

definition processScope :: "string \<Rightarrow> scope res" where
  "processScope i =
     (if 1 \<le> length i \<and> length i \<le> 180 \<and> list_all id_char i
      then Inr \<lparr>sc_unit = ''tempo-'' @ i @ ''.scope'', sc_description = ''Tempo process '' @ i\<rparr>
      else Inl (Error ''Invalid process ID''))"

text \<open>A line without an equals sign is cut as \<^verbatim>\<open>slice(0, -1)\<close> and \<^verbatim>\<open>slice(0)\<close> cut it.\<close>

definition scope_field :: "string \<Rightarrow> string \<times> string" where
  "scope_field line = (case index_of (CHR ''='') line of
     Some i \<Rightarrow> (take i line, drop (Suc i) line) | None \<Rightarrow> (butlast line, line))"

definition scope_fields :: "string \<Rightarrow> string \<Rightarrow> string option" where
  "scope_fields text = map_of (rev (map scope_field (js_split LF (js_trim text))))"

text \<open>\<^verbatim>\<open>null\<close> is \<open>None\<close>; a loaded scope may have no description.\<close>

definition scopeDescription :: "'st host \<Rightarrow> string \<Rightarrow> ('st, string option option) action" where
  "scopeDescription h unit' =
     bindA (h_output h (run_program ''systemctl''
       [''--user'', ''show'', unit', ''--property=LoadState,Description'']))
     (\<lambda>result. let fields = scope_fields (co_stdout result) in
       if fields ''LoadState'' = Some ''not-found'' then returnA None
       else if \<not> co_success result \<or> fields ''LoadState'' \<noteq> Some ''loaded''
       then throwA (Error (''Cannot inspect process scope: '' @ co_stderr result))
       else returnA (Some (fields ''Description'')))"

datatype cleanup = Absent | Stopped | CleanupFailed

definition stopProcessScope :: "'st host \<Rightarrow> string \<Rightarrow> ('st, cleanup) action" where
  "stopProcessScope h i =
     bindA (liftA (processScope i)) (\<lambda>scope.
     bindA (scopeDescription h (sc_unit scope)) (\<lambda>description.
     if description = None then returnA Absent
     else if description \<noteq> Some (Some (sc_description scope))
     then throwA (Error ''Refusing to stop a scope with a different description'')
     else bindA (h_output h (run_program ''systemctl'' [''--user'', ''stop'', sc_unit scope])) (\<lambda>result.
       if \<not> co_success result
       then bindA (scopeDescription h (sc_unit scope)) (\<lambda>left.
         if left = None then returnA Absent
         else throwA (Error (''Scope cleanup failed: '' @ co_stderr result)))
       else returnA Stopped)))"

section \<open>Running a command in its scope\<close>

record execution =
  ex_unit :: string
  ex_status :: "command_status option"
  ex_cleanup :: cleanup
  ex_error :: "string option"
  ex_success :: bool
  ex_stdoutPath :: string
  ex_stderrPath :: string

definition launch_script :: string where
  "launch_script = ''out=$1; err=$2; shift 2; exec \"$@\" >> \"$out\" 2>> \"$err\"''"

definition start_script :: string where
  "start_script = ''out=$1; err=$2; started=$3; shift 3; command -v \"$1\" >/dev/null || '' @
     ''{ printf \"Scoped executable unavailable: %s'' @ [CHR 0x5C] @
     ''n\" \"$1\" >&2; exit 127; }; umask 077; set -C; printf \"started'' @ [CHR 0x5C] @
     ''n\" > \"$started\" || exit 126; exec \"$@\" >> \"$out\" 2>> \"$err\"''"

definition launch_command :: "scope \<Rightarrow> command_spec \<Rightarrow> string \<Rightarrow> string \<Rightarrow> command" where
  "launch_command scope spec out err =
     \<lparr>cm_command = ''bash'',
      cm_args = [''-c'', launch_script, ''tempo-launch'', out, err, ''systemd-run'', ''--user'', ''--scope'',
        ''--quiet'', ''--collect'', ''--expand-environment=no'', ''--unit='' @ sc_unit scope,
        ''--description='' @ sc_description scope, ''--property=TimeoutStopSec=5s'', ''--'', ''bash'', ''-c'',
        start_script, ''tempo-command'', out, err, out @ ''.started'', sp_command spec] @ sp_args spec,
      cm_cwd = Some (sp_cwd spec), cm_env = sp_env spec, cm_clearEnv = False\<rparr>"

text \<open>The two log files and the start record must be new.\<close>

definition create_logs :: "'st host \<Rightarrow> string \<Rightarrow> string \<Rightarrow> ('st, unit) action" where
  "create_logs h out err =
     thenA (h_create h out)
     (thenA (catchA (h_create h err) (\<lambda>e. thenA (h_remove h out) (throwA e)))
     (absentA (h_stat h (out @ ''.started'')) ''Scoped command start record already exists''))"

text \<open>
  The three blocks after the launch: waiting for the child, stopping its scope, and checking that
  the executable started. \<^verbatim>\<open>child.unref()\<close> has no result.
\<close>

definition wait_child :: "'st host \<Rightarrow> nat \<Rightarrow> ('st, command_status option \<times> string option) action" where
  "wait_child h child = bindA (tryA (h_status h child)) (\<lambda>r. returnA (case r of
     Inl failure \<Rightarrow> (None, Some (error_string failure)) | Inr status \<Rightarrow> (Some status, None)))"

definition stop_child :: "'st host \<Rightarrow> string \<Rightarrow> nat \<Rightarrow> command_status option \<Rightarrow> string option \<Rightarrow>
    ('st, command_status option \<times> cleanup \<times> string option) action" where
  "stop_child h i child status error =
     bindA (tryA (stopProcessScope h i)) (\<lambda>stopped. case stopped of
       Inl failure \<Rightarrow> returnA (status, CleanupFailed, add_error error (error_string failure))
     | Inr cleanup' \<Rightarrow> (case status of
         Some s \<Rightarrow> returnA (Some s, cleanup', error)
       | None \<Rightarrow> bindA (tryA (h_status h child)) (\<lambda>r. case r of
           Inl failure \<Rightarrow> returnA (None, cleanup', add_error error (error_string failure))
         | Inr s \<Rightarrow> returnA (Some s, cleanup', error))))"

definition check_started :: "'st host \<Rightarrow> string \<Rightarrow> string option \<Rightarrow> ('st, string option) action" where
  "check_started h started error = bindA (tryA (h_stat h started)) (\<lambda>r. returnA (case r of
     Inl failure \<Rightarrow> add_error error (''Scoped executable did not start: '' @ error_string failure)
   | Inr _ \<Rightarrow> error))"

definition runCommand :: "'st host \<Rightarrow> command_spec \<Rightarrow> ('st, execution) action" where
  "runCommand h spec =
     bindA (liftA (processScope (sp_id spec))) (\<lambda>scope.
     bindA (scopeDescription h (sc_unit scope)) (\<lambda>existing.
     thenA (guardA (existing = None) ''Process ID already exists'')
     (bindA (resolveA h (sp_stdoutPath spec)) (\<lambda>out.
      bindA (resolveA h (sp_stderrPath spec)) (\<lambda>err.
      thenA (create_logs h out err)
      (bindA (catchA (h_spawn h (launch_command scope spec out err)) (\<lambda>_. throwA (Error
         (''Cannot launch scoped command; logs remain at '' @ err)))) (\<lambda>child.
       bindA (wait_child h child) (\<lambda>(status, error).
       bindA (stop_child h (sp_id spec) child status error) (\<lambda>(status, cleanup', error).
       bindA (check_started h (out @ ''.started'') error) (\<lambda>error.
       returnA \<lparr>ex_unit = sc_unit scope, ex_status = status, ex_cleanup = cleanup', ex_error = error,
         ex_success = (case status of Some s \<Rightarrow> cs_success s | None \<Rightarrow> False) \<and>
           cleanup' \<noteq> CleanupFailed \<and> error = None,
         ex_stdoutPath = sp_stdoutPath spec, ex_stderrPath = sp_stderrPath spec\<rparr>))))))))))"

section \<open>The experiment REPL\<close>

definition replId :: "string \<Rightarrow> string" where
  "replId runId = runId @ ''-repl''"

definition port_file :: "string \<Rightarrow> string" where
  "port_file workspace = join_path workspace ''.nrepl-port''"

definition stopRepl :: "'st host \<Rightarrow> string \<Rightarrow> string \<Rightarrow> ('st, cleanup) action" where
  "stopRepl h runId workspace =
     bindA (stopProcessScope h (replId runId)) (\<lambda>stopped.
     thenA (catchA
       (bindA (h_lstat h (port_file workspace)) (\<lambda>stat.
        thenA (guardA (fi_isFile stat \<and> \<not> fi_isSymlink stat) ''Unexpected REPL port file'')
          (h_remove h (port_file workspace))))
       (\<lambda>e. if not_found e then returnA () else throwA e))
     (returnA stopped))"

text \<open>One probe: whether the REPL answers. \<^verbatim>\<open>attempts\<close> counts the probes left of the sixty.\<close>

definition probe_repl :: "'st host \<Rightarrow> string \<Rightarrow> ('st, bool) action" where
  "probe_repl h workspace = catchA
     (bindA (h_stat h (port_file workspace)) (\<lambda>stat.
      if \<not> fi_isFile stat then returnA False
      else bindA (h_output h \<lparr>cm_command = ''brepl'', cm_args = [''(+ 1 2)''], cm_cwd = Some workspace,
          cm_env = [(''BREPL_PORT'', '''')], cm_clearEnv = False\<rparr>) (\<lambda>probe.
        returnA (co_success probe \<and> js_trim (co_stdout probe) = ''3''))))
     (\<lambda>e. if not_found e then returnA False else throwA e)"

fun await_repl :: "'st host \<Rightarrow> string \<Rightarrow> nat \<Rightarrow> ('st, unit) action" where
  "await_repl h workspace 0 = throwA (Error ''Experiment REPL did not become ready'')"
| "await_repl h workspace (Suc attempts) =
     bindA (probe_repl h workspace) (\<lambda>ready.
     if ready then returnA () else thenA (h_sleep h 1000) (await_repl h workspace attempts))"

definition repl_command :: "scope \<Rightarrow> string \<Rightarrow> string \<Rightarrow> command" where
  "repl_command scope runId workspace = run_program ''tmux''
     [''new-window'', ''-d'', ''-t'', ''busker'', ''-c'', workspace, ''-n'', ''tempo-'' @ runId @ ''-repl'', ''--'',
      ''exec systemd-run --user --scope --quiet --collect --expand-environment=no --unit='' @ sc_unit scope @
      '' --description='' @ [CHR 39] @ sc_description scope @ [CHR 39] @
      '' --property=TimeoutStopSec=5s -- bb dev'']"

definition startRepl :: "'st host \<Rightarrow> string \<Rightarrow> string \<Rightarrow> ('st, unit) action" where
  "startRepl h runId workspace =
     thenA (absentA (h_lstat h (port_file workspace)) ''Experiment worktree already has a REPL port file'')
     (bindA (liftA (processScope (replId runId))) (\<lambda>scope.
      bindA (h_output h (repl_command scope runId workspace)) (\<lambda>started.
      thenA (guardA (co_success started) (''Cannot start experiment REPL: '' @ co_stderr started))
      (catchA (await_repl h workspace 60) (\<lambda>e. thenA (stopRepl h runId workspace) (throwA e))))))"

section \<open>What a success means\<close>

text \<open>A scope is gone: it did not exist, or this program stopped it under its own description.\<close>

lemma stopProcessScope_Inr:
  assumes "stopProcessScope h i st = (Inr c, st')"
  obtains scope where "processScope i = Inr scope" "c \<noteq> CleanupFailed"
    "c = Stopped \<longrightarrow> (\<exists>st0 st1 st2 result.
       scopeDescription h (sc_unit scope) st0 = (Inr (Some (Some (sc_description scope))), st1) \<and>
       h_output h (run_program ''systemctl'' [''--user'', ''stop'', sc_unit scope]) st1 = (Inr result, st2) \<and>
       co_success result)"
    "c = Absent \<longrightarrow> (\<exists>st0. scopeDescription h (sc_unit scope) st0 = (Inr None, st'))"
proof -
  from assms obtain scope d st1 where s: "processScope i = Inr scope"
    "scopeDescription h (sc_unit scope) st = (Inr d, st1)"
    and rest: "(if d = None then returnA Absent
       else if d \<noteq> Some (Some (sc_description scope))
       then throwA (Error ''Refusing to stop a scope with a different description'')
       else bindA (h_output h (run_program ''systemctl'' [''--user'', ''stop'', sc_unit scope])) (\<lambda>result.
         if \<not> co_success result
         then bindA (scopeDescription h (sc_unit scope)) (\<lambda>left.
           if left = None then returnA Absent
           else throwA (Error (''Scope cleanup failed: '' @ co_stderr result)))
         else returnA Stopped)) st1 = (Inr c, st')"
    by (auto simp: stopProcessScope_def run_simps)
  show ?thesis
  proof (rule that [of scope])
    show "c \<noteq> CleanupFailed" using rest by (auto simp: run_simps split: if_splits)
    show "c = Stopped \<longrightarrow> (\<exists>st0 st1 st2 result.
       scopeDescription h (sc_unit scope) st0 = (Inr (Some (Some (sc_description scope))), st1) \<and>
       h_output h (run_program ''systemctl'' [''--user'', ''stop'', sc_unit scope]) st1 = (Inr result, st2) \<and>
       co_success result)"
      using rest s(2) by (auto simp: run_simps split: if_splits)
    show "c = Absent \<longrightarrow> (\<exists>st0. scopeDescription h (sc_unit scope) st0 = (Inr None, st'))"
      using rest s(2) by (auto simp: run_simps split: if_splits)
  qed (rule s)
qed

lemma stop_child_Inr: "stop_child h i child (Some s) error st = (Inr (status, c, error'), st') \<Longrightarrow>
    c \<noteq> CleanupFailed \<Longrightarrow> status = Some s \<and> error' = error \<and> stopProcessScope h i st = (Inr c, st')"
  by (auto simp: stop_child_def run_simps)

lemma check_started_None: "check_started h p e st = (Inr None, st') \<longleftrightarrow>
    e = None \<and> (\<exists>stat. h_stat h p st = (Inr stat, st'))"
  by (auto simp: check_started_def tryA_def bindA_def split: prod.splits sum.splits)

text \<open>
  What a successful command has done, from its first action to its last: its scope did not exist,
  the logs and the start record were new, the launched child ended with success, the scope was
  stopped or gone, and the start record was there.
\<close>

lemma runCommand_success:
  assumes "runCommand h spec st = (Inr x, st')" "ex_success x"
  obtains scope st1 st2 st3 st4 st5 st6 out err child status stat where
    "processScope (sp_id spec) = Inr scope" "scopeDescription h (sc_unit scope) st = (Inr None, st1)"
    "create_logs h out err st2 = (Inr (), st3)"
    "h_spawn h (launch_command scope spec out err) st3 = (Inr child, st4)"
    "h_status h child st4 = (Inr status, st5)" "cs_success status" "ex_status x = Some status"
    "stopProcessScope h (sp_id spec) st5 = (Inr (ex_cleanup x), st6)" "ex_cleanup x \<noteq> CleanupFailed"
    "h_stat h (out @ ''.started'') st6 = (Inr stat, st')" "ex_error x = None"
proof -
  from assms(1) obtain scope st1 out st2' err st2 st3 child st4 status error st5 status2 c error2 st6 error3 where
    run: "processScope (sp_id spec) = Inr scope" "scopeDescription h (sc_unit scope) st = (Inr None, st1)"
      "create_logs h out err st2 = (Inr (), st3)"
      "h_spawn h (launch_command scope spec out err) st3 = (Inr child, st4)"
      "wait_child h child st4 = (Inr (status, error), st5)"
      "stop_child h (sp_id spec) child status error st5 = (Inr (status2, c, error2), st6)"
      "check_started h (out @ ''.started'') error2 st6 = (Inr error3, st')"
    and x: "ex_status x = status2" "ex_cleanup x = c" "ex_error x = error3"
      "ex_success x \<longleftrightarrow> (case status2 of Some s \<Rightarrow> cs_success s | None \<Rightarrow> False) \<and> c \<noteq> CleanupFailed \<and> error3 = None"
    by (auto simp: runCommand_def run_simps)
  from x assms(2) obtain s where s: "status2 = Some s" "cs_success s" "c \<noteq> CleanupFailed" "error3 = None"
    by (auto split: option.splits)
  from run(7) s(4) obtain stat where "h_stat h (out @ ''.started'') st6 = (Inr stat, st')" "error2 = None"
    by (auto simp: check_started_None)
  moreover from run(5) have "(status = None \<and> error \<noteq> None) \<or> (\<exists>s'. status = Some s' \<and> error = None \<and>
      h_status h child st4 = (Inr s', st5))"
    by (auto simp: wait_child_def tryA_def bindA_def split: prod.splits sum.splits)
  moreover from run(6) \<open>error2 = None\<close> s(3) have "error = None"
    by (auto simp: stop_child_def run_simps)
  ultimately show ?thesis
    using run s x stop_child_Inr [of h "sp_id spec" child _ error st5 status2 c error2 st6]
    by (intro that [of scope st1 out err st2 st3 child st4 s st5 st6 stat]) auto
qed

end
