(* ===== verification/Tests.thy ===== *)
theory Tests
  imports Process Workspace Driver
begin

text \<open>
  \<^verbatim>\<open>_lib/artifacts.ts\<close> and \<^verbatim>\<open>_lib/test-runner.ts\<close>: archiving the files a command left, and the
  effect of a test step. Tests count as passed only for a worktree that was clean at the tested
  revision before and after a successful run of the command.
\<close>

section \<open>Archiving files\<close>

text \<open>
  \<^verbatim>\<open>createFileWriter(spec, name).writeStream(file.readable)\<close> takes the open file; the references are
  those of the store.
\<close>

record 'st artifact_ops =
  ao_store :: "'st store_ops"
  ao_stream :: "string \<Rightarrow> string \<Rightarrow> nat \<Rightarrow> ('st, output_ref) action"
  ao_text :: "string \<Rightarrow> string \<Rightarrow> string \<Rightarrow> ('st, output_ref) action"

definition bad_resource :: "js_error \<Rightarrow> bool" where
  "bad_resource e = (case e of Named c _ \<Rightarrow> c = ''BadResource'' | _ \<Rightarrow> False)"

definition archiveFile :: "'st host \<Rightarrow> 'st artifact_ops \<Rightarrow> string \<Rightarrow> string \<Rightarrow> string \<Rightarrow> bool \<Rightarrow>
    ('st, output_ref option) action" where
  "archiveFile h ao spec name path allowMissing =
     bindA (tryA (h_open h path)) (\<lambda>opened. case opened of
       Inl e \<Rightarrow> if allowMissing \<and> not_found e then returnA None else throwA e
     | Inr file \<Rightarrow>
         bindA (tryA (ao_stream ao spec name file)) (\<lambda>written.
         bindA (tryA (h_close h file)) (\<lambda>closed.
         let failures = (case written of Inl e \<Rightarrow> [e] | Inr _ \<Rightarrow> []) @
           (case closed of Inl e \<Rightarrow> if bad_resource e then [] else [e] | Inr _ \<Rightarrow> []) in
         if failures \<noteq> [] then throwA (Named ''AggregateError''
           (''Cannot archive command output: '' @ js_join ''; '' (map error_string failures)))
         else returnA (case written of Inl _ \<Rightarrow> None | Inr handle \<Rightarrow> Some handle))))"

definition archiveLogs :: "'st host \<Rightarrow> 'st artifact_ops \<Rightarrow> string \<Rightarrow> string \<Rightarrow> string \<Rightarrow> string \<Rightarrow> bool \<Rightarrow>
    ('st, output_ref list) action" where
  "archiveLogs h ao spec prefix stdoutPath stderrPath allowMissing =
     bindA (mapA (\<lambda>(kind, path). archiveFile h ao spec (prefix @ ''-'' @ kind) path allowMissing)
       [(''trace'', stdoutPath), (''stderr'', stderrPath)])
     (\<lambda>handles. returnA (List.map_filter (\<lambda>handle. handle) handles))"

record archive =
  ar_files :: "(string \<times> output_ref) list"
  ar_omitted :: "string list"

definition omitted_names :: "string list" where
  "omitted_names = [''server.key'', ''server.p12'']"

text \<open>
  \<^verbatim>\<open>visit\<close> with what it has collected; the files are numbered over the whole tree. The depth bound
  is the one of the support files. A symbolic link stops the archive.
\<close>

fun archive_entries :: "(dir_entry \<Rightarrow> 'a \<Rightarrow> ('st, 'a) action) \<Rightarrow> dir_entry list \<Rightarrow> 'a \<Rightarrow>
    ('st, 'a) action" where
  "archive_entries f [] acc = returnA acc"
| "archive_entries f (e # es) acc = bindA (f e acc) (archive_entries f es)"

lemma archive_entries_cong [fundef_cong]:
  "es = es' \<Longrightarrow> acc = acc' \<Longrightarrow> (\<And>e a. e \<in> set es' \<Longrightarrow> f e a = f' e a) \<Longrightarrow>
     archive_entries f es acc = archive_entries f' es' acc'"
proof (induction es arbitrary: es' acc acc')
  case (Cons e es)
  have "archive_entries f es = archive_entries f' es"
    by (rule ext, rule Cons.IH) (use Cons.prems in auto)
  with Cons.prems show ?case by auto
qed simp

fun visit_archive :: "'st host \<Rightarrow> 'st artifact_ops \<Rightarrow> string \<Rightarrow> string \<Rightarrow> nat \<Rightarrow> string \<Rightarrow> string \<Rightarrow> archive \<Rightarrow>
    ('st, archive) action" where
  "visit_archive h ao spec prefix 0 path rel acc = throwA (Named ''RangeError'' path)"
| "visit_archive h ao spec prefix (Suc depth) path rel acc =
     bindA (h_readDir h path) (\<lambda>entries. archive_entries (\<lambda>entry acc.
       let label = (if rel = [] then de_name entry else rel @ ''/'' @ de_name entry) in
       if de_isSymlink entry then throwA (Error ''Artifacts must not contain symlinks'')
       else if de_isDirectory entry
       then visit_archive h ao spec prefix depth (path @ ''/'' @ de_name entry) label acc
       else if de_name entry \<in> set omitted_names
       then returnA (acc\<lparr>ar_omitted := ar_omitted acc @ [label]\<rparr>)
       else if de_isFile entry
       then bindA (archiveFile h ao spec (prefix @ ''-file-'' @ dec_nat (length (ar_files acc) + 1))
           (path @ ''/'' @ de_name entry) False) (\<lambda>reference. returnA (case reference of
             None \<Rightarrow> acc | Some r \<Rightarrow> acc\<lparr>ar_files := ar_files acc @ [(label, r)]\<rparr>))
       else throwA (Error ''Unexpected artifact type'')) entries acc)"

definition archiveDirectory :: "'st host \<Rightarrow> 'st artifact_ops \<Rightarrow> string \<Rightarrow> string \<Rightarrow> string \<Rightarrow> ('st, archive) action" where
  "archiveDirectory h ao spec prefix directory =
     visit_archive h ao spec prefix 4096 directory [] \<lparr>ar_files = [], ar_omitted = []\<rparr>"

record log_excerpt =
  le_text :: string
  le_totalBytes :: int
  le_truncated :: bool

definition excerpt_limit :: int where
  "excerpt_limit = 16384"

definition logExcerpt :: "'st host \<Rightarrow> string \<Rightarrow> ('st, log_excerpt) action" where
  "logExcerpt h path =
     bindA (h_open h path) (\<lambda>file.
     finallyA (bindA (h_fileSize h file) (\<lambda>totalBytes.
       let truncated = excerpt_limit < totalBytes; half = excerpt_limit div 2 in
       bindA (mapA (\<lambda>start. h_readAt h file start (if truncated then half else totalBytes))
         (if truncated then [0, totalBytes - half] else [0])) (\<lambda>chunks.
       returnA \<lparr>le_text = js_join (LF # ''[... omitted; full log is archived ...]'' @ [LF]) chunks,
         le_totalBytes = totalBytes, le_truncated = truncated\<rparr>)))
     (h_close h file))"

section \<open>The effect of a test step\<close>

definition enc_excerpt :: "log_excerpt \<Rightarrow> json" where
  "enc_excerpt e = JObj [(''text'', JStr (le_text e)), (''totalBytes'', j_int (le_totalBytes e)),
     (''truncated'', JBool (le_truncated e))]"

definition cleanup_name :: "cleanup \<Rightarrow> string" where
  "cleanup_name c = (case c of Absent \<Rightarrow> ''absent'' | Stopped \<Rightarrow> ''stopped'' | CleanupFailed \<Rightarrow> ''failed'')"

definition exit_fields :: "execution option \<Rightarrow> (string \<times> json) list" where
  "exit_fields ex =
     (let status = Option.bind ex ex_status in
      [(''exitCode'', j_nullable j_int (map_option cs_code status)),
       (''signal'', j_nullable JStr (Option.bind status cs_signal)),
       (''cleanup'', j_nullable (\<lambda>c. JStr (cleanup_name c)) (map_option ex_cleanup ex))])"

text \<open>\<^verbatim>\<open>suffix\<close> is the way from the worktree to the logs; it must leave the worktree.\<close>

definition outside_worktree :: "string \<Rightarrow> string \<Rightarrow> bool" where
  "outside_worktree workspace directory =
     (let suffix = relative_path workspace directory in
      \<not> (suffix = [] \<or> (\<not> is_absolute suffix \<and> suffix \<noteq> ''..'' \<and> \<not> starts_with ''../'' suffix)))"

definition test_command :: "run_state \<Rightarrow> workspace \<Rightarrow> string \<Rightarrow> command_spec" where
  "test_command s w directory =
     \<lparr>sp_id = st_runId s @ ''-test-'' @ dec_int (st_sequence s), sp_command = ''bb'', sp_args = [''qa''],
      sp_cwd = ws_path w, sp_env = [], sp_stdoutPath = join_path directory ''stdout.log'',
      sp_stderrPath = join_path directory ''stderr.log''\<rparr>"

definition check_test_step :: "'st host \<Rightarrow> run_state \<Rightarrow> workspace \<Rightarrow> string \<Rightarrow> ('st, unit) action" where
  "check_test_step h s w directory =
     thenA (guardA (st_phase s \<in> {PPrepare, PTest} \<and> st_activeStep s = Some (st_sequence s) \<and>
       st_runId s = ws_runId w) ''Tests require the matching active test step'')
     (bindA (env_get h ''IN_NIX_SHELL'') (\<lambda>shell.
      thenA (guardA (truthy shell) ''Tests require the Nix devshell'')
      (thenA (verifyWorkspaceRevision h w (st_workingRevision s))
      (thenA (guardA (is_absolute directory)
         ''Test log directory must be absolute and must not traverse a symlink'')
      (bindA (real_parent h directory) (\<lambda>real.
       thenA (guardA (real = resolve_path [] directory)
         ''Test log directory must be absolute and must not traverse a symlink'')
       (thenA (guardA (outside_worktree (ws_path w) directory)
          ''Test logs must be outside the experiment worktree'')
         (h_mkdir h directory False))))))))"

text \<open>What running the command and looking at the worktree again gave.\<close>

definition run_tests :: "'st host \<Rightarrow> run_state \<Rightarrow> workspace \<Rightarrow> command_spec \<Rightarrow>
    ('st, execution option \<times> bool \<times> string option) action" where
  "run_tests h s w spec =
     bindA (tryA (runCommand h spec)) (\<lambda>r.
     let ex = (case r of Inl _ \<Rightarrow> None | Inr ex \<Rightarrow> Some ex);
         error = (case r of Inl failure \<Rightarrow> Some (error_string failure) | Inr ex \<Rightarrow> ex_error ex) in
     bindA (tryA (verifyWorkspaceRevision h w (st_workingRevision s))) (\<lambda>v. returnA (case v of
       Inl failure \<Rightarrow> (ex, False, add_error error (error_string failure))
     | Inr _ \<Rightarrow> (ex, True, error))))"

definition tests_valid :: "execution option \<Rightarrow> bool \<Rightarrow> string option \<Rightarrow> bool" where
  "tests_valid ex sourceUnchanged error \<longleftrightarrow> sourceUnchanged \<and> Option.bind ex ex_status \<noteq> None \<and>
     map_option ex_cleanup ex \<noteq> Some CleanupFailed \<and> error = None"

definition tests_passed :: "execution option \<Rightarrow> bool \<Rightarrow> string option \<Rightarrow> bool" where
  "tests_passed ex sourceUnchanged error \<longleftrightarrow> tests_valid ex sourceUnchanged error \<and>
     map_option ex_success ex = Some True"

definition enc_execution :: "run_state \<Rightarrow> command_spec \<Rightarrow> execution option \<Rightarrow> bool \<Rightarrow> string option \<Rightarrow>
    (log_excerpt \<times> log_excerpt) option \<Rightarrow> output_ref list \<Rightarrow> json" where
  "enc_execution s spec ex sourceUnchanged error excerpts artifacts =
     JObj ([(''runId'', JStr (st_runId s)), (''step'', j_int (st_sequence s)),
       (''revision'', JStr (st_workingRevision s)), (''command'', JStr (sp_command spec)),
       (''args'', JArr (map JStr (sp_args spec))), (''valid'', JBool (tests_valid ex sourceUnchanged error)),
       (''passed'', JBool (tests_passed ex sourceUnchanged error)),
       (''sourceUnchanged'', JBool sourceUnchanged), (''error'', j_nullable JStr error)] @ exit_fields ex @
       [(''failureOutput'', j_nullable (\<lambda>(out, err). JObj [(''stdout'', enc_excerpt out),
          (''stderr'', enc_excerpt err)]) excerpts), (''artifacts'', enc_refs artifacts)])"

definition runTestEffect :: "'st host \<Rightarrow> 'st artifact_ops \<Rightarrow> run_state \<Rightarrow> workspace \<Rightarrow> string \<Rightarrow>
    ('st, step_effect) action" where
  "runTestEffect h ao s w directory =
     thenA (check_test_step h s w directory)
     (let spec = test_command s w directory in
      bindA (run_tests h s w spec) (\<lambda>(ex, sourceUnchanged, error).
      bindA (archiveLogs h ao ''testLog'' (sp_id spec) (sp_stdoutPath spec) (sp_stderrPath spec)
        (map_option ex_success ex \<noteq> Some True)) (\<lambda>artifacts.
      let valid = tests_valid ex sourceUnchanged error; passed = tests_passed ex sourceUnchanged error in
      bindA (if valid \<and> \<not> passed then bindA (logExcerpt h (sp_stdoutPath spec)) (\<lambda>out.
          bindA (logExcerpt h (sp_stderrPath spec)) (\<lambda>err. returnA (Some (out, err))))
        else returnA None) (\<lambda>excerpts.
      bindA (so_write (ao_store ao) ''testExecution'' (sp_id spec @ ''-result'')
        (enc_execution s spec ex sourceUnchanged error excerpts artifacts)) (\<lambda>saved.
      returnA \<lparr>se_outcome = (if valid then Tested (st_workingRevision s) passed
          else Failed (case error of Some e \<Rightarrow> e | None \<Rightarrow> ''Test execution or process cleanup failed'')),
        se_evidence = artifacts @ [saved]\<rparr>)))))"

section \<open>Properties\<close>

lemma check_test_step_Inr:
  assumes "check_test_step h s w directory st = (Inr (), st')"
  obtains shell st1 st2 st3 where "st_phase s \<in> {PPrepare, PTest}" "st_activeStep s = Some (st_sequence s)"
    "st_runId s = ws_runId w" "env_get h ''IN_NIX_SHELL'' st = (Inr shell, st1)"
    "verifyWorkspaceRevision h w (st_workingRevision s) st1 = (Inr (), st2)"
    "real_parent h directory st2 = (Inr (resolve_path [] directory), st3)"
    "outside_worktree (ws_path w) directory" "h_mkdir h directory False st3 = (Inr (), st')"
  using assms by (auto simp: check_test_step_def run_simps)

lemma run_tests_Inr:
  assumes "run_tests h s w spec st = (Inr (ex, unchanged, error), st')" "tests_passed ex unchanged error"
  obtains x st1 where "ex = Some x" "runCommand h spec st = (Inr x, st1)" "ex_success x"
    "verifyWorkspaceRevision h w (st_workingRevision s) st1 = (Inr (), st')"
  using assms by (auto simp: run_tests_def Let_def tests_passed_def tests_valid_def tryA_def bindA_def
      split: prod.splits sum.splits)

text \<open>
  C32: Passed tests are tests of the revision they name. When a test step answers that the tests
  passed, it went through these actions, each in the state the one before left: it read the
  environment, verified the worktree to be clean at the working revision, and made the directory of
  the logs, which lies outside of the worktree; the command of the step then ran to a successful end
  in a scope that was new before and is gone after; and right after that the worktree was verified
  again to be clean at the same revision.
\<close>

theorem passed_tests_are_of_the_revision:
  assumes "runTestEffect h ao s w directory st = (Inr eff, st')" "se_outcome eff = Tested revision True"
  shows "revision = st_workingRevision s \<and> st_runId s = ws_runId w \<and> outside_worktree (ws_path w) directory \<and>
    (\<exists>shell st1 st2 st3 st4 st5 st6 x. env_get h ''IN_NIX_SHELL'' st = (Inr shell, st1) \<and>
       verifyWorkspaceRevision h w revision st1 = (Inr (), st2) \<and>
       real_parent h directory st2 = (Inr (resolve_path [] directory), st3) \<and>
       h_mkdir h directory False st3 = (Inr (), st4) \<and>
       runCommand h (test_command s w directory) st4 = (Inr x, st5) \<and> ex_success x \<and>
       (\<exists>status. ex_status x = Some status \<and> cs_success status) \<and> ex_cleanup x \<in> {Absent, Stopped} \<and>
       verifyWorkspaceRevision h w revision st5 = (Inr (), st6))"
proof -
  from assms obtain st1 ex unchanged error st2 where
    c: "check_test_step h s w directory st = (Inr (), st1)"
    and r: "run_tests h s w (test_command s w directory) st1 = (Inr (ex, unchanged, error), st2)"
    and p: "tests_passed ex unchanged error" "revision = st_workingRevision s"
    by (auto simp: runTestEffect_def Let_def run_simps split: if_splits)
  from r p(1) obtain x st3 where x: "ex = Some x" "runCommand h (test_command s w directory) st1 = (Inr x, st3)"
    "ex_success x" "verifyWorkspaceRevision h w (st_workingRevision s) st3 = (Inr (), st2)"
    by (rule run_tests_Inr)
  have ok: "(\<exists>status. ex_status x = Some status \<and> cs_success status) \<and> ex_cleanup x \<in> {Absent, Stopped}"
    by (rule runCommand_success [OF x(2,3)]) (use cleanup.exhaust in auto)
  from c show ?thesis by (rule check_test_step_Inr) (use ok x p(2) in blast)
qed

text \<open>A concrete test step: the host's state is whether the command has been launched.\<close>

definition test_state :: run_state where
  "test_state = \<lparr>st_runId = ''run-1'', st_phase = PTest, st_initialRevision = replicate 40 (CHR ''a''),
     st_bestRevision = replicate 40 (CHR ''a''), st_workingRevision = replicate 40 (CHR ''a''),
     st_attemptsStarted = 1, st_repairsThisAttempt = 0, st_piCallsStarted = 2, st_elapsedMs = 0,
     st_sequence = 7, st_activeStep = Some 7, st_targetMet = False, st_stopReason = None,
     st_requestedProfile = Ctimer, st_outputs = (\<lambda>_. None)\<rparr>"

definition test_answer :: "command \<Rightarrow> command_output" where
  "test_answer c = (if cm_command c = ''systemctl''
     then \<lparr>co_success = True, co_stdout = ''LoadState=not-found'', co_stderr = []\<rparr>
     else if hd (cm_args c) = ''status'' then \<lparr>co_success = True, co_stdout = [], co_stderr = []\<rparr>
     else fst (toy_git (cm_args c) Map.empty))"

definition test_host :: "bool host" where
  "test_host = bare_host\<lparr>h_output := \<lambda>c. returnA (test_answer c),
     h_spawn := \<lambda>_ _. (Inr 1, True), h_status := \<lambda>_. returnA \<lparr>cs_success = True, cs_code = 0, cs_signal = None\<rparr>,
     h_stat := \<lambda>_ launched. (if launched then Inr \<lparr>fi_isFile = True, fi_isDirectory = False,
       fi_isSymlink = False, fi_size = 8\<rparr> else Inl (Named ''NotFound'' []), launched),
     h_environ := returnA [(''IN_NIX_SHELL'', ''1'')], h_open := \<lambda>_. returnA 1\<rparr>"

definition test_artifacts :: "bool artifact_ops" where
  "test_artifacts = \<lparr>ao_store = \<lparr>so_write = \<lambda>_ name _. returnA \<lparr>or_name = name, or_version = 1\<rparr>,
       so_read = \<lambda>_ _. returnA None\<rparr>,
     ao_stream = \<lambda>_ name _. returnA \<lparr>or_name = name, or_version = 1\<rparr>,
     ao_text = \<lambda>_ name _. returnA \<lparr>or_name = name, or_version = 1\<rparr>\<rparr>"

lemma test_passed: "case runTestEffect test_host test_artifacts test_state toy_workspace ''/logs/step-7'' False of
    (Inl e, st') \<Rightarrow> False | (Inr eff, st') \<Rightarrow> se_outcome eff = Tested (replicate 40 (CHR ''a'')) True"
  by code_simp

theorem passed_tests_are_of_the_revision_witness:
  "\<exists>x st1 st2 st4 st5. verifyWorkspaceRevision test_host toy_workspace (replicate 40 (CHR ''a'')) st1 = (Inr (), st2) \<and>
     runCommand test_host (test_command test_state toy_workspace ''/logs/step-7'') st4 = (Inr x, st5) \<and> ex_success x"
proof -
  from test_passed obtain eff st' where r: "runTestEffect test_host test_artifacts test_state toy_workspace
      ''/logs/step-7'' False = (Inr eff, st')" "se_outcome eff = Tested (replicate 40 (CHR ''a'')) True"
    by (auto split: prod.splits sum.splits)
  from passed_tests_are_of_the_revision [OF this] show ?thesis by blast
qed

end
