(* ===== verification/Campaign.thy ===== *)
theory Campaign
  imports Run_Config Tests
begin

text \<open>
  \<^verbatim>\<open>_lib/campaign.ts\<close>: the evidence a run leaves for the run that continues it. A bundle names the
  saved records of the parent; before it is used, every record is checked against its hash, the
  live store and the file system, the steps are replayed through the state machine, and each kept
  revision must have passing tests, an improving measurement and a review that looked at both.
\<close>

section \<open>What the functions of a run use\<close>

text \<open>
  The surroundings of a run: the host, the resource store, and of the standard library the hashes,
  \<^verbatim>\<open>Math\<close>, the printing of numbers, the strict decoder of \<^verbatim>\<open>TextDecoder\<close>, \<^verbatim>\<open>JSON.parse\<close> of the
  decoded bytes and \<^verbatim>\<open>new URL(value).href\<close>.
\<close>

record 'st services =
  sv_host :: "'st host"
  sv_artifacts :: "'st artifact_ops"
  sv_crypto :: crypto
  sv_math :: js_math
  sv_numstr :: "jsnum \<Rightarrow> string"
  sv_utf8 :: "string \<Rightarrow> string option"
  sv_json :: "string \<Rightarrow> json res"
  sv_url :: "string \<Rightarrow> string option"

abbreviation sv_store :: "('st, 'z) services_scheme \<Rightarrow> 'st store_ops" where
  "sv_store sv \<equiv> ao_store (sv_artifacts sv)"

text \<open>The verified result of a preceding run (\<^verbatim>\<open>CampaignResult\<close>).\<close>

record campaign =
  ca_config :: run_config
  ca_state :: run_state
  ca_initial :: "measurement option"
  ca_best :: "measurement option"
  ca_bestRevision :: string
  ca_startedAtMs :: int
  ca_attemptsStarted :: int
  ca_piCallsStarted :: int
  ca_sourceRunId :: string
  ca_sourceDigest :: string

definition assertNotAbandoned :: "'st host \<Rightarrow> string \<Rightarrow> ('st, unit) action" where
  "assertNotAbandoned h directory = absentA (h_stat h (join_path directory ''abandoned.json''))
     ''Abandoned run cannot be resumed or recovered''"

section \<open>The bundle\<close>

record swamp_record =
  sw_name :: string
  sw_version :: int
  sw_modelId :: string
  sw_checksum :: string
  sw_encoding :: "string option"
  sw_content :: "json option"

record source_ref =
  so_ref :: output_ref
  so_checksum :: string

record abandonment =
  ab_receipt :: string
  ab_receiptSha256 :: string
  ab_step :: int

record parent_log =
  lg_path :: string
  lg_sha256 :: string
  lg_size :: int

record parent_evidence =
  pe_repository :: string
  pe_runId :: string
  pe_config :: source_ref
  pe_state :: source_ref
  pe_abandoned :: "abandonment option"
  pe_records :: "swamp_record list"
  pe_logs :: "parent_log list"

definition recordSchema :: "swamp_record schema" where
  "recordSchema = z_loose (\<lambda>o'. do {
     name \<leftarrow> z_field o' ''name'' z_string_min1;
     version \<leftarrow> z_field o' ''version'' (z_int_if z_positive);
     modelId \<leftarrow> z_field o' ''modelId'' z_string_min1;
     _ \<leftarrow> z_field o' ''modelName'' (z_literal ''tempo'');
     _ \<leftarrow> z_field o' ''modelType'' (z_literal ''busker/tempo'');
     checksum \<leftarrow> z_field o' ''checksum'' sha256Schema;
     encoding \<leftarrow> z_optional o' ''contentEncoding'' z_string;
     Some \<lparr>sw_name = name, sw_version = version, sw_modelId = modelId, sw_checksum = checksum,
       sw_encoding = encoding, sw_content = map_of o' ''content''\<rparr> })"

definition sourceRefSchema :: "source_ref schema" where
  "sourceRefSchema = z_strict [''name'', ''version'', ''checksum''] (\<lambda>o'. do {
     name \<leftarrow> z_field o' ''name'' z_string_min1;
     version \<leftarrow> z_field o' ''version'' (z_int_if z_positive);
     checksum \<leftarrow> z_field o' ''checksum'' sha256Schema;
     Some \<lparr>so_ref = \<lparr>or_name = name, or_version = version\<rparr>, so_checksum = checksum\<rparr> })"

text \<open>\<^verbatim>\<open>/^step-[1-9][0-9]*\/(stdout\.jsonl|stderr\.log)$/\<close> and \<^verbatim>\<open>/^[a-zA-Z0-9_-]+$/\<close>.\<close>

definition pi_log_names :: "string list" where
  "pi_log_names = [''stdout.jsonl'', ''stderr.log'']"

definition log_path_ok :: "string \<Rightarrow> bool" where
  "log_path_ok p = (case js_split (CHR ''/'') p of
     [step, name] \<Rightarrow> name \<in> set pi_log_names \<and> starts_with ''step-'' step \<and>
       (let digits = drop 5 step in digits \<noteq> [] \<and> list_all is_digit digits \<and> hd digits \<noteq> CHR ''0'')
   | _ \<Rightarrow> False)"

definition bundle_id_ok :: "string \<Rightarrow> bool" where
  "bundle_id_ok s \<longleftrightarrow> s \<noteq> [] \<and> list_all id_char s"

definition parentEvidenceSchema :: "parent_evidence schema" where
  "parentEvidenceSchema = z_strict [''repository'', ''runId'', ''config'', ''state'', ''abandoned'', ''records'',
       ''logs''] (\<lambda>o'. do {
     repository \<leftarrow> z_field o' ''repository'' z_string_min1;
     runId \<leftarrow> z_field o' ''runId'' (z_string_if bundle_id_ok);
     config \<leftarrow> z_field o' ''config'' sourceRefSchema;
     state \<leftarrow> z_field o' ''state'' sourceRefSchema;
     abandoned \<leftarrow> z_field o' ''abandoned'' (z_nullable (z_strict [''receipt'', ''receiptSha256'', ''step''] (\<lambda>p. do {
       receipt \<leftarrow> z_field p ''receipt'' z_string_min1;
       sha256 \<leftarrow> z_field p ''receiptSha256'' sha256Schema;
       step \<leftarrow> z_field p ''step'' (z_int_if z_positive);
       Some \<lparr>ab_receipt = receipt, ab_receiptSha256 = sha256, ab_step = step\<rparr> })));
     records \<leftarrow> z_field o' ''records'' (z_array recordSchema);
     logs \<leftarrow> z_field o' ''logs'' (z_array (z_strict [''path'', ''sha256'', ''size''] (\<lambda>p. do {
       path \<leftarrow> z_field p ''path'' (z_string_if log_path_ok);
       sha256 \<leftarrow> z_field p ''sha256'' sha256Schema;
       size \<leftarrow> z_field p ''size'' (z_int_if z_count);
       Some \<lparr>lg_path = path, lg_sha256 = sha256, lg_size = size\<rparr> })));
     Some \<lparr>pe_repository = repository, pe_runId = runId, pe_config = config, pe_state = state,
       pe_abandoned = abandoned, pe_records = records, pe_logs = logs\<rparr> })"

record receipt =
  rc_runId :: string
  rc_step :: int
  rc_stateChecksum :: string

definition z_true :: "unit schema" where
  "z_true v = (if v = JBool True then Some () else None)"

definition abandonmentSchema :: "receipt schema" where
  "abandonmentSchema = z_strict [''approvedBy'', ''runId'', ''step'', ''stateChecksum'', ''controllerStopped'',
       ''childrenStopped'', ''refsAndLogsPreserved''] (\<lambda>o'. do {
     _ \<leftarrow> z_field o' ''approvedBy'' (z_literal ''tempo-leader@busker'');
     runId \<leftarrow> z_field o' ''runId'' z_string;
     step \<leftarrow> z_field o' ''step'' (z_int_if z_positive);
     checksum \<leftarrow> z_field o' ''stateChecksum'' sha256Schema;
     _ \<leftarrow> z_field o' ''controllerStopped'' z_true;
     _ \<leftarrow> z_field o' ''childrenStopped'' z_true;
     _ \<leftarrow> z_field o' ''refsAndLogsPreserved'' z_true;
     Some \<lparr>rc_runId = runId, rc_step = step, rc_stateChecksum = checksum\<rparr> })"

section \<open>The bytes of a record\<close>

text \<open>\<^verbatim>\<open>JSON.stringify(value, null, 2)\<close>.\<close>

fun json_pretty :: "(jsnum \<Rightarrow> string) \<Rightarrow> string \<Rightarrow> json \<Rightarrow> string" where
  "json_pretty numstr indent (JArr vs) = (if vs = [] then ''[]'' else
     (let inner = ''  '' @ indent in ''['' @ [LF] @ inner @
       js_join ('','' @ [LF] @ inner) (map (json_pretty numstr inner) vs) @ [LF] @ indent @ '']''))"
| "json_pretty numstr indent (JObj kvs) = (if kvs = [] then ''{}'' else
     (let inner = ''  '' @ indent in ''{'' @ [LF] @ inner @
       js_join ('','' @ [LF] @ inner)
         (map (\<lambda>(k, v). quote_json k @ '': '' @ json_pretty numstr inner v) kvs) @ [LF] @ indent @ ''}''))"
| "json_pretty numstr indent v = json_text numstr v"

text \<open>\<^verbatim>\<open>atob\<close>: base 64 with optional padding; \<open>None\<close> where it throws.\<close>

definition base64_chars :: string where
  "base64_chars = ''ABCDEFGHIJKLMNOPQRSTUVWXYZabcdefghijklmnopqrstuvwxyz0123456789+/''"

fun base64_bytes :: "nat list \<Rightarrow> string" where
  "base64_bytes (a # b # c # d # rest) = [char_of (a * 4 + b div 16), char_of (b mod 16 * 16 + c div 4),
     char_of (c mod 4 * 64 + d)] @ base64_bytes rest"
| "base64_bytes [a, b, c] = [char_of (a * 4 + b div 16), char_of (b mod 16 * 16 + c div 4)]"
| "base64_bytes [a, b] = [char_of (a * 4 + b div 16)]"
| "base64_bytes _ = []"

definition drop_padding :: "string \<Rightarrow> string" where
  "drop_padding s = (if length s mod 4 \<noteq> 0 \<or> s = [] \<or> last s \<noteq> CHR ''='' then s
     else let t = butlast s in if t \<noteq> [] \<and> last t = CHR ''='' then butlast t else t)"

definition js_atob :: "string \<Rightarrow> string option" where
  "js_atob s = (let t = drop_padding (filter (\<lambda>c. c \<notin> {CHR 0x09, LF, CHR 0x0C, CR, CHR '' ''}) s) in
     if length t mod 4 = 1 then None
     else map_option base64_bytes (those (map (\<lambda>c. index_of c base64_chars) t)))"

text \<open>
  \<^verbatim>\<open>contentBytes\<close>: the bytes whose hash is the checksum. A property \<^verbatim>\<open>content\<close> that is missing
  stringifies to \<^verbatim>\<open>undefined\<close>, which encodes to nothing.
\<close>

definition content_texts :: "(jsnum \<Rightarrow> string) \<Rightarrow> json option \<Rightarrow> string list" where
  "content_texts numstr content = (case content of
     None \<Rightarrow> [[], ''undefined'' @ [LF], [], ''undefined'' @ [LF]]
   | Some v \<Rightarrow> let compact = json_text numstr v; pretty = json_pretty numstr [] v in
       [compact, compact @ [LF], pretty, pretty @ [LF]])"

definition contentBytes :: "(jsnum \<Rightarrow> string) \<Rightarrow> crypto \<Rightarrow> swamp_record \<Rightarrow> string res" where
  "contentBytes numstr cr r =
     (let unsupported = Inl (Error ''Unsupported or unverified Swamp evidence encoding'');
          stringified = (if sw_encoding r \<in> {None, Some ''utf-8''}
            then (case filter (\<lambda>t. cr_sha256 cr t = sw_checksum r) (content_texts numstr (sw_content r)) of
                t # _ \<Rightarrow> Inr t | [] \<Rightarrow> unsupported)
            else unsupported) in
      case (sw_encoding r, sw_content r) of
        (Some enc, Some (JStr s)) \<Rightarrow>
          if enc = ''base64'' then (case js_atob s of Some b \<Rightarrow> Inr b | None \<Rightarrow> Inl (Named ''InvalidCharacterError'' s))
          else if enc = ''utf-8'' then Inr s else stringified
      | _ \<Rightarrow> stringified)"

type_synonym catalog = "(string \<times> swamp_record) list"

definition record_ref :: "swamp_record \<Rightarrow> output_ref" where
  "record_ref r = \<lparr>or_name = sw_name r, or_version = sw_version r\<rparr>"

fun catalog_records :: "(jsnum \<Rightarrow> string) \<Rightarrow> crypto \<Rightarrow> catalog \<Rightarrow> swamp_record list \<Rightarrow> catalog res" where
  "catalog_records numstr cr cat [] = Inr cat"
| "catalog_records numstr cr cat (r # rs) =
     (let key = ref_label (record_ref r) in
      if map_of cat key \<noteq> None then Inl (Error ''Duplicate or changed parent evidence'')
      else bindR (contentBytes numstr cr r) (\<lambda>bytes.
        if cr_sha256 cr bytes \<noteq> sw_checksum r then Inl (Error ''Duplicate or changed parent evidence'')
        else catalog_records numstr cr (cat @ [(key, r)]) rs))"

definition catalog_of :: "(jsnum \<Rightarrow> string) \<Rightarrow> crypto \<Rightarrow> parent_evidence \<Rightarrow> catalog res" where
  "catalog_of numstr cr ev =
     bindR (catalog_records numstr cr [] (pe_records ev)) (\<lambda>cat.
       if length (remdups (map sw_modelId (pe_records ev))) \<noteq> 1
       then Inl (Error ''Parent evidence spans different models'') else Inr cat)"

definition cat_get :: "catalog \<Rightarrow> output_ref \<Rightarrow> swamp_record res" where
  "cat_get cat r = (case map_of cat (ref_label r) of
     None \<Rightarrow> Inl (Error (''Missing exact parent evidence '' @ ref_label r)) | Some x \<Rightarrow> Inr x)"

abbreviation content_of :: "swamp_record \<Rightarrow> json" where
  "content_of r \<equiv> or_null (sw_content r)"

text \<open>\<^verbatim>\<open>for (const item of items) get(item)\<close>.\<close>

definition cat_all :: "catalog \<Rightarrow> output_ref list \<Rightarrow> unit res" where
  "cat_all cat rs = each (\<lambda>r. bindR (cat_get cat r) (\<lambda>_. Inr ())) rs"

section \<open>The live records\<close>

text \<open>\<^verbatim>\<open>/\s(active|activating|reloading)\s/\<close>.\<close>

definition word_here :: "string \<Rightarrow> bool" where
  "word_here s = (case s of [] \<Rightarrow> False | c # rest \<Rightarrow> is_space c \<and>
     list_ex (\<lambda>w. starts_with w rest \<and> (case drop (length w) rest of [] \<Rightarrow> False | d # _ \<Rightarrow> is_space d))
       [''active'', ''activating'', ''reloading''])"

definition assertParentStopped :: "'st host \<Rightarrow> string \<Rightarrow> ('st, unit) action" where
  "assertParentStopped h runId =
     bindA (h_output h (run_program ''systemctl'' [''--user'', ''list-units'', ''--all'', ''--plain'', ''--no-legend'',
       ''--no-pager'', ''tempo-controller-'' @ runId @ ''.scope'', ''tempo-'' @ runId @ ''-*.scope'']))
     (\<lambda>scopes. guardA (co_success scopes \<and> \<not> some_suffix word_here (co_stdout scopes))
       ''Parent controller or child scope is still active'')"

definition swamp_command :: "string list \<Rightarrow> command" where
  "swamp_command args = \<lparr>cm_command = ''swamp'', cm_args = args, cm_cwd = None,
     cm_env = [(''SWAMP_SERVE_URL'', []), (''SWAMP_SERVER_URL'', [])], cm_clearEnv = False\<rparr>"

definition swamp_get :: "string \<Rightarrow> string \<Rightarrow> int \<Rightarrow> command" where
  "swamp_get repository name version = swamp_command [''data'', ''get'', ''tempo'', name, ''--version'', dec_int version,
     ''--repo-dir'', repository, ''--json'']"

definition getSwampRecord :: "('st, 'z) services_scheme \<Rightarrow> string \<Rightarrow> output_ref \<Rightarrow> ('st, swamp_record) action" where
  "getSwampRecord sv repository r =
     bindA (resolveA (sv_host sv) repository) (\<lambda>real.
     thenA (guardA (ref_ok r \<and> real = repository) ''Swamp data lookup needs an exact local reference'')
     (bindA (h_output (sv_host sv) (swamp_get repository (or_name r) (or_version r))) (\<lambda>process.
      thenA (guardA (co_success process) (''Missing Swamp data '' @ ref_label r))
      (bindA (liftA (sv_json sv (co_stdout process))) (\<lambda>v.
       bindA (liftA (zparse ''record'' recordSchema v)) (\<lambda>x.
       let changed = ''Swamp returned another version or changed content: '' @ ref_label r in
       thenA (guardA (record_ref x = r) changed)
       (bindA (liftA (contentBytes (sv_numstr sv) (sv_crypto sv) x)) (\<lambda>bytes.
        thenA (guardA (cr_sha256 (sv_crypto sv) bytes = sw_checksum x) changed) (returnA x)))))))))"

text \<open>The listing of the versions of a resource: the number of the first one marked as latest.\<close>

definition versionsSchema :: "(jsnum \<times> bool) list schema" where
  "versionsSchema = z_array (z_loose (\<lambda>o'. do {
     version \<leftarrow> z_field o' ''version'' (z_number_if (\<lambda>_. True));
     latest \<leftarrow> z_field o' ''isLatest'' z_bool;
     Some (version, latest) }))"

definition latest_version :: "(jsnum \<times> bool) list \<Rightarrow> jsnum option" where
  "latest_version vs = map_option fst (List.find snd vs)"

definition swamp_versions :: "string \<Rightarrow> string \<Rightarrow> command" where
  "swamp_versions repository name = swamp_command [''data'', ''versions'', ''tempo'', name, ''--repo-dir'', repository, ''--json'']"

definition check_latest :: "('st, 'z) services_scheme \<Rightarrow> parent_evidence \<Rightarrow> ('st, unit) action" where
  "check_latest sv ev =
     (let changed = ''Parent state changed since the evidence export'' in
      bindA (h_output (sv_host sv) (swamp_versions (pe_repository ev) (pe_runId ev @ ''-state''))) (\<lambda>versions.
      thenA (guardA (co_success versions) changed)
      (bindA (liftA (sv_json sv (co_stdout versions))) (\<lambda>v.
       bindA (liftA (zparse ''versions'' (z_loose (\<lambda>o'. z_field o' ''versions'' versionsSchema)) v)) (\<lambda>vs.
       guardA (latest_version vs = Some (Fin (of_int (or_version (so_ref (pe_state ev)))))) changed)))))"

definition check_live :: "('st, 'z) services_scheme \<Rightarrow> parent_evidence \<Rightarrow> swamp_record \<Rightarrow> ('st, unit) action" where
  "check_live sv ev selected =
     bindA (getSwampRecord sv (pe_repository ev) (record_ref selected)) (\<lambda>live.
     guardA (sw_checksum live = sw_checksum selected \<and> sw_modelId live = sw_modelId selected)
       ''Parent source record differs from exported evidence'')"

definition check_log :: "('st, 'z) services_scheme \<Rightarrow> string \<Rightarrow> parent_log \<Rightarrow> ('st, unit) action" where
  "check_log sv directory lg =
     (let h = sv_host sv; full = join_path directory (lg_path lg); changed = ''Parent log changed after abandonment'' in
      bindA (h_lstat h full) (\<lambda>stat.
      thenA (guardA (fi_isFile stat \<and> \<not> fi_isSymlink stat \<and> fi_size stat = lg_size lg) changed)
      (bindA (h_readFile h full) (\<lambda>bytes.
       guardA (cr_sha256 (sv_crypto sv) bytes = lg_sha256 lg) changed))))"

fun check_logs :: "('st, 'z) services_scheme \<Rightarrow> string \<Rightarrow> string list \<Rightarrow> parent_log list \<Rightarrow> ('st, unit) action" where
  "check_logs sv directory seen [] = returnA ()"
| "check_logs sv directory seen (lg # lgs) =
     thenA (guardA (lg_path lg \<notin> set seen) ''Duplicate parent log'')
     (thenA (check_log sv directory lg) (check_logs sv directory (lg_path lg # seen) lgs))"

definition manifest_sha :: "string schema" where
  "manifest_sha = z_loose (\<lambda>o'. z_field o' ''supportManifest'' (z_loose (\<lambda>m. z_field m ''sha256'' sha256Schema)))"

definition check_snapshot :: "('st, 'z) services_scheme \<Rightarrow> string \<Rightarrow> json \<Rightarrow> string \<Rightarrow> ('st, unit) action" where
  "check_snapshot sv repository config message =
     bindA (supportManifest (sv_host sv) (sv_crypto sv) repository) (\<lambda>manifest.
     bindA (liftA (zparse ''manifest'' manifest_sha config)) (\<lambda>sha.
     guardA (mf_sha256 manifest = sha) message))"

section \<open>Opening a bundle\<close>

record opened_parent =
  op_evidence :: parent_evidence
  op_catalog :: catalog
  op_stateChecksum :: string
  op_config :: run_config
  op_state :: run_state

definition exact_bundle :: "'st host \<Rightarrow> string \<Rightarrow> string \<Rightarrow> ('st, unit) action" where
  "exact_bundle h path digest = bindA (resolveA h path) (\<lambda>real.
     guardA (real = path \<and> sha256_ok digest) ''Parent bundle path and digest must be exact'')"

definition read_bundle :: "('st, 'z) services_scheme \<Rightarrow> string \<Rightarrow> string \<Rightarrow> ('st, parent_evidence) action" where
  "read_bundle sv path digest =
     bindA (h_readFile (sv_host sv) path) (\<lambda>bytes.
     thenA (guardA (cr_sha256 (sv_crypto sv) bytes = digest) ''Parent bundle changed'')
     (bindA (liftA (sv_json sv bytes)) (\<lambda>v. liftA (zparse ''evidence'' parentEvidenceSchema v))))"

definition open_parent :: "('st, 'z) services_scheme \<Rightarrow> string \<Rightarrow> string \<Rightarrow> ('st, opened_parent) action" where
  "open_parent sv path digest =
     bindA (read_bundle sv path digest) (\<lambda>ev.
     thenA (assertParentStopped (sv_host sv) (pe_runId ev))
     (thenA (check_latest sv ev)
     (bindA (liftA (catalog_of (sv_numstr sv) (sv_crypto sv) ev)) (\<lambda>cat.
      bindA (liftA (cat_get cat (so_ref (pe_config ev)))) (\<lambda>config_record.
      bindA (liftA (cat_get cat (so_ref (pe_state ev)))) (\<lambda>state_record.
      thenA (check_live sv ev config_record)
      (thenA (check_live sv ev state_record)
      (thenA (guardA (sw_checksum config_record = so_checksum (pe_config ev) \<and>
          sw_checksum state_record = so_checksum (pe_state ev) \<and>
          or_name (so_ref (pe_config ev)) = pe_runId ev @ ''-config'' \<and>
          or_name (so_ref (pe_state ev)) = pe_runId ev @ ''-state'') ''Parent config or state reference changed'')
      (bindA (liftA (zparse ''config'' runConfigSchema (content_of config_record))) (\<lambda>config.
       thenA (check_logs sv (ra_directory (rc_arguments config)) [] (pe_logs ev))
       (thenA (check_snapshot sv (pe_repository ev) (content_of config_record) ''Parent support snapshot changed'')
       (bindA (liftA (zparse ''state'' runStateSchema (content_of state_record))) (\<lambda>s.
        returnA \<lparr>op_evidence = ev, op_catalog = cat, op_stateChecksum = sw_checksum state_record,
          op_config = config, op_state = s\<rparr>)))))))))))))"

section \<open>The identity of the parent\<close>

definition chain_changed :: "(jsnum \<Rightarrow> string) \<Rightarrow> run_config \<Rightarrow> run_state \<Rightarrow> campaign \<Rightarrow> bool" where
  "chain_changed numstr config s p \<longleftrightarrow>
     (let a = rc_arguments config; q = rc_arguments (ca_config p) in
      ra_revision a \<noteq> ca_bestRevision p \<or>
      st_initialRevision s \<noteq> (case ca_initial p of Some m \<Rightarrow> me_revision m | None \<Rightarrow> st_initialRevision (ca_state p)) \<or>
      rc_startedAtMs config \<noteq> ca_startedAtMs p \<or>
      ra_repository a \<noteq> ra_repository q \<or>
      json_text numstr (enc_policy (ra_policy a)) \<noteq> json_text numstr (enc_policy (ra_policy q)) \<or>
      json_text numstr (enc_parameters (ra_parameters a)) \<noteq> json_text numstr (enc_parameters (ra_parameters q)) \<or>
      json_text numstr (enc_limits (ra_limits a)) \<noteq> json_text numstr (enc_limits (ra_limits q)) \<or>
      ra_experimentBrief a \<noteq> ra_experimentBrief q)"

definition identity_changed :: "(jsnum \<Rightarrow> string) \<Rightarrow> opened_parent \<Rightarrow> campaign option \<Rightarrow> bool" where
  "identity_changed numstr op preceding \<longleftrightarrow>
     (let ev = op_evidence op; a = rc_arguments (op_config op); s = op_state op in
      ra_runId a \<noteq> pe_runId ev \<or> st_runId s \<noteq> pe_runId ev \<or> pe_repository ev \<noteq> ra_supportDirectory a \<or>
      (case preceding of
         Some p \<Rightarrow> chain_changed numstr (op_config op) s p
       | None \<Rightarrow> ra_revision a \<noteq> st_initialRevision s))"

text \<open>A parent is done, or its active step was abandoned with an approved receipt.\<close>

definition interrupted_logs :: "string list \<Rightarrow> int \<Rightarrow> bool" where
  "interrupted_logs seen step \<longleftrightarrow> list_all (\<lambda>name. ''step-'' @ dec_int step @ ''/'' @ name \<in> set seen) pi_log_names"

definition check_receipt :: "('st, 'z) services_scheme \<Rightarrow> opened_parent \<Rightarrow> abandonment \<Rightarrow> int \<Rightarrow> ('st, unit) action" where
  "check_receipt sv op ab step =
     thenA (guardA (ab_receipt ab = join_path (ra_directory (rc_arguments (op_config op))) ''abandoned.json'')
       ''Abandonment receipt is outside the parent run'')
     (bindA (h_readFile (sv_host sv) (ab_receipt ab)) (\<lambda>bytes.
      thenA (guardA (cr_sha256 (sv_crypto sv) bytes = ab_receiptSha256 ab) ''Abandonment receipt changed'')
      (bindA (h_readFile (sv_host sv) (ab_receipt ab)) (\<lambda>text'.
       bindA (liftA (sv_json sv text')) (\<lambda>v.
       bindA (liftA (zparse ''receipt'' abandonmentSchema v)) (\<lambda>r.
       guardA (rc_runId r = pe_runId (op_evidence op) \<and> rc_step r = step \<and>
         rc_stateChecksum r = op_stateChecksum op) ''Abandonment receipt does not match the interrupted state''))))))"

definition check_terminal :: "('st, 'z) services_scheme \<Rightarrow> opened_parent \<Rightarrow> ('st, unit) action" where
  "check_terminal sv op =
     (let ev = op_evidence op; s = op_state op in
      case st_activeStep s of
        None \<Rightarrow> guardA (pe_abandoned ev = None \<and> st_phase s = PDone) ''Parent run is not terminal''
      | Some step \<Rightarrow> (case pe_abandoned ev of
          None \<Rightarrow> throwA (Error ''Active parent step needs verified abandonment, not replay'')
        | Some ab \<Rightarrow>
            thenA (guardA (step = ab_step ab \<and>
              map_of (op_catalog op) (pe_runId ev @ ''-step-'' @ dec_int step @ ''@1'') = None \<and>
              (inference_phase (st_phase s) \<longrightarrow> interrupted_logs (map lg_path (pe_logs ev)) step))
              ''Active parent step needs verified abandonment, not replay'')
            (check_receipt sv op ab step)))"

section \<open>The history of the parent\<close>

definition parent_step :: "catalog \<Rightarrow> string \<Rightarrow> int \<Rightarrow> step_record res" where
  "parent_step cat runId index =
     bindR (cat_get cat \<lparr>or_name = step_name runId index, or_version = 1\<rparr>) (\<lambda>r.
     bindR (zparse ''step'' stepResultSchema (content_of r)) (\<lambda>step.
     if sr_runId step \<noteq> runId \<or> sr_step step \<noteq> index then Inl (Error ''Parent step sequence is inconsistent'')
     else bindR (cat_all cat (sr_evidence step)) (\<lambda>_. Inr step)))"

definition last_completed :: "run_state \<Rightarrow> int" where
  "last_completed s = st_sequence s - (if st_activeStep s = None then 0 else 1)"

definition parent_steps :: "catalog \<Rightarrow> string \<Rightarrow> run_state \<Rightarrow> step_record list res" where
  "parent_steps cat runId s = mapR (parent_step cat runId) [1..last_completed s]"

definition reserved :: "(phase \<Rightarrow> bool) \<Rightarrow> int \<Rightarrow> step_record list \<Rightarrow> run_state \<Rightarrow> int" where
  "reserved P before steps s = before + int (length (filter (\<lambda>r. P (sr_phase r)) steps)) +
     (if st_activeStep s \<noteq> None \<and> P (st_phase s) then 1 else 0)"

definition attempts_before :: "campaign option \<Rightarrow> int" where
  "attempts_before preceding = (case preceding of None \<Rightarrow> 0 | Some p \<Rightarrow> ca_attemptsStarted p)"

definition piCalls_before :: "campaign option \<Rightarrow> int" where
  "piCalls_before preceding = (case preceding of None \<Rightarrow> 0 | Some p \<Rightarrow> ca_piCallsStarted p)"

definition counters_differ :: "limits \<Rightarrow> campaign option \<Rightarrow> step_record list \<Rightarrow> run_state \<Rightarrow> bool" where
  "counters_differ l preceding steps s \<longleftrightarrow>
     (let attempts = reserved (\<lambda>p. p = PStartAttempt) (attempts_before preceding) steps s;
          piCalls = reserved inference_phase (piCalls_before preceding) steps s in
      attempts \<noteq> st_attemptsStarted s \<or> piCalls \<noteq> st_piCallsStarted s \<or>
      maxAttempts l < attempts \<or> maxPiCalls l < piCalls)"

definition initial_ambiguous :: "step_record list \<Rightarrow> run_state \<Rightarrow> bool" where
  "initial_ambiguous steps s \<longleftrightarrow> (case steps of
     [] \<Rightarrow> st_activeStep s \<noteq> Some 1 \<or> st_phase s \<noteq> PPrepare \<or> st_bestRevision s \<noteq> st_initialRevision s
   | r # _ \<Rightarrow> sr_phase r \<noteq> PPrepare \<or> sr_outcome r \<noteq> Prepared)"

definition replay_start :: "opened_parent \<Rightarrow> campaign option \<Rightarrow> run_state res" where
  "replay_start op preceding =
     (let revision = ra_revision (rc_arguments (op_config op)) in
      bindR (newRun (pe_runId (op_evidence op)) revision) (\<lambda>s.
      Inr (s\<lparr>st_initialRevision := (case Option.bind preceding ca_initial of Some m \<Rightarrow> me_revision m | None \<Rightarrow> revision),
        st_bestRevision := revision, st_attemptsStarted := attempts_before preceding,
        st_piCallsStarted := piCalls_before preceding\<rparr>)))"

fun replay_steps :: "limits \<Rightarrow> string \<Rightarrow> int \<Rightarrow> int \<Rightarrow> run_state \<Rightarrow> step_record list \<Rightarrow> run_state res" where
  "replay_steps l runId last_step final s [] = Inr s"
| "replay_steps l runId last_step final s (r # rs) =
     bindR (begin_active s l (if sr_step r = last_step then final else st_elapsedMs s)) (\<lambda>active.
     if sr_step r \<noteq> st_sequence active \<or> sr_phase r \<noteq> st_phase active \<or> sr_revision r \<noteq> st_workingRevision active
     then Inl (Error ''Parent step does not follow the previous result'')
     else bindR (finishStep active (sr_step r) (sr_outcome r)
         \<lparr>or_name = step_name runId (sr_step r), or_version = 1\<rparr>)
       (\<lambda>s'. replay_steps l runId last_step final s' rs))"

definition replay_differs :: "run_state \<Rightarrow> step_record list \<Rightarrow> run_state \<Rightarrow> bool" where
  "replay_differs s steps replay \<longleftrightarrow>
     st_sequence s \<noteq> int (length steps) + (if st_activeStep s = None then 0 else 1) \<or>
     st_phase s \<noteq> st_phase replay \<or> st_workingRevision s \<noteq> st_workingRevision replay \<or>
     st_bestRevision s \<noteq> st_bestRevision replay \<or> st_targetMet s \<noteq> st_targetMet replay \<or>
     (st_activeStep s \<noteq> None \<and> st_phase replay = PDone)"

definition check_history :: "opened_parent \<Rightarrow> campaign option \<Rightarrow> step_record list res" where
  "check_history op preceding =
     (let s = op_state op; l = ra_limits (rc_arguments (op_config op)); runId = pe_runId (op_evidence op) in
      bindR (parent_steps (op_catalog op) runId s) (\<lambda>steps.
      if counters_differ l preceding steps s then Inl (Error ''Parent campaign reservations are inconsistent'')
      else if initial_ambiguous steps s
      then Inl (Error ''Parent initial tests did not pass or are still ambiguous'')
      else bindR (replay_start op preceding) (\<lambda>start.
        bindR (replay_steps l runId (int (length steps)) (st_elapsedMs s) start steps) (\<lambda>replay.
        if replay_differs s steps replay then Inl (Error ''Parent state does not follow saved step results'')
        else Inr steps))))"

section \<open>The measurements of the parent\<close>

text \<open>The store of the exported records, only read.\<close>

definition catalog_ops :: "catalog \<Rightarrow> unit store_ops" where
  "catalog_ops cat =
     \<lparr>so_write = \<lambda>_ _ _. throwA (Thrown ''read-only''),
      so_read = \<lambda>name version. liftA (bindR (cat_get cat \<lparr>or_name = name,
          or_version = (case version of None \<Rightarrow> 1 | Some v \<Rightarrow> v)\<rparr>)
        (\<lambda>r. bindR (zparse ''content'' z_record (content_of r)) (\<lambda>v. Inr (Some v))))\<rparr>"

definition find_named :: "string \<Rightarrow> output_ref list \<Rightarrow> output_ref option" where
  "find_named name = List.find (\<lambda>r. or_name r = name)"

definition comparison_policy :: "saved_comparison \<Rightarrow> run_policy" where
  "comparison_policy c = \<lparr>rp_goal = sc_goal c, rp_protections = sc_protections c,
     rp_minimumImprovementFraction = sc_minimumImprovementFraction c, rp_precision = sc_precision c\<rparr>"

definition parent_measurements_of :: "('st, 'z) services_scheme \<Rightarrow> opened_parent \<Rightarrow> step_record \<Rightarrow> string \<Rightarrow>
    (saved_comparison \<times> measurement) res" where
  "parent_measurements_of sv op step revision =
     (let cat = op_catalog op; runId = pe_runId (op_evidence op); p = ra_policy (rc_arguments (op_config op));
          ns = sv_numstr sv in
      case find_named (runId @ ''-comparison-'' @ dec_int (sr_step step)) (sr_evidence step) of
        None \<Rightarrow> Inl (Error ''Missing parent comparison'')
      | Some r \<Rightarrow> bindR (cat_get cat r) (\<lambda>x.
          bindR (zparse ''comparison'' comparisonSchema (content_of x)) (\<lambda>c.
          if sc_runId c \<noteq> runId \<or> sc_revision c \<noteq> revision \<or>
             json_text ns (enc_policy (comparison_policy c)) \<noteq> json_text ns (enc_policy p) \<or>
             sc_error c \<noteq> None \<or> map_option gr_status (sc_result c) \<noteq> Some Valid
          then Inl (Error ''Parent comparison policy or result changed'')
          else bindR (fst (readMeasurement (catalog_ops cat) (sv_math sv) ns runId revision (sc_current c)
              (rp_precision p) ())) (\<lambda>m. Inr (c, m)))))"

definition valid_baseline :: "step_record \<Rightarrow> bool" where
  "valid_baseline r \<longleftrightarrow> sr_phase r = PBaseline \<and> (case sr_outcome r of Measured _ valid _ _ _ \<Rightarrow> valid | _ \<Rightarrow> False)"

definition measured_again :: "('st, 'z) services_scheme \<Rightarrow> opened_parent \<Rightarrow> step_record list \<Rightarrow> measurement option res" where
  "measured_again sv op steps = (case List.find valid_baseline steps of
     None \<Rightarrow> Inr None
   | Some b \<Rightarrow> bindR (parent_measurements_of sv op b (sr_revision b)) (\<lambda>x. Inr (Some (snd x))))"

definition check_requalified :: "campaign option \<Rightarrow> run_state \<Rightarrow> measurement option \<Rightarrow> measurement option \<Rightarrow> unit res" where
  "check_requalified preceding s initial again =
     (case (Option.bind preceding ca_initial, again) of
        (Some m, Some q) \<Rightarrow> if me_protocolId q \<noteq> me_protocolId m \<or>
            map_option ca_bestRevision preceding \<noteq> Some (me_revision q)
          then Inl (Error ''Fresh best measurements are not comparable'') else Inr ()
      | (Some _, None) \<Rightarrow> if st_activeStep s = None then Inl (Error ''Restart has no best requalification'') else
          if initial = None \<and> st_bestRevision s \<noteq> st_initialRevision s
          then Inl (Error ''Parent has no verified initial baseline'') else Inr ()
      | (None, _) \<Rightarrow> if initial = None \<and> st_bestRevision s \<noteq> st_initialRevision s
          then Inl (Error ''Parent has no verified initial baseline'') else Inr ())"

definition kept_revision :: "step_record \<Rightarrow> string option" where
  "kept_revision r = (case (sr_phase r, sr_outcome r) of (PKeep, Kept v) \<Rightarrow> Some v | _ \<Rightarrow> None)"

definition best_of :: "campaign option \<Rightarrow> run_state \<Rightarrow> step_record list \<Rightarrow> string" where
  "best_of preceding s kept = (case Option.bind (if kept = [] then None else Some (last kept)) kept_revision of
     Some v \<Rightarrow> v
   | None \<Rightarrow> (case preceding of Some p \<Rightarrow> ca_bestRevision p | None \<Rightarrow> st_initialRevision s))"

section \<open>Tests, reviews and raw results\<close>

text \<open>The saved result of passed tests: run, step and revision, and its logs.\<close>

definition qaSchema :: "(string \<times> jsnum \<times> string \<times> output_ref list) schema" where
  "qaSchema = z_loose (\<lambda>o'. do {
     runId \<leftarrow> z_field o' ''runId'' z_string;
     step \<leftarrow> z_field o' ''step'' (z_number_if (\<lambda>_. True));
     revision \<leftarrow> z_field o' ''revision'' z_string;
     _ \<leftarrow> z_field o' ''command'' (z_literal ''bb'');
     _ \<leftarrow> z_field o' ''args'' (\<lambda>v. if v = JArr [JStr ''qa''] then Some () else None);
     _ \<leftarrow> z_field o' ''valid'' z_true;
     _ \<leftarrow> z_field o' ''passed'' z_true;
     _ \<leftarrow> z_field o' ''sourceUnchanged'' z_true;
     _ \<leftarrow> z_field o' ''exitCode'' (z_literal_int 0);
     artifacts \<leftarrow> z_field o' ''artifacts'' (z_array_if (\<lambda>xs. xs \<noteq> []) referenceSchema);
     Some (runId, step, revision, artifacts) })"

definition verifiedTests :: "opened_parent \<Rightarrow> step_record \<Rightarrow> unit res" where
  "verifiedTests op step =
     (let cat = op_catalog op; runId = pe_runId (op_evidence op) in
      case find_named (runId @ ''-test-'' @ dec_int (sr_step step) @ ''-result'') (sr_evidence step) of
        None \<Rightarrow> Inl (Error ''Missing saved QA result'')
      | Some r \<Rightarrow> bindR (cat_get cat r) (\<lambda>x.
          bindR (zparse ''execution'' qaSchema (content_of x)) (\<lambda>(id, n, revision, artifacts).
          if id \<noteq> runId \<or> n \<noteq> Fin (of_int (sr_step step)) \<or> revision \<noteq> sr_revision step
          then Inl (Error ''QA result identity changed'')
          else cat_all cat artifacts)))"

definition review_resultSchema :: "(string \<times> jsnum \<times> string \<times> output_ref list \<times> output_ref list) schema" where
  "review_resultSchema = z_loose (\<lambda>o'. do {
     runId \<leftarrow> z_field o' ''runId'' z_string;
     step \<leftarrow> z_field o' ''step'' (z_number_if (\<lambda>_. True));
     _ \<leftarrow> z_field o' ''stage'' (z_literal ''review'');
     revision \<leftarrow> z_field o' ''revision'' z_string;
     _ \<leftarrow> z_field o' ''status'' (z_literal ''valid'');
     inputs \<leftarrow> z_field o' ''inputs'' (z_array referenceSchema);
     evidence \<leftarrow> z_field o' ''result'' (z_loose (\<lambda>r. do {
       _ \<leftarrow> z_field r ''verdict'' (z_literal ''pass'');
       z_field r ''evidence'' (z_array referenceSchema) }));
     Some (runId, step, revision, inputs, evidence) })"

definition verified_review :: "opened_parent \<Rightarrow> step_record \<Rightarrow> string \<Rightarrow> step_record \<Rightarrow> step_record \<Rightarrow> unit res" where
  "verified_review op reviewed revision tests measured =
     (let cat = op_catalog op; runId = pe_runId (op_evidence op);
          needed_names = [runId @ ''-test-'' @ dec_int (sr_step tests) @ ''-result'',
            runId @ ''-comparison-'' @ dec_int (sr_step measured)] in
      case find_named (runId @ ''-pi-'' @ dec_int (sr_step reviewed) @ ''-result'') (sr_evidence reviewed) of
        None \<Rightarrow> Inl (Error ''Parent review has no saved Pi result'')
      | Some r \<Rightarrow> bindR (cat_get cat r) (\<lambda>x.
          bindR (zparse ''review'' review_resultSchema (content_of x)) (\<lambda>(id, n, v, inputs, evidence).
          if id \<noteq> runId \<or> n \<noteq> Fin (of_int (sr_step reviewed)) \<or> v \<noteq> revision \<or>
             list_ex (\<lambda>name. find_named name inputs = None \<or> find_named name evidence = None) needed_names
          then Inl (Error ''Parent review did not inspect the tested measurement'')
          else cat_all cat inputs)))"

text \<open>The typed policy of the configuration has passed the same schema, so its fields are used.\<close>

definition verifyAcceptedComparison :: "(jsnum \<Rightarrow> string) \<Rightarrow> run_policy \<Rightarrow> measurement \<Rightarrow> measurement \<Rightarrow> measurement \<Rightarrow>
    candidate_result option \<Rightarrow> outcome \<Rightarrow> unit res" where
  "verifyAcceptedComparison numstr p initial best current saved oc =
     (let assessed = assessCandidate (rp_goal p) (rp_protections p) initial best current
            (rp_minimumImprovementFraction p);
          differs = Inl (Error ''Parent accepted comparison differs from verified scores'') in
      if gr_status assessed \<noteq> Valid \<or> cr_improved assessed \<noteq> Some True then differs
      else bindR (zparse ''result'' (z_nullable resultSchema) (j_nullable enc_result saved)) (\<lambda>x.
        bindR (zparse ''result'' (z_nullable resultSchema) (enc_result assessed)) (\<lambda>y.
        if json_text numstr (j_nullable enc_result x) \<noteq> json_text numstr (j_nullable enc_result y) then differs
        else (case oc of
          Measured _ valid _ targetMet improved \<Rightarrow>
            if \<not> valid \<or> \<not> improved \<or> targetMet \<noteq> (gr_targetMet assessed = Some True) then differs else Inr ()
        | _ \<Rightarrow> Inl (Error ''Parent accepted comparison lacks a measurement result'')))))"

section \<open>The best revision of the parent\<close>

definition h1_rate :: "measurement \<Rightarrow> jsnum option" where
  "h1_rate m = map_option sc_requestsPerSecond
     (List.find (\<lambda>c. sc_workload c = ''h1'' \<and> sc_adapter c = busker) (me_scores m))"

definition repeatability :: jsnum where
  "repeatability = fl64 (5 / 100)"

definition repeatable :: "jsnum \<Rightarrow> jsnum \<Rightarrow> bool" where
  "repeatable old fresh \<longleftrightarrow> \<not> js_lt repeatability (js_div (js_abs (js_sub fresh old)) old)"

text \<open>
  After a restart the best revision was measured again: the higher of the two H1 rates counts, when
  they are repeatable and the protections still hold.
\<close>

definition restart_best :: "run_policy \<Rightarrow> campaign option \<Rightarrow> measurement option \<Rightarrow> measurement option \<Rightarrow> measurement option res" where
  "restart_best p preceding again best =
     (case (Option.bind preceding ca_initial, Option.bind preceding ca_best, again) of
        (Some i, Some old, Some fresh) \<Rightarrow>
          (let assessment = assessCandidate (rp_goal p) (rp_protections p) i old fresh (rp_minimumImprovementFraction p) in
           if me_nativeSha256 old \<noteq> me_nativeSha256 fresh
           then Inl (Error ''Best revision native bytes differ after restart'')
           else if gr_status assessment \<noteq> Valid \<or> cr_protectedPerformance assessment \<noteq> Some True
           then Inl (Error ''Requalified best is incompatible or fails original H2 floor'')
           else (case (h1_rate old, h1_rate fresh) of
             (Some x, Some y) \<Rightarrow>
               if \<not> repeatable x y then Inl (Error ''Requalified best H1 differs beyond allowed repeatability'')
               else Inr (if js_lt x y then Some fresh else best)
           | _ \<Rightarrow> Inl (Error ''Requalified best H1 differs beyond allowed repeatability'')))
      | _ \<Rightarrow> Inr best)"

definition passed_tests :: "string \<Rightarrow> step_record \<Rightarrow> bool" where
  "passed_tests revision r \<longleftrightarrow> sr_phase r = PTest \<and> sr_outcome r = Tested revision True"

definition valid_measure :: "string \<Rightarrow> step_record \<Rightarrow> bool" where
  "valid_measure revision r \<longleftrightarrow> sr_phase r = PMeasure \<and>
     (case sr_outcome r of Measured v valid _ _ _ \<Rightarrow> valid \<and> v = revision | _ \<Rightarrow> False)"

definition passed_review :: "string \<Rightarrow> step_record \<Rightarrow> bool" where
  "passed_review revision r \<longleftrightarrow> sr_phase r = PReview \<and> sr_outcome r = Reviewed revision True"

definition find_last :: "('a \<Rightarrow> bool) \<Rightarrow> 'a list \<Rightarrow> 'a option" where
  "find_last P xs = List.find P (rev xs)"

definition provenance_changed :: "campaign option \<Rightarrow> saved_comparison \<Rightarrow> bool" where
  "provenance_changed preceding c \<longleftrightarrow> (case preceding of
     Some p \<Rightarrow> sc_parent c \<noteq> Some \<lparr>pi_runId = ca_sourceRunId p, pi_sha256 = ca_sourceDigest p\<rparr>
   | None \<Rightarrow> sc_parent c \<noteq> None)"

text \<open>One kept revision: the evidence for it between the keep before and this one.\<close>

definition accept_kept :: "('st, 'z) services_scheme \<Rightarrow> opened_parent \<Rightarrow> campaign option \<Rightarrow> step_record list \<Rightarrow>
    measurement option \<Rightarrow> int \<times> measurement option \<Rightarrow> step_record \<Rightarrow> (int \<times> measurement option) res" where
  "accept_kept sv op preceding steps initial state accepted =
     (case (kept_revision accepted, initial, snd state) of
        (Some revision, Some i, Some best) \<Rightarrow>
          (let before = filter (\<lambda>r. fst state < sr_step r \<and> sr_step r < sr_step accepted) steps in
           case (find_last (passed_tests revision) before, find_last (valid_measure revision) before,
               find_last (passed_review revision) before) of
             (Some tests, Some measured, Some reviewed) \<Rightarrow>
               if \<not> (sr_step tests < sr_step measured \<and> sr_step measured < sr_step reviewed \<and>
                   sr_step reviewed < sr_step accepted)
               then Inl (Error ''Parent best lacks passing tests, measurement, review and keep'')
               else bindR (verifiedTests op tests) (\<lambda>_.
                 bindR (verified_review op reviewed revision tests measured) (\<lambda>_.
                 bindR (parent_measurements_of sv op measured revision) (\<lambda>(c, m).
                 bindR (verifyAcceptedComparison (sv_numstr sv) (ra_policy (rc_arguments (op_config op)))
                   i best m (sc_result c) (sr_outcome measured)) (\<lambda>_.
                 if provenance_changed preceding c
                 then Inl (Error ''Parent accepted comparison provenance changed'')
                 else Inr (sr_step accepted, Some m)))))
           | _ \<Rightarrow> Inl (Error ''Parent best lacks passing tests, measurement, review and keep''))
      | _ \<Rightarrow> Inl (Error ''Parent best lacks a verified comparison''))"

fun foldRes :: "('a \<Rightarrow> 'b \<Rightarrow> 'a res) \<Rightarrow> 'a \<Rightarrow> 'b list \<Rightarrow> 'a res" where
  "foldRes f x [] = Inr x"
| "foldRes f x (y # ys) = bindR (f x y) (\<lambda>x'. foldRes f x' ys)"

section \<open>The raw results\<close>

record raw_benchmark =
  rw_revision :: string
  rw_nativeSha256 :: string
  rw_protocol :: protocol
  rw_adapter :: adapter
  rw_parameters :: parameters
  rw_batches :: "jsnum list list"
  rw_files :: "(string \<times> output_ref) list"

definition rawBenchmarkSchema :: "raw_benchmark schema" where
  "rawBenchmarkSchema = z_loose (\<lambda>o'. do {
     _ \<leftarrow> z_field o' ''purpose'' (z_literal ''measurement'');
     revision \<leftarrow> z_field o' ''revision'' z_string;
     sha \<leftarrow> z_field o' ''nativeSha256'' sha256Schema;
     protocol \<leftarrow> z_field o' ''protocol'' protocolSchema;
     adapter \<leftarrow> z_field o' ''adapter'' adapterSchema;
     parameters \<leftarrow> z_field o' ''summary'' (z_loose (\<lambda>p. z_field p ''parameters'' benchmarkParametersSchema));
     batches \<leftarrow> z_field o' ''batches'' (z_array_if (\<lambda>bs. length bs = 1 \<or> length bs = 2)
       (z_loose (\<lambda>p. z_field p ''samples'' (z_array z_number))));
     files \<leftarrow> z_field o' ''files'' (z_array (z_loose (\<lambda>p. do {
       path \<leftarrow> z_field p ''path'' z_string;
       reference \<leftarrow> z_field p ''reference'' referenceSchema;
       Some (path, reference) })));
     Some \<lparr>rw_revision = revision, rw_nativeSha256 = sha, rw_protocol = protocol, rw_adapter = adapter,
       rw_parameters = parameters, rw_batches = batches, rw_files = files\<rparr> })"

definition rawEnvironmentSchema :: "(string \<times> string \<times> string) schema" where
  "rawEnvironmentSchema = z_loose (\<lambda>o'. z_field o' ''environment'' (z_loose (\<lambda>p. do {
     checkout \<leftarrow> z_field p ''busker-checkout'' z_string;
     native \<leftarrow> z_field p ''native-resource'' z_string;
     source \<leftarrow> z_field p ''busker-resource'' z_string;
     Some (checkout, native, source) })))"

definition href :: "('st, 'z) services_scheme \<Rightarrow> string \<Rightarrow> string res" where
  "href sv s = (case sv_url sv s of None \<Rightarrow> Inl (Named ''TypeError'' s) | Some t \<Rightarrow> Inr t)"

definition js_numbers :: "(jsnum \<Rightarrow> string) \<Rightarrow> jsnum list \<Rightarrow> string" where
  "js_numbers numstr xs = json_text numstr (JArr (map JNum xs))"

definition verify_batch :: "('st, 'z) services_scheme \<Rightarrow> catalog \<Rightarrow> raw_benchmark \<Rightarrow> nat \<times> jsnum list \<Rightarrow> unit res" where
  "verify_batch sv cat b batch =
     (case map_of (rw_files b) (dec_nat (fst batch + 1) @ ''/results.json'') of
        None \<Rightarrow> Inl (Error ''Missing parent raw benchmark results'')
      | Some r \<Rightarrow> bindR (cat_get cat r) (\<lambda>x.
          bindR (zparse ''raw'' z_string (content_of x)) (\<lambda>raw.
          bindR (sv_json sv raw) (\<lambda>report.
          bindR (zparse ''environment'' rawEnvironmentSchema report) (\<lambda>(checkout, native, source).
          bindR (href sv native) (\<lambda>nativeResource.
          bindR (href sv source) (\<lambda>sourceResource.
          bindR (validateBenchmark (sv_url sv) report
            \<lparr>ex_checkout = checkout, ex_revision = rw_revision b, ex_nativeSha256 = rw_nativeSha256 b,
             ex_nativeResource = nativeResource, ex_sourceResource = sourceResource,
             ex_protocol = rw_protocol b, ex_adapter = rw_adapter b, ex_purpose = MeasurementPurpose,
             ex_parameters = rw_parameters b\<rparr>) (\<lambda>checked.
          if js_numbers (sv_numstr sv) (bs_samples checked) \<noteq> js_numbers (sv_numstr sv) (snd batch)
          then Inl (Error ''Parent raw benchmark samples differ from saved result'')
          else Inr ()))))))))"

text \<open>
  \<^verbatim>\<open>/^(.+)@([1-9][0-9]*)$/\<close>: the greedy name ends at the last at sign. A version beyond the safe
  integers, which \<^verbatim>\<open>Number\<close> would round, is refused by the schema of references in both cases.
\<close>

definition parse_label :: "string \<Rightarrow> output_ref option" where
  "parse_label label = (case last_index_of (CHR ''@'') label of
     None \<Rightarrow> None
   | Some i \<Rightarrow> (let name = take i label; digits = drop (Suc i) label in
       if name \<noteq> [] \<and> LF \<notin> set name \<and> CR \<notin> set name \<and> digits \<noteq> [] \<and> list_all is_digit digits \<and>
          hd digits \<noteq> CHR ''0''
       then Some \<lparr>or_name = name, or_version = int (digits_value digits)\<rparr> else None))"

definition verify_label :: "('st, 'z) services_scheme \<Rightarrow> catalog \<Rightarrow> string \<Rightarrow> unit res" where
  "verify_label sv cat label = (case parse_label label of
     None \<Rightarrow> Inl (Error ''Invalid parent benchmark reference'')
   | Some r \<Rightarrow> bindR (cat_get cat r) (\<lambda>x.
       bindR (zparse ''benchmark'' rawBenchmarkSchema (content_of x)) (\<lambda>b.
       each (verify_batch sv cat b) (zip [0..<length (rw_batches b)] (rw_batches b)))))"

definition verify_raw :: "('st, 'z) services_scheme \<Rightarrow> opened_parent \<Rightarrow> measurement option \<Rightarrow> unit res" where
  "verify_raw sv op item = (case item of
     None \<Rightarrow> Inr ()
   | Some m \<Rightarrow> (let labels = js_split (CHR '','') (me_id m) in
       if \<not> list_ex (starts_with (pe_runId (op_evidence op) @ ''-'')) labels then Inr ()
       else each (verify_label sv (op_catalog op)) labels))"

section \<open>Verifying a parent\<close>

definition settle_best :: "('st, 'z) services_scheme \<Rightarrow> opened_parent \<Rightarrow> campaign option \<Rightarrow> step_record list \<Rightarrow>
    (measurement option \<times> measurement option \<times> string) res" where
  "settle_best sv op preceding steps =
     (let s = op_state op; kept = filter (\<lambda>r. kept_revision r \<noteq> None) steps; p = ra_policy (rc_arguments (op_config op)) in
      bindR (measured_again sv op steps) (\<lambda>again.
      let initial = (case Option.bind preceding ca_initial of Some m \<Rightarrow> Some m | None \<Rightarrow> again) in
      bindR (check_requalified preceding s initial again) (\<lambda>_.
      if st_bestRevision s \<noteq> best_of preceding s kept then Inl (Error ''Parent best is not a kept revision'')
      else bindR (case steps of [] \<Rightarrow> Inr () | r # _ \<Rightarrow> verifiedTests op r) (\<lambda>_.
        bindR (restart_best p preceding again
          (case Option.bind preceding ca_best of Some m \<Rightarrow> Some m | None \<Rightarrow> initial)) (\<lambda>best0.
        bindR (foldRes (accept_kept sv op preceding steps initial) (0, best0) kept) (\<lambda>(_, best).
        bindR (each (verify_raw sv op) [initial, best, again]) (\<lambda>_.
        Inr (initial, best, best_of preceding s kept))))))))"

definition settle_parent :: "('st, 'z) services_scheme \<Rightarrow> string \<Rightarrow> opened_parent \<Rightarrow> campaign option \<Rightarrow> ('st, campaign) action" where
  "settle_parent sv digest op preceding =
     thenA (guardA (\<not> identity_changed (sv_numstr sv) op preceding) ''Parent run identity changed'')
     (thenA (check_terminal sv op)
     (bindA (liftA (check_history op preceding)) (\<lambda>steps.
      bindA (liftA (settle_best sv op preceding steps)) (\<lambda>(initial, best, bestRevision).
      returnA \<lparr>ca_config = op_config op, ca_state = op_state op, ca_initial = initial, ca_best = best,
        ca_bestRevision = bestRevision, ca_startedAtMs = rc_startedAtMs (op_config op),
        ca_attemptsStarted = reserved (\<lambda>p. p = PStartAttempt) (attempts_before preceding) steps (op_state op),
        ca_piCallsStarted = reserved inference_phase (piCalls_before preceding) steps (op_state op),
        ca_sourceRunId = pe_runId (op_evidence op), ca_sourceDigest = digest\<rparr>))))"

text \<open>The chain of parents is followed by recursion; it is bounded at 4096 bundles.\<close>

fun verify_chain :: "('st, 'z) services_scheme \<Rightarrow> nat \<Rightarrow> string list \<Rightarrow> parent_bundle \<Rightarrow> ('st, campaign) action" where
  "verify_chain sv 0 visited b = throwA (Named ''RangeError'' (pb_path b))"
| "verify_chain sv (Suc depth) visited b =
     thenA (exact_bundle (sv_host sv) (pb_path b) (pb_sha256 b))
     (thenA (guardA (pb_path b \<notin> set visited) ''Parent evidence cycle'')
     (bindA (open_parent sv (pb_path b) (pb_sha256 b)) (\<lambda>op.
      bindA (case ra_parentEvidence (rc_arguments (op_config op)) of
          None \<Rightarrow> returnA None
        | Some p \<Rightarrow> bindA (verify_chain sv depth (pb_path b # visited) p) (\<lambda>c. returnA (Some c)))
        (\<lambda>preceding. settle_parent sv (pb_sha256 b) op preceding))))"

definition verifyParentEvidence :: "('st, 'z) services_scheme \<Rightarrow> parent_bundle \<Rightarrow> ('st, campaign) action" where
  "verifyParentEvidence sv b = verify_chain sv 4096 [] b"

end
