(* ===== verification/Campaign_Facts.thy ===== *)
theory Campaign_Facts
  imports Campaign Run_Lifecycle
begin

text \<open>
  Reading a successful verification backwards: the replayed steps are a trace of the state machine,
  the catalog holds records that match their checksums, and each kept revision has its evidence.
\<close>

section \<open>The replay is a run\<close>

lemma replay_trace:
  assumes "replay_steps l n k final s rs = Inr s'" "run_trace l s0 tr s"
  shows "run_trace l s0 (tr @ map (\<lambda>r. (sr_phase r, sr_outcome r)) rs) s'"
  using assms
proof (induction rs arbitrary: s tr)
  case (Cons r rs)
  let ?e = "if sr_step r = k then final else st_elapsedMs s"
  from Cons.prems(1) obtain a s1 where a: "begin_active s l ?e = Inr a"
      "sr_step r = st_sequence a" "sr_phase r = st_phase a"
      "finishStep a (st_sequence a) (sr_outcome r) \<lparr>or_name = step_name n (sr_step r), or_version = 1\<rparr> = Inr s1"
      "replay_steps l n k final s1 rs = Inr s'"
    by (auto simp: bindR_eq_Inr split: if_splits)
  from Cons.IH [OF a(5) run_trace.step [OF Cons.prems(2) a(1,4)]] show ?case by (simp add: a(3))
qed simp

text \<open>
  Saved records that are such a run: each one names the run, and was recorded for the step the state
  machine reserved next, at the phase and the working revision it had there, and its outcome finishes
  that step.
\<close>

inductive recorded_run :: "limits \<Rightarrow> string \<Rightarrow> run_state \<Rightarrow> step_record list \<Rightarrow> run_state \<Rightarrow> bool"
  for l :: limits and n :: string where
  nothing_left: "recorded_run l n s [] s"
| recorded: "recorded_run l n s (r # rs) s'"
    if "begin_active s l e = Inr a" "sr_runId r = n" "sr_step r = st_sequence a" "sr_phase r = st_phase a"
      "sr_revision r = st_workingRevision a"
      "finishStep a (st_sequence a) (sr_outcome r) \<lparr>or_name = step_name n (sr_step r), or_version = 1\<rparr> = Inr s1"
      "recorded_run l n s1 rs s'"

lemma replay_recorded:
  assumes "replay_steps l n k final s rs = Inr s'" "\<forall>r \<in> set rs. sr_runId r = n"
  shows "recorded_run l n s rs s'"
  using assms
proof (induction rs arbitrary: s)
  case (Cons r rs)
  let ?e = "if sr_step r = k then final else st_elapsedMs s"
  from Cons.prems(1) obtain a s1 where a: "begin_active s l ?e = Inr a"
      "sr_step r = st_sequence a" "sr_phase r = st_phase a" "sr_revision r = st_workingRevision a"
      "finishStep a (st_sequence a) (sr_outcome r) \<lparr>or_name = step_name n (sr_step r), or_version = 1\<rparr> = Inr s1"
      "replay_steps l n k final s1 rs = Inr s'"
    by (auto simp: bindR_eq_Inr split: if_splits)
  with Cons.IH [OF a(6)] Cons.prems(2) show ?case by (intro recorded [OF a(1)]) simp_all
qed (simp add: nothing_left)

lemma count_of_steps:
  "count_steps P (map (\<lambda>r. (sr_phase r, sr_outcome r)) rs) = int (length (filter (\<lambda>r. P (sr_phase r)) rs))"
  by (induction rs) (simp_all add: count_steps_def)

lemma replay_start_Inr:
  assumes "replay_start op preceding = Inr s"
  shows "fresh_run s" "st_bestRevision s = ra_revision (rc_arguments (op_config op))"
    "st_attemptsStarted s = attempts_before preceding" "st_piCallsStarted s = piCalls_before preceding"
    "st_sequence s = 0" "st_activeStep s = None"
proof -
  obtain s0 where n: "newRun (pe_runId (op_evidence op)) (ra_revision (rc_arguments (op_config op))) = Inr s0"
    using assms by (auto simp: replay_start_def Let_def bindR_eq_Inr)
  then have "fresh_run s0" "st_workingRevision s0 = ra_revision (rc_arguments (op_config op))"
    by (simp_all add: newRun_fresh) (auto simp: newRun_def split: if_splits)
  then show "fresh_run s" "st_bestRevision s = ra_revision (rc_arguments (op_config op))"
    "st_attemptsStarted s = attempts_before preceding" "st_piCallsStarted s = piCalls_before preceding"
    "st_sequence s = 0" "st_activeStep s = None"
    using assms by (auto simp: replay_start_def Let_def n fresh_run_def bindR_def)
qed

lemma check_history_Inr:
  assumes "check_history op preceding = Inr steps"
  obtains s0 s' where "parent_steps (op_catalog op) (pe_runId (op_evidence op)) (op_state op) = Inr steps"
    "\<not> counters_differ (ra_limits (rc_arguments (op_config op))) preceding steps (op_state op)"
    "\<not> initial_ambiguous steps (op_state op)" "replay_start op preceding = Inr s0"
    "run_trace (ra_limits (rc_arguments (op_config op))) s0 (map (\<lambda>r. (sr_phase r, sr_outcome r)) steps) s'"
    "\<not> replay_differs (op_state op) steps s'"
    "replay_steps (ra_limits (rc_arguments (op_config op))) (pe_runId (op_evidence op)) (int (length steps))
       (st_elapsedMs (op_state op)) s0 steps = Inr s'"
proof -
  let ?l = "ra_limits (rc_arguments (op_config op))"
  from assms obtain s0 s' where h: "parent_steps (op_catalog op) (pe_runId (op_evidence op)) (op_state op) = Inr steps"
    "\<not> counters_differ ?l preceding steps (op_state op)" "\<not> initial_ambiguous steps (op_state op)"
    "replay_start op preceding = Inr s0" "\<not> replay_differs (op_state op) steps s'"
    and r: "replay_steps ?l (pe_runId (op_evidence op)) (int (length steps)) (st_elapsedMs (op_state op)) s0 steps = Inr s'"
    by (auto simp: check_history_def Let_def bindR_eq_Inr split: if_splits)
  have "run_trace ?l s0 ([] @ map (\<lambda>r. (sr_phase r, sr_outcome r)) steps) s'"
    by (rule replay_trace [OF r]) (rule run_trace.start)
  with h r that show ?thesis by simp
qed

section \<open>What is settled\<close>

lemma settle_parent_Inr:
  assumes "settle_parent sv digest op preceding st = (Inr c, st')"
  obtains st1 st2 steps initial best where "\<not> identity_changed (sv_numstr sv) op preceding"
    "check_terminal sv op st1 = (Inr (), st2)" "check_history op preceding = Inr steps"
    "settle_best sv op preceding steps = Inr (initial, best, ca_bestRevision c)"
    "ca_config c = op_config op" "ca_state c = op_state op" "ca_initial c = initial" "ca_best c = best"
    "ca_startedAtMs c = rc_startedAtMs (op_config op)"
    "ca_attemptsStarted c = reserved (\<lambda>p. p = PStartAttempt) (attempts_before preceding) steps (op_state op)"
    "ca_piCallsStarted c = reserved inference_phase (piCalls_before preceding) steps (op_state op)"
    "ca_sourceRunId c = pe_runId (op_evidence op)"
  using assms by (auto simp: settle_parent_def run_simps split: prod.splits)

text \<open>The parent before, verified in the same way, or none.\<close>

definition verified_before :: "('st, 'z) services_scheme \<Rightarrow> parent_bundle option \<Rightarrow> campaign option \<Rightarrow> bool" where
  "verified_before sv p preceding \<longleftrightarrow> (case p of
     None \<Rightarrow> preceding = None
   | Some b \<Rightarrow> \<exists>depth visited c st st'. verify_chain sv depth visited b st = (Inr c, st') \<and> preceding = Some c)"

lemma verify_chain_Inr:
  assumes "verify_chain sv depth visited b st = (Inr c, st')"
  obtains op preceding st1 st2 st3 where "open_parent sv (pb_path b) (pb_sha256 b) st1 = (Inr op, st2)"
    "settle_parent sv (pb_sha256 b) op preceding st3 = (Inr c, st')"
    "verified_before sv (ra_parentEvidence (rc_arguments (op_config op))) preceding"
proof (cases depth)
  case 0
  with assms show ?thesis by (simp add: run_simps)
next
  case (Suc d)
  with assms obtain op preceding st1 st2 st3 where o: "open_parent sv (pb_path b) (pb_sha256 b) st1 = (Inr op, st2)"
    and p: "(case ra_parentEvidence (rc_arguments (op_config op)) of
          None \<Rightarrow> returnA None
        | Some p \<Rightarrow> bindA (verify_chain sv d (pb_path b # visited) p) (\<lambda>c. returnA (Some c))) st2 = (Inr preceding, st3)"
    and s: "settle_parent sv (pb_sha256 b) op preceding st3 = (Inr c, st')"
    by (auto simp: run_simps simp del: case_option_run)
  have "verified_before sv (ra_parentEvidence (rc_arguments (op_config op))) preceding"
  proof (cases "ra_parentEvidence (rc_arguments (op_config op))")
    case None
    with p show ?thesis by (simp add: verified_before_def run_simps)
  next
    case (Some q)
    with p obtain c0 where "verify_chain sv d (pb_path b # visited) q st2 = (Inr c0, st3)" "preceding = Some c0"
      by (auto simp: bindA_Inr' returnA_Inr simp del: verify_chain.simps)
    then show ?thesis unfolding verified_before_def Some option.case by blast
  qed
  then show ?thesis by (rule that [OF o s])
qed

lemma check_terminal_done: "check_terminal sv op st = (Inr (), st') \<Longrightarrow> st_activeStep (op_state op) = None \<Longrightarrow>
    st_phase (op_state op) = PDone"
  by (simp add: check_terminal_def run_simps)

text \<open>The steps read from the catalog are numbered from one and name only exported records.\<close>

lemma cat_get_Inr: "cat_get cat r = Inr x \<longleftrightarrow> map_of cat (ref_label r) = Some x"
  by (simp add: cat_get_def split: option.split)

lemma cat_all_Inr: "cat_all cat rs = Inr u \<longleftrightarrow> (\<forall>r \<in> set rs. \<exists>x. map_of cat (ref_label r) = Some x)"
  by (auto simp: cat_all_def each_Inr bindR_eq_Inr cat_get_Inr)

lemma parent_step_Inr:
  assumes "parent_step cat n i = Inr r"
  shows "sr_runId r = n" "sr_step r = i" "\<forall>x \<in> set (sr_evidence r). \<exists>y. map_of cat (ref_label x) = Some y"
    "\<exists>y. map_of cat (ref_label \<lparr>or_name = step_name n i, or_version = 1\<rparr>) = Some y \<and>
      stepResultSchema (content_of y) = Some r"
proof -
  from assms obtain y step where y: "map_of cat (ref_label \<lparr>or_name = step_name n i, or_version = 1\<rparr>) = Some y"
    and step: "stepResultSchema (content_of y) = Some step"
    and rest: "(if sr_runId step \<noteq> n \<or> sr_step step \<noteq> i then Inl (Error ''Parent step sequence is inconsistent'')
     else bindR (cat_all cat (sr_evidence step)) (\<lambda>_. Inr step)) = Inr r"
    unfolding parent_step_def by (auto simp only: bindR_eq_Inr cat_get_Inr zparse_Inr)
  have "step = r" using rest by (auto simp: bindR_eq_Inr split: if_splits)
  with y step rest show "sr_runId r = n" "sr_step r = i"
    "\<forall>x \<in> set (sr_evidence r). \<exists>y. map_of cat (ref_label x) = Some y"
    "\<exists>y. map_of cat (ref_label \<lparr>or_name = step_name n i, or_version = 1\<rparr>) = Some y \<and>
      stepResultSchema (content_of y) = Some r"
    by (simp_all add: bindR_eq_Inr cat_all_Inr split: if_splits)
qed

lemma parent_steps_Inr:
  assumes "parent_steps cat n s = Inr steps" "r \<in> set steps"
  obtains i where "parent_step cat n i = Inr r"
proof -
  from assms(1) have l: "list_all2 (\<lambda>i y. parent_step cat n i = Inr y) [1..last_completed s] steps"
    by (simp add: parent_steps_def mapR_eq_Inr)
  from assms(2) obtain j where "r = steps ! j" "j < length steps" by (auto simp: in_set_conv_nth)
  with list_all2_nthD2 [OF l] have "parent_step cat n ([1..last_completed s] ! j) = Inr r" by blast
  with that show ?thesis .
qed

lemma parent_steps_numbered:
  assumes "parent_steps cat n s = Inr steps"
  shows "map sr_step steps = [1..last_completed s]"
proof -
  have l: "list_all2 (\<lambda>i y. parent_step cat n i = Inr y) [1..last_completed s] steps"
    using assms by (simp add: parent_steps_def mapR_eq_Inr)
  show ?thesis
    using list_all2_lengthD [OF l] list_all2_nthD [OF l] parent_step_Inr(2) by (intro nth_equalityI) (simp, force)
qed

text \<open>Every record of a catalog has bytes with its checksum.\<close>

definition catalog_sound :: "(jsnum \<Rightarrow> string) \<Rightarrow> crypto \<Rightarrow> catalog \<Rightarrow> bool" where
  "catalog_sound numstr cr cat \<longleftrightarrow> (\<forall>(key, r) \<in> set cat. key = ref_label (record_ref r) \<and>
     (\<exists>bytes. contentBytes numstr cr r = Inr bytes \<and> cr_sha256 cr bytes = sw_checksum r))"

lemma catalog_records_sound: "catalog_records numstr cr cat rs = Inr cat' \<Longrightarrow> catalog_sound numstr cr cat \<Longrightarrow>
    catalog_sound numstr cr cat'"
proof (induction rs arbitrary: cat)
  case (Cons r rs)
  let ?key = "ref_label (record_ref r)"
  from Cons.prems(1) obtain bytes where b: "contentBytes numstr cr r = Inr bytes" "cr_sha256 cr bytes = sw_checksum r"
      "catalog_records numstr cr (cat @ [(?key, r)]) rs = Inr cat'"
    by (auto simp: bindR_eq_Inr Let_def split: if_splits)
  have "catalog_sound numstr cr (cat @ [(?key, r)])"
    using Cons.prems(2) b(1,2) unfolding catalog_sound_def by simp
  from Cons.IH [OF b(3) this] show ?case .
qed simp

lemma open_parent_sound:
  assumes "open_parent sv path digest st = (Inr op, st')"
  shows "catalog_sound (sv_numstr sv) (sv_crypto sv) (op_catalog op)"
proof -
  from assms have "catalog_of (sv_numstr sv) (sv_crypto sv) (op_evidence op) = Inr (op_catalog op)"
    by (auto simp: open_parent_def run_simps)
  then have "catalog_records (sv_numstr sv) (sv_crypto sv) [] (pe_records (op_evidence op)) = Inr (op_catalog op)"
    by (auto simp: catalog_of_def bindR_eq_Inr split: if_splits)
  then show ?thesis by (rule catalog_records_sound) (simp add: catalog_sound_def)
qed

section \<open>The run behind a settled parent\<close>

lemma settle_best_Inr:
  assumes "settle_best sv op preceding steps = Inr (initial, best, revision)"
  obtains again best0 k where "st_bestRevision (op_state op) = revision"
    "revision = best_of preceding (op_state op) (filter (\<lambda>r. kept_revision r \<noteq> None) steps)"
    "foldRes (accept_kept sv op preceding steps initial) (0, best0) (filter (\<lambda>r. kept_revision r \<noteq> None) steps) = Inr (k, best)"
    "\<And>m. m \<in> {initial, best, again} \<Longrightarrow> verify_raw sv op m = Inr ()"
  using assms by (auto simp: settle_best_def Let_def bindR_eq_Inr each_Inr split: if_splits prod.splits)

lemma settle_parent_run:
  assumes "settle_parent sv digest op preceding st = (Inr c, st')"
    and "l = ra_limits (rc_arguments (op_config op))" "s = op_state op" "n = pe_runId (op_evidence op)"
  obtains steps s0 s' where "parent_steps (op_catalog op) n s = Inr steps" "replay_start op preceding = Inr s0"
    "recorded_run l n s0 steps s'" "run_trace l s0 (map (\<lambda>r. (sr_phase r, sr_outcome r)) steps) s'"
    "\<not> replay_differs s steps s'" "ca_config c = op_config op" "ca_state c = s" "ca_sourceRunId c = n"
    "ca_bestRevision c = st_bestRevision s" "st_activeStep s = None \<longrightarrow> st_phase s = PDone"
    "ca_attemptsStarted c = st_attemptsStarted s' + (if st_activeStep s \<noteq> None \<and> st_phase s = PStartAttempt then 1 else 0)"
    "ca_piCallsStarted c = st_piCallsStarted s' + (if st_activeStep s \<noteq> None \<and> inference_phase (st_phase s) then 1 else 0)"
    "ca_attemptsStarted c = st_attemptsStarted s" "ca_attemptsStarted c \<le> maxAttempts l"
    "ca_piCallsStarted c = st_piCallsStarted s" "ca_piCallsStarted c \<le> maxPiCalls l"
proof -
  from assms(1) obtain st2 st3 steps initial best where
    ends: "check_terminal sv op st2 = (Inr (), st3)" and hist: "check_history op preceding = Inr steps"
    and settled: "settle_best sv op preceding steps = Inr (initial, best, ca_bestRevision c)"
    and c: "ca_config c = op_config op" "ca_state c = op_state op"
      "ca_attemptsStarted c = reserved (\<lambda>p. p = PStartAttempt) (attempts_before preceding) steps (op_state op)"
      "ca_piCallsStarted c = reserved inference_phase (piCalls_before preceding) steps (op_state op)"
      "ca_sourceRunId c = pe_runId (op_evidence op)"
    by (rule settle_parent_Inr)
  obtain s0 s' where steps: "parent_steps (op_catalog op) n s = Inr steps"
    and h: "\<not> counters_differ l preceding steps s" "replay_start op preceding = Inr s0"
      "run_trace l s0 (map (\<lambda>r. (sr_phase r, sr_outcome r)) steps) s'" "\<not> replay_differs s steps s'"
    and replay: "replay_steps l n (int (length steps)) (st_elapsedMs s) s0 steps = Inr s'"
    using hist unfolding assms(2-4) by (rule check_history_Inr)
  note start = replay_start_Inr [OF h(2)]
  note ledger = trace_ledger [OF h(3) start(6)]
  have "recorded_run l n s0 steps s'"
    by (rule replay_recorded [OF replay]) (auto elim!: parent_steps_Inr [OF steps] dest: parent_step_Inr(1))
  moreover have "st_activeStep s = None \<longrightarrow> st_phase s = PDone"
    using check_terminal_done [OF ends] by (simp add: assms(3))
  moreover have "ca_attemptsStarted c = st_attemptsStarted s' + (if st_activeStep s \<noteq> None \<and> st_phase s = PStartAttempt then 1 else 0)"
    "ca_piCallsStarted c = st_piCallsStarted s' + (if st_activeStep s \<noteq> None \<and> inference_phase (st_phase s) then 1 else 0)"
    using ledger start by (simp_all add: c reserved_def count_of_steps assms(3))
  moreover have "ca_attemptsStarted c = st_attemptsStarted s" "ca_attemptsStarted c \<le> maxAttempts l"
    "ca_piCallsStarted c = st_piCallsStarted s" "ca_piCallsStarted c \<le> maxPiCalls l"
    using h(1) by (simp_all add: c counters_differ_def Let_def assms(3))
  moreover have "ca_bestRevision c = st_bestRevision s"
    unfolding assms(3) by (rule settle_best_Inr [OF settled]) (rule sym)
  ultimately show ?thesis
    using that [OF steps h(2) _ h(3,4)] c(1,2,5) by (simp add: assms(3,4))
qed

section \<open>The chain of kept revisions\<close>

lemma foldRes_last: "foldRes f x ys = Inr z \<Longrightarrow> ys \<noteq> [] \<Longrightarrow> \<exists>x'. f x' (last ys) = Inr z"
proof (induction ys arbitrary: x)
  case (Cons y ys)
  then obtain x' where "f x y = Inr x'" "foldRes f x' ys = Inr z" by (auto simp: bindR_eq_Inr)
  with Cons.IH [of x'] show ?case by (cases "ys = []") auto
qed simp

lemma find_last_Some: "find_last P xs = Some x \<Longrightarrow> x \<in> set xs \<and> P x"
  unfolding find_last_def by (metis find_Some_iff in_set_conv_nth set_rev)

lemma accept_kept_Inr:
  assumes "accept_kept sv op preceding steps initial (k, old) accepted = Inr (k', best)"
  obtains revision i b tests measured reviewed c m where "kept_revision accepted = Some revision"
    "initial = Some i" "old = Some b" "best = Some m" "tests \<in> set steps" "measured \<in> set steps" "reviewed \<in> set steps"
    "passed_tests revision tests" "valid_measure revision measured" "passed_review revision reviewed"
    "sr_step tests < sr_step measured" "sr_step measured < sr_step reviewed" "sr_step reviewed < sr_step accepted"
    "verifiedTests op tests = Inr ()" "verified_review op reviewed revision tests measured = Inr ()"
    "parent_measurements_of sv op measured revision = Inr (c, m)"
    "verifyAcceptedComparison (sv_numstr sv) (ra_policy (rc_arguments (op_config op))) i b m (sc_result c)
       (sr_outcome measured) = Inr ()"
proof -
  let ?before = "filter (\<lambda>r. k < sr_step r \<and> sr_step r < sr_step accepted) steps"
  from assms obtain revision i b where r: "kept_revision accepted = Some revision" "initial = Some i" "old = Some b"
    by (auto simp: accept_kept_def split: option.splits)
  with assms obtain tests measured reviewed c m where
    f: "find_last (passed_tests revision) ?before = Some tests" "find_last (valid_measure revision) ?before = Some measured"
      "find_last (passed_review revision) ?before = Some reviewed"
    and rest: "best = Some m" "sr_step tests < sr_step measured" "sr_step measured < sr_step reviewed"
      "sr_step reviewed < sr_step accepted"
      "verifiedTests op tests = Inr ()" "verified_review op reviewed revision tests measured = Inr ()"
      "parent_measurements_of sv op measured revision = Inr (c, m)"
      "verifyAcceptedComparison (sv_numstr sv) (ra_policy (rc_arguments (op_config op))) i b m (sc_result c)
         (sr_outcome measured) = Inr ()"
    by (auto simp: accept_kept_def Let_def bindR_eq_Inr split: option.splits if_splits)
  from find_last_Some [OF f(1)] find_last_Some [OF f(2)] find_last_Some [OF f(3)] r rest show ?thesis
    by (intro that) auto
qed

section \<open>The evidence for a kept revision\<close>

lemma find_named_Some: "find_named n rs = Some r \<Longrightarrow> r \<in> set rs \<and> or_name r = n"
  unfolding find_named_def by (metis (mono_tags, lifting) find_Some_iff nth_mem)

text \<open>A step, the result of passed tests and the result of a passing review, among the exported records.\<close>

definition exported_step :: "catalog \<Rightarrow> string \<Rightarrow> step_record \<Rightarrow> bool" where
  "exported_step cat n r \<longleftrightarrow> sr_runId r = n \<and>
     (\<exists>x. map_of cat (ref_label \<lparr>or_name = step_name n (sr_step r), or_version = 1\<rparr>) = Some x \<and>
       stepResultSchema (content_of x) = Some r)"

definition exported_tests :: "catalog \<Rightarrow> string \<Rightarrow> step_record \<Rightarrow> bool" where
  "exported_tests cat n r \<longleftrightarrow> (\<exists>ref' \<in> set (sr_evidence r). \<exists>x logs. map_of cat (ref_label ref') = Some x \<and>
     qaSchema (content_of x) = Some (n, Fin (of_int (sr_step r)), sr_revision r, logs) \<and>
     (\<forall>q \<in> set logs. map_of cat (ref_label q) \<noteq> None))"

definition exported_review :: "catalog \<Rightarrow> string \<Rightarrow> string \<Rightarrow> step_record \<Rightarrow> step_record \<Rightarrow> step_record \<Rightarrow> bool" where
  "exported_review cat n v r tests measured \<longleftrightarrow> (\<exists>ref' \<in> set (sr_evidence r). \<exists>x inputs cited.
     map_of cat (ref_label ref') = Some x \<and>
     review_resultSchema (content_of x) = Some (n, Fin (of_int (sr_step r)), v, inputs, cited) \<and>
     (\<forall>name \<in> {n @ ''-test-'' @ dec_int (sr_step tests) @ ''-result'', n @ ''-comparison-'' @ dec_int (sr_step measured)}.
        name \<in> or_name ` set inputs \<and> name \<in> or_name ` set cited))"

lemma parent_steps_exported: "parent_steps cat n s = Inr steps \<Longrightarrow> r \<in> set steps \<Longrightarrow> exported_step cat n r"
  by (erule (1) parent_steps_Inr) (auto simp: exported_step_def dest: parent_step_Inr)

lemma verifiedTests_exported:
  assumes "verifiedTests op r = Inr ()"
  shows "exported_tests (op_catalog op) (pe_runId (op_evidence op)) r"
proof -
  from assms obtain ref' x id k v logs where f: "find_named (pe_runId (op_evidence op) @ ''-test-'' @ dec_int (sr_step r) @ ''-result'')
        (sr_evidence r) = Some ref'"
    and x: "map_of (op_catalog op) (ref_label ref') = Some x" "qaSchema (content_of x) = Some (id, k, v, logs)"
    and rest: "(if id \<noteq> pe_runId (op_evidence op) \<or> k \<noteq> Fin (of_int (sr_step r)) \<or> v \<noteq> sr_revision r
        then Inl (Error ''QA result identity changed'') else cat_all (op_catalog op) logs) = Inr ()"
    unfolding verifiedTests_def Let_def 
    by (auto simp only: bindR_eq_Inr cat_get_Inr zparse_Inr split_paired_Ex case_prod_conv split: option.splits)
  from rest have "id = pe_runId (op_evidence op)" "k = Fin (of_int (sr_step r))" "v = sr_revision r"
    "\<forall>q \<in> set logs. map_of (op_catalog op) (ref_label q) \<noteq> None"
    by (auto simp: cat_all_Inr split: if_splits)
  with x find_named_Some [OF f] show ?thesis unfolding exported_tests_def by blast
qed

lemma verified_review_exported:
  assumes "verified_review op r v tests measured = Inr ()"
  shows "exported_review (op_catalog op) (pe_runId (op_evidence op)) v r tests measured"
proof -
  let ?n = "pe_runId (op_evidence op)"
  let ?names = "[?n @ ''-test-'' @ dec_int (sr_step tests) @ ''-result'', ?n @ ''-comparison-'' @ dec_int (sr_step measured)]"
  from assms obtain ref' x id k w inputs cited where f: "find_named (?n @ ''-pi-'' @ dec_int (sr_step r) @ ''-result'')
        (sr_evidence r) = Some ref'"
    and x: "map_of (op_catalog op) (ref_label ref') = Some x" "review_resultSchema (content_of x) = Some (id, k, w, inputs, cited)"
    and rest: "(if id \<noteq> ?n \<or> k \<noteq> Fin (of_int (sr_step r)) \<or> w \<noteq> v \<or>
        list_ex (\<lambda>name. find_named name inputs = None \<or> find_named name cited = None) ?names
      then Inl (Error ''Parent review did not inspect the tested measurement'') else cat_all (op_catalog op) inputs) = Inr ()"
    unfolding verified_review_def Let_def 
    by (auto simp only: bindR_eq_Inr cat_get_Inr zparse_Inr split_paired_Ex case_prod_conv split: option.splits)
  from rest have eq: "id = ?n" "k = Fin (of_int (sr_step r))" "w = v"
    and found: "\<not> list_ex (\<lambda>name. find_named name inputs = None \<or> find_named name cited = None) ?names"
    by (auto split: if_splits)
  have both: "\<forall>name \<in> set ?names. name \<in> or_name ` set inputs \<and> name \<in> or_name ` set cited"
  proof
    fix name assume "name \<in> set ?names"
    with found obtain y z where "find_named name inputs = Some y" "find_named name cited = Some z"
      by (auto simp: list_ex_iff)
    then show "name \<in> or_name ` set inputs \<and> name \<in> or_name ` set cited" by (metis find_named_Some imageI)
  qed
  show ?thesis
    unfolding exported_review_def
    by (rule bexI [of _ ref'], intro exI [of _ x] exI [of _ inputs] exI [of _ cited] conjI)
      (use x both eq find_named_Some [OF f] in simp_all)
qed

lemma readMeasurement_revision:
  assumes "fst (readMeasurement ops m numstr n v refs p st) = Inr x"
  shows "me_revision x = v"
proof -
  obtain st' where "readMeasurement ops m numstr n v refs p st = (Inr x, st')" using assms by (metis prod.collapse)
  then show ?thesis
    by (auto simp: readMeasurement_def run_simps measurement_of_def Let_def bindR_eq_Inr split: if_splits)
qed

lemma parent_measurements_revision: "parent_measurements_of sv op r v = Inr (c, m) \<Longrightarrow> me_revision m = v"
  by (auto simp: parent_measurements_of_def Let_def bindR_eq_Inr split: option.splits if_splits
      dest: readMeasurement_revision)

lemma kept_revision_Some: "kept_revision r = Some v \<longleftrightarrow> sr_phase r = PKeep \<and> sr_outcome r = Kept v"
  by (cases "sr_phase r"; cases "sr_outcome r") (simp_all add: kept_revision_def)

lemma verifyAcceptedComparison_Inr:
  assumes "verifyAcceptedComparison numstr p i b m saved oc = Inr ()"
  shows "gr_status (assessCandidate (rp_goal p) (rp_protections p) i b m (rp_minimumImprovementFraction p)) = Valid"
    "cr_improved (assessCandidate (rp_goal p) (rp_protections p) i b m (rp_minimumImprovementFraction p)) = Some True"
    "\<exists>v inc met. oc = Measured v True inc met True"
  using assms
  by (auto simp: verifyAcceptedComparison_def Let_def bindR_eq_Inr split: if_splits outcome.splits)

section \<open>The best revision\<close>

text \<open>
  The best revision an accepted parent hands on, when it is not the one it started from, carries
  the whole evidence among the exported records, whose bytes have the checksums they name. The
  parent kept it in a step after passing tests, an improving measurement and a passing review of
  that very revision, in this order; the saved result of the tests is one of this step and revision;
  the saved review is one of this step and revision and was given, and cited, both of them; and the
  comparison computed again from the exported benchmarks is valid and an improvement over the best
  one before, to the measurement that is handed on.
\<close>

lemma accepted_best_is_backed:
  assumes "verifyParentEvidence sv b st = (Inr c, st')" "ca_bestRevision c \<noteq> ra_revision (rc_arguments (ca_config c))"
    and "v = ca_bestRevision c" "n = ca_sourceRunId c" "p = ra_policy (rc_arguments (ca_config c))"
  shows "\<exists>cat tests measured reviewed kept. catalog_sound (sv_numstr sv) (sv_crypto sv) cat \<and>
    (\<forall>r \<in> {tests, measured, reviewed, kept}. exported_step cat n r) \<and>
    sr_step tests < sr_step measured \<and> sr_step measured < sr_step reviewed \<and> sr_step reviewed < sr_step kept \<and>
    sr_phase tests = PTest \<and> sr_outcome tests = Tested v True \<and> exported_tests cat n tests \<and>
    sr_phase measured = PMeasure \<and> (\<exists>inc met. sr_outcome measured = Measured v True inc met True) \<and>
    sr_phase reviewed = PReview \<and> sr_outcome reviewed = Reviewed v True \<and>
    exported_review cat n v reviewed tests measured \<and> sr_phase kept = PKeep \<and> sr_outcome kept = Kept v \<and>
    (\<exists>initial before m. ca_initial c = Some initial \<and> ca_best c = Some m \<and> me_revision m = v \<and>
       gr_status (assessCandidate (rp_goal p) (rp_protections p) initial before m (rp_minimumImprovementFraction p)) = Valid \<and>
       cr_improved (assessCandidate (rp_goal p) (rp_protections p) initial before m (rp_minimumImprovementFraction p)) = Some True)"
proof -
  obtain op preceding st1 st2 st3 where o: "open_parent sv (pb_path b) (pb_sha256 b) st2 = (Inr op, st3)"
    and set: "settle_parent sv (pb_sha256 b) op preceding st1 = (Inr c, st')"
    using assms(1) unfolding verifyParentEvidence_def by (rule verify_chain_Inr)
  from set obtain steps initial best where id: "\<not> identity_changed (sv_numstr sv) op preceding"
    and hist: "check_history op preceding = Inr steps"
    and settled: "settle_best sv op preceding steps = Inr (initial, best, v)"
    and c: "ca_config c = op_config op" "ca_initial c = initial" "ca_best c = best" "n = pe_runId (op_evidence op)"
    by (rule settle_parent_Inr) (rule that, simp_all add: assms(3,4))
  let ?kept = "filter (\<lambda>r. kept_revision r \<noteq> None) steps"
  obtain best0 k where v: "v = best_of preceding (op_state op) ?kept"
    and chain: "foldRes (accept_kept sv op preceding steps initial) (0, best0) ?kept = Inr (k, best)"
    using settled by (rule settle_best_Inr)
  have "best_of preceding (op_state op) [] = ra_revision (rc_arguments (ca_config c))"
    using id by (auto simp: best_of_def identity_changed_def chain_changed_def Let_def c(1) split: option.splits)
  with assms(2,3) v have ne: "?kept \<noteq> []" by metis
  then obtain x' where acc: "accept_kept sv op preceding steps initial x' (last ?kept) = Inr (k, best)"
    using foldRes_last [OF chain] by blast
  have last: "last ?kept \<in> set steps" "kept_revision (last ?kept) \<noteq> None" using last_in_set [OF ne] by auto
  then have kv: "kept_revision (last ?kept) = Some v" using v ne by (cases "kept_revision (last ?kept)") (simp_all add: best_of_def)
  then have kept: "sr_phase (last ?kept) = PKeep" "sr_outcome (last ?kept) = Kept v"
    by (simp_all add: kept_revision_Some)
  obtain old k0 where x': "x' = (k0, old)" by (cases x')
  obtain i bb tests measured reviewed cmp m where e: "initial = Some i" "best = Some m" "tests \<in> set steps"
    "measured \<in> set steps" "reviewed \<in> set steps" "passed_tests v tests" "valid_measure v measured" "passed_review v reviewed"
    "sr_step tests < sr_step measured" "sr_step measured < sr_step reviewed" "sr_step reviewed < sr_step (last ?kept)"
    "verifiedTests op tests = Inr ()" "verified_review op reviewed v tests measured = Inr ()"
    "parent_measurements_of sv op measured v = Inr (cmp, m)"
    "verifyAcceptedComparison (sv_numstr sv) (ra_policy (rc_arguments (op_config op))) i bb m (sc_result cmp)
       (sr_outcome measured) = Inr ()"
    using acc unfolding x' by (rule accept_kept_Inr) (use kv in simp)
  have steps: "parent_steps (op_catalog op) n (op_state op) = Inr steps"
    using hist unfolding c(4) by (rule check_history_Inr)
  have out: "\<exists>inc met. sr_outcome measured = Measured v True inc met True" "sr_phase measured = PMeasure"
    "sr_phase tests = PTest" "sr_outcome tests = Tested v True" "sr_phase reviewed = PReview"
    "sr_outcome reviewed = Reviewed v True"
    using e(6-8) verifyAcceptedComparison_Inr(3) [OF e(15)]
    by (auto simp: valid_measure_def passed_tests_def passed_review_def)
  have exported: "\<forall>r \<in> {tests, measured, reviewed, last ?kept}. exported_step (op_catalog op) n r"
    using parent_steps_exported [OF steps] e(3-5) last(1) by blast
  have records: "exported_tests (op_catalog op) n tests" "exported_review (op_catalog op) n v reviewed tests measured"
    using verifiedTests_exported [OF e(12)] verified_review_exported [OF e(13)] by (simp_all add: c(4))
  have measures: "ca_initial c = Some i" "ca_best c = Some m" "me_revision m = v"
    using e(1,2) c(2,3) parent_measurements_revision [OF e(14)] by simp_all
  note verdict = verifyAcceptedComparison_Inr(1,2) [OF e(15), folded c(1), folded assms(5)]
  show ?thesis
    by (intro exI [of _ "op_catalog op"] exI [of _ tests] exI [of _ measured] exI [of _ reviewed] exI [of _ "last ?kept"]
        exI [of _ i] exI [of _ bb] exI [of _ m] conjI)
      (rule open_parent_sound [OF o] exported e(9-11) out records kept measures verdict)+
qed

end
