(* ===== verification/Campaign_Export.thy ===== *)
theory Campaign_Export
  imports Campaign
begin

text \<open>
  \<^verbatim>\<open>exportParentEvidence\<close> of \<^verbatim>\<open>_lib/campaign.ts\<close>: collecting the records of a stopped run that its
  continuation will need into one bundle. Records are fetched one after the other, where the code
  fetches up to four at a time; the operations on the new file are an argument.
\<close>

section \<open>The bundle as it is written\<close>

definition enc_record :: "swamp_record \<Rightarrow> json" where
  "enc_record r = JObj ([(''name'', JStr (sw_name r)), (''version'', j_int (sw_version r)),
     (''modelId'', JStr (sw_modelId r)), (''modelName'', JStr ''tempo''), (''modelType'', JStr ''busker/tempo''),
     (''checksum'', JStr (sw_checksum r))] @ j_optional ''contentEncoding'' JStr (sw_encoding r) @
     j_optional ''content'' (\<lambda>v. v) (sw_content r))"

definition enc_source_ref :: "source_ref \<Rightarrow> json" where
  "enc_source_ref r = JObj [(''name'', JStr (or_name (so_ref r))), (''version'', j_int (or_version (so_ref r))),
     (''checksum'', JStr (so_checksum r))]"

definition enc_abandonment :: "abandonment \<Rightarrow> json" where
  "enc_abandonment a = JObj [(''receipt'', JStr (ab_receipt a)), (''receiptSha256'', JStr (ab_receiptSha256 a)),
     (''step'', j_int (ab_step a))]"

definition enc_log :: "parent_log \<Rightarrow> json" where
  "enc_log l = JObj [(''path'', JStr (lg_path l)), (''sha256'', JStr (lg_sha256 l)), (''size'', j_int (lg_size l))]"

definition enc_evidence :: "parent_evidence \<Rightarrow> json" where
  "enc_evidence ev = JObj [(''repository'', JStr (pe_repository ev)), (''runId'', JStr (pe_runId ev)),
     (''config'', enc_source_ref (pe_config ev)), (''state'', enc_source_ref (pe_state ev)),
     (''abandoned'', j_nullable enc_abandonment (pe_abandoned ev)),
     (''records'', JArr (map enc_record (pe_records ev))), (''logs'', JArr (map enc_log (pe_logs ev)))]"

section \<open>Fetching records\<close>

definition fetch :: "('st, 'z) services_scheme \<Rightarrow> string \<Rightarrow> string \<Rightarrow> catalog \<Rightarrow> output_ref \<Rightarrow>
    ('st, catalog \<times> swamp_record) action" where
  "fetch sv repository modelId cat r = (case map_of cat (ref_label r) of
     Some x \<Rightarrow> returnA (cat, x)
   | None \<Rightarrow> bindA (getSwampRecord sv repository r) (\<lambda>x.
       thenA (guardA (sw_modelId x = modelId) ''Parent model identity changed'')
         (returnA (cat @ [(ref_label r, x)], x))))"

fun fetch_all :: "('st, 'z) services_scheme \<Rightarrow> string \<Rightarrow> string \<Rightarrow> catalog \<Rightarrow> output_ref list \<Rightarrow>
    ('st, catalog \<times> swamp_record list) action" where
  "fetch_all sv repository modelId cat [] = returnA (cat, [])"
| "fetch_all sv repository modelId cat (r # rs) =
     bindA (fetch sv repository modelId cat r) (\<lambda>(cat', x).
     bindA (fetch_all sv repository modelId cat' rs) (\<lambda>(cat'', xs). returnA (cat'', x # xs)))"

text \<open>\<^verbatim>\<open>fetchMany\<close>: each reference once, in the order of the first occurrences.\<close>

definition fetchMany :: "('st, 'z) services_scheme \<Rightarrow> string \<Rightarrow> string \<Rightarrow> catalog \<Rightarrow> output_ref list \<Rightarrow>
    ('st, catalog \<times> swamp_record list) action" where
  "fetchMany sv repository modelId cat rs = fetch_all sv repository modelId cat (rev (remdups (rev rs)))"

text \<open>A loop that carries the records fetched so far.\<close>

fun fetching :: "(catalog \<Rightarrow> 'a \<Rightarrow> ('st, catalog) action) \<Rightarrow> catalog \<Rightarrow> 'a list \<Rightarrow> ('st, catalog) action" where
  "fetching f cat [] = returnA cat"
| "fetching f cat (x # xs) = bindA (f cat x) (\<lambda>cat'. fetching f cat' xs)"

definition fetch_only :: "('st, 'z) services_scheme \<Rightarrow> string \<Rightarrow> string \<Rightarrow> catalog \<Rightarrow> output_ref \<Rightarrow> ('st, catalog) action" where
  "fetch_only sv repository modelId cat r = bindA (fetch sv repository modelId cat r) (\<lambda>(cat', _). returnA cat')"

section \<open>What is exported\<close>

definition exact_export :: "'st host \<Rightarrow> string \<Rightarrow> string \<Rightarrow> string \<Rightarrow> int \<Rightarrow> ('st, unit) action" where
  "exact_export h repository runId destination version =
     bindA (resolveA h repository) (\<lambda>real. bindA (resolveA h destination) (\<lambda>real'.
     guardA (real = repository \<and> real' = destination \<and> bundle_id_ok runId \<and> z_positive version)
       ''Parent export needs exact local paths and state version''))"

definition listed_model :: "('st, 'z) services_scheme \<Rightarrow> string \<Rightarrow> string \<Rightarrow> int \<Rightarrow> ('st, string) action" where
  "listed_model sv repository runId version =
     bindA (h_output (sv_host sv) (swamp_versions repository (runId @ ''-state''))) (\<lambda>versions.
     thenA (guardA (co_success versions) ''Cannot verify latest parent state version'')
     (bindA (liftA (sv_json sv (co_stdout versions))) (\<lambda>v.
      bindA (liftA (zparse ''versions'' (z_loose (\<lambda>o'. do {
        modelId \<leftarrow> z_field o' ''modelId'' z_string;
        vs \<leftarrow> z_field o' ''versions'' versionsSchema;
        Some (modelId, vs) })) v)) (\<lambda>(modelId, vs).
      thenA (guardA (latest_version vs = Some (Fin (of_int version)))
        ''Selected parent state is not the latest saved state'') (returnA modelId)))))"

definition config_directory :: "string schema" where
  "config_directory = z_loose (\<lambda>o'. z_field o' ''arguments'' (z_loose (\<lambda>a. z_field a ''directory'' z_string)))"

definition export_log :: "('st, 'z) services_scheme \<Rightarrow> string \<Rightarrow> int \<Rightarrow> string \<Rightarrow> ('st, parent_log) action" where
  "export_log sv directory step name =
     (let h = sv_host sv; path = ''step-'' @ dec_int step @ ''/'' @ name; full = join_path directory path in
      bindA (h_lstat h full) (\<lambda>stat.
      thenA (guardA (fi_isFile stat \<and> \<not> fi_isSymlink stat) ''Interrupted Pi log is not a regular file'')
      (bindA (h_readFile h full) (\<lambda>bytes.
       returnA \<lparr>lg_path = path, lg_sha256 = cr_sha256 (sv_crypto sv) bytes, lg_size = fi_size stat\<rparr>))))"

definition export_logs :: "('st, 'z) services_scheme \<Rightarrow> string \<Rightarrow> run_state \<Rightarrow> ('st, parent_log list) action" where
  "export_logs sv directory s = (case st_activeStep s of
     Some step \<Rightarrow> if inference_phase (st_phase s) then mapA (export_log sv directory step) pi_log_names else returnA []
   | None \<Rightarrow> returnA [])"

text \<open>The result of the interrupted step must be missing, and the lookup must say so.\<close>

definition probe_missing :: "('st, 'z) services_scheme \<Rightarrow> string \<Rightarrow> string \<Rightarrow> run_state \<Rightarrow> ('st, unit) action" where
  "probe_missing sv repository runId s = (case st_activeStep s of
     None \<Rightarrow> returnA ()
   | Some step \<Rightarrow> bindA (h_output (sv_host sv) (swamp_get repository (step_name runId step) 1)) (\<lambda>probe.
       bindA (liftA (sv_json sv (if co_stderr probe \<noteq> [] then co_stderr probe else co_stdout probe))) (\<lambda>v.
       guardA (\<not> co_success probe \<and> (case z_loose (\<lambda>o'. z_field o' ''error'' z_string) v of
           Some e \<Rightarrow> starts_with ''Data not found:'' e | None \<Rightarrow> False))
         ''Ambiguous parent step has a saved result or lookup failed'')))"

definition improved_measure :: "string \<Rightarrow> step_record \<Rightarrow> bool" where
  "improved_measure revision r \<longleftrightarrow> sr_phase r = PMeasure \<and>
     (case sr_outcome r of Measured v valid _ _ improved \<Rightarrow> valid \<and> improved \<and> v = revision | _ \<Rightarrow> False)"

text \<open>For every kept step the last step before it with some property of the kept revision.\<close>

definition before_kept :: "(string \<Rightarrow> step_record \<Rightarrow> bool) \<Rightarrow> step_record list \<Rightarrow> step_record option list" where
  "before_kept P steps = map (\<lambda>k. case kept_revision k of
       Some v \<Rightarrow> find_last (\<lambda>r. sr_step r < sr_step k \<and> P v r) steps | None \<Rightarrow> None)
     (filter (\<lambda>r. kept_revision r \<noteq> None) steps)"

definition needed_ref :: "string \<Rightarrow> string \<Rightarrow> step_record \<Rightarrow> output_ref res" where
  "needed_ref name message r = (case find_named name (sr_evidence r) of
     None \<Rightarrow> Inl (Error message) | Some x \<Rightarrow> Inr x)"

definition filesSchema :: "(string \<times> output_ref) list schema" where
  "filesSchema = z_loose (\<lambda>o'. z_field o' ''files'' (z_array (z_loose (\<lambda>p. do {
     path \<leftarrow> z_field p ''path'' z_string;
     reference \<leftarrow> z_field p ''reference'' referenceSchema;
     Some (path, reference) }))))"

definition ends_with :: "string \<Rightarrow> string \<Rightarrow> bool" where
  "ends_with suffix s \<longleftrightarrow> starts_with (rev suffix) (rev s)"

definition export_benchmark :: "('st, 'z) services_scheme \<Rightarrow> string \<Rightarrow> string \<Rightarrow> catalog \<Rightarrow> output_ref \<Rightarrow> ('st, catalog) action" where
  "export_benchmark sv repository modelId cat benchmark =
     bindA (fetch sv repository modelId cat benchmark) (\<lambda>(cat', x).
     bindA (liftA (zparse ''benchmark'' filesSchema (content_of x))) (\<lambda>files.
     fetching (fetch_only sv repository modelId) cat'
       (map snd (filter (\<lambda>f. ends_with ''/results.json'' (fst f)) files))))"

definition export_comparison :: "('st, 'z) services_scheme \<Rightarrow> string \<Rightarrow> string \<Rightarrow> string \<Rightarrow> catalog \<Rightarrow> step_record \<Rightarrow>
    ('st, catalog) action" where
  "export_comparison sv repository modelId runId cat r =
     bindA (liftA (needed_ref (runId @ ''-comparison-'' @ dec_int (sr_step r)) ''Missing parent comparison reference'' r))
       (\<lambda>reference.
     bindA (fetch sv repository modelId cat reference) (\<lambda>(cat', x).
     bindA (liftA (zparse ''comparison'' comparisonSchema (content_of x))) (\<lambda>c.
     fetching (export_benchmark sv repository modelId) cat' (sc_current c))))"

definition export_tests :: "('st, 'z) services_scheme \<Rightarrow> string \<Rightarrow> string \<Rightarrow> string \<Rightarrow> catalog \<Rightarrow> step_record \<Rightarrow>
    ('st, catalog) action" where
  "export_tests sv repository modelId runId cat r =
     bindA (liftA (needed_ref (runId @ ''-test-'' @ dec_int (sr_step r) @ ''-result'') ''Missing parent test result'' r))
       (\<lambda>reference.
     bindA (fetch sv repository modelId cat reference) (\<lambda>(cat', x).
     bindA (liftA (zparse ''result'' (z_loose (\<lambda>o'. z_field o' ''artifacts'' (z_array referenceSchema))) (content_of x)))
       (\<lambda>logs. fetching (fetch_only sv repository modelId) cat' logs)))"

definition export_review :: "('st, 'z) services_scheme \<Rightarrow> string \<Rightarrow> string \<Rightarrow> string \<Rightarrow> catalog \<Rightarrow> step_record \<Rightarrow>
    ('st, catalog) action" where
  "export_review sv repository modelId runId cat r =
     bindA (liftA (needed_ref (runId @ ''-pi-'' @ dec_int (sr_step r) @ ''-result'') ''Missing accepted review result'' r))
       (\<lambda>reference.
     bindA (fetch sv repository modelId cat reference) (\<lambda>(cat', x).
     bindA (liftA (zparse ''result'' (z_loose (\<lambda>o'. z_field o' ''inputs'' (z_array referenceSchema))) (content_of x)))
       (\<lambda>inputs. fetching (fetch_only sv repository modelId) cat' inputs)))"

definition some_of :: "'a option list \<Rightarrow> 'a list" where
  "some_of xs = map the (filter (\<lambda>x. x \<noteq> None) xs)"

definition export_receipt :: "('st, 'z) services_scheme \<Rightarrow> string \<Rightarrow> string \<Rightarrow> string option \<Rightarrow> run_state \<Rightarrow> string \<Rightarrow>
    ('st, abandonment option) action" where
  "export_receipt sv runId directory receiptPath s checksum = (case st_activeStep s of
     None \<Rightarrow> thenA (guardA (\<not> truthy receiptPath) ''Terminal parent does not require abandonment'') (returnA None)
   | Some step \<Rightarrow> (case receiptPath of
       None \<Rightarrow> throwA (Error ''Interrupted parent requires an approved abandonment receipt'')
     | Some path \<Rightarrow>
         thenA (guardA (path \<noteq> [] \<and> path = join_path directory ''abandoned.json'')
           ''Interrupted parent requires an approved abandonment receipt'')
         (bindA (h_readFile (sv_host sv) path) (\<lambda>bytes.
          bindA (liftA (sv_json sv bytes)) (\<lambda>v.
          bindA (liftA (zparse ''receipt'' abandonmentSchema v)) (\<lambda>r.
          thenA (guardA (rc_runId r = runId \<and> rc_step r = step \<and> rc_stateChecksum r = checksum)
            ''Abandonment receipt does not match parent state'')
          (returnA (Some \<lparr>ab_receipt = path, ab_receiptSha256 = cr_sha256 (sv_crypto sv) bytes,
             ab_step = step\<rparr>))))))))"

definition check_again :: "('st, 'z) services_scheme \<Rightarrow> string \<Rightarrow> swamp_record \<Rightarrow> ('st, unit) action" where
  "check_again sv repository item =
     bindA (getSwampRecord sv repository (record_ref item)) (\<lambda>latest.
     guardA (sw_modelId latest = sw_modelId item \<and> sw_checksum latest = sw_checksum item)
       ''Parent evidence changed while exporting'')"

definition source_of :: "swamp_record \<Rightarrow> source_ref" where
  "source_of r = \<lparr>so_ref = record_ref r, so_checksum = sw_checksum r\<rparr>"

text \<open>The records of the steps, of what they cite, and of the evidence for the kept revisions.\<close>

definition export_steps :: "('st, 'z) services_scheme \<Rightarrow> string \<Rightarrow> string \<Rightarrow> string \<Rightarrow> catalog \<Rightarrow> run_state \<Rightarrow>
    ('st, catalog \<times> step_record list) action" where
  "export_steps sv repository modelId runId cat s =
     bindA (fetchMany sv repository modelId cat
       (map (\<lambda>i. \<lparr>or_name = step_name runId i, or_version = 1\<rparr>) [1..last_completed s])) (\<lambda>(cat1, records).
     bindA (liftA (mapR (\<lambda>r. zparse ''step'' stepResultSchema (content_of r)) records)) (\<lambda>steps.
     bindA (fetchMany sv repository modelId cat1 (concat (map sr_evidence steps))) (\<lambda>(cat2, _).
     returnA (cat2, steps))))"

definition export_kept :: "('st, 'z) services_scheme \<Rightarrow> string \<Rightarrow> string \<Rightarrow> string \<Rightarrow> catalog \<Rightarrow> step_record list \<Rightarrow>
    ('st, catalog) action" where
  "export_kept sv repository modelId runId cat steps =
     bindA (fetching (export_comparison sv repository modelId runId) cat
       (some_of (List.find valid_baseline steps # before_kept improved_measure steps))) (\<lambda>cat1.
     bindA (fetching (export_tests sv repository modelId runId) cat1
       (take 1 steps @ some_of (before_kept passed_tests steps))) (\<lambda>cat2.
     fetching (export_review sv repository modelId runId) cat2 (some_of (before_kept passed_review steps))))"

definition collect_evidence :: "('st, 'z) services_scheme \<Rightarrow> string \<Rightarrow> string \<Rightarrow> int \<Rightarrow> string option \<Rightarrow>
    ('st, parent_evidence) action" where
  "collect_evidence sv repository runId version receiptPath =
     bindA (listed_model sv repository runId version) (\<lambda>modelId.
     bindA (fetch sv repository modelId [] \<lparr>or_name = runId @ ''-config'', or_version = 1\<rparr>) (\<lambda>(cat1, config).
     thenA (check_snapshot sv repository (content_of config) ''Parent support snapshot changed before export'')
     (bindA (liftA (zparse ''config'' config_directory (content_of config))) (\<lambda>directory.
      bindA (resolveA (sv_host sv) directory) (\<lambda>real.
      thenA (guardA (real = directory) ''Parent run directory must be absolute'')
      (bindA (fetch sv repository modelId cat1 \<lparr>or_name = runId @ ''-state'', or_version = version\<rparr>) (\<lambda>(cat2, state).
       bindA (liftA (zparse ''state'' runStateSchema (content_of state))) (\<lambda>s.
       thenA (guardA (st_runId s = runId) ''Parent state belongs to another run'')
       (bindA (export_logs sv directory s) (\<lambda>logs.
        bindA (export_steps sv repository modelId runId cat2 s) (\<lambda>(cat3, steps).
        thenA (probe_missing sv repository runId s)
        (bindA (export_kept sv repository modelId runId cat3 steps) (\<lambda>cat4.
         bindA (export_receipt sv runId directory receiptPath s (sw_checksum state)) (\<lambda>abandoned.
         thenA (forA (check_again sv repository) (map snd cat4))
         (returnA \<lparr>pe_repository = repository, pe_runId = runId, pe_config = source_of config,
            pe_state = source_of state, pe_abandoned = abandoned, pe_records = map snd cat4,
            pe_logs = logs\<rparr>)))))))))))))))"

text \<open>
  The file of the evidence, with what \<^verbatim>\<open>Deno\<close> offers on it: opening a new file, writing to it (the answer
  is how many bytes were taken), syncing and closing it, and making it read-only.
\<close>

record 'st file_writer =
  fw_open :: "string \<Rightarrow> ('st, int) action"
  fw_write :: "int \<Rightarrow> string \<Rightarrow> ('st, nat) action"
  fw_sync :: "int \<Rightarrow> ('st, unit) action"
  fw_close :: "int \<Rightarrow> ('st, unit) action"
  fw_readOnly :: "string \<Rightarrow> ('st, unit) action"

text \<open>The loop over the bytes that are left: a write that takes none ends it with an error.\<close>

function write_rest :: "(string \<Rightarrow> ('st, nat) action) \<Rightarrow> string \<Rightarrow> ('st, unit) action" where
  "write_rest write bytes =
     (if bytes = [] then returnA ()
      else bindA (write bytes) (\<lambda>written.
        if written = 0 then throwA (Error ''Could not write parent evidence'')
        else write_rest write (drop written bytes)))"
  by pat_completeness auto

termination
  by (relation "measure (\<lambda>(_, bytes). length bytes)") simp_all

declare write_rest.simps [simp del]

definition save_evidence :: "'st file_writer \<Rightarrow> string \<Rightarrow> string \<Rightarrow> ('st, unit) action" where
  "save_evidence fw destination bytes =
     bindA (fw_open fw destination) (\<lambda>file.
     thenA (finallyA (thenA (write_rest (fw_write fw file) bytes) (fw_sync fw file)) (fw_close fw file))
     (fw_readOnly fw destination))"

definition exportParentEvidence :: "('st, 'z) services_scheme \<Rightarrow> 'st file_writer \<Rightarrow> string \<Rightarrow>
    string \<Rightarrow> int \<Rightarrow> string \<Rightarrow> string option \<Rightarrow> ('st, string) action" where
  "exportParentEvidence sv fw repository runId version destination receiptPath =
     thenA (exact_export (sv_host sv) repository runId destination version)
     (thenA (assertParentStopped (sv_host sv) runId)
     (bindA (collect_evidence sv repository runId version receiptPath) (\<lambda>ev.
      let bytes = json_text (sv_numstr sv) (enc_evidence ev) in
      thenA (save_evidence fw destination bytes) (returnA (cr_sha256 (sv_crypto sv) bytes)))))"

section \<open>All bytes are written\<close>

text \<open>
  What a file holds: a new one is empty, a write appends the bytes it took, and the other operations
  leave it as it is.
\<close>

definition file_writer_laws :: "'st file_writer \<Rightarrow> ('st \<Rightarrow> int \<Rightarrow> string) \<Rightarrow> bool" where
  "file_writer_laws fw holds \<longleftrightarrow>
     (\<forall>p f st st'. fw_open fw p st = (Inr f, st') \<longrightarrow> holds st' f = []) \<and>
     (\<forall>f b k st st'. fw_write fw f b st = (Inr k, st') \<longrightarrow> holds st' f = holds st f @ take k b) \<and>
     (\<forall>f st st'. fw_sync fw f st = (Inr (), st') \<longrightarrow> holds st' f = holds st f) \<and>
     (\<forall>f st st'. fw_close fw f st = (Inr (), st') \<longrightarrow> holds st' f = holds st f) \<and>
     (\<forall>p f st st'. fw_readOnly fw p st = (Inr (), st') \<longrightarrow> holds st' f = holds st f)"

lemma write_rest_Inr:
  assumes "write_rest write bytes st = (Inr u, st')"
    and "\<And>b k st st'. write b st = (Inr k, st') \<Longrightarrow> holds st' = holds st @ take k b"
  shows "holds st' = holds st @ bytes"
  using assms(1)
proof (induction "length bytes" arbitrary: bytes st rule: less_induct)
  case less
  show ?case
  proof (cases "bytes = []")
    case True
    with less.prems show ?thesis by (subst (asm) write_rest.simps) (simp add: run_simps)
  next
    case False
    with less.prems obtain k st1 where k: "write bytes st = (Inr k, st1)" "k \<noteq> 0"
      "write_rest write (drop k bytes) st1 = (Inr u, st')"
      by (subst (asm) write_rest.simps) (auto simp: run_simps split: if_splits)
    have "length (drop k bytes) < length bytes" using False k(2) by simp
    from less.hyps [OF this k(3)] assms(2) [OF k(1)] show ?thesis by simp
  qed
qed

lemma save_evidence_Inr:
  assumes "save_evidence fw destination bytes st = (Inr u, st')" "file_writer_laws fw holds"
  obtains f st1 where "fw_open fw destination st = (Inr f, st1)" "holds st' f = bytes"
proof -
  from assms(1) obtain f st1 st2 st3 st4 where o: "fw_open fw destination st = (Inr f, st1)"
    and w: "write_rest (fw_write fw f) bytes st1 = (Inr (), st2)" and rest: "fw_sync fw f st2 = (Inr (), st3)"
      "fw_close fw f st3 = (Inr (), st4)" "fw_readOnly fw destination st4 = (Inr (), st')"
    unfolding save_evidence_def by (auto simp: run_simps finallyA_Inr)
  have "holds st2 f = holds st1 f @ bytes"
    by (rule write_rest_Inr [OF w, where holds = "\<lambda>st. holds st f"]) (use assms(2) in \<open>unfold file_writer_laws_def, blast\<close>)
  moreover have "holds st1 f = []" "holds st3 f = holds st2 f" "holds st4 f = holds st3 f" "holds st' f = holds st4 f"
    using o rest assms(2) unfolding file_writer_laws_def by blast+
  ultimately have "holds st' f = bytes" by simp
  with o show ?thesis by (rule that)
qed

section \<open>The bundle reads back\<close>

definition record_ok :: "swamp_record \<Rightarrow> bool" where
  "record_ok r \<longleftrightarrow> ref_ok (record_ref r) \<and> sw_modelId r \<noteq> [] \<and> sha256_ok (sw_checksum r)"

definition source_ok :: "source_ref \<Rightarrow> bool" where
  "source_ok r \<longleftrightarrow> ref_ok (so_ref r) \<and> sha256_ok (so_checksum r)"

definition evidence_ok :: "parent_evidence \<Rightarrow> bool" where
  "evidence_ok ev \<longleftrightarrow> pe_repository ev \<noteq> [] \<and> bundle_id_ok (pe_runId ev) \<and> source_ok (pe_config ev) \<and>
     source_ok (pe_state ev) \<and>
     (case pe_abandoned ev of None \<Rightarrow> True
      | Some a \<Rightarrow> ab_receipt a \<noteq> [] \<and> sha256_ok (ab_receiptSha256 a) \<and> z_positive (ab_step a)) \<and>
     list_all record_ok (pe_records ev) \<and>
     list_all (\<lambda>l. log_path_ok (lg_path l) \<and> sha256_ok (lg_sha256 l) \<and> z_count (lg_size l)) (pe_logs ev)"

lemma recordSchema_enc: "recordSchema (enc_record r) = (if record_ok r then Some r else None)"
proof (cases r)
  case (fields name version model sum enc content)
  then show ?thesis
    by (cases enc; cases content) (simp_all add: recordSchema_def enc_record_def record_ok_def record_ref_def ref_ok_def)
qed

lemma recordSchema_ok: "recordSchema v = Some r \<Longrightarrow> record_ok r"
  by (auto simp: recordSchema_def z_loose_def bind_eq_Some_conv record_ok_def record_ref_def ref_ok_def z_string_min1_def
      sha256Schema_def split: json.splits elim!: z_fieldE dest: z_string_if_Some z_int_if_Some)

lemma sourceRefSchema_enc: "sourceRefSchema (enc_source_ref r) = (if source_ok r then Some r else None)"
  by (cases r; cases "so_ref r") (simp add: sourceRefSchema_def enc_source_ref_def source_ok_def ref_ok_def)

lemma parentEvidenceSchema_enc:
  "parentEvidenceSchema (enc_evidence ev) = (if evidence_ok ev then Some ev else None)"
proof (cases ev)
  case (fields repository runId config state abandoned records logs)
  let ?log = "z_strict [''path'', ''sha256'', ''size''] (\<lambda>p. do {
       path \<leftarrow> z_field p ''path'' (z_string_if log_path_ok);
       sha256 \<leftarrow> z_field p ''sha256'' sha256Schema;
       size \<leftarrow> z_field p ''size'' (z_int_if z_count);
       Some \<lparr>lg_path = path, lg_sha256 = sha256, lg_size = size\<rparr> })"
  have log: "?log (enc_log l) = (if log_path_ok (lg_path l) \<and> sha256_ok (lg_sha256 l) \<and> z_count (lg_size l)
      then Some l else None)" for l
    by (cases l) (simp add: enc_log_def)
  note arrays = z_array_enc_if [OF recordSchema_enc] z_array_enc_if [OF log]
  show ?thesis
    using fields
    by (cases abandoned; simp add: parentEvidenceSchema_def enc_evidence_def evidence_ok_def sourceRefSchema_enc arrays)
      (simp add: enc_abandonment_def)
qed

section \<open>The catalog of an exported bundle\<close>

text \<open>What fetching keeps of the records: distinct, unchanged and of one model.\<close>

definition fetched :: "('st, 'z) services_scheme \<Rightarrow> string \<Rightarrow> catalog \<Rightarrow> bool" where
  "fetched sv modelId cat \<longleftrightarrow> distinct (map fst cat) \<and>
     (\<forall>(key, r) \<in> set cat. key = ref_label (record_ref r) \<and> record_ok r \<and> sw_modelId r = modelId \<and>
       (\<exists>bytes. contentBytes (sv_numstr sv) (sv_crypto sv) r = Inr bytes \<and> cr_sha256 (sv_crypto sv) bytes = sw_checksum r))"

lemma getSwampRecord_Inr:
  assumes "getSwampRecord sv repository r st = (Inr x, st')"
  shows "record_ref x = r" "record_ok x"
    "\<exists>bytes. contentBytes (sv_numstr sv) (sv_crypto sv) x = Inr bytes \<and> cr_sha256 (sv_crypto sv) bytes = sw_checksum x"
  using assms by (auto simp: getSwampRecord_def Let_def run_simps zparse_Inr dest: recordSchema_ok)

text \<open>A step of the export extends the records and keeps them in order.\<close>

definition extends :: "('st, 'z) services_scheme \<Rightarrow> string \<Rightarrow> catalog \<Rightarrow> catalog \<Rightarrow> bool" where
  "extends sv modelId cat cat' \<longleftrightarrow> (fetched sv modelId cat \<longrightarrow> fetched sv modelId cat') \<and>
     (\<forall>k x. map_of cat k = Some x \<longrightarrow> map_of cat' k = Some x)"

lemma extends_refl [simp]: "extends sv modelId cat cat"
  by (simp add: extends_def)

lemma extends_trans [trans]: "extends sv modelId a b \<Longrightarrow> extends sv modelId b c \<Longrightarrow> extends sv modelId a c"
  by (auto simp: extends_def)

lemma fetch_Inr:
  assumes "fetch sv repository modelId cat r st = (Inr (cat', x), st')"
  shows "extends sv modelId cat cat'" "map_of cat' (ref_label r) = Some x"
proof -
  show "map_of cat' (ref_label r) = Some x"
    using assms by (auto simp: fetch_def run_simps map_add_def split: option.splits)
  show "extends sv modelId cat cat'"
  proof (cases "map_of cat (ref_label r)")
    case (Some y)
    with assms show ?thesis by (simp add: fetch_def run_simps)
  next
    case None
    with assms obtain st1 where g: "getSwampRecord sv repository r st = (Inr x, st1)"
      and m: "sw_modelId x = modelId" "cat' = cat @ [(ref_label r, x)]"
      by (auto simp: fetch_def run_simps)
    from None have "ref_label r \<notin> fst ` set cat" by (simp add: map_of_eq_None_iff)
    with getSwampRecord_Inr [OF g] m show ?thesis by (auto simp: extends_def fetched_def map_add_def)
  qed
qed

lemma fetch_all_extends: "fetch_all sv repository modelId cat rs st = (Inr (cat', xs), st') \<Longrightarrow> extends sv modelId cat cat'"
proof (induction rs arbitrary: cat st xs)
  case (Cons r rs)
  then obtain c x st1 ys where "fetch sv repository modelId cat r st = (Inr (c, x), st1)"
      "fetch_all sv repository modelId c rs st1 = (Inr (cat', ys), st')"
    by (auto simp: run_simps)
  with Cons.IH [of c st1 ys] fetch_Inr(1) show ?case by (metis extends_trans)
qed (simp add: run_simps)

lemma fetching_extends:
  assumes "\<And>c x c' st st'. f c x st = (Inr c', st') \<Longrightarrow> extends sv modelId c c'"
  shows "fetching f cat xs st = (Inr cat', st') \<Longrightarrow> extends sv modelId cat cat'"
proof (induction xs arbitrary: cat st)
  case (Cons x xs)
  then obtain c st1 where "f cat x st = (Inr c, st1)" "fetching f c xs st1 = (Inr cat', st')" by (auto simp: run_simps)
  with Cons.IH [of c st1] assms show ?case by (metis extends_trans)
qed (simp add: run_simps)

lemma fetch_only_extends: "fetch_only sv repository modelId cat r st = (Inr cat', st') \<Longrightarrow> extends sv modelId cat cat'"
  by (auto simp: fetch_only_def run_simps dest: fetch_Inr(1))

lemma fetch_then_extends:
  assumes "fetch sv repository modelId cat r st = (Inr (c, x), st1)" "extends sv modelId c cat'"
  shows "extends sv modelId cat cat'"
  using fetch_Inr(1) [OF assms(1)] assms(2) by (rule extends_trans)

lemma export_benchmark_extends:
  assumes "export_benchmark sv repository modelId cat r st = (Inr cat', st')"
  shows "extends sv modelId cat cat'"
proof -
  from assms obtain c x st1 rs where "fetch sv repository modelId cat r st = (Inr (c, x), st1)"
      "fetching (fetch_only sv repository modelId) c rs st1 = (Inr cat', st')"
    by (auto simp: export_benchmark_def run_simps)
  then show ?thesis by (metis fetch_then_extends fetching_extends fetch_only_extends)
qed

lemma export_comparison_extends:
  assumes "export_comparison sv repository modelId runId cat r st = (Inr cat', st')"
  shows "extends sv modelId cat cat'"
proof -
  from assms obtain q c x st0 st1 rs where "fetch sv repository modelId cat q st0 = (Inr (c, x), st1)"
      "fetching (export_benchmark sv repository modelId) c rs st1 = (Inr cat', st')"
    by (auto simp: export_comparison_def run_simps)
  then show ?thesis by (metis fetch_then_extends fetching_extends export_benchmark_extends)
qed

lemma export_tests_extends:
  assumes "export_tests sv repository modelId runId cat r st = (Inr cat', st')"
  shows "extends sv modelId cat cat'"
proof -
  from assms obtain q c x st0 st1 rs where "fetch sv repository modelId cat q st0 = (Inr (c, x), st1)"
      "fetching (fetch_only sv repository modelId) c rs st1 = (Inr cat', st')"
    by (auto simp: export_tests_def run_simps)
  then show ?thesis by (metis fetch_then_extends fetching_extends fetch_only_extends)
qed

lemma export_review_extends:
  assumes "export_review sv repository modelId runId cat r st = (Inr cat', st')"
  shows "extends sv modelId cat cat'"
proof -
  from assms obtain q c x st0 st1 rs where "fetch sv repository modelId cat q st0 = (Inr (c, x), st1)"
      "fetching (fetch_only sv repository modelId) c rs st1 = (Inr cat', st')"
    by (auto simp: export_review_def run_simps)
  then show ?thesis by (metis fetch_then_extends fetching_extends fetch_only_extends)
qed

lemma export_kept_extends:
  assumes "export_kept sv repository modelId runId cat steps st = (Inr cat', st')"
  shows "extends sv modelId cat cat'"
proof -
  from assms obtain a b st1 st2 xs ys zs where
      f: "fetching (export_comparison sv repository modelId runId) cat xs st = (Inr a, st1)"
      "fetching (export_tests sv repository modelId runId) a ys st1 = (Inr b, st2)"
      "fetching (export_review sv repository modelId runId) b zs st2 = (Inr cat', st')"
    by (auto simp: export_kept_def run_simps)
  have "extends sv modelId cat a"
    by (rule fetching_extends [rotated, OF f(1)]) (rule export_comparison_extends)
  also have "extends sv modelId a b"
    by (rule fetching_extends [rotated, OF f(2)]) (rule export_tests_extends)
  also have "extends sv modelId b cat'"
    by (rule fetching_extends [rotated, OF f(3)]) (rule export_review_extends)
  finally show ?thesis .
qed

lemma export_steps_extends:
  "export_steps sv repository modelId runId cat s st = (Inr (cat', steps), st') \<Longrightarrow> extends sv modelId cat cat'"
  by (auto simp: export_steps_def fetchMany_def run_simps intro: extends_trans [OF fetch_all_extends fetch_all_extends])

lemma catalog_records_fetched:
  assumes "fetched sv modelId (cat @ cat')"
  shows "catalog_records (sv_numstr sv) (sv_crypto sv) cat (map snd cat') = Inr (cat @ cat')"
  using assms
proof (induction cat' arbitrary: cat)
  case (Cons kr cat')
  obtain k r where kr: "kr = (k, r)" by (cases kr)
  with Cons.prems obtain bytes where r: "k = ref_label (record_ref r)" "k \<notin> fst ` set cat"
      "contentBytes (sv_numstr sv) (sv_crypto sv) r = Inr bytes" "cr_sha256 (sv_crypto sv) bytes = sw_checksum r"
    by (auto simp: fetched_def)
  then have "map_of cat (ref_label (record_ref r)) = None" by (simp add: map_of_eq_None_iff)
  moreover have "fetched sv modelId ((cat @ [(k, r)]) @ cat')" using Cons.prems kr by simp
  ultimately show ?case using r Cons.IH [of "cat @ [(k, r)]"] kr by (simp add: bindR_def)
qed simp

text \<open>What a fetch of many references leaves.\<close>

lemma extends_get: "extends sv modelId cat cat' \<Longrightarrow> map_of cat k = Some x \<Longrightarrow> map_of cat' k = Some x"
  by (simp add: extends_def)

lemma fetch_all_get: "fetch_all sv repository modelId cat rs st = (Inr (cat', xs), st') \<Longrightarrow>
    list_all2 (\<lambda>r x. map_of cat' (ref_label r) = Some x) rs xs"
proof (induction rs arbitrary: cat st xs)
  case (Cons r rs)
  then obtain c x st1 ys where f: "fetch sv repository modelId cat r st = (Inr (c, x), st1)"
      "fetch_all sv repository modelId c rs st1 = (Inr (cat', ys), st')" "xs = x # ys"
    by (auto simp: run_simps)
  have "map_of cat' (ref_label r) = Some x"
    using fetch_all_extends [OF f(2)] fetch_Inr(2) [OF f(1)] by (rule extends_get)
  with Cons.IH [OF f(2)] f(3) show ?case by simp
qed (simp add: run_simps)

lemma fetchMany_get: "fetchMany sv repository modelId cat rs st = (Inr (cat', xs), st') \<Longrightarrow> r \<in> set rs \<Longrightarrow>
    \<exists>x. x \<in> set xs \<and> map_of cat' (ref_label r) = Some x"
proof -
  assume f: "fetchMany sv repository modelId cat rs st = (Inr (cat', xs), st')" and "r \<in> set rs"
  note all = fetch_all_get [OF f [unfolded fetchMany_def]]
  from \<open>r \<in> set rs\<close> have "r \<in> set (rev (remdups (rev rs)))" by simp
  then obtain i where "i < length (rev (remdups (rev rs)))" "rev (remdups (rev rs)) ! i = r" unfolding in_set_conv_nth by blast
  with list_all2_nthD [OF all] list_all2_lengthD [OF all] show ?thesis by (intro exI [of _ "xs ! i"]) auto
qed

text \<open>Every completed step is among the records, with all it cites.\<close>

definition steps_exported :: "catalog \<Rightarrow> string \<Rightarrow> run_state \<Rightarrow> bool" where
  "steps_exported cat runId s \<longleftrightarrow> (\<forall>i \<in> {1..last_completed s}. \<exists>x step.
     map_of cat (ref_label \<lparr>or_name = step_name runId i, or_version = 1\<rparr>) = Some x \<and>
     stepResultSchema (content_of x) = Some step \<and> (\<forall>r \<in> set (sr_evidence step). map_of cat (ref_label r) \<noteq> None))"

lemma steps_exported_extends: "extends sv modelId cat cat' \<Longrightarrow> steps_exported cat runId s \<Longrightarrow> steps_exported cat' runId s"
  unfolding steps_exported_def extends_def by (metis option.exhaust option.distinct(1))

lemma export_steps_exported:
  assumes "export_steps sv repository modelId runId cat s st = (Inr (cat', steps), st')"
  shows "steps_exported cat' runId s"
proof -
  let ?refs = "map (\<lambda>i. \<lparr>or_name = step_name runId i, or_version = 1\<rparr>) [1..last_completed s]"
  from assms obtain c xs st1 ys where f: "fetchMany sv repository modelId cat ?refs st = (Inr (c, xs), st1)"
    and p: "mapR (\<lambda>r. zparse ''step'' stepResultSchema (content_of r)) xs = Inr steps"
    and g: "fetchMany sv repository modelId c (concat (map sr_evidence steps)) st1 = (Inr (cat', ys), st')"
    by (auto simp: export_steps_def run_simps)
  have e: "extends sv modelId c cat'" using g unfolding fetchMany_def by (rule fetch_all_extends)
  show ?thesis
    unfolding steps_exported_def
  proof
    fix i assume "i \<in> {1..last_completed s}"
    then have "\<lparr>or_name = step_name runId i, or_version = 1\<rparr> \<in> set ?refs" by simp
    from fetchMany_get [OF f this] obtain x where x: "x \<in> set xs"
      "map_of c (ref_label \<lparr>or_name = step_name runId i, or_version = 1\<rparr>) = Some x" by blast
    from p have all: "list_all2 (\<lambda>r step. stepResultSchema (content_of r) = Some step) xs steps"
      by (simp add: mapR_eq_Inr zparse_Inr)
    from x(1) obtain j where j: "j < length xs" "x = xs ! j" by (auto simp: in_set_conv_nth)
    obtain step where step: "step \<in> set steps" "stepResultSchema (content_of x) = Some step"
      using list_all2_nthD [OF all j(1)] list_all2_lengthD [OF all] j by (intro that [of "steps ! j"]) auto
    have "map_of cat' (ref_label r) \<noteq> None" if "r \<in> set (sr_evidence step)" for r
      using fetchMany_get [OF g, of r] that step(1) by force
    with step(2) extends_get [OF e x(2)] show "\<exists>x step.
        map_of cat' (ref_label \<lparr>or_name = step_name runId i, or_version = 1\<rparr>) = Some x \<and>
        stepResultSchema (content_of x) = Some step \<and> (\<forall>r \<in> set (sr_evidence step). map_of cat' (ref_label r) \<noteq> None)"
      by blast
  qed
qed

text \<open>The exported logs.\<close>

lemma dec_nat_hd: "0 < n \<Longrightarrow> hd (dec_nat n) \<noteq> CHR ''0''"
proof (induction n rule: dec_nat.induct)
  case (1 n)
  show ?case
  proof (cases "n < 10")
    case True
    have "digit_char n \<noteq> CHR ''0''"
    proof
      assume "digit_char n = CHR ''0''"
      with digit_char_value [OF True] 1(2) show False by simp
    qed
    with True show ?thesis by (simp add: dec_nat.simps [of n])
  next
    case False
    with 1 show ?thesis by (simp add: dec_nat.simps [of n])
  qed
qed

lemma log_path_step:
  assumes "0 < n" "name \<in> set pi_log_names"
  shows "log_path_ok (''step-'' @ dec_int n @ ''/'' @ name)"
proof -
  have d: "dec_int n = dec_nat (nat n)" using assms(1) by (simp add: dec_int_def)
  have "CHR ''/'' \<notin> set (''step-'' @ dec_nat (nat n))" by (simp add: dec_nat_only_digits is_digit_def)
  moreover have "js_split (CHR ''/'') name = [name]"
    using assms(2) by (intro js_split_single) (auto simp: pi_log_names_def)
  ultimately have "js_split (CHR ''/'') ((''step-'' @ dec_nat (nat n)) @ CHR ''/'' # name) = [''step-'' @ dec_nat (nat n), name]"
    using js_split_append_sep [of "CHR ''/''" "''step-'' @ dec_nat (nat n)" name] by metis
  then show ?thesis
    using assms dec_nat_hd [of "nat n"] dec_nat_digits [of "nat n"] by (simp add: log_path_ok_def d starts_with_def)
qed

lemma export_logs_ok:
  assumes "export_logs sv directory s st = (Inr logs, st')" "state_ok s"
    and "\<And>b. sha256_ok (cr_sha256 (sv_crypto sv) b)" "\<And>p st i st'. h_lstat (sv_host sv) p st = (Inr i, st') \<Longrightarrow> z_count (fi_size i)"
  shows "list_all (\<lambda>l. log_path_ok (lg_path l) \<and> sha256_ok (lg_sha256 l) \<and> z_count (lg_size l)) logs"
proof (cases "st_activeStep s")
  case (Some n)
  with assms(2) have n: "0 < n" by (simp add: state_ok_def z_positive_def)
  have one: "log_path_ok (lg_path l) \<and> sha256_ok (lg_sha256 l) \<and> z_count (lg_size l)"
    if "export_log sv directory n name st1 = (Inr l, st2)" "name \<in> set pi_log_names" for name l st1 st2
    using that log_path_step [OF n that(2)] assms(3,4) by (auto simp: export_log_def Let_def run_simps)
  have many: "list_all (\<lambda>l. log_path_ok (lg_path l) \<and> sha256_ok (lg_sha256 l) \<and> z_count (lg_size l)) ls"
    if "mapA (export_log sv directory n) ns st1 = (Inr ls, st2)" "set ns \<subseteq> set pi_log_names" for ns ls st1 st2
    using that by (induction ns arbitrary: ls st1) (auto simp: run_simps dest: one)
  show ?thesis using assms(1) many [of pi_log_names] by (auto simp: export_logs_def Some run_simps split: if_splits)
qed (use assms(1) in \<open>simp add: export_logs_def run_simps\<close>)

lemma export_receipt_ok:
  assumes "export_receipt sv runId directory receiptPath s checksum st = (Inr a, st')" "state_ok s"
    and "\<And>b. sha256_ok (cr_sha256 (sv_crypto sv) b)"
  shows "case a of None \<Rightarrow> True | Some x \<Rightarrow> ab_receipt x \<noteq> [] \<and> sha256_ok (ab_receiptSha256 x) \<and> z_positive (ab_step x)"
  using assms by (auto simp: export_receipt_def run_simps state_ok_def split: option.splits)

section \<open>What the collected evidence satisfies\<close>

lemma collect_evidence_Inr:
  assumes "collect_evidence sv repository runId version receiptPath st = (Inr ev, st')"
  obtains modelId cat1 cat2 cat3 cat4 config state s directory logs steps abandoned st1 st2 st3 st4 st5 st6 st7 st8 st9 st10 st11
  where "fetch sv repository modelId [] \<lparr>or_name = runId @ ''-config'', or_version = 1\<rparr> st1 = (Inr (cat1, config), st2)"
    "fetch sv repository modelId cat1 \<lparr>or_name = runId @ ''-state'', or_version = version\<rparr> st3 = (Inr (cat2, state), st4)"
    "runStateSchema (content_of state) = Some s" "export_logs sv directory s st4 = (Inr logs, st5)"
    "export_steps sv repository modelId runId cat2 s st6 = (Inr (cat3, steps), st7)"
    "export_kept sv repository modelId runId cat3 steps st8 = (Inr cat4, st9)"
    "export_receipt sv runId directory receiptPath s (sw_checksum state) st10 = (Inr abandoned, st11)"
    "ev = \<lparr>pe_repository = repository, pe_runId = runId, pe_config = source_of config, pe_state = source_of state,
       pe_abandoned = abandoned, pe_records = map snd cat4, pe_logs = logs\<rparr>" "st_runId s = runId"
  using assms
  unfolding collect_evidence_def
  by (auto simp only: bindA_Inr' thenA_Inr guardA_Inr liftA_Inr returnA_Inr zparse_Inr split_paired_Ex case_prod_conv)

lemma catalog_of_fetched:
  assumes "fetched sv modelId cat" "cat \<noteq> []" "pe_records ev = map snd cat"
  shows "catalog_of (sv_numstr sv) (sv_crypto sv) ev = Inr cat"
proof -
  have r: "catalog_records (sv_numstr sv) (sv_crypto sv) [] (map snd cat) = Inr ([] @ cat)"
    using assms(1) by (intro catalog_records_fetched) simp
  have "map sw_modelId (map snd cat) = map (\<lambda>_. modelId) cat"
    using assms(1) by (auto simp: fetched_def)
  then have "set (map sw_modelId (map snd cat)) = {modelId}" using assms(2) by (cases cat) auto
  then have "length (remdups (map sw_modelId (map snd cat))) = 1"
    by (metis length_remdups_card_conv card_1_singleton_iff One_nat_def)
  with r show ?thesis by (simp add: catalog_of_def assms(3) bindR_def)
qed

text \<open>
  The bundle reads back to the same evidence, its records form a catalog, and the catalog holds the
  configuration and the state it names, every completed step and all the steps cite.
\<close>

definition reads_back :: "('st, 'z) services_scheme \<Rightarrow> parent_evidence \<Rightarrow> bool" where
  "reads_back sv ev \<longleftrightarrow> parentEvidenceSchema (enc_evidence ev) = Some ev \<and>
     (\<exists>cat config state s. catalog_of (sv_numstr sv) (sv_crypto sv) ev = Inr cat \<and>
       map_of cat (ref_label (so_ref (pe_config ev))) = Some config \<and> sw_checksum config = so_checksum (pe_config ev) \<and>
       map_of cat (ref_label (so_ref (pe_state ev))) = Some state \<and> sw_checksum state = so_checksum (pe_state ev) \<and>
       or_name (so_ref (pe_config ev)) = pe_runId ev @ ''-config'' \<and>
       or_name (so_ref (pe_state ev)) = pe_runId ev @ ''-state'' \<and>
       runStateSchema (content_of state) = Some s \<and> st_runId s = pe_runId ev \<and> steps_exported cat (pe_runId ev) s)"

lemma map_of_fetched:
  assumes "fetched sv modelId cat" "map_of cat (ref_label r) = Some x"
  shows "record_ref x = r" "record_ok x"
  using map_of_SomeD [OF assms(2)] assms(1) by (auto simp: fetched_def ref_label_inject)

lemma collect_evidence_reads_back:
  assumes "collect_evidence sv repository runId version receiptPath st = (Inr ev, st')"
    and "repository \<noteq> []" "bundle_id_ok runId" "\<And>b. sha256_ok (cr_sha256 (sv_crypto sv) b)"
    and "\<And>p st i st'. h_lstat (sv_host sv) p st = (Inr i, st') \<Longrightarrow> z_count (fi_size i)"
  shows "reads_back sv ev \<and> pe_repository ev = repository \<and> pe_runId ev = runId \<and> or_version (so_ref (pe_state ev)) = version"
proof -
  let ?c = "\<lparr>or_name = runId @ ''-config'', or_version = 1\<rparr>"
  let ?s = "\<lparr>or_name = runId @ ''-state'', or_version = version\<rparr>"
  obtain modelId cat1 cat2 cat3 cat4 config state s directory logs steps abandoned st1 st2 st3 st4 st5 st6 st7 st8 st9 st10 st11
    where c: "fetch sv repository modelId [] ?c st1 = (Inr (cat1, config), st2)"
      and t: "fetch sv repository modelId cat1 ?s st3 = (Inr (cat2, state), st4)"
      and s: "runStateSchema (content_of state) = Some s"
      and logs: "export_logs sv directory s st4 = (Inr logs, st5)"
      and steps: "export_steps sv repository modelId runId cat2 s st6 = (Inr (cat3, steps), st7)"
      and kept: "export_kept sv repository modelId runId cat3 steps st8 = (Inr cat4, st9)"
      and receipt: "export_receipt sv runId directory receiptPath s (sw_checksum state) st10 = (Inr abandoned, st11)"
      and ev: "ev = \<lparr>pe_repository = repository, pe_runId = runId, pe_config = source_of config, pe_state = source_of state,
         pe_abandoned = abandoned, pe_records = map snd cat4, pe_logs = logs\<rparr>" and id: "st_runId s = runId"
    using assms(1) by (rule collect_evidence_Inr)
  have "extends sv modelId [] cat1" by (rule fetch_Inr(1) [OF c])
  also have e2: "extends sv modelId cat1 cat2" by (rule fetch_Inr(1) [OF t])
  also have e3: "extends sv modelId cat2 cat3" by (rule export_steps_extends [OF steps])
  also have e4: "extends sv modelId cat3 cat4" by (rule export_kept_extends [OF kept])
  finally have f: "fetched sv modelId cat4" by (simp add: extends_def fetched_def)
  have gs: "map_of cat4 (ref_label ?s) = Some state"
    using extends_get [OF extends_trans [OF e3 e4] fetch_Inr(2) [OF t]] .
  have gc: "map_of cat4 (ref_label ?c) = Some config"
    using extends_get [OF extends_trans [OF e2 extends_trans [OF e3 e4]] fetch_Inr(2) [OF c]] .
  have refs: "record_ref config = ?c" "record_ref state = ?s"
    using map_of_fetched(1) [OF f gc] map_of_fetched(1) [OF f gs] by simp_all
  have "cat4 \<noteq> []" using gc by auto
  then have cat: "catalog_of (sv_numstr sv) (sv_crypto sv) ev = Inr cat4"
    by (intro catalog_of_fetched [OF f]) (simp_all add: ev)
  have ok: "state_ok s" using s by (rule runStateSchema_ok)
  have "list_all record_ok (map snd cat4)" using f by (auto simp: fetched_def list_all_iff)
  then have "evidence_ok ev"
    using assms(2,3) map_of_fetched(2) [OF f gc] map_of_fetched(2) [OF f gs]
      export_logs_ok [OF logs ok assms(4,5)] export_receipt_ok [OF receipt ok assms(4)]
    by (simp add: ev evidence_ok_def source_of_def source_ok_def record_ok_def)
  then have "parentEvidenceSchema (enc_evidence ev) = Some ev" by (simp add: parentEvidenceSchema_enc)
  moreover have "steps_exported cat4 runId s"
    using e4 export_steps_exported [OF steps] by (rule steps_exported_extends)
  ultimately show ?thesis
    using cat gc gs s id refs by (simp add: reads_back_def ev source_of_def)
qed

end
