(* ===== verification/Run_Start.thy ===== *)
theory Run_Start
  imports Campaign
begin

text \<open>
  Starting a run and reading its saved steps (\<^verbatim>\<open>startRun\<close>, \<^verbatim>\<open>checkRunSupport\<close>, \<^verbatim>\<open>stepResource\<close> and
  their helpers in \<^verbatim>\<open>_lib/run.ts\<close>). A run that
  continues another inherits its start time and counters; it is refused when the policy, the
  parameters, the limits or the brief differ, or when a budget is used up.
\<close>

section \<open>The support of a run\<close>

definition currentCliVersion :: "'st host \<Rightarrow> ('st, string) action" where
  "currentCliVersion h = bindA (h_output h (run_program ''swamp'' [''--version''])) (\<lambda>result.
     thenA (guardA (co_success result) ''Cannot read Swamp CLI version'')
       (returnA (js_trim (co_stdout result))))"

text \<open>Conditions joined by \<^verbatim>\<open>||\<close>: the first true one ends the evaluation.\<close>

fun anyA :: "('st, bool) action list \<Rightarrow> ('st, bool) action" where
  "anyA [] = returnA False"
| "anyA (c # cs) = bindA c (\<lambda>b. if b then returnA True else anyA cs)"

definition real_differs :: "'st host \<Rightarrow> string \<Rightarrow> string \<Rightarrow> ('st, bool) action" where
  "real_differs h path directory = bindA (h_realPath h path) (\<lambda>p. returnA (p \<noteq> directory))"

definition cwd_differs :: "'st host \<Rightarrow> string \<Rightarrow> ('st, bool) action" where
  "cwd_differs h directory = bindA (h_cwd h) (\<lambda>cwd. real_differs h cwd directory)"

definition env_set :: "'st host \<Rightarrow> string \<Rightarrow> ('st, bool) action" where
  "env_set h name = bindA (env_get h name) (\<lambda>v. returnA (truthy v))"

definition repo_differs :: "'st host \<Rightarrow> string option \<Rightarrow> string \<Rightarrow> ('st, bool) action" where
  "repo_differs h selected directory = (case selected of
     Some repo \<Rightarrow> if repo = [] then returnA False else real_differs h repo directory
   | None \<Rightarrow> returnA False)"

definition refuseA :: "('st, bool) action \<Rightarrow> string \<Rightarrow> ('st, unit) action" where
  "refuseA c message = bindA c (\<lambda>b. guardA (\<not> b) message)"

definition checkRunSupport :: "('st, 'z) services_scheme \<Rightarrow> run_config \<Rightarrow> ('st, unit) action" where
  "checkRunSupport sv config =
     (let h = sv_host sv; directory = ra_supportDirectory (rc_arguments config) in
      bindA (env_get h ''SWAMP_REPO_DIR'') (\<lambda>selectedRepo.
      thenA (refuseA (anyA [real_differs h directory directory, cwd_differs h directory,
          env_set h ''SWAMP_SERVE_URL'', env_set h ''SWAMP_SERVER_URL'', repo_differs h selectedRepo directory])
        ''Run must use its local support snapshot'')
      (thenA (verifySupport h (sv_crypto sv) directory (rc_supportManifest config))
      (case ra_parentEvidence (rc_arguments config) of
         None \<Rightarrow> returnA ()
       | Some parent \<Rightarrow> thenA (verifyParentEvidence sv parent) (returnA ())))))"

section \<open>Reading saved steps\<close>

definition stepResource :: "'st store_ops \<Rightarrow> run_state \<Rightarrow> phase \<Rightarrow> ('st, output_ref \<times> json option) action" where
  "stepResource ops s p = (case st_outputs s p of
     None \<Rightarrow> throwA (Error (''Missing saved '' @ phase_name p @ '' output''))
   | Some reference \<Rightarrow>
       bindA (so_read ops (or_name reference) (Some (or_version reference))) (\<lambda>v.
       bindA (liftA (zparse ''step'' stepResultSchema (or_null v))) (\<lambda>step.
       thenA (guardA (sr_runId step = st_runId s \<and> sr_phase step = p) ''Saved step does not match its run'')
       (if sr_evidence step = [] then throwA (Error (''Missing '' @ phase_name p @ '' evidence''))
        else let resource = last (sr_evidence step) in
          bindA (so_read ops (or_name resource) (Some (or_version resource))) (\<lambda>w. returnA (resource, w))))))"

definition measurementReferences :: "'st store_ops \<Rightarrow> run_state \<Rightarrow> phase \<Rightarrow> ('st, output_ref list) action" where
  "measurementReferences ops s p =
     bindA (stepResource ops s p) (\<lambda>(_, v).
     bindA (liftA (zparse ''comparison'' comparisonSchema (or_null v))) (\<lambda>c. returnA (sc_current c)))"

definition measurementRefs :: "string \<Rightarrow> output_ref list res" where
  "measurementRefs ids = mapR (\<lambda>label. case parse_label label of
     None \<Rightarrow> Inl (Error ''Invalid parent benchmark reference'') | Some r \<Rightarrow> Inr r) (js_split (CHR '','') ids)"

section \<open>Starting a run\<close>

definition config_name :: "string \<Rightarrow> string" where
  "config_name runId = runId @ ''-config''"

definition agents_name :: "string \<Rightarrow> string" where
  "agents_name runId = runId @ ''-agents-context''"

definition brief_name :: "string \<Rightarrow> string" where
  "brief_name runId = runId @ ''-experiment-brief''"

fun any_exists :: "'st store_ops \<Rightarrow> string list \<Rightarrow> ('st, bool) action" where
  "any_exists ops [] = returnA False"
| "any_exists ops (n # ns) = bindA (so_read ops n None) (\<lambda>v.
     if v \<noteq> None then returnA True else any_exists ops ns)"

definition fresh_identity :: "'st store_ops \<Rightarrow> string \<Rightarrow> ('st, unit) action" where
  "fresh_identity ops runId =
     refuseA (any_exists ops [state_name runId, config_name runId, agents_name runId, brief_name runId])
       ''Run already exists''"

text \<open>The directories of the run, and the snapshot it is started from.\<close>

definition check_paths :: "'st host \<Rightarrow> run_arguments \<Rightarrow> ('st, unit) action" where
  "check_paths h a =
     thenA (guardA (list_all is_absolute ([ra_directory a, ra_supportDirectory a, ra_credentialDirectory a] @
         ra_referenceRoots a)) ''Run paths must be absolute'')
     (bindA (real_parent h (ra_directory a)) (\<lambda>real.
      thenA (guardA (real = resolve_path [] (ra_directory a)) ''Run directory must not traverse a symlink'')
      (thenA (refuseA (anyA [real_differs h (ra_supportDirectory a) (ra_supportDirectory a),
          cwd_differs h (ra_supportDirectory a)]) ''Run the workflow from its selected support snapshot'')
      (bindA (env_get h ''SWAMP_REPO_DIR'') (\<lambda>selectedRepo.
       refuseA (anyA [env_set h ''SWAMP_SERVE_URL'', env_set h ''SWAMP_SERVER_URL'',
          repo_differs h selectedRepo (ra_supportDirectory a)])
         ''Run requires its selected local Swamp repository'')))))"

definition check_support :: "('st, 'z) services_scheme \<Rightarrow> run_arguments \<Rightarrow> ('st, manifest) action" where
  "check_support sv a =
     bindA (supportManifest (sv_host sv) (sv_crypto sv) (ra_supportDirectory a)) (\<lambda>manifest.
     thenA (guardA (mf_sha256 manifest = ra_supportSha256 a)
       ''Support snapshot does not match the approved manifest'')
     (thenA (verifyReviewedSupport (sv_host sv) (sv_crypto sv) (ra_repository a) (ra_supportRevision a)
        (ra_supportDirectory a) manifest) (returnA manifest)))"

definition parent_differs :: "(jsnum \<Rightarrow> string) \<Rightarrow> campaign \<Rightarrow> run_arguments \<Rightarrow> int \<Rightarrow> bool" where
  "parent_differs numstr c a now \<longleftrightarrow>
     (let p = rc_arguments (ca_config c) in
      ra_repository p \<noteq> ra_repository a \<or>
      json_text numstr (enc_policy (ra_policy p)) \<noteq> json_text numstr (enc_policy (ra_policy a)) \<or>
      ra_experimentBrief a \<noteq> ra_experimentBrief p \<or>
      json_text numstr (enc_parameters (ra_parameters p)) \<noteq> json_text numstr (enc_parameters (ra_parameters a)) \<or>
      json_text numstr (enc_limits (ra_limits p)) \<noteq> json_text numstr (enc_limits (ra_limits a)) \<or>
      ra_revision a \<noteq> ca_bestRevision c \<or>
      maxDurationMs (ra_limits a) \<le> now - ca_startedAtMs c \<or>
      maxAttempts (ra_limits a) \<le> ca_attemptsStarted c \<or>
      maxPiCalls (ra_limits a) \<le> ca_piCallsStarted c)"

definition check_parent :: "('st, 'z) services_scheme \<Rightarrow> run_arguments \<Rightarrow> int \<Rightarrow> ('st, campaign option) action" where
  "check_parent sv a now = (case ra_parentEvidence a of
     None \<Rightarrow> returnA None
   | Some bundle \<Rightarrow> bindA (verifyParentEvidence sv bundle) (\<lambda>c.
       thenA (guardA (\<not> parent_differs (sv_numstr sv) c a now)
         ''Parent campaign identity, policy or remaining budget differs'') (returnA (Some c))))"

definition read_agents :: "('st, 'z) services_scheme \<Rightarrow> run_arguments \<Rightarrow> ('st, context_file) action" where
  "read_agents sv a =
     (let h = sv_host sv; path = join_path (ra_repository a) ''AGENTS.md'' in
      bindA (h_lstat h path) (\<lambda>stat.
      thenA (guardA (fi_isFile stat \<and> \<not> fi_isSymlink stat) ''Project AGENTS.md must be a regular file'')
      (bindA (h_readFile h path) (\<lambda>bytes. case sv_utf8 sv bytes of
         None \<Rightarrow> throwA (Named ''TypeError'' ''The encoded data was not valid'')
       | Some t \<Rightarrow> returnA \<lparr>cf_runId = ra_runId a, cf_source = agents_source,
           cf_sha256 = cr_sha256 (sv_crypto sv) bytes, cf_text = t\<rparr>))))"

definition brief_of :: "('st, 'z) services_scheme \<Rightarrow> run_arguments \<Rightarrow> string \<Rightarrow> context_file" where
  "brief_of sv a t = \<lparr>cf_runId = ra_runId a, cf_source = brief_source,
     cf_sha256 = cr_sha256 (sv_crypto sv) t, cf_text = t\<rparr>"

definition write_brief :: "('st, 'z) services_scheme \<Rightarrow> run_arguments \<Rightarrow> ('st, output_ref list) action" where
  "write_brief sv a = (case ra_experimentBrief a of
     None \<Rightarrow> returnA []
   | Some t \<Rightarrow> bindA (liftA (zparse ''brief'' experimentBriefSchema (enc_context_file (brief_of sv a t)))) (\<lambda>brief.
       bindA (so_write (sv_store sv) ''inferenceInput'' (brief_name (ra_runId a)) (enc_context_file brief))
         (\<lambda>saved. returnA [saved])))"

text \<open>The saved state a run starts from: a new run, or the continuation of its parent.\<close>

definition start_state :: "run_arguments \<Rightarrow> campaign option \<Rightarrow> int \<Rightarrow> run_state res" where
  "start_state a parent now =
     bindR (newRun (ra_runId a) (ra_revision a)) (\<lambda>s. Inr (case parent of
       None \<Rightarrow> s
     | Some c \<Rightarrow> s\<lparr>st_initialRevision := (case ca_initial c of None \<Rightarrow> ra_revision a | Some m \<Rightarrow> me_revision m),
         st_bestRevision := ca_bestRevision c, st_attemptsStarted := ca_attemptsStarted c,
         st_piCallsStarted := ca_piCallsStarted c,
         st_elapsedMs := max (st_elapsedMs (ca_state c)) (now - ca_startedAtMs c)\<rparr>))"

record started_run =
  sd_config :: run_config
  sd_handles :: "output_ref list"

definition startRun :: "('st, 'z) services_scheme \<Rightarrow> json \<Rightarrow> int \<Rightarrow> ('st, started_run) action" where
  "startRun sv inp now =
     (let h = sv_host sv; ops = sv_store sv in
      bindA (liftA (zparse ''arguments'' runArgumentsSchema inp)) (\<lambda>args.
      thenA (fresh_identity ops (ra_runId args))
      (bindA (inspectCheckout h (ra_repository args)) (\<lambda>checkout.
       let a = args\<lparr>ra_repository := ck_path checkout\<rparr> in
       thenA (check_paths h a)
       (bindA (check_support sv a) (\<lambda>manifest.
        bindA (check_parent sv a now) (\<lambda>parent.
        bindA (read_agents sv a) (\<lambda>agents.
        thenA (h_mkdir h (ra_directory a) False)
        (bindA (currentCliVersion h) (\<lambda>cliVersion.
         bindA (liftA (zparse ''config'' runConfigSchema (enc_config
           \<lparr>rc_arguments = a, rc_startedAtMs = (case parent of None \<Rightarrow> now | Some c \<Rightarrow> ca_startedAtMs c),
            rc_supportManifest = manifest, rc_cliVersion = cliVersion,
            rc_dataDirectory = join_path (ra_supportDirectory a) ''.swamp''\<rparr>))) (\<lambda>config.
         bindA (so_write ops ''inferenceInput'' (agents_name (ra_runId a)) (enc_context_file agents)) (\<lambda>agentsContext.
         bindA (write_brief sv a) (\<lambda>brief.
         bindA (so_write ops ''runConfig'' (config_name (ra_runId a)) (enc_config config)) (\<lambda>saved.
         bindA (liftA (start_state a parent now)) (\<lambda>s.
         bindA (so_write ops ''state'' (state_name (ra_runId a)) (enc_state s)) (\<lambda>state.
         returnA \<lparr>sd_config = config, sd_handles = [agentsContext] @ brief @ [saved, state]\<rparr>))))))))))))))))"

end
