(* ===== verification/Run_Execute.thy ===== *)
theory Run_Execute
  imports Run_Start
begin

text \<open>
  Executing a run (\<^verbatim>\<open>executeRun\<close> of \<^verbatim>\<open>_lib/run.ts\<close>): the checks before it resumes, the loop over
  saved steps, and the final report. Before and after the effect of every step the support code is
  checked again. The loop takes fuel; the lemmas show that the fuel given always suffices, since
  every step spends from the limits and a failed finish ends the loop, and that on a store which
  only fails on malformed values the run comes to its end whatever the effects do.
\<close>

section \<open>The loop over the steps\<close>

definition checked_perform :: "('st, 'z) services_scheme \<Rightarrow> run_config \<Rightarrow>
    (run_state \<Rightarrow> run_config \<Rightarrow> ('st, step_effect) action) \<Rightarrow> 'st perform" where
  "checked_perform sv config perform active =
     thenA (checkRunSupport sv config)
     (bindA (perform active config) (\<lambda>effect.
      thenA (checkRunSupport sv config) (returnA effect)))"

definition elapsed_at :: "run_state \<Rightarrow> run_config \<Rightarrow> int \<Rightarrow> int" where
  "elapsed_at s config now = max (st_elapsedMs s) (now - rc_startedAtMs config)"

text \<open>One round of \<^verbatim>\<open>while (state.phase !== "done")\<close>, and the loop; \<open>None\<close> is fuel used up.\<close>

definition run_round :: "('st, 'z) services_scheme \<Rightarrow> run_config \<Rightarrow>
    (run_state \<Rightarrow> run_config \<Rightarrow> ('st, step_effect) action) \<Rightarrow> string \<Rightarrow> run_state \<Rightarrow> ('st, saved_step) action" where
  "run_round sv config perform runId s =
     thenA (checkRunSupport sv config)
     (bindA (h_now (sv_host sv)) (\<lambda>now.
      bindA (runSavedStep (sv_store sv) runId (ra_limits (rc_arguments config)) (elapsed_at s config now)
        (checked_perform sv config perform)) (\<lambda>result.
      thenA (guardA (\<not> (sr_phase (ss_record result) = PFinish \<and> st_phase (ss_state result) \<noteq> PDone))
        ''Cleanup failed; inspect the saved finish result before resuming'')
      (returnA result))))"

fun run_loop :: "('st, 'z) services_scheme \<Rightarrow> run_config \<Rightarrow>
    (run_state \<Rightarrow> run_config \<Rightarrow> ('st, step_effect) action) \<Rightarrow> string \<Rightarrow> nat \<Rightarrow> run_state \<Rightarrow> output_ref list \<Rightarrow>
    ('st, (run_state \<times> output_ref list) option) action" where
  "run_loop sv config perform runId 0 s latest =
     (if st_phase s = PDone then returnA (Some (s, latest)) else returnA None)"
| "run_loop sv config perform runId (Suc fuel) s latest =
     (if st_phase s = PDone then returnA (Some (s, latest))
      else bindA (run_round sv config perform runId s) (\<lambda>result.
        run_loop sv config perform runId fuel (ss_state result) (ss_handles result)))"

definition run_fuel :: "limits \<Rightarrow> nat" where
  "run_fuel l = nat (2 * maxAttempts l + 4 * maxPiCalls l + 5)"

section \<open>The report\<close>

text \<open>\<^verbatim>\<open>value?.key ?? null\<close>.\<close>

definition json_prop :: "json option \<Rightarrow> string \<Rightarrow> json" where
  "json_prop v k = (case v of Some (JObj kvs) \<Rightarrow> or_null (map_of kvs k) | _ \<Rightarrow> JNull)"

definition saved_step_of :: "'st store_ops \<Rightarrow> run_state \<Rightarrow> phase \<Rightarrow> ('st, step_record option) action" where
  "saved_step_of ops s p = (case st_outputs s p of
     None \<Rightarrow> returnA None
   | Some r \<Rightarrow> bindA (so_read ops (or_name r) (Some (or_version r))) (\<lambda>v.
       bindA (liftA (zparse ''step'' stepResultSchema (or_null v))) (\<lambda>step. returnA (Some step))))"

definition best_verified :: "step_record option \<Rightarrow> step_record option \<Rightarrow> bool" where
  "best_verified preparation baseline \<longleftrightarrow>
     (case preparation of Some p \<Rightarrow> sr_outcome p = Prepared | None \<Rightarrow> False) \<and>
     (case baseline of
        Some b \<Rightarrow> (case sr_outcome b of Measured _ valid _ _ _ \<Rightarrow> valid | _ \<Rightarrow> False)
      | None \<Rightarrow> False)"

definition report_valid :: "bool \<Rightarrow> run_state \<Rightarrow> bool" where
  "report_valid verified s \<longleftrightarrow> verified \<and> st_stopReason s \<noteq> Some ''invalid-measurement'' \<and>
     (case st_stopReason s of None \<Rightarrow> True | Some r \<Rightarrow> \<not> starts_with ''error:'' r)"

definition enc_report :: "run_config \<Rightarrow> string \<Rightarrow> run_state \<Rightarrow> bool \<Rightarrow> string option \<Rightarrow> json \<Rightarrow> json" where
  "enc_report config runId s verified unfinished workspace' =
     JObj [(''runId'', JStr runId), (''state'', enc_state s), (''diagnosticOnly'', JBool False),
       (''valid'', JBool (report_valid verified s)), (''bestRevision'', JStr (st_bestRevision s)),
       (''bestVerified'', JBool verified),
       (''unfinishedRevision'', j_nullable JStr
          (if unfinished = Some (st_bestRevision s) then None else unfinished)),
       (''workspace'', workspace'), (''directory'', JStr (ra_directory (rc_arguments config))),
       (''stopReason'', j_nullable JStr (st_stopReason s)), (''targetMet'', JBool (st_targetMet s))]"

text \<open>\<^verbatim>\<open>[...new Map(handles.map((handle) => [handle.name, handle])).values()]\<close>: the last one of a name,
  in the place of its first.\<close>

definition last_handles :: "output_ref list \<Rightarrow> output_ref list" where
  "last_handles hs = map (\<lambda>n. last (filter (\<lambda>r. or_name r = n) hs)) (rev (remdups (rev (map or_name hs))))"

definition report_run :: "('st, 'z) services_scheme \<Rightarrow> run_config \<Rightarrow> string \<Rightarrow> run_state \<Rightarrow> ('st, output_ref) action" where
  "report_run sv config runId s =
     (let ops = sv_store sv in
      bindA (stepResource ops s PFinish) (\<lambda>(_, finish).
      thenA (checkRunSupport sv config)
      (bindA (liftA (zparse ''revision'' (z_nullable revisionSchema) (json_prop finish ''unfinishedRevision'')))
        (\<lambda>unfinished.
       bindA (saved_step_of ops s PPrepare) (\<lambda>preparation.
       bindA (saved_step_of ops s PBaseline) (\<lambda>baseline.
       so_write ops ''runReport'' (runId @ ''-report'') (enc_report config runId s
         (best_verified preparation baseline) unfinished (json_prop finish ''workspace''))))))))"

section \<open>Executing a run\<close>

definition resume_state :: "('st, 'z) services_scheme \<Rightarrow> string \<Rightarrow> ('st, run_config \<times> run_state) action" where
  "resume_state sv runId =
     (let h = sv_host sv; ops = sv_store sv in
      bindA (so_read ops (config_name runId) (Some 1)) (\<lambda>v.
      bindA (liftA (zparse ''config'' runConfigSchema (or_null v))) (\<lambda>config.
      thenA (guardA (ra_runId (rc_arguments config) = runId) ''Run configuration identity differs'')
      (bindA (so_read ops (state_name runId) None) (\<lambda>w.
       bindA (liftA (zparse ''state'' runStateSchema (or_null w))) (\<lambda>s.
       thenA (checkRunSupport sv config)
       (bindA (currentCliVersion h) (\<lambda>version.
        thenA (guardA (version = rc_cliVersion config) ''Swamp CLI version changed before run or resume'')
        (thenA (guardA (st_runId s = runId) ''Saved progress belongs to another run'')
        (thenA (assertNotAbandoned h (ra_directory (rc_arguments config)))
        (thenA (guardA (st_activeStep s = None) ''Interrupted step requires explicit recovery before resuming'')
        (returnA (config, s)))))))))))))"

record executed_run =
  xr_state :: run_state
  xr_handles :: "output_ref list"

definition executeRun :: "('st, 'z) services_scheme \<Rightarrow> string \<Rightarrow>
    (run_state \<Rightarrow> run_config \<Rightarrow> ('st, step_effect) action) \<Rightarrow> ('st, executed_run option) action" where
  "executeRun sv runId perform =
     bindA (resume_state sv runId) (\<lambda>(config, s).
     bindA (run_loop sv config perform runId (run_fuel (ra_limits (rc_arguments config))) s []) (\<lambda>finished.
     case finished of
       None \<Rightarrow> returnA None
     | Some (s', latest) \<Rightarrow> bindA (report_run sv config runId s') (\<lambda>report.
         returnA (Some \<lparr>xr_state = s', xr_handles = last_handles (latest @ [report])\<rparr>))))"

section \<open>Every step spends from the limits\<close>

text \<open>What is left of the limits, also for a saved state beyond them.\<close>

definition work_left :: "limits \<Rightarrow> run_state \<Rightarrow> nat" where
  "work_left l s = 2 * nat (maxAttempts l - st_attemptsStarted s) + 4 * nat (maxPiCalls l - st_piCallsStarted s)
     + nat (phase_weight (st_phase s))"

lemma begin_active_work:
  assumes "begin_active s l e = Inr a"
  shows "int (work_left l a) + step_cost (st_phase a) \<le> int (work_left l s)"
proof -
  have "phase_weight (st_phase a) \<le> phase_weight (st_phase s)"
    using begin_active_cases(1,6) [OF assms]
    by (auto simp: wrapped_def phase_weight_def split: phase.split)
  moreover have "\<not> (st_phase a = PStartAttempt \<and> inference_phase (st_phase a))" by auto
  ultimately show ?thesis
    using begin_active_frame(11,12) [OF assms] begin_active_within(1,2) [OF assms]
      phase_weight_bounds(1) [of "st_phase a"]
    by (auto simp: work_left_def step_cost_def)
qed

lemma step_spends:
  assumes "begin_active s l e = Inr a" "finishStep a n oc out = Inr s'"
    "\<not> (st_phase a = PFinish \<and> st_phase s' \<noteq> PDone)"
  shows "work_left l s' < work_left l s"
proof -
  have "phase_weight (st_phase s') < phase_weight (st_phase a) + step_cost (st_phase a)"
    using finish_weight [OF assms(2)] begin_active_frame(10) [OF assms(1)] assms(3) by auto
  moreover have "int (work_left l s') = int (work_left l a) - phase_weight (st_phase a) + phase_weight (st_phase s')"
    using finishStep_frame [OF assms(2)] phase_weight_bounds(1) [of "st_phase a"] phase_weight_bounds(1) [of "st_phase s'"]
    by (simp add: work_left_def)
  ultimately show ?thesis using begin_active_work [OF assms(1)] by linarith
qed

lemma work_left_fuel:
  assumes "0 \<le> st_attemptsStarted s" "0 \<le> st_piCallsStarted s"
  shows "work_left l s \<le> run_fuel l \<or> maxAttempts l < 0 \<or> maxPiCalls l < 0"
proof -
  have "phase_weight (st_phase s) \<le> 5" by (cases "st_phase s") (simp_all add: phase_weight_def)
  with assms show ?thesis
    using phase_weight_bounds(1) [of "st_phase s"] by (auto simp: work_left_def run_fuel_def)
qed

section \<open>Actions that leave the run's resources alone\<close>

text \<open>
  The effects of a step and the checks between steps use resources of their own; the state and the
  step results of the run are written by the driver only.
\<close>

definition keeps :: "('st \<Rightarrow> string \<Rightarrow> json list) \<Rightarrow> string set \<Rightarrow> ('st, 'a) action \<Rightarrow> bool" where
  "keeps versions names m \<longleftrightarrow> (\<forall>st. \<forall>x \<in> names. versions (snd (m st)) x = versions st x)"

definition run_names :: "string \<Rightarrow> string set" where
  "run_names runId = insert (state_name runId) (range (step_name runId))"

lemma keepsD: "keeps versions names m \<Longrightarrow> m st = (r, st') \<Longrightarrow> x \<in> names \<Longrightarrow> versions st' x = versions st x"
  unfolding keeps_def by (metis snd_conv)

lemma keeps_returnA [simp]: "keeps versions names (returnA x)"
  by (simp add: keeps_def)

lemma keeps_bindA: "keeps versions names m \<Longrightarrow> (\<And>x. keeps versions names (f x)) \<Longrightarrow> keeps versions names (bindA m f)"
  by (auto simp: keeps_def bindA_def split: prod.splits sum.splits) (metis snd_conv)+

lemma keeps_thenA: "keeps versions names m \<Longrightarrow> keeps versions names k \<Longrightarrow> keeps versions names (thenA m k)"
  unfolding thenA_def by (rule keeps_bindA)

lemma keeps_checked: "keeps versions names (checkRunSupport sv config) \<Longrightarrow> keeps versions names (perform active config) \<Longrightarrow>
    keeps versions names (checked_perform sv config perform active)"
  unfolding checked_perform_def by (intro keeps_thenA keeps_bindA) simp_all

lemma keeps_performStep: "keeps versions names (perform a) \<Longrightarrow> keeps versions names (performStep n a perform)"
  using performStep_total unfolding keeps_def by (metis snd_conv)

lemma run_names_members [simp]: "state_name n \<in> run_names n" "step_name n k \<in> run_names n"
  by (auto simp: run_names_def)

context tempo_store
begin

lemma runSavedStep_keeps:
  assumes "runSavedStep ops n l e perform st = (Inr r, st')" "\<And>a. keeps versions (run_names n) (perform a)"
    and "st_sequence (ss_state r) \<noteq> k"
  shows "versions st' (step_name n k) = versions st (step_name n k)"
proof -
  from assms(1) obtain a started st1 eff st2 rec out st3 s' fin where
    res: "reserveSavedStep ops n l e st = (Inr (a, started), st1)"
    and perf: "performStep n a perform st1 = (Inr eff, st2)"
    and save: "saveStepResult ops n a eff st2 = (Inr (rec, out), st3)"
    and com: "commitStep ops n a (sr_outcome rec) out st3 = (Inr (s', fin), st')"
    and r: "r = \<lparr>ss_state = s', ss_record = rec, ss_handles = [started, out, fin]\<rparr>"
    by (auto simp: runSavedStep_def bindA_Inr split: prod.splits)
  have "versions st1 (step_name n k) = versions st (step_name n k)"
    by (rule reserveSavedStep_Inr [OF res]) (use state_write(2) in auto)
  moreover have "versions st2 (step_name n k) = versions st1 (step_name n k)"
    using keepsD [OF keeps_performStep [OF assms(2)] perf] by simp
  moreover from com have f: "finishStep a (st_sequence a) (sr_outcome rec) out = Inr s'"
    "so_write ops ''state'' (state_name n) (enc_state s') st3 = (Inr fin, st')"
    by (auto simp: commitStep_def bindA_Inr)
  moreover have "st_sequence a \<noteq> k" using finishStep_frame(7) [OF f(1)] assms(3) r by simp
  moreover from save have "so_write ops ''step'' (step_name n (st_sequence a)) (enc_step rec) st2 = (Inr out, st3)"
    by (auto simp: saveStepResult_def bindA_Inr parse_step_Inr)
  ultimately show ?thesis
    using state_write(2) [OF f(2)] step_write(2) by simp
qed

text \<open>A round that ends without an error is one transition from the state saved before it.\<close>

lemma run_round_Inr:
  assumes "run_round sv config perform n s st = (Inr r, st')" "sv_store sv = ops"
    and sv: "saved_state (versions st) n s"
    and check: "keeps versions (run_names n) (checkRunSupport sv config)"
    and clock: "keeps versions (run_names n) (h_now (sv_host sv))"
  obtains e a out st1 where "begin_active s (ra_limits (rc_arguments config)) e = Inr a"
    "finishStep a (st_sequence a) (sr_outcome (ss_record r)) out = Inr (ss_state r)"
    "saved_state (versions st') n (ss_state r)" "sr_phase (ss_record r) = st_phase a"
    "\<not> (st_phase a = PFinish \<and> st_phase (ss_state r) \<noteq> PDone)"
    "runSavedStep ops n (ra_limits (rc_arguments config)) e (checked_perform sv config perform) st1 = (Inr r, st')"
    "\<And>x. x \<in> run_names n \<Longrightarrow> versions st1 x = versions st x"
proof -
  from assms(1,2) obtain st0 now st1 where
    c: "checkRunSupport sv config st = (Inr (), st0)" "h_now (sv_host sv) st0 = (Inr now, st1)"
    and run: "runSavedStep ops n (ra_limits (rc_arguments config)) (elapsed_at s config now)
        (checked_perform sv config perform) st1 = (Inr r, st')"
    and fin: "\<not> (sr_phase (ss_record r) = PFinish \<and> st_phase (ss_state r) \<noteq> PDone)"
    by (auto simp: run_round_def run_simps)
  have same: "versions st1 x = versions st x" if "x \<in> run_names n" for x
    using keepsD [OF check c(1) that] keepsD [OF clock c(2) that] by simp
  then have sv1: "saved_state (versions st1) n s" using sv by (simp add: saved_state_def)
  obtain s1 a out where r: "saved_state (versions st1) n s1"
    "begin_active s1 (ra_limits (rc_arguments config)) (elapsed_at s config now) = Inr a"
    "finishStep a (st_sequence a) (sr_outcome (ss_record r)) out = Inr (ss_state r)"
    "saved_state (versions st') n (ss_state r)" "sr_phase (ss_record r) = st_phase a"
    by (rule runSavedStep_refines [OF run])
  from r(1) sv1 have "s1 = s" by (simp add: saved_state_def)
  with r fin run same show ?thesis by (intro that [of "elapsed_at s config now" a out st1]) auto
qed

text \<open>With the fuel it is given, the loop never runs dry; what it does is a run of the state machine.\<close>

lemma run_loop_run:
  assumes "run_loop sv config perform n fuel s latest st = (Inr x, st')" "sv_store sv = ops"
    and sv: "saved_state (versions st) n s"
    and check: "keeps versions (run_names n) (checkRunSupport sv config)"
    and clock: "keeps versions (run_names n) (h_now (sv_host sv))"
    and fuel: "work_left (ra_limits (rc_arguments config)) s \<le> fuel"
    and tr: "run_trace (ra_limits (rc_arguments config)) s0 tr s"
  shows "\<exists>s' handles tr'. x = Some (s', handles) \<and> st_phase s' = PDone \<and> saved_state (versions st') n s' \<and>
    run_trace (ra_limits (rc_arguments config)) s0 (tr @ tr') s'"
  using assms
proof (induction fuel arbitrary: s latest st tr)
  case 0
  then have "st_phase s = PDone" using phase_weight_bounds by (simp add: work_left_def) (metis antisym)
  with 0 show ?case by (intro exI [of _ s] exI [of _ latest] exI [of _ "[]"]) (auto simp: returnA_def)
next
  case (Suc fuel)
  show ?case
  proof (cases "st_phase s = PDone")
    case True
    with Suc.prems show ?thesis
      by (intro exI [of _ s] exI [of _ latest] exI [of _ "[]"]) (auto simp: returnA_def)
  next
    case False
    with Suc.prems(1) obtain r st1 where r: "run_round sv config perform n s st = (Inr r, st1)"
      and rest: "run_loop sv config perform n fuel (ss_state r) (ss_handles r) st1 = (Inr x, st')"
      by (auto simp: run_simps)
    obtain e a out st2 where t: "begin_active s (ra_limits (rc_arguments config)) e = Inr a"
      "finishStep a (st_sequence a) (sr_outcome (ss_record r)) out = Inr (ss_state r)"
      "saved_state (versions st1) n (ss_state r)"
      "\<not> (st_phase a = PFinish \<and> st_phase (ss_state r) \<noteq> PDone)"
      by (rule run_round_Inr [OF r Suc.prems(2-5)])
    have "work_left (ra_limits (rc_arguments config)) (ss_state r) \<le> fuel"
      using step_spends [OF t(1,2,4)] Suc.prems(6) by simp
    from Suc.IH [OF rest Suc.prems(2) t(3) Suc.prems(4,5) this run_trace.step [OF Suc.prems(7) t(1,2)]]
    show ?thesis by (metis append_assoc)
  qed
qed

end

section \<open>A run comes to its end\<close>

text \<open>The support code is as it was, and the clock tells a time after the start.\<close>

definition always :: "('st \<Rightarrow> string \<Rightarrow> json list) \<Rightarrow> string set \<Rightarrow> ('a \<Rightarrow> bool) \<Rightarrow> ('st, 'a) action \<Rightarrow> bool" where
  "always versions names ok m \<longleftrightarrow> keeps versions names m \<and> (\<forall>st. \<exists>x. fst (m st) = Inr x \<and> ok x)"

definition clock_ok :: "run_config \<Rightarrow> int \<Rightarrow> bool" where
  "clock_ok config now \<longleftrightarrow> now \<le> max_safe_integer \<and> 0 \<le> rc_startedAtMs config"

lemma alwaysD: "always versions names ok m \<Longrightarrow> \<exists>x st'. m st = (Inr x, st') \<and> ok x \<and> (\<forall>y \<in> names. versions st' y = versions st y)"
  unfolding always_def keeps_def by (metis surjective_pairing)

definition steps_free :: "(string \<Rightarrow> json list) \<Rightarrow> string \<Rightarrow> int \<Rightarrow> bool" where
  "steps_free vs n k \<longleftrightarrow> (\<forall>i > k. vs (step_name n i) = [])"

definition cleanup_failed :: js_error where
  "cleanup_failed = Error ''Cleanup failed; inspect the saved finish result before resuming''"

context driver_store
begin

lemma run_round_progress:
  assumes ops: "sv_store sv = ops" and sv: "saved_state (versions st) n s"
    and s: "st_activeStep s = None" "st_phase s \<noteq> PDone" "st_sequence s < max_safe_integer"
    and free: "steps_free (versions st) n (st_sequence s)"
    and lim: "limits_ok (ra_limits (rc_arguments config))"
    and check: "always versions (run_names n) (\<lambda>_. True) (checkRunSupport sv config)"
    and clock: "always versions (run_names n) (clock_ok config) (h_now (sv_host sv))"
    and perform: "\<And>a. keeps versions (run_names n) (perform a config)"
  shows "(\<exists>r st'. run_round sv config perform n s st = (Inr r, st') \<and> st_activeStep (ss_state r) = None \<and>
      st_sequence (ss_state r) = st_sequence s + 1 \<and> steps_free (versions st') n (st_sequence (ss_state r))) \<or>
    (\<exists>st'. run_round sv config perform n s st = (Inl cleanup_failed, st'))"
proof -
  let ?l = "ra_limits (rc_arguments config)"
  obtain st0 where c: "checkRunSupport sv config st = (Inr (), st0)" "\<forall>x \<in> run_names n. versions st0 x = versions st x"
    using alwaysD [OF check, of st] by auto
  obtain now st1 where t: "h_now (sv_host sv) st0 = (Inr now, st1)" "clock_ok config now"
    "\<forall>x \<in> run_names n. versions st1 x = versions st0 x"
    using alwaysD [OF clock, of st0] by auto
  have same: "versions st1 x = versions st x" if "x \<in> run_names n" for x using c(2) t(3) that by simp
  have sv1: "saved_state (versions st1) n s" using sv same by (simp add: saved_state_def)
  have ok: "state_ok s" using sv by (auto simp: saved_state_def bind_eq_Some_conv dest: runStateSchema_ok)
  let ?e = "elapsed_at s config now"
  have "progress_ok (progress_of s ?e)" "st_elapsedMs s \<le> ?e"
    using ok t(2) by (auto simp: progress_ok_def progress_of_def elapsed_at_def state_ok_def clock_ok_def
        z_count_def safe_integer_def)
  then obtain a where a: "begin_active s ?l ?e = Inr a" using begin_active_exists s(1,2) lim by blast
  have empty: "versions st1 (step_name n i) = []" if "st_sequence s < i" for i
    using free that same by (simp add: steps_free_def)
  have quiet: "keeps versions (run_names n) (checked_perform sv config perform b)" for b
    using check perform by (intro keeps_checked) (simp_all add: always_def)
  have "\<exists>r st'. runSavedStep ops n ?l ?e (checked_perform sv config perform) st1 = (Inr r, st')"
    using runSavedStep_total [OF sv1 a, of "checked_perform sv config perform"] empty begin_active_frame(8) [OF a] s(3)
      quiet keepsD [OF quiet] by (metis less_add_one run_names_members(2) surjective_pairing)
  then obtain r st' where r: "runSavedStep ops n ?l ?e (checked_perform sv config perform) st1 = (Inr r, st')" by blast
  obtain s1 b out where "saved_state (versions st1) n s1" "begin_active s1 ?l ?e = Inr b"
    "finishStep b (st_sequence b) (sr_outcome (ss_record r)) out = Inr (ss_state r)"
    by (rule runSavedStep_refines [OF r])
  then have seq: "st_sequence (ss_state r) = st_sequence s + 1" "st_activeStep (ss_state r) = None"
    using sv1 a begin_active_frame(8) [OF a] finishStep_frame(7,8) by (auto simp: saved_state_def)
  have "versions st' (step_name n i) = []" if "st_sequence s + 1 < i" for i
    using runSavedStep_keeps [OF r quiet, of i] seq(1) empty [of i] that by simp
  then have "steps_free (versions st') n (st_sequence (ss_state r))" by (simp add: steps_free_def seq)
  with r c(1) t(1) seq show ?thesis
    by (auto simp: run_round_def thenA_def bindA_def guardA_def throwA_def ops cleanup_failed_def)
qed

text \<open>
  Whatever the effects answer or throw, the loop ends: in the final state, or with a finish that
  failed. What it did is a run of the state machine, and its final state is the saved one.
\<close>

lemma run_loop_ends:
  assumes "sv_store sv = ops" "saved_state (versions st) n s" "st_activeStep s = None"
    and "st_sequence s + int fuel \<le> max_safe_integer" "steps_free (versions st) n (st_sequence s)"
    and "limits_ok (ra_limits (rc_arguments config))"
    and "always versions (run_names n) (\<lambda>_. True) (checkRunSupport sv config)"
    and "always versions (run_names n) (clock_ok config) (h_now (sv_host sv))"
    and "\<And>a. keeps versions (run_names n) (perform a config)"
    and "work_left (ra_limits (rc_arguments config)) s \<le> fuel"
    and "run_trace (ra_limits (rc_arguments config)) s0 tr s"
  shows "(\<exists>s' handles st' tr'. run_loop sv config perform n fuel s latest st = (Inr (Some (s', handles)), st') \<and>
      st_phase s' = PDone \<and> saved_state (versions st') n s' \<and>
      run_trace (ra_limits (rc_arguments config)) s0 (tr @ tr') s') \<or>
    (\<exists>st'. run_loop sv config perform n fuel s latest st = (Inl cleanup_failed, st'))"
proof -
  have keeps: "keeps versions (run_names n) (checkRunSupport sv config)"
    "keeps versions (run_names n) (h_now (sv_host sv))"
    using assms(7,8) by (simp_all add: always_def)
  have "(\<exists>x st'. run_loop sv config perform n fuel s latest st = (Inr x, st')) \<or>
      (\<exists>st'. run_loop sv config perform n fuel s latest st = (Inl cleanup_failed, st'))"
    using assms(2-6,10,11)
  proof (induction fuel arbitrary: s latest st tr)
    case 0
    then show ?case by (auto simp: returnA_def)
  next
    case (Suc fuel)
    show ?case
    proof (cases "st_phase s = PDone")
      case True
      then show ?thesis by (auto simp: returnA_def)
    next
      case False
      have "st_sequence s < max_safe_integer" using Suc.prems(3) by simp
      from run_round_progress [where config = config and perform = perform and sv = sv and n = n and s = s
          and st = st, OF assms(1) Suc.prems(1,2) False this Suc.prems(4,5) assms(7,8,9)]
      consider (step) r st1 where "run_round sv config perform n s st = (Inr r, st1)"
          "st_activeStep (ss_state r) = None" "st_sequence (ss_state r) = st_sequence s + 1"
          "steps_free (versions st1) n (st_sequence (ss_state r))"
        | (failed) st1 where "run_round sv config perform n s st = (Inl cleanup_failed, st1)" by blast
      then show ?thesis
      proof cases
        case step
        obtain e a out where t: "begin_active s (ra_limits (rc_arguments config)) e = Inr a"
          "finishStep a (st_sequence a) (sr_outcome (ss_record r)) out = Inr (ss_state r)"
          "saved_state (versions st1) n (ss_state r)"
          "\<not> (st_phase a = PFinish \<and> st_phase (ss_state r) \<noteq> PDone)"
          by (rule run_round_Inr [OF step(1) assms(1) Suc.prems(1) keeps])
        have "work_left (ra_limits (rc_arguments config)) (ss_state r) \<le> fuel"
          using step_spends [OF t(1,2,4)] Suc.prems(6) by simp
        moreover have "st_sequence (ss_state r) + int fuel \<le> max_safe_integer" using Suc.prems(3) step(3) by simp
        ultimately show ?thesis
          using Suc.IH [OF t(3) step(2) _ step(4) Suc.prems(5) _ run_trace.step [OF Suc.prems(7) t(1,2)]] False step(1)
          by (simp add: bindA_def)
      next
        case failed
        with False show ?thesis by (simp add: bindA_def)
      qed
    qed
  qed
  then show ?thesis
    using run_loop_run [OF _ assms(1,2) keeps assms(10,11)] by metis
qed

end

end
