(* ===== verification/World.thy ===== *)
theory World
  imports Run_Execute Tempo_Store
begin

text \<open>
  The in-memory store beside the rest of the world the host and the effects of the steps work on:
  another instance of the store interfaces, for the functions that use both.
\<close>

section \<open>The store beside the rest of the world\<close>

text \<open>
  The host and the effects of the steps work on a world of their own; the store operations leave it
  alone.
\<close>

definition on_store :: "('m, 'a) action \<Rightarrow> ('m \<times> 'w, 'a) action" where
  "on_store m = (\<lambda>(ms, w). case m ms of (r, ms') \<Rightarrow> (r, (ms', w)))"

definition world_ops :: "(mem_store \<times> 'w) store_ops" where
  "world_ops = \<lparr>so_write = \<lambda>spec name v. on_store (mem_write tempo_resources spec name v),
     so_read = \<lambda>name v. on_store (mem_read name v)\<rparr>"

lemma on_store_run: "on_store m st = (r, st') \<longleftrightarrow> m (fst st) = (r, fst st') \<and> snd st' = snd st"
  by (cases st; cases st') (auto simp: on_store_def split: prod.splits)

interpretation world: reliable_store world_ops "fst :: mem_store \<times> 'w \<Rightarrow> mem_store" "table_normal tempo_resources"
proof
  fix name v r spec val ref' e w and st st' :: "mem_store \<times> 'w"
  note ops = world_ops_def mem_ops_def on_store_run
  show "so_read world_ops name v st = (r, st') \<Longrightarrow>
      st' = st \<and> (case r of Inl _ \<Rightarrow> True | Inr x \<Rightarrow> x = version_at (fst st name) v)"
    by (cases st; cases st') (auto simp: world_ops_def mem_read_def on_store_def)
  show "so_write world_ops spec name val st = (Inr ref', st') \<Longrightarrow>
      (\<exists>w. table_normal tempo_resources spec val = Some w \<and> fst st' = (fst st)(name := fst st name @ [w])) \<and>
      or_name ref' = name \<and> or_version ref' = int (length (fst st name)) + 1"
    using mem.write_appends [of tempo_resources spec name val "fst st" ref' "fst st'"] by (simp add: ops)
  show "so_write world_ops spec name val st = (Inl e, st') \<Longrightarrow> fst st' = fst st"
    using mem.write_fails [of tempo_resources spec name val "fst st" e "fst st'"] by (simp add: ops)
  show "\<exists>x. so_read world_ops name v st = (Inr x, st)"
    using mem.read_succeeds [of tempo_resources name v "fst st"] by (simp add: ops)
  show "table_normal tempo_resources spec val = Some w \<Longrightarrow>
      \<exists>ref' st'. so_write world_ops spec name val st = (Inr ref', st')"
    using mem.write_succeeds [of tempo_resources spec val w name "fst st"]
    by (auto simp: ops)
qed

interpretation world_driver: driver_store world_ops "fst :: mem_store \<times> 'w \<Rightarrow> mem_store"
  "table_normal tempo_resources"
  unfolding driver_store_def tempo_store_def tempo_store_axioms_def
  using world.reliable_store_axioms world.resource_store_axioms by (simp add: tempo_normal)

end
