(* ===== verification/Execute_Claims.thy ===== *)
theory Execute_Claims
  imports World
begin

text \<open>
  Starting and executing a run, on the store with the resource kinds of \<^verbatim>\<open>tempo.ts\<close> beside the rest
  of the world: where a started run begins, and that an executed one comes to its end.
\<close>

section \<open>What the host leaves alone\<close>

lemma keeps_liftA [simp]: "keeps versions names (liftA r)"
  by (simp add: keeps_def)

lemma keeps_Pair [simp]: "keeps versions names (Pair r)"
  by (simp add: keeps_def)

lemma keeps_throwA [simp]: "keeps versions names (throwA e)"
  by (simp add: keeps_def throwA_def)

lemma keeps_guardA [simp]: "keeps versions names (guardA ok message)"
  by (simp add: guardA_def)

lemma keeps_catchA: "keeps versions names m \<Longrightarrow> (\<And>e. keeps versions names (f e)) \<Longrightarrow> keeps versions names (catchA m f)"
  by (auto simp: keeps_def catchA_def split: prod.splits sum.splits) (metis snd_conv)+

lemma keeps_mapA: "(\<And>x. keeps versions names (f x)) \<Longrightarrow> keeps versions names (mapA f xs)"
  by (induction xs) (auto intro!: keeps_bindA)

lemma keeps_anyA: "(\<And>c. c \<in> set cs \<Longrightarrow> keeps versions names c) \<Longrightarrow> keeps versions names (anyA cs)"
  by (induction cs) (auto intro!: keeps_bindA)

text \<open>The host and the check of the parent do not write resources of the run.\<close>

definition surroundings_keep :: "('st \<Rightarrow> string \<Rightarrow> json list) \<Rightarrow> string set \<Rightarrow> ('st, 'z) services_scheme \<Rightarrow> bool" where
  "surroundings_keep versions names sv \<longleftrightarrow>
     (let h = sv_host sv in
      (\<forall>p. keeps versions names (h_realPath h p) \<and> keeps versions names (h_lstat h p) \<and>
         keeps versions names (h_stat h p) \<and> keeps versions names (h_readDir h p) \<and>
         keeps versions names (h_readFile h p) \<and> keeps versions names (h_mkdir h p False)) \<and>
      (\<forall>c. keeps versions names (h_output h c)) \<and>
      keeps versions names (h_environ h) \<and> keeps versions names (h_cwd h) \<and> keeps versions names (h_now h))"

lemma surroundings_keepD:
  assumes "surroundings_keep versions names sv"
  shows "keeps versions names (h_realPath (sv_host sv) p)" "keeps versions names (h_lstat (sv_host sv) p)"
    "keeps versions names (h_stat (sv_host sv) p)" "keeps versions names (h_readDir (sv_host sv) p)"
    "keeps versions names (h_readFile (sv_host sv) p)" "keeps versions names (h_output (sv_host sv) c)"
    "keeps versions names (h_environ (sv_host sv))" "keeps versions names (h_cwd (sv_host sv))"
    "keeps versions names (h_now (sv_host sv))" "keeps versions names (h_mkdir (sv_host sv) p False)"
  using assms by (simp_all add: surroundings_keep_def Let_def)

lemma keeps_visit_support:
  assumes "surroundings_keep versions names sv"
  shows "keeps versions names (visit_support (sv_host sv) f depth directory path)"
proof (induction depth arbitrary: path)
  case (Suc depth)
  then show ?case
    by (auto simp: Let_def intro!: keeps_bindA keeps_mapA surroundings_keepD [OF assms])
qed simp

lemma keeps_forA: "(\<And>x. keeps versions names (f x)) \<Longrightarrow> keeps versions names (forA f xs)"
  by (induction xs) (auto intro!: keeps_thenA)

lemma keeps_resolveA: "surroundings_keep versions names sv \<Longrightarrow> keeps versions names (resolveA (sv_host sv) p)"
  by (auto simp: resolveA_def intro!: keeps_bindA surroundings_keepD)

lemma keeps_getSwampRecord:
  "surroundings_keep versions names sv \<Longrightarrow> keeps versions names (getSwampRecord sv repository r)"
  by (auto simp: getSwampRecord_def Let_def intro!: keeps_bindA keeps_thenA keeps_resolveA surroundings_keepD)

lemma keeps_check_logs:
  "surroundings_keep versions names sv \<Longrightarrow> keeps versions names (check_logs sv directory seen lgs)"
  by (induction lgs arbitrary: seen)
    (auto simp: check_log_def Let_def intro!: keeps_bindA keeps_thenA surroundings_keepD)

lemma keeps_open_parent:
  assumes "surroundings_keep versions names sv"
  shows "keeps versions names (open_parent sv path digest)"
proof -
  have "keeps versions names (read_bundle sv path digest)"
    by (auto simp: read_bundle_def intro!: keeps_bindA keeps_thenA surroundings_keepD [OF assms])
  moreover have "keeps versions names (assertParentStopped (sv_host sv) n)" for n
    by (auto simp: assertParentStopped_def intro!: keeps_bindA surroundings_keepD [OF assms])
  moreover have "keeps versions names (check_latest sv ev)" for ev
    by (auto simp: check_latest_def Let_def intro!: keeps_bindA keeps_thenA surroundings_keepD [OF assms])
  moreover have "keeps versions names (check_live sv ev r)" for ev r
    by (auto simp: check_live_def intro!: keeps_bindA keeps_getSwampRecord [OF assms])
  moreover have "keeps versions names (check_snapshot sv d c t)" for d c t
    by (auto simp: check_snapshot_def supportManifest_def Let_def
        intro!: keeps_bindA keeps_mapA keeps_visit_support [OF assms])
  ultimately show ?thesis
    by (auto simp: open_parent_def intro!: keeps_bindA keeps_thenA keeps_check_logs [OF assms])
qed

lemma keeps_settle_parent:
  assumes "surroundings_keep versions names sv"
  shows "keeps versions names (settle_parent sv digest op preceding)"
proof -
  have "keeps versions names (check_terminal sv op)"
    by (auto simp: check_terminal_def check_receipt_def Let_def
        intro!: keeps_bindA keeps_thenA surroundings_keepD [OF assms] split: option.split)
  then show ?thesis by (auto simp: settle_parent_def intro!: keeps_bindA keeps_thenA)
qed

lemma keeps_verifyParentEvidence:
  assumes "surroundings_keep versions names sv"
  shows "keeps versions names (verifyParentEvidence sv b)"
proof -
  have "keeps versions names (verify_chain sv depth visited c)" for depth visited c
  proof (induction depth arbitrary: visited c)
    case (Suc depth)
    then show ?case
      by (auto simp: exact_bundle_def intro!: keeps_bindA keeps_thenA keeps_open_parent [OF assms]
          keeps_settle_parent [OF assms] keeps_resolveA [OF assms] split: option.split)
  qed simp
  then show ?thesis by (simp add: verifyParentEvidence_def)
qed

lemma keeps_checkRunSupport:
  assumes "surroundings_keep versions names sv"
  shows "keeps versions names (checkRunSupport sv config)"
  by (auto simp: checkRunSupport_def refuseA_def real_differs_def cwd_differs_def env_set_def repo_differs_def
      env_get_def verifySupport_def supportManifest_def Let_def
      intro!: keeps_bindA keeps_thenA keeps_anyA keeps_mapA keeps_visit_support keeps_verifyParentEvidence
        surroundings_keepD [OF assms] assms split: option.split)

lemma keeps_currentCliVersion:
  "surroundings_keep versions names sv \<Longrightarrow> keeps versions names (currentCliVersion (sv_host sv))"
  by (auto simp: currentCliVersion_def intro!: keeps_bindA keeps_thenA surroundings_keepD)

lemma keeps_assertNotAbandoned:
  "surroundings_keep versions names sv \<Longrightarrow> keeps versions names (assertNotAbandoned (sv_host sv) p)"
  by (auto simp: assertNotAbandoned_def absentA_def tryA_def intro!: keeps_bindA keeps_thenA keeps_catchA surroundings_keepD)

lemma keeps_git: "surroundings_keep versions names sv \<Longrightarrow> keeps versions names (git (sv_host sv) cwd args)"
  by (auto simp: git_def intro!: keeps_bindA surroundings_keepD)

lemma keeps_inspectCheckout:
  "surroundings_keep versions names sv \<Longrightarrow> keeps versions names (inspectCheckout (sv_host sv) p)"
  by (auto simp: inspectCheckout_def worktree_status_def intro!: keeps_bindA keeps_thenA keeps_git surroundings_keepD)

lemma keeps_check_paths:
  assumes "surroundings_keep versions names sv"
  shows "keeps versions names (check_paths (sv_host sv) a)"
  by (auto simp: check_paths_def refuseA_def real_differs_def cwd_differs_def env_set_def repo_differs_def
      env_get_def real_parent_def Let_def
      intro!: keeps_bindA keeps_thenA keeps_anyA keeps_resolveA surroundings_keepD [OF assms] assms split: option.split)

lemma keeps_check_support:
  assumes "surroundings_keep versions names sv"
  shows "keeps versions names (check_support sv a)"
proof -
  have "keeps versions names (forA (check_blob (sv_host sv) cr blobs directory) fs)" for cr blobs directory fs
    by (auto simp: check_blob_def intro!: keeps_forA keeps_bindA surroundings_keepD [OF assms])
  then show ?thesis
    by (auto simp: check_support_def supportManifest_def verifyReviewedSupport_def review_git_def Let_def
        intro!: keeps_bindA keeps_thenA keeps_mapA keeps_visit_support surroundings_keepD [OF assms] assms)
qed

lemma keeps_check_parent: "surroundings_keep versions names sv \<Longrightarrow> keeps versions names (check_parent sv a now)"
  by (auto simp: check_parent_def intro!: keeps_bindA keeps_thenA keeps_verifyParentEvidence split: option.split)

lemma keeps_read_agents: "surroundings_keep versions names sv \<Longrightarrow> keeps versions names (read_agents sv a)"
  by (auto simp: read_agents_def Let_def intro!: keeps_bindA keeps_thenA surroundings_keepD split: option.split)

section \<open>Resuming\<close>

lemma runConfigSchema_ok:
  assumes "runConfigSchema v = Some c"
  shows "limits_ok (ra_limits (rc_arguments c))" "z_positive (rc_startedAtMs c)"
    "campaign_id_ok (ra_runId (rc_arguments c))"
proof -
  from assms obtain w w' where "runArgumentsSchema w = Some (rc_arguments c)"
      "z_int_if z_positive w' = Some (rc_startedAtMs c)"
    by (auto simp: runConfigSchema_def z_strict_def bind_eq_Some_conv split: json.splits if_splits
        elim!: z_fieldE)
  then show "limits_ok (ra_limits (rc_arguments c))" "z_positive (rc_startedAtMs c)"
    "campaign_id_ok (ra_runId (rc_arguments c))"
    by (auto simp: runArgumentsSchema_def bind_eq_Some_conv split: if_splits
        dest!: z_strict_SomeD dest: argument_body_ok z_int_if_Some)
qed

context tempo_store
begin

lemma resume_state_Inr:
  assumes "resume_state sv n st = (Inr (config, s), st')" "sv_store sv = ops"
    and keep: "surroundings_keep versions (run_names n) sv"
  shows "saved_state (versions st') n s" "st_activeStep s = None" "limits_ok (ra_limits (rc_arguments config))"
    "z_positive (rc_startedAtMs config)" "ra_runId (rc_arguments config) = n" "state_ok s"
    "\<And>x. x \<in> run_names n \<Longrightarrow> versions st' x = versions st x"
proof -
  from assms(1,2) obtain v st1 w st2 st3 version st4 where
    c: "so_read ops (config_name n) (Some 1) st = (Inr v, st1)" "runConfigSchema (or_null v) = Some config"
      "ra_runId (rc_arguments config) = n"
    and s: "so_read ops (state_name n) None st1 = (Inr w, st2)" "runStateSchema (or_null w) = Some s"
      "st_runId s = n" "st_activeStep s = None"
    and h: "checkRunSupport sv config st2 = (Inr (), st3)"
      "currentCliVersion (sv_host sv) st3 = (Inr version, st4)"
      "assertNotAbandoned (sv_host sv) (ra_directory (rc_arguments config)) st4 = (Inr (), st')"
    by (auto simp: resume_state_def Let_def run_simps res_simps)
  have st: "st1 = st" "st2 = st" "w = version_at (versions st (state_name n)) None"
    using read_Inr [OF c(1)] read_Inr [OF s(1)] by auto
  show same: "versions st' x = versions st x" if "x \<in> run_names n" for x
    using keepsD [OF keeps_checkRunSupport [OF keep] h(1) that] keepsD [OF keeps_currentCliVersion [OF keep] h(2) that]
      keepsD [OF keeps_assertNotAbandoned [OF keep] h(3) that] st by simp
  show ok: "state_ok s" using s(2) by (rule runStateSchema_ok)
  from s(2) obtain y where "w = Some y" by (cases w) (auto simp: runStateSchema_def z_strict_def)
  then have "Option.bind (version_at (versions st' (state_name n)) None) runStateSchema = Some s"
    using same [of "state_name n"] st(3) s(2) by simp
  with s(3) ok show "saved_state (versions st') n s" by (auto simp: saved_state_def state_ok_def)
  show "st_activeStep s = None" "ra_runId (rc_arguments config) = n" by fact+
  show "limits_ok (ra_limits (rc_arguments config))" "z_positive (rc_startedAtMs config)"
    using runConfigSchema_ok [OF c(2)] by simp_all
qed

end

section \<open>Starting\<close>

text \<open>The store of a run also keeps its configuration as it was written.\<close>

locale run_store = tempo_store +
  assumes config_normal:
    "normal ''runConfig'' (enc_config c) = (if config_ok c then Some (enc_config c) else None)"
begin

lemma any_exists_Inr:
  assumes "any_exists ops ns st = (Inr b, st')"
  shows "st' = st \<and> (\<not> b \<longrightarrow> (\<forall>n \<in> set ns. versions st n = []))"
  using assms
proof (induction ns arbitrary: st)
  case (Cons n ns)
  then obtain v st1 where r: "so_read ops n None st = (Inr v, st1)"
    and rest: "(if v \<noteq> None then returnA True else any_exists ops ns) st1 = (Inr b, st')"
    by (auto simp: run_simps)
  from read_Inr [OF r] rest Cons.IH [of st1] show ?case by (auto simp: returnA_def split: if_splits)
qed (simp add: returnA_def)

lemma write_brief_versions:
  assumes "write_brief sv a st = (Inr refs, st')" "sv_store sv = ops" "x \<noteq> brief_name (ra_runId a)"
  shows "versions st' x = versions st x"
proof (cases "ra_experimentBrief a")
  case None
  with assms show ?thesis by (simp add: write_brief_def returnA_def)
next
  case (Some t)
  with assms(1,2) obtain b r where "so_write ops ''inferenceInput'' (brief_name (ra_runId a)) b st = (Inr r, st')"
    by (auto simp: write_brief_def run_simps)
  then show ?thesis by (rule write_Inr) (use assms(3) in simp)
qed

lemma run_resource_names [simp]:
  "config_name n \<noteq> state_name n" "state_name n \<noteq> config_name n"
  "config_name n \<noteq> agents_name n" "state_name n \<noteq> agents_name n"
  "config_name n \<noteq> brief_name n" "state_name n \<noteq> brief_name n"
  by (simp_all add: config_name_def state_name_def agents_name_def brief_name_def)

lemma start_writes:
  assumes "so_write ops ''inferenceInput'' (agents_name (ra_runId b)) v st = (Inr ac, st1)"
    and brief: "write_brief sv b st1 = (Inr brief, st2)" "sv_store sv = ops"
    and "so_write ops ''runConfig'' (config_name (ra_runId b)) (enc_config config) st2 = (Inr saved, st3)"
    and "so_write ops ''state'' (state_name (ra_runId b)) (enc_state s) st3 = (Inr sref, st')"
    and free: "versions st (config_name (ra_runId b)) = []" "versions st (state_name (ra_runId b)) = []"
  shows "versions st' (config_name (ra_runId b)) = [enc_config config]"
    "versions st' (state_name (ra_runId b)) = [enc_state s]" "state_ok s"
proof -
  let ?n = "ra_runId b"
  obtain u where "versions st1 = (versions st)(agents_name ?n := versions st (agents_name ?n) @ [u])"
    by (rule write_Inr [OF assms(1)])
  then have "versions st2 x = versions st x" if "x \<noteq> agents_name ?n" "x \<noteq> brief_name ?n" for x
    using write_brief_versions [OF brief, of x] that by simp
  then have two: "versions st2 (config_name ?n) = []" "versions st2 (state_name ?n) = []" using free by simp_all
  obtain w where w: "normal ''runConfig'' (enc_config config) = Some w"
    "versions st3 = (versions st2)(config_name ?n := versions st2 (config_name ?n) @ [w])"
    by (rule write_Inr [OF assms(4)])
  obtain z where z: "normal ''state'' (enc_state s) = Some z"
    "versions st' = (versions st3)(state_name ?n := versions st3 (state_name ?n) @ [z])"
    by (rule write_Inr [OF assms(5)])
  from w z two show "versions st' (config_name ?n) = [enc_config config]"
    "versions st' (state_name ?n) = [enc_state s]" "state_ok s"
    by (auto simp: config_normal state_normal split: if_splits)
qed

lemma startRun_Inr:
  assumes "startRun sv inp now st = (Inr r, st')" "sv_store sv = ops" "surroundings_keep versions UNIV sv"
  defines "a \<equiv> rc_arguments (sd_config r)"
  defines "n \<equiv> ra_runId a"
  obtains args parent s st1 st2 where "runArgumentsSchema inp = Some args" "a = args\<lparr>ra_repository := ra_repository a\<rparr>"
    "versions st (config_name n) = []" "versions st (state_name n) = []"
    "check_parent sv a now st1 = (Inr parent, st2)" "config_ok (sd_config r)"
    "rc_startedAtMs (sd_config r) = (case parent of None \<Rightarrow> now | Some c \<Rightarrow> ca_startedAtMs c)"
    "start_state a parent now = Inr s" "state_ok s"
    "versions st' (config_name n) = [enc_config (sd_config r)]" "versions st' (state_name n) = [enc_state s]"
proof -
  note keep = assms(3)
  from assms(1,2) obtain args st1 checkout st2 b st3 manifest st4 parent st5 agents st6 st7 version st8 config
      ac st9 brief st10 saved st11 s sref where
    args: "runArgumentsSchema inp = Some args"
    and fresh: "fresh_identity ops (ra_runId args) st = (Inr (), st1)"
    and ck: "inspectCheckout (sv_host sv) (ra_repository args) st1 = (Inr checkout, st2)"
    and b: "b = args\<lparr>ra_repository := ck_path checkout\<rparr>"
    and paths: "check_paths (sv_host sv) b st2 = (Inr (), st3)"
    and sup: "check_support sv b st3 = (Inr manifest, st4)"
    and par: "check_parent sv b now st4 = (Inr parent, st5)"
    and ag: "read_agents sv b st5 = (Inr agents, st6)"
    and dir: "h_mkdir (sv_host sv) (ra_directory b) False st6 = (Inr (), st7)"
    and ver: "currentCliVersion (sv_host sv) st7 = (Inr version, st8)"
    and cfg: "runConfigSchema (enc_config \<lparr>rc_arguments = b,
        rc_startedAtMs = (case parent of None \<Rightarrow> now | Some c \<Rightarrow> ca_startedAtMs c),
        rc_supportManifest = manifest, rc_cliVersion = version,
        rc_dataDirectory = join_path (ra_supportDirectory b) ''.swamp''\<rparr>) = Some config"
    and w1: "so_write ops ''inferenceInput'' (agents_name (ra_runId b)) (enc_context_file agents) st8 = (Inr ac, st9)"
    and w2: "write_brief sv b st9 = (Inr brief, st10)"
    and w3: "so_write ops ''runConfig'' (config_name (ra_runId b)) (enc_config config) st10 = (Inr saved, st11)"
    and s: "start_state b parent now = Inr s"
    and w4: "so_write ops ''state'' (state_name (ra_runId b)) (enc_state s) st11 = (Inr sref, st')"
    and r: "sd_config r = config"
    by (auto simp: startRun_def Let_def run_simps res_simps)
  have config: "config_ok config" "config = \<lparr>rc_arguments = b,
        rc_startedAtMs = (case parent of None \<Rightarrow> now | Some c \<Rightarrow> ca_startedAtMs c),
        rc_supportManifest = manifest, rc_cliVersion = version,
        rc_dataDirectory = join_path (ra_supportDirectory b) ''.swamp''\<rparr>"
    using cfg by (simp_all add: runConfigSchema_enc split: if_splits)
  have a: "a = b" "n = ra_runId args" using config r b by (simp_all add: a_def n_def)
  from fresh have f: "st1 = st" "versions st (config_name n) = []" "versions st (state_name n) = []"
    unfolding a(2) fresh_identity_def refuseA_def
    by (auto simp: run_simps simp del: any_exists.simps dest!: any_exists_Inr)
  have same: "versions st8 x = versions st x" for x
    using keepsD [OF keeps_inspectCheckout [OF keep] ck, of x] keepsD [OF keeps_check_paths [OF keep] paths, of x]
      keepsD [OF keeps_check_support [OF keep] sup, of x] keepsD [OF keeps_check_parent [OF keep] par, of x]
      keepsD [OF keeps_read_agents [OF keep] ag, of x] keepsD [OF surroundings_keepD(10) [OF keep] dir, of x]
      keepsD [OF keeps_currentCliVersion [OF keep] ver, of x] f(1) by simp
  have id: "ra_runId b = n" using a b by simp
  note start_writes [OF w1 w2 assms(2) w3 w4, unfolded id same, OF f(2,3)]
  then show ?thesis
    using args b a f par config r s by (intro that [of args st4 parent st5 s]) simp_all
qed

end

interpretation world_run: run_store world_ops "fst :: mem_store \<times> 'w \<Rightarrow> mem_store"
  "table_normal tempo_resources"
  unfolding run_store_def run_store_axioms_def using world_driver.tempo_store_axioms by (simp add: run_normal)

lemma check_parent_None: "check_parent sv a now st = (Inr None, st') \<Longrightarrow> ra_parentEvidence a = None"
  by (auto simp: check_parent_def run_simps split: option.splits)

lemma check_parent_Some:
  assumes "check_parent sv a now st = (Inr (Some c), st')"
  obtains b where "ra_parentEvidence a = Some b" "verifyParentEvidence sv b st = (Inr c, st')"
    "\<not> parent_differs (sv_numstr sv) c a now"
  using assms by (auto simp: check_parent_def run_simps split: option.splits)

lemma start_state_Inr:
  assumes "start_state a parent now = Inr s"
  shows "st_runId s = ra_runId a" "run_id_ok (ra_runId a)" "st_workingRevision s = ra_revision a"
    "st_phase s = PPrepare" "st_activeStep s = None" "st_sequence s = 0" "\<not> st_targetMet s" "st_stopReason s = None"
    "st_repairsThisAttempt s = 0" "st_outputs s = (\<lambda>_. None)"
    "st_bestRevision s = (case parent of None \<Rightarrow> ra_revision a | Some c \<Rightarrow> ca_bestRevision c)"
    "st_attemptsStarted s = (case parent of None \<Rightarrow> 0 | Some c \<Rightarrow> ca_attemptsStarted c)"
    "st_piCallsStarted s = (case parent of None \<Rightarrow> 0 | Some c \<Rightarrow> ca_piCallsStarted c)"
proof -
  obtain s0 where s0: "newRun (ra_runId a) (ra_revision a) = Inr s0"
    using assms by (auto simp: start_state_def bindR_eq_Inr)
  then have f: "st_runId s0 = ra_runId a" "run_id_ok (ra_runId a)" "st_workingRevision s0 = ra_revision a"
    "st_phase s0 = PPrepare" "st_activeStep s0 = None" "st_sequence s0 = 0" "\<not> st_targetMet s0"
    "st_stopReason s0 = None" "st_repairsThisAttempt s0 = 0" "st_outputs s0 = (\<lambda>_. None)"
    "st_bestRevision s0 = ra_revision a" "st_attemptsStarted s0 = 0" "st_piCallsStarted s0 = 0"
    by (auto simp: newRun_def split: if_splits)
  show "st_runId s = ra_runId a" "run_id_ok (ra_runId a)" "st_workingRevision s = ra_revision a"
    "st_phase s = PPrepare" "st_activeStep s = None" "st_sequence s = 0" "\<not> st_targetMet s" "st_stopReason s = None"
    "st_repairsThisAttempt s = 0" "st_outputs s = (\<lambda>_. None)"
    "st_bestRevision s = (case parent of None \<Rightarrow> ra_revision a | Some c \<Rightarrow> ca_bestRevision c)"
    "st_attemptsStarted s = (case parent of None \<Rightarrow> 0 | Some c \<Rightarrow> ca_attemptsStarted c)"
    "st_piCallsStarted s = (case parent of None \<Rightarrow> 0 | Some c \<Rightarrow> ca_piCallsStarted c)"
    using assms f by (cases parent; simp add: start_state_def s0; fastforce)+
qed

section \<open>A concrete host\<close>

text \<open>
  A host that never changes: an empty support snapshot in the working directory, a clean checkout
  with an \<^verbatim>\<open>AGENTS.md\<close>, and programs that succeed.
\<close>

definition still_answer :: "command \<Rightarrow> string" where
  "still_answer c = (if cm_command c \<noteq> ''git'' then ''1.0''
     else if cm_args c = [''rev-parse'', ''--show-toplevel''] then ''/r''
     else if cm_args c = [''rev-parse'', ''HEAD''] then replicate 40 (CHR ''a'')
     else if hd (cm_args c) = ''cat-file'' then ''commit''
     else if hd (cm_args c) = ''rev-parse'' then ''sha1'' else [])"

definition still_stat :: "string \<Rightarrow> file_stat" where
  "still_stat p = (let agents = (p = ''/r/AGENTS.md'') in
     \<lparr>fi_isFile = agents, fi_isDirectory = \<not> agents, fi_isSymlink = False, fi_size = 0\<rparr>)"

definition still_host :: "'st host" where
  "still_host = bare_host\<lparr>h_cwd := returnA ''/s'', h_now := returnA 7, h_lstat := \<lambda>p. returnA (still_stat p),
     h_readFile := \<lambda>_. returnA ''# Agents'',
     h_output := \<lambda>c. returnA \<lparr>co_success = True, co_stdout = still_answer c, co_stderr = []\<rparr>\<rparr>"

definition still_services :: "(mem_store \<times> unit) services" where
  "still_services = \<lparr>sv_host = still_host,
     sv_artifacts = \<lparr>ao_store = world_ops, ao_stream = \<lambda>_ _ _. throwA (Thrown ''absent''),
       ao_text = \<lambda>_ _ _. throwA (Thrown ''absent'')\<rparr>,
     sv_crypto = reviewed_crypto, sv_math = sample_math, sv_numstr = \<lambda>_. ''0'', sv_utf8 = Some,
     sv_json = \<lambda>_. Inl (Thrown ''absent''), sv_url = Some\<rparr>"

definition still_manifest :: manifest where
  "still_manifest = \<lparr>mf_sha256 = replicate 64 (CHR ''e''), mf_files = []\<rparr>"

definition still_config :: run_config where
  "still_config = \<lparr>rc_arguments = concrete_arguments, rc_startedAtMs = 5, rc_supportManifest = still_manifest,
     rc_cliVersion = ''1.0'', rc_dataDirectory = ''/s/.swamp''\<rparr>"

lemma still_simps [simp]:
  "sv_host still_services = still_host" "sv_store still_services = world_ops"
  "sv_crypto still_services = reviewed_crypto" "sv_utf8 still_services = Some"
  "h_realPath still_host = returnA" "h_cwd still_host = returnA ''/s''" "h_environ still_host = returnA []"
  "h_now still_host = returnA 7" "h_mkdir still_host = (\<lambda>_ _. returnA ())"
  "h_lstat still_host = (\<lambda>p. returnA (still_stat p))" "h_readFile still_host = (\<lambda>_. returnA ''# Agents'')"
  "h_readDir still_host = (\<lambda>_. returnA [])" "h_stat still_host = (\<lambda>_. throwA (Named ''NotFound'' []))"
  "h_output still_host = (\<lambda>c. returnA \<lparr>co_success = True, co_stdout = still_answer c, co_stderr = []\<rparr>)"
  by (simp_all add: still_services_def still_host_def bare_host_def)

lemma still_keeps: "surroundings_keep versions names still_services"
  by (simp add: surroundings_keep_def returnA_def)

lemma mapA_same: "(\<And>x. x \<in> set xs \<Longrightarrow> f x st = (Inr y, st)) \<Longrightarrow> mapA f xs st = (Inr (map (\<lambda>_. y) xs), st)"
  by (induction xs) (simp_all add: bindA_def)

lemma empty_snapshot:
  assumes "h_lstat h = (\<lambda>p. returnA (still_stat p))" "h_readDir h = (\<lambda>_. returnA [])"
  shows "supportManifest h reviewed_crypto ''/s'' st = (Inr still_manifest, st)"
proof -
  have "list_all (\<lambda>p. join_path ''/s'' p \<noteq> ''/r/AGENTS.md'') runtimePaths" by code_simp
  moreover obtain d where d: "max_depth = Suc d" by (cases max_depth) (auto simp: max_depth_def)
  ultimately have "visit_support h f max_depth ''/s'' p st = (Inr [], st)" if "p \<in> set runtimePaths" for f p
    using that assms unfolding d by (simp add: list_all_iff Let_def bindA_def still_stat_def)
  then have "mapA (visit_support h f max_depth ''/s'') runtimePaths st = (Inr (map (\<lambda>_. []) runtimePaths), st)" for f
    by (rule mapA_same)
  moreover have none: "concat (map (\<lambda>_. [] :: support_file list) runtimePaths) = []" by simp
  ultimately show ?thesis
    by (simp add: supportManifest_def bindA_def sort_by_def still_manifest_def reviewed_crypto_def none)
qed

lemmas still_manifest_run = empty_snapshot [OF still_simps(10,12)]

lemma still_env: "env_get still_host name = returnA None"
  by (simp add: env_get_def fun_eq_iff bindA_def)

lemma still_check_on:
  fixes sv :: "(mem_store \<times> unit, 'z) services_scheme"
  assumes "sv_host sv = still_host" "sv_crypto sv = reviewed_crypto"
  shows "checkRunSupport sv still_config st = (Inr (), st)"
proof -
  have "verifySupport still_host reviewed_crypto ''/s'' still_manifest st = (Inr (), st)" for st :: "mem_store \<times> unit"
    by (simp add: verifySupport_Inr still_manifest_run)
  then show ?thesis
    by (simp add: checkRunSupport_def refuseA_def real_differs_def cwd_differs_def env_set_def repo_differs_def still_env
        thenA_def truthy_def guardA_def still_config_def concrete_arguments_def bindA_def assms)
qed

lemma still_version: "currentCliVersion still_host st = (Inr ''1.0'', st)"
proof -
  have "js_trim ''1.0'' = ''1.0''" by code_simp
  then show ?thesis
    by (simp add: currentCliVersion_def thenA_def guardA_def bindA_def still_answer_def run_program_def)
qed

lemma still_not_abandoned: "assertNotAbandoned still_host p st = (Inr (), st)"
  by (simp add: assertNotAbandoned_def absentA_def tryA_def thenA_def catchA_def bindA_def throwA_def not_found_def)

lemma still_config_ok: "config_ok still_config"
proof -
  have "sha256_ok (replicate 64 (CHR ''e''))" by code_simp
  then show ?thesis
    using concrete_arguments_ok
    by (simp add: config_ok_def still_config_def still_manifest_def z_positive_def safe_integer_def max_safe_integer_def)
qed

section \<open>A started run begins fresh\<close>

text \<open>
  A run that continues a parent: the start time and the counters of the parent, which leave some of
  each limit, under the same limits and policy, from the best revision of the parent.
\<close>

definition continues_parent :: "(jsnum \<Rightarrow> string) \<Rightarrow> campaign \<Rightarrow> run_config \<Rightarrow> int \<Rightarrow> run_state \<Rightarrow> bool" where
  "continues_parent numstr c config now s \<longleftrightarrow>
     (let a = rc_arguments config; p = rc_arguments (ca_config c) in
      rc_startedAtMs config = ca_startedAtMs c \<and> now - ca_startedAtMs c < maxDurationMs (ra_limits a) \<and>
      st_attemptsStarted s = ca_attemptsStarted c \<and> st_attemptsStarted s < maxAttempts (ra_limits a) \<and>
      st_piCallsStarted s = ca_piCallsStarted c \<and> st_piCallsStarted s < maxPiCalls (ra_limits a) \<and>
      ca_bestRevision c = ra_revision a \<and>
      json_text numstr (enc_limits (ra_limits p)) = json_text numstr (enc_limits (ra_limits a)) \<and>
      json_text numstr (enc_policy (ra_policy p)) = json_text numstr (enc_policy (ra_policy a)))"

definition begins_new :: "run_config \<Rightarrow> int \<Rightarrow> run_state \<Rightarrow> bool" where
  "begins_new config now s \<longleftrightarrow> st_attemptsStarted s = 0 \<and> st_piCallsStarted s = 0 \<and> rc_startedAtMs config = now"

lemma started_from:
  assumes "check_parent sv a now st = (Inr parent, st')" "start_state a parent now = Inr s" "limits_ok (ra_limits a)"
    and "rc_startedAtMs config = (case parent of None \<Rightarrow> now | Some c \<Rightarrow> ca_startedAtMs c)" "a = rc_arguments config"
  shows "fresh_run s \<and> within_budget (ra_limits a) s \<and> st_bestRevision s = ra_revision a \<and>
    (case ra_parentEvidence a of
       None \<Rightarrow> begins_new config now s
     | Some b \<Rightarrow> \<exists>c. (\<exists>st1 st2. verifyParentEvidence sv b st1 = (Inr c, st2)) \<and> continues_parent (sv_numstr sv) c config now s)"
proof (cases parent)
  case None
  then have "ra_parentEvidence a = None" using check_parent_None assms(1) by metis
  then show ?thesis
    using None start_state_Inr [OF assms(2)] assms(3,4)
    by (simp add: fresh_run_def within_budget_def begins_new_def limits_ok_def z_positive_def z_count_def)
next
  case (Some c)
  with assms(1) obtain b where b: "ra_parentEvidence a = Some b" "verifyParentEvidence sv b st = (Inr c, st')"
    and d: "\<not> parent_differs (sv_numstr sv) c a now" by (auto elim: check_parent_Some)
  have "continues_parent (sv_numstr sv) c config now s"
    using d Some start_state_Inr(12,13) [OF assms(2)] assms(4)
    by (simp add: continues_parent_def parent_differs_def Let_def assms(5))
  moreover have "fresh_run s \<and> within_budget (ra_limits a) s \<and> st_bestRevision s = ra_revision a"
    using d Some start_state_Inr [OF assms(2)] assms(3)
    by (simp add: fresh_run_def within_budget_def parent_differs_def Let_def limits_ok_def z_count_def)
  ultimately show ?thesis using b by auto
qed

text \<open>
  C38: A run that was started is new, begins at the chosen revision and within its limits, and its
  configuration and state read back from the store as version one. A run that continues another one
  does not win anything by it: it keeps the start time of the parent and begins with the counters of
  the parent, which were below the limits, with the duration limit not yet reached, the texts of the
  limits and of the policy the same and the best revision of the parent as its revision.
\<close>

theorem started_run_begins_fresh:
  fixes sv :: "(mem_store \<times> 'w) services"
  assumes "startRun sv inp now st = (Inr r, st')" "sv_store sv = world_ops" "surroundings_keep fst UNIV sv"
    and "config = sd_config r" "a = rc_arguments config" "n = ra_runId a"
  shows "fst st (state_name n) = [] \<and> fst st (config_name n) = [] \<and> limits_ok (ra_limits a) \<and>
    fst st' (config_name n) = [enc_config config] \<and> runConfigSchema (enc_config config) = Some config \<and>
    (\<exists>s. fst st' (state_name n) = [enc_state s] \<and> saved_state (fst st') n s \<and> fresh_run s \<and>
       within_budget (ra_limits a) s \<and> st_bestRevision s = ra_revision a \<and>
       (case ra_parentEvidence a of
          None \<Rightarrow> begins_new config now s
        | Some b \<Rightarrow> \<exists>c. (\<exists>st1 st2. verifyParentEvidence sv b st1 = (Inr c, st2)) \<and>
            continues_parent (sv_numstr sv) c config now s))"
proof -
  obtain parent s st1 st2 where f: "fst st (config_name n) = []" "fst st (state_name n) = []"
    and p: "check_parent sv a now st1 = (Inr parent, st2)" and c: "config_ok config"
    and t: "rc_startedAtMs config = (case parent of None \<Rightarrow> now | Some c \<Rightarrow> ca_startedAtMs c)"
    and s: "start_state a parent now = Inr s" "state_ok s"
    and v: "fst st' (config_name n) = [enc_config config]" "fst st' (state_name n) = [enc_state s]"
    unfolding assms(4,5,6) by (rule world_run.startRun_Inr [OF assms(1-3)])
  have l: "limits_ok (ra_limits a)" using c by (simp add: config_ok_def arguments_ok_def assms(5))
  have "saved_state (fst st') n s"
    using v(2) s(2) start_state_Inr(1,2) [OF s(1)] assms(6) by (simp add: saved_state_def version_at_def runStateSchema_enc)
  moreover have "runConfigSchema (enc_config config) = Some config" using c by (simp add: runConfigSchema_enc)
  ultimately show ?thesis
    using f v l started_from [OF p s(1) l t assms(5)] by (intro conjI exI [of _ s]) simp_all
qed

lemma still_checkout: "inspectCheckout still_host ''/r'' st = (Inr \<lparr>ck_path = ''/r'', ck_revision = replicate 40 (CHR ''a''),
    ck_dirty = False\<rparr>, st)"
proof -
  have "js_trim ''/r'' = ''/r''" "js_trim (replicate 40 (CHR ''a'')) = replicate 40 (CHR ''a'')" "js_trim [] = []"
    "revision_ok (replicate 40 (CHR ''a''))" by code_simp+
  then show ?thesis
    by (simp add: inspectCheckout_def worktree_status_def git_def git_command_def still_answer_def thenA_def guardA_def
        bindA_def full_revision_def)
qed

lemma still_paths: "check_paths still_host concrete_arguments st = (Inr (), st)"
proof -
  have "join_path (dirname_path ''/logs'') (basename_path ''/logs'') = resolve_path [] ''/logs''"
    "is_absolute ''/logs''" "is_absolute ''/s''" "is_absolute ''/c''" by code_simp+
  then show ?thesis
    by (simp add: check_paths_def real_parent_def resolveA_def refuseA_def real_differs_def cwd_differs_def env_set_def
        repo_differs_def still_env thenA_def truthy_def guardA_def concrete_arguments_def bindA_def)
qed

lemma still_support: "check_support still_services concrete_arguments st = (Inr still_manifest, st)"
proof -
  have "js_trim ''commit'' = ''commit''" "js_trim ''sha1'' = ''sha1''" "revision_ok (replicate 40 (CHR ''a''))"
    "js_split (CHR 0x00) [] = [[]]" by code_simp+
  then show ?thesis
    by (simp add: check_support_def still_manifest_run verifyReviewedSupport_def review_git_def tree_args_def
        still_answer_def concrete_arguments_def thenA_def guardA_def bindA_def)
      (simp add: still_manifest_def)
qed

definition still_agents :: context_file where
  "still_agents = \<lparr>cf_runId = ''run-1'', cf_source = agents_source, cf_sha256 = replicate 64 (CHR ''e''),
     cf_text = ''# Agents''\<rparr>"

lemma still_read_agents: "read_agents still_services concrete_arguments st = (Inr still_agents, st)"
proof -
  have "join_path ''/r'' ''AGENTS.md'' = ''/r/AGENTS.md''" by code_simp
  then show ?thesis
    by (simp add: read_agents_def Let_def concrete_arguments_def thenA_def guardA_def bindA_def still_stat_def
        still_agents_def reviewed_crypto_def)
qed

lemma still_start_state: "\<exists>s. start_state concrete_arguments None 5 = Inr s \<and> state_ok s"
proof -
  have "start_state concrete_arguments None 5 = newRun ''run-1'' (replicate 40 (CHR ''a''))"
    by (simp add: start_state_def concrete_arguments_def bindR_def split: sum.split)
  moreover have "case newRun ''run-1'' (replicate 40 (CHR ''a'')) of Inl _ \<Rightarrow> False | Inr s \<Rightarrow> state_ok s" by code_simp
  ultimately show ?thesis by (auto split: sum.splits)
qed

lemma still_started:
  "\<exists>r st'. startRun still_services (enc_arguments concrete_arguments) 5 ((\<lambda>_. []), ()) = (Inr r, st')"
proof -
  let ?st = "((\<lambda>_. []) :: mem_store, ())"
  have fresh: "fresh_identity world_ops n ?st = (Inr (), ?st)" for n
    by (simp add: fresh_identity_def refuseA_def bindA_def world.read_eq guardA_def)
  have a: "runArgumentsSchema (enc_arguments concrete_arguments) = Some concrete_arguments"
    by (simp add: runArgumentsSchema_enc concrete_arguments_ok)
  have repo: "ra_repository concrete_arguments = ''/r''" "ra_repository_update (\<lambda>_. ''/r'') concrete_arguments = concrete_arguments"
    "ra_parentEvidence concrete_arguments = None" "ra_experimentBrief concrete_arguments = None"
    by (simp_all add: concrete_arguments_def)
  have dir: "join_path (ra_supportDirectory concrete_arguments) ''.swamp'' = ''/s/.swamp''"
    unfolding concrete_arguments_def run_arguments.simps by code_simp
  have c: "runConfigSchema (enc_config still_config) = Some still_config" by (simp add: runConfigSchema_enc still_config_ok)
  obtain s where s: "start_state concrete_arguments None 5 = Inr s" "state_ok s" using still_start_state by blast
  have ag: "table_normal tempo_resources ''inferenceInput'' (enc_context_file still_agents) = Some (enc_context_file still_agents)"
    by code_simp
  obtain st1 r1 where w1: "so_write world_ops ''inferenceInput'' (agents_name (ra_runId concrete_arguments))
      (enc_context_file still_agents) ?st = (Inr r1, st1)" by (rule world.write_eq [OF ag])
  have "table_normal tempo_resources ''runConfig'' (enc_config still_config) = Some (enc_config still_config)"
    by (simp add: run_normal still_config_ok)
  then obtain st2 r2 where w2: "so_write world_ops ''runConfig'' (config_name (ra_runId concrete_arguments))
      (enc_config still_config) st1 = (Inr r2, st2)" by (rule world.write_eq)
  have "table_normal tempo_resources ''state'' (enc_state s) = Some (enc_state s)" using s by (simp add: tempo_normal)
  then obtain st3 r3 where w3: "so_write world_ops ''state'' (state_name (ra_runId concrete_arguments))
      (enc_state s) st2 = (Inr r3, st3)" by (rule world.write_eq)
  have cfg: "\<lparr>rc_arguments = concrete_arguments, rc_startedAtMs = 5, rc_supportManifest = still_manifest,
     rc_cliVersion = ''1.0'', rc_dataDirectory = ''/s/.swamp''\<rparr> = still_config" by (simp add: still_config_def)
  show ?thesis
    by (cases st3) (simp add: startRun_def Let_def zparse_def a repo bindA_def thenA_def fresh still_checkout still_paths still_support
        check_parent_def write_brief_def still_read_agents still_version dir cfg c w1 w2 w3 s(1))
qed

theorem started_run_begins_fresh_witness:
  "\<exists>(r :: started_run) st' s. saved_state (fst (st' :: mem_store \<times> unit)) (ra_runId (rc_arguments (sd_config r))) s \<and> fresh_run s"
proof -
  from still_started obtain r st' where r: "startRun still_services (enc_arguments concrete_arguments) 5 ((\<lambda>_. []), ()) = (Inr r, st')"
    by blast
  from started_run_begins_fresh [OF r still_simps(2) still_keeps refl refl refl] show ?thesis by blast
qed

section \<open>An executed run comes to its end\<close>

text \<open>
  Once a run could be resumed it comes to its end, whatever the effects of its steps do. As
  long as the support code stays as it is and the clock answers, the loop over the steps never runs
  out of work and never stops in between: it reaches the final state, which is the saved one and
  which a run of the state machine leads to, and goes on to write the report; or the last step, the
  cleanup, failed and says so.
\<close>

lemma run_ends:
  fixes sv :: "(mem_store \<times> 'w, 'z) services_scheme"
  assumes "resume_state sv n st = (Inr (config, s), st0)" "sv_store sv = world_ops"
    and keep: "surroundings_keep fst (run_names n) sv" "\<And>a. keeps fst (run_names n) (perform a config)"
    and check: "\<And>st. \<exists>st'. checkRunSupport sv config st = (Inr (), st')"
    and clock: "\<And>st. \<exists>now st'. h_now (sv_host sv) st = (Inr now, st') \<and> now \<le> max_safe_integer"
    and "steps_free (fst st) n (st_sequence s)"
    and "st_sequence s + int (run_fuel (ra_limits (rc_arguments config))) \<le> max_safe_integer"
  shows "(\<exists>tr s' latest st1. run_trace (ra_limits (rc_arguments config)) s tr s' \<and> st_phase s' = PDone \<and>
      saved_state (fst st1) n s' \<and>
      executeRun sv n perform st = bindA (report_run sv config n s') (\<lambda>report.
        returnA (Some \<lparr>xr_state = s', xr_handles = last_handles (latest @ [report])\<rparr>)) st1) \<or>
    (\<exists>st1. executeRun sv n perform st = (Inl cleanup_failed, st1))"
proof -
  let ?l = "ra_limits (rc_arguments config)"
  note r = world_driver.resume_state_Inr [OF assms(1,2) keep(1)]
  have k: "keeps fst (run_names n) (checkRunSupport sv config)" "keeps fst (run_names n) (h_now (sv_host sv))"
    using keeps_checkRunSupport [OF keep(1)] surroundings_keepD(9) [OF keep(1)] .
  have c: "always fst (run_names n) (\<lambda>_. True) (checkRunSupport sv config)"
    using k(1) check by (simp add: always_def) (metis fst_conv)
  have t: "always fst (run_names n) (clock_ok config) (h_now (sv_host sv))"
    using k(2) clock r(4) by (simp add: always_def clock_ok_def z_positive_def) (metis fst_conv less_imp_le)
  have "steps_free (fst st0) n (st_sequence s)" using assms(7) r(7) by (simp add: steps_free_def)
  moreover have "work_left ?l s \<le> run_fuel ?l"
    using work_left_fuel [of s ?l] r(3,6) by (auto simp: state_ok_def z_count_def limits_ok_def z_positive_def)
  ultimately have "(\<exists>s' handles st' tr'. run_loop sv config perform n (run_fuel ?l) s [] st0 = (Inr (Some (s', handles)), st') \<and>
      st_phase s' = PDone \<and> saved_state (fst st') n s' \<and> run_trace ?l s ([] @ tr') s') \<or>
    (\<exists>st'. run_loop sv config perform n (run_fuel ?l) s [] st0 = (Inl cleanup_failed, st'))"
    by (intro world_driver.run_loop_ends [where perform = perform and config = config, OF assms(2) r(1,2) assms(8) _ r(3) c t keep(2)] run_trace.start)
  then show ?thesis
    using assms(1) by (fastforce simp: executeRun_def bindA_def)
qed

definition still_start :: run_state where
  "still_start = \<lparr>st_runId = ''run-1'', st_phase = PPrepare,
     st_initialRevision = replicate 40 (CHR ''a''), st_bestRevision = replicate 40 (CHR ''a''),
     st_workingRevision = replicate 40 (CHR ''a''), st_attemptsStarted = 0,
     st_repairsThisAttempt = 0, st_piCallsStarted = 0, st_elapsedMs = 0, st_sequence = 0,
     st_activeStep = None, st_targetMet = False, st_stopReason = None,
     st_requestedProfile = Ctimer, st_outputs = (\<lambda>_. None)\<rparr>"

definition still_store :: mem_store where
  "still_store = (\<lambda>_. [])(state_name ''run-1'' := [enc_state still_start], config_name ''run-1'' := [enc_config still_config])"

lemma still_resumed:
  fixes sv :: "(mem_store \<times> unit, 'z) services_scheme"
  assumes "sv_host sv = still_host" "sv_crypto sv = reviewed_crypto" "sv_store sv = world_ops"
  shows "resume_state sv ''run-1'' (still_store, ()) = (Inr (still_config, still_start), (still_store, ()))"
proof -
  have "state_ok still_start" by code_simp
  then have s: "runStateSchema (enc_state still_start) = Some still_start" by (simp add: runStateSchema_enc)
  have c: "runConfigSchema (enc_config still_config) = Some still_config" by (simp add: runConfigSchema_enc still_config_ok)
  have r: "so_read world_ops (config_name ''run-1'') (Some 1) (still_store, ()) = (Inr (Some (enc_config still_config)), (still_store, ()))"
    "so_read world_ops (state_name ''run-1'') None (still_store, ()) = (Inr (Some (enc_state still_start)), (still_store, ()))"
    by (simp_all add: world.read_eq still_store_def version_at_def config_name_def state_name_def)
  show ?thesis
    by (simp add: resume_state_def Let_def bindA_def thenA_def guardA_def zparse_def r s c still_version
        still_not_abandoned assms still_check_on [OF assms(1,2)]) (simp add: still_config_def concrete_arguments_def still_start_def)
qed

end
