(* ===== verification/Campaign_Claims.thy ===== *)
theory Campaign_Claims
  imports Campaign_Facts Campaign_Export Execute_Claims
begin

text \<open>
  The claims on the evidence of a preceding run: an accepted parent is a run of the state machine,
  and an exported bundle reads back; with a concrete parent that is exported and accepted.
\<close>

section \<open>Properties\<close>

text \<open>
  C36: An accepted parent is a run, and its bundle holds it. The bundle that was opened has a step record,
  read from a record that matches its checksum, for every step its saved state has completed, and these
  records are a run: from a fresh state at the revision of the configuration, each record names the
  run, and is of the step the state machine reserves next, at the phase and the working revision it has
  there, and its outcome finishes that step, under the limits of the configuration. The run ends at the
  phase, the revisions and the verdict of the saved state; the state is final, or one step further and
  abandoned. The attempts and inference calls it hands on are those of this run and of the parent
  before, verified in the same way, an interrupted one included, and lie within the limits.
\<close>

theorem accepted_parent_is_a_run:
  assumes "verifyParentEvidence sv b st = (Inr c, st')"
    and "l = ra_limits (rc_arguments (ca_config c))" "s = ca_state c" "n = ca_sourceRunId c"
  shows "\<exists>op st1 st2 preceding steps s0 s'. open_parent sv (pb_path b) (pb_sha256 b) st1 = (Inr op, st2) \<and>
    op_config op = ca_config c \<and> op_state op = s \<and> pe_runId (op_evidence op) = n \<and>
    catalog_sound (sv_numstr sv) (sv_crypto sv) (op_catalog op) \<and>
    map sr_step steps = [1..last_completed s] \<and> (\<forall>r \<in> set steps. exported_step (op_catalog op) n r) \<and>
    fresh_run s0 \<and> st_bestRevision s0 = ra_revision (rc_arguments (ca_config c)) \<and>
    verified_before sv (ra_parentEvidence (rc_arguments (ca_config c))) preceding \<and>
    st_attemptsStarted s0 = attempts_before preceding \<and> st_piCallsStarted s0 = piCalls_before preceding \<and>
    recorded_run l n s0 steps s' \<and> run_trace l s0 (map (\<lambda>r. (sr_phase r, sr_outcome r)) steps) s' \<and>
    st_phase s = st_phase s' \<and> st_workingRevision s = st_workingRevision s' \<and>
    st_bestRevision s = st_bestRevision s' \<and> ca_bestRevision c = st_bestRevision s \<and> st_targetMet s = st_targetMet s' \<and>
    st_sequence s = int (length steps) + (if st_activeStep s = None then 0 else 1) \<and>
    (st_activeStep s = None \<longrightarrow> st_phase s = PDone) \<and>
    ca_attemptsStarted c = st_attemptsStarted s' + (if st_activeStep s \<noteq> None \<and> st_phase s = PStartAttempt then 1 else 0) \<and>
    ca_piCallsStarted c = st_piCallsStarted s' + (if st_activeStep s \<noteq> None \<and> inference_phase (st_phase s) then 1 else 0) \<and>
    ca_attemptsStarted c = st_attemptsStarted s \<and> ca_attemptsStarted c \<le> maxAttempts l \<and>
    ca_piCallsStarted c = st_piCallsStarted s \<and> ca_piCallsStarted c \<le> maxPiCalls l"
proof -
  obtain op preceding st0 st8 st9 where o: "open_parent sv (pb_path b) (pb_sha256 b) st8 = (Inr op, st9)"
    and settled: "settle_parent sv (pb_sha256 b) op preceding st0 = (Inr c, st')"
    and before: "verified_before sv (ra_parentEvidence (rc_arguments (op_config op))) preceding"
    using assms(1) unfolding verifyParentEvidence_def by (rule verify_chain_Inr)
  show ?thesis
  proof (rule settle_parent_run [OF settled refl refl refl], goal_cases)
    case (1 steps s0 s')
    note c = 1(6-8) [symmetric]
    have same: "op_config op = ca_config c" "op_state op = s" "pe_runId (op_evidence op) = n"
      by (simp_all only: c assms(3,4))
    note run = 1 [unfolded same assms(2) [symmetric]]
    note start = replay_start_Inr [OF run(2)]
    have "catalog_sound (sv_numstr sv) (sv_crypto sv) (op_catalog op)" "map sr_step steps = [1..last_completed s]"
      "\<forall>r \<in> set steps. exported_step (op_catalog op) n r"
      using open_parent_sound [OF o] parent_steps_numbered [OF run(1)] parent_steps_exported [OF run(1)] by simp_all
    moreover have "st_phase s = st_phase s'" "st_workingRevision s = st_workingRevision s'"
      "st_bestRevision s = st_bestRevision s'" "st_targetMet s = st_targetMet s'"
      "st_sequence s = int (length steps) + (if st_activeStep s = None then 0 else 1)"
      using run(5) by (simp_all add: replay_differs_def)
    moreover have "st_bestRevision s0 = ra_revision (rc_arguments (ca_config c))" using start(2) by (simp add: same)
    moreover note same o before [unfolded same] start(1,3,4) run(3,4,9-16)
    ultimately show ?thesis
      by (intro exI [of _ op] exI [of _ st8] exI [of _ st9] exI [of _ preceding] exI [of _ steps] exI [of _ s0]
          exI [of _ s'] conjI)
  qed
qed

section \<open>The exported bundle\<close>

lemma resolveA_not_Nil: "resolveA h p st = (Inr q, st') \<Longrightarrow> q \<noteq> []"
  by (auto simp: resolveA_def run_simps resolve_path_def path_of_def split: if_splits)

text \<open>
  C37: An exported bundle reads back. When the export of a run succeeds, the new file at
  the destination holds the whole JSON text of the collected evidence, however many writes that took,
  and the returned digest is its hash; the
  parsed bundle is that evidence again, its records are distinct, of one model and match their
  checksums, and among them are the configuration and the state the bundle names, with these
  checksums, and every completed step with all the records it cites.
\<close>

theorem exported_bundle_reads_back:
  assumes "exportParentEvidence sv fw repository runId version destination receiptPath st = (Inr digest, st')"
    and "file_writer_laws fw holds"
    and "\<And>b. sha256_ok (cr_sha256 (sv_crypto sv) b)"
    and "\<And>p st i st'. h_lstat (sv_host sv) p st = (Inr i, st') \<Longrightarrow> z_count (fi_size i)"
  shows "\<exists>ev f st1 st2. fw_open fw destination st1 = (Inr f, st2) \<and>
    holds st' f = json_text (sv_numstr sv) (enc_evidence ev) \<and>
    digest = cr_sha256 (sv_crypto sv) (json_text (sv_numstr sv) (enc_evidence ev)) \<and>
    pe_repository ev = repository \<and> pe_runId ev = runId \<and> or_version (so_ref (pe_state ev)) = version \<and>
    reads_back sv ev"
proof -
  from assms(1) obtain ev st0 st1 st2 and u :: unit where
    "resolveA (sv_host sv) repository st = (Inr repository, st0)" "bundle_id_ok runId"
    and c: "collect_evidence sv repository runId version receiptPath st1 = (Inr ev, st2)"
    and w: "save_evidence fw destination (json_text (sv_numstr sv) (enc_evidence ev)) st2 = (Inr u, st')"
    and d: "digest = cr_sha256 (sv_crypto sv) (json_text (sv_numstr sv) (enc_evidence ev))"
    unfolding exportParentEvidence_def exact_export_def Let_def bindA_Inr' thenA_Inr guardA_Inr returnA_Inr
    by (elim exE conjE) (hypsubst, blast)
  then have "repository \<noteq> []" "bundle_id_ok runId" using resolveA_not_Nil by metis+
  with collect_evidence_reads_back [OF c] assms(3,4)
  have "reads_back sv ev \<and> pe_repository ev = repository \<and> pe_runId ev = runId \<and> or_version (so_ref (pe_state ev)) = version"
    by blast
  moreover obtain f st3 where "fw_open fw destination st2 = (Inr f, st3)"
    "holds st' f = json_text (sv_numstr sv) (enc_evidence ev)" by (rule save_evidence_Inr [OF w assms(2)])
  ultimately show ?thesis using d by blast
qed

section \<open>A concrete parent\<close>

text \<open>A run whose baseline failed: three steps, and the result of the tests of the first one.\<close>

definition plain_record :: "output_ref \<Rightarrow> json \<Rightarrow> swamp_record" where
  "plain_record r v = \<lparr>sw_name = or_name r, sw_version = or_version r, sw_modelId = ''m'',
     sw_checksum = replicate 64 (CHR ''e''), sw_encoding = None, sw_content = Some v\<rparr>"

definition tests_ref :: output_ref where
  "tests_ref = \<lparr>or_name = ''run-1-test-1-result'', or_version = 1\<rparr>"

definition plain_step :: "int \<Rightarrow> phase \<Rightarrow> outcome \<Rightarrow> output_ref list \<Rightarrow> step_record" where
  "plain_step i p oc refs = \<lparr>sr_runId = ''run-1'', sr_step = i, sr_phase = p, sr_revision = replicate 40 (CHR ''a''),
     sr_outcome = oc, sr_evidence = refs\<rparr>"

definition parent_run :: "step_record list" where
  "parent_run = [plain_step 1 PPrepare Prepared [tests_ref], plain_step 2 PBaseline (Failed ''boom'') [],
     plain_step 3 PFinish Finished []]"

definition parent_end :: run_state where
  "parent_end = still_start\<lparr>st_phase := PDone, st_sequence := 3, st_stopReason := Some ''error:boom''\<rparr>"

definition parent_tests :: json where
  "parent_tests = JObj [(''runId'', JStr ''run-1''), (''step'', j_int 1), (''revision'', JStr (replicate 40 (CHR ''a''))),
     (''command'', JStr ''bb''), (''args'', JArr [JStr ''qa'']), (''valid'', JBool True), (''passed'', JBool True),
     (''sourceUnchanged'', JBool True), (''exitCode'', j_int 0), (''artifacts'', enc_refs [tests_ref])]"

definition config_ref :: output_ref where
  "config_ref = \<lparr>or_name = ''run-1-config'', or_version = 1\<rparr>"

definition state_ref :: output_ref where
  "state_ref = \<lparr>or_name = ''run-1-state'', or_version = 7\<rparr>"

definition parent_records :: "swamp_record list" where
  "parent_records = [plain_record config_ref (enc_config still_config), plain_record state_ref (enc_state parent_end)] @
     map (\<lambda>r. plain_record \<lparr>or_name = step_name ''run-1'' (sr_step r), or_version = 1\<rparr> (enc_step r)) parent_run @
     [plain_record tests_ref parent_tests]"

definition plain_parent :: parent_evidence where
  "plain_parent = \<lparr>pe_repository = ''/s'', pe_runId = ''run-1'',
     pe_config = \<lparr>so_ref = config_ref, so_checksum = replicate 64 (CHR ''e'')\<rparr>,
     pe_state = \<lparr>so_ref = state_ref, so_checksum = replicate 64 (CHR ''e'')\<rparr>,
     pe_abandoned = None, pe_records = parent_records, pe_logs = []\<rparr>"

text \<open>Texts stand for the JSON they read as.\<close>

definition parent_json :: "string \<Rightarrow> json res" where
  "parent_json t = (if t = ''bundle'' then Inr (enc_evidence plain_parent)
     else if t = ''versions'' then Inr (JObj [(''modelId'', JStr ''m''),
       (''versions'', JArr [JObj [(''version'', j_int 7), (''isLatest'', JBool True)]])])
     else (case List.find (\<lambda>r. ref_label (record_ref r) = t) parent_records of
       Some r \<Rightarrow> Inr (enc_record r) | None \<Rightarrow> Inl (Named ''SyntaxError'' t)))"

definition parent_answer :: "command \<Rightarrow> string" where
  "parent_answer c = (if cm_command c \<noteq> ''swamp'' then [] else if cm_args c ! 1 = ''versions'' then ''versions''
     else cm_args c ! 3 @ ''@'' @ cm_args c ! 5)"

definition parent_host :: "'st host" where
  "parent_host = still_host\<lparr>h_readFile := \<lambda>_. returnA ''bundle'',
     h_output := \<lambda>c. returnA \<lparr>co_success = True, co_stdout = parent_answer c, co_stderr = []\<rparr>\<rparr>"

definition parent_services :: "(mem_store \<times> unit) services" where
  "parent_services = still_services\<lparr>sv_host := parent_host, sv_json := parent_json\<rparr>"

definition parent_catalog :: catalog where
  "parent_catalog = map (\<lambda>r. (ref_label (record_ref r), r)) parent_records"

lemma parent_simps [simp]:
  "sv_host parent_services = parent_host" "sv_crypto parent_services = reviewed_crypto"
  "sv_json parent_services = parent_json" "sv_numstr parent_services = (\<lambda>_. ''0'')"
  "h_lstat parent_host = (\<lambda>p. returnA (still_stat p))" "h_readFile parent_host = (\<lambda>_. returnA ''bundle'')"
  "h_readDir parent_host = (\<lambda>_. returnA [])" "h_cwd parent_host = returnA ''/s''"
  "h_output parent_host = (\<lambda>c. returnA \<lparr>co_success = True, co_stdout = parent_answer c, co_stderr = []\<rparr>)"
  by (simp_all add: parent_services_def parent_host_def) (simp_all add: still_services_def still_host_def bare_host_def)

lemma parent_labels: "map (\<lambda>r. ref_label (record_ref r)) parent_records =
    [''run-1-config@1'', ''run-1-state@7'', ''run-1-step-1@1'', ''run-1-step-2@1'', ''run-1-step-3@1'', ''run-1-test-1-result@1'']"
proof -
  have "dec_int 1 = ''1''" "dec_int 2 = ''2''" "dec_int 3 = ''3''" "dec_int 7 = ''7''" by code_simp+
  then show ?thesis
    by (simp add: parent_records_def ref_label_def record_ref_def plain_record_def parent_run_def plain_step_def step_name_def
        config_ref_def state_ref_def tests_ref_def)
qed

lemma catalog_records_same:
  assumes "\<And>b. cr_sha256 cr b = d" "\<And>r. r \<in> set rs \<Longrightarrow> sw_checksum r = d \<and> sw_encoding r = None"
    and "distinct (map fst cat @ map (\<lambda>r. ref_label (record_ref r)) rs)"
  shows "catalog_records numstr cr cat rs = Inr (cat @ map (\<lambda>r. (ref_label (record_ref r), r)) rs)"
  using assms(2,3)
proof (induction rs arbitrary: cat)
  case (Cons r rs)
  have "\<exists>b. contentBytes numstr cr r = Inr b"
    using Cons.prems(1) [of r] assms(1)
    by (auto simp: contentBytes_def content_texts_def Let_def split: option.splits json.splits)
  then obtain b where "contentBytes numstr cr r = Inr b" ..
  moreover have "map_of cat (ref_label (record_ref r)) = None"
    using Cons.prems(2) by (auto simp: map_of_eq_None_iff)
  moreover have "cr_sha256 cr b = sw_checksum r" using Cons.prems(1) [of r] assms(1) by simp
  ultimately have "catalog_records numstr cr cat (r # rs) = catalog_records numstr cr (cat @ [(ref_label (record_ref r), r)]) rs"
    by (simp only: catalog_records.simps Let_def bindR_def sum.case simp_thms if_False)
  then show ?case using Cons.IH [of "cat @ [(ref_label (record_ref r), r)]"] Cons.prems by simp
qed simp

lemma parent_catalog_of: "catalog_of numstr reviewed_crypto plain_parent = Inr parent_catalog"
proof -
  have "distinct (map (\<lambda>r. ref_label (record_ref r)) parent_records)" unfolding parent_labels by simp
  moreover have "sw_checksum r = replicate 64 (CHR ''e'') \<and> sw_encoding r = None" if "r \<in> set parent_records" for r
    using that by (auto simp: parent_records_def plain_record_def parent_run_def)
  ultimately have "catalog_records numstr reviewed_crypto [] parent_records =
      Inr ([] @ map (\<lambda>r. (ref_label (record_ref r), r)) parent_records)"
    by (intro catalog_records_same [where d = "replicate 64 (CHR ''e'')"]) (auto simp: reviewed_crypto_def)
  then show ?thesis
    by (simp add: catalog_of_def plain_parent_def parent_catalog_def bindR_def)
      (simp add: parent_records_def plain_record_def parent_run_def)
qed

lemma parent_json_simps:
  "parent_json ''bundle'' = Inr (enc_evidence plain_parent)"
  "parent_json ''versions'' = Inr (JObj [(''modelId'', JStr ''m''),
     (''versions'', JArr [JObj [(''version'', j_int 7), (''isLatest'', JBool True)]])])"
  by (simp_all add: parent_json_def)

lemma parent_json_record:
  assumes "map_of parent_catalog (ref_label r) = Some x"
  shows "parent_json (ref_label r) = Inr (enc_record x)" "record_ref x = r"
proof -
  have "ref_label r \<in> fst ` set parent_catalog" using map_of_SomeD [OF assms] by force
  then have "ref_label r \<in> set (map (\<lambda>r. ref_label (record_ref r)) parent_records)" by (auto simp: parent_catalog_def)
  then have ne: "ref_label r \<noteq> ''bundle''" "ref_label r \<noteq> ''versions''" unfolding parent_labels by auto
  have "List.find (\<lambda>q. ref_label (record_ref q) = ref_label r) rs = Some x"
    if "map_of (map (\<lambda>r. (ref_label (record_ref r), r)) rs) (ref_label r) = Some x" for rs
    using that by (induction rs) (auto split: if_splits)
  with assms ne show "parent_json (ref_label r) = Inr (enc_record x)" by (simp add: parent_json_def parent_catalog_def)
  show "record_ref x = r"
    using map_of_SomeD [OF assms] by (auto simp: parent_catalog_def ref_label_inject)
qed

lemma parent_records_ok: "x \<in> set parent_records \<Longrightarrow> record_ok x \<and> sw_encoding x = None \<and>
    sw_checksum x = replicate 64 (CHR ''e'') \<and> sw_modelId x = ''m''"
proof -
  assume "x \<in> set parent_records"
  moreover have "sha256_ok (replicate 64 (CHR ''e''))" by code_simp
  ultimately show ?thesis
    by (auto simp: parent_records_def plain_record_def parent_run_def record_ok_def record_ref_def ref_ok_def config_ref_def
        state_ref_def tests_ref_def step_name_def plain_step_def z_positive_def safe_integer_def max_safe_integer_def)
qed

lemma parent_record_ok: "map_of parent_catalog k = Some x \<Longrightarrow> record_ok x \<and> sw_encoding x = None \<and>
    sw_checksum x = replicate 64 (CHR ''e'') \<and> sw_modelId x = ''m''"
  by (rule parent_records_ok) (auto simp: parent_catalog_def dest: map_of_SomeD)

lemma parent_get:
  assumes "map_of parent_catalog (ref_label r) = Some x"
  shows "getSwampRecord parent_services ''/s'' r st = (Inr x, st)"
proof -
  note j = parent_json_record [OF assms] and ok = parent_record_ok [OF assms]
  have "\<exists>b. contentBytes (\<lambda>_. ''0'') reviewed_crypto x = Inr b"
    using ok by (auto simp: contentBytes_def content_texts_def Let_def reviewed_crypto_def split: option.splits json.splits)
  then obtain b where b: "contentBytes (\<lambda>_. ''0'') reviewed_crypto x = Inr b" ..
  have s: "resolveA parent_host ''/s'' st = (Inr ''/s'', st)"
  proof -
    have "is_absolute ''/s''" "resolve_path [] ''/s'' = ''/s''" by code_simp+
    then show ?thesis by (simp add: resolveA_def)
  qed
  have a: "parent_answer (swamp_get ''/s'' (or_name r) (or_version r)) = ref_label r"
    by (simp add: parent_answer_def swamp_get_def swamp_command_def ref_label_def)
  have "ref_ok r" using ok j(2) by (simp add: record_ok_def)
  then show ?thesis
    using j ok b
    by (simp add: getSwampRecord_def bindA_def thenA_def guardA_def s a Let_def recordSchema_enc zparse_def reviewed_crypto_def)
qed

lemma parent_found:
  "map_of parent_catalog (ref_label config_ref) = Some (plain_record config_ref (enc_config still_config))"
  "map_of parent_catalog (ref_label state_ref) = Some (plain_record state_ref (enc_state parent_end))"
  "map_of parent_catalog (ref_label tests_ref) = Some (plain_record tests_ref parent_tests)"
  "r \<in> set parent_run \<Longrightarrow> map_of parent_catalog (ref_label \<lparr>or_name = step_name ''run-1'' (sr_step r), or_version = 1\<rparr>) =
     Some (plain_record \<lparr>or_name = step_name ''run-1'' (sr_step r), or_version = 1\<rparr> (enc_step r))"
proof -
  have d: "distinct (map fst parent_catalog)"
    using parent_labels by (simp add: parent_catalog_def comp_def)
  have found: "map_of parent_catalog (ref_label q) = Some (plain_record q v)" if "plain_record q v \<in> set parent_records" for q v
  proof -
    have "record_ref (plain_record q v) = q" by (simp add: record_ref_def plain_record_def)
    then have "(ref_label q, plain_record q v) \<in> set parent_catalog" using that by (force simp: parent_catalog_def)
    with d show ?thesis by (rule map_of_is_SomeI)
  qed
  show "map_of parent_catalog (ref_label config_ref) = Some (plain_record config_ref (enc_config still_config))"
    "map_of parent_catalog (ref_label state_ref) = Some (plain_record state_ref (enc_state parent_end))"
    "map_of parent_catalog (ref_label tests_ref) = Some (plain_record tests_ref parent_tests)"
    by (rule found, simp add: parent_records_def)+
  show "r \<in> set parent_run \<Longrightarrow> map_of parent_catalog (ref_label \<lparr>or_name = step_name ''run-1'' (sr_step r), or_version = 1\<rparr>) =
     Some (plain_record \<lparr>or_name = step_name ''run-1'' (sr_step r), or_version = 1\<rparr> (enc_step r))"
    by (rule found) (simp add: parent_records_def)
qed

lemma plain_record_simps [simp]:
  "sw_content (plain_record r v) = Some v" "sw_checksum (plain_record r v) = replicate 64 (CHR ''e'')"
  "sw_modelId (plain_record r v) = ''m''" "record_ref (plain_record r v) = r"
  by (simp_all add: plain_record_def record_ref_def)

lemma parent_end_ok: "runStateSchema (enc_state parent_end) = Some parent_end"
proof -
  have "state_ok parent_end" by code_simp
  then show ?thesis by (simp add: runStateSchema_enc)
qed

lemma parent_config_ok: "runConfigSchema (enc_config still_config) = Some still_config"
  by (simp add: runConfigSchema_enc still_config_ok)

lemma parent_step_ok: "r \<in> set parent_run \<Longrightarrow> stepResultSchema (enc_step r) = Some r"
proof -
  have "list_all step_ok parent_run" by code_simp
  then show "r \<in> set parent_run \<Longrightarrow> stepResultSchema (enc_step r) = Some r" by (simp add: stepResultSchema_enc list_all_iff)
qed

lemma parent_manifest_sha: "manifest_sha (enc_config still_config) = Some (replicate 64 (CHR ''e''))"
proof -
  have "sha256_ok (replicate 64 (CHR ''e''))" by code_simp
  then show ?thesis
    by (simp add: manifest_sha_def enc_config_def still_config_def still_manifest_def enc_manifest_def)
qed

lemma parent_snapshot: "check_snapshot parent_services ''/s'' (enc_config still_config) message st = (Inr (), st)"
  using empty_snapshot [of parent_host st]
  by (simp add: check_snapshot_def bindA_def zparse_def parent_manifest_sha guardA_def still_manifest_def)

lemma parent_stopped: "assertParentStopped parent_host ''run-1'' st = (Inr (), st)"
  by (simp add: assertParentStopped_def bindA_def guardA_def parent_answer_def run_program_def
      word_here_def)

lemma parent_versions: "parent_answer (swamp_versions ''/s'' name) = ''versions''"
  by (simp add: parent_answer_def swamp_versions_def swamp_command_def)

lemma parent_exact: "resolveA parent_host ''/s'' st = (Inr ''/s'', st)"
proof -
  have "is_absolute ''/s''" "resolve_path [] ''/s'' = ''/s''" by code_simp+
  then show ?thesis by (simp add: resolveA_def)
qed

lemma plain_parent_ok: "parentEvidenceSchema (enc_evidence plain_parent) = Some plain_parent"
proof -
  have "list_all record_ok parent_records" using parent_records_ok by (simp add: list_all_iff)
  moreover have "bundle_id_ok ''run-1''" "sha256_ok (replicate 64 (CHR ''e''))" by code_simp+
  ultimately show ?thesis
    by (simp add: parentEvidenceSchema_enc evidence_ok_def plain_parent_def source_ok_def ref_ok_def config_ref_def
        state_ref_def z_positive_def safe_integer_def max_safe_integer_def)
qed

text \<open>The bundle is exported from this store, and accepted in it.\<close>

lemma parent_run_steps: "[1..last_completed parent_end] = map sr_step parent_run"
  by (simp add: last_completed_def parent_end_def still_start_def parent_run_def plain_step_def upto.simps)

lemma parent_steps_run: "parent_steps parent_catalog ''run-1'' parent_end = Inr parent_run"
proof -
  have "parent_step parent_catalog ''run-1'' (sr_step r) = Inr r" if "r \<in> set parent_run" for r
  proof -
    have "sr_runId r = ''run-1''" "sr_evidence r \<in> {[], [tests_ref]}" using that by (auto simp: parent_run_def plain_step_def)
    then show ?thesis
      using that by (auto simp: parent_step_def cat_get_def parent_found zparse_def parent_step_ok cat_all_def bindR_def)
  qed
  then show ?thesis
    by (simp add: parent_steps_def parent_run_steps mapR_eq_Inr list_all2_conv_all_nth)
qed

definition opened :: opened_parent where
  "opened = \<lparr>op_evidence = plain_parent, op_catalog = parent_catalog, op_stateChecksum = replicate 64 (CHR ''e''),
     op_config = still_config, op_state = parent_end\<rparr>"

lemma parent_listing: "versionsSchema (JArr [JObj [(''version'', j_int 7), (''isLatest'', JBool True)]]) = Some [(Fin 7, True)]"
  by (simp add: versionsSchema_def z_array_def z_array_if_def z_field_def z_number_if_def j_int_def z_bool_def)

lemma parent_latest: "latest_version [(Fin 7, True)] = Some (Fin 7)"
  by (simp add: latest_version_def)

lemma parent_opens: "open_parent parent_services ''/b'' (replicate 64 (CHR ''e'')) st = (Inr opened, st)"
proof -
  have r: "read_bundle parent_services ''/b'' (replicate 64 (CHR ''e'')) st = (Inr plain_parent, st)"
    by (simp add: read_bundle_def bindA_def thenA_def guardA_def parent_json_simps zparse_def plain_parent_ok)
      (simp add: reviewed_crypto_def)
  have l: "check_latest parent_services plain_parent st = (Inr (), st)"
  proof -
    have "pe_repository plain_parent = ''/s''" "or_version (so_ref (pe_state plain_parent)) = 7"
      by (simp_all add: plain_parent_def state_ref_def)
    then show ?thesis
      by (simp add: check_latest_def bindA_def thenA_def guardA_def parent_versions parent_json_simps zparse_def
          parent_listing parent_latest)
  qed
  have live: "check_live parent_services plain_parent x st = (Inr (), st)"
    if "map_of parent_catalog (ref_label (record_ref x)) = Some x" for x
    using parent_get [OF that, of st] by (simp add: check_live_def bindA_def guardA_def plain_parent_def)
  have c: "cat_get parent_catalog (so_ref (pe_config plain_parent)) = Inr (plain_record config_ref (enc_config still_config))"
    "cat_get parent_catalog (so_ref (pe_state plain_parent)) = Inr (plain_record state_ref (enc_state parent_end))"
    by (simp_all add: plain_parent_def cat_get_def parent_found)
  have p: "pe_runId plain_parent = ''run-1''" "pe_repository plain_parent = ''/s''" "pe_logs plain_parent = []"
    "so_checksum (pe_config plain_parent) = replicate 64 (CHR ''e'')"
    "so_checksum (pe_state plain_parent) = replicate 64 (CHR ''e'')"
    "or_name (so_ref (pe_config plain_parent)) = ''run-1-config''" "or_name (so_ref (pe_state plain_parent)) = ''run-1-state''"
    by (simp_all add: plain_parent_def config_ref_def state_ref_def)
  show ?thesis
    by (simp add: open_parent_def bindA_def thenA_def r p parent_stopped l parent_catalog_of c live parent_found zparse_def
        guardA_def parent_config_ok parent_snapshot parent_end_ok opened_def)
qed

lemma parent_reserved: "reserved (\<lambda>p. p = PStartAttempt) (attempts_before None) parent_run parent_end = 0"
    "reserved inference_phase (piCalls_before None) parent_run parent_end = 0"
  by (simp_all add: reserved_def attempts_before_def piCalls_before_def parent_run_def plain_step_def parent_end_def still_start_def)

lemma parent_limits: "checkLimits (ra_limits concrete_arguments) \<lparr>pr_attemptsStarted = 0, pr_repairsThisAttempt = 0,
    pr_piCallsStarted = 0, pr_elapsedMs = 0, pr_activeStep = False\<rparr> k = Inr (Continue, [])"
  by (simp add: checkLimits_Inr limits_ok_def progress_ok_def limit_reasons_def concrete_arguments_def z_positive_def
      z_count_def safe_integer_def max_safe_integer_def)

lemma parent_history: "check_history opened None = Inr parent_run"
proof -
  have "\<not> counters_differ (ra_limits concrete_arguments) None parent_run parent_end"
    using parent_reserved
    by (simp add: counters_differ_def Let_def parent_end_def still_start_def concrete_arguments_def)
  moreover have "\<not> initial_ambiguous parent_run parent_end"
    by (simp add: initial_ambiguous_def parent_run_def plain_step_def)
  moreover have "replay_start opened None = Inr still_start"
  proof -
    have "run_id_ok ''run-1''" "revision_ok (replicate 40 (CHR ''a''))" by code_simp+
    then have "newRun ''run-1'' (replicate 40 (CHR ''a'')) = Inr still_start" by (simp add: newRun_def still_start_def)
    then show ?thesis
      by (simp add: replay_start_def opened_def plain_parent_def still_config_def concrete_arguments_def bindR_def Let_def
          attempts_before_def piCalls_before_def) (simp add: still_start_def)
  qed
  moreover obtain s' where "replay_steps (ra_limits concrete_arguments) ''run-1'' 3 0 still_start parent_run = Inr s'"
      "\<not> replay_differs parent_end parent_run s'"
  proof -
    have "case replay_steps (ra_limits concrete_arguments) ''run-1'' 3 0 still_start parent_run of
        Inl e \<Rightarrow> False | Inr s' \<Rightarrow> \<not> replay_differs parent_end parent_run s'"
      by (simp add: parent_run_def plain_step_def begin_active_def beginStep_def parent_limits progress_of_def reserve_step_def
          finishStep_def finish_phase_def bindR_def still_start_def replay_differs_def parent_end_def safe_integer_def
          max_safe_integer_def step_name_def)
    then show ?thesis using that by (auto split: sum.splits)
  qed
  moreover have "st_elapsedMs parent_end = 0" "length parent_run = 3"
    by (simp_all add: parent_end_def still_start_def parent_run_def)
  ultimately show ?thesis
    by (simp add: check_history_def opened_def parent_steps_run still_config_def plain_parent_def bindR_def Let_def)
qed

lemma parent_tests_ok: "verifiedTests opened (hd parent_run) = Inr ()"
proof -
  have "dec_int 1 = ''1''" by code_simp
  then have "find_named (''run-1-test-'' @ dec_int 1 @ ''-result'') [tests_ref] = Some tests_ref"
    by (simp add: find_named_def tests_ref_def)
  moreover have "cat_get parent_catalog tests_ref = Inr (plain_record tests_ref parent_tests)"
    by (simp add: cat_get_def parent_found)
  moreover have "qaSchema parent_tests = Some (''run-1'', Fin 1, replicate 40 (CHR ''a''), [tests_ref])"
    by (simp add: qaSchema_def parent_tests_def z_number_if_def z_true_def z_literal_int_def z_array_if_def j_int_def
        enc_refs_def tests_ref_def ref_ok_def z_positive_def safe_integer_def max_safe_integer_def)
  ultimately show ?thesis
    by (simp add: verifiedTests_def opened_def plain_parent_def parent_run_def plain_step_def zparse_def cat_all_def bindR_def)
qed

lemma parent_settles: "settle_best parent_services opened None parent_run =
    Inr (None, None, replicate 40 (CHR ''a''))"
proof -
  have "measured_again parent_services opened parent_run = Inr None"
    by (simp add: measured_again_def parent_run_def valid_baseline_def plain_step_def)
  moreover have "filter (\<lambda>r. kept_revision r \<noteq> None) parent_run = []"
    by (simp add: parent_run_def kept_revision_def plain_step_def)
  moreover have "st_bestRevision parent_end = replicate 40 (CHR ''a'')" "st_initialRevision parent_end = replicate 40 (CHR ''a'')"
    by (simp_all add: parent_end_def still_start_def)
  moreover have "(case parent_run of [] \<Rightarrow> Inr () | r # _ \<Rightarrow> verifiedTests opened r) = Inr ()"
    using parent_tests_ok by (simp add: parent_run_def)
  moreover have "op_state opened = parent_end" by (simp add: opened_def)
  ultimately show ?thesis
    by (simp add: settle_best_def bindR_def check_requalified_def best_of_def restart_best_def verify_raw_def Let_def)
qed

definition parent_campaign :: campaign where
  "parent_campaign = \<lparr>ca_config = still_config, ca_state = parent_end, ca_initial = None, ca_best = None,
     ca_bestRevision = replicate 40 (CHR ''a''), ca_startedAtMs = 5, ca_attemptsStarted = 0, ca_piCallsStarted = 0,
     ca_sourceRunId = ''run-1'', ca_sourceDigest = replicate 64 (CHR ''e'')\<rparr>"

lemma parent_accepted:
  "verifyParentEvidence parent_services \<lparr>pb_path = ''/b'', pb_sha256 = replicate 64 (CHR ''e'')\<rparr> st =
     (Inr parent_campaign, st)"
proof -
  have "is_absolute ''/b''" "resolve_path [] ''/b'' = ''/b''" "sha256_ok (replicate 64 (CHR ''e''))" by code_simp+
  then have e: "exact_bundle parent_host ''/b'' (replicate 64 (CHR ''e'')) st = (Inr (), st)"
    by (simp add: exact_bundle_def resolveA_def bindA_def guardA_def)
  have n: "(4096 :: nat) = Suc 4095" by simp
  have i: "\<not> identity_changed (\<lambda>_. ''0'') opened None"
    by (simp add: identity_changed_def opened_def plain_parent_def still_config_def concrete_arguments_def parent_end_def
        still_start_def Let_def)
  have t: "check_terminal parent_services opened st = (Inr (), st)"
    by (simp add: check_terminal_def opened_def plain_parent_def parent_end_def still_start_def guardA_def)
  have "settle_parent parent_services (replicate 64 (CHR ''e'')) opened None st = (Inr parent_campaign, st)"
    by (simp add: settle_parent_def thenA_def bindA_def guardA_def i t parent_history parent_settles parent_reserved
        parent_campaign_def)
      (simp add: opened_def still_config_def plain_parent_def parent_reserved)
  then show ?thesis
    unfolding verifyParentEvidence_def n verify_chain.simps(2)
    by (simp add: thenA_def bindA_def e guardA_def parent_opens)
      (simp add: opened_def still_config_def concrete_arguments_def)
qed

lemma opened_is:
  assumes "open_parent parent_services ''/b'' (replicate 64 (CHR ''e'')) st = (Inr op, st')"
  shows "op = opened"
  using assms parent_opens [of st] by simp

theorem accepted_parent_is_a_run_witness:
  "\<exists>steps s0 s'. length steps = 3 \<and> (\<forall>r \<in> set steps. exported_step parent_catalog ''run-1'' r) \<and> fresh_run s0 \<and>
     recorded_run (ra_limits concrete_arguments) ''run-1'' s0 steps s' \<and> st_phase s' = PDone"
proof -
  have p: "ca_config parent_campaign = still_config" "ca_state parent_campaign = parent_end"
    "ca_sourceRunId parent_campaign = ''run-1''"
    "rc_arguments still_config = concrete_arguments" "st_activeStep parent_end = None" "st_phase parent_end = PDone"
    "st_sequence parent_end = 3"
    by (simp_all add: parent_campaign_def still_config_def parent_end_def still_start_def)
  obtain op st1 st2 steps s0 s' where o: "open_parent parent_services ''/b'' (replicate 64 (CHR ''e'')) st1 = (Inr op, st2)"
    and r: "\<forall>r \<in> set steps. exported_step (op_catalog op) ''run-1'' r" "fresh_run s0"
      "recorded_run (ra_limits concrete_arguments) ''run-1'' s0 steps s'" "PDone = st_phase s'" "3 = int (length steps) + (if (None :: int option) = None then 0 else 1)"
    using accepted_parent_is_a_run [OF parent_accepted [of "(still_store, ())"] refl refl refl]
    unfolding p parent_bundle.simps by (elim exE conjE) (rule that)
  have "op_catalog op = parent_catalog" using opened_is [OF o] by (simp add: opened_def)
  with r show ?thesis by (intro exI [of _ steps] exI [of _ s0] exI [of _ s']) simp
qed

text \<open>The export of this run fetches records of its catalog only.\<close>

definition from_parent :: "catalog \<Rightarrow> bool" where
  "from_parent cat \<longleftrightarrow> (\<forall>(k, x) \<in> set cat. map_of parent_catalog k = Some x \<and> k = ref_label (record_ref x))"

lemma parent_fetch:
  assumes "map_of parent_catalog (ref_label r) = Some x" "from_parent cat"
  shows "\<exists>cat'. fetch parent_services ''/s'' ''m'' cat r st = (Inr (cat', x), st) \<and> from_parent cat'"
proof (cases "map_of cat (ref_label r)")
  case None
  then show ?thesis
    using parent_get [OF assms(1), of st] parent_json_record(2) [OF assms(1)] parent_record_ok [OF assms(1)] assms
    by (auto simp: fetch_def bindA_def thenA_def guardA_def from_parent_def)
next
  case (Some y)
  then have "(ref_label r, y) \<in> set cat" by (rule map_of_SomeD)
  with assms have "y = x" by (auto simp: from_parent_def)
  with Some assms(2) show ?thesis by (simp add: fetch_def)
qed

lemma parent_fetch_all:
  assumes "\<And>r. r \<in> set rs \<Longrightarrow> map_of parent_catalog (ref_label r) = Some (g r)" "from_parent cat"
  shows "\<exists>cat'. fetch_all parent_services ''/s'' ''m'' cat rs st = (Inr (cat', map g rs), st) \<and> from_parent cat'"
  using assms
proof (induction rs arbitrary: cat)
  case (Cons r rs)
  then obtain c where c: "fetch parent_services ''/s'' ''m'' cat r st = (Inr (c, g r), st)" "from_parent c"
    using parent_fetch [of r "g r" cat st] by auto
  with Cons obtain cat' where "fetch_all parent_services ''/s'' ''m'' c rs st = (Inr (cat', map g rs), st)" "from_parent cat'"
    by (metis list.set_intros(2))
  with c show ?case by (simp add: bindA_def)
qed simp

lemma parent_again: "from_parent cat \<Longrightarrow> forA (check_again parent_services ''/s'') (map snd cat) st = (Inr (), st)"
proof (induction cat)
  case (Cons kx cat)
  obtain k x where kx: "kx = (k, x)" by (cases kx)
  with Cons.prems have "map_of parent_catalog (ref_label (record_ref x)) = Some x" by (auto simp: from_parent_def)
  from parent_get [OF this, of st] Cons kx show ?case
    by (simp add: check_again_def thenA_def bindA_def guardA_def from_parent_def)
qed simp

lemma parent_step_record: "r \<in> set parent_run \<Longrightarrow>
    map_of parent_catalog (ref_label \<lparr>or_name = step_name ''run-1'' (sr_step r), or_version = 1\<rparr>) =
      Some (plain_record \<lparr>or_name = step_name ''run-1'' (sr_step r), or_version = 1\<rparr> (enc_step r))"
  by (rule parent_found(4))

lemma parent_exports_steps:
  assumes "from_parent cat"
  shows "\<exists>cat'. export_steps parent_services ''/s'' ''m'' ''run-1'' cat parent_end st = (Inr (cat', parent_run), st) \<and>
    from_parent cat'"
proof -
  let ?r = "\<lambda>i. \<lparr>or_name = step_name ''run-1'' i, or_version = 1\<rparr>"
  let ?refs = "map ?r [1..last_completed parent_end]"
  let ?x = "\<lambda>i. plain_record (?r i) (enc_step (parent_run ! nat (i - 1)))"
  have refs: "rev (remdups (rev ?refs)) = [?r 1, ?r 2, ?r 3]"
    by (simp add: parent_run_steps parent_run_def plain_step_def step_name_def)
  have all: "map_of parent_catalog (ref_label (?r i)) = Some (?x i)" if "i \<in> {1, 2, 3}" for i
  proof -
    have "parent_run ! nat (i - 1) \<in> set parent_run" "sr_step (parent_run ! nat (i - 1)) = i"
      using that by (auto simp: parent_run_def plain_step_def)
    with parent_step_record [OF this(1)] show ?thesis by simp
  qed
  have each: "map_of parent_catalog (ref_label (?r 1)) = Some (?x 1)" "map_of parent_catalog (ref_label (?r 2)) = Some (?x 2)"
    "map_of parent_catalog (ref_label (?r 3)) = Some (?x 3)" by (rule all, simp)+
  define g where "g r = the (map_of parent_catalog (ref_label r))" for r
  have "map_of parent_catalog (ref_label r) = Some (g r)" if "r \<in> set [?r 1, ?r 2, ?r 3]" for r
    using that unfolding g_def list.set insert_iff empty_iff
    by (elim disjE FalseE) (simp_all only: each option.sel)
  from parent_fetch_all [of "[?r 1, ?r 2, ?r 3]" g cat st, OF this assms] obtain c where
    c: "fetch_all parent_services ''/s'' ''m'' cat [?r 1, ?r 2, ?r 3] st = (Inr (c, map g [?r 1, ?r 2, ?r 3]), st)"
      "from_parent c" by blast
  define xs where "xs = map g [?r 1, ?r 2, ?r 3]"
  have "xs = [?x 1, ?x 2, ?x 3]" by (simp only: xs_def list.map g_def each option.sel)
  then have p: "mapR (\<lambda>r. zparse ''step'' stepResultSchema (content_of r)) xs = Inr parent_run"
    using parent_step_ok by (simp add: mapR_eq_Inr zparse_def parent_run_def)
  have e: "rev (remdups (rev (concat (map sr_evidence parent_run)))) = [tests_ref]"
    by (simp add: parent_run_def plain_step_def)
  have "map_of parent_catalog (ref_label r) = Some (g r)" if "r \<in> set [tests_ref]" for r
    using that parent_found(3) by (auto simp: g_def)
  from parent_fetch_all [of "[tests_ref]" g c st, OF this c(2)] obtain c' where
    "fetch_all parent_services ''/s'' ''m'' c [tests_ref] st = (Inr (c', map g [tests_ref]), st)" "from_parent c'" by blast
  then show ?thesis
    unfolding export_steps_def fetchMany_def refs
    by (simp add: bindA_def c(1) [folded xs_def] p e del: fetch_all.simps mapR.simps)
qed

lemma parent_exports_kept:
  assumes "from_parent cat"
  shows "\<exists>cat'. export_kept parent_services ''/s'' ''m'' ''run-1'' cat parent_run st = (Inr cat', st) \<and> from_parent cat'"
proof -
  have k: "filter (\<lambda>r. kept_revision r \<noteq> None) parent_run = []" "List.find valid_baseline parent_run = None"
    "take 1 parent_run = [hd parent_run]"
    by (simp_all add: parent_run_def kept_revision_def plain_step_def valid_baseline_def)
  have "dec_int 1 = ''1''" by code_simp
  then have n: "needed_ref (''run-1-test-'' @ dec_int (sr_step (hd parent_run)) @ ''-result'') message (hd parent_run) = Inr tests_ref" for message
    by (simp add: needed_ref_def parent_run_def plain_step_def find_named_def tests_ref_def)
  have a: "z_loose (\<lambda>o'. z_field o' ''artifacts'' (z_array referenceSchema)) parent_tests = Some [tests_ref]"
    by (simp add: parent_tests_def refs_enc tests_ref_def ref_ok_def z_positive_def safe_integer_def max_safe_integer_def)
  obtain c where c: "fetch parent_services ''/s'' ''m'' cat tests_ref st = (Inr (c, plain_record tests_ref parent_tests), st)"
      "from_parent c"
    using parent_fetch [OF parent_found(3) assms, of st] by blast
  obtain c' where "fetch parent_services ''/s'' ''m'' c tests_ref st = (Inr (c', plain_record tests_ref parent_tests), st)"
      "from_parent c'"
    using parent_fetch [OF parent_found(3) c(2), of st] by blast
  then have "export_tests parent_services ''/s'' ''m'' ''run-1'' cat (hd parent_run) st = (Inr c', st)"
    using n by (simp add: export_tests_def bindA_def c(1) zparse_def a fetch_only_def)
  with \<open>from_parent c'\<close> show ?thesis
    unfolding export_kept_def before_kept_def k some_of_def by (simp add: bindA_def)
qed

text \<open>A file kept beside the resources: each write takes at most four bytes.\<close>

definition beside_file :: "(mem_store \<times> unit) file_writer" where
  "beside_file = \<lparr>fw_open = \<lambda>_ st. (Inr 1, ((fst st)(''/b'' := [JStr []]), ())),
     fw_write = \<lambda>_ b st. (Inr (min 4 (length b)), ((fst st)(''/b'' := fst st ''/b'' @ [JStr (take 4 b)]), ())),
     fw_sync = \<lambda>_. returnA (), fw_close = \<lambda>_. returnA (), fw_readOnly = \<lambda>_. returnA ()\<rparr>"

definition beside_text :: "mem_store \<times> unit \<Rightarrow> int \<Rightarrow> string" where
  "beside_text st f = concat (map (\<lambda>v. case v of JStr s \<Rightarrow> s | _ \<Rightarrow> []) (fst st ''/b''))"

lemma beside_laws: "file_writer_laws beside_file beside_text"
proof -
  have "take (min 4 (length b)) b = take 4 b" for b :: string by (simp add: min_def)
  then show ?thesis by (auto simp: file_writer_laws_def beside_file_def beside_text_def returnA_def)
qed

lemma beside_rest: "\<exists>st'. write_rest (fw_write beside_file f) bytes st = (Inr (), st')"
proof (induction "length bytes" arbitrary: bytes st rule: less_induct)
  case less
  show ?case
  proof (cases "bytes = []")
    case True
    then show ?thesis by (subst write_rest.simps) (cases st; simp add: returnA_def)
  next
    case False
    define k where "k = min 4 (length bytes)"
    have k: "k \<noteq> 0" "length (drop k bytes) < length bytes" using False by (simp_all add: k_def min_def)
    have "\<exists>st1. fw_write beside_file f bytes st = (Inr k, st1)" by (simp add: beside_file_def k_def)
    then obtain st1 where w: "fw_write beside_file f bytes st = (Inr k, st1)" by blast
    obtain st2 where "write_rest (fw_write beside_file f) (drop k bytes) st1 = (Inr (), st2)"
      using less.hyps [OF k(2)] by blast
    with False k(1) w have "write_rest (fw_write beside_file f) bytes st = (Inr (), st2)"
      by (subst write_rest.simps) (simp add: bindA_def)
    then show ?thesis by blast
  qed
qed

lemma beside_saved: "\<exists>st'. save_evidence beside_file p bytes st = (Inr (), st')"
proof -
  obtain f st1 where o: "fw_open beside_file p st = (Inr f, st1)" by (simp add: beside_file_def)
  obtain st2 where "write_rest (fw_write beside_file f) bytes st1 = (Inr (), st2)" using beside_rest by blast
  with o have "save_evidence beside_file p bytes st = (Inr (), st2)"
    by (simp add: save_evidence_def bindA_def finallyA_def tryA_def thenA_def) (simp add: beside_file_def returnA_def)
  then show ?thesis by blast
qed

lemma parent_exported:
  "\<exists>digest st'. exportParentEvidence parent_services beside_file ''/s'' ''run-1'' 7 ''/b'' None st = (Inr digest, st')"
proof -
  let ?s = "\<lparr>or_name = ''run-1-state'', or_version = 7\<rparr>" and ?c = "\<lparr>or_name = ''run-1-config'', or_version = 1\<rparr>"
  have refs: "?s = state_ref" "?c = config_ref" by (simp_all add: state_ref_def config_ref_def)
  have "is_absolute ''/b''" "resolve_path [] ''/b'' = ''/b''" "bundle_id_ok ''run-1''" by code_simp+
  then have e: "exact_export parent_host ''/s'' ''run-1'' ''/b'' 7 st = (Inr (), st)"
    using parent_exact [of st]
    by (simp add: exact_export_def bindA_def guardA_def z_positive_def safe_integer_def max_safe_integer_def)
      (simp add: resolveA_def)
  have l: "listed_model parent_services ''/s'' ''run-1'' 7 st = (Inr ''m'', st)"
    by (simp add: listed_model_def bindA_def thenA_def guardA_def parent_versions parent_json_simps zparse_def parent_listing
        parent_latest)
  obtain c1 where c1: "fetch parent_services ''/s'' ''m'' [] config_ref st =
      (Inr (c1, plain_record config_ref (enc_config still_config)), st)" "from_parent c1"
    using parent_fetch [OF parent_found(1), of "[]" st] by (auto simp: from_parent_def)
  obtain c2 where c2: "fetch parent_services ''/s'' ''m'' c1 state_ref st =
      (Inr (c2, plain_record state_ref (enc_state parent_end)), st)" "from_parent c2"
    using parent_fetch [OF parent_found(2) c1(2), of st] by blast
  obtain c3 where c3: "export_steps parent_services ''/s'' ''m'' ''run-1'' c2 parent_end st = (Inr (c3, parent_run), st)"
      "from_parent c3"
    using parent_exports_steps [OF c2(2), of st] by blast
  obtain c4 where c4: "export_kept parent_services ''/s'' ''m'' ''run-1'' c3 parent_run st = (Inr c4, st)" "from_parent c4"
    using parent_exports_kept [OF c3(2), of st] by blast
  have d: "config_directory (enc_config still_config) = Some ''/logs''"
    by (simp add: config_directory_def enc_config_def still_config_def concrete_arguments_def enc_arguments_def)
  have "is_absolute ''/logs''" "resolve_path [] ''/logs'' = ''/logs''" by code_simp+
  then have r: "resolveA parent_host ''/logs'' st = (Inr ''/logs'', st)" by (simp add: resolveA_def)
  have idle: "st_activeStep parent_end = None" "st_runId parent_end = ''run-1''" by (simp_all add: parent_end_def still_start_def)
  have saved: "\<exists>digest a. (case save_evidence beside_file ''/b'' bytes st of (Inl e, st') \<Rightarrow> (Inl e, st')
      | (Inr x, st') \<Rightarrow> returnA d st') = (Inr digest, a, ())" for bytes d
  proof -
    obtain st' where "save_evidence beside_file ''/b'' bytes st = (Inr (), st')" using beside_saved by blast
    then show ?thesis by (cases st') (simp add: returnA_def)
  qed
  show ?thesis
    by (simp add: exportParentEvidence_def e thenA_def bindA_def parent_stopped collect_evidence_def l refs c1(1) c2(1) c3(1)
        c4(1) parent_snapshot zparse_def d r guardA_def parent_end_ok idle export_logs_def probe_missing_def export_receipt_def
        truthy_def parent_again [OF c4(2)] Let_def saved)
qed

theorem exported_bundle_reads_back_witness:
  "\<exists>ev. pe_runId ev = ''run-1'' \<and> reads_back parent_services ev"
proof -
  obtain digest st' where e: "exportParentEvidence parent_services beside_file ''/s'' ''run-1'' 7 ''/b'' None
      (still_store, ()) = (Inr digest, st')"
    using parent_exported by blast
  have "sha256_ok (cr_sha256 (sv_crypto parent_services) b)" for b
  proof -
    have "sha256_ok (replicate 64 (CHR ''e''))" by code_simp
    then show ?thesis by (simp add: reviewed_crypto_def)
  qed
  moreover have "z_count (fi_size i)" if "h_lstat (sv_host parent_services) p st = (Inr i, st')" for p i and st st' :: "mem_store \<times> unit"
    using that by (auto simp: returnA_def still_stat_def Let_def z_count_def safe_integer_def max_safe_integer_def)
  ultimately show ?thesis using exported_bundle_reads_back [OF e beside_laws] by blast
qed

end
