(* ===== verification/Placement.thy ===== *)
theory Placement
  imports Campaign
begin

text \<open>
  \<^verbatim>\<open>_lib/placement.ts\<close>: the benchmark server and its client run on fixed processors. The topology
  is read and checked before a benchmark, and the files that the wrapped client and the server
  leave are checked after it.
\<close>

section \<open>The machine\<close>

text \<open>
  The runners use more of the host: the operating system and architecture of the build, the name of
  the host, the place of the reviewed wrapper beside the sources, \<^verbatim>\<open>pathToFileURL(path).href\<close>,
  \<^verbatim>\<open>Number\<close> of a text, and the files they create. \<^verbatim>\<open>writeTextFile\<close> is called with \<^verbatim>\<open>createNew\<close>.
\<close>

record 'st machine = "'st services" +
  mc_os :: string
  mc_arch :: string
  mc_hostname :: "('st, string) action"
  mc_wrapper :: string
  mc_fileURL :: "string \<Rightarrow> string"
  mc_number :: "string \<Rightarrow> jsnum"
  mc_writeText :: "string \<Rightarrow> string \<Rightarrow> ('st, unit) action"
  mc_copyFile :: "string \<Rightarrow> string \<Rightarrow> ('st, unit) action"
  mc_symlink :: "string \<Rightarrow> string \<Rightarrow> ('st, unit) action"
  mc_removeTree :: "string \<Rightarrow> ('st, unit) action"

section \<open>The processors\<close>

definition serverMask :: string where
  "serverMask = ''10-11''"

definition clientMask :: string where
  "clientMask = ''12-13''"

definition cpus :: "int list" where
  "cpus = [10, 11, 12, 13]"

definition hostFile :: "'st host \<Rightarrow> string \<Rightarrow> ('st, string) action" where
  "hostFile h path =
     bindA (h_output h (run_program ''cat'' [path])) (\<lambda>result.
     thenA (guardA (co_success result) (''Cannot read host CPU metadata: '' @ path))
     (returnA (js_trim (co_stdout result))))"

text \<open>
  \<^verbatim>\<open>/^Cpus_allowed_list:\s*(\S+)/m\<close>: a line starts at the beginning or after a line break.
\<close>

fun after_breaks :: "string \<Rightarrow> string list" where
  "after_breaks [] = []"
| "after_breaks (c # s) = (if c = LF \<or> c = CR then s # after_breaks s else after_breaks s)"

definition allowed_key :: string where
  "allowed_key = ''Cpus_allowed_list:''"

definition allowed_word :: "string \<Rightarrow> string" where
  "allowed_word line = takeWhile (\<lambda>c. \<not> is_space c) (dropWhile is_space (drop (length allowed_key) line))"

definition allowed_list :: "string \<Rightarrow> string option" where
  "allowed_list text = map_option allowed_word
     (List.find (\<lambda>line. starts_with allowed_key line \<and> allowed_word line \<noteq> []) (text # after_breaks text))"

text \<open>
  One range of the list; \<^verbatim>\<open>for (let cpu = start; cpu <= end; cpu++)\<close> meets the processors that lie
  a whole number of steps from the start.
\<close>

definition in_cpu_range :: "(string \<Rightarrow> jsnum) \<Rightarrow> string \<Rightarrow> int \<Rightarrow> bool" where
  "in_cpu_range number part cpu =
     (let parts = map number (js_split (CHR ''-'') part); start = hd parts;
          last_cpu = (case parts of _ # e # _ \<Rightarrow> e | _ \<Rightarrow> start) in
      case start of
        Fin a \<Rightarrow> a \<le> of_int cpu \<and> js_le (Fin (of_int cpu)) last_cpu \<and> of_int \<lfloor>a\<rfloor> = a
      | _ \<Rightarrow> False)"

definition permitted :: "(string \<Rightarrow> jsnum) \<Rightarrow> string \<Rightarrow> int \<Rightarrow> bool" where
  "permitted number allowed cpu = list_ex (\<lambda>part. in_cpu_range number part cpu) (js_split (CHR '','') allowed)"

definition read_cpu :: "'st host \<Rightarrow> int \<Rightarrow> ('st, cpu_place) action" where
  "read_cpu h cpu =
     (let read = (\<lambda>name. hostFile h (join_path (''/sys/devices/system/cpu/cpu'' @ dec_int cpu) name)) in
      bindA (read ''topology/core_id'') (\<lambda>core.
      bindA (read ''topology/physical_package_id'') (\<lambda>package.
      bindA (read ''cache/index3/id'') (\<lambda>l3.
      bindA (read ''cache/index3/size'') (\<lambda>l3Size.
      bindA (read ''topology/thread_siblings_list'') (\<lambda>siblings.
      returnA \<lparr>cp_cpu = cpu, cp_core = core, cp_package = package, cp_l3 = l3, cp_l3Size = l3Size,
        cp_siblings = siblings\<rparr>))))))"

definition places :: "(cpu_place \<Rightarrow> string) \<Rightarrow> cpu_place list \<Rightarrow> nat" where
  "places part topology = length (remdups (map (\<lambda>c. cp_package c @ ''/'' @ part c) topology))"

definition topology_ok :: "cpu_place list \<Rightarrow> bool" where
  "topology_ok topology \<longleftrightarrow> places cp_core topology = 4 \<and> places cp_l3 topology = 1 \<and>
     list_all (\<lambda>c. cp_l3Size c = ''32768K'' \<and>
       cp_siblings c = dec_int (cp_cpu c) @ '','' @ dec_int (cp_cpu c + 16)) topology"

record placed =
  pd_topology :: "cpu_place list"
  pd_realH2load :: string
  pd_env :: "(string \<times> string) list"

definition placementEnvironment :: "('st, 'z) machine_scheme \<Rightarrow> string \<Rightarrow> ('st, placed) action" where
  "placementEnvironment mc directory =
     (let h = sv_host mc in
      thenA (guardA (mc_os mc = ''linux'') ''Pinned benchmark requires Linux'')
      (bindA (hostFile h ''/proc/self/status'') (\<lambda>status.
       case allowed_list status of
         None \<Rightarrow> throwA (Error ''Cannot read permitted CPUs'')
       | Some allowed \<Rightarrow>
           thenA (guardA (list_all (permitted (mc_number mc) allowed) cpus)
             ''Benchmark CPUs are not permitted by this process'')
           (bindA (mapA (read_cpu h) cpus) (\<lambda>topology.
            thenA (guardA (topology_ok topology)
              ''Benchmark cores are not distinct physical cores on the expected L3'')
            (bindA (h_output h (run_program ''bash'' [''-c'', ''command -v h2load''])) (\<lambda>found.
             thenA (guardA (co_success found) ''Real h2load is unavailable'')
             (bindA (h_realPath h (js_trim (co_stdout found))) (\<lambda>realH2load.
              let missing = ''Reviewed h2load wrapper is unavailable'' in
              thenA (guardA (realH2load \<noteq> mc_wrapper mc) missing)
              (bindA (h_stat h (mc_wrapper mc)) (\<lambda>stat.
               thenA (guardA (fi_isFile stat) missing)
               (bindA (env_get h ''PATH'') (\<lambda>path.
                returnA \<lparr>pd_topology = topology, pd_realH2load = realH2load,
                  pd_env = [(''PATH'', dirname_path (mc_wrapper mc) @ '':'' @ (case path of None \<Rightarrow> [] | Some p \<Rightarrow> p)),
                    (''TEMPO_BENCHMARK_METHOD'', benchmarkMethod), (''TEMPO_H2LOAD_REAL'', realH2load),
                    (''TEMPO_AFFINITY_LOG'', join_path directory ''client-affinity.tsv'')]\<rparr>)))))))))))))"

section \<open>The evidence of the placement\<close>

text \<open>\<^verbatim>\<open>/^\d{4}-\d\d-\d\dT/\<close>, \<^verbatim>\<open>/^\d+$/\<close> and \<^verbatim>\<open>/^\d+:12-13(?:,\d+:12-13)*$/\<close>.\<close>

definition dated :: "string \<Rightarrow> bool" where
  "dated s \<longleftrightarrow> 11 \<le> length s \<and> list_all is_digit (map ((!) s) [0, 1, 2, 3, 5, 6, 8, 9]) \<and>
     s ! 4 = CHR ''-'' \<and> s ! 7 = CHR ''-'' \<and> s ! 10 = CHR ''T''"

definition digits :: "string \<Rightarrow> bool" where
  "digits s \<longleftrightarrow> s \<noteq> [] \<and> list_all is_digit s"

definition client_thread :: "string \<Rightarrow> bool" where
  "client_thread s \<longleftrightarrow> digits (takeWhile is_digit s) \<and> dropWhile is_digit s = '':'' @ clientMask"

definition client_row :: "string \<Rightarrow> string list \<Rightarrow> string \<Rightarrow> bool" where
  "client_row realH2load row' command = (case row' of
     [time, pid, program, threads, args] \<Rightarrow>
       dated time \<and> digits pid \<and> program = realH2load \<and>
       list_all client_thread (js_split (CHR '','') threads) \<and>
       pid @ '':'' @ clientMask \<in> set (js_split (CHR '','') threads) \<and> starts_with command args
   | _ \<Rightarrow> False)"

definition client_rows :: "string \<Rightarrow> string list \<Rightarrow> string list list \<Rightarrow> bool" where
  "client_rows realH2load commands rows \<longleftrightarrow> list_all2 (client_row realH2load) rows commands"

definition client_commands :: "string list \<Rightarrow> int \<Rightarrow> int \<Rightarrow> string list" where
  "client_commands samples warmup duration =
     concat (map (\<lambda>_. [''-D '' @ dec_int warmup @ '' '', ''-D '' @ dec_int duration @ '' '']) samples)"

text \<open>A property of an untyped value: reading one of \<^verbatim>\<open>null\<close> throws.\<close>

definition js_prop :: "json \<Rightarrow> string \<Rightarrow> json option res" where
  "js_prop v k = (case v of
     JNull \<Rightarrow> Inl (Named ''TypeError'' k) | JObj kvs \<Rightarrow> Inr (map_of kvs k) | _ \<Rightarrow> Inr None)"

definition js_integer :: "json option \<Rightarrow> bool" where
  "js_integer v = (case v of Some (JNum (Fin q)) \<Rightarrow> of_int \<lfloor>q\<rfloor> = q | _ \<Rightarrow> False)"

fun thread_differs :: "json list \<Rightarrow> bool res" where
  "thread_differs [] = Inr False"
| "thread_differs (t # ts) =
     bindR (js_prop t ''tid'') (\<lambda>tid.
     if \<not> js_integer tid then Inr True
     else bindR (js_prop t ''allowed'') (\<lambda>allowed.
       if allowed \<noteq> Some (JStr serverMask) then Inr True else thread_differs ts))"

definition server_differs :: "string \<Rightarrow> json \<Rightarrow> bool res" where
  "server_differs phase evidence =
     bindR (js_prop evidence ''method'') (\<lambda>m.
     if m \<noteq> Some (JStr benchmarkMethod) then Inr True
     else bindR (js_prop evidence ''phase'') (\<lambda>p.
       if p \<noteq> Some (JStr phase) then Inr True
       else bindR (js_prop evidence ''threads'') (\<lambda>threads. case threads of
         Some (JArr ts) \<Rightarrow> if ts = [] then Inr True else thread_differs ts
       | _ \<Rightarrow> Inr True)))"

definition server_phases :: "string list" where
  "server_phases = [''ready'', ''measurement-start'', ''measurement-end'']"

definition check_server :: "('st, 'z) services_scheme \<Rightarrow> string \<Rightarrow> string \<Rightarrow> ('st, unit) action" where
  "check_server sv sample phase =
     bindA (h_readFile (sv_host sv) (join_path sample (''server-affinity-'' @ phase @ ''.json''))) (\<lambda>text.
     bindA (liftA (sv_json sv text)) (\<lambda>evidence.
     bindA (liftA (server_differs phase evidence)) (\<lambda>differs.
     guardA (\<not> differs) (''Server affinity evidence differs: '' @ sample @ ''/'' @ phase))))"

definition validatePlacementEvidence :: "('st, 'z) services_scheme \<Rightarrow> string \<Rightarrow> string list \<Rightarrow> int \<Rightarrow> int \<Rightarrow> string \<Rightarrow>
    ('st, unit) action" where
  "validatePlacementEvidence sv directory samples warmup duration realH2load =
     bindA (h_readFile (sv_host sv) (join_path directory ''client-affinity.tsv'')) (\<lambda>text.
     thenA (guardA (client_rows realH2load (client_commands samples warmup duration)
         (map (js_split (CHR 0x09)) (js_split LF (js_trim text))))
       ''Client affinity evidence is missing or inconsistent'')
     (forA (\<lambda>sample. forA (check_server sv sample) server_phases) samples))"

end
