(* ===== verification/Pi_Runner.thy ===== *)
theory Pi_Runner
  imports Placement Pi_Events
begin

text \<open>
  \<^verbatim>\<open>_lib/pi-runner.ts\<close>: one inference step as a process. The step's directory, the frozen inputs,
  the file policy and the arguments are prepared; the process is run in its scope; its event stream
  and logs are archived, the response is saved, and the edits of an editing step are snapshotted
  whatever the response was. Timestamps, modes of files and \<^verbatim>\<open>Promise.all\<close> are not modelled.
\<close>

section \<open>The request\<close>

record pi_request =
  pq_context :: inference_context
  pq_reviewBase :: "string option"
  pq_workspace :: string
  pq_referenceRoots :: "string list"
  pq_directory :: string
  pq_promptsDirectory :: string
  pq_extensionPath :: string
  pq_credentialDirectory :: string

record pi_execution =
  px_success :: bool
  px_error :: "string option"
  px_status :: "command_status option"
  px_cleanup :: "cleanup option"

definition guard_stage_of :: "phase \<Rightarrow> guard_stage" where
  "guard_stage_of p = (case p of PResearch \<Rightarrow> GResearch | PImplement \<Rightarrow> GImplement | PRepair \<Rightarrow> GRepair
   | PReview \<Rightarrow> GReview | _ \<Rightarrow> GAnalyze)"

definition parse_context :: "inference_context \<Rightarrow> inference_context res" where
  "parse_context c = zparse ''context'' inferenceContextSchema (JObj (context_fields c))"

section \<open>Checks before the step\<close>

definition real_or_missing :: "'st host \<Rightarrow> string \<Rightarrow> ('st, string) action" where
  "real_or_missing h path = catchA (h_realPath h path) (\<lambda>e. if not_found e then returnA path else throwA e)"

text \<open>The two relationships of a directory an inference may read and a private one.\<close>

definition exposes :: "string \<Rightarrow> string \<Rightarrow> bool" where
  "exposes dir secret \<longleftrightarrow> contained dir secret \<or> contained secret dir"

definition check_pi_paths :: "'st host \<Rightarrow> pi_request \<Rightarrow> ('st, string \<times> string list) action" where
  "check_pi_paths h q =
     bindA (h_realPath h (pq_workspace q)) (\<lambda>workspace.
     thenA (guardA (is_absolute (pq_directory q)) ''Pi step directory must be absolute'')
     (thenA (guardA (list_all is_absolute [pq_credentialDirectory q, pq_promptsDirectory q, pq_extensionPath q])
        ''Pi configuration paths must be absolute'')
     (bindA (real_parent h (pq_directory q)) (\<lambda>canonical.
      thenA (guardA (canonical = resolve_path [] (pq_directory q)) ''Pi step directory must not traverse a symlink'')
      (let suffix = relative_path workspace (pq_directory q) in
       thenA (guardA (starts_with ''../'' suffix \<or> is_absolute suffix) ''Pi state must be outside the editable worktree'')
       (bindA (real_or_missing h (pq_credentialDirectory q)) (\<lambda>credentials.
        bindA (mapA (h_realPath h) (pq_referenceRoots q)) (\<lambda>roots.
        thenA (guardA (list_all (\<lambda>dir. \<not> exposes dir (pq_directory q) \<and> \<not> exposes dir credentials) roots)
          ''Reference directories must not expose Pi configuration or credentials'')
        (returnA (workspace, roots))))))))))"

text \<open>
  The inputs: saved by this run, valid, and the two frozen texts with the hash they were saved
  under.
\<close>

definition frozenSchema :: "string \<Rightarrow> (string \<Rightarrow> bool) \<Rightarrow> (string \<times> string) schema" where
  "frozenSchema source ok = z_loose (\<lambda>o'. do {
     _ \<leftarrow> z_field o' ''source'' (z_enum [(source, ())]);
     sha \<leftarrow> z_field o' ''sha256'' sha256Schema;
     text \<leftarrow> z_field o' ''text'' (z_string_if ok);
     Some (sha, text) })"

definition frozen_text :: "crypto \<Rightarrow> (string \<times> string) schema \<Rightarrow> string \<Rightarrow> output_ref \<Rightarrow> json \<Rightarrow> unit res" where
  "frozen_text cr schema message r data =
     bindR (zparse ''frozen'' schema data) (\<lambda>(sha, text).
     if or_version r \<noteq> 1 \<or> cr_sha256 cr text \<noteq> sha then Inl (Error message) else Inr ())"

definition check_input :: "crypto \<Rightarrow> string \<Rightarrow> output_ref \<Rightarrow> json option \<Rightarrow> json res" where
  "check_input cr runId r found = (case found of
     None \<Rightarrow> Inl (Error ''Input is missing or belongs to another run'')
   | Some data \<Rightarrow>
       bindR (js_prop data ''runId'') (\<lambda>owner.
       if owner \<noteq> Some (JStr runId) then Inl (Error ''Input is missing or belongs to another run'')
       else bindR (js_prop data ''status'') (\<lambda>status.
       if status = Some (JStr ''invalid'') then Inl (Error ''Invalid inference output cannot be supplied to Pi'')
       else bindR (if or_name r = runId @ ''-agents-context''
           then frozen_text cr (frozenSchema ''untracked project AGENTS.md'' (\<lambda>_. True))
             ''Frozen AGENTS.md input differs from its saved hash'' r data else Inr ()) (\<lambda>_.
         bindR (if or_name r = runId @ ''-experiment-brief''
           then frozen_text cr (frozenSchema ''prepared experiment brief'' (\<lambda>s. s \<noteq> [] \<and> length s \<le> 32768))
             ''Frozen experiment brief differs from its saved hash'' r data else Inr ()) (\<lambda>_.
         Inr data)))))"

definition read_input :: "('st, 'z) services_scheme \<Rightarrow> string \<Rightarrow> output_ref \<Rightarrow> ('st, output_ref \<times> json) action" where
  "read_input sv runId r =
     bindA (so_read (sv_store sv) (or_name r) (Some (or_version r))) (\<lambda>found.
     bindA (liftA (check_input (sv_crypto sv) runId r found)) (\<lambda>data. returnA (r, data)))"

text \<open>A review sees the difference of the two committed revisions.\<close>

record review_diff =
  rd_base :: string
  rd_bytes :: string
  rd_sha256 :: string

definition pi_git :: "'st host \<Rightarrow> string \<Rightarrow> string list \<Rightarrow> ('st, command_output) action" where
  "pi_git h workspace args = h_output h
     \<lparr>cm_command = ''git'', cm_args = args, cm_cwd = Some workspace, cm_env = [], cm_clearEnv = False\<rparr>"

definition diff_args :: "string \<Rightarrow> string \<Rightarrow> string list" where
  "diff_args base revision = [''diff'', ''--no-ext-diff'', ''--no-textconv'', ''--binary'', ''--full-index'', base,
     revision, ''--'']"

definition read_diff :: "('st, 'z) services_scheme \<Rightarrow> string \<Rightarrow> string option \<Rightarrow> string \<Rightarrow> ('st, review_diff) action" where
  "read_diff sv workspace base revision =
     (let h = sv_host sv; distinct_message = ''Review needs distinct full base and candidate revisions'' in
      case base of
        None \<Rightarrow> throwA (Error distinct_message)
      | Some b \<Rightarrow>
          thenA (guardA (revision_ok b \<and> b \<noteq> revision) distinct_message)
          (thenA (forA (\<lambda>r. bindA (pi_git h workspace [''cat-file'', ''-t'', r]) (\<lambda>checked.
             guardA (co_success checked \<and> js_trim (co_stdout checked) = ''commit'')
               ''Review revision is not a Git commit'')) [b, revision])
          (bindA (pi_git h workspace (diff_args b revision)) (\<lambda>diff.
           thenA (guardA (co_success diff \<and> co_stdout diff \<noteq> [])
             ''Review needs a nonempty committed revision diff'')
           (returnA \<lparr>rd_base = b, rd_bytes = co_stdout diff,
              rd_sha256 = cr_sha256 (sv_crypto sv) (co_stdout diff)\<rparr>)))))"

definition review_diff_of :: "('st, 'z) services_scheme \<Rightarrow> pi_request \<Rightarrow> string \<Rightarrow> inference_context \<Rightarrow>
    ('st, review_diff option) action" where
  "review_diff_of sv q workspace c =
     (if ic_stage c = PReview
      then bindA (read_diff sv workspace (pq_reviewBase q) (ic_revision c)) (\<lambda>d. returnA (Some d))
      else returnA None)"

section \<open>The files of the step\<close>

record pi_prepared =
  pv_context :: inference_context
  pv_policy :: policy
  pv_inputHandle :: output_ref
  pv_diffHandle :: "output_ref option"
  pv_promptHandles :: "output_ref list"
  pv_agentDirectory :: string
  pv_command :: command_spec

definition input_directory :: "pi_request \<Rightarrow> string" where
  "input_directory q = join_path (pq_directory q) ''inputs''"

definition agent_directory :: "pi_request \<Rightarrow> string" where
  "agent_directory q = join_path (pq_directory q) ''agent''"

definition pi_settings :: json where
  "pi_settings = JObj [(''compaction'', JObj [(''enabled'', JBool False)]),
     (''retry'', JObj [(''enabled'', JBool False), (''provider'', JObj [(''maxRetries'', j_int 0)])]),
     (''cacheWarming'', JStr ''off''), (''defaultTools'', JArr []), (''defaultProjectTrust'', JStr ''never''),
     (''enableAnalytics'', JBool False), (''enableInstallTelemetry'', JBool False), (''packages'', JArr []),
     (''extensions'', JArr []), (''skills'', JArr []), (''prompts'', JArr []), (''themes'', JArr [])]"

definition pi_policy :: "pi_request \<Rightarrow> string \<Rightarrow> string list \<Rightarrow> inference_context \<Rightarrow> policy" where
  "pi_policy q workspace roots c =
     \<lparr>po_workspace = workspace, po_readRoots = input_directory q # roots, po_stage = guard_stage_of (ic_stage c)\<rparr>"

definition enc_pi_policy :: "policy \<Rightarrow> phase \<Rightarrow> json" where
  "enc_pi_policy po stage = JObj [(''workspace'', JStr (po_workspace po)),
     (''readRoots'', JArr (map JStr (po_readRoots po))), (''stage'', JStr (phase_name stage))]"

definition pi_paths_of :: "pi_request \<Rightarrow> inference_context \<Rightarrow> pi_paths" where
  "pi_paths_of q c =
     \<lparr>pp_extension = pq_extensionPath q, pp_policy = join_path (pq_directory q) ''policy.json'',
      pp_systemPrompt = join_path (input_directory q) ''system.md'',
      pp_taskPrompt = join_path (input_directory q) (phase_name (ic_stage c) @ ''.md''),
      pp_manifest = join_path (input_directory q) ''manifest.json''\<rparr>"

definition pi_id :: "inference_context \<Rightarrow> string" where
  "pi_id c = ic_runId c @ ''-pi-'' @ dec_int (ic_step c)"

definition make_directories :: "('st, 'z) machine_scheme \<Rightarrow> pi_request \<Rightarrow> ('st, unit) action" where
  "make_directories mc q =
     (let h = sv_host mc in
      thenA (h_mkdir h (pq_directory q) False)
      (thenA (h_mkdir h (input_directory q) False)
      (thenA (h_mkdir h (agent_directory q) False)
      (mc_writeText mc (join_path (agent_directory q) ''settings.json'') (json_text (sv_numstr mc) pi_settings)))))"

definition copy_prompt :: "('st, 'z) machine_scheme \<Rightarrow> pi_request \<Rightarrow> inference_context \<Rightarrow> string \<times> string \<Rightarrow>
    ('st, output_ref) action" where
  "copy_prompt mc q c = (\<lambda>(name, destination).
     bindA (h_readFile (sv_host mc) (join_path (pq_promptsDirectory q) (name @ ''.md''))) (\<lambda>text.
     thenA (mc_writeText mc destination text)
     (ao_text (sv_artifacts mc) ''piPrompt'' (pi_id c @ ''-'' @ name @ ''-prompt'') text)))"

definition copy_prompts :: "('st, 'z) machine_scheme \<Rightarrow> pi_request \<Rightarrow> inference_context \<Rightarrow> ('st, output_ref list) action" where
  "copy_prompts mc q c = mapA (copy_prompt mc q c)
     [(''system'', pp_systemPrompt (pi_paths_of q c)), (phase_name (ic_stage c), pp_taskPrompt (pi_paths_of q c))]"

definition diff_path :: "pi_request \<Rightarrow> string" where
  "diff_path q = join_path (input_directory q) ''revision.diff''"

definition enc_diff :: "review_diff \<Rightarrow> string \<Rightarrow> string \<Rightarrow> json" where
  "enc_diff d revision text = JObj [(''baseRevision'', JStr (rd_base d)), (''candidateRevision'', JStr revision),
     (''sha256'', JStr (rd_sha256 d)), (''diff'', JStr text)]"

text \<open>The difference becomes one more input, of the context as well.\<close>

definition add_diff :: "('st, 'z) machine_scheme \<Rightarrow> pi_request \<Rightarrow> inference_context \<Rightarrow> (output_ref \<times> json) list \<Rightarrow>
    review_diff option \<Rightarrow> ('st, inference_context \<times> (output_ref \<times> json) list \<times> output_ref option) action" where
  "add_diff mc q c inputs diff = (case diff of
     None \<Rightarrow> returnA (c, inputs, None)
   | Some d \<Rightarrow> (case sv_utf8 mc (rd_bytes d) of
       None \<Rightarrow> throwA (Named ''TypeError'' ''The encoded data is not valid'')
     | Some text \<Rightarrow>
         let entry = enc_diff d (ic_revision c) text in
         thenA (mc_writeText mc (diff_path q) (rd_bytes d))
         (bindA (ao_text (sv_artifacts mc) ''piInput'' (pi_id c @ ''-review-diff'') (json_text (sv_numstr mc) entry))
          (\<lambda>handle. bindA (liftA (parse_context (c\<lparr>ic_inputs := ic_inputs c @ [handle]\<rparr>))) (\<lambda>c'.
          returnA (c', inputs @ [(handle, entry)], Some handle))))))"

definition enc_manifest_diff :: "pi_request \<Rightarrow> inference_context \<Rightarrow> review_diff option \<Rightarrow> output_ref option \<Rightarrow>
    (string \<times> json) list" where
  "enc_manifest_diff q c diff handle = (case (diff, handle) of
     (Some d, Some r) \<Rightarrow> [(''reviewDiff'', JObj [(''baseRevision'', JStr (rd_base d)),
        (''candidateRevision'', JStr (ic_revision c)), (''sha256'', JStr (rd_sha256 d)),
        (''path'', JStr (diff_path q)), (''reference'', enc_ref r)])]
   | _ \<Rightarrow> [])"

definition pi_manifest :: "(jsnum \<Rightarrow> string) \<Rightarrow> pi_request \<Rightarrow> inference_context \<Rightarrow> (output_ref \<times> json) list \<Rightarrow>
    output_ref list \<Rightarrow> review_diff option \<Rightarrow> output_ref option \<Rightarrow> string" where
  "pi_manifest numstr q c inputs prompts diff handle =
     json_pretty numstr [] (JObj ([(''context'', JObj (context_fields c)),
       (''inputs'', JArr (map (\<lambda>(r, data). JObj [(''reference'', enc_ref r), (''data'', data)]) inputs)),
       (''prompts'', enc_refs prompts)] @ enc_manifest_diff q c diff handle)) @ [LF]"

definition link_credentials :: "('st, 'z) machine_scheme \<Rightarrow> pi_request \<Rightarrow> ('st, unit) action" where
  "link_credentials mc q =
     (let auth = join_path (pq_credentialDirectory q) ''auth.json'' in
      catchA
        (bindA (h_stat (sv_host mc) auth) (\<lambda>stat.
         thenA (guardA (fi_isFile stat) ''Pi credentials are not a regular file'')
         (mc_symlink mc auth (join_path (agent_directory q) ''auth.json''))))
        (\<lambda>e. if not_found e then returnA () else throwA e))"

definition pi_command :: "pi_request \<Rightarrow> inference_context \<Rightarrow> string \<Rightarrow> string list \<Rightarrow> command_spec" where
  "pi_command q c workspace args =
     \<lparr>sp_id = pi_id c, sp_command = ''pi'', sp_args = args, sp_cwd = workspace,
      sp_env = [(''PI_CODING_AGENT_DIR'', agent_directory q),
        (''PI_CODING_AGENT_SESSION_DIR'', join_path (agent_directory q) ''sessions''),
        (''PI_SKIP_VERSION_CHECK'', ''1''), (''PI_TELEMETRY'', ''0'')],
      sp_stdoutPath = join_path (pq_directory q) ''stdout.jsonl'',
      sp_stderrPath = join_path (pq_directory q) ''stderr.log''\<rparr>"

text \<open>The checks, then the files; what was prepared goes to the run.\<close>

definition write_inputs :: "('st, 'z) machine_scheme \<Rightarrow> pi_request \<Rightarrow> string \<Rightarrow> string list \<Rightarrow> inference_context \<Rightarrow>
    (output_ref \<times> json) list \<Rightarrow> review_diff option \<Rightarrow> ('st, pi_prepared) action" where
  "write_inputs mc q workspace roots c0 inputs0 diff =
     (let policy = pi_policy q workspace roots c0; paths = pi_paths_of q c0 in
      bindA (copy_prompts mc q c0) (\<lambda>prompts.
      bindA (add_diff mc q c0 inputs0 diff) (\<lambda>(c, inputs, handle).
      let manifest = pi_manifest (sv_numstr mc) q c inputs prompts diff handle in
      thenA (mc_writeText mc (pp_manifest paths) manifest)
      (thenA (mc_writeText mc (pp_policy paths) (json_text (sv_numstr mc) (enc_pi_policy policy (ic_stage c0))))
      (bindA (liftA (piArguments (guard_stage_of (ic_stage c)) paths)) (\<lambda>args.
       bindA (ao_text (sv_artifacts mc) ''piInput'' (pi_id c @ ''-input'') manifest) (\<lambda>inputHandle.
       thenA (link_credentials mc q)
       (returnA \<lparr>pv_context = c, pv_policy = policy, pv_inputHandle = inputHandle, pv_diffHandle = handle,
          pv_promptHandles = prompts, pv_agentDirectory = agent_directory q,
          pv_command = pi_command q c workspace args\<rparr>))))))))"

definition preparePiStep :: "('st, 'z) machine_scheme \<Rightarrow> pi_request \<Rightarrow> ('st, pi_prepared) action" where
  "preparePiStep mc q =
     bindA (liftA (parse_context (pq_context q))) (\<lambda>c.
     bindA (check_pi_paths (sv_host mc) q) (\<lambda>(workspace, roots).
     bindA (mapA (read_input mc (ic_runId c)) (ic_inputs c)) (\<lambda>inputs.
     bindA (review_diff_of mc q workspace c) (\<lambda>diff.
     thenA (make_directories mc q)
     (write_inputs mc q workspace roots c inputs diff)))))"

section \<open>Finishing the step\<close>

record pi_saved =
  pw_saved :: saved_inference
  pw_execution :: pi_execution
  pw_handles :: "output_ref list"

text \<open>The text of the event stream, what it parses to, and the error.\<close>

definition read_stream :: "('st, 'z) services_scheme \<Rightarrow> pi_prepared \<Rightarrow> pi_execution \<Rightarrow>
    ('st, string \<times> pi_response option \<times> string option) action" where
  "read_stream sv pv ex =
     bindA (tryA (h_readFile (sv_host sv) (sp_stdoutPath (pv_command pv)))) (\<lambda>r. returnA (case r of
       Inl failure \<Rightarrow> ([], None, Some (error_string failure))
     | Inr text \<Rightarrow>
         if \<not> px_success ex
         then (text, None, Some (error_string (Error (case px_error ex of
             Some e \<Rightarrow> e | None \<Rightarrow> ''Pi process or cleanup failed''))))
         else (case parsePiEvents (sv_json sv) (sv_numstr sv) text (pv_policy pv) of
             Inl failure \<Rightarrow> (text, None, Some (error_string failure))
           | Inr parsed \<Rightarrow> (text, Some parsed, px_error ex))))"

definition enc_pi_execution :: "inference_context \<Rightarrow> pi_execution \<Rightarrow> pi_response option \<Rightarrow> string option \<Rightarrow>
    output_ref list \<Rightarrow> json" where
  "enc_pi_execution c ex parsed error handles = JObj [
     (''runId'', JStr (ic_runId c)), (''step'', j_int (ic_step c)), (''revision'', JStr (ic_revision c)),
     (''success'', JBool (parsed \<noteq> None)), (''error'', j_nullable JStr error),
     (''modelTurns'', j_nullable j_int (map_option pr_modelTurns parsed)),
     (''totalTokens'', j_nullable JNum (map_option pr_totalTokens parsed)),
     (''exitCode'', j_nullable j_int (map_option cs_code (px_status ex))),
     (''signal'', j_nullable JStr (Option.bind (px_status ex) cs_signal)),
     (''cleanup'', j_nullable (\<lambda>c. JStr (cleanup_name c)) (px_cleanup ex)),
     (''artifacts'', enc_refs handles)]"

definition prepared_handles :: "pi_prepared \<Rightarrow> output_ref list" where
  "prepared_handles pv = pv_inputHandle pv # pv_promptHandles pv @
     (case pv_diffHandle pv of None \<Rightarrow> [] | Some r \<Rightarrow> [r])"

definition finishPiStep :: "('st, 'z) services_scheme \<Rightarrow> pi_prepared \<Rightarrow> pi_execution \<Rightarrow> ('st, pi_saved) action" where
  "finishPiStep sv pv ex =
     (let c = pv_context pv; spec = pv_command pv; ops = sv_store sv in
      bindA (archiveLogs (sv_host sv) (sv_artifacts sv) ''piLog'' (pi_id c) (sp_stdoutPath spec)
        (sp_stderrPath spec) (\<not> px_success ex)) (\<lambda>logs.
      let handles = prepared_handles pv @ logs in
      bindA (read_stream sv pv ex) (\<lambda>(text, parsed, error).
      bindA (so_write ops ''piExecution'' (pi_id c @ ''-execution'') (enc_pi_execution c ex parsed error handles))
      (\<lambda>executionHandle.
      bindA (saveInference ops (sv_json sv) c (case parsed of Some p \<Rightarrow> pr_response p | None \<Rightarrow> text)
        (map_option cs_code (px_status ex))
        (if parsed = None then Some (case error of Some e \<Rightarrow> e | None \<Rightarrow> ''Pi output was not validated'') else None))
      (\<lambda>saved. returnA \<lparr>pw_saved = saved, pw_execution = ex,
         pw_handles = handles @ [executionHandle, si_raw saved, si_saved saved]\<rparr>)))))"

definition pi_execution_of :: "execution res \<Rightarrow> pi_execution" where
  "pi_execution_of r = (case r of
     Inl failure \<Rightarrow> \<lparr>px_success = False, px_error = Some (error_string failure), px_status = None, px_cleanup = None\<rparr>
   | Inr ex \<Rightarrow> \<lparr>px_success = ex_success ex, px_error = ex_error ex, px_status = ex_status ex,
       px_cleanup = Some (ex_cleanup ex)\<rparr>)"

text \<open>The agent's directory goes away unless its processes may still be active.\<close>

definition runPiStep :: "('st, 'z) machine_scheme \<Rightarrow> pi_request \<Rightarrow> ('st, pi_saved) action" where
  "runPiStep mc q =
     bindA (preparePiStep mc q) (\<lambda>pv.
     bindA (tryA (runCommand (sv_host mc) (pv_command pv))) (\<lambda>r.
     let ex = pi_execution_of r in
     finallyA (finishPiStep mc pv ex)
       (whenA (px_cleanup ex \<noteq> Some CleanupFailed) (mc_removeTree mc (pv_agentDirectory pv)))))"

section \<open>The effect of the step\<close>

definition writable_stage :: "phase \<Rightarrow> bool" where
  "writable_stage p \<longleftrightarrow> p = PImplement \<or> p = PRepair"

definition with_evidence :: "output_ref list \<Rightarrow> step_effect \<Rightarrow> step_effect" where
  "with_evidence evidence eff = \<lparr>se_outcome = se_outcome eff, se_evidence = evidence\<rparr>"

definition edited_revision :: "phase \<Rightarrow> ('st, string) action option \<Rightarrow> ('st, string option) action" where
  "edited_revision stage saveChanges = (case saveChanges of
     Some save \<Rightarrow> if writable_stage stage then bindA save (\<lambda>r. returnA (Some r)) else returnA None
   | None \<Rightarrow> returnA None)"

definition settle_pi :: "('st, 'z) services_scheme \<Rightarrow> run_state \<Rightarrow> phase \<Rightarrow> ('st, string) action option \<Rightarrow> pi_saved \<Rightarrow>
    ('st, step_effect) action" where
  "settle_pi sv s stage saveChanges w =
     catchA
       (thenA (guardA (px_cleanup (pw_execution w) \<noteq> Some CleanupFailed)
          ''Pi processes are still active; preserve the worktree without snapshotting it'')
        (bindA (edited_revision stage saveChanges) (\<lambda>revision.
         bindA (readInferenceEffect (sv_store sv) s (inference_context.truncate (si_record (pw_saved w)))
           (si_saved (pw_saved w)) revision) (\<lambda>eff. returnA (with_evidence (pw_handles w) eff)))))
       (\<lambda>e. returnA \<lparr>se_outcome = Failed (error_string e), se_evidence = pw_handles w\<rparr>)"

definition runPiEffect :: "('st, 'z) machine_scheme \<Rightarrow> run_state \<Rightarrow> pi_request \<Rightarrow> ('st, string) action option \<Rightarrow>
    ('st, step_effect) action" where
  "runPiEffect mc s q saveChanges =
     bindA (liftA (parse_context (pq_context q))) (\<lambda>c.
     thenA (guardA (context_matches s c) ''Pi request does not match the active step'')
     (thenA (guardA (\<not> (writable_stage (ic_stage c) \<and> Option.is_none saveChanges))
        ''Editing requires a Swamp Git snapshot operation'')
     (bindA (runPiStep mc q) (settle_pi mc s (ic_stage c) saveChanges))))"

end
