(* ===== verification/Benchmark_Runner.thy ===== *)
theory Benchmark_Runner
  imports Placement "HOL-Library.AList"
begin

text \<open>
  \<^verbatim>\<open>_lib/benchmark-runner.ts\<close>: running a benchmark in up to two batches, archiving what it leaves,
  and saving the record that later comparisons read. A batch counts only when the source, the
  native library and the placement were those that were checked before.
\<close>

section \<open>The request\<close>

record benchmark_request =
  bq_runId :: string
  bq_repository :: string
  bq_directory :: string
  bq_protocol :: protocol
  bq_adapter :: adapter
  bq_purpose :: purpose
  bq_parameters :: parameters
  bq_precision :: precision
  bq_deadlineMs :: "int option"

definition purpose_name :: "purpose \<Rightarrow> string" where
  "purpose_name p = (case p of Smoke \<Rightarrow> ''smoke'' | MeasurementPurpose \<Rightarrow> ''measurement'')"

definition purposeSchema :: "purpose schema" where
  "purposeSchema = z_enum (map (\<lambda>p. (purpose_name p, p)) [Smoke, MeasurementPurpose])"

definition precisionDefault :: "(string \<times> json) list \<Rightarrow> precision option" where
  "precisionDefault o' = (case map_of o' ''precision'' of
     None \<Rightarrow> Some defaultPrecision | Some v \<Rightarrow> precisionSchema v)"

definition benchmarkRequestSchema :: "benchmark_request schema" where
  "benchmarkRequestSchema = z_strict [''runId'', ''repository'', ''directory'', ''protocol'', ''adapter'', ''purpose'',
       ''parameters'', ''precision'', ''deadlineMs''] (\<lambda>o'. do {
     runId \<leftarrow> z_field o' ''runId'' runIdSchema;
     repository \<leftarrow> z_field o' ''repository'' z_string_min1;
     directory \<leftarrow> z_field o' ''directory'' z_string_min1;
     protocol \<leftarrow> z_field o' ''protocol'' protocolSchema;
     adapter \<leftarrow> z_field o' ''adapter'' adapterSchema;
     purpose \<leftarrow> z_field o' ''purpose'' purposeSchema;
     parameters \<leftarrow> z_field o' ''parameters'' benchmarkParametersSchema;
     precision \<leftarrow> precisionDefault o';
     deadline \<leftarrow> z_optional o' ''deadlineMs'' (z_int_if z_positive);
     Some \<lparr>bq_runId = runId, bq_repository = repository, bq_directory = directory, bq_protocol = protocol,
       bq_adapter = adapter, bq_purpose = purpose, bq_parameters = parameters, bq_precision = precision,
       bq_deadlineMs = deadline\<rparr> })"

definition enc_request :: "benchmark_request \<Rightarrow> json" where
  "enc_request q = JObj ([(''runId'', JStr (bq_runId q)), (''repository'', JStr (bq_repository q)),
     (''directory'', JStr (bq_directory q)), (''purpose'', JStr (purpose_name (bq_purpose q))),
     (''adapter'', JStr (adapter_name (bq_adapter q))), (''protocol'', JStr (protocol_name (bq_protocol q))),
     (''parameters'', enc_parameters (bq_parameters q)), (''precision'', enc_precision (bq_precision q))] @
     j_optional ''deadlineMs'' j_int (bq_deadlineMs q))"

section \<open>Checks before the run\<close>

definition hashFile :: "('st, 'z) services_scheme \<Rightarrow> string \<Rightarrow> ('st, string) action" where
  "hashFile sv path = bindA (h_readFile (sv_host sv) path) (\<lambda>bytes. returnA (cr_sha256 (sv_crypto sv) bytes))"

text \<open>The directory of a request: absolute, and reached without symbolic links.\<close>

definition exact_directory :: "'st host \<Rightarrow> string \<Rightarrow> string \<Rightarrow> ('st, unit) action" where
  "exact_directory h directory message =
     thenA (guardA (is_absolute directory) message)
     (bindA (real_parent h directory) (\<lambda>real. guardA (real = resolve_path [] directory) message))"

definition artifact_name :: "('st, 'z) machine_scheme \<Rightarrow> string" where
  "artifact_name mc = (if mc_os mc = ''darwin'' then ''macos'' else mc_os mc) @ ''-'' @
     (if mc_arch mc = ''x86_64'' then ''x86-64'' else mc_arch mc)"

definition native_path :: "('st, 'z) machine_scheme \<Rightarrow> string \<Rightarrow> string" where
  "native_path mc path = join_path path (''shim/'' @ artifact_name mc @ ''/resources/'' @ artifact_name mc @
     ''/libh2oclj.'' @ (if mc_os mc = ''darwin'' then ''dylib'' else ''so''))"

text \<open>The same under Linux, for the programs that only run there.\<close>

definition linux_native :: "('st, 'z) machine_scheme \<Rightarrow> string \<Rightarrow> string" where
  "linux_native mc path =
     (let platform = ''linux-'' @ (if mc_arch mc = ''x86_64'' then ''x86-64'' else mc_arch mc) in
      join_path path (''shim/'' @ platform @ ''/resources/'' @ platform @ ''/libh2oclj.so''))"

definition source_path :: "string \<Rightarrow> string" where
  "source_path path = join_path path ''src/main/clojure/ol/busker.clj''"

definition expectation_of :: "('st, 'z) machine_scheme \<Rightarrow> benchmark_request \<Rightarrow> checkout \<Rightarrow> string \<Rightarrow> expectation" where
  "expectation_of mc q ck sha =
     \<lparr>ex_checkout = ck_path ck, ex_revision = ck_revision ck, ex_nativeSha256 = sha,
      ex_nativeResource = mc_fileURL mc (native_path mc (ck_path ck)),
      ex_sourceResource = mc_fileURL mc (source_path (ck_path ck)), ex_protocol = bq_protocol q,
      ex_adapter = bq_adapter q, ex_purpose = bq_purpose q, ex_parameters = bq_parameters q\<rparr>"

definition check_repetitions :: "benchmark_request \<Rightarrow> unit res" where
  "check_repetitions q = (let p = bq_parameters q in
     if bq_purpose q = Smoke \<and> (pa_warmup p \<noteq> 1 \<or> pa_duration p \<noteq> 1 \<or> pa_repetitions p \<noteq> 1)
     then Inl (Error ''Smoke checks require one one-second warmup and measurement'')
     else if bq_purpose q = MeasurementPurpose \<and> \<not> scoredRepetitions (pa_repetitions p)
     then Inl (Error ''Scored measurements require exactly two batches of three or six samples'')
     else Inr ())"

definition prepare_benchmark :: "('st, 'z) machine_scheme \<Rightarrow> benchmark_request \<Rightarrow>
    ('st, checkout \<times> expectation \<times> placed) action" where
  "prepare_benchmark mc q =
     (let h = sv_host mc in
      bindA (env_get h ''IN_NIX_SHELL'') (\<lambda>shell.
      thenA (guardA (truthy shell) ''Benchmark requires the Nix devshell'')
      (bindA (inspectCheckout h (bq_repository q)) (\<lambda>ck.
       thenA (guardA (\<not> (bq_purpose q = MeasurementPurpose \<and> ck_dirty ck)) ''Cannot measure dirty source'')
       (thenA (exact_directory h (bq_directory q) ''Benchmark directory must be absolute without symlink traversal'')
       (bindA (hashFile mc (native_path mc (ck_path ck))) (\<lambda>sha.
        thenA (liftA (check_repetitions q))
        (thenA (h_mkdir h (bq_directory q) False)
        (bindA (placementEnvironment mc (bq_directory q)) (\<lambda>pd.
         returnA (ck, expectation_of mc q ck sha, pd)))))))))))"

section \<open>One batch\<close>

record bench_state =
  bt_handles :: "output_ref list"
  bt_logs :: "output_ref list"
  bt_files :: "(string \<times> output_ref) list"
  bt_omitted :: "string list"
  bt_summary :: "benchmark_summary option"
  bt_execution :: "execution option"
  bt_error :: "string option"
  bt_inconclusive :: bool
  bt_batches :: "(string \<times> jsnum list) list"

definition bench_start :: bench_state where
  "bench_start = \<lparr>bt_handles = [], bt_logs = [], bt_files = [], bt_omitted = [], bt_summary = None,
     bt_execution = None, bt_error = None, bt_inconclusive = False, bt_batches = []\<rparr>"

definition bench_base :: "benchmark_request \<Rightarrow> string" where
  "bench_base q = bq_runId q @ ''-'' @ adapter_name (bq_adapter q) @ ''-'' @ protocol_name (bq_protocol q)"

definition batch_prefix :: "benchmark_request \<Rightarrow> nat \<Rightarrow> string" where
  "batch_prefix q batch = (if batch = 1 then bench_base q else bench_base q @ ''-repeat'')"

definition batch_output :: "benchmark_request \<Rightarrow> nat \<Rightarrow> string" where
  "batch_output q batch = join_path (bq_directory q) (if batch = 1 then ''benchmark'' else ''benchmark-repeat'')"

definition parameter_args :: "parameters \<Rightarrow> string list" where
  "parameter_args p = concat (map (\<lambda>(k, v). [''--'' @ k, dec_int v])
     ([(''warmup'', pa_warmup p), (''duration'', pa_duration p), (''repetitions'', pa_repetitions p),
       (''connections'', pa_connections p), (''streams'', pa_streams p), (''threads'', pa_threads p)] @
      (case pa_buskerWorkers p of None \<Rightarrow> [] | Some n \<Rightarrow> [(''busker-workers'', n)])))"

definition affinity_env :: "placed \<Rightarrow> string \<Rightarrow> (string \<times> string) list" where
  "affinity_env pd output = AList.update ''TEMPO_AFFINITY_LOG'' (join_path output ''client-affinity.tsv'') (pd_env pd)"

definition batch_command :: "benchmark_request \<Rightarrow> checkout \<Rightarrow> placed \<Rightarrow> nat \<Rightarrow> command_spec" where
  "batch_command q ck pd batch =
     \<lparr>sp_id = batch_prefix q batch, sp_command = ''taskset'',
      sp_args = [''-c'', ''10,11'', ''bb'', ''bench:local'', ''--adapter'', adapter_name (bq_adapter q),
        ''--protocol'', protocol_name (bq_protocol q), ''--output'', batch_output q batch] @
        parameter_args (bq_parameters q),
      sp_cwd = ck_path ck, sp_env = affinity_env pd (batch_output q batch),
      sp_stdoutPath = join_path (bq_directory q) (''stdout-'' @ dec_nat batch @ ''.log''),
      sp_stderrPath = join_path (bq_directory q) (''stderr-'' @ dec_nat batch @ ''.log'')\<rparr>"

text \<open>
  The files of a batch, numbered over both batches; only two names at the top of the output are
  left out, and a symbolic link ends the run.
\<close>

fun visit_output :: "('st, 'z) services_scheme \<Rightarrow> string \<Rightarrow> nat \<Rightarrow> nat \<Rightarrow> string \<Rightarrow> string \<Rightarrow> bench_state \<Rightarrow>
    ('st, bench_state) action" where
  "visit_output sv prefix batch 0 path rel acc = throwA (Named ''RangeError'' path)"
| "visit_output sv prefix batch (Suc depth) path rel acc =
     bindA (h_readDir (sv_host sv) path) (\<lambda>entries. archive_entries (\<lambda>entry acc.
       let label = (if rel = [] then de_name entry else rel @ ''/'' @ de_name entry);
           full = join_path path (de_name entry) in
       if de_isSymlink entry then throwA (Error ''Benchmark artifacts must not contain symlinks'')
       else if de_isDirectory entry then visit_output sv prefix batch depth full label acc
       else if label \<in> set omitted_names
       then returnA (acc\<lparr>bt_omitted := bt_omitted acc @ [dec_nat batch @ ''/'' @ label]\<rparr>)
       else if de_isFile entry
       then bindA (archiveFile (sv_host sv) (sv_artifacts sv) ''benchmarkFile''
           (prefix @ ''-file-'' @ dec_nat (length (bt_files acc) + 1)) full False) (\<lambda>handle. returnA (case handle of
             None \<Rightarrow> acc
           | Some r \<Rightarrow> acc\<lparr>bt_handles := bt_handles acc @ [r],
               bt_files := bt_files acc @ [(dec_nat batch @ ''/'' @ label, r)]\<rparr>))
       else throwA (Error ''Unexpected benchmark artifact type'')) entries acc)"

text \<open>Running the command and archiving what it left.\<close>

definition run_command_of :: "('st, 'z) services_scheme \<Rightarrow> command_spec \<Rightarrow> bench_state \<Rightarrow> ('st, bench_state) action" where
  "run_command_of sv spec s =
     bindA (tryA (runCommand (sv_host sv) spec)) (\<lambda>r. returnA (case r of
       Inr ex \<Rightarrow> s\<lparr>bt_execution := Some ex\<rparr>
     | Inl failure \<Rightarrow> s\<lparr>bt_execution := None, bt_error := Some (error_string failure)\<rparr>))"

definition archive_logs_of :: "('st, 'z) services_scheme \<Rightarrow> command_spec \<Rightarrow> bench_state \<Rightarrow> ('st, bench_state) action" where
  "archive_logs_of sv spec s =
     bindA (archiveLogs (sv_host sv) (sv_artifacts sv) ''benchmarkFile'' (sp_id spec) (sp_stdoutPath spec)
       (sp_stderrPath spec) (map_option ex_success (bt_execution s) \<noteq> Some True)) (\<lambda>rs.
     returnA (s\<lparr>bt_handles := bt_handles s @ rs, bt_logs := bt_logs s @ rs\<rparr>))"

definition archive_output_of :: "('st, 'z) services_scheme \<Rightarrow> string \<Rightarrow> nat \<Rightarrow> string \<Rightarrow> bench_state \<Rightarrow>
    ('st, bench_state) action" where
  "archive_output_of sv prefix batch output s =
     bindA (tryA (h_stat (sv_host sv) output)) (\<lambda>r. case r of
       Inr _ \<Rightarrow> visit_output sv prefix batch 4096 output [] s
     | Inl failure \<Rightarrow> if \<not> not_found failure then throwA failure
         else returnA (s\<lparr>bt_error := add_error (bt_error s) ''Benchmark produced no output directory''\<rparr>))"

definition attempt_batch :: "('st, 'z) services_scheme \<Rightarrow> benchmark_request \<Rightarrow> checkout \<Rightarrow> placed \<Rightarrow> nat \<Rightarrow> bench_state \<Rightarrow>
    ('st, bench_state) action" where
  "attempt_batch sv q ck pd batch s =
     (let spec = batch_command q ck pd batch in
      bindA (run_command_of sv spec (s\<lparr>bt_execution := None\<rparr>)) (\<lambda>s1.
      bindA (archive_logs_of sv spec s1) (\<lambda>s2.
      archive_output_of sv (sp_id spec) batch (batch_output q batch) s2)))"

text \<open>What a batch must show to count.\<close>

definition failed_command :: "bench_state \<Rightarrow> string" where
  "failed_command s = (case bt_error s of Some e \<Rightarrow> e
   | None \<Rightarrow> (case Option.bind (bt_execution s) ex_error of Some e \<Rightarrow> e
     | None \<Rightarrow> ''Benchmark command or cleanup failed''))"

definition sample_directories :: "benchmark_request \<Rightarrow> nat \<Rightarrow> string list" where
  "sample_directories q batch = map (\<lambda>i. join_path (batch_output q batch)
       (adapter_name (bq_adapter q) @ ''/'' @ protocol_name (bq_protocol q) @ ''/'' @ dec_int i))
     [1..pa_repetitions (bq_parameters q)]"

definition check_batch :: "('st, 'z) machine_scheme \<Rightarrow> benchmark_request \<Rightarrow> checkout \<Rightarrow> expectation \<Rightarrow> placed \<Rightarrow> nat \<Rightarrow>
    bench_state \<Rightarrow> ('st, benchmark_summary) action" where
  "check_batch mc q ck expected pd batch s =
     thenA (guardA (map_option ex_success (bt_execution s) = Some True \<and> bt_error s = None) (failed_command s))
     (bindA (inspectCheckout (sv_host mc) (ck_path ck)) (\<lambda>after.
      thenA (guardA (ck_revision after = ck_revision ck \<and> \<not> (bq_purpose q = MeasurementPurpose \<and> ck_dirty after))
        ''Source changed during benchmark'')
      (bindA (hashFile mc (native_path mc (ck_path ck))) (\<lambda>sha.
       thenA (guardA (sha = ex_nativeSha256 expected) ''Native library changed during benchmark'')
       (thenA (validatePlacementEvidence mc (batch_output q batch) (sample_directories q batch)
          (pa_warmup (bq_parameters q)) (pa_duration (bq_parameters q)) (pd_realH2load pd))
       (bindA (h_readFile (sv_host mc) (join_path (batch_output q batch) ''results.json'')) (\<lambda>text.
        bindA (liftA (sv_json mc text)) (\<lambda>report.
        liftA (validateBenchmark (sv_url mc) report expected)))))))))"

definition batches_differ :: "(jsnum \<Rightarrow> string) \<Rightarrow> benchmark_summary option \<Rightarrow> benchmark_summary \<Rightarrow> bool" where
  "batches_differ numstr old m \<longleftrightarrow> (case old of None \<Rightarrow> False
   | Some o' \<Rightarrow> bs_javaVersion o' \<noteq> bs_javaVersion m \<or> bs_h2loadVersion o' \<noteq> bs_h2loadVersion m \<or>
       json_text numstr (enc_parameters (bs_parameters o')) \<noteq> json_text numstr (enc_parameters (bs_parameters m)))"

definition samples_mean :: "jsnum list \<Rightarrow> jsnum" where
  "samples_mean samples =
     (let scale = js_max samples; whole = js_sum samples in
      if js_finite whole then js_div whole (js_nat (length samples))
      else js_mul (js_div (foldl (\<lambda>sum rate. js_add sum (js_div rate scale)) (Fin 0) samples)
        (js_nat (length samples))) scale)"

definition add_batch :: "benchmark_summary \<Rightarrow> string \<Rightarrow> bench_state \<Rightarrow> bench_state" where
  "add_batch m output s =
     (let samples = (case bt_summary s of None \<Rightarrow> [] | Some o' \<Rightarrow> bs_samples o') @ bs_samples m in
      s\<lparr>bt_summary := Some (m\<lparr>bs_samples := samples, bs_diagnosticRate := samples_mean samples\<rparr>),
        bt_batches := bt_batches s @ [(output, bs_samples m)]\<rparr>)"

definition measure_batch :: "('st, 'z) machine_scheme \<Rightarrow> benchmark_request \<Rightarrow> checkout \<Rightarrow> expectation \<Rightarrow> placed \<Rightarrow> nat \<Rightarrow>
    bench_state \<Rightarrow> ('st, bench_state) action" where
  "measure_batch mc q ck expected pd batch s =
     bindA (check_batch mc q ck expected pd batch s) (\<lambda>m.
     thenA (guardA (\<not> batches_differ (sv_numstr mc) (bt_summary s) m) ''Repeat batch environment differs'')
     (returnA (add_batch m (batch_output q batch) s)))"

section \<open>The two batches\<close>

definition past_deadline :: "'st host \<Rightarrow> int option \<Rightarrow> ('st, bool) action" where
  "past_deadline h deadline = (case deadline of
     None \<Rightarrow> returnA False | Some d \<Rightarrow> bindA (h_now h) (\<lambda>now. returnA (d \<le> now)))"

text \<open>Before the second batch: is there time left for another one?\<close>

definition batch_ms :: "parameters \<Rightarrow> int" where
  "batch_ms p = pa_repetitions p * (pa_warmup p + pa_duration p) * 1000 + 10000"

definition short_of_time :: "'st host \<Rightarrow> benchmark_request \<Rightarrow> nat \<Rightarrow> ('st, bool) action" where
  "short_of_time h q batch = (case bq_deadlineMs q of
     Some d \<Rightarrow> if batch = 1 then bindA (h_now h) (\<lambda>now. returnA (d - now < batch_ms (bq_parameters q))) else returnA False
   | None \<Rightarrow> returnA False)"

text \<open>The rest of the loop body after a counted batch: the state and whether the loop ends.\<close>

definition after_batch :: "'st host \<Rightarrow> benchmark_request \<Rightarrow> nat \<Rightarrow> bench_state \<Rightarrow> ('st, bench_state \<times> bool) action" where
  "after_batch h q batch s =
     bindA (past_deadline h (bq_deadlineMs q)) (\<lambda>late.
     if late then returnA (s\<lparr>bt_inconclusive := True\<rparr>, True)
     else if bq_purpose q = Smoke then returnA (s, True)
     else bindA (short_of_time h q batch) (\<lambda>short.
       if short then returnA (s\<lparr>bt_inconclusive := True\<rparr>, True) else returnA (s, False)))"

definition run_batch :: "('st, 'z) machine_scheme \<Rightarrow> benchmark_request \<Rightarrow> checkout \<Rightarrow> expectation \<Rightarrow> placed \<Rightarrow> nat \<Rightarrow>
    bench_state \<Rightarrow> ('st, bench_state \<times> bool) action" where
  "run_batch mc q ck expected pd batch s =
     bindA (attempt_batch mc q ck pd batch s) (\<lambda>s1.
     bindA (tryA (measure_batch mc q ck expected pd batch s1)) (\<lambda>r. case r of
       Inl failure \<Rightarrow> returnA (s1\<lparr>bt_summary := None, bt_error := Some (error_string failure)\<rparr>, True)
     | Inr s2 \<Rightarrow> after_batch (sv_host mc) q batch s2))"

fun run_batches :: "('st, 'z) machine_scheme \<Rightarrow> benchmark_request \<Rightarrow> checkout \<Rightarrow> expectation \<Rightarrow> placed \<Rightarrow> nat list \<Rightarrow>
    bench_state \<Rightarrow> ('st, bench_state) action" where
  "run_batches mc q ck expected pd [] s = returnA s"
| "run_batches mc q ck expected pd (batch # rest) s =
     bindA (past_deadline (sv_host mc) (bq_deadlineMs q)) (\<lambda>late.
     if late then returnA (s\<lparr>bt_inconclusive := True\<rparr>)
     else bindA (run_batch mc q ck expected pd batch s) (\<lambda>(s', stop).
       if stop then returnA s' else run_batches mc q ck expected pd rest s'))"

section \<open>The pooled statistics and the saved record\<close>

definition pool_batches :: "js_math \<Rightarrow> benchmark_request \<Rightarrow> bench_state \<Rightarrow> bench_state \<times> precision_summary option" where
  "pool_batches m q s = (case bt_summary s of
     None \<Rightarrow> (s, None)
   | Some measured \<Rightarrow>
       if bq_purpose q = MeasurementPurpose \<and> length (bt_batches s) = 2
       then (case precisionSummary m (bs_samples measured) (bq_precision q) of
           Inr p \<Rightarrow> (s, Some p)
         | Inl failure \<Rightarrow> (s\<lparr>bt_summary := None, bt_error := Some (error_string failure)\<rparr>, None))
       else (s, None))"

definition precision_failure :: "benchmark_request \<Rightarrow> bench_state \<Rightarrow> precision_summary option \<Rightarrow> bool res" where
  "precision_failure q s pooled =
     (if bq_purpose q = MeasurementPurpose \<and> bt_error s = None \<and> length (bt_batches s) = 2
      then (case pooled of
          None \<Rightarrow> Inr False
        | Some p \<Rightarrow> bindR (meetsPrecision (Some (ps_relativeHalfWidth p)) (bq_precision q)) (\<lambda>meets. Inr (\<not> meets)))
      else Inr False)"

definition inconclusive_run :: "benchmark_request \<Rightarrow> bench_state \<Rightarrow> bool \<Rightarrow> bool" where
  "inconclusive_run q s precisionFailure \<longleftrightarrow> bt_inconclusive s \<or>
     (bq_purpose q = MeasurementPurpose \<and> (length (bt_batches s) \<noteq> 2 \<or> precisionFailure))"

definition valid_run :: "benchmark_request \<Rightarrow> bench_state \<Rightarrow> precision_summary option \<Rightarrow> bool \<Rightarrow> bool" where
  "valid_run q s pooled inconclusive \<longleftrightarrow> bt_summary s \<noteq> None \<and> \<not> inconclusive \<and> bt_error s = None \<and>
     (bq_purpose q = Smoke \<or> pooled \<noteq> None)"

definition j_numbers :: "jsnum list \<Rightarrow> json" where
  "j_numbers xs = JArr (map JNum xs)"

definition enc_bench_summary :: "benchmark_summary \<Rightarrow> (string \<times> json) list \<Rightarrow> json" where
  "enc_bench_summary m statistics = JObj ([(''kind'', JStr (if bs_purpose m = Smoke then ''smoke'' else ''benchmark'')),
     (''protocol'', JStr (protocol_name (bs_protocol m))), (''adapter'', JStr (adapter_name (bs_adapter m))),
     (''diagnosticRate'', JNum (bs_diagnosticRate m)), (''score'', j_nullable JNum (bs_score m)),
     (''samples'', j_numbers (bs_samples m)), (''javaVersion'', JStr (bs_javaVersion m)),
     (''h2loadVersion'', JStr (bs_h2loadVersion m)), (''parameters'', enc_parameters (bs_parameters m))] @ statistics)"

definition final_summary :: "bench_state \<Rightarrow> precision_summary option \<Rightarrow> bool \<Rightarrow> json" where
  "final_summary s pooled valid = (case bt_summary s of
     None \<Rightarrow> JNull
   | Some m \<Rightarrow> (case pooled of
       None \<Rightarrow> enc_bench_summary (m\<lparr>bs_score := None\<rparr>) []
     | Some p \<Rightarrow> enc_bench_summary (m\<lparr>bs_diagnosticRate := ps_mean p,
           bs_score := (if valid then Some (ps_mean p) else None), bs_samples := ps_rates p\<rparr>)
         [(''sampleSD'', JNum (ps_sampleSD p)), (''tCritical'', JNum (ps_tCritical p)),
          (''ciHalfWidth'', JNum (ps_ciHalfWidth p)), (''relativeHalfWidth'', JNum (ps_relativeHalfWidth p))]))"

definition enc_batches :: "(string \<times> jsnum list) list \<Rightarrow> json" where
  "enc_batches bs = JArr (map (\<lambda>(output, samples). JObj [(''output'', JStr output), (''samples'', j_numbers samples)]) bs)"

definition enc_files :: "(string \<times> output_ref) list \<Rightarrow> json" where
  "enc_files fs = JArr (map (\<lambda>(path, r). JObj [(''path'', JStr path), (''reference'', enc_ref r)]) fs)"

definition enc_benchmark :: "benchmark_request \<Rightarrow> checkout \<Rightarrow> string \<Rightarrow> string \<Rightarrow> placed \<Rightarrow> bench_state \<Rightarrow>
    precision_summary option \<Rightarrow> bool \<Rightarrow> bool \<Rightarrow> json" where
  "enc_benchmark q ck sha hostname pd s pooled valid inconclusive = JObj [
     (''runId'', JStr (bq_runId q)), (''purpose'', JStr (purpose_name (bq_purpose q))),
     (''protocol'', JStr (protocol_name (bq_protocol q))), (''adapter'', JStr (adapter_name (bq_adapter q))),
     (''revision'', JStr (ck_revision ck)), (''nativeSha256'', JStr sha), (''hostname'', JStr hostname),
     (''method'', JStr benchmarkMethod), (''scorePolicyVersion'', JStr scorePolicyVersion),
     (''precision'', enc_precision (bq_precision q)),
     (''plannedSamples'', j_int (if bq_purpose q = MeasurementPurpose then 2 * pa_repetitions (bq_parameters q) else 1)),
     (''placement'', enc_placement \<lparr>pl_topology = pd_topology pd, pl_realH2load = pd_realH2load pd\<rparr>),
     (''valid'', JBool valid), (''inconclusive'', JBool inconclusive), (''error'', j_nullable JStr (bt_error s)),
     (''summary'', final_summary s pooled valid), (''batches'', enc_batches (bt_batches s)),
     (''files'', enc_files (bt_files s)), (''omitted'', JArr (map JStr (bt_omitted s))),
     (''exitCode'', j_nullable j_int (map_option cs_code (Option.bind (bt_execution s) ex_status))),
     (''cleanup'', j_nullable (\<lambda>c. JStr (cleanup_name c)) (map_option ex_cleanup (bt_execution s))),
     (''logs'', enc_refs (bt_logs s))]"

record bench_result =
  br_valid :: bool
  br_inconclusive :: bool
  br_precisionFailure :: bool
  br_saved :: output_ref
  br_handles :: "output_ref list"

definition finish_benchmark :: "('st, 'z) machine_scheme \<Rightarrow> benchmark_request \<Rightarrow> checkout \<Rightarrow> expectation \<Rightarrow> placed \<Rightarrow>
    bench_state \<Rightarrow> ('st, bench_result) action" where
  "finish_benchmark mc q ck expected pd s0 =
     bindA (past_deadline (sv_host mc) (bq_deadlineMs q)) (\<lambda>late.
     let (s, pooled) = pool_batches (sv_math mc) q (if late then s0\<lparr>bt_inconclusive := True\<rparr> else s0) in
     bindA (liftA (precision_failure q s pooled)) (\<lambda>precisionFailure.
     let inconclusive = inconclusive_run q s precisionFailure; valid = valid_run q s pooled inconclusive in
     bindA (mc_hostname mc) (\<lambda>hostname.
     bindA (so_write (sv_store mc) ''benchmark'' (bench_base q @ ''-result'')
       (enc_benchmark q ck (ex_nativeSha256 expected) hostname pd s pooled valid inconclusive)) (\<lambda>saved.
     returnA \<lparr>br_valid = valid, br_inconclusive = inconclusive, br_precisionFailure = precisionFailure,
       br_saved = saved, br_handles = bt_handles s @ [saved]\<rparr>))))"

definition runBenchmark :: "('st, 'z) machine_scheme \<Rightarrow> json \<Rightarrow> ('st, bench_result) action" where
  "runBenchmark mc input =
     bindA (liftA (zparse ''request'' benchmarkRequestSchema input)) (\<lambda>q.
     bindA (prepare_benchmark mc q) (\<lambda>(ck, expected, pd).
     bindA (run_batches mc q ck expected pd [1, 2] bench_start) (\<lambda>s.
     finish_benchmark mc q ck expected pd s)))"

end
