(* ===== verification/Profile_Runner.thy ===== *)
theory Profile_Runner
  imports Benchmark_Runner Profile Counters Tempo_Store
begin

text \<open>
  \<^verbatim>\<open>_lib/profile-runner.ts\<close>: recording a profile of the server and checking the recording: the
  workload, the source, the native library, the options of the virtual machine and the counters
  taken before and after. A profile is diagnostic and never a score. The properties of an object
  come in the order in which JavaScript enumerates them.
\<close>

section \<open>The request\<close>

record profile_parameters =
  fp_warmup :: int
  fp_duration :: int
  fp_connections :: int
  fp_streams :: int
  fp_threads :: int
  fp_workers :: "int option"

definition profileParametersSchema :: "profile_parameters schema" where
  "profileParametersSchema = z_strict [''warmup'', ''duration'', ''connections'', ''streams'', ''threads'',
       ''busker-workers''] (\<lambda>o'. do {
     warmup \<leftarrow> z_field o' ''warmup'' (z_int_if z_positive);
     duration \<leftarrow> z_field o' ''duration'' (z_int_if z_positive);
     connections \<leftarrow> z_field o' ''connections'' (z_int_if z_positive);
     streams \<leftarrow> z_field o' ''streams'' (z_int_if z_positive);
     threads \<leftarrow> z_field o' ''threads'' (z_int_if z_positive);
     workers \<leftarrow> z_optional o' ''busker-workers'' (z_int_if z_positive);
     Some \<lparr>fp_warmup = warmup, fp_duration = duration, fp_connections = connections, fp_streams = streams,
       fp_threads = threads, fp_workers = workers\<rparr> })"

definition parameter_entries :: "profile_parameters \<Rightarrow> (string \<times> int) list" where
  "parameter_entries p = [(''warmup'', fp_warmup p), (''duration'', fp_duration p),
     (''connections'', fp_connections p), (''streams'', fp_streams p), (''threads'', fp_threads p)] @
     (case fp_workers p of None \<Rightarrow> [] | Some n \<Rightarrow> [(''busker-workers'', n)])"

definition enc_profile_parameters :: "profile_parameters \<Rightarrow> json" where
  "enc_profile_parameters p = JObj (map (\<lambda>(k, n). (k, j_int n)) (parameter_entries p))"

record profile_request =
  fq_runId :: string
  fq_repository :: string
  fq_directory :: string
  fq_collector :: string
  fq_protocol :: protocol
  fq_event :: profile_event
  fq_smoke :: bool
  fq_parameters :: profile_parameters

definition profileRequestSchema :: "profile_request schema" where
  "profileRequestSchema = z_strict [''runId'', ''repository'', ''directory'', ''collectorDirectory'', ''protocol'',
       ''event'', ''smoke'', ''parameters''] (\<lambda>o'. do {
     runId \<leftarrow> z_field o' ''runId'' runIdSchema;
     repository \<leftarrow> z_field o' ''repository'' z_string_min1;
     directory \<leftarrow> z_field o' ''directory'' z_string_min1;
     collector \<leftarrow> z_field o' ''collectorDirectory'' z_string_min1;
     protocol \<leftarrow> z_field o' ''protocol'' protocolSchema;
     event \<leftarrow> z_field o' ''event'' profileEventSchema;
     smoke \<leftarrow> z_field o' ''smoke'' z_bool;
     parameters \<leftarrow> z_field o' ''parameters'' profileParametersSchema;
     Some \<lparr>fq_runId = runId, fq_repository = repository, fq_directory = directory, fq_collector = collector,
       fq_protocol = protocol, fq_event = event, fq_smoke = smoke, fq_parameters = parameters\<rparr> })"

definition enc_profile_request :: "profile_request \<Rightarrow> json" where
  "enc_profile_request q = JObj [(''runId'', JStr (fq_runId q)), (''repository'', JStr (fq_repository q)),
     (''directory'', JStr (fq_directory q)), (''collectorDirectory'', JStr (fq_collector q)),
     (''protocol'', JStr (protocol_name (fq_protocol q))), (''event'', JStr (profile_event_name (fq_event q))),
     (''smoke'', JBool (fq_smoke q)), (''parameters'', enc_profile_parameters (fq_parameters q))]"

section \<open>What the collector leaves\<close>

record raw_process =
  rp_stat :: "string option"
  rp_status :: "string option"
  rp_schedstat :: "string option"

definition rawProcessSchema :: "raw_process schema" where
  "rawProcessSchema = z_loose (\<lambda>o'. do {
     stat \<leftarrow> z_field o' ''stat'' (z_nullable z_string);
     status \<leftarrow> z_field o' ''status'' (z_nullable z_string);
     schedstat \<leftarrow> z_field o' ''schedstat'' (z_nullable z_string);
     Some \<lparr>rp_stat = stat, rp_status = status, rp_schedstat = schedstat\<rparr> })"

record snapshot =
  sn_capturedAtMs :: int
  sn_allocatedBytes :: "int option"
  sn_process :: raw_process
  sn_threads :: "(string \<times> raw_process) list"
  sn_hostPressure :: "string option"
  sn_cgroupPath :: "string option"
  sn_cgroupStat :: "string option"
  sn_cgroupPressure :: "string option"

definition snapshotSchema :: "snapshot schema" where
  "snapshotSchema = z_loose (\<lambda>o'. do {
     capturedAt \<leftarrow> z_field o' ''captured-at-ms'' (z_int_if z_positive);
     allocated \<leftarrow> z_field o' ''allocated-bytes'' (z_nullable (z_int_if z_count));
     process \<leftarrow> z_field o' ''process'' rawProcessSchema;
     threads \<leftarrow> z_field o' ''threads'' (z_dict rawProcessSchema);
     hostPressure \<leftarrow> z_field o' ''host-pressure'' (z_nullable z_string);
     path \<leftarrow> z_field o' ''cgroup-path'' (z_nullable z_string);
     stat \<leftarrow> z_field o' ''cgroup-stat'' (z_nullable z_string);
     pressure \<leftarrow> z_field o' ''cgroup-pressure'' (z_nullable z_string);
     Some \<lparr>sn_capturedAtMs = capturedAt, sn_allocatedBytes = allocated, sn_process = process,
       sn_threads = threads, sn_hostPressure = hostPressure, sn_cgroupPath = path, sn_cgroupStat = stat,
       sn_cgroupPressure = pressure\<rparr> })"

record profile_environment =
  fe_checkout :: string
  fe_revision :: string
  fe_dirty :: bool
  fe_nativeSha256 :: string
  fe_nativeResource :: string
  fe_buskerResource :: string
  fe_javaVersion :: string
  fe_h2loadVersion :: string
  fe_jvmOptions :: "string list"
  fe_nativeMappings :: "string list"
  fe_collectors :: "string list"

definition z_strings_min1 :: "string list schema" where
  "z_strings_min1 = z_array_if (\<lambda>xs. xs \<noteq> []) z_string"

definition profileEnvironmentSchema :: "profile_environment schema" where
  "profileEnvironmentSchema = z_loose (\<lambda>o'. do {
     _ \<leftarrow> z_field o' ''busker-mode'' (z_literal ''local'');
     checkout \<leftarrow> z_field o' ''busker-checkout'' z_string;
     revision \<leftarrow> z_field o' ''busker-revision'' revisionSchema;
     dirty \<leftarrow> z_field o' ''busker-dirty?'' z_bool;
     _ \<leftarrow> z_field o' ''native-version'' z_null;
     sha \<leftarrow> z_field o' ''native-sha256'' z_string;
     native \<leftarrow> z_field o' ''native-resource'' z_string;
     busker \<leftarrow> z_field o' ''busker-resource'' z_string;
     java \<leftarrow> z_field o' ''java-version'' z_string;
     h2load \<leftarrow> z_field o' ''h2load-version'' z_string_min1;
     options \<leftarrow> z_field o' ''jvm-options'' (z_array z_string);
     _ \<leftarrow> z_field o' ''processors'' (z_literal_int 2);
     _ \<leftarrow> z_field o' ''max-heap-bytes'' (z_literal_int 2147483648);
     mappings \<leftarrow> z_field o' ''native-mappings'' z_strings_min1;
     collectors \<leftarrow> z_field o' ''garbage-collectors'' z_strings_min1;
     Some \<lparr>fe_checkout = checkout, fe_revision = revision, fe_dirty = dirty, fe_nativeSha256 = sha,
       fe_nativeResource = native, fe_buskerResource = busker, fe_javaVersion = java, fe_h2loadVersion = h2load,
       fe_jvmOptions = options, fe_nativeMappings = mappings, fe_collectors = collectors\<rparr> })"

record profile_report =
  fr_event :: profile_event
  fr_protocol :: protocol
  fr_parameters :: profile_parameters
  fr_ticks :: int
  fr_requests :: int
  fr_environment :: profile_environment

definition profileReportSchema :: "profile_report schema" where
  "profileReportSchema = z_loose (\<lambda>o'. do {
     _ \<leftarrow> z_field o' ''kind'' (z_literal ''profile'');
     _ \<leftarrow> z_field o' ''score'' z_null;
     event \<leftarrow> z_field o' ''event'' profileEventSchema;
     protocol \<leftarrow> z_field o' ''protocol'' protocolSchema;
     parameters \<leftarrow> z_field o' ''parameters'' profileParametersSchema;
     _ \<leftarrow> z_field o' ''profiler-version'' (z_literal ''1.6.2'');
     ticks \<leftarrow> z_field o' ''clock-ticks-per-second'' (z_int_if z_positive);
     requests \<leftarrow> z_field o' ''load'' (z_loose (\<lambda>l. do {
       requests \<leftarrow> z_field l ''requests'' (z_int_if z_positive);
       _ \<leftarrow> z_field l ''requests-per-second'' z_positive_number;
       Some requests }));
     environment \<leftarrow> z_field o' ''environment'' profileEnvironmentSchema;
     Some \<lparr>fr_event = event, fr_protocol = protocol, fr_parameters = parameters, fr_ticks = ticks,
       fr_requests = requests, fr_environment = environment\<rparr> })"

record client_cpu =
  cc_userSeconds :: jsnum
  cc_systemSeconds :: jsnum
  cc_voluntarySwitches :: int
  cc_involuntarySwitches :: int

definition clientCpuSchema :: "client_cpu schema" where
  "clientCpuSchema = z_strict [''userSeconds'', ''systemSeconds'', ''voluntarySwitches'', ''involuntarySwitches'']
     (\<lambda>o'. do {
     user \<leftarrow> z_field o' ''userSeconds'' z_nonnegative_number;
     system \<leftarrow> z_field o' ''systemSeconds'' z_nonnegative_number;
     voluntary \<leftarrow> z_field o' ''voluntarySwitches'' (z_int_if z_count);
     involuntary \<leftarrow> z_field o' ''involuntarySwitches'' (z_int_if z_count);
     Some \<lparr>cc_userSeconds = user, cc_systemSeconds = system, cc_voluntarySwitches = voluntary,
       cc_involuntarySwitches = involuntary\<rparr> })"

text \<open>The types of the events of a flight recording.\<close>

definition jfrSchema :: "string list schema" where
  "jfrSchema = z_loose (\<lambda>o'. z_field o' ''recording'' (z_loose (\<lambda>r. z_field r ''events''
     (z_array_if (\<lambda>es. es \<noteq> []) (z_loose (\<lambda>e. do {
       type \<leftarrow> z_field e ''type'' z_string_min1;
       _ \<leftarrow> z_field e ''values'' js_finite_record;
       Some type }))))))"

section \<open>Checking a recording\<close>

definition wrong_workload :: "profile_report \<Rightarrow> profile_request \<Rightarrow> bool" where
  "wrong_workload report q \<longleftrightarrow> fr_event report \<noteq> fq_event q \<or> fr_protocol report \<noteq> fq_protocol q \<or>
     list_ex (\<lambda>(k, n). map_of (parameter_entries (fr_parameters report)) k \<noteq> Some n)
       (parameter_entries (fq_parameters q))"

definition check_profile_source :: "('st, 'z) machine_scheme \<Rightarrow> profile_environment \<Rightarrow> profile_request \<Rightarrow> string \<Rightarrow>
    string \<Rightarrow> string \<Rightarrow> unit res" where
  "check_profile_source mc e q revision sha native =
     (let mismatch = Inl (Error ''Profile source or native identity does not match'') in
      if fe_checkout e \<noteq> fq_repository q \<or> fe_revision e \<noteq> revision \<or> fe_nativeSha256 e \<noteq> sha then mismatch
      else bindR (resourceURL (sv_url mc) (fe_nativeResource e)) (\<lambda>nativeURL.
        if nativeURL \<noteq> mc_fileURL mc native then mismatch
        else bindR (resourceURL (sv_url mc) (fe_buskerResource e)) (\<lambda>sourceURL.
          if sourceURL \<noteq> mc_fileURL mc (source_path (fq_repository q)) then mismatch
          else if \<not> fq_smoke q \<and> fe_dirty e then mismatch else Inr ())))"

definition library_flag :: "string \<Rightarrow> string" where
  "library_flag native = ''-Dol.libh2oclj.path='' @ native"

definition profile_flags :: "string \<Rightarrow> string list" where
  "profile_flags native = [''-Xms512m'', ''-Xmx2g'', ''-XX:ActiveProcessorCount=2'', library_flag native]"

definition check_flags :: "string list \<Rightarrow> string \<Rightarrow> unit res" where
  "check_flags options native = (case List.find (\<lambda>flag. flag \<notin> set options) (profile_flags native) of
     Some flag \<Rightarrow> Inl (Error (''Missing profile JVM option: '' @ flag)) | None \<Rightarrow> Inr ())"

definition parse_raw :: "raw_process \<Rightarrow> process_counters res" where
  "parse_raw raw = (case rp_stat raw of
     None \<Rightarrow> Inl (Error ''Missing process counters'')
   | Some stat \<Rightarrow> parseProcess stat (rp_status raw) (rp_schedstat raw))"

definition ends_with :: "string \<Rightarrow> string \<Rightarrow> bool" where
  "ends_with suffix s \<longleftrightarrow> starts_with (rev suffix) (rev s)"

definition server_cost :: "profile_report \<Rightarrow> snapshot \<Rightarrow> snapshot \<Rightarrow> string \<Rightarrow> process_cost res" where
  "server_cost report before after native =
     bindR (parse_raw (sn_process before)) (\<lambda>first. bindR (parse_raw (sn_process after)) (\<lambda>final.
     if pc_allowedCpus first \<noteq> pc_allowedCpus final
     then Inl (Error ''Server CPU affinity changed during recording'')
     else if \<not> list_ex (ends_with (CHR '' '' # native)) (fe_nativeMappings (fr_environment report))
     then Inl (Error ''Expected native file is absent from live mappings'')
     else processCost first final (js_of_int (fr_ticks report)) (js_of_int (fr_requests report))))"

text \<open>A thread is compared when both snapshots have it and it is the same thread.\<close>

definition thread_step :: "profile_report \<Rightarrow> snapshot \<Rightarrow> snapshot \<Rightarrow> (string \<times> process_cost) list \<times> string list \<Rightarrow>
    string \<Rightarrow> ((string \<times> process_cost) list \<times> string list) res" where
  "thread_step report before after = (\<lambda>(threads, unavailable) tid.
     let a = map_of (sn_threads before) tid; b = map_of (sn_threads after) tid in
     if \<not> truthy (Option.bind a rp_stat) \<or> \<not> truthy (Option.bind b rp_stat)
     then Inr (threads, unavailable @ [tid])
     else bindR (parse_raw (the a)) (\<lambda>first. bindR (parse_raw (the b)) (\<lambda>final.
       if pc_startTicks first \<noteq> pc_startTicks final then Inr (threads, unavailable @ [tid])
       else bindR (processCost first final (js_of_int (fr_ticks report)) (js_of_int (fr_requests report)))
         (\<lambda>cost. Inr (threads @ [(pc_name first, cost)], unavailable)))))"

definition thread_costs :: "profile_report \<Rightarrow> snapshot \<Rightarrow> snapshot \<Rightarrow>
    ((string \<times> process_cost) list \<times> string list) res" where
  "thread_costs report before after = foldR (thread_step report before after) ([], [])
     (js_set (map fst (sn_threads before) @ map fst (sn_threads after)))"

record counter_context =
  cx_capturedAtMs :: int
  cx_cgroupPath :: "string option"
  cx_cgroupCpu :: "(string \<times> int) list option"
  cx_cgroupPressure :: "(string \<times> pressure_row) list option"
  cx_hostPressure :: "(string \<times> pressure_row) list option"

definition context_of :: "snapshot \<Rightarrow> counter_context res" where
  "context_of sn =
     bindR (mapO parseCpuStat (sn_cgroupStat sn)) (\<lambda>cpu.
     bindR (mapO parsePressure (sn_cgroupPressure sn)) (\<lambda>pressure.
     bindR (mapO parsePressure (sn_hostPressure sn)) (\<lambda>host.
     Inr \<lparr>cx_capturedAtMs = sn_capturedAtMs sn, cx_cgroupPath = sn_cgroupPath sn, cx_cgroupCpu = cpu,
       cx_cgroupPressure = pressure, cx_hostPressure = host\<rparr>)))"

definition allocated_between :: "snapshot \<Rightarrow> snapshot \<Rightarrow> int option res" where
  "allocated_between before after = (case (sn_allocatedBytes before, sn_allocatedBytes after) of
     (Some a, Some b) \<Rightarrow> if b - a < 0 then Inl (Error ''Allocation counter decreased'') else Inr (Some (b - a))
   | _ \<Rightarrow> Inr None)"

definition count_events :: "string list \<Rightarrow> (string \<times> int) list" where
  "count_events types = foldl (\<lambda>counts t. AList.update t
     ((case map_of counts t of None \<Rightarrow> 0 | Some n \<Rightarrow> n) + 1) counts) [] types"

record jfr_events =
  je_events :: int
  je_eventCounts :: "(string \<times> int) list"

definition read_jfr :: "profile_event \<Rightarrow> json \<Rightarrow> jfr_events option res" where
  "read_jfr event recording =
     (if event = Jfr then bindR (zparse ''recording'' jfrSchema recording) (\<lambda>types.
        Inr (Some \<lparr>je_events = int (length types), je_eventCounts = count_events types\<rparr>))
      else Inr None)"

definition read_stacks :: "profile_event \<Rightarrow> int \<Rightarrow> json \<Rightarrow> profile_summary option res" where
  "read_stacks event requests recording =
     (if event = Jfr then Inr None
      else bindR (zparse ''recording'' z_string recording) (\<lambda>collapsed.
        bindR (summarizeProfile \<lparr>in_event = profile_event_name event, in_completedRequests = js_of_int requests,
            in_collapsed = collapsed, in_top = None\<rparr>) (\<lambda>summary. Inr (Some summary))))"

record profile_evidence =
  vp_stacks :: "profile_summary option"
  vp_jfr :: "jfr_events option"
  vp_allocatedBytes :: "int option"
  vp_allocatedBytesPerRequest :: "jsnum option"
  vp_serverCpu :: process_cost
  vp_threads :: "(string \<times> process_cost) list"
  vp_unavailableThreads :: "string list"
  vp_clientCpu :: client_cpu
  vp_before :: counter_context
  vp_after :: counter_context
  vp_environment :: profile_environment
  vp_parameters :: profile_parameters

text \<open>The checks up to the counters, then what is measured.\<close>

definition check_profile :: "('st, 'z) machine_scheme \<Rightarrow> profile_report \<Rightarrow> snapshot \<Rightarrow> snapshot \<Rightarrow> profile_request \<Rightarrow>
    string \<Rightarrow> string \<Rightarrow> string \<Rightarrow> unit res" where
  "check_profile mc report before after q revision sha native =
     (if wrong_workload report q then Inl (Error ''Profile workload does not match'')
      else bindR (check_profile_source mc (fr_environment report) q revision sha native) (\<lambda>_.
        bindR (check_flags (fe_jvmOptions (fr_environment report)) native) (\<lambda>_.
        if sn_capturedAtMs after < sn_capturedAtMs before \<or> sn_cgroupPath before \<noteq> sn_cgroupPath after
        then Inl (Error ''Profile counter context changed'') else Inr ())))"

definition validateProfile :: "('st, 'z) machine_scheme \<Rightarrow> json \<Rightarrow> json \<Rightarrow> json \<Rightarrow> json \<Rightarrow> json \<Rightarrow> profile_request \<Rightarrow>
    string \<Rightarrow> string \<Rightarrow> string \<Rightarrow> profile_evidence res" where
  "validateProfile mc reportValue beforeValue afterValue clientValue recording q revision sha native =
     bindR (zparse ''report'' profileReportSchema reportValue) (\<lambda>report.
     bindR (zparse ''before'' snapshotSchema beforeValue) (\<lambda>before.
     bindR (zparse ''after'' snapshotSchema afterValue) (\<lambda>after.
     bindR (check_profile mc report before after q revision sha native) (\<lambda>_.
     bindR (server_cost report before after native) (\<lambda>serverCpu.
     bindR (thread_costs report before after) (\<lambda>(threads, unavailable).
     bindR (zparse ''client'' clientCpuSchema clientValue) (\<lambda>clientCpu.
     bindR (allocated_between before after) (\<lambda>allocated.
     bindR (read_jfr (fr_event report) recording) (\<lambda>jfr.
     bindR (read_stacks (fr_event report) (fr_requests report) recording) (\<lambda>stacks.
     bindR (context_of before) (\<lambda>cbefore.
     bindR (context_of after) (\<lambda>cafter.
     Inr \<lparr>vp_stacks = stacks, vp_jfr = jfr, vp_allocatedBytes = allocated,
       vp_allocatedBytesPerRequest = map_option (\<lambda>n. js_div (js_of_int n) (js_of_int (fr_requests report))) allocated,
       vp_serverCpu = serverCpu, vp_threads = threads, vp_unavailableThreads = unavailable,
       vp_clientCpu = clientCpu, vp_before = cbefore, vp_after = cafter,
       vp_environment = fr_environment report, vp_parameters = fr_parameters report\<rparr>))))))))))))"

end
