(* ===== verification/Profile_Run.thy ===== *)
theory Profile_Run
  imports Profile_Runner
begin

text \<open>
  The second half of \<^verbatim>\<open>_lib/profile-runner.ts\<close>: the values that are saved for a profile, and the
  run itself: a private directory with the collector's code and request, the recording in a scope,
  the archive of all it left, and one saved record that is valid only when every check passed.
\<close>

section \<open>The saved values\<close>

definition metric_fields :: "metric \<Rightarrow> (string \<times> json) list" where
  "metric_fields m = [(''weight'', j_int (me_weight m)), (''percent'', JNum (me_percent m)),
     (''perMillionRequests'', JNum (me_perMillionRequests m))]"

definition enc_rows :: "(string \<times> metric) list \<Rightarrow> json" where
  "enc_rows rows = JArr (map (\<lambda>(name, m). JObj ((''name'', JStr name) # metric_fields m)) rows)"

definition enc_stack_rows :: "((thread_role \<times> string list) \<times> metric) list \<Rightarrow> json" where
  "enc_stack_rows rows = JArr (map (\<lambda>((r, frames), m). JObj ([(''threadRole'', JStr (role_name r)),
     (''frames'', JArr (map JStr frames))] @ metric_fields m)) rows)"

definition enc_stacks :: "profile_summary \<Rightarrow> json" where
  "enc_stacks s = JObj [(''kind'', JStr ''profile-summary''), (''diagnosticOnly'', JBool True),
     (''event'', JStr (su_event s)), (''unit'', JStr (su_unit s)),
     (''completedRequests'', j_int (su_completedRequests s)), (''totalWeight'', j_int (su_totalWeight s)),
     (''weightPerMillionRequests'', JNum (su_weightPerMillionRequests s)),
     (''stackLines'', j_int (int (su_stackLines s))), (''maxDepth'', j_int (int (su_maxDepth s))),
     (''quality'', JObj [(''unknownFrames'', JObj (metric_fields (su_unknownFrames s))),
        (''missingThread'', JObj (metric_fields (su_missingThread s))),
        (''stackOverflow'', JObj (metric_fields (su_stackOverflow s))),
        (''virtualThreadNative'', JObj (metric_fields (su_virtualThreadNative s)))]),
     (''threadRoles'', enc_rows (su_threadRoles s)), (''leaves'', enc_rows (su_leaves s)),
     (''inclusiveFrames'', enc_rows (su_inclusiveFrames s)),
     (''completeStacks'', enc_stack_rows (su_completeStacks s)),
     (''limitations'', JArr (map JStr (su_limitations s)))]"

definition enc_counts :: "(string \<times> int) list \<Rightarrow> json" where
  "enc_counts cs = JObj (map (\<lambda>(k, n). (k, j_int n)) cs)"

definition enc_jfr :: "jfr_events \<Rightarrow> json" where
  "enc_jfr j = JObj [(''events'', j_int (je_events j)), (''eventCounts'', enc_counts (je_eventCounts j))]"

definition cost_fields :: "process_cost \<Rightarrow> (string \<times> json) list" where
  "cost_fields c = [(''pid'', j_int (co_pid c)), (''startTicks'', j_int (co_startTicks c)),
     (''userSeconds'', JNum (co_userSeconds c)), (''systemSeconds'', JNum (co_systemSeconds c)),
     (''cpuMicrosPerRequest'', JNum (co_cpuMicrosPerRequest c)),
     (''voluntarySwitches'', j_nullable j_int (co_voluntarySwitches c)),
     (''involuntarySwitches'', j_nullable j_int (co_involuntarySwitches c)),
     (''schedulerRunNs'', j_nullable j_int (co_schedulerRunNs c)),
     (''schedulerWaitNs'', j_nullable j_int (co_schedulerWaitNs c))]"

definition enc_client_cpu :: "client_cpu \<Rightarrow> json" where
  "enc_client_cpu c = JObj [(''userSeconds'', JNum (cc_userSeconds c)), (''systemSeconds'', JNum (cc_systemSeconds c)),
     (''voluntarySwitches'', j_int (cc_voluntarySwitches c)), (''involuntarySwitches'', j_int (cc_involuntarySwitches c))]"

definition enc_pressure :: "(string \<times> pressure_row) list \<Rightarrow> json" where
  "enc_pressure rows = JObj (map (\<lambda>(k, r). (k, JObj [(''totalUs'', j_int (pw_totalUs r)), (''avg10'', JNum (pw_avg10 r)),
     (''avg60'', JNum (pw_avg60 r)), (''avg300'', JNum (pw_avg300 r))])) rows)"

definition enc_counter_context :: "counter_context \<Rightarrow> json" where
  "enc_counter_context c = JObj [(''capturedAtMs'', j_int (cx_capturedAtMs c)),
     (''cgroupPath'', j_nullable JStr (cx_cgroupPath c)), (''cgroupCpu'', j_nullable enc_counts (cx_cgroupCpu c)),
     (''cgroupPressure'', j_nullable enc_pressure (cx_cgroupPressure c)),
     (''hostPressure'', j_nullable enc_pressure (cx_hostPressure c))]"

definition enc_profile_environment :: "profile_environment \<Rightarrow> json" where
  "enc_profile_environment e = JObj [(''busker-mode'', JStr ''local''), (''busker-checkout'', JStr (fe_checkout e)),
     (''busker-revision'', JStr (fe_revision e)), (''busker-dirty?'', JBool (fe_dirty e)), (''native-version'', JNull),
     (''native-sha256'', JStr (fe_nativeSha256 e)), (''native-resource'', JStr (fe_nativeResource e)),
     (''busker-resource'', JStr (fe_buskerResource e)), (''java-version'', JStr (fe_javaVersion e)),
     (''h2load-version'', JStr (fe_h2loadVersion e)), (''jvm-options'', JArr (map JStr (fe_jvmOptions e))),
     (''processors'', j_int 2), (''max-heap-bytes'', j_int 2147483648),
     (''native-mappings'', JArr (map JStr (fe_nativeMappings e))),
     (''garbage-collectors'', JArr (map JStr (fe_collectors e)))]"

definition evidence_limitations :: "string list" where
  "evidence_limitations =
     [''JVM-reported allocated bytes include collector work, not native allocations.'',
      ''Absent JFR events do not prove absence of contention or pinning.'',
      ''Counters include load-generator startup and collector overhead.'',
      ''Main-thread status and scheduler counters are not process-wide totals.'',
      ''Cgroup counters can include both server and client; process CPU is reported separately.'',
      ''Client CPU seconds have GNU time'' @ [CHR 39] @ ''s reporting precision.'']"

definition enc_profile_evidence :: "profile_evidence \<Rightarrow> json" where
  "enc_profile_evidence v = JObj [(''stacks'', j_nullable enc_stacks (vp_stacks v)),
     (''jfr'', j_nullable enc_jfr (vp_jfr v)), (''allocatedBytes'', j_nullable j_int (vp_allocatedBytes v)),
     (''allocatedBytesPerRequest'', j_nullable JNum (vp_allocatedBytesPerRequest v)),
     (''serverCpu'', JObj (cost_fields (vp_serverCpu v))),
     (''threads'', JArr (map (\<lambda>(name, c). JObj ((''name'', JStr name) # cost_fields c)) (vp_threads v))),
     (''unavailableThreads'', JArr (map JStr (vp_unavailableThreads v))),
     (''clientCpu'', enc_client_cpu (vp_clientCpu v)), (''before'', enc_counter_context (vp_before v)),
     (''after'', enc_counter_context (vp_after v)), (''environment'', enc_profile_environment (vp_environment v)),
     (''parameters'', enc_profile_parameters (vp_parameters v)), (''profilerVersion'', JStr ''1.6.2''),
     (''limitations'', JArr (map JStr evidence_limitations))]"

section \<open>Preparing a recording\<close>

definition check_profile_request :: "('st, 'z) machine_scheme \<Rightarrow> profile_request \<Rightarrow>
    ('st, checkout \<times> profile_request) action" where
  "check_profile_request mc q0 =
     (let h = sv_host mc; p = fq_parameters q0 in
      bindA (env_get h ''IN_NIX_SHELL'') (\<lambda>shell.
      thenA (guardA (truthy shell \<and> mc_os mc = ''linux'') ''Profiling requires the Linux Nix devshell'')
      (bindA (inspectCheckout h (fq_repository q0)) (\<lambda>ck.
       thenA (guardA (\<not> (\<not> fq_smoke q0 \<and> ck_dirty ck)) ''Cannot profile dirty source'')
       (thenA (guardA (\<not> (fq_smoke q0 \<and> (fp_warmup p \<noteq> 1 \<or> fp_duration p \<noteq> 1)))
          ''Profile smoke checks require one-second windows'')
       (thenA (exact_directory h (fq_directory q0) ''Profile directory must be absolute without symlink traversal'')
       (thenA (guardA (is_absolute (fq_collector q0)) ''Collector directory must be absolute'')
       (returnA (ck, q0\<lparr>fq_repository := ck_path ck\<rparr>)))))))))"

definition collector_path :: "string \<Rightarrow> string" where
  "collector_path directory = join_path directory ''tempo/profile.clj''"

definition profile_prefix :: "profile_request \<Rightarrow> string" where
  "profile_prefix q = fq_runId q @ ''-'' @ protocol_name (fq_protocol q) @ ''-'' @ profile_event_name (fq_event q)"

definition support_directory :: "profile_request \<Rightarrow> string" where
  "support_directory q = join_path (fq_directory q) ''support''"

definition request_edn :: "profile_request \<Rightarrow> string" where
  "request_edn q = ''{:directory '' @ quote_json (fq_directory q) @ '' :protocol :'' @ protocol_name (fq_protocol q) @
     '' :event :'' @ profile_event_name (fq_event q) @ '' '' @
     js_join '' '' (map (\<lambda>(k, n). '':'' @ k @ '' '' @ dec_int n) (parameter_entries (fq_parameters q))) @ ''}''"

definition jvm_flags :: "profile_request \<Rightarrow> string \<Rightarrow> string list" where
  "jvm_flags q native = [''-Xms512m'', ''-Xmx2g'', ''-XX:ActiveProcessorCount=2'', ''-Djdk.attach.allowAttachSelf'',
     ''-XX:+EnableDynamicAgentLoading'', library_flag native,
     ''-Dclj-async-profiler.output-dir='' @ fq_directory q]"

definition deps_edn :: "profile_request \<Rightarrow> string \<Rightarrow> string" where
  "deps_edn q native = ''{:aliases {:tempo-profile {:extra-paths ['' @ quote_json (support_directory q) @
     ''] :extra-deps {com.clojure-goes-fast/clj-async-profiler {:mvn/version \"1.6.2\"}} :jvm-opts ['' @
     js_join '' '' (map quote_json (jvm_flags q native)) @ ''] :main-opts [\"-m\" \"tempo.profile\"]}}}''"

definition request_file :: "profile_request \<Rightarrow> string" where
  "request_file q = join_path (fq_directory q) ''request.edn''"

definition write_collector :: "('st, 'z) machine_scheme \<Rightarrow> profile_request \<Rightarrow> string \<Rightarrow> ('st, unit) action" where
  "write_collector mc q native =
     (let h = sv_host mc; message = ''Collector source must not traverse symlinks'';
          collector = collector_path (resolve_path [] (fq_collector q)) in
      bindA (h_realPath h collector) (\<lambda>real.
      thenA (guardA (real = collector) message)
      (thenA (h_mkdir h (fq_directory q) False)
      (thenA (h_mkdir h (join_path (support_directory q) ''tempo'') True)
      (thenA (mc_copyFile mc (collector_path (fq_collector q)) (collector_path (support_directory q)))
      (thenA (mc_writeText mc (request_file q) (request_edn q))
      (mc_writeText mc (join_path (fq_directory q) ''deps.edn'') (deps_edn q native))))))))"

definition profile_command :: "profile_request \<Rightarrow> placed \<Rightarrow> string \<Rightarrow> command_spec" where
  "profile_command q pd native =
     \<lparr>sp_id = profile_prefix q, sp_command = ''taskset'',
      sp_args = [''-c'', ''10,11'', ''env'', ''-u'', ''JAVA_TOOL_OPTIONS'', ''-u'', ''JDK_JAVA_OPTIONS'', ''-u'',
        ''_JAVA_OPTIONS'', ''-u'', ''CLJ_JVM_OPTS'', ''timeout'', ''--foreground'',
        dec_int (fp_warmup (fq_parameters q) + fp_duration (fq_parameters q) + 90), ''clojure'', ''-Sthreads'', ''1'',
        ''-Sdeps'', deps_edn q native, ''-M:bench:bench-local:tempo-profile'', request_file q],
      sp_cwd = fq_repository q, sp_env = pd_env pd, sp_stdoutPath = join_path (fq_directory q) ''stdout.log'',
      sp_stderrPath = join_path (fq_directory q) ''stderr.log''\<rparr>"

section \<open>Checking and saving it\<close>

definition read_json :: "('st, 'z) services_scheme \<Rightarrow> string \<Rightarrow> string \<Rightarrow> ('st, json) action" where
  "read_json sv directory name =
     bindA (h_readFile (sv_host sv) (join_path directory name)) (\<lambda>text. liftA (sv_json sv text))"

definition read_recording :: "('st, 'z) services_scheme \<Rightarrow> profile_request \<Rightarrow> ('st, json) action" where
  "read_recording sv q =
     (if fq_event q = Jfr then read_json sv (fq_directory q) ''jfr-events.json''
      else bindA (h_readFile (sv_host sv) (join_path (fq_directory q) ''profile.collapsed'')) (\<lambda>text. returnA (JStr text)))"

definition profile_failure :: "execution option \<Rightarrow> string option \<Rightarrow> string" where
  "profile_failure ex error = (case error of Some e \<Rightarrow> e
   | None \<Rightarrow> (case Option.bind ex ex_error of Some e \<Rightarrow> e | None \<Rightarrow> ''Profile command or cleanup failed''))"

definition check_recording :: "('st, 'z) machine_scheme \<Rightarrow> profile_request \<Rightarrow> checkout \<Rightarrow> string \<Rightarrow> string \<Rightarrow> placed \<Rightarrow>
    execution option \<Rightarrow> string option \<Rightarrow> ('st, profile_evidence) action" where
  "check_recording mc q ck sha native pd ex error =
     (let dir = fq_directory q; p = fq_parameters q; message = ''Source or native library changed during profile'' in
      thenA (guardA (map_option ex_success ex = Some True \<and> \<not> truthy error) (profile_failure ex error))
      (bindA (inspectCheckout (sv_host mc) (ck_path ck)) (\<lambda>after.
       thenA (guardA (ck_revision after = ck_revision ck \<and> (fq_smoke q \<or> \<not> ck_dirty after)) message)
       (bindA (hashFile mc native) (\<lambda>now.
        thenA (guardA (now = sha) message)
        (thenA (validatePlacementEvidence mc dir [dir] (fp_warmup p) (fp_duration p) (pd_realH2load pd))
        (bindA (read_json mc dir ''profile.json'') (\<lambda>report.
         bindA (read_json mc dir ''before.json'') (\<lambda>before.
         bindA (read_json mc dir ''after.json'') (\<lambda>afterCounters.
         bindA (read_json mc dir ''client-cpu.json'') (\<lambda>client.
         bindA (read_recording mc q) (\<lambda>recording.
         liftA (validateProfile mc report before afterCounters client recording q (ck_revision ck) sha native)))))))))))))"

definition enc_profile :: "profile_request \<Rightarrow> checkout \<Rightarrow> placed \<Rightarrow> string \<Rightarrow> string \<Rightarrow> execution option \<Rightarrow>
    profile_evidence option \<Rightarrow> string option \<Rightarrow> archive \<Rightarrow> json" where
  "enc_profile q ck pd sha hostname ex summary error archived = JObj [
     (''runId'', JStr (fq_runId q)), (''revision'', JStr (ck_revision ck)),
     (''event'', JStr (profile_event_name (fq_event q))), (''protocol'', JStr (protocol_name (fq_protocol q))),
     (''method'', JStr benchmarkMethod),
     (''placement'', enc_placement \<lparr>pl_topology = pd_topology pd, pl_realH2load = pd_realH2load pd\<rparr>),
     (''diagnosticOnly'', JBool True), (''score'', JNull), (''valid'', JBool (summary \<noteq> None)),
     (''error'', j_nullable JStr error), (''nativeSha256'', JStr sha), (''hostname'', JStr hostname),
     (''summary'', j_nullable enc_profile_evidence summary),
     (''exitCode'', j_nullable j_int (map_option cs_code (Option.bind ex ex_status))),
     (''cleanup'', j_nullable (\<lambda>c. JStr (cleanup_name c)) (map_option ex_cleanup ex)),
     (''files'', enc_files (ar_files archived)), (''omitted'', JArr (map JStr (ar_omitted archived)))]"

record profile_result =
  fs_valid :: bool
  fs_saved :: output_ref
  fs_handles :: "output_ref list"

definition finish_profile :: "('st, 'z) machine_scheme \<Rightarrow> profile_request \<Rightarrow> checkout \<Rightarrow> string \<Rightarrow> string \<Rightarrow> placed \<Rightarrow>
    execution res \<Rightarrow> ('st, profile_result) action" where
  "finish_profile mc q ck sha native pd r =
     (let ex = (case r of Inr x \<Rightarrow> Some x | Inl _ \<Rightarrow> None);
          error0 = (case r of Inl failure \<Rightarrow> Some (error_string failure) | Inr _ \<Rightarrow> None) in
      bindA (archiveDirectory (sv_host mc) (sv_artifacts mc) ''profileFile'' (profile_prefix q) (fq_directory q)) (\<lambda>archived.
      bindA (tryA (check_recording mc q ck sha native pd ex error0)) (\<lambda>checked.
      let summary = (case checked of Inr v \<Rightarrow> Some v | Inl _ \<Rightarrow> None);
          error = (case checked of Inl failure \<Rightarrow> Some (error_string failure) | Inr _ \<Rightarrow> error0) in
      bindA (mc_hostname mc) (\<lambda>hostname.
      bindA (so_write (sv_store mc) ''profile'' (profile_prefix q @ ''-result'')
        (enc_profile q ck pd sha hostname ex summary error archived)) (\<lambda>saved.
      returnA \<lparr>fs_valid = (summary \<noteq> None), fs_saved = saved,
        fs_handles = map snd (ar_files archived) @ [saved]\<rparr>)))))"

definition runProfile :: "('st, 'z) machine_scheme \<Rightarrow> json \<Rightarrow> ('st, profile_result) action" where
  "runProfile mc input =
     bindA (liftA (zparse ''request'' profileRequestSchema input)) (\<lambda>q0.
     bindA (check_profile_request mc q0) (\<lambda>(ck, q).
     let native = linux_native mc (ck_path ck) in
     bindA (hashFile mc native) (\<lambda>sha.
     thenA (write_collector mc q native)
     (bindA (placementEnvironment mc (fq_directory q)) (\<lambda>pd.
      bindA (tryA (runCommand (sv_host mc) (profile_command q pd native))) (\<lambda>r.
      finish_profile mc q ck sha native pd r))))))"

end
