(* ===== verification/Run_Live.thy ===== *)
theory Run_Live
  imports Pi_Runner Profile_Run Run_Execute
begin

text \<open>
  \<^verbatim>\<open>performLiveStep\<close> of \<^verbatim>\<open>_lib/run.ts\<close>: the effect of one reserved step of a run, phase by phase.
  It prepares the worktree, runs tests, profiles, benchmarks and inference through their runners,
  and moves the worktree between the best, the working and the rejected revisions.
\<close>

section \<open>The directory and the details of a step\<close>

definition live_directory :: "run_config \<Rightarrow> run_state \<Rightarrow> string" where
  "live_directory config s = join_path (ra_directory (rc_arguments config)) (''step-'' @ dec_int (st_sequence s))"

definition workspace_name :: "string \<Rightarrow> string" where
  "workspace_name runId = runId @ ''-workspace''"

definition detail_name :: "run_state \<Rightarrow> string \<Rightarrow> string" where
  "detail_name s kind = st_runId s @ ''-'' @ kind @ ''-'' @ dec_int (st_sequence s)"

definition detail :: "'st store_ops \<Rightarrow> run_state \<Rightarrow> string \<Rightarrow> (string \<times> json) list \<Rightarrow> ('st, output_ref) action" where
  "detail ops s kind props = so_write ops ''runDetail'' (detail_name s kind)
     (JObj ((''runId'', JStr (st_runId s)) # props))"

definition load_workspace :: "'st store_ops \<Rightarrow> run_state \<Rightarrow> ('st, workspace option) action" where
  "load_workspace ops s =
     bindA (so_read ops (workspace_name (st_runId s)) (Some 1)) (\<lambda>existing. case existing of
       None \<Rightarrow> returnA None
     | Some v \<Rightarrow> bindA (liftA (zparse ''workspace'' workspaceSchema v)) (\<lambda>w. returnA (Some w)))"

section \<open>Preparing and finishing\<close>

definition prepare_step :: "('st, 'z) services_scheme \<Rightarrow> run_state \<Rightarrow> run_config \<Rightarrow> ('st, step_effect) action" where
  "prepare_step sv s config =
     (let h = sv_host sv; a = rc_arguments config in
      thenA (h_mkdir h (join_path (ra_repository a) ''.worktrees'') True)
      (bindA (createWorkspace h (ra_repository a) (st_runId s) (ra_revision a)) (\<lambda>w.
       thenA (so_write (sv_store sv) ''workspace'' (workspace_name (st_runId s)) (enc_workspace w))
       (bindA (runTestEffect h (sv_artifacts sv) s w (live_directory config s)) (\<lambda>tested.
        case se_outcome tested of
          Tested _ True \<Rightarrow> thenA (markBestRevision h w (st_bestRevision s))
            (returnA \<lparr>se_outcome = Prepared, se_evidence = se_evidence tested\<rparr>)
        | _ \<Rightarrow> returnA \<lparr>se_outcome = Failed ''Initial build and tests did not pass'',
            se_evidence = se_evidence tested\<rparr>)))))"

definition finish_phases :: "phase list" where
  "finish_phases = [PAnalyze, PResearch, PImplement, PRepair, PReview, PTest, PPrepare, PStartAttempt]"

definition scope_suffix :: "phase \<Rightarrow> string" where
  "scope_suffix p = (if p \<in> {PTest, PPrepare} then ''test'' else if p = PStartAttempt then ''build'' else ''pi'')"

definition step_scope :: "string \<Rightarrow> phase \<Rightarrow> int \<Rightarrow> string" where
  "step_scope runId p step = runId @ ''-'' @ scope_suffix p @ ''-'' @ dec_int step"

definition stop_step_scope :: "('st, 'z) services_scheme \<Rightarrow> run_state \<Rightarrow> phase \<Rightarrow> ('st, unit) action" where
  "stop_step_scope sv s p = (case st_outputs s p of
     None \<Rightarrow> returnA ()
   | Some r \<Rightarrow>
       bindA (so_read (sv_store sv) (or_name r) (Some (or_version r))) (\<lambda>v.
       bindA (liftA (zparse ''step'' stepResultSchema (or_null v))) (\<lambda>step.
       thenA (stopProcessScope (sv_host sv) (step_scope (st_runId s) p (sr_step step))) (returnA ()))))"

definition all_protocols :: "protocol list" where
  "all_protocols = [H1, TlsH1, TlsH2]"

definition all_events :: "profile_event list" where
  "all_events = [Ctimer, Wall, Alloc, Jfr]"

text \<open>The scopes of benchmarks and profiles a finish stops, by name.\<close>

definition benchmark_scopes :: "string \<Rightarrow> string list" where
  "benchmark_scopes runId = concat (map (\<lambda>a. map (\<lambda>p. runId @ ''-'' @ adapter_name a @ ''-'' @ protocol_name p)
     all_protocols) all_adapters)"

definition profile_scopes :: "string \<Rightarrow> string list" where
  "profile_scopes runId = concat (map (\<lambda>ev. map (\<lambda>p. runId @ ''-'' @ protocol_name p @ ''-'' @
     profile_event_name ev) all_protocols) all_events)"

definition stop_scope :: "'st host \<Rightarrow> string \<Rightarrow> ('st, unit) action" where
  "stop_scope h i = thenA (stopProcessScope h i) (returnA ())"

definition restore_best :: "'st host \<Rightarrow> run_state \<Rightarrow> workspace option \<Rightarrow> ('st, string option) action" where
  "restore_best h s ws = (case ws of
     None \<Rightarrow> returnA None
   | Some w \<Rightarrow>
       bindA (snapshotWorkspace h w (''unfinished-'' @ dec_int (st_sequence s))) (\<lambda>unfinished.
       thenA (selectWorkspaceRevision h w (st_bestRevision s)) (returnA (Some unfinished))))"

definition finish_step :: "('st, 'z) services_scheme \<Rightarrow> run_state \<Rightarrow> workspace option \<Rightarrow> ('st, step_effect) action" where
  "finish_step sv s ws =
     (let h = sv_host sv in
      thenA (case ws of None \<Rightarrow> returnA () | Some w \<Rightarrow> thenA (stopRepl h (st_runId s) (ws_path w)) (returnA ()))
      (thenA (forA (stop_step_scope sv s) finish_phases)
      (thenA (forA (stop_scope h) (benchmark_scopes (st_runId s)))
      (thenA (forA (stop_scope h) (profile_scopes (st_runId s)))
      (bindA (restore_best h s ws) (\<lambda>unfinished.
       bindA (detail (sv_store sv) s ''finish'' [(''unfinishedRevision'', j_nullable JStr unfinished),
          (''bestRevision'', JStr (st_bestRevision s)), (''workspace'', j_nullable enc_workspace ws)]) (\<lambda>r.
       returnA \<lparr>se_outcome = Finished, se_evidence = [r]\<rparr>)))))))"

section \<open>Building and testing\<close>

definition build_command :: "run_state \<Rightarrow> workspace \<Rightarrow> string \<Rightarrow> command_spec" where
  "build_command s w directory =
     \<lparr>sp_id = st_runId s @ ''-build-'' @ dec_int (st_sequence s), sp_command = ''bb'', sp_args = [''build''],
      sp_cwd = ws_path w, sp_env = [], sp_stdoutPath = join_path directory ''stdout.log'',
      sp_stderrPath = join_path directory ''stderr.log''\<rparr>"

definition build_step :: "('st, 'z) services_scheme \<Rightarrow> run_state \<Rightarrow> workspace \<Rightarrow> string \<Rightarrow> ('st, step_effect) action" where
  "build_step sv s w directory =
     (let h = sv_host sv; spec = build_command s w directory in
      thenA (h_mkdir h directory False)
      (bindA (runCommand h spec) (\<lambda>ex.
       bindA (archiveLogs h (sv_artifacts sv) ''testLog'' (sp_id spec) (sp_stdoutPath spec) (sp_stderrPath spec)
         (\<not> ex_success ex)) (\<lambda>logs.
       thenA (verifyWorkspaceRevision h w (st_workingRevision s))
       (bindA (detail (sv_store sv) s ''build'' [(''revision'', JStr (st_workingRevision s)),
          (''success'', JBool (ex_success ex)), (''cleanup'', JStr (cleanup_name (ex_cleanup ex))),
          (''exitCode'', j_nullable j_int (map_option cs_code (ex_status ex))), (''logs'', enc_refs logs)]) (\<lambda>saved.
        returnA \<lparr>se_outcome = (if ex_success ex then AttemptStarted else Failed ''Experiment build failed''),
          se_evidence = logs @ [saved]\<rparr>))))))"

definition test_step :: "('st, 'z) services_scheme \<Rightarrow> run_state \<Rightarrow> workspace \<Rightarrow> string \<Rightarrow> ('st, step_effect) action" where
  "test_step sv s w directory =
     thenA (stopRepl (sv_host sv) (st_runId s) (ws_path w))
       (runTestEffect (sv_host sv) (sv_artifacts sv) s w directory)"

section \<open>Profiling\<close>

definition profile_request_of :: "run_config \<Rightarrow> run_state \<Rightarrow> workspace \<Rightarrow> protocol \<Rightarrow> profile_request" where
  "profile_request_of config s w protocol =
     (let a = rc_arguments config; p = ra_parameters a in
      \<lparr>fq_runId = st_runId s, fq_repository = ws_path w, fq_directory = live_directory config s,
       fq_collector = join_path (ra_supportDirectory a) ''clojure'', fq_protocol = protocol,
       fq_event = st_requestedProfile s, fq_smoke = False,
       fq_parameters = \<lparr>fp_warmup = pa_warmup p, fp_duration = pa_duration p, fp_connections = pa_connections p,
         fp_streams = pa_streams p, fp_threads = pa_threads p, fp_workers = None\<rparr>\<rparr>)"

definition first_workload :: "run_policy \<Rightarrow> json" where
  "first_workload p = (case policy_workloads p of [] \<Rightarrow> JNull | w # _ \<Rightarrow> JStr w)"

definition profile_step :: "('st, 'z) machine_scheme \<Rightarrow> run_state \<Rightarrow> run_config \<Rightarrow> workspace \<Rightarrow> ('st, step_effect) action" where
  "profile_step mc s config w =
     bindA (liftA (zparse ''protocol'' protocolSchema (first_workload (ra_policy (rc_arguments config))))) (\<lambda>protocol.
     bindA (runProfile mc (enc_profile_request (profile_request_of config s w protocol))) (\<lambda>result.
     returnA \<lparr>se_outcome = (if fs_valid result then Profiled else Failed ''Diagnostic recording was invalid''),
       se_evidence = [fs_saved result]\<rparr>))"

section \<open>Measuring\<close>

text \<open>The benchmarks of a measurement, in order: every workload with its adapters.\<close>

definition competitors_of :: "run_state \<Rightarrow> run_policy \<Rightarrow> string \<Rightarrow> string list" where
  "competitors_of s p workload = (case rp_goal p of
     BeatAll competitors \<Rightarrow> if st_phase s = PBaseline
       then (case map_of competitors workload of None \<Rightarrow> [] | Some cs \<Rightarrow> cs) else []
   | ImproveBaseline _ _ \<Rightarrow> [])"

definition measured_cells :: "run_state \<Rightarrow> run_policy \<Rightarrow> (string \<times> string) list" where
  "measured_cells s p = concat (map (\<lambda>workload. map (\<lambda>adapter. (adapter, workload))
       (''busker'' # competitors_of s p workload))
     (js_set (policy_workloads p @ map po_workload (rp_protections p))))"

definition benchmark_request_of :: "run_config \<Rightarrow> run_state \<Rightarrow> workspace \<Rightarrow> string \<times> string \<Rightarrow> adapter \<Rightarrow> protocol \<Rightarrow>
    benchmark_request" where
  "benchmark_request_of config s w cell adapter protocol =
     (let a = rc_arguments config in
      \<lparr>bq_runId = st_runId s, bq_repository = ws_path w,
       bq_directory = join_path (live_directory config s) (fst cell @ ''-'' @ snd cell),
       bq_protocol = protocol, bq_adapter = adapter, bq_purpose = MeasurementPurpose,
       bq_parameters = ra_parameters a, bq_precision = rp_precision (ra_policy a),
       bq_deadlineMs = Some (rc_startedAtMs config + maxDurationMs (ra_limits a))\<rparr>)"

definition measure_cell :: "('st, 'z) machine_scheme \<Rightarrow> run_state \<Rightarrow> run_config \<Rightarrow> workspace \<Rightarrow> string \<times> string \<Rightarrow>
    ('st, bench_result) action" where
  "measure_cell mc s config w cell =
     bindA (liftA (zparse ''adapter'' adapterSchema (JStr (fst cell)))) (\<lambda>adapter.
     bindA (liftA (zparse ''protocol'' protocolSchema (JStr (snd cell)))) (\<lambda>protocol.
     runBenchmark mc (enc_request (benchmark_request_of config s w cell adapter protocol))))"

definition invalid_measurement :: "run_state \<Rightarrow> bench_result \<Rightarrow> outcome" where
  "invalid_measurement s result = Measured (st_workingRevision s) False
     (Some (if st_phase s = PBaseline then br_inconclusive result else br_precisionFailure result)) False False"

text \<open>The first invalid benchmark ends the step; otherwise all records.\<close>

fun measure_cells :: "('st, 'z) machine_scheme \<Rightarrow> run_state \<Rightarrow> run_config \<Rightarrow> workspace \<Rightarrow> (string \<times> string) list \<Rightarrow>
    output_ref list \<Rightarrow> ('st, step_effect + output_ref list) action" where
  "measure_cells mc s config w [] current = returnA (Inr current)"
| "measure_cells mc s config w (cell # cells) current =
     bindA (measure_cell mc s config w cell) (\<lambda>result.
     let current' = current @ [br_saved result] in
     if \<not> br_valid result
     then returnA (Inl \<lparr>se_outcome = invalid_measurement s result, se_evidence = current'\<rparr>)
     else measure_cells mc s config w cells current')"

definition plainRefsSchema :: "output_ref list schema" where
  "plainRefsSchema = z_array (z_strict [''name'', ''version''] (\<lambda>o'. do {
     name \<leftarrow> z_field o' ''name'' z_string;
     version \<leftarrow> z_field o' ''version'' (z_int_if z_positive);
     Some \<lparr>or_name = name, or_version = version\<rparr> }))"

definition parent_of :: "('st, 'z) services_scheme \<Rightarrow> run_config \<Rightarrow> ('st, campaign option) action" where
  "parent_of sv config = (case ra_parentEvidence (rc_arguments config) of
     None \<Rightarrow> returnA None
   | Some b \<Rightarrow> bindA (verifyParentEvidence sv b) (\<lambda>c. returnA (Some c)))"

definition initial_refs :: "'st store_ops \<Rightarrow> run_state \<Rightarrow> campaign option \<Rightarrow> output_ref list \<Rightarrow> ('st, output_ref list) action" where
  "initial_refs ops s parent current = (case Option.bind parent ca_initial of
     Some m \<Rightarrow> liftA (measurementRefs (me_id m))
   | None \<Rightarrow> if st_phase s = PBaseline then returnA current else measurementReferences ops s PBaseline)"

text \<open>
  The first measurement after a continued run may rest on its fresh baseline, when that is faster on
  HTTP/1 than the parent's measurement of the best version.
\<close>

definition fresh_best :: "'st store_ops \<Rightarrow> run_state \<Rightarrow> campaign option \<Rightarrow> ('st, output_ref list option) action" where
  "fresh_best ops s parent =
     (if st_phase s = PMeasure \<and> st_outputs s PKeep = None \<and> Option.bind parent ca_best \<noteq> None
      then bindA (measurementReferences ops s PBaseline) (\<lambda>rs. returnA (Some rs)) else returnA None)"

definition fresh_is_better :: "campaign option \<Rightarrow> measurement option \<Rightarrow> bool" where
  "fresh_is_better parent requalified \<longleftrightarrow>
     (case (Option.bind (Option.bind parent ca_best) h1_rate, Option.bind requalified h1_rate) of
        (Some old, Some fresh) \<Rightarrow> js_lt old fresh | _ \<Rightarrow> False)"

definition requalify :: "('st, 'z) services_scheme \<Rightarrow> run_state \<Rightarrow> run_config \<Rightarrow> output_ref list option \<Rightarrow>
    ('st, measurement option) action" where
  "requalify sv s config fresh = (case fresh of
     None \<Rightarrow> returnA None
   | Some rs \<Rightarrow> bindA (readMeasurement (sv_store sv) (sv_math sv) (sv_numstr sv) (st_runId s) (st_bestRevision s) rs
       (rp_precision (ra_policy (rc_arguments config)))) (\<lambda>m. returnA (Some m)))"

definition best_refs :: "'st store_ops \<Rightarrow> run_state \<Rightarrow> campaign option \<Rightarrow> output_ref list \<Rightarrow> output_ref list option \<Rightarrow>
    bool \<Rightarrow> ('st, output_ref list) action" where
  "best_refs ops s parent initial fresh useFresh =
     (if st_outputs s PKeep \<noteq> None
      then bindA (stepResource ops s PKeep) (\<lambda>(_, v).
        liftA (zparse ''measurements'' plainRefsSchema (json_prop v ''measurements'')))
      else (case (useFresh, fresh) of
          (True, Some rs) \<Rightarrow> returnA rs
        | _ \<Rightarrow> (case Option.bind parent ca_best of
            Some m \<Rightarrow> liftA (measurementRefs (me_id m)) | None \<Rightarrow> returnA initial)))"

definition parent_measures :: "run_state \<Rightarrow> campaign option \<Rightarrow> bool \<Rightarrow> parent_measurements option" where
  "parent_measures s parent useFresh = map_option (\<lambda>c.
     \<lparr>pm_initial = ca_initial c, pm_best = (if st_outputs s PKeep \<noteq> None \<or> useFresh then None else ca_best c),
      pm_identity = \<lparr>pi_runId = ca_sourceRunId c, pi_sha256 = ca_sourceDigest c\<rparr>\<rparr>) parent"

definition compare_step :: "('st, 'z) services_scheme \<Rightarrow> run_state \<Rightarrow> run_config \<Rightarrow> output_ref list \<Rightarrow>
    ('st, step_effect) action" where
  "compare_step sv s config current =
     (let ops = sv_store sv; p = ra_policy (rc_arguments config) in
      bindA (parent_of sv config) (\<lambda>parent.
      bindA (initial_refs ops s parent current) (\<lambda>initial.
      bindA (fresh_best ops s parent) (\<lambda>fresh.
      bindA (requalify sv s config fresh) (\<lambda>requalified.
      let useFresh = fresh_is_better parent requalified in
      bindA (best_refs ops s parent initial fresh useFresh) (\<lambda>best.
      compareSavedMeasurements ops (sv_math sv) (sv_numstr sv) s (rp_goal p) (rp_protections p)
        \<lparr>rf_initial = initial, rf_best = best, rf_current = current\<rparr> (rp_minimumImprovementFraction p)
        (rp_precision p) (parent_measures s parent useFresh)))))))"

definition measure_step :: "('st, 'z) machine_scheme \<Rightarrow> run_state \<Rightarrow> run_config \<Rightarrow> workspace \<Rightarrow> ('st, step_effect) action" where
  "measure_step mc s config w =
     thenA (stopRepl (sv_host mc) (st_runId s) (ws_path w))
     (thenA (h_mkdir (sv_host mc) (live_directory config s) False)
     (bindA (measure_cells mc s config w (measured_cells s (ra_policy (rc_arguments config))) []) (\<lambda>measured.
      case measured of Inl effect \<Rightarrow> returnA effect | Inr current \<Rightarrow> compare_step mc s config current)))"

section \<open>Keeping and discarding\<close>

definition keep_step :: "('st, 'z) services_scheme \<Rightarrow> run_state \<Rightarrow> workspace \<Rightarrow> ('st, step_effect) action" where
  "keep_step sv s w =
     bindA (measurementReferences (sv_store sv) s PMeasure) (\<lambda>measurements.
     thenA (markBestRevision (sv_host sv) w (st_workingRevision s))
     (bindA (detail (sv_store sv) s ''keep'' [(''revision'', JStr (st_workingRevision s)),
        (''measurements'', enc_refs measurements)]) (\<lambda>r.
      returnA \<lparr>se_outcome = Kept (st_workingRevision s), se_evidence = [r]\<rparr>)))"

definition discard_step :: "('st, 'z) services_scheme \<Rightarrow> run_state \<Rightarrow> workspace \<Rightarrow> ('st, step_effect) action" where
  "discard_step sv s w =
     thenA (snapshotWorkspace (sv_host sv) w (''discarded-'' @ dec_int (st_sequence s)))
     (thenA (selectWorkspaceRevision (sv_host sv) w (st_bestRevision s))
     (bindA (detail (sv_store sv) s ''discard'' [(''rejectedRevision'', JStr (st_workingRevision s)),
        (''restoredRevision'', JStr (st_bestRevision s))]) (\<lambda>r.
      returnA \<lparr>se_outcome = Discarded (st_bestRevision s), se_evidence = [r]\<rparr>)))"

section \<open>Inference\<close>

definition history_steps :: "run_state \<Rightarrow> int list" where
  "history_steps s = [max 1 (st_sequence s - 20)..st_sequence s - 1]"

definition history_entry :: "'st store_ops \<Rightarrow> run_state \<Rightarrow> int \<Rightarrow> ('st, json) action" where
  "history_entry ops s step =
     bindA (so_read ops (step_name (st_runId s) step) (Some 1)) (\<lambda>v.
     bindA (liftA (zparse ''step'' stepResultSchema (or_null v))) (\<lambda>saved.
     returnA (JObj [(''step'', j_int step), (''phase'', JStr (phase_name (sr_phase saved))),
       (''revision'', JStr (sr_revision saved)), (''outcome'', enc_outcome (sr_outcome saved))])))"

definition handoff :: "'st store_ops \<Rightarrow> run_state \<Rightarrow> run_config \<Rightarrow> ('st, output_ref) action" where
  "handoff ops s config =
     bindA (mapA (history_entry ops s) (history_steps s)) (\<lambda>history.
     detail ops s ''handoff'' [(''revision'', JStr (st_workingRevision s)),
       (''policy'', enc_policy (ra_policy (rc_arguments config))),
       (''limits'', enc_limits (ra_limits (rc_arguments config))), (''history'', JArr history),
       (''attemptsStarted'', j_int (st_attemptsStarted s)),
       (''repairsThisAttempt'', j_int (st_repairsThisAttempt s))])"

definition input_phases :: "phase list" where
  "input_phases = [PBaseline, PProfile, PAnalyze, PResearch, PImplement, PRepair, PTest, PMeasure, PReview]"

definition inference_inputs :: "'st store_ops \<Rightarrow> run_state \<Rightarrow> run_config \<Rightarrow> ('st, output_ref list) action" where
  "inference_inputs ops s config =
     bindA (handoff ops s config) (\<lambda>r.
     bindA (mapA (\<lambda>p. bindA (stepResource ops s p) (\<lambda>(reference, _). returnA reference))
       (filter (\<lambda>p. st_outputs s p \<noteq> None) input_phases)) (\<lambda>outputs.
     returnA ([\<lparr>or_name = agents_name (st_runId s), or_version = 1\<rparr>, r] @
       (if st_phase s = PAnalyze \<and> ra_experimentBrief (rc_arguments config) \<noteq> None
        then [\<lparr>or_name = brief_name (st_runId s), or_version = 1\<rparr>] else []) @ outputs)))"

definition snapshot_text :: "(jsnum \<Rightarrow> string) \<Rightarrow> run_state \<Rightarrow> output_ref list \<Rightarrow> string" where
  "snapshot_text numstr s inputs = json_text numstr (JObj [(''revision'', JStr (st_workingRevision s)),
     (''inputs'', enc_refs inputs)])"

definition live_context :: "('st, 'z) services_scheme \<Rightarrow> run_state \<Rightarrow> output_ref list \<Rightarrow> inference_context" where
  "live_context sv s inputs =
     \<lparr>ic_runId = st_runId s, ic_step = st_sequence s, ic_stage = st_phase s, ic_revision = st_workingRevision s,
      ic_snapshotSha256 = cr_sha256 (sv_crypto sv) (snapshot_text (sv_numstr sv) s inputs), ic_inputs = inputs\<rparr>"

definition live_request :: "run_config \<Rightarrow> run_state \<Rightarrow> workspace \<Rightarrow> inference_context \<Rightarrow> pi_request" where
  "live_request config s w c =
     (let a = rc_arguments config in
      \<lparr>pq_context = c, pq_reviewBase = (if st_phase s = PReview then Some (st_bestRevision s) else None),
       pq_workspace = ws_path w, pq_referenceRoots = ra_referenceRoots a, pq_directory = live_directory config s,
       pq_promptsDirectory = join_path (ra_supportDirectory a) ''prompts'',
       pq_extensionPath = join_path (ra_supportDirectory a) ''pi/restricted-tools.js'',
       pq_credentialDirectory = ra_credentialDirectory a\<rparr>)"

definition inference_step :: "('st, 'z) machine_scheme \<Rightarrow> run_state \<Rightarrow> run_config \<Rightarrow> workspace \<Rightarrow>
    ('st, step_effect) action" where
  "inference_step mc s config w =
     (let h = sv_host mc; usingRepl = writable_stage (st_phase s) in
      bindA (inference_inputs (sv_store mc) s config) (\<lambda>inputs.
      bindA (liftA (parse_context (live_context mc s inputs))) (\<lambda>c.
      thenA (whenA usingRepl (startRepl h (st_runId s) (ws_path w)))
      (bindA (finallyA (runPiEffect mc s (live_request config s w c)
            (Some (snapshotWorkspace h w (''edit-'' @ dec_int (st_sequence s)))))
          (whenA usingRepl (stopRepl h (st_runId s) (ws_path w)))) (\<lambda>result.
       thenA (whenA (\<not> usingRepl) (verifyWorkspaceRevision h w (st_workingRevision s)))
       (returnA result))))))"

section \<open>The step\<close>

definition worktree_step :: "('st, 'z) machine_scheme \<Rightarrow> run_state \<Rightarrow> run_config \<Rightarrow> workspace \<Rightarrow> ('st, step_effect) action" where
  "worktree_step mc s config w =
     thenA (verifyWorkspaceRevision (sv_host mc) w (st_workingRevision s))
     (let directory = live_directory config s; p = st_phase s in
      if p = PStartAttempt then build_step mc s w directory
      else if p = PTest then test_step mc s w directory
      else if p = PProfile then profile_step mc s config w
      else if p = PBaseline \<or> p = PMeasure then measure_step mc s config w
      else if p = PKeep then keep_step mc s w
      else if p = PDiscard then discard_step mc s w
      else inference_step mc s config w)"

definition performLiveStep :: "('st, 'z) machine_scheme \<Rightarrow> run_state \<Rightarrow> run_config \<Rightarrow> ('st, step_effect) action" where
  "performLiveStep mc s config =
     bindA (load_workspace (sv_store mc) s) (\<lambda>ws.
     if st_phase s = PPrepare then prepare_step mc s config
     else if st_phase s = PFinish then finish_step mc s ws
     else (case ws of
         None \<Rightarrow> throwA (Error ''Missing experiment worktree'')
       | Some w \<Rightarrow> worktree_step mc s config w))"

end
