(* ===== verification/Methods.thy ===== *)
theory Methods
  imports Run_Live
begin

text \<open>
  The methods of the model in \<^verbatim>\<open>tempo.ts\<close>. Swamp checks the arguments of a method against its schema
  before it calls it; each definition here starts with that check.
\<close>

section \<open>Running and resuming\<close>

text \<open>The handles of a method; \<open>None\<close> is the fuel of the loop used up, which never happens.\<close>

definition run_method :: "('st, 'z) machine_scheme \<Rightarrow> json \<Rightarrow> ('st, output_ref list option) action" where
  "run_method mc inp =
     bindA (liftA (zparse ''arguments'' runArgumentsSchema inp)) (\<lambda>args.
     bindA (h_now (sv_host mc)) (\<lambda>now.
     bindA (startRun mc inp now) (\<lambda>started.
     bindA (executeRun mc (ra_runId args) (performLiveStep mc)) (\<lambda>finished.
     returnA (map_option (\<lambda>x. hd (sd_handles started) # xr_handles x) finished)))))"

definition resumeSchema :: "string schema" where
  "resumeSchema = z_strict [''runId'', ''confirmLive''] (\<lambda>o'. do {
     runId \<leftarrow> z_field o' ''runId'' runIdSchema;
     _ \<leftarrow> z_field o' ''confirmLive'' z_true;
     Some runId })"

definition resume_method :: "('st, 'z) machine_scheme \<Rightarrow> json \<Rightarrow> ('st, output_ref list option) action" where
  "resume_method mc inp =
     bindA (liftA (zparse ''arguments'' resumeSchema inp)) (\<lambda>runId.
     bindA (executeRun mc runId (performLiveStep mc)) (\<lambda>finished.
     returnA (map_option xr_handles finished)))"

section \<open>Smoke checks\<close>

definition smoke_parameters :: parameters where
  "smoke_parameters = \<lparr>pa_warmup = 1, pa_duration = 1, pa_repetitions = 1, pa_connections = 128, pa_streams = 64,
     pa_threads = 2, pa_buskerWorkers = None\<rparr>"

definition profile_smoke_parameters :: profile_parameters where
  "profile_smoke_parameters = \<lparr>fp_warmup = 1, fp_duration = 1, fp_connections = 128, fp_streams = 64,
     fp_threads = 2, fp_workers = None\<rparr>"

definition profileSmokeSchema :: "profile_request schema" where
  "profileSmokeSchema = z_strict [''runId'', ''repository'', ''directory'', ''collectorDirectory'', ''protocol'',
       ''event''] (\<lambda>o'. do {
     runId \<leftarrow> z_field o' ''runId'' runIdSchema;
     repository \<leftarrow> z_field o' ''repository'' z_string_min1;
     directory \<leftarrow> z_field o' ''directory'' z_string_min1;
     collector \<leftarrow> z_field o' ''collectorDirectory'' z_string_min1;
     protocol \<leftarrow> z_field o' ''protocol'' protocolSchema;
     event \<leftarrow> z_field o' ''event'' profileEventSchema;
     Some \<lparr>fq_runId = runId, fq_repository = repository, fq_directory = directory, fq_collector = collector,
       fq_protocol = protocol, fq_event = event, fq_smoke = True, fq_parameters = profile_smoke_parameters\<rparr> })"

definition profileSmoke_method :: "('st, 'z) machine_scheme \<Rightarrow> json \<Rightarrow> ('st, output_ref list) action" where
  "profileSmoke_method mc inp =
     bindA (liftA (zparse ''arguments'' profileSmokeSchema inp)) (\<lambda>q.
     bindA (runProfile mc (enc_profile_request q)) (\<lambda>result. returnA (fs_handles result)))"

definition benchmarkSmokeSchema :: "benchmark_request schema" where
  "benchmarkSmokeSchema = z_strict [''runId'', ''repository'', ''directory'', ''protocol''] (\<lambda>o'. do {
     runId \<leftarrow> z_field o' ''runId'' runIdSchema;
     repository \<leftarrow> z_field o' ''repository'' z_string_min1;
     directory \<leftarrow> z_field o' ''directory'' z_string_min1;
     protocol \<leftarrow> z_field o' ''protocol'' protocolSchema;
     Some \<lparr>bq_runId = runId, bq_repository = repository, bq_directory = directory, bq_protocol = protocol,
       bq_adapter = Busker, bq_purpose = Smoke, bq_parameters = smoke_parameters, bq_precision = defaultPrecision,
       bq_deadlineMs = None\<rparr> })"

definition benchmarkSmoke_method :: "('st, 'z) machine_scheme \<Rightarrow> json \<Rightarrow> ('st, output_ref list) action" where
  "benchmarkSmoke_method mc inp =
     bindA (liftA (zparse ''arguments'' benchmarkSmokeSchema inp)) (\<lambda>q.
     bindA (runBenchmark mc (enc_request q)) (\<lambda>result. returnA (br_handles result)))"

section \<open>Recovering, initialising, importing\<close>

definition recoverSchema :: "string schema" where
  "recoverSchema = z_strict [''runId''] (\<lambda>o'. z_field o' ''runId'' runIdSchema)"

definition recover_method :: "('st, 'z) services_scheme \<Rightarrow> json \<Rightarrow> ('st, output_ref list) action" where
  "recover_method sv inp =
     bindA (liftA (zparse ''arguments'' recoverSchema inp)) (\<lambda>runId.
     bindA (so_read (sv_store sv) (config_name runId) (Some 1)) (\<lambda>v.
     bindA (liftA (zparse ''config'' runConfigSchema (or_null v))) (\<lambda>config.
     thenA (assertNotAbandoned (sv_host sv) (ra_directory (rc_arguments config)))
     (bindA (recoverSavedStep (sv_store sv) runId) (\<lambda>(_, saved). returnA [saved])))))"

definition initializeSchema :: "(string \<times> string) schema" where
  "initializeSchema = z_strict [''runId'', ''revision''] (\<lambda>o'. do {
     runId \<leftarrow> z_field o' ''runId'' runIdSchema;
     revision \<leftarrow> z_field o' ''revision'' revisionSchema;
     Some (runId, revision) })"

definition initialize_method :: "'st store_ops \<Rightarrow> json \<Rightarrow> ('st, output_ref list) action" where
  "initialize_method ops inp =
     bindA (liftA (zparse ''arguments'' initializeSchema inp)) (\<lambda>(runId, revision).
     bindA (so_read ops (state_name runId) None) (\<lambda>existing.
     thenA (guardA (existing = None) ''Run already exists; use a new run ID'')
     (bindA (liftA (newRun runId revision)) (\<lambda>s0.
      bindA (liftA (zparse ''state'' runStateSchema (enc_state s0))) (\<lambda>s.
      bindA (so_write ops ''state'' (state_name runId) (enc_state s)) (\<lambda>handle. returnA [handle]))))))"

definition recordInferenceSchema :: "(inference_context \<times> string \<times> int option) schema" where
  "recordInferenceSchema = z_strict [''context'', ''text'', ''exitCode''] (\<lambda>o'. do {
     c \<leftarrow> z_field o' ''context'' inferenceContextSchema;
     text \<leftarrow> z_field o' ''text'' z_string;
     exitCode \<leftarrow> z_field o' ''exitCode'' (z_nullable (z_int_if safe_integer));
     Some (c, text, exitCode) })"

definition recordInference_method :: "'st store_ops \<Rightarrow> (string \<Rightarrow> json res) \<Rightarrow> json \<Rightarrow> ('st, output_ref list) action" where
  "recordInference_method ops jparse inp =
     bindA (liftA (zparse ''arguments'' recordInferenceSchema inp)) (\<lambda>(c, text, exitCode).
     bindA (saveInference ops jparse c text exitCode None) (\<lambda>result. returnA [si_raw result, si_saved result]))"

end
