(* ===== verification/Live_World.thy ===== *)
theory Live_World
  imports Methods
begin

text \<open>A concrete machine for the witnesses of the claims on live steps.\<close>

text \<open>
  A machine with one worktree, a store whose answers are fixed, and processes that succeed. Its state
  is the references of the repository and whether a command was launched; the inference process
  edits and settles without an answer.
\<close>

type_synonym live_world = "(string \<Rightarrow> string option) \<times> bool"

definition live_answers :: "(string list \<times> string) list" where
  "live_answers = [([''status'', ''--porcelain'', ''--untracked-files=all''], []),
     ([''for-each-ref'', ''--format=%(objectname)'', ''refs/tempo/run-1/''], replicate 40 (CHR ''b'')),
     ([''switch'', ''--detach'', replicate 40 (CHR ''b'')], [])]"

definition live_output :: "command \<Rightarrow> (string \<Rightarrow> string option) \<Rightarrow> command_output \<times> (string \<Rightarrow> string option)" where
  "live_output c refs =
     (let ok = (\<lambda>text. (\<lparr>co_success = True, co_stdout = text, co_stderr = []\<rparr>, refs)) in
      if cm_command c = ''systemctl'' then ok ''LoadState=not-found''
      else if cm_command c = ''tmux'' then ok []
      else if cm_command c = ''brepl'' then ok ''3''
      else case map_of live_answers (cm_args c) of Some text \<Rightarrow> ok text | None \<Rightarrow> toy_git (cm_args c) refs)"

definition live_stat :: file_stat where
  "live_stat = \<lparr>fi_isFile = True, fi_isDirectory = False, fi_isSymlink = False, fi_size = 8\<rparr>"

definition live_stdout :: string where
  "live_stdout = ''/logs/step-1/stdout.jsonl''"

definition live_stream :: string where
  "live_stream = js_join [LF] [''s'', ''p'', ''t'', ''e''] @ [LF]"

definition live_host :: "live_world host" where
  "live_host = bare_host\<lparr>
     h_output := \<lambda>c (refs, launched). (case live_output c refs of (out, refs') \<Rightarrow> (Inr out, (refs', launched))),
     h_spawn := \<lambda>_ (refs, _). (Inr 1, (refs, True)),
     h_status := \<lambda>_. returnA \<lparr>cs_success = True, cs_code = 0, cs_signal = None\<rparr>,
     h_stat := \<lambda>p (refs, launched). (if p = live_stdout @ ''.started'' \<and> \<not> launched
       then Inl (Named ''NotFound'' []) else Inr live_stat, (refs, launched)),
     h_readFile := \<lambda>p. returnA (if p = live_stdout then live_stream else ''text''), h_open := \<lambda>_. returnA 1\<rparr>"

definition live_inputs :: "output_ref list" where
  "live_inputs = [\<lparr>or_name = ''run-1-agents-context'', or_version = 1\<rparr>, \<lparr>or_name = ''run-1-handoff-1'', or_version = 1\<rparr>]"

definition live_record :: inference_record where
  "live_record = \<lparr>ic_runId = ''run-1'', ic_step = 1, ic_stage = PImplement, ic_revision = replicate 40 (CHR ''a''),
     ic_snapshotSha256 = replicate 64 (CHR ''e''), ic_inputs = live_inputs,
     ir_raw = \<lparr>or_name = ''run-1-pi-1-raw'', or_version = 1\<rparr>, ir_valid = False,
     ir_error = Some ''Pi exited without an answer'', ir_result = None\<rparr>"

definition live_records :: "(string \<times> json) list" where
  "live_records = [(''run-1-workspace'', enc_workspace toy_workspace),
     (''run-1-agents-context'', JObj [(''runId'', JStr ''run-1''), (''source'', JStr ''untracked project AGENTS.md''),
        (''sha256'', JStr (replicate 64 (CHR ''e''))), (''text'', JStr ''# Agents'')]),
     (''run-1-handoff-1'', JObj [(''runId'', JStr ''run-1'')]), (''run-1-pi-1-result'', enc_inference live_record)]"

definition live_events :: "string \<Rightarrow> json res" where
  "live_events line = (case map_of
     [(''s'', JObj [(''type'', JStr ''session'')]),
      (''p'', JObj [(''type'', JStr ''entry_appended''), (''entry'', JObj
         [(''customType'', JStr ''tempo-policy''), (''data'', JObj [(''workspace'', JStr (ws_path toy_workspace)),
           (''readRoots'', JArr [JStr ''/logs/step-1/inputs'']), (''stage'', JStr ''implement'')])])]),
      (''t'', JObj [(''type'', JStr ''tool_execution_start''), (''toolName'', JStr ''tempo_edit'')]),
      (''e'', JObj [(''type'', JStr ''agent_settled'')])] line of
     None \<Rightarrow> Inl (Error ''Unexpected token'') | Some v \<Rightarrow> Inr v)"

definition live_math :: js_math where
  "live_math = \<lparr>m_sin = (\<lambda>x. NaN), m_cos = (\<lambda>x. NaN), m_tan = (\<lambda>x. NaN), m_sqrt = (\<lambda>x. NaN), m_pow = (\<lambda>x y. NaN)\<rparr>"

definition live_machine :: "live_world machine" where
  "live_machine = \<lparr>sv_host = live_host,
     sv_artifacts = \<lparr>ao_store = \<lparr>so_write = \<lambda>_ name _. returnA \<lparr>or_name = name, or_version = 1\<rparr>,
         so_read = \<lambda>name _. returnA (map_of live_records name)\<rparr>,
       ao_stream = \<lambda>_ name _. returnA \<lparr>or_name = name, or_version = 1\<rparr>,
       ao_text = \<lambda>_ name _. returnA \<lparr>or_name = name, or_version = 1\<rparr>\<rparr>,
     sv_crypto = reviewed_crypto, sv_math = live_math, sv_numstr = \<lambda>_. ''0'', sv_utf8 = Some,
     sv_json = live_events, sv_url = Some, mc_os = ''linux'', mc_arch = ''x86_64'', mc_hostname = returnA ''host'',
     mc_wrapper = ''/s/wrapper'', mc_fileURL = \<lambda>p. p, mc_number = \<lambda>_. NaN, mc_writeText = \<lambda>_ _. returnA (),
     mc_copyFile = \<lambda>_ _. returnA (), mc_symlink = \<lambda>_ _. returnA (), mc_removeTree = \<lambda>_. returnA ()\<rparr>"

definition live_config :: run_config where
  "live_config = \<lparr>rc_arguments = \<lparr>ra_runId = ''run-1'', ra_repository = ''/r'', ra_revision = replicate 40 (CHR ''a''),
       ra_directory = ''/logs'', ra_supportDirectory = ''/s'', ra_supportSha256 = replicate 64 (CHR ''e''),
       ra_supportRevision = replicate 40 (CHR ''a''), ra_parentEvidence = None, ra_experimentBrief = None,
       ra_credentialDirectory = ''/c'', ra_referenceRoots = [],
       ra_limits = \<lparr>maxAttempts = 2, maxRepairsPerAttempt = 1, maxPiCalls = 8, maxDurationMs = 1000\<rparr>,
       ra_policy = \<lparr>rp_goal = ImproveBaseline NaN [''h1''], rp_protections = [], rp_minimumImprovementFraction = NaN,
         rp_precision = \<lparr>pn_relativeHalfWidth = NaN, pn_confidenceLevel = NaN\<rparr>\<rparr>,
       ra_parameters = \<lparr>pa_warmup = 1, pa_duration = 1, pa_repetitions = 3, pa_connections = 8, pa_streams = 2,
         pa_threads = 2, pa_buskerWorkers = None\<rparr>\<rparr>,
     rc_startedAtMs = 5, rc_supportManifest = \<lparr>mf_sha256 = [], mf_files = []\<rparr>, rc_cliVersion = ''1.0'',
     rc_dataDirectory = ''/s/.swamp''\<rparr>"

definition live_state :: "phase \<Rightarrow> run_state" where
  "live_state p = test_state\<lparr>st_phase := p, st_sequence := 1, st_activeStep := Some 1,
     st_bestRevision := replicate 40 (CHR ''b'')\<rparr>"

lemma live_edited: "case performLiveStep live_machine (live_state PImplement) live_config (Map.empty, False) of
    (Inl e, st') \<Rightarrow> False | (Inr eff, st') \<Rightarrow> outcome_kind (se_outcome eff) = ''error'' \<and>
      fst st' ''refs/tempo/run-1/edit-1'' = Some (replicate 40 (CHR ''c''))"
  by code_simp

lemma live_discarded: "case performLiveStep live_machine (live_state PDiscard) live_config (Map.empty, False) of
    (Inl e, st') \<Rightarrow> False | (Inr eff, st') \<Rightarrow> se_outcome eff = Discarded (replicate 40 (CHR ''b''))"
  by code_simp

lemma live_workspace: "case load_workspace (sv_store live_machine) (live_state PDiscard) (Map.empty, False) of
    (r, st) \<Rightarrow> r = Inr (Some toy_workspace)"
  by code_simp

lemma live_host_of [simp]: "sv_host live_machine = live_host"
  by (simp add: live_machine_def)

lemma live_laws: "git_reference_laws live_host fst"
  by (auto simp: git_reference_laws_def git_command_def live_host_def bare_host_def live_output_def toy_git_def
      live_answers_def plain_commands_def Let_def split: option.splits if_splits prod.splits)

end
