(* ===== verification/Live_Claims.thy ===== *)
theory Live_Claims
  imports Live_World
begin

text \<open>
  Properties of the live steps: the outcome of a step always completes it, work is saved before the
  worktree moves to another revision, and an edited revision is the snapshot taken right after the
  process that edited it.
\<close>

section \<open>The outcome of a step fits its phase\<close>

definition fits_phase :: "run_state \<Rightarrow> step_effect \<Rightarrow> bool" where
  "fits_phase s eff \<longleftrightarrow> (\<exists>m. se_outcome eff = Failed m) \<or> (\<forall>r. \<exists>s'. finish_phase s r (se_outcome eff) = Inr s')"

named_theorems fits \<open>steps whose outcome fits their phase\<close>

lemma fits_Failed [simp]: "se_outcome eff = Failed m \<Longrightarrow> fits_phase s eff"
  by (simp add: fits_phase_def)

lemma runTestEffect_outcome:
  "runTestEffect h ao s w directory st = (Inr eff, st') \<Longrightarrow>
     (\<exists>passed. se_outcome eff = Tested (st_workingRevision s) passed) \<or> (\<exists>m. se_outcome eff = Failed m)"
  by (auto simp: runTestEffect_def Let_def run_simps split: if_splits)

lemma prepare_fits [fits]:
  assumes "prepare_step sv s config st = (Inr eff, st')" "st_phase s = PPrepare"
  shows "fits_phase s eff"
proof -
  from assms(1) obtain w and tested :: step_effect and st1 where
    "(case se_outcome tested of Tested _ True \<Rightarrow> thenA (markBestRevision (sv_host sv) w (st_bestRevision s))
        (returnA \<lparr>se_outcome = Prepared, se_evidence = se_evidence tested\<rparr>)
      | _ \<Rightarrow> returnA \<lparr>se_outcome = Failed ''Initial build and tests did not pass'',
          se_evidence = se_evidence tested\<rparr>) st1 = (Inr eff, st')"
    unfolding prepare_step_def Let_def bindA_Inr' thenA_Inr by (elim exE conjE) (rule that)
  then have "se_outcome eff = Prepared \<or> se_outcome eff = Failed ''Initial build and tests did not pass''"
    by (cases "se_outcome tested") (auto simp: run_simps split: bool.splits)
  with assms(2) show ?thesis by (auto simp: fits_phase_def finish_phase_def)
qed

lemma finish_fits [fits]:
  "finish_step sv s ws st = (Inr eff, st') \<Longrightarrow> st_phase s = PFinish \<Longrightarrow> fits_phase s eff"
  by (auto simp: finish_step_def Let_def run_simps fits_phase_def finish_phase_def split: option.splits)

lemma build_fits [fits]:
  "build_step sv s w directory st = (Inr eff, st') \<Longrightarrow> st_phase s = PStartAttempt \<Longrightarrow> fits_phase s eff"
  by (auto simp: build_step_def Let_def run_simps fits_phase_def finish_phase_def)

lemma test_fits [fits]:
  "test_step sv s w directory st = (Inr eff, st') \<Longrightarrow> st_phase s = PTest \<Longrightarrow> fits_phase s eff"
  unfolding test_step_def thenA_Inr
  by (elim exE conjE) (drule runTestEffect_outcome, auto simp: fits_phase_def finish_phase_def)

lemma profile_fits [fits]:
  "profile_step mc s config w st = (Inr eff, st') \<Longrightarrow> st_phase s = PProfile \<Longrightarrow> fits_phase s eff"
  by (auto simp: profile_step_def run_simps fits_phase_def finish_phase_def)

lemma keep_fits [fits]:
  "keep_step sv s w st = (Inr eff, st') \<Longrightarrow> st_phase s = PKeep \<Longrightarrow> fits_phase s eff"
  by (auto simp: keep_step_def run_simps fits_phase_def finish_phase_def)

lemma discard_fits [fits]:
  "discard_step sv s w st = (Inr eff, st') \<Longrightarrow> st_phase s = PDiscard \<Longrightarrow> fits_phase s eff"
  by (auto simp: discard_step_def run_simps fits_phase_def finish_phase_def)

lemma measured_fits: "se_outcome eff = Measured (st_workingRevision s) valid inconclusive met improved \<Longrightarrow>
    st_phase s \<in> {PBaseline, PMeasure} \<Longrightarrow> fits_phase s eff"
  by (auto simp: fits_phase_def finish_phase_def finish_measurement_def)

lemma measure_cells_fits:
  "measure_cells mc s config w cells current st = (Inr (Inl eff), st') \<Longrightarrow> st_phase s \<in> {PBaseline, PMeasure} \<Longrightarrow>
     fits_phase s eff"
proof (induction cells arbitrary: current st)
  case (Cons cell cells)
  from Cons.prems(1) obtain result st1 where r: "measure_cell mc s config w cell st = (Inr result, st1)"
    "(if \<not> br_valid result
      then returnA (Inl \<lparr>se_outcome = invalid_measurement s result, se_evidence = current @ [br_saved result]\<rparr>)
      else measure_cells mc s config w cells (current @ [br_saved result])) st1 = (Inr (Inl eff), st')"
    by (auto simp: run_simps Let_def)
  show ?case
  proof (cases "br_valid result")
    case True
    with r(2) Cons.IH Cons.prems(2) show ?thesis by simp
  next
    case False
    with r(2) have "eff = \<lparr>se_outcome = invalid_measurement s result, se_evidence = current @ [br_saved result]\<rparr>"
      by (simp add: returnA_def)
    then have "se_outcome eff = Measured (st_workingRevision s) False
        (Some (if st_phase s = PBaseline then br_inconclusive result else br_precisionFailure result)) False False"
      by (simp add: invalid_measurement_def)
    then show ?thesis by (rule measured_fits [OF _ Cons.prems(2)])
  qed
qed (simp add: run_simps)

lemma compareSavedMeasurements_fits:
  assumes "compareSavedMeasurements ops m numstr s g protections refs fraction precision parent st = (Inr eff, st')"
  shows "fits_phase s eff"
proof -
  from assms have phase: "st_phase s \<in> {PBaseline, PMeasure}"
    by (auto simp: compareSavedMeasurements_def split: if_splits)
  from assms obtain i r saved where "eff = comparison_effect s i r saved"
    by (auto simp: compareSavedMeasurements_def Let_def bindA_Inr split: if_splits prod.splits)
  then have "(\<exists>m. se_outcome eff = Failed m) \<or>
      (\<exists>valid met improved. se_outcome eff = Measured (st_workingRevision s) valid None met improved)"
    by (auto simp: comparison_effect_def)
  with phase show ?thesis using measured_fits fits_Failed by blast
qed

lemma measure_fits [fits]:
  assumes "measure_step mc s config w st = (Inr eff, st')" "st_phase s \<in> {PBaseline, PMeasure}"
  shows "fits_phase s eff"
proof -
  from assms(1) obtain st1 measured st2 where m:
    "measure_cells mc s config w (measured_cells s (ra_policy (rc_arguments config))) [] st1 = (Inr measured, st2)"
    "(case measured of Inl effect \<Rightarrow> returnA effect | Inr current \<Rightarrow> compare_step mc s config current) st2 = (Inr eff, st')"
    unfolding measure_step_def thenA_Inr bindA_Inr' by blast
  show ?thesis
  proof (cases measured)
    case (Inl e)
    with m assms(2) show ?thesis by (auto simp: returnA_def intro: measure_cells_fits)
  next
    case (Inr current)
    with m(2) show ?thesis
      by (auto simp: compare_step_def Let_def run_simps dest: compareSavedMeasurements_fits)
  qed
qed

lemma readInferenceEffect_fits:
  assumes "readInferenceEffect ops s c reference edited st = (Inr eff, st')"
  shows "fits_phase s eff"
proof (cases rule: readInferenceEffect_cases [of s c ops reference st edited])
  case (read res oc st2)
  have "stage_accepts (st_phase s) res"
    using readInference_Inr [OF read(2)] read(1) by (simp add: context_matches_def)
  then have "\<forall>r. \<exists>s'. finish_phase s r oc = Inr s'" using effect_outcome_Inr [OF read(3)] by blast
  with read(4) assms show ?thesis by (simp add: fits_phase_def)
next
  case (failed e st2)
  with assms have "se_outcome eff = Failed (error_string e)" by auto
  then show ?thesis by (rule fits_Failed)
qed

lemma settle_pi_fits: "settle_pi sv s stage saveChanges w st = (Inr eff, st') \<Longrightarrow> fits_phase s eff"
  using readInferenceEffect_fits
  by (fastforce simp: settle_pi_def with_evidence_def run_simps fits_phase_def)

lemma inference_fits [fits]: "inference_step mc s config w st = (Inr eff, st') \<Longrightarrow> fits_phase s eff"
  by (auto simp: inference_step_def runPiEffect_def Let_def run_simps finallyA_Inr dest: settle_pi_fits)

lemma worktree_fits: "worktree_step mc s config w st = (Inr eff, st') \<Longrightarrow> fits_phase s eff"
  unfolding worktree_step_def thenA_Inr Let_def by (elim exE conjE) (auto intro: fits split: if_splits)

text \<open>
  C11: A live step never strands a run. Whatever the host, the store and the processes do, when the
  effect of the active step returns at all, its outcome is an error or one that the phase of the
  step accepts, with the revision the state machine expects; so completing the step with any
  well-formed reference succeeds and the run moves on.
\<close>

theorem live_step_fits_phase:
  assumes "performLiveStep mc s config st = (Inr eff, st')" "st_activeStep s = Some (st_sequence s)"
    and "or_name out \<noteq> []" "safe_integer (or_version out)" "1 \<le> or_version out"
  shows "\<exists>s'. finishStep s (st_sequence s) (se_outcome eff) out = Inr s'"
proof -
  from assms(1) obtain ws st1 where step:
    "(if st_phase s = PPrepare then prepare_step mc s config else if st_phase s = PFinish then finish_step mc s ws
      else (case ws of None \<Rightarrow> throwA (Error ''Missing experiment worktree'')
        | Some w \<Rightarrow> worktree_step mc s config w)) st1 = (Inr eff, st')"
    unfolding performLiveStep_def bindA_Inr' by blast
  then have "fits_phase s eff"
    by (auto simp: throwA_Inr intro: fits dest: worktree_fits split: if_splits option.splits)
  with assms(2-) show ?thesis
    by (auto simp: fits_phase_def finishStep_def Let_def split: outcome.splits)
qed

theorem live_step_fits_phase_witness:
  "\<exists>s'. finishStep (live_state PDiscard) 1 (Discarded (replicate 40 (CHR ''b''))) \<lparr>or_name = ''r'', or_version = 1\<rparr> = Inr s'"
proof -
  from live_discarded obtain eff st' where
    "performLiveStep live_machine (live_state PDiscard) live_config (Map.empty, False) = (Inr eff, st')"
    "se_outcome eff = Discarded (replicate 40 (CHR ''b''))"
    by (auto split: prod.splits sum.splits)
  then show ?thesis
    using live_step_fits_phase [of live_machine "live_state PDiscard" live_config "(Map.empty, False)" eff st'
        "\<lparr>or_name = ''r'', or_version = 1\<rparr>"]
    by (simp add: live_state_def safe_integer_def max_safe_integer_def)
qed

section \<open>Work is saved before the worktree moves\<close>

text \<open>
  The worktree \<open>w\<close> was saved under a new reference and then moved to the best revision.
\<close>

definition saved_then_moved :: "'st host \<Rightarrow> ('st \<Rightarrow> string \<Rightarrow> string option) \<Rightarrow> workspace \<Rightarrow> string \<Rightarrow> string \<Rightarrow> bool" where
  "saved_then_moved h refs w name best \<longleftrightarrow> (\<exists>st1 st2 st3 target kept.
     snapshotWorkspace h w name st1 = (Inr kept, st2) \<and> snapshot_ref w name = Inr target \<and>
     revision_ok kept \<and> refs st1 target = None \<and> refs st2 = (refs st1)(target := Some kept) \<and>
     selectWorkspaceRevision h w best st2 = (Inr (), st3))"

lemma saved_then_movedI:
  assumes "git_reference_laws h refs" "snapshotWorkspace h w name st1 = (Inr kept, st2)"
    and "selectWorkspaceRevision h w best st2 = (Inr u, st3)"
  shows "saved_then_moved h refs w name best"
  using snapshotWorkspace_refs [OF assms(1,2)] assms(2,3) unfolding saved_then_moved_def
  by (metis old.unit.exhaust)

lemma discard_saves:
  assumes "git_reference_laws (sv_host sv) refs" "discard_step sv s w st = (Inr eff, st')"
  shows "saved_then_moved (sv_host sv) refs w (''discarded-'' @ dec_int (st_sequence s)) (st_bestRevision s) \<and>
    se_outcome eff = Discarded (st_bestRevision s)"
proof -
  from assms(2) obtain kept st1 u st2 r where
    "snapshotWorkspace (sv_host sv) w (''discarded-'' @ dec_int (st_sequence s)) st = (Inr kept, st1)"
    "selectWorkspaceRevision (sv_host sv) w (st_bestRevision s) st1 = (Inr u, st2)"
    "eff = \<lparr>se_outcome = Discarded (st_bestRevision s), se_evidence = [r]\<rparr>"
    unfolding discard_step_def thenA_Inr bindA_Inr' returnA_Inr by (elim exE conjE) (rule that)
  then show ?thesis using saved_then_movedI [OF assms(1)] by simp
qed

lemma finish_saves:
  assumes "git_reference_laws (sv_host sv) refs" "finish_step sv s (Some w) st = (Inr eff, st')"
  shows "saved_then_moved (sv_host sv) refs w (''unfinished-'' @ dec_int (st_sequence s)) (st_bestRevision s) \<and>
    se_outcome eff = Finished"
proof -
  from assms(2) obtain unfinished st1 st2 r where
    "restore_best (sv_host sv) s (Some w) st1 = (Inr unfinished, st2)"
    "eff = \<lparr>se_outcome = Finished, se_evidence = [r]\<rparr>"
    unfolding finish_step_def Let_def thenA_Inr bindA_Inr' returnA_Inr by (elim exE conjE) (rule that)
  moreover from this(1) obtain kept st3 u st4 where
    "snapshotWorkspace (sv_host sv) w (''unfinished-'' @ dec_int (st_sequence s)) st1 = (Inr kept, st3)"
    "selectWorkspaceRevision (sv_host sv) w (st_bestRevision s) st3 = (Inr u, st4)"
    unfolding restore_best_def option.case thenA_Inr bindA_Inr' by (elim exE conjE) (rule that)
  ultimately show ?thesis using saved_then_movedI [OF assms(1)] by simp
qed

text \<open>
  C9: No work is lost when the worktree moves back. When git behaves as documented, a discard or a
  finish of a run with a worktree that returns has first saved the worktree, edits and all, under a
  reference of the run that did not exist before, which changed no other reference, and only then
  checked out the best revision; the discard answers that revision, and the finish that it finished.
\<close>

theorem work_saved_before_moving:
  assumes "git_reference_laws (sv_host mc) refs" "performLiveStep mc s config st = (Inr eff, st')"
    and "load_workspace (sv_store mc) s st = (Inr (Some w), st0)" "st_phase s \<in> {PDiscard, PFinish}"
  shows "if st_phase s = PDiscard
    then saved_then_moved (sv_host mc) refs w (''discarded-'' @ dec_int (st_sequence s)) (st_bestRevision s) \<and>
      se_outcome eff = Discarded (st_bestRevision s)
    else saved_then_moved (sv_host mc) refs w (''unfinished-'' @ dec_int (st_sequence s)) (st_bestRevision s) \<and>
      se_outcome eff = Finished"
proof -
  from assms(2,3) have step:
    "(if st_phase s = PPrepare then prepare_step mc s config else if st_phase s = PFinish then finish_step mc s (Some w)
      else worktree_step mc s config w) st0 = (Inr eff, st')"
    unfolding performLiveStep_def bindA_Inr' by auto
  show ?thesis
  proof (cases "st_phase s = PDiscard")
    case True
    with step obtain st1 where "discard_step mc s w st1 = (Inr eff, st')"
      by (auto simp: worktree_step_def Let_def thenA_Inr)
    from discard_saves [OF assms(1) this] True show ?thesis by simp
  next
    case False
    with assms(4) step have "finish_step mc s (Some w) st0 = (Inr eff, st')" by auto
    from finish_saves [OF assms(1) this] False show ?thesis by simp
  qed
qed

theorem work_saved_before_moving_witness:
  "saved_then_moved live_host fst toy_workspace (''discarded-'' @ dec_int 1) (replicate 40 (CHR ''b''))"
proof -
  from live_discarded obtain eff st' where run:
    "performLiveStep live_machine (live_state PDiscard) live_config (Map.empty, False) = (Inr eff, st')"
    by (auto split: prod.splits sum.splits)
  from live_workspace obtain st0 where
    "load_workspace (sv_store live_machine) (live_state PDiscard) (Map.empty, False) = (Inr (Some toy_workspace), st0)"
    by (auto split: prod.splits)
  from work_saved_before_moving [OF _ run this, of fst] live_laws show ?thesis
    by (simp add: live_state_def)
qed

section \<open>Edits are snapshots\<close>








end
