(* ===== verification/Live_Quiet.thy ===== *)
theory Live_Quiet
  imports Execute_Claims Run_Live
begin

text \<open>
  The live steps leave the saved state and the step results of the run alone: every resource an effect
  writes has a name of another form, whatever the run's own name is. The facts are collected as
  introduction rules over the structure of the actions, one for each function of the runners.
\<close>

section \<open>Names of other resources\<close>

text \<open>
  The names of the state and of the step results, read from their ends: they stop with the letters of
  \<^verbatim>\<open>-state\<close>, or with a number after \<^verbatim>\<open>-step-\<close>.
\<close>

definition reserved :: "string \<Rightarrow> bool" where
  "reserved y \<longleftrightarrow> (\<exists>z. y = ''etats-'' @ z) \<or> (\<exists>z. dropWhile (\<lambda>c. is_digit c \<or> c = CHR ''-'') y = ''pets-'' @ z)"

lemma is_digit_letters: "list_all (\<lambda>c. \<not> is_digit c) ''abcdefghijklmnopqrstuvwxyzABCDEFGHIJKLMNOPQRSTUVWXYZ-./_''"
  by (simp add: is_digit_def)

lemmas is_letter = is_digit_letters [simplified]

lemma dec_chars: "c \<in> set (dec_int k) \<Longrightarrow> is_digit c \<or> c = CHR ''-''"
  using dec_nat_only_digits [of c] by (auto simp: dec_int_def split: if_splits)

lemma dec_nat_chars: "c \<in> set (dec_nat k) \<Longrightarrow> is_digit c \<or> c = CHR ''-''"
  using dec_nat_only_digits [of c] by auto

lemma drop_number [simp]:
  "dropWhile (\<lambda>c. is_digit c \<or> c = CHR ''-'') (rev (dec_int k) @ z) = dropWhile (\<lambda>c. is_digit c \<or> c = CHR ''-'') z"
  "dropWhile (\<lambda>c. is_digit c \<or> c = CHR ''-'') (rev (dec_nat m) @ z) = dropWhile (\<lambda>c. is_digit c \<or> c = CHR ''-'') z"
  by (rule dropWhile_append2, use dec_chars in simp) (rule dropWhile_append2, use dec_nat_chars in simp)

lemma first_of_number:
  assumes "\<And>c. c \<in> set ds \<Longrightarrow> is_digit c \<or> c = CHR ''-''" "ds \<noteq> []"
  shows "rev ds @ z \<noteq> CHR ''e'' # w"
proof
  assume e: "rev ds @ z = CHR ''e'' # w"
  obtain d y where d: "rev ds = d # y" using assms(2) by (cases "rev ds") simp_all
  with e have "d = CHR ''e''" by simp
  moreover have "d \<in> set ds" using d by (metis list.set_intros(1) set_rev)
  ultimately show False using assms(1) by (force simp: is_digit_def)
qed

lemma last_of_number: "rev (dec_int k) @ z \<noteq> CHR ''e'' # w" "rev (dec_nat m) @ z \<noteq> CHR ''e'' # w"
  by (rule first_of_number [OF dec_chars], assumption, simp add: dec_int_def)
    (rule first_of_number [OF dec_nat_chars], assumption, simp)

lemmas not_reserved = reserved_def last_of_number is_letter

lemma run_names_reserved:
  assumes "x \<in> run_names n"
  shows "reserved (rev x)"
proof -
  have "x = n @ ''-state'' \<or> (\<exists>k. x = n @ ''-step-'' @ dec_int k)"
    using assms unfolding run_names_def state_name_def step_name_def by blast
  then show ?thesis by (elim disjE exE; simp add: not_reserved)
qed

section \<open>Surroundings that leave the run alone\<close>

text \<open>
  Files, programs and the clock do not touch the resources of the run; the store and the artifacts touch
  only what they are asked to write.
\<close>

definition quiet_host :: "('st \<Rightarrow> string \<Rightarrow> json list) \<Rightarrow> string set \<Rightarrow> 'st host \<Rightarrow> bool" where
  "quiet_host versions names h \<longleftrightarrow>
     (\<forall>p. keeps versions names (h_realPath h p) \<and> keeps versions names (h_lstat h p) \<and>
        keeps versions names (h_stat h p) \<and> keeps versions names (h_readDir h p) \<and>
        keeps versions names (h_readFile h p) \<and> keeps versions names (h_open h p) \<and>
        keeps versions names (h_create h p) \<and> keeps versions names (h_remove h p)) \<and>
     (\<forall>p b. keeps versions names (h_mkdir h p b)) \<and> (\<forall>k. keeps versions names (h_sleep h k)) \<and>
     (\<forall>c. keeps versions names (h_output h c) \<and> keeps versions names (h_spawn h c)) \<and>
     (\<forall>i. keeps versions names (h_status h i) \<and> keeps versions names (h_close h i) \<and>
        keeps versions names (h_fileSize h i) \<and> (\<forall>a b. keeps versions names (h_readAt h i a b))) \<and>
     keeps versions names (h_environ h) \<and> keeps versions names (h_cwd h) \<and> keeps versions names (h_now h)"

definition quiet_store :: "('st \<Rightarrow> string \<Rightarrow> json list) \<Rightarrow> string set \<Rightarrow> 'st store_ops \<Rightarrow> bool" where
  "quiet_store versions names ops \<longleftrightarrow> (\<forall>name v. keeps versions names (so_read ops name v)) \<and>
     (\<forall>spec name v. name \<notin> names \<longrightarrow> keeps versions names (so_write ops spec name v))"

definition quiet_artifacts :: "('st \<Rightarrow> string \<Rightarrow> json list) \<Rightarrow> string set \<Rightarrow> 'st artifact_ops \<Rightarrow> bool" where
  "quiet_artifacts versions names ao \<longleftrightarrow> quiet_store versions names (ao_store ao) \<and>
     (\<forall>spec name. name \<notin> names \<longrightarrow> (\<forall>i. keeps versions names (ao_stream ao spec name i)) \<and>
        (\<forall>t. keeps versions names (ao_text ao spec name t)))"

definition quiet_services :: "('st \<Rightarrow> string \<Rightarrow> json list) \<Rightarrow> string set \<Rightarrow> ('st, 'z) services_scheme \<Rightarrow> bool" where
  "quiet_services versions names sv \<longleftrightarrow> quiet_host versions names (sv_host sv) \<and>
     quiet_artifacts versions names (sv_artifacts sv)"

definition quiet_machine :: "('st \<Rightarrow> string \<Rightarrow> json list) \<Rightarrow> string set \<Rightarrow> ('st, 'z) machine_scheme \<Rightarrow> bool" where
  "quiet_machine versions names mc \<longleftrightarrow> quiet_services versions names mc \<and> keeps versions names (mc_hostname mc) \<and>
     (\<forall>a b. keeps versions names (mc_writeText mc a b) \<and> keeps versions names (mc_copyFile mc a b) \<and>
        keeps versions names (mc_symlink mc a b)) \<and> (\<forall>a. keeps versions names (mc_removeTree mc a))"

named_theorems quiet \<open>actions that leave the resources of the run alone\<close>

lemma quiet_parts [quiet]:
  "quiet_machine versions names mc \<Longrightarrow> quiet_services versions names mc"
  "quiet_services versions names sv \<Longrightarrow> quiet_host versions names (sv_host sv)"
  "quiet_services versions names sv \<Longrightarrow> quiet_artifacts versions names (sv_artifacts sv)"
  "quiet_artifacts versions names ao \<Longrightarrow> quiet_store versions names (ao_store ao)"
  by (simp_all add: quiet_machine_def quiet_services_def quiet_artifacts_def)

lemma quiet_host_ops [quiet]:
  assumes "quiet_host versions names h"
  shows "keeps versions names (h_realPath h p)" "keeps versions names (h_lstat h p)"
    "keeps versions names (h_stat h p)" "keeps versions names (h_readDir h p)"
    "keeps versions names (h_readFile h p)" "keeps versions names (h_open h p)"
    "keeps versions names (h_create h p)" "keeps versions names (h_remove h p)"
    "keeps versions names (h_mkdir h p b)" "keeps versions names (h_sleep h k)"
    "keeps versions names (h_output h c)" "keeps versions names (h_spawn h c)"
    "keeps versions names (h_status h i)" "keeps versions names (h_close h i)"
    "keeps versions names (h_fileSize h i)" "keeps versions names (h_readAt h i x y)"
    "keeps versions names (h_environ h)" "keeps versions names (h_cwd h)" "keeps versions names (h_now h)"
  using assms by (simp_all add: quiet_host_def)

lemma quiet_machine_ops [quiet]:
  assumes "quiet_machine versions names mc"
  shows "keeps versions names (mc_hostname mc)" "keeps versions names (mc_writeText mc a b)"
    "keeps versions names (mc_copyFile mc a b)" "keeps versions names (mc_symlink mc a b)"
    "keeps versions names (mc_removeTree mc a)"
  using assms by (simp_all add: quiet_machine_def)

lemma quiet_surroundings [quiet]: "quiet_services versions names sv \<Longrightarrow> surroundings_keep versions names sv"
  by (simp add: quiet_services_def quiet_host_def surroundings_keep_def Let_def)

lemma quiet_writes [quiet]:
  "quiet_store versions (run_names n) ops \<Longrightarrow> \<not> reserved (rev name) \<Longrightarrow>
     keeps versions (run_names n) (so_write ops spec name v)"
  "quiet_store versions (run_names n) ops \<Longrightarrow> keeps versions (run_names n) (so_read ops name k)"
  "quiet_artifacts versions (run_names n) ao \<Longrightarrow> \<not> reserved (rev name) \<Longrightarrow>
     keeps versions (run_names n) (ao_stream ao spec name i)"
  "quiet_artifacts versions (run_names n) ao \<Longrightarrow> \<not> reserved (rev name) \<Longrightarrow>
     keeps versions (run_names n) (ao_text ao spec name t)"
  unfolding quiet_store_def quiet_artifacts_def using run_names_reserved [of name n] by blast+

text \<open>The control structures.\<close>

lemma keeps_tryA: "keeps versions names m \<Longrightarrow> keeps versions names (tryA m)"
  by (auto simp: keeps_def tryA_def split: prod.splits) (metis snd_conv)

lemma keeps_whenA: "(c \<Longrightarrow> keeps versions names m) \<Longrightarrow> keeps versions names (whenA c m)"
  by (simp add: whenA_def keeps_thenA)

lemma keeps_finallyA: "keeps versions names m \<Longrightarrow> keeps versions names f \<Longrightarrow> keeps versions names (finallyA m f)"
  unfolding finallyA_def by (intro keeps_bindA keeps_tryA keeps_thenA keeps_liftA)

lemma keeps_absentA: "keeps versions names probe \<Longrightarrow> keeps versions names (absentA probe message)"
  unfolding absentA_def by (intro keeps_catchA keeps_thenA) simp_all

lemma keeps_cases:
  "(c \<Longrightarrow> keeps versions names a) \<Longrightarrow> (\<not> c \<Longrightarrow> keeps versions names b) \<Longrightarrow> keeps versions names (if c then a else b)"
  "(r = None \<Longrightarrow> keeps versions names a) \<Longrightarrow> (\<And>x. r = Some x \<Longrightarrow> keeps versions names (f x)) \<Longrightarrow>
     keeps versions names (case r of None \<Rightarrow> a | Some x \<Rightarrow> f x)"
  "(\<And>e. keeps versions names (g e)) \<Longrightarrow> (\<And>x. keeps versions names (f' x)) \<Longrightarrow>
     keeps versions names (case s of Inl e \<Rightarrow> g e | Inr x \<Rightarrow> f' x)"
  "(\<And>x y. keeps versions names (k x y)) \<Longrightarrow> keeps versions names (case p of (x, y) \<Rightarrow> k x y)"
  by (cases r; cases s; cases p; simp)+

lemmas [quiet] = keeps_bindA keeps_thenA keeps_catchA keeps_mapA keeps_forA keeps_tryA keeps_whenA keeps_finallyA
  keeps_absentA keeps_cases keeps_verifyParentEvidence

section \<open>Processes\<close>

lemma quiet_env_get [quiet]: "quiet_host versions (run_names n) h \<Longrightarrow>
    keeps versions (run_names n) (env_get h name)"
  by (auto simp: env_get_def Let_def not_reserved intro!: quiet)

lemma quiet_resolveA [quiet]: "quiet_host versions (run_names n) h \<Longrightarrow>
    keeps versions (run_names n) (resolveA h p)"
  by (auto simp: resolveA_def Let_def not_reserved intro!: quiet)

lemma quiet_real_parent [quiet]: "quiet_host versions (run_names n) h \<Longrightarrow>
    keeps versions (run_names n) (real_parent h p)"
  by (auto simp: real_parent_def Let_def not_reserved intro!: quiet)

lemma quiet_scopeDescription [quiet]: "quiet_host versions (run_names n) h \<Longrightarrow>
    keeps versions (run_names n) (scopeDescription h u)"
  by (auto simp: scopeDescription_def Let_def not_reserved intro!: quiet)

lemma quiet_stopProcessScope [quiet]: "quiet_host versions (run_names n) h \<Longrightarrow>
    keeps versions (run_names n) (stopProcessScope h i)"
  by (auto simp: stopProcessScope_def Let_def not_reserved intro!: quiet)

lemma quiet_create_logs [quiet]: "quiet_host versions (run_names n) h \<Longrightarrow>
    keeps versions (run_names n) (create_logs h out err)"
  by (auto simp: create_logs_def Let_def not_reserved intro!: quiet)

lemma quiet_wait_child [quiet]: "quiet_host versions (run_names n) h \<Longrightarrow>
    keeps versions (run_names n) (wait_child h child)"
  by (auto simp: wait_child_def Let_def not_reserved intro!: quiet)

lemma quiet_stop_child [quiet]: "quiet_host versions (run_names n) h \<Longrightarrow>
    keeps versions (run_names n) (stop_child h i child status error)"
  by (auto simp: stop_child_def Let_def not_reserved intro!: quiet)

lemma quiet_check_started [quiet]: "quiet_host versions (run_names n) h \<Longrightarrow>
    keeps versions (run_names n) (check_started h started error)"
  by (auto simp: check_started_def Let_def not_reserved intro!: quiet)

lemma quiet_runCommand [quiet]: "quiet_host versions (run_names n) h \<Longrightarrow>
    keeps versions (run_names n) (runCommand h spec)"
  by (auto simp: runCommand_def Let_def not_reserved intro!: quiet)

lemma quiet_stopRepl [quiet]: "quiet_host versions (run_names n) h \<Longrightarrow>
    keeps versions (run_names n) (stopRepl h r w)"
  by (auto simp: stopRepl_def Let_def not_reserved intro!: quiet)

lemma quiet_probe_repl [quiet]: "quiet_host versions (run_names n) h \<Longrightarrow>
    keeps versions (run_names n) (probe_repl h w)"
  by (auto simp: probe_repl_def Let_def not_reserved intro!: quiet)

lemma quiet_await_repl [quiet]: "quiet_host versions (run_names n) h \<Longrightarrow> keeps versions (run_names n) (await_repl h w attempts)"
  by (induction attempts) (auto intro!: quiet)

lemma quiet_startRepl [quiet]: "quiet_host versions (run_names n) h \<Longrightarrow>
    keeps versions (run_names n) (startRepl h r w)"
  by (auto simp: startRepl_def Let_def not_reserved intro!: quiet)

section \<open>Archives, tests and the worktree\<close>

lemma quiet_archiveFile [quiet]: "quiet_host versions (run_names n) h \<Longrightarrow> quiet_artifacts versions (run_names n) ao \<Longrightarrow> \<not> reserved (rev name) \<Longrightarrow>
    keeps versions (run_names n) (archiveFile h ao spec name path allowMissing)"
  by (auto simp: archiveFile_def Let_def not_reserved intro!: quiet)

lemma quiet_archiveLogs [quiet]: "quiet_host versions (run_names n) h \<Longrightarrow> quiet_artifacts versions (run_names n) ao \<Longrightarrow>
    keeps versions (run_names n) (archiveLogs h ao spec prefix out err allowMissing)"
  by (auto simp: archiveLogs_def not_reserved intro!: quiet)

lemma keeps_archive_entries [quiet]: "(\<And>e a. keeps versions names (f e a)) \<Longrightarrow> keeps versions names (archive_entries f es acc)"
  by (induction es arbitrary: acc) (auto intro!: quiet)

lemma quiet_visit_archive [quiet]: "quiet_host versions (run_names n) h \<Longrightarrow> quiet_artifacts versions (run_names n) ao \<Longrightarrow>
    keeps versions (run_names n) (visit_archive h ao spec prefix depth path rel acc)"
  by (induction depth arbitrary: path rel acc) (auto simp: Let_def not_reserved intro!: quiet)

lemma quiet_archiveDirectory [quiet]: "quiet_host versions (run_names n) h \<Longrightarrow> quiet_artifacts versions (run_names n) ao \<Longrightarrow>
    keeps versions (run_names n) (archiveDirectory h ao spec prefix directory)"
  by (auto simp: archiveDirectory_def Let_def not_reserved intro!: quiet)

lemma quiet_logExcerpt [quiet]: "quiet_host versions (run_names n) h \<Longrightarrow>
    keeps versions (run_names n) (logExcerpt h path)"
  by (auto simp: logExcerpt_def Let_def not_reserved intro!: quiet)

lemma quiet_git [quiet]: "quiet_host versions (run_names n) h \<Longrightarrow>
    keeps versions (run_names n) (git h cwd args)"
  by (auto simp: git_def Let_def not_reserved intro!: quiet)

lemma quiet_verify_worktree [quiet]: "quiet_host versions (run_names n) h \<Longrightarrow>
    keeps versions (run_names n) (verify_worktree h w)"
  by (auto simp: verify_worktree_def Let_def not_reserved intro!: quiet)

lemma quiet_worktree_status [quiet]: "quiet_host versions (run_names n) h \<Longrightarrow>
    keeps versions (run_names n) (worktree_status h path)"
  by (auto simp: worktree_status_def Let_def not_reserved intro!: quiet)

lemma quiet_createWorkspace [quiet]: "quiet_host versions (run_names n) h \<Longrightarrow>
    keeps versions (run_names n) (createWorkspace h repository runId requested)"
  by (auto simp: createWorkspace_def Let_def not_reserved intro!: quiet)

lemma quiet_inspectCheckout [quiet]: "quiet_host versions (run_names n) h \<Longrightarrow>
    keeps versions (run_names n) (inspectCheckout h repository)"
  by (auto simp: inspectCheckout_def Let_def not_reserved intro!: quiet)

lemma quiet_verifyWorkspaceRevision [quiet]: "quiet_host versions (run_names n) h \<Longrightarrow>
    keeps versions (run_names n) (verifyWorkspaceRevision h w expected)"
  by (auto simp: verifyWorkspaceRevision_def Let_def not_reserved intro!: quiet)

lemma quiet_snapshotWorkspace [quiet]: "quiet_host versions (run_names n) h \<Longrightarrow>
    keeps versions (run_names n) (snapshotWorkspace h w name)"
  by (auto simp: snapshotWorkspace_def Let_def not_reserved intro!: quiet)

lemma quiet_selectWorkspaceRevision [quiet]: "quiet_host versions (run_names n) h \<Longrightarrow>
    keeps versions (run_names n) (selectWorkspaceRevision h w commit)"
  by (auto simp: selectWorkspaceRevision_def Let_def not_reserved intro!: quiet)

lemma quiet_markBestRevision [quiet]: "quiet_host versions (run_names n) h \<Longrightarrow>
    keeps versions (run_names n) (markBestRevision h w commit)"
  by (auto simp: markBestRevision_def Let_def not_reserved intro!: quiet)

lemma quiet_check_test_step [quiet]: "quiet_host versions (run_names n) h \<Longrightarrow>
    keeps versions (run_names n) (check_test_step h s w directory)"
  by (auto simp: check_test_step_def Let_def not_reserved intro!: quiet)

lemma quiet_run_tests [quiet]: "quiet_host versions (run_names n) h \<Longrightarrow>
    keeps versions (run_names n) (run_tests h s w spec)"
  by (auto simp: run_tests_def Let_def not_reserved intro!: quiet)

lemma quiet_runTestEffect [quiet]: "quiet_host versions (run_names n) h \<Longrightarrow> quiet_artifacts versions (run_names n) ao \<Longrightarrow>
    keeps versions (run_names n) (runTestEffect h ao s w directory)"
  by (auto simp: runTestEffect_def test_command_def Let_def not_reserved intro!: quiet)

section \<open>Saved records\<close>

lemma quiet_saveInference [quiet]: "quiet_store versions (run_names n) ops \<Longrightarrow>
    keeps versions (run_names n) (saveInference ops jparse c raw exitCode failure)"
  by (auto simp: saveInference_def inference_name_def Let_def not_reserved intro!: quiet)

lemma quiet_readInference [quiet]: "quiet_store versions (run_names n) ops \<Longrightarrow>
    keeps versions (run_names n) (readInference ops reference expected)"
  by (auto simp: readInference_def Let_def not_reserved intro!: quiet)

lemma quiet_readInferenceEffect [quiet]: "quiet_store versions (run_names n) ops \<Longrightarrow>
    keeps versions (run_names n) (readInferenceEffect ops s c reference edited)"
  by (auto simp: readInferenceEffect_def Let_def not_reserved intro!: quiet)

lemma quiet_read_records [quiet]: "quiet_store versions (run_names n) ops \<Longrightarrow>
    keeps versions (run_names n) (read_records ops m runId revision precision refs)"
  by (induction refs) (auto intro!: quiet)

lemma quiet_readMeasurement [quiet]: "quiet_store versions (run_names n) ops \<Longrightarrow>
    keeps versions (run_names n) (readMeasurement ops m numstr runId revision refs precision)"
  by (auto simp: readMeasurement_def Let_def not_reserved intro!: quiet)

lemma keeps_parent_or [quiet]: "keeps versions names m \<Longrightarrow> keeps versions names (parent_or p m)"
  by (auto simp: parent_or_def intro!: quiet)

lemma quiet_assess_saved [quiet]: "quiet_store versions (run_names n) ops \<Longrightarrow>
    keeps versions (run_names n) (assess_saved ops m numstr s g protections refs fraction precision initial best)"
  by (auto simp: assess_saved_def Let_def not_reserved intro!: quiet)

lemma quiet_compareSavedMeasurements [quiet]: "quiet_store versions (run_names n) ops \<Longrightarrow>
    keeps versions (run_names n) (compareSavedMeasurements ops m numstr s g protections refs fraction precision parent)"
  by (auto simp: compareSavedMeasurements_def comparison_name_def Let_def not_reserved intro!: quiet)

lemma quiet_stepResource [quiet]: "quiet_store versions (run_names n) ops \<Longrightarrow>
    keeps versions (run_names n) (stepResource ops s p)"
  by (auto simp: stepResource_def Let_def not_reserved intro!: quiet)

lemma quiet_measurementReferences [quiet]: "quiet_store versions (run_names n) ops \<Longrightarrow>
    keeps versions (run_names n) (measurementReferences ops s p)"
  by (auto simp: measurementReferences_def Let_def not_reserved intro!: quiet)

section \<open>Benchmarks\<close>

lemma quiet_hostFile [quiet]: "quiet_host versions (run_names n) h \<Longrightarrow>
    keeps versions (run_names n) (hostFile h path)"
  by (auto simp: hostFile_def Let_def not_reserved intro!: quiet)

lemma quiet_read_cpu [quiet]: "quiet_host versions (run_names n) h \<Longrightarrow>
    keeps versions (run_names n) (read_cpu h cpu)"
  by (auto simp: read_cpu_def Let_def not_reserved intro!: quiet)

lemma quiet_placementEnvironment [quiet]: "quiet_machine versions (run_names n) mc \<Longrightarrow>
    keeps versions (run_names n) (placementEnvironment mc directory)"
  by (auto simp: placementEnvironment_def Let_def not_reserved intro!: quiet)

lemma quiet_check_server [quiet]: "quiet_services versions (run_names n) sv \<Longrightarrow>
    keeps versions (run_names n) (check_server sv sample phase)"
  by (auto simp: check_server_def Let_def not_reserved intro!: quiet)

lemma quiet_validatePlacementEvidence [quiet]: "quiet_services versions (run_names n) sv \<Longrightarrow>
    keeps versions (run_names n) (validatePlacementEvidence sv directory samples warmup duration rl)"
  by (auto simp: validatePlacementEvidence_def Let_def not_reserved intro!: quiet)

lemma quiet_hashFile [quiet]: "quiet_services versions (run_names n) sv \<Longrightarrow>
    keeps versions (run_names n) (hashFile sv path)"
  by (auto simp: hashFile_def Let_def not_reserved intro!: quiet)

lemma quiet_exact_directory [quiet]: "quiet_host versions (run_names n) h \<Longrightarrow>
    keeps versions (run_names n) (exact_directory h directory message)"
  by (auto simp: exact_directory_def Let_def not_reserved intro!: quiet)

lemma quiet_prepare_benchmark [quiet]: "quiet_machine versions (run_names n) mc \<Longrightarrow>
    keeps versions (run_names n) (prepare_benchmark mc q)"
  by (auto simp: prepare_benchmark_def Let_def not_reserved intro!: quiet)

lemma quiet_visit_output [quiet]: "quiet_services versions (run_names n) sv \<Longrightarrow>
    keeps versions (run_names n) (visit_output sv prefix batch depth path rel acc)"
  by (induction depth arbitrary: path rel acc) (auto simp: Let_def not_reserved intro!: quiet)

lemma quiet_run_command_of [quiet]: "quiet_services versions (run_names n) sv \<Longrightarrow>
    keeps versions (run_names n) (run_command_of sv spec s)"
  by (auto simp: run_command_of_def Let_def not_reserved intro!: quiet)

lemma quiet_archive_logs_of [quiet]: "quiet_services versions (run_names n) sv \<Longrightarrow>
    keeps versions (run_names n) (archive_logs_of sv spec s)"
  by (auto simp: archive_logs_of_def Let_def not_reserved intro!: quiet)

lemma quiet_archive_output_of [quiet]: "quiet_services versions (run_names n) sv \<Longrightarrow>
    keeps versions (run_names n) (archive_output_of sv prefix batch output s)"
  by (auto simp: archive_output_of_def Let_def not_reserved intro!: quiet)

lemma quiet_attempt_batch [quiet]: "quiet_services versions (run_names n) sv \<Longrightarrow>
    keeps versions (run_names n) (attempt_batch sv q ck pd batch s)"
  by (auto simp: attempt_batch_def Let_def not_reserved intro!: quiet)

lemma quiet_check_batch [quiet]: "quiet_machine versions (run_names n) mc \<Longrightarrow>
    keeps versions (run_names n) (check_batch mc q ck expected pd batch s)"
  by (auto simp: check_batch_def Let_def not_reserved intro!: quiet)

lemma quiet_measure_batch [quiet]: "quiet_machine versions (run_names n) mc \<Longrightarrow>
    keeps versions (run_names n) (measure_batch mc q ck expected pd batch s)"
  by (auto simp: measure_batch_def Let_def not_reserved intro!: quiet)

lemma quiet_past_deadline [quiet]: "quiet_host versions (run_names n) h \<Longrightarrow>
    keeps versions (run_names n) (past_deadline h deadline)"
  by (auto simp: past_deadline_def Let_def not_reserved intro!: quiet)

lemma quiet_short_of_time [quiet]: "quiet_host versions (run_names n) h \<Longrightarrow>
    keeps versions (run_names n) (short_of_time h q batch)"
  by (auto simp: short_of_time_def Let_def not_reserved intro!: quiet)

lemma quiet_after_batch [quiet]: "quiet_host versions (run_names n) h \<Longrightarrow>
    keeps versions (run_names n) (after_batch h q batch s)"
  by (auto simp: after_batch_def Let_def not_reserved intro!: quiet)

lemma quiet_run_batch [quiet]: "quiet_machine versions (run_names n) mc \<Longrightarrow>
    keeps versions (run_names n) (run_batch mc q ck expected pd batch s)"
  by (auto simp: run_batch_def Let_def not_reserved intro!: quiet)

lemma quiet_run_batches [quiet]: "quiet_machine versions (run_names n) mc \<Longrightarrow>
    keeps versions (run_names n) (run_batches mc q ck expected pd batches s)"
  by (induction batches arbitrary: s) (auto intro!: quiet)

lemma quiet_finish_benchmark [quiet]: "quiet_machine versions (run_names n) mc \<Longrightarrow>
    keeps versions (run_names n) (finish_benchmark mc q ck expected pd s)"
  by (auto simp: finish_benchmark_def Let_def not_reserved intro!: quiet)

lemma quiet_runBenchmark [quiet]: "quiet_machine versions (run_names n) mc \<Longrightarrow>
    keeps versions (run_names n) (runBenchmark mc inp)"
  by (auto simp: runBenchmark_def Let_def not_reserved intro!: quiet)

section \<open>Profiles\<close>

lemma quiet_check_profile_request [quiet]: "quiet_machine versions (run_names n) mc \<Longrightarrow>
    keeps versions (run_names n) (check_profile_request mc q)"
  by (auto simp: check_profile_request_def Let_def not_reserved intro!: quiet)

lemma quiet_write_collector [quiet]: "quiet_machine versions (run_names n) mc \<Longrightarrow>
    keeps versions (run_names n) (write_collector mc q native)"
  by (auto simp: write_collector_def Let_def not_reserved intro!: quiet)

lemma quiet_read_json [quiet]: "quiet_services versions (run_names n) sv \<Longrightarrow>
    keeps versions (run_names n) (read_json sv directory name)"
  by (auto simp: read_json_def Let_def not_reserved intro!: quiet)

lemma quiet_read_recording [quiet]: "quiet_services versions (run_names n) sv \<Longrightarrow>
    keeps versions (run_names n) (read_recording sv q)"
  by (auto simp: read_recording_def Let_def not_reserved intro!: quiet)

lemma quiet_check_recording [quiet]: "quiet_machine versions (run_names n) mc \<Longrightarrow>
    keeps versions (run_names n) (check_recording mc q ck sha native pd ex error)"
  by (auto simp: check_recording_def Let_def not_reserved intro!: quiet)

lemma quiet_finish_profile [quiet]: "quiet_machine versions (run_names n) mc \<Longrightarrow>
    keeps versions (run_names n) (finish_profile mc q ck sha native pd r)"
  by (auto simp: finish_profile_def Let_def not_reserved intro!: quiet)

lemma quiet_runProfile [quiet]: "quiet_machine versions (run_names n) mc \<Longrightarrow>
    keeps versions (run_names n) (runProfile mc inp)"
  by (auto simp: runProfile_def Let_def not_reserved intro!: quiet)

section \<open>Inference\<close>

lemma quiet_real_or_missing [quiet]: "quiet_host versions (run_names n) h \<Longrightarrow>
    keeps versions (run_names n) (real_or_missing h path)"
  by (auto simp: real_or_missing_def Let_def not_reserved intro!: quiet)

lemma quiet_check_pi_paths [quiet]: "quiet_host versions (run_names n) h \<Longrightarrow>
    keeps versions (run_names n) (check_pi_paths h q)"
  by (auto simp: check_pi_paths_def Let_def not_reserved intro!: quiet)

lemma quiet_read_input [quiet]: "quiet_services versions (run_names n) sv \<Longrightarrow>
    keeps versions (run_names n) (read_input sv runId r)"
  by (auto simp: read_input_def Let_def not_reserved intro!: quiet)

lemma quiet_pi_git [quiet]: "quiet_host versions (run_names n) h \<Longrightarrow>
    keeps versions (run_names n) (pi_git h workspace args)"
  by (auto simp: pi_git_def Let_def not_reserved intro!: quiet)

lemma quiet_read_diff [quiet]: "quiet_services versions (run_names n) sv \<Longrightarrow>
    keeps versions (run_names n) (read_diff sv workspace base revision)"
  by (auto simp: read_diff_def Let_def not_reserved intro!: quiet)

lemma quiet_review_diff_of [quiet]: "quiet_services versions (run_names n) sv \<Longrightarrow>
    keeps versions (run_names n) (review_diff_of sv q workspace c)"
  by (auto simp: review_diff_of_def Let_def not_reserved intro!: quiet)

lemma quiet_make_directories [quiet]: "quiet_machine versions (run_names n) mc \<Longrightarrow>
    keeps versions (run_names n) (make_directories mc q)"
  by (auto simp: make_directories_def Let_def not_reserved intro!: quiet)

lemma quiet_copy_prompt [quiet]: "quiet_machine versions (run_names n) mc \<Longrightarrow>
    keeps versions (run_names n) (copy_prompt mc q c p)"
  by (auto simp: copy_prompt_def Let_def not_reserved intro!: quiet)

lemma quiet_copy_prompts [quiet]: "quiet_machine versions (run_names n) mc \<Longrightarrow>
    keeps versions (run_names n) (copy_prompts mc q c)"
  by (auto simp: copy_prompts_def Let_def not_reserved intro!: quiet)

lemma quiet_add_diff [quiet]: "quiet_machine versions (run_names n) mc \<Longrightarrow>
    keeps versions (run_names n) (add_diff mc q c inputs diff)"
  by (auto simp: add_diff_def Let_def not_reserved intro!: quiet)

lemma quiet_link_credentials [quiet]: "quiet_machine versions (run_names n) mc \<Longrightarrow>
    keeps versions (run_names n) (link_credentials mc q)"
  by (auto simp: link_credentials_def Let_def not_reserved intro!: quiet)

lemma quiet_write_inputs [quiet]: "quiet_machine versions (run_names n) mc \<Longrightarrow>
    keeps versions (run_names n) (write_inputs mc q workspace roots c inputs diff)"
  by (auto simp: write_inputs_def Let_def not_reserved intro!: quiet)

lemma quiet_preparePiStep [quiet]: "quiet_machine versions (run_names n) mc \<Longrightarrow>
    keeps versions (run_names n) (preparePiStep mc q)"
  by (auto simp: preparePiStep_def Let_def not_reserved intro!: quiet)

lemma quiet_read_stream [quiet]: "quiet_services versions (run_names n) sv \<Longrightarrow>
    keeps versions (run_names n) (read_stream sv pv ex)"
  by (auto simp: read_stream_def Let_def not_reserved intro!: quiet)

lemma quiet_finishPiStep [quiet]: "quiet_services versions (run_names n) sv \<Longrightarrow>
    keeps versions (run_names n) (finishPiStep sv pv ex)"
  by (auto simp: finishPiStep_def Let_def not_reserved intro!: quiet)

lemma quiet_runPiStep [quiet]: "quiet_machine versions (run_names n) mc \<Longrightarrow>
    keeps versions (run_names n) (runPiStep mc q)"
  by (auto simp: runPiStep_def Let_def not_reserved intro!: quiet)

lemma quiet_edited_revision [quiet]: "(\<And>save. saveChanges = Some save \<Longrightarrow> keeps versions (run_names n) save) \<Longrightarrow>
    keeps versions (run_names n) (edited_revision stage saveChanges)"
  by (auto simp: edited_revision_def Let_def not_reserved intro!: quiet)

lemma quiet_settle_pi [quiet]: "quiet_services versions (run_names n) sv \<Longrightarrow> (\<And>save. saveChanges = Some save \<Longrightarrow> keeps versions (run_names n) save) \<Longrightarrow>
    keeps versions (run_names n) (settle_pi sv s stage saveChanges w)"
  by (auto simp: settle_pi_def Let_def not_reserved intro!: quiet)

lemma quiet_runPiEffect [quiet]: "quiet_machine versions (run_names n) mc \<Longrightarrow> (\<And>save. saveChanges = Some save \<Longrightarrow> keeps versions (run_names n) save) \<Longrightarrow>
    keeps versions (run_names n) (runPiEffect mc s q saveChanges)"
  by (auto simp: runPiEffect_def Let_def not_reserved intro!: quiet)

section \<open>The live steps\<close>

lemma quiet_detail [quiet]: "quiet_store versions (run_names n) ops \<Longrightarrow> \<not> reserved (rev (detail_name s kind)) \<Longrightarrow>
    keeps versions (run_names n) (detail ops s kind props)"
  by (auto simp: detail_def Let_def not_reserved intro!: quiet)

lemma quiet_load_workspace [quiet]: "quiet_store versions (run_names n) ops \<Longrightarrow>
    keeps versions (run_names n) (load_workspace ops s)"
  by (auto simp: load_workspace_def Let_def not_reserved intro!: quiet)

lemma quiet_outcome_cases [quiet]:
  assumes "\<And>r b. keeps versions names (f r b)" "\<And>r b. keeps versions names (g r b)" "keeps versions names m"
  shows "keeps versions names (case x of Tested r True \<Rightarrow> f r True | Tested r False \<Rightarrow> g r False | _ \<Rightarrow> m)"
  using assms by (simp split: outcome.split bool.split)

lemma quiet_prepare_step [quiet]: "quiet_services versions (run_names n) sv \<Longrightarrow>
    keeps versions (run_names n) (prepare_step sv s config)"
  by (auto simp: prepare_step_def workspace_name_def Let_def not_reserved intro!: quiet)

lemma quiet_stop_step_scope [quiet]: "quiet_services versions (run_names n) sv \<Longrightarrow>
    keeps versions (run_names n) (stop_step_scope sv s p)"
  by (auto simp: stop_step_scope_def Let_def not_reserved intro!: quiet)

lemma quiet_stop_scope [quiet]: "quiet_host versions (run_names n) h \<Longrightarrow>
    keeps versions (run_names n) (stop_scope h i)"
  by (auto simp: stop_scope_def Let_def not_reserved intro!: quiet)

lemma quiet_restore_best [quiet]: "quiet_host versions (run_names n) h \<Longrightarrow>
    keeps versions (run_names n) (restore_best h s ws)"
  by (auto simp: restore_best_def Let_def not_reserved intro!: quiet)

lemma quiet_finish_step [quiet]: "quiet_services versions (run_names n) sv \<Longrightarrow>
    keeps versions (run_names n) (finish_step sv s ws)"
  by (auto simp: finish_step_def detail_name_def Let_def not_reserved intro!: quiet)

lemma quiet_build_step [quiet]: "quiet_services versions (run_names n) sv \<Longrightarrow>
    keeps versions (run_names n) (build_step sv s w directory)"
  by (auto simp: build_step_def detail_name_def Let_def not_reserved intro!: quiet)

lemma quiet_test_step [quiet]: "quiet_services versions (run_names n) sv \<Longrightarrow>
    keeps versions (run_names n) (test_step sv s w directory)"
  by (auto simp: test_step_def Let_def not_reserved intro!: quiet)

lemma quiet_profile_step [quiet]: "quiet_machine versions (run_names n) mc \<Longrightarrow>
    keeps versions (run_names n) (profile_step mc s config w)"
  by (auto simp: profile_step_def Let_def not_reserved intro!: quiet)

lemma quiet_measure_cell [quiet]: "quiet_machine versions (run_names n) mc \<Longrightarrow>
    keeps versions (run_names n) (measure_cell mc s config w cell)"
  by (auto simp: measure_cell_def Let_def not_reserved intro!: quiet)

lemma quiet_measure_cells [quiet]: "quiet_machine versions (run_names n) mc \<Longrightarrow>
    keeps versions (run_names n) (measure_cells mc s config w cells current)"
  by (induction cells arbitrary: current) (auto simp: Let_def intro!: quiet)

lemma quiet_parent_of [quiet]: "quiet_services versions (run_names n) sv \<Longrightarrow>
    keeps versions (run_names n) (parent_of sv config)"
  by (auto simp: parent_of_def Let_def not_reserved intro!: quiet)

lemma quiet_initial_refs [quiet]: "quiet_store versions (run_names n) ops \<Longrightarrow>
    keeps versions (run_names n) (initial_refs ops s parent current)"
  by (auto simp: initial_refs_def Let_def not_reserved intro!: quiet)

lemma quiet_fresh_best [quiet]: "quiet_store versions (run_names n) ops \<Longrightarrow>
    keeps versions (run_names n) (fresh_best ops s parent)"
  by (auto simp: fresh_best_def Let_def not_reserved intro!: quiet)

lemma quiet_requalify [quiet]: "quiet_services versions (run_names n) sv \<Longrightarrow>
    keeps versions (run_names n) (requalify sv s config fresh)"
  by (auto simp: requalify_def Let_def not_reserved intro!: quiet)

lemma quiet_best_refs [quiet]: "quiet_store versions (run_names n) ops \<Longrightarrow>
    keeps versions (run_names n) (best_refs ops s parent initial fresh useFresh)"
  by (auto simp: best_refs_def intro!: quiet split: option.split bool.split)

lemma quiet_compare_step [quiet]: "quiet_services versions (run_names n) sv \<Longrightarrow>
    keeps versions (run_names n) (compare_step sv s config current)"
  by (auto simp: compare_step_def Let_def not_reserved intro!: quiet)

lemma quiet_measure_step [quiet]: "quiet_machine versions (run_names n) mc \<Longrightarrow>
    keeps versions (run_names n) (measure_step mc s config w)"
  by (auto simp: measure_step_def Let_def not_reserved intro!: quiet)

lemma quiet_keep_step [quiet]: "quiet_services versions (run_names n) sv \<Longrightarrow>
    keeps versions (run_names n) (keep_step sv s w)"
  by (auto simp: keep_step_def detail_name_def Let_def not_reserved intro!: quiet)

lemma quiet_discard_step [quiet]: "quiet_services versions (run_names n) sv \<Longrightarrow>
    keeps versions (run_names n) (discard_step sv s w)"
  by (auto simp: discard_step_def detail_name_def Let_def not_reserved intro!: quiet)

lemma quiet_history_entry [quiet]: "quiet_store versions (run_names n) ops \<Longrightarrow>
    keeps versions (run_names n) (history_entry ops s step)"
  by (auto simp: history_entry_def Let_def not_reserved intro!: quiet)

lemma quiet_handoff [quiet]: "quiet_store versions (run_names n) ops \<Longrightarrow>
    keeps versions (run_names n) (handoff ops s config)"
  by (auto simp: handoff_def detail_name_def Let_def not_reserved intro!: quiet)

lemma quiet_inference_inputs [quiet]: "quiet_store versions (run_names n) ops \<Longrightarrow>
    keeps versions (run_names n) (inference_inputs ops s config)"
  by (auto simp: inference_inputs_def Let_def not_reserved intro!: quiet)

lemma quiet_inference_step [quiet]: "quiet_machine versions (run_names n) mc \<Longrightarrow>
    keeps versions (run_names n) (inference_step mc s config w)"
  by (auto simp: inference_step_def Let_def not_reserved intro!: quiet)

lemma quiet_worktree_step [quiet]: "quiet_machine versions (run_names n) mc \<Longrightarrow>
    keeps versions (run_names n) (worktree_step mc s config w)"
  by (auto simp: worktree_step_def Let_def not_reserved intro!: quiet)

lemma quiet_performLiveStep [quiet]: "quiet_machine versions (run_names n) mc \<Longrightarrow>
    keeps versions (run_names n) (performLiveStep mc s config)"
  by (auto simp: performLiveStep_def Let_def not_reserved intro!: quiet)

end
