(* ===== verification/Live_Run.thy ===== *)
theory Live_Run
  imports Live_Quiet Methods
begin

text \<open>
  A resumed run with its real effects: the loop of \<^verbatim>\<open>executeRun\<close> around \<^verbatim>\<open>performLiveStep\<close>, called by the
  \<^verbatim>\<open>resume\<close> method of \<^verbatim>\<open>tempo.ts\<close>, comes to its end.
\<close>

section \<open>A resumed run ends\<close>

text \<open>
  C6: The resume method comes to its end, with the effects the steps of a run really have: their
  builds, tests, benchmarks, profiles, inference processes and Git commands may each fail or succeed.
  When the configuration and the state of the run can be read, the support code stays as it is, the
  clock answers, and files and programs do not write the records of the run themselves, the method
  reaches the final state over a run of the state machine, which is the saved state, and writes the
  report; or the last step, the cleanup, failed and the method says so.
\<close>

theorem resumed_run_ends:
  fixes mc :: "(mem_store \<times> 'w, 'z) machine_scheme"
  assumes "resumeSchema inp = Some n" "resume_state mc n st = (Inr (config, s), st0)" "sv_store mc = world_ops"
    and quiet: "quiet_machine fst (run_names n) mc"
    and check: "\<And>st. \<exists>st'. checkRunSupport mc config st = (Inr (), st')"
    and clock: "\<And>st. \<exists>now st'. h_now (sv_host mc) st = (Inr now, st') \<and> now \<le> max_safe_integer"
    and free: "steps_free (fst st) n (st_sequence s)"
    and room: "st_sequence s + int (run_fuel (ra_limits (rc_arguments config))) \<le> max_safe_integer"
  shows "(\<exists>tr s' latest st1. run_trace (ra_limits (rc_arguments config)) s tr s' \<and> st_phase s' = PDone \<and>
      saved_state (fst st1) n s' \<and>
      resume_method mc inp st = bindA (report_run mc config n s') (\<lambda>report.
        returnA (Some (last_handles (latest @ [report])))) st1) \<or>
    (\<exists>st1. resume_method mc inp st = (Inl cleanup_failed, st1))"
proof -
  have call: "resume_method mc inp st = bindA (executeRun mc n (performLiveStep mc))
      (\<lambda>finished. returnA (map_option xr_handles finished)) st"
    using assms(1) by (simp add: resume_method_def zparse_def bindA_def)
  have keep: "surroundings_keep fst (run_names n) mc" "\<And>a. keeps fst (run_names n) (performLiveStep mc a config)"
    using quiet by (simp_all add: quiet_parts quiet_surroundings quiet_performLiveStep)
  show ?thesis
    using run_ends [where perform = "performLiveStep mc", OF assms(2,3) keep check clock free room] unfolding call by (fastforce simp: bindA_def split: prod.splits sum.splits)
qed

section \<open>A concrete run\<close>

text \<open>The host of \<open>still_services\<close>, with the parts of the machine the live steps use: every step they try fails.\<close>

definition still_machine :: "(mem_store \<times> unit) machine" where
  "still_machine = \<lparr>sv_host = still_host,
     sv_artifacts = \<lparr>ao_store = world_ops, ao_stream = \<lambda>_ _ _. throwA (Thrown ''absent''),
       ao_text = \<lambda>_ _ _. throwA (Thrown ''absent'')\<rparr>,
     sv_crypto = reviewed_crypto, sv_math = sample_math, sv_numstr = \<lambda>_. ''0'', sv_utf8 = Some,
     sv_json = \<lambda>_. Inl (Thrown ''absent''), sv_url = Some, mc_os = ''linux'', mc_arch = ''x86_64'', mc_hostname = returnA ''host'',
     mc_wrapper = ''/s/wrapper'', mc_fileURL = \<lambda>p. p, mc_number = \<lambda>_. NaN, mc_writeText = \<lambda>_ _. returnA (),
     mc_copyFile = \<lambda>_ _. returnA (), mc_symlink = \<lambda>_ _. returnA (), mc_removeTree = \<lambda>_. returnA ()\<rparr>"

lemma still_machine_simps [simp]:
  "sv_host still_machine = still_host" "sv_crypto still_machine = reviewed_crypto" "sv_store still_machine = world_ops"
  by (simp_all add: still_machine_def)

lemma keeps_world_ops: "name \<notin> names \<Longrightarrow> keeps fst names (so_write world_ops spec name v)"
  "keeps fst names (so_read world_ops name k)"
proof -
  show "keeps fst names (so_write world_ops spec name v)" if "name \<notin> names"
    unfolding keeps_def
  proof (intro allI ballI)
    fix st :: "mem_store \<times> 'w" and y assume "y \<in> names"
    then show "fst (snd (so_write world_ops spec name v st)) y = fst st y"
      using that world.write_appends [of spec name v st] world.write_fails [of spec name v st]
      by (cases "so_write world_ops spec name v st"; cases "fst (so_write world_ops spec name v st)") auto
  qed
  show "keeps fst names (so_read world_ops name k)"
    by (simp add: keeps_def world.read_eq)
qed

lemma still_quiet: "quiet_machine fst (run_names n) still_machine"
proof -
  have "quiet_host fst (run_names n) (still_host :: (mem_store \<times> unit) host)"
    by (simp add: quiet_host_def still_host_def bare_host_def)
  then show ?thesis
    by (simp add: quiet_machine_def quiet_services_def quiet_artifacts_def quiet_store_def keeps_world_ops still_machine_def)
qed

theorem resumed_run_ends_witness:
  "(\<exists>tr s'. run_trace (ra_limits concrete_arguments) still_start tr s' \<and> st_phase s' = PDone) \<or>
     (\<exists>st1. resume_method still_machine (JObj [(''runId'', JStr ''run-1''), (''confirmLive'', JBool True)])
        (still_store, ()) = (Inl cleanup_failed, st1))"
proof -
  have "resumeSchema (JObj [(''runId'', JStr ''run-1''), (''confirmLive'', JBool True)]) = Some ''run-1''" by code_simp
  moreover have "steps_free (fst (still_store, ())) ''run-1'' (st_sequence still_start)"
    by (simp add: steps_free_def still_store_def step_name_def state_name_def config_name_def)
  moreover have "st_sequence still_start + int (run_fuel (ra_limits (rc_arguments still_config))) \<le> max_safe_integer"
    by (simp add: still_start_def run_fuel_def still_config_def concrete_arguments_def max_safe_integer_def)
  ultimately show ?thesis
    using resumed_run_ends [OF _ still_resumed [OF still_machine_simps] still_machine_simps(3) still_quiet]
      still_check_on [OF still_machine_simps(1,2)]
    by (fastforce simp: still_config_def max_safe_integer_def)
qed

end
