(* ===== verification/Restricted_Tools.thy ===== *)
theory Restricted_Tools
  imports Host Pi_Events
begin

text \<open>
  \<^verbatim>\<open>swamp/pi/restricted-tools.js\<close>: the tools an inference process gets. Every file tool asks the guard
  for the path first; the REPL tool runs \<^verbatim>\<open>brepl\<close> in the worktree for the editing stages. The tools of
  the agent library, the child process and the policy flag are operations of the surroundings.
\<close>

section \<open>The surroundings\<close>

text \<open>
  \<open>tl_execute name id params\<close> is \<^verbatim>\<open>execute\<close> of the library's tool, \<open>tl_stat path\<close> says whether the path
  is a regular file, and \<open>tl_brepl cwd form\<close> is the child process up to its \<^verbatim>\<open>close\<close> event: all it
  wrote, its exit code and the signal that ended it. \<open>Inl\<close> is its \<^verbatim>\<open>error\<close> event.
\<close>

record child_end =
  ce_output :: string
  ce_code :: "int option"
  ce_signal :: "string option"

record 'st tool_host =
  tl_execute :: "string \<Rightarrow> string \<Rightarrow> (string \<times> json) list \<Rightarrow> ('st, json) action"
  tl_stat :: "string \<Rightarrow> ('st, bool) action"
  tl_brepl :: "string \<Rightarrow> string \<Rightarrow> ('st, child_end) action"
  tl_lstat :: "string \<Rightarrow> lstat"
  tl_loadPolicy :: "string \<Rightarrow> policy res"

section \<open>The tools\<close>

definition file_tools :: "string list" where
  "file_tools = [''read'', ''edit'', ''write'']"

definition set_prop :: "string \<Rightarrow> json \<Rightarrow> (string \<times> json) list \<Rightarrow> (string \<times> json) list" where
  "set_prop k v kvs = AList.update k v kvs"

definition run_file_tool :: "'st tool_host \<Rightarrow> policy option \<Rightarrow> string \<Rightarrow> string \<Rightarrow> (string \<times> json) list \<Rightarrow> ('st, json) action" where
  "run_file_tool th loaded tool i params = (case loaded of
     None \<Rightarrow> throwA (Error ''Tempo policy has not loaded'')
   | Some policy \<Rightarrow>
       bindA (liftA (authorizePath (tl_lstat th) policy (''tempo_'' @ tool) (or_null (map_of params ''path'')))) (\<lambda>path.
       tl_execute th tool i (set_prop ''path'' (JStr path) params)))"

definition max_form :: nat where
  "max_form = 65536"

definition max_output :: nat where
  "max_output = 131072"

definition brepl_result :: "child_end \<Rightarrow> json res" where
  "brepl_result e =
     (if truthy (ce_signal e) \<or> ce_code e \<noteq> Some 0 \<or> max_output < length (ce_output e)
      then Inl (Error (''brepl failed ('' @ (case ce_code e of Some c \<Rightarrow> dec_int c
          | None \<Rightarrow> (case ce_signal e of Some s \<Rightarrow> s | None \<Rightarrow> ''null'')) @ ''): '' @ take max_output (ce_output e)))
      else Inr (JObj [(''content'', JArr [JObj [(''type'', JStr ''text''), (''text'', JStr (ce_output e))]])]))"

definition run_repl_tool :: "'st tool_host \<Rightarrow> policy option \<Rightarrow> string \<Rightarrow> ('st, json) action" where
  "run_repl_tool th loaded form =
     (let limited = Error ''REPL evaluation is limited to implement and repair'' in
      case loaded of
        None \<Rightarrow> throwA limited
      | Some policy \<Rightarrow>
          if po_stage policy \<noteq> GImplement \<and> po_stage policy \<noteq> GRepair then throwA limited
          else thenA (guardA (\<not> (js_trim form = [] \<or> max_form < length form)) ''Invalid REPL form'')
            (thenA (catchA (bindA (tl_stat th (join_path (po_workspace policy) ''.nrepl-port'')) (\<lambda>isFile.
                guardA isFile ''Experiment REPL is not ready''))
              (\<lambda>_. throwA (Error ''Experiment REPL is not ready'')))
            (bindA (tl_brepl th (po_workspace policy) (form @ [LF])) (\<lambda>e. liftA (brepl_result e)))))"

section \<open>The extension\<close>

text \<open>A call of a tool by name, and the events that set the policy.\<close>

datatype tool_call = FileCall string string "(string \<times> json) list" | ReplCall string

definition run_tool :: "'st tool_host \<Rightarrow> policy option \<Rightarrow> tool_call \<Rightarrow> ('st, json) action" where
  "run_tool th loaded call = (case call of
     FileCall tool i params \<Rightarrow> if tool \<in> set file_tools then run_file_tool th loaded tool i params
       else throwA (Error ''Unknown tool'')
   | ReplCall form \<Rightarrow> run_repl_tool th loaded form)"

definition session_start :: "'st tool_host \<Rightarrow> json option \<Rightarrow> policy res" where
  "session_start th flag = (case flag of
     Some (JStr path) \<Rightarrow> tl_loadPolicy th path
   | _ \<Rightarrow> Inl (Error ''Tempo policy is required''))"

definition before_agent_start :: "policy option \<Rightarrow> (string \<times> policy) res" where
  "before_agent_start loaded = (case loaded of
     None \<Rightarrow> Inl (Error ''Tempo policy has not loaded'') | Some policy \<Rightarrow> Inr (''tempo-policy'', policy))"

definition user_bash :: "unit res" where
  "user_bash = Inl (Error ''Tempo inference cannot execute shell commands'')"

text \<open>
  Evaluations are queued one after the other (\<^verbatim>\<open>evaluation.then\<close>): a failed one does not stop those
  behind it.
\<close>

fun run_calls :: "'st tool_host \<Rightarrow> policy option \<Rightarrow> tool_call list \<Rightarrow> ('st, json res list) action" where
  "run_calls th loaded [] = returnA []"
| "run_calls th loaded (c # cs) = bindA (tryA (run_tool th loaded c)) (\<lambda>r.
     bindA (run_calls th loaded cs) (\<lambda>rs. returnA (r # rs)))"

end
