(* ===== verification/Pi_Claims.thy ===== *)
theory Pi_Claims
  imports Live_World Restricted_Tools
begin

text \<open>
  Properties of the inference process and its tools together: what a prepared step lets the tools
  reach, and that the policy it writes is the one the tools load.
\<close>

section \<open>What a prepared step knows\<close>

lemma write_inputs_Inr:
  assumes "write_inputs mc q workspace roots c inputs diff st = (Inr pv, st')"
  obtains st1 st2 u where "pv_policy pv = pi_policy q workspace roots c"
    "mc_writeText mc (join_path (pq_directory q) ''policy.json'')
       (json_text (sv_numstr mc) (enc_pi_policy (pv_policy pv) (ic_stage c))) st1 = (Inr u, st2)"
proof -
  from assms obtain c' handle prompts args inputHandle inputs' u st1 st2 where
    "mc_writeText mc (pp_policy (pi_paths_of q c))
      (json_text (sv_numstr mc) (enc_pi_policy (pi_policy q workspace roots c) (ic_stage c))) st1 = (Inr u, st2)"
    "pv = \<lparr>pv_context = c', pv_policy = pi_policy q workspace roots c, pv_inputHandle = inputHandle,
      pv_diffHandle = handle, pv_promptHandles = prompts, pv_agentDirectory = agent_directory q,
      pv_command = pi_command q c' workspace args\<rparr>"
    unfolding write_inputs_def Let_def bindA_Inr' thenA_Inr
    by (elim exE conjE) (auto simp: run_simps split: prod.splits)
  then show ?thesis by (intro that [of st1 u st2]) (simp_all add: pi_paths_of_def)
qed

lemma preparePiStep_Inr:
  assumes "preparePiStep mc q st = (Inr pv, st')"
  obtains c workspace roots st1 st2 st3 st4 u where "parse_context (pq_context q) = Inr c"
    "check_pi_paths (sv_host mc) q st1 = (Inr (workspace, roots), st2)"
    "pv_policy pv = pi_policy q workspace roots c"
    "mc_writeText mc (join_path (pq_directory q) ''policy.json'')
       (json_text (sv_numstr mc) (enc_pi_policy (pv_policy pv) (ic_stage c))) st3 = (Inr u, st4)"
proof -
  from assms obtain c workspace roots inputs diff st1 st2 st3 where
    "parse_context (pq_context q) = Inr c" "check_pi_paths (sv_host mc) q st1 = (Inr (workspace, roots), st2)"
    "write_inputs mc q workspace roots c inputs diff st3 = (Inr pv, st')"
    unfolding preparePiStep_def bindA_Inr' thenA_Inr liftA_Inr split_paired_Ex case_prod_conv
    by (elim exE conjE) (hypsubst, rule that)
  then show ?thesis using that write_inputs_Inr by metis
qed

lemma check_pi_paths_Inr:
  assumes "check_pi_paths h q st = (Inr (workspace, roots), st')"
  obtains credentials st1 st2 where
    "starts_with ''../'' (relative_path workspace (pq_directory q)) \<or> is_absolute (relative_path workspace (pq_directory q))"
    "real_or_missing h (pq_credentialDirectory q) st1 = (Inr credentials, st2)"
    "list_all (\<lambda>dir. \<not> exposes dir (pq_directory q) \<and> \<not> exposes dir credentials) roots"
  using assms unfolding check_pi_paths_def Let_def bindA_Inr' thenA_Inr guardA_Inr returnA_Inr
  by (elim exE conjE Pair_inject) (hypsubst, rule that)

section \<open>A concrete step\<close>

definition live_pi :: pi_request where
  "live_pi = live_request live_config (live_state PImplement) toy_workspace
     (live_context live_machine (live_state PImplement) live_inputs)"

definition live_policy :: policy where
  "live_policy = \<lparr>po_workspace = ''/r/.worktrees/tempo-run-1'', po_readRoots = [''/logs/step-1/inputs''],
     po_stage = GImplement\<rparr>"

definition live_tools :: "unit tool_host" where
  "live_tools = \<lparr>tl_execute = \<lambda>_ _ _. returnA JNull, tl_stat = \<lambda>_. returnA True, tl_brepl = \<lambda>_ _. returnA \<lparr>ce_output = ''3'', ce_code = Some 0, ce_signal = None\<rparr>,
     tl_lstat = \<lambda>p. if p = ''/logs/step-1/inputs/system.md'' then Lstat RegularFile 1 else Lstat Directory 2,
     tl_loadPolicy = \<lambda>_. Inr live_policy\<rparr>"

lemma live_prepared: "case preparePiStep live_machine live_pi (Map.empty, False) of
    (Inl e, st') \<Rightarrow> False | (Inr pv, st') \<Rightarrow> pv_policy pv = live_policy"
  by code_simp

lemma live_read: "case run_tool live_tools (Some live_policy)
     (FileCall ''read'' ''1'' [(''path'', JStr ''/logs/step-1/inputs/system.md'')]) () of (r, st') \<Rightarrow> r = Inr JNull"
  by code_simp

lemma live_repl: "\<exists>v. run_tool live_tools (Some live_policy) (ReplCall ''(+ 1 2)'') () = (Inr v, ())"
proof -
  have "js_trim ''(+ 1 2)'' \<noteq> []" by code_simp
  then show ?thesis
    by (simp add: run_tool_def run_repl_tool_def live_tools_def live_policy_def Let_def max_form_def max_output_def
        brepl_result_def truthy_def thenA_def bindA_def guardA_def catchA_def returnA_def liftA_def)
qed

section \<open>Private files\<close>

lemma contained_trans_or:
  assumes "contained a p" "contained b p"
  shows "contained a b \<or> contained b a"
  using assms unfolding contained_iff
  by (metis append_eq_append_conv2)

lemma contained_join: "clean_seg s \<Longrightarrow> contained (join_path d s) p \<longleftrightarrow>
    (\<exists>down. path_segs p = path_segs d @ s # down)"
  by (simp add: contained_iff join_path_clean)

lemma step_names_clean: "clean_seg ''inputs''" "clean_seg ''agent''" "clean_seg ''policy.json''"
  by (simp_all add: clean_seg_def)

lemma outside_step:
  assumes "contained (join_path d a) p" "clean_seg a" "clean_seg b" "a \<noteq> b"
  shows "\<not> contained (join_path d b) p"
  using assms by (auto simp: contained_join)

lemma contained_join_below: "clean_seg s \<Longrightarrow> contained (join_path d s) p \<Longrightarrow> contained d p"
  by (simp add: contained_join) (auto simp: contained_iff)

text \<open>
  The files of a step an inference must not see: its configuration and session, with the link to the
  credentials, and its policy.
\<close>

definition private_to_step :: "pi_request \<Rightarrow> string \<Rightarrow> bool" where
  "private_to_step q path \<longleftrightarrow> contained (agent_directory q) path \<or>
     contained (join_path (pq_directory q) ''policy.json'') path"

lemma read_root_private:
  assumes "dir \<in> set (input_directory q # roots)" "contained dir path"
    and "list_all (\<lambda>dir. \<not> exposes dir (pq_directory q) \<and> \<not> exposes dir credentials) roots"
  shows "\<not> private_to_step q path \<and>
    (contained (input_directory q) path \<or> \<not> contained (pq_directory q) path \<and> \<not> contained credentials path)"
proof (cases "dir = input_directory q")
  case True
  with assms(2) show ?thesis
    using outside_step [of "pq_directory q" "''inputs''" path] step_names_clean
    by (auto simp: private_to_step_def input_directory_def agent_directory_def)
next
  case False
  with assms(1,3) have "\<not> exposes dir (pq_directory q)" "\<not> exposes dir credentials"
    by (auto simp: list_all_iff)
  then have out: "\<not> contained (pq_directory q) path" "\<not> contained credentials path"
    using contained_trans_or [OF assms(2)] by (auto simp: exposes_def)
  then have "\<not> private_to_step q path"
    using contained_join_below [OF step_names_clean(2), of "pq_directory q" path]
      contained_join_below [OF step_names_clean(3), of "pq_directory q" path]
    by (auto simp: private_to_step_def agent_directory_def)
  with out show ?thesis by simp
qed

lemma run_file_tool_Inr:
  assumes "run_tool th (Some policy) (FileCall tool i params) st = (Inr v, st')"
  obtains path where "authorizePath (tl_lstat th) policy (''tempo_'' @ tool) (or_null (map_of params ''path'')) = Inr path"
    "tl_execute th tool i (set_prop ''path'' (JStr path) params) st = (Inr v, st')"
  using assms by (auto simp: run_tool_def run_file_tool_def run_simps split: if_splits)

lemma parse_context_stage: "parse_context c = Inr c' \<Longrightarrow> ic_stage c' = ic_stage c \<and> inference_phase (ic_stage c)"
  by (auto simp: parse_context_def inferenceContextSchema_def context_body_def zparse_Inr z_strict_def context_fields_def
      bind_eq_Some_conv split: if_splits)

lemma run_repl_tool_Inr:
  assumes "run_tool th (Some policy) (ReplCall form) st = (Inr v, st')"
  obtains st1 e where "po_stage policy \<in> {GImplement, GRepair}" "js_trim form \<noteq> []" "length form \<le> max_form"
    "tl_stat th (join_path (po_workspace policy) ''.nrepl-port'') st = (Inr True, st1)"
    "tl_brepl th (po_workspace policy) (form @ [LF]) st1 = (Inr e, st')" "brepl_result e = Inr v"
proof -
  from assms obtain b st1 e where "po_stage policy \<in> {GImplement, GRepair}" "js_trim form \<noteq> []" "\<not> max_form < length form"
    "tl_stat th (join_path (po_workspace policy) ''.nrepl-port'') st = (Inr b, st1)" "b"
    "tl_brepl th (po_workspace policy) (form @ [LF]) st1 = (Inr e, st')" "brepl_result e = Inr v"
    by (auto simp: run_tool_def run_repl_tool_def Let_def run_simps catchA_def split: if_splits sum.splits prod.splits)
  then show ?thesis by (intro that [of st1 e]) auto
qed

lemma guard_stage_editing: "inference_phase p \<Longrightarrow> guard_stage_of p \<in> {GImplement, GRepair} \<Longrightarrow> p \<in> {PImplement, PRepair}"
  by (cases p) (simp_all add: guard_stage_of_def)

text \<open>What a preparation settles for its tools, and where a file tool then runs.\<close>

lemma prepared_tools:
  assumes "preparePiStep mc q st0 = (Inr pv, st1)"
  obtains workspace roots credentials st2 st3 where "pv_policy pv = pi_policy q workspace roots (pq_context q)"
    "\<not> contained (po_workspace (pv_policy pv)) (pq_directory q)" "inference_phase (ic_stage (pq_context q))"
    "real_or_missing (sv_host mc) (pq_credentialDirectory q) st2 = (Inr credentials, st3)"
    "list_all (\<lambda>dir. \<not> exposes dir (pq_directory q) \<and> \<not> exposes dir credentials) roots"
proof -
  obtain c workspace roots s1 s2 where stage: "parse_context (pq_context q) = Inr c"
    and policy: "pv_policy pv = pi_policy q workspace roots c"
    and paths: "check_pi_paths (sv_host mc) q s1 = (Inr (workspace, roots), s2)"
    by (rule preparePiStep_Inr [OF assms]) blast
  obtain credentials s3 s4 where rel: "starts_with ''../'' (relative_path workspace (pq_directory q)) \<or>
      is_absolute (relative_path workspace (pq_directory q))"
    and cred: "real_or_missing (sv_host mc) (pq_credentialDirectory q) s3 = (Inr credentials, s4)"
    and roots: "list_all (\<lambda>dir. \<not> exposes dir (pq_directory q) \<and> \<not> exposes dir credentials) roots"
    by (rule check_pi_paths_Inr [OF paths]) blast
  have "pv_policy pv = pi_policy q workspace roots (pq_context q)" "inference_phase (ic_stage (pq_context q))"
    using parse_context_stage [OF stage] by (simp_all add: policy pi_policy_def)
  moreover have "\<not> contained (po_workspace (pv_policy pv)) (pq_directory q)"
    using rel by (auto simp: policy pi_policy_def contained_def Let_def starts_with_def is_absolute_def)
  ultimately show ?thesis using cred roots by (intro that [of workspace roots s3 credentials s4])
qed

lemma file_tool_reach:
  assumes "run_tool th (Some (pi_policy q workspace roots c)) (FileCall tool i params) st = (Inr v, st')"
    and "list_all (\<lambda>dir. \<not> exposes dir (pq_directory q) \<and> \<not> exposes dir credentials) roots"
  obtains path where "tl_execute th tool i (set_prop ''path'' (JStr path) params) st = (Inr v, st')"
    "contained workspace path \<or> tool = ''read'' \<and> \<not> private_to_step q path \<and>
       (contained (input_directory q) path \<or> \<not> contained (pq_directory q) path \<and> \<not> contained credentials path)"
proof -
  obtain path where auth: "authorizePath (tl_lstat th) (pi_policy q workspace roots c) (''tempo_'' @ tool)
      (or_null (map_of params ''path'')) = Inr path"
    and run: "tl_execute th tool i (set_prop ''path'' (JStr path) params) st = (Inr v, st')"
    by (rule run_file_tool_Inr [OF assms(1)])
  obtain dir where dir: "contained dir path" "dir \<in> set (workspace # input_directory q # roots)"
    "''tempo_'' @ tool \<noteq> ''tempo_read'' \<Longrightarrow> dir = workspace"
    by (rule authorizePath_Inr [OF auth], unfold pi_policy_def policy.select_convs) blast
  have "contained workspace path \<or> tool = ''read'' \<and> \<not> private_to_step q path \<and>
     (contained (input_directory q) path \<or> \<not> contained (pq_directory q) path \<and> \<not> contained credentials path)"
  proof (cases "dir = workspace")
    case False
    with dir(2,3) have "dir \<in> set (input_directory q # roots)" "tool = ''read''" by auto
    with read_root_private [OF this(1) dir(1) assms(2)] show ?thesis by blast
  qed (use dir(1) in simp)
  with run show ?thesis by (rule that)
qed

text \<open>
  C20: The tools of an inference work in the worktree or read what they are given. Under the policy of
  a prepared step the worktree does not contain the directory of the step. A file tool that returns
  ran on a path the guard chose: in the worktree; or the tool only reads, and the path is neither in
  the agent's own directory nor the policy, and lies in the frozen inputs or outside of both the
  directory of the step and the credentials, however the reference directories were chosen. The REPL
  tool returns only in a step that implements or repairs, and what it evaluated ran in the worktree,
  whose REPL was found ready before.
\<close>

theorem inference_tools_miss_private:
  assumes "preparePiStep mc q st0 = (Inr pv, st1)"
    and "run_tool th (Some (pv_policy pv)) call st = (Inr v, st')"
  shows "\<not> contained (po_workspace (pv_policy pv)) (pq_directory q) \<and>
    (case call of
       FileCall tool i params \<Rightarrow> (\<exists>path credentials st2 st3.
         tl_execute th tool i (set_prop ''path'' (JStr path) params) st = (Inr v, st') \<and>
         real_or_missing (sv_host mc) (pq_credentialDirectory q) st2 = (Inr credentials, st3) \<and>
         (contained (po_workspace (pv_policy pv)) path \<or>
          tool = ''read'' \<and> \<not> contained (agent_directory q) path \<and>
            \<not> contained (join_path (pq_directory q) ''policy.json'') path \<and>
            (contained (input_directory q) path \<or>
               \<not> contained (pq_directory q) path \<and> \<not> contained credentials path)))
     | ReplCall form \<Rightarrow> ic_stage (pq_context q) \<in> {PImplement, PRepair} \<and>
         (\<exists>st2 e. tl_stat th (join_path (po_workspace (pv_policy pv)) ''.nrepl-port'') st = (Inr True, st2) \<and>
           tl_brepl th (po_workspace (pv_policy pv)) (form @ [LF]) st2 = (Inr e, st') \<and> brepl_result e = Inr v))"
proof -
  obtain workspace roots credentials st2 st3 where
    policy: "pv_policy pv = pi_policy q workspace roots (pq_context q)"
    and outside: "\<not> contained (po_workspace (pv_policy pv)) (pq_directory q)"
    and stage: "inference_phase (ic_stage (pq_context q))"
    and cred: "real_or_missing (sv_host mc) (pq_credentialDirectory q) st2 = (Inr credentials, st3)"
    and roots: "list_all (\<lambda>dir. \<not> exposes dir (pq_directory q) \<and> \<not> exposes dir credentials) roots"
    by (rule prepared_tools [OF assms(1)])
  have w: "po_workspace (pv_policy pv) = workspace" by (simp add: policy pi_policy_def)
  show ?thesis
  proof (cases call)
    case (FileCall tool i params)
    show ?thesis
      by (rule file_tool_reach [OF assms(2) [unfolded policy FileCall] roots])
        (use outside cred in \<open>unfold private_to_step_def FileCall tool_call.case w, blast\<close>)
  next
    case (ReplCall form)
    obtain st2 e where r: "po_stage (pv_policy pv) \<in> {GImplement, GRepair}"
      "tl_stat th (join_path (po_workspace (pv_policy pv)) ''.nrepl-port'') st = (Inr True, st2)"
      "tl_brepl th (po_workspace (pv_policy pv)) (form @ [LF]) st2 = (Inr e, st')" "brepl_result e = Inr v"
      by (rule run_repl_tool_Inr [OF assms(2) [unfolded ReplCall]])
    have "ic_stage (pq_context q) \<in> {PImplement, PRepair}"
      using r(1) guard_stage_editing [OF stage] by (simp add: policy pi_policy_def)
    with outside r(2-4) show ?thesis unfolding ReplCall tool_call.case by blast
  qed
qed

theorem inference_tools_miss_private_witness:
  "\<not> contained ''/r/.worktrees/tempo-run-1'' (pq_directory live_pi) \<and>
     (\<exists>credentials st2 st3. real_or_missing live_host (pq_credentialDirectory live_pi) st2 = (Inr credentials, st3)) \<and>
     tl_brepl live_tools ''/r/.worktrees/tempo-run-1'' (''(+ 1 2)'' @ [LF]) () =
       (Inr \<lparr>ce_output = ''3'', ce_code = Some 0, ce_signal = None\<rparr>, ())"
proof -
  from live_prepared obtain pv st1 where
    p: "preparePiStep live_machine live_pi (Map.empty, False) = (Inr pv, st1)" "pv_policy pv = live_policy"
    by (auto split: prod.splits sum.splits)
  from live_read have r: "run_tool live_tools (Some (pv_policy pv))
      (FileCall ''read'' ''1'' [(''path'', JStr ''/logs/step-1/inputs/system.md'')]) () = (Inr JNull, ())"
    by (auto simp: p(2) split: prod.splits)
  from live_repl obtain v where e: "run_tool live_tools (Some (pv_policy pv)) (ReplCall ''(+ 1 2)'') () = (Inr v, ())"
    unfolding p(2) by blast
  have w: "po_workspace live_policy = ''/r/.worktrees/tempo-run-1''" by (simp add: live_policy_def)
  from inference_tools_miss_private [OF p(1) e] have "\<exists>st2 e'. tl_brepl live_tools ''/r/.worktrees/tempo-run-1''
      (''(+ 1 2)'' @ [LF]) st2 = (Inr e', ())"
    unfolding p(2) w tool_call.case by blast
  then have "tl_brepl live_tools ''/r/.worktrees/tempo-run-1'' (''(+ 1 2)'' @ [LF]) () =
       (Inr \<lparr>ce_output = ''3'', ce_code = Some 0, ce_signal = None\<rparr>, ())"
    by (simp add: live_tools_def returnA_def)
  with inference_tools_miss_private [OF p(1) r] show ?thesis
    unfolding p(2) w live_host_of tool_call.case by blast
qed

section \<open>The written policy\<close>

lemma guard_stage_name: "inference_phase p \<Longrightarrow> map_of guard_stages (phase_name p) = Some (guard_stage_of p)"
  by (cases p) (simp_all add: guard_stages_def phase_name_def guard_stage_of_def)

lemma absolute_roots_all: "list_all is_absolute rs \<Longrightarrow> absolute_roots (map JStr rs) = Some rs"
  by (induction rs) auto

lemma mapR_same: "\<forall>x \<in> set xs. f x = Inr x \<Longrightarrow> mapR f xs = Inr xs"
  by (induction xs) (simp_all add: res_simps)

text \<open>
  C21: The tools load the policy that was prepared. The text a prepared step leaves in its policy file
  parses back, wherever \<^verbatim>\<open>JSON.parse\<close> inverts \<^verbatim>\<open>JSON.stringify\<close> on it, and the directories resolve to
  themselves as resolved paths do, to exactly the policy the event stream of the process is later
  compared with.
\<close>

theorem written_policy_loads_back:
  assumes "preparePiStep mc q st0 = (Inr pv, st1)"
    and "jparse (json_text (sv_numstr mc) (enc_pi_policy (pv_policy pv) (ic_stage (pq_context q)))) =
      Inr (enc_pi_policy (pv_policy pv) (ic_stage (pq_context q)))"
    and "list_all (\<lambda>p. is_absolute p \<and> realpath p = Inr p) (po_workspace (pv_policy pv) # po_readRoots (pv_policy pv))"
  shows "\<exists>text st2 st3. mc_writeText mc (join_path (pq_directory q) ''policy.json'') text st2 = (Inr (), st3) \<and>
    loadPolicy (\<lambda>_. Inr text) jparse realpath (join_path (pq_directory q) ''policy.json'') = Inr (pv_policy pv)"
proof -
  obtain c workspace roots s1 s2 s3 s4 u where c: "parse_context (pq_context q) = Inr c"
    and policy: "pv_policy pv = pi_policy q workspace roots c"
    and wr: "mc_writeText mc (join_path (pq_directory q) ''policy.json'')
       (json_text (sv_numstr mc) (enc_pi_policy (pv_policy pv) (ic_stage c))) s3 = (Inr u, s4)"
    by (rule preparePiStep_Inr [OF assms(1)])
  define po where "po = pv_policy pv"
  have stage: "map_of guard_stages (phase_name (ic_stage c)) = Some (po_stage po)"
    using guard_stage_name parse_context_stage [OF c] policy by (simp add: po_def pi_policy_def)
  have paths: "list_all is_absolute (po_readRoots po)" "is_absolute (po_workspace po)"
    "realpath (po_workspace po) = Inr (po_workspace po)" "mapR realpath (po_readRoots po) = Inr (po_readRoots po)"
    using assms(3) by (auto simp: po_def list_all_iff intro: mapR_same)
  define wtext where "wtext = json_text (sv_numstr mc) (enc_pi_policy po (ic_stage c))"
  have "jparse wtext = Inr (enc_pi_policy po (ic_stage c))"
    using assms(2) parse_context_stage [OF c] by (simp only: wtext_def po_def)
  then have "loadPolicy (\<lambda>_. Inr wtext) jparse realpath p = Inr po" for p
    using paths by (simp add: loadPolicy_def bindR_def enc_pi_policy_def policy_fields_def stage absolute_roots_all)
  with wr show ?thesis unfolding po_def [symmetric] wtext_def by (metis old.unit.exhaust)
qed

theorem written_policy_loads_back_witness:
  "\<exists>text. loadPolicy (\<lambda>_. Inr text) (\<lambda>_. Inr (enc_pi_policy live_policy PImplement)) Inr
     (join_path (pq_directory live_pi) ''policy.json'') = Inr live_policy"
proof -
  from live_prepared obtain pv st1 where
    p: "preparePiStep live_machine live_pi (Map.empty, False) = (Inr pv, st1)" "pv_policy pv = live_policy"
    by (auto split: prod.splits sum.splits)
  have "ic_stage (pq_context live_pi) = PImplement"
    by (simp add: live_pi_def live_request_def live_context_def live_state_def Let_def)
  then have "(Inr (enc_pi_policy live_policy PImplement) :: json res) =
      Inr (enc_pi_policy (pv_policy pv) (ic_stage (pq_context live_pi)))"
    by (simp add: p(2))
  from written_policy_loads_back [OF p(1), where jparse = "\<lambda>_. Inr (enc_pi_policy live_policy PImplement)"
      and realpath = Inr, OF this]
  show ?thesis unfolding p(2) by (auto simp: live_policy_def is_absolute_def starts_with_def)
qed

end
