(* ===== verification/Repeatability.thy ===== *)
theory Repeatability
  imports Benchmark_Runner
begin

text \<open>
  \<^verbatim>\<open>_lib/repeatability.ts\<close>: the program that measures one frozen checkout four times and reports whether
  the pooled samples of each protocol are precise enough. The report is written whatever happens
  after the output directory exists, and the program fails unless it passed.
\<close>

section \<open>The report\<close>

definition repeat_parameters :: parameters where
  "repeat_parameters = \<lparr>pa_warmup = 10, pa_duration = 30, pa_repetitions = 3, pa_connections = 128, pa_streams = 64,
     pa_threads = 2, pa_buskerWorkers = None\<rparr>"

record repeat_batch_entry =
  re_protocol :: protocol
  re_batch :: nat
  re_samples :: "jsnum list"
  re_directory :: string

record repeat_report =
  rr_precision :: precision
  rr_revision :: string
  rr_nativeSha256 :: string
  rr_placed :: placed
  rr_batches :: "repeat_batch_entry list"
  rr_pooled :: "(protocol \<times> precision_summary) list"
  rr_passed :: bool
  rr_error :: "string option"

definition enc_pooled :: "precision_summary \<Rightarrow> json" where
  "enc_pooled p = JObj [(''rates'', j_numbers (ps_rates p)), (''mean'', JNum (ps_mean p)),
     (''sampleSD'', JNum (ps_sampleSD p)), (''tCritical'', JNum (ps_tCritical p)),
     (''ciHalfWidth'', JNum (ps_ciHalfWidth p)), (''relativeHalfWidth'', JNum (ps_relativeHalfWidth p))]"

definition enc_entry :: "repeat_batch_entry \<Rightarrow> json" where
  "enc_entry e = JObj [(''protocol'', JStr (protocol_name (re_protocol e))), (''batch'', j_int (int (re_batch e))),
     (''directory'', JStr (re_directory e)), (''samples'', j_numbers (re_samples e))]"

definition enc_repeat :: "repeat_report \<Rightarrow> json" where
  "enc_repeat r = JObj [(''method'', JStr benchmarkMethod), (''scorePolicyVersion'', JStr scorePolicyVersion),
     (''precision'', enc_precision (rr_precision r)), (''plannedSamples'', j_int 6), (''revision'', JStr (rr_revision r)),
     (''nativeSha256'', JStr (rr_nativeSha256 r)),
     (''placement'', enc_placement \<lparr>pl_topology = pd_topology (rr_placed r), pl_realH2load = pd_realH2load (rr_placed r)\<rparr>),
     (''parameters'', enc_parameters repeat_parameters), (''batches'', JArr (map enc_entry (rr_batches r))),
     (''pooled'', JObj (map (\<lambda>(p, s). (protocol_name p, enc_pooled s)) (rr_pooled r))),
     (''passed'', JBool (rr_passed r)), (''error'', j_nullable JStr (rr_error r))]"

section \<open>Before the first batch\<close>

definition lower_name :: "string \<Rightarrow> bool" where
  "lower_name s \<longleftrightarrow> 1 \<le> length s \<and> length s \<le> 50 \<and>
     list_all (\<lambda>c. is_digit c \<or> c = CHR ''-'' \<or> (CHR ''a'' \<le> c \<and> c \<le> CHR ''z'')) s"

definition repeat_precision :: "(string \<Rightarrow> json res) \<Rightarrow> string option \<Rightarrow> precision res" where
  "repeat_precision jparse text = (case text of
     Some t \<Rightarrow> if t = [] then check_precision defaultPrecision
       else bindR (jparse t) (zparse ''precision'' precisionSchema)
   | None \<Rightarrow> check_precision defaultPrecision)"

definition check_output_root :: "'st host \<Rightarrow> string \<Rightarrow> ('st, unit) action" where
  "check_output_root h directory =
     (let message = ''Repeatability needs a new absolute directory without symlinks'' in
      bindA (resolveA h directory) (\<lambda>resolved.
      thenA (guardA (resolved = directory \<and> lower_name (basename_path directory)) message)
      (bindA (h_realPath h (dirname_path directory)) (\<lambda>real.
       guardA (real = dirname_path directory) message))))"

definition prepare_repeat :: "('st, 'z) machine_scheme \<Rightarrow> string option \<Rightarrow> string option \<Rightarrow> string option \<Rightarrow>
    ('st, string \<times> checkout \<times> repeat_report) action" where
  "prepare_repeat mc repository directory precisionJson =
     (let h = sv_host mc; usage = ''Usage in the Nix devshell: deno run -A repeatability.ts <clean-checkout> <new-absolute-output-directory> [precision-json]'' in
      bindA (liftA (repeat_precision (sv_json mc) precisionJson)) (\<lambda>precision.
      bindA (env_get h ''IN_NIX_SHELL'') (\<lambda>shell.
      thenA (guardA (truthy repository \<and> truthy directory \<and> truthy shell) usage)
      (let out = the directory in
       thenA (check_output_root h out)
       (bindA (inspectCheckout h (the repository)) (\<lambda>ck.
        thenA (guardA (\<not> ck_dirty ck) ''Repeatability requires a clean, frozen checkout'')
        (bindA (hashFile mc (linux_native mc (ck_path ck))) (\<lambda>sha.
         bindA (placementEnvironment mc out) (\<lambda>pd.
         thenA (h_mkdir h out False)
         (thenA (h_mkdir h (join_path out ''logs'') False)
         (returnA (out, ck, \<lparr>rr_precision = precision, rr_revision = ck_revision ck, rr_nativeSha256 = sha,
            rr_placed = pd, rr_batches = [], rr_pooled = [], rr_passed = False, rr_error = None\<rparr>))))))))))))"

section \<open>The batches\<close>

definition repeat_output :: "string \<Rightarrow> protocol \<Rightarrow> nat \<Rightarrow> string" where
  "repeat_output out p batch = join_path out (protocol_name p @ ''/'' @ dec_nat batch)"

definition repeat_command :: "string \<Rightarrow> checkout \<Rightarrow> placed \<Rightarrow> protocol \<Rightarrow> nat \<Rightarrow> command_spec" where
  "repeat_command out ck pd p batch =
     (let output = repeat_output out p batch;
          log = (\<lambda>kind. join_path out (''logs/'' @ protocol_name p @ ''-'' @ dec_nat batch @ ''.'' @ kind @ ''.log'')) in
      \<lparr>sp_id = basename_path out @ ''-'' @ protocol_name p @ ''-'' @ dec_nat batch, sp_command = ''taskset'',
       sp_args = [''-c'', ''10,11'', ''bb'', ''bench:local'', ''--adapter'', ''busker'', ''--protocol'', protocol_name p,
         ''--output'', output] @ parameter_args repeat_parameters,
       sp_cwd = ck_path ck, sp_env = affinity_env pd output, sp_stdoutPath = log ''stdout'', sp_stderrPath = log ''stderr''\<rparr>)"

definition repeat_expectation :: "('st, 'z) machine_scheme \<Rightarrow> checkout \<Rightarrow> string \<Rightarrow> protocol \<Rightarrow> expectation" where
  "repeat_expectation mc ck sha p =
     \<lparr>ex_checkout = ck_path ck, ex_revision = ck_revision ck, ex_nativeSha256 = sha,
      ex_nativeResource = mc_fileURL mc (linux_native mc (ck_path ck)),
      ex_sourceResource = mc_fileURL mc (source_path (ck_path ck)), ex_protocol = p, ex_adapter = Busker,
      ex_purpose = MeasurementPurpose, ex_parameters = repeat_parameters\<rparr>"

text \<open>\<^verbatim>\<open>raw.results[0].protocols[protocol].samples\<close> and the rate of each, of a report that was validated.\<close>

definition at_prop :: "json \<Rightarrow> string \<Rightarrow> json res" where
  "at_prop v k = bindR (js_prop v k) (\<lambda>x. case x of None \<Rightarrow> Inl (Named ''TypeError'' k) | Some y \<Rightarrow> Inr y)"

definition js_rate :: "json \<Rightarrow> jsnum res" where
  "js_rate v = bindR (at_prop v ''requests-per-second'') (\<lambda>x. case x of
     JNum n \<Rightarrow> Inr n | _ \<Rightarrow> Inl (Named ''TypeError'' ''requests-per-second''))"

definition raw_samples :: "json \<Rightarrow> protocol \<Rightarrow> jsnum list res" where
  "raw_samples raw p =
     bindR (at_prop raw ''results'') (\<lambda>results. case results of
       JArr (first # _) \<Rightarrow>
         bindR (at_prop first ''protocols'') (\<lambda>protocols.
         bindR (at_prop protocols (protocol_name p)) (\<lambda>cell.
         bindR (at_prop cell ''samples'') (\<lambda>samples. case samples of
           JArr vs \<Rightarrow> mapR js_rate vs | _ \<Rightarrow> Inl (Named ''TypeError'' ''samples''))))
     | _ \<Rightarrow> Inl (Named ''TypeError'' ''results''))"

definition repeat_failed :: "protocol \<Rightarrow> nat \<Rightarrow> execution \<Rightarrow> string" where
  "repeat_failed p batch ex = ''Repeatability '' @ protocol_name p @ ''/'' @ dec_nat batch @ '' failed: '' @
     (case ex_error ex of Some e \<Rightarrow> e
      | None \<Rightarrow> (case ex_status ex of Some status \<Rightarrow> dec_int (cs_code status) | None \<Rightarrow> ''undefined''))"

type_synonym versions = "(string \<times> string) option"

definition repeat_batch :: "('st, 'z) machine_scheme \<Rightarrow> string \<Rightarrow> checkout \<Rightarrow> repeat_report \<Rightarrow> versions \<Rightarrow> protocol \<times> nat \<Rightarrow>
    ('st, versions \<times> repeat_batch_entry) action" where
  "repeat_batch mc out ck r versions = (\<lambda>(p, batch).
     let h = sv_host mc; output = repeat_output out p batch; native = linux_native mc (ck_path ck) in
     thenA (h_mkdir h (dirname_path output) True)
     (bindA (runCommand h (repeat_command out ck (rr_placed r) p batch)) (\<lambda>ex.
      thenA (guardA (ex_success ex) (repeat_failed p batch ex))
      (thenA (validatePlacementEvidence mc output
         (map (\<lambda>i. join_path output (''busker/'' @ protocol_name p @ ''/'' @ dec_int i)) [1, 2, 3]) 10 30
         (pd_realH2load (rr_placed r)))
      (bindA (h_readFile h (join_path output ''results.json'')) (\<lambda>text.
       bindA (liftA (sv_json mc text)) (\<lambda>raw.
       bindA (liftA (validateBenchmark (sv_url mc) raw (repeat_expectation mc ck (rr_nativeSha256 r) p))) (\<lambda>m.
       let now = (bs_javaVersion m, bs_h2loadVersion m) in
       thenA (guardA (versions = None \<or> versions = Some now)
         ''Repeatability batches used different JVM or h2load versions'')
       (bindA (inspectCheckout h (ck_path ck)) (\<lambda>after.
        let message = ''Source or native library changed during repeatability'' in
        thenA (guardA (ck_revision after = ck_revision ck \<and> \<not> ck_dirty after) message)
        (bindA (hashFile mc native) (\<lambda>sha.
         thenA (guardA (sha = rr_nativeSha256 r) message)
         (bindA (liftA (raw_samples raw p)) (\<lambda>samples.
          returnA (Some now, \<lparr>re_protocol = p, re_batch = batch, re_samples = samples, re_directory = output\<rparr>)))))))))))))))"

text \<open>The batches already reported stay in the report when a later one throws.\<close>

fun repeat_batches :: "('st, 'z) machine_scheme \<Rightarrow> string \<Rightarrow> checkout \<Rightarrow> (protocol \<times> nat) list \<Rightarrow> versions \<Rightarrow>
    repeat_report \<Rightarrow> ('st, repeat_report \<times> js_error option) action" where
  "repeat_batches mc out ck [] versions r = returnA (r, None)"
| "repeat_batches mc out ck (b # bs) versions r =
     bindA (tryA (repeat_batch mc out ck r versions b)) (\<lambda>result. case result of
       Inl failure \<Rightarrow> returnA (r, Some failure)
     | Inr (versions', e) \<Rightarrow> repeat_batches mc out ck bs versions' (r\<lparr>rr_batches := rr_batches r @ [e]\<rparr>))"

definition repeat_protocols :: "protocol list" where
  "repeat_protocols = [H1, TlsH2]"

definition repeat_plan :: "(protocol \<times> nat) list" where
  "repeat_plan = concat (map (\<lambda>p. [(p, 1), (p, 2)]) repeat_protocols)"

section \<open>Pooling\<close>

definition rates_of :: "repeat_report \<Rightarrow> protocol \<Rightarrow> jsnum list" where
  "rates_of r p = concat (map re_samples (filter (\<lambda>e. re_protocol e = p) (rr_batches r)))"

fun pool_protocols :: "js_math \<Rightarrow> protocol list \<Rightarrow> repeat_report \<Rightarrow> repeat_report \<times> js_error option" where
  "pool_protocols m [] r = (r, None)"
| "pool_protocols m (p # ps) r =
     (if length (rates_of r p) \<noteq> 6
      then (r, Some (Error ''Repeatability needs six samples per protocol''))
      else (case precisionSummary m (rates_of r p) (rr_precision r) of
          Inl failure \<Rightarrow> (r, Some failure)
        | Inr pooled \<Rightarrow> pool_protocols m ps (r\<lparr>rr_pooled := rr_pooled r @ [(p, pooled)]\<rparr>)))"

fun check_pooled :: "precision \<Rightarrow> (protocol \<times> precision_summary) list \<Rightarrow> js_error option" where
  "check_pooled precision [] = None"
| "check_pooled precision ((p, pooled) # rest) =
     (case meetsPrecision (Some (ps_relativeHalfWidth pooled)) precision of
        Inl failure \<Rightarrow> Some failure
      | Inr meets \<Rightarrow> if meets then check_pooled precision rest
          else Some (Error (''Pooled '' @ protocol_name p @
            '' precision exceeds configured relative half-width; do not launch or retry adaptively'')))"

definition settle_report :: "repeat_report \<Rightarrow> js_error option \<Rightarrow> repeat_report" where
  "settle_report r failure = (case failure of
     None \<Rightarrow> r\<lparr>rr_passed := True\<rparr> | Some e \<Rightarrow> r\<lparr>rr_error := Some (error_string e)\<rparr>)"

definition judge :: "js_math \<Rightarrow> repeat_report \<Rightarrow> js_error option \<Rightarrow> repeat_report" where
  "judge m r failure = (case failure of
     Some e \<Rightarrow> settle_report r (Some e)
   | None \<Rightarrow> (case pool_protocols m repeat_protocols r of
       (r', Some e) \<Rightarrow> settle_report r' (Some e)
     | (r', None) \<Rightarrow> settle_report r' (check_pooled (rr_precision r') (rr_pooled r'))))"

definition repeatability_main :: "('st, 'z) machine_scheme \<Rightarrow> string option \<Rightarrow> string option \<Rightarrow> string option \<Rightarrow>
    ('st, repeat_report) action" where
  "repeatability_main mc repository directory precisionJson =
     bindA (prepare_repeat mc repository directory precisionJson) (\<lambda>(out, ck, r0).
     bindA (repeat_batches mc out ck repeat_plan None r0) (\<lambda>(r1, failure).
     let r = judge (sv_math mc) r1 failure in
     thenA (mc_writeText mc (join_path out ''repeatability.json'') (json_pretty (sv_numstr mc) [] (enc_repeat r) @ [LF]))
     (thenA (guardA (rr_passed r) (case rr_error r of Some e \<Rightarrow> e | None \<Rightarrow> ''Repeatability failed''))
     (returnA r))))"

end
