(* ===== verification/Bench_World.thy ===== *)
theory Bench_World
  imports Repeatability Run_Live
begin

text \<open>
  A concrete machine that runs a smoke benchmark, for the witness of the claim on benchmarks. Its state is
  whether the command was launched; the report it leaves is an argument.
\<close>

definition smoke_parameters_input :: json where
  "smoke_parameters_input = JObj [(''warmup'', j_int 1), (''duration'', j_int 1), (''repetitions'', j_int 1),
     (''connections'', j_int 4), (''streams'', j_int 1), (''threads'', j_int 2)]"

definition smoke_input :: json where
  "smoke_input = JObj [(''runId'', JStr ''run-1''), (''repository'', JStr ''/w''), (''directory'', JStr ''/bench''),
     (''protocol'', JStr ''tls-h2''), (''adapter'', JStr ''busker''), (''purpose'', JStr ''smoke''),
     (''parameters'', smoke_parameters_input)]"

definition smoke_request :: "precision \<Rightarrow> benchmark_request" where
  "smoke_request p = \<lparr>bq_runId = ''run-1'', bq_repository = ''/w'', bq_directory = ''/bench'', bq_protocol = TlsH2,
     bq_adapter = Busker, bq_purpose = Smoke, bq_parameters = sample_parameters, bq_precision = p,
     bq_deadlineMs = None\<rparr>"

lemma smoke_request_read: "benchmarkRequestSchema smoke_input = Some (smoke_request defaultPrecision)"
proof -
  have "runIdSchema (JStr ''run-1'') = Some ''run-1''" by code_simp
  then show ?thesis
    by (simp add: benchmarkRequestSchema_def smoke_input_def smoke_parameters_input_def smoke_request_def
        precisionDefault_def purposeSchema_def purpose_name_def z_enum_def protocolSchema_def adapterSchema_def
        protocol_name_def adapter_name_def z_string_min1_def z_string_if_def benchmarkParametersSchema_def
        parameter_body_def sample_parameters_def z_positive_def z_count_def safe_integer_def max_safe_integer_def)
qed

definition sys_answers :: "(string \<times> string) list" where
  "sys_answers = (''/proc/self/status'', ''Cpus_allowed_list: 10-13'') #
     concat (map (\<lambda>cpu. let dir = ''/sys/devices/system/cpu/cpu'' @ dec_int cpu in
       [(dir @ ''/topology/core_id'', dec_int cpu), (dir @ ''/topology/physical_package_id'', ''0''),
        (dir @ ''/cache/index3/id'', ''0''), (dir @ ''/cache/index3/size'', ''32768K''),
        (dir @ ''/topology/thread_siblings_list'', dec_int cpu @ '','' @ dec_int (cpu + 16))]) cpus)"

definition bench_answer :: "command \<Rightarrow> string" where
  "bench_answer c =
     (if cm_command c = ''systemctl'' then ''LoadState=not-found''
      else if cm_command c = ''cat'' then (case map_of sys_answers (hd (cm_args c)) of Some s \<Rightarrow> s | None \<Rightarrow> [])
      else if cm_command c = ''bash'' then ''/bin/h2load''
      else if cm_args c = [''rev-parse'', ''--show-toplevel''] then ''/w''
      else if cm_args c = [''rev-parse'', ''HEAD''] then sample_revision else [])"

definition smoke_clients :: string where
  "smoke_clients = js_join [LF] (map (js_join [CHR 0x09])
     [[''2026-01-01T'', ''7'', ''/bin/h2load'', ''7:12-13'', ''-D 1 x''],
      [''2026-01-01T'', ''8'', ''/bin/h2load'', ''8:12-13'', ''-D 1 x'']])"

definition bench_host :: "bool host" where
  "bench_host = bare_host\<lparr>
     h_output := \<lambda>c. returnA \<lparr>co_success = True, co_stdout = bench_answer c, co_stderr = []\<rparr>,
     h_spawn := \<lambda>_ _. (Inr 1, True), h_status := \<lambda>_. returnA \<lparr>cs_success = True, cs_code = 0, cs_signal = None\<rparr>,
     h_stat := \<lambda>p launched. (if p = ''/bench/stdout-1.log.started'' \<and> \<not> launched then Inl (Named ''NotFound'' [])
       else Inr \<lparr>fi_isFile = True, fi_isDirectory = False, fi_isSymlink = False, fi_size = 8\<rparr>, launched),
     h_readFile := \<lambda>p. returnA (if p = ''/bench/benchmark/client-affinity.tsv'' then smoke_clients else p),
     h_environ := returnA [(''IN_NIX_SHELL'', ''1'')], h_open := \<lambda>_. returnA 1\<rparr>"

definition smoke_server :: "string \<Rightarrow> json" where
  "smoke_server p = JObj [(''method'', JStr benchmarkMethod), (''phase'', JStr p),
     (''threads'', JArr [JObj [(''tid'', j_int 7), (''allowed'', JStr serverMask)]])]"

definition bench_json :: "json \<Rightarrow> string \<Rightarrow> json res" where
  "bench_json rep text =
     (if text = ''/bench/benchmark/results.json'' then Inr rep
      else case map_of (map (\<lambda>p. (''/bench/benchmark/busker/tls-h2/1/server-affinity-'' @ p @ ''.json'', smoke_server p))
          server_phases) text of
        Some v \<Rightarrow> Inr v | None \<Rightarrow> Inl (Error ''Unexpected token''))"

definition bench_ref :: "string \<Rightarrow> output_ref" where
  "bench_ref name = \<lparr>or_name = name, or_version = 1\<rparr>"

definition bench_url :: "string \<Rightarrow> string" where
  "bench_url p = (if p = ''/w/src/main/clojure/ol/busker.clj'' then ''file:///b'' else ''file:///n'')"

definition bench_machine :: "js_math \<Rightarrow> json \<Rightarrow> bool machine" where
  "bench_machine m rep = \<lparr>sv_host = bench_host,
     sv_artifacts = \<lparr>ao_store = \<lparr>so_write = \<lambda>_ name _. returnA (bench_ref name), so_read = \<lambda>_ _. returnA None\<rparr>,
       ao_stream = \<lambda>_ name _. returnA (bench_ref name), ao_text = \<lambda>_ name _. returnA (bench_ref name)\<rparr>,
     sv_crypto = \<lparr>cr_sha256 = \<lambda>_. sample_sha, cr_sha1 = \<lambda>_. [], cr_collate = \<lambda>_ _. False\<rparr>, sv_math = m,
     sv_numstr = \<lambda>_. ''0'', sv_utf8 = Some, sv_json = bench_json rep, sv_url = sample_url, mc_os = ''linux'',
     mc_arch = ''x86_64'', mc_hostname = returnA ''host'', mc_wrapper = ''/s/h2load'', mc_fileURL = bench_url,
     mc_number = \<lambda>s. Fin (if s = ''10'' then 10 else 13), mc_writeText = \<lambda>_ _. returnA (),
     mc_copyFile = \<lambda>_ _. returnA (), mc_symlink = \<lambda>_ _. returnA (), mc_removeTree = \<lambda>_. returnA ()\<rparr>"

definition smoke_checkout :: checkout where
  "smoke_checkout = \<lparr>ck_path = ''/w'', ck_revision = sample_revision, ck_dirty = False\<rparr>"

definition smoke_placed :: placed where
  "smoke_placed = \<lparr>pd_topology = map (\<lambda>cpu. \<lparr>cp_cpu = cpu, cp_core = dec_int cpu, cp_package = ''0'', cp_l3 = ''0'',
       cp_l3Size = ''32768K'', cp_siblings = dec_int cpu @ '','' @ dec_int (cpu + 16)\<rparr>) cpus,
     pd_realH2load = ''/bin/h2load'',
     pd_env = [(''PATH'', ''/s:''), (''TEMPO_BENCHMARK_METHOD'', benchmarkMethod), (''TEMPO_H2LOAD_REAL'', ''/bin/h2load''),
       (''TEMPO_AFFINITY_LOG'', ''/bench/client-affinity.tsv'')]\<rparr>"

definition smoke_run :: bench_state where
  "smoke_run = bench_start\<lparr>bt_handles := [bench_ref ''run-1-busker-tls-h2-trace'', bench_ref ''run-1-busker-tls-h2-stderr''],
     bt_logs := [bench_ref ''run-1-busker-tls-h2-trace'', bench_ref ''run-1-busker-tls-h2-stderr''],
     bt_execution := Some \<lparr>ex_unit = ''tempo-run-1-busker-tls-h2.scope'',
       ex_status = Some \<lparr>cs_success = True, cs_code = 0, cs_signal = None\<rparr>, ex_cleanup = Absent, ex_error = None,
       ex_success = True, ex_stdoutPath = ''/bench/stdout-1.log'', ex_stderrPath = ''/bench/stderr-1.log''\<rparr>\<rparr>"

lemma smoke_expectation: "expectation_of (bench_machine m rep) (smoke_request p) smoke_checkout sample_sha = sample_expectation Smoke"
  by code_simp

lemma smoke_attempt: "attempt_batch (bench_machine m rep) (smoke_request p) smoke_checkout smoke_placed 1 bench_start False =
    (Inr smoke_run, True)"
  by code_simp

lemma smoke_evidence: "validatePlacementEvidence (bench_machine m rep) (batch_output (smoke_request p) 1)
    (sample_directories (smoke_request p) 1) 1 1 ''/bin/h2load'' True = (Inr (), True)"
  by code_simp

lemma smoke_prepared: "prepare_benchmark (bench_machine m rep) (smoke_request p) False =
    (Inr (smoke_checkout, sample_expectation Smoke, smoke_placed), False)"
  by code_simp

lemma smoke_source: "inspectCheckout bench_host ''/w'' True = (Inr smoke_checkout, True)"
  by code_simp

lemma smoke_results: "h_readFile bench_host (join_path (batch_output (smoke_request p) 1) ''results.json'') True =
    (Inr ''/bench/benchmark/results.json'', True)"
  by code_simp

lemma bench_simps [simp]:
  "sv_host (bench_machine m rep) = bench_host" "sv_json (bench_machine m rep) = bench_json rep"
  "sv_url (bench_machine m rep) = sample_url" "mc_hostname (bench_machine m rep) = returnA ''host''"
  "sv_store (bench_machine m rep) = \<lparr>so_write = \<lambda>_ name _. returnA (bench_ref name), so_read = \<lambda>_ _. returnA None\<rparr>"
  by (simp_all add: bench_machine_def)

lemma smoke_hash: "hashFile (bench_machine m rep) path True = (Inr sample_sha, True)"
  by (simp add: hashFile_def bench_machine_def bench_host_def bindA_def split: if_splits)

lemma smoke_checked:
  assumes "validateBenchmark sample_url rep (sample_expectation Smoke) = Inr b"
  shows "check_batch (bench_machine m rep) (smoke_request p) smoke_checkout (sample_expectation Smoke) smoke_placed 1
    smoke_run True = (Inr b, True)"
proof -
  have json: "bench_json rep ''/bench/benchmark/results.json'' = Inr rep" by (simp add: bench_json_def)
  have request: "pa_warmup (bq_parameters (smoke_request p)) = 1" "pa_duration (bq_parameters (smoke_request p)) = 1"
    by (simp_all add: smoke_request_def sample_parameters_def)
  have run: "map_option ex_success (bt_execution smoke_run) = Some True" "bt_error smoke_run = None"
    "pd_realH2load smoke_placed = ''/bin/h2load''" "ck_path smoke_checkout = ''/w''" "ck_dirty smoke_checkout = False"
    "ex_nativeSha256 (sample_expectation Smoke) = sample_sha"
    by (simp_all add: smoke_run_def bench_start_def smoke_placed_def smoke_checkout_def sample_expectation_def)
  show ?thesis
    by (simp del: One_nat_def add: check_batch_def thenA_def bindA_def guardA_def run smoke_source smoke_hash request smoke_evidence
        smoke_results json assms)
qed

lemma smoke_benchmark:
  assumes "validateBenchmark sample_url rep (sample_expectation Smoke) = Inr b"
  shows "\<exists>r st'. runBenchmark (bench_machine m rep) smoke_input False = (Inr r, st') \<and> br_valid r"
proof -
  have q: "bq_deadlineMs (smoke_request p) = None" "bq_purpose (smoke_request p) = Smoke" for p
    by (simp_all add: smoke_request_def)
  have start: "bt_summary smoke_run = None" "bt_inconclusive smoke_run = False" "bt_error smoke_run = None"
    by (simp_all add: smoke_run_def bench_start_def)
  note run = smoke_prepared smoke_attempt smoke_checked [OF assms]
  show ?thesis
    by (simp del: One_nat_def add: ex_bool_eq runBenchmark_def zparse_def smoke_request_read run run_batch_def measure_batch_def thenA_def
        bindA_def guardA_def tryA_def past_deadline_def after_batch_def batches_differ_def q start add_batch_def Let_def
        finish_benchmark_def pool_batches_def precision_failure_def inconclusive_run_def valid_run_def)
qed

end
