(* ===== verification/Runner_Claims.thy ===== *)
theory Runner_Claims
  imports Bench_World
begin

text \<open>
  Properties of the programs that measure: a benchmark that counts ran under the conditions its record
  names, the repeatability report passes exactly on precise samples, and which processes a finish
  does not stop.
\<close>

section \<open>Benchmarks\<close>

text \<open>
  One batch that counts. In a single sequence of states: its command succeeded, the checkout was at the
  same revision and clean, the native library had the same hash, the placement evidence of every
  sample was accepted, and the report it left validates as \<open>m\<close> against the expectation.
\<close>

definition counted_batch :: "('st, 'z) machine_scheme \<Rightarrow> benchmark_request \<Rightarrow> checkout \<Rightarrow> expectation \<Rightarrow> placed \<Rightarrow> nat \<Rightarrow>
    benchmark_summary \<Rightarrow> bool" where
  "counted_batch mc q ck expected pd batch m \<longleftrightarrow>
     (\<exists>x st0 st1. runCommand (sv_host mc) (batch_command q ck pd batch) st0 = (Inr x, st1) \<and> ex_success x) \<and>
     (\<exists>after st2 st3 st4 st5 text report.
       inspectCheckout (sv_host mc) (ck_path ck) st2 = (Inr after, st3) \<and> ck_revision after = ck_revision ck \<and>
       (bq_purpose q = MeasurementPurpose \<longrightarrow> \<not> ck_dirty after) \<and>
       hashFile mc (native_path mc (ck_path ck)) st3 = (Inr (ex_nativeSha256 expected), st4) \<and>
       validatePlacementEvidence mc (batch_output q batch) (sample_directories q batch) (pa_warmup (bq_parameters q))
         (pa_duration (bq_parameters q)) (pd_realH2load pd) st4 = (Inr (), st5) \<and>
       fst (h_readFile (sv_host mc) (join_path (batch_output q batch) ''results.json'') st5) = Inr text \<and>
       sv_json mc text = Inr report \<and> validateBenchmark (sv_url mc) report expected = Inr m)"

text \<open>Archiving adds files and handles only.\<close>

definition same_result :: "bench_state \<Rightarrow> bench_state \<Rightarrow> bool" where
  "same_result s s' \<longleftrightarrow> bt_summary s' = bt_summary s \<and> bt_batches s' = bt_batches s \<and>
     bt_execution s' = bt_execution s"

lemma archive_entries_keep:
  "archive_entries f es acc st = (Inr acc', st') \<Longrightarrow>
     (\<And>e a st a' st'. f e a st = (Inr a', st') \<Longrightarrow> same_result a a') \<Longrightarrow> same_result acc acc'"
  by (induction es arbitrary: acc st) (fastforce simp: run_simps same_result_def)+

lemma visit_output_keeps: "visit_output sv prefix batch depth path rel acc st = (Inr acc', st') \<Longrightarrow> same_result acc acc'"
proof (induction depth arbitrary: path rel acc st acc' st')
  case 0
  then show ?case by (simp add: throwA_Inr)
next
  case (Suc depth)
  show ?case
    using Suc.prems unfolding visit_output.simps bindA_Inr'
  proof (elim exE conjE, elim archive_entries_keep)
    fix e a sta a' sta'
    assume "(let label = (if rel = [] then de_name e else rel @ ''/'' @ de_name e); full = join_path path (de_name e) in
       if de_isSymlink e then throwA (Error ''Benchmark artifacts must not contain symlinks'')
       else if de_isDirectory e then visit_output sv prefix batch depth full label a
       else if label \<in> set omitted_names then returnA (a\<lparr>bt_omitted := bt_omitted a @ [dec_nat batch @ ''/'' @ label]\<rparr>)
       else if de_isFile e then bindA (archiveFile (sv_host sv) (sv_artifacts sv) ''benchmarkFile''
           (prefix @ ''-file-'' @ dec_nat (length (bt_files a) + 1)) full False) (\<lambda>handle. returnA (case handle of
             None \<Rightarrow> a
           | Some r \<Rightarrow> a\<lparr>bt_handles := bt_handles a @ [r], bt_files := bt_files a @ [(dec_nat batch @ ''/'' @ label, r)]\<rparr>))
       else throwA (Error ''Unexpected benchmark artifact type'')) sta = (Inr a', sta')"
    then show "same_result a a'"
      by (auto simp: Let_def run_simps same_result_def split: if_splits option.splits dest: Suc.IH)
  qed
qed

lemma attempt_batch_Inr:
  assumes "attempt_batch mc q ck pd batch s st = (Inr s', st')"
  shows "bt_summary s' = bt_summary s \<and> bt_batches s' = bt_batches s \<and>
    (\<exists>st1. case runCommand (sv_host mc) (batch_command q ck pd batch) st of
       (Inr x, _) \<Rightarrow> bt_execution s' = Some x | (Inl _, _) \<Rightarrow> bt_execution s' = None)"
proof -
  from assms obtain s1 st1 s2 st2 where
    r: "run_command_of mc (batch_command q ck pd batch) (s\<lparr>bt_execution := None\<rparr>) st = (Inr s1, st1)"
    "archive_logs_of mc (batch_command q ck pd batch) s1 st1 = (Inr s2, st2)"
    "archive_output_of mc (sp_id (batch_command q ck pd batch)) batch (batch_output q batch) s2 st2 = (Inr s', st')"
    unfolding attempt_batch_def Let_def bindA_Inr' by blast
  from r(3) have "same_result s2 s'"
    by (auto simp: archive_output_of_def run_simps same_result_def split: if_splits
        dest!: visit_output_keeps)
  moreover from r(2) have "same_result s1 s2"
    by (auto simp: archive_logs_of_def run_simps same_result_def)
  moreover from r(1) have "bt_summary s1 = bt_summary s \<and> bt_batches s1 = bt_batches s \<and>
      (case runCommand (sv_host mc) (batch_command q ck pd batch) st of
       (Inr x, _) \<Rightarrow> bt_execution s1 = Some x | (Inl _, _) \<Rightarrow> bt_execution s1 = None)"
    by (auto simp: run_command_of_def tryA_def bindA_def split: prod.splits sum.splits)
  ultimately show ?thesis
    by (auto simp: same_result_def split: prod.splits sum.splits)
qed

lemma check_batch_Inr:
  assumes "check_batch mc q ck expected pd batch s st = (Inr m, st')"
    and "attempt_batch mc q ck pd batch s0 st0 = (Inr s, st1)"
  shows "counted_batch mc q ck expected pd batch m"
proof -
  from assms(1) obtain after st2 st3 st4 u wtext st5 rep where
    c: "map_option ex_success (bt_execution s) = Some True"
    "inspectCheckout (sv_host mc) (ck_path ck) st = (Inr after, st2)" "ck_revision after = ck_revision ck"
    "\<not> (bq_purpose q = MeasurementPurpose \<and> ck_dirty after)"
    "hashFile mc (native_path mc (ck_path ck)) st2 = (Inr (ex_nativeSha256 expected), st3)"
    "validatePlacementEvidence mc (batch_output q batch) (sample_directories q batch) (pa_warmup (bq_parameters q))
       (pa_duration (bq_parameters q)) (pd_realH2load pd) st3 = (Inr u, st4)"
    "h_readFile (sv_host mc) (join_path (batch_output q batch) ''results.json'') st4 = (Inr wtext, st5)"
    "sv_json mc wtext = Inr rep" "validateBenchmark (sv_url mc) rep expected = Inr m"
    unfolding check_batch_def bindA_Inr' thenA_Inr guardA_Inr liftA_Inr
    by (elim exE conjE) (hypsubst, rule that)
  from c(1) obtain x where x: "bt_execution s = Some x" "ex_success x" by auto
  then obtain st6 where "runCommand (sv_host mc) (batch_command q ck pd batch) st0 = (Inr x, st6)"
    using attempt_batch_Inr [OF assms(2)] by (auto split: prod.splits sum.splits)
  moreover from c(6) have "validatePlacementEvidence mc (batch_output q batch) (sample_directories q batch)
      (pa_warmup (bq_parameters q)) (pa_duration (bq_parameters q)) (pd_realH2load pd) st3 = (Inr (), st4)" by simp
  moreover from c(7) have "fst (h_readFile (sv_host mc) (join_path (batch_output q batch) ''results.json'') st4) = Inr wtext"
    by simp
  ultimately show ?thesis unfolding counted_batch_def using x(2) c(2,3,4,5,8,9) by blast
qed

text \<open>The first and the second batch that count, after one pass of the loop.\<close>

lemma run_batch_Inr:
  assumes "run_batch mc q ck expected pd batch s st = (Inr (s', stop), st')"
  shows "bt_summary s' = None \<and> stop \<or>
    (\<exists>m. counted_batch mc q ck expected pd batch m \<and> \<not> batches_differ (sv_numstr mc) (bt_summary s) m \<and>
       bt_batches s' = bt_batches s @ [(batch_output q batch, bs_samples m)] \<and>
       (\<exists>mean. bt_summary s' = Some (m\<lparr>bs_samples := (case bt_summary s of None \<Rightarrow> [] | Some o' \<Rightarrow> bs_samples o') @
          bs_samples m, bs_diagnosticRate := mean\<rparr>)) \<and>
       (bq_purpose q = Smoke \<longrightarrow> stop))"
proof -
  from assms obtain s1 st1 r st2 where a: "attempt_batch mc q ck pd batch s st = (Inr s1, st1)"
    and t: "tryA (measure_batch mc q ck expected pd batch s1) st1 = (Inr r, st2)"
    and k: "(case r of Inl failure \<Rightarrow> returnA (s1\<lparr>bt_summary := None, bt_error := Some (error_string failure)\<rparr>, True)
      | Inr s2 \<Rightarrow> after_batch (sv_host mc) q batch s2) st2 = (Inr (s', stop), st')"
    unfolding run_batch_def bindA_Inr' by blast
  show ?thesis
  proof (cases r)
    case (Inl e)
    with k show ?thesis by (intro disjI1) (auto simp: returnA_def)
  next
    case (Inr s2)
    with t have "measure_batch mc q ck expected pd batch s1 st1 = (Inr s2, st2)" by (simp add: tryA_Inr)
    then obtain m st3 where m: "check_batch mc q ck expected pd batch s1 st1 = (Inr m, st3)"
      "\<not> batches_differ (sv_numstr mc) (bt_summary s1) m" "s2 = add_batch m (batch_output q batch) s1"
      unfolding measure_batch_def bindA_Inr' thenA_Inr guardA_Inr returnA_Inr by (elim exE conjE) (rule that)
    have same: "bt_summary s1 = bt_summary s" "bt_batches s1 = bt_batches s"
      using attempt_batch_Inr [OF a] by simp_all
    have "bt_summary s' = bt_summary s2 \<and> bt_batches s' = bt_batches s2 \<and> (bq_purpose q = Smoke \<longrightarrow> stop)"
      using k Inr by (auto simp: after_batch_def run_simps split: if_splits)
    with m same check_batch_Inr [OF m(1) a] show ?thesis
      by (auto simp: add_batch_def Let_def)
  qed
qed

definition measured_once :: "('st, 'z) machine_scheme \<Rightarrow> benchmark_request \<Rightarrow> checkout \<Rightarrow> expectation \<Rightarrow> placed \<Rightarrow>
    bench_state \<Rightarrow> benchmark_summary \<Rightarrow> bool" where
  "measured_once mc q ck expected pd s m1 \<longleftrightarrow> counted_batch mc q ck expected pd 1 m1 \<and>
     bt_batches s = [(batch_output q 1, bs_samples m1)] \<and> map_option bs_samples (bt_summary s) = Some (bs_samples m1)"

definition measured_twice :: "('st, 'z) machine_scheme \<Rightarrow> benchmark_request \<Rightarrow> checkout \<Rightarrow> expectation \<Rightarrow> placed \<Rightarrow>
    bench_state \<Rightarrow> benchmark_summary \<Rightarrow> benchmark_summary \<Rightarrow> bool" where
  "measured_twice mc q ck expected pd s m1 m2 \<longleftrightarrow> counted_batch mc q ck expected pd 1 m1 \<and>
     counted_batch mc q ck expected pd 2 m2 \<and>
     bs_javaVersion m1 = bs_javaVersion m2 \<and> bs_h2loadVersion m1 = bs_h2loadVersion m2 \<and>
     bt_batches s = [(batch_output q 1, bs_samples m1), (batch_output q 2, bs_samples m2)] \<and>
     map_option bs_samples (bt_summary s) = Some (bs_samples m1 @ bs_samples m2) \<and> bq_purpose q = MeasurementPurpose"

lemma past_deadline_cases:
  assumes "bindA (past_deadline h d) (\<lambda>late. if late then f else g) st = (Inr x, st')"
  obtains st1 where "f st1 = (Inr x, st')" | st1 where "g st1 = (Inr x, st')"
  using assms by (auto simp: bindA_Inr' split: if_splits)

lemma run_batches_Inr:
  assumes "run_batches mc q ck expected pd [1, 2] bench_start st = (Inr s, st')" "bt_summary s \<noteq> None"
  shows "(\<exists>m1. measured_once mc q ck expected pd s m1) \<or> (\<exists>m1 m2. measured_twice mc q ck expected pd s m1 m2)"
proof -
  have None: "bt_summary (bench_start\<lparr>bt_inconclusive := True\<rparr>) = None" by (simp add: bench_start_def)
  from assms(1) None assms(2) obtain st1 s1 stop st2 where r1: "run_batch mc q ck expected pd 1 bench_start st1 = (Inr (s1, stop), st2)"
    and rest: "(if stop then returnA s1 else run_batches mc q ck expected pd [2] s1) st2 = (Inr s, st')"
    unfolding run_batches.simps by (elim past_deadline_cases) (auto simp: returnA_def bindA_Inr')
  show ?thesis
  proof (cases "bt_summary s1 = None")
    case True
    with run_batch_Inr [OF r1] rest assms(2) show ?thesis by (auto simp: returnA_def)
  next
    case False
    from run_batch_Inr [OF r1] False obtain m1 mean where m1: "counted_batch mc q ck expected pd 1 m1"
      "bt_batches s1 = [(batch_output q 1, bs_samples m1)]" "bq_purpose q = Smoke \<longrightarrow> stop"
      "bt_summary s1 = Some (m1\<lparr>bs_samples := bs_samples m1, bs_diagnosticRate := mean\<rparr>)"
      by (auto simp: bench_start_def)
    then have once: "measured_once mc q ck expected pd s1 m1" by (simp add: measured_once_def)
    show ?thesis
    proof (cases stop)
      case True
      with rest once show ?thesis by (auto simp: returnA_def)
    next
      case go: False
      with m1(3) have purpose: "bq_purpose q = MeasurementPurpose" by (cases "bq_purpose q") auto
      from rest go have "run_batches mc q ck expected pd [2] s1 st2 = (Inr s, st')" by simp
      then consider "s = s1\<lparr>bt_inconclusive := True\<rparr>"
        | stop2 st3 st4 where "run_batch mc q ck expected pd 2 s1 st3 = (Inr (s, stop2), st4)"
        unfolding run_batches.simps by (elim past_deadline_cases) (auto simp: returnA_def bindA_Inr')
      then show ?thesis
      proof cases
        case 1
        with once show ?thesis by (auto simp: measured_once_def)
      next
        case 2
        from run_batch_Inr [OF 2] assms(2) obtain m2 mean2 where
          "counted_batch mc q ck expected pd 2 m2" "\<not> batches_differ (sv_numstr mc) (bt_summary s1) m2"
          "bt_batches s = bt_batches s1 @ [(batch_output q 2, bs_samples m2)]"
          "bt_summary s = Some (m2\<lparr>bs_samples := (case bt_summary s1 of None \<Rightarrow> [] | Some o' \<Rightarrow> bs_samples o') @
             bs_samples m2, bs_diagnosticRate := mean2\<rparr>)"
          by auto
        with m1 purpose have "measured_twice mc q ck expected pd s m1 m2"
          by (simp add: measured_twice_def batches_differ_def)
        then show ?thesis by blast
      qed
    qed
  qed
qed

lemma prepare_benchmark_Inr:
  assumes "prepare_benchmark mc q st = (Inr (ck, expected, pd), st')"
  shows "\<not> (bq_purpose q = MeasurementPurpose \<and> ck_dirty ck) \<and> check_repetitions q = Inr () \<and>
    (\<exists>sha. expected = expectation_of mc q ck sha) \<and> (\<exists>st1 st2. placementEnvironment mc (bq_directory q) st1 = (Inr pd, st2))"
  using assms unfolding prepare_benchmark_def Let_def bindA_Inr' thenA_Inr guardA_Inr liftA_Inr returnA_Inr
  by (elim exE conjE Pair_inject) (hypsubst, simp, blast)

text \<open>The statistics of two batches that met the precision asked for.\<close>

definition precise_enough :: "js_math \<Rightarrow> benchmark_request \<Rightarrow> jsnum list \<Rightarrow> bool" where
  "precise_enough m q samples \<longleftrightarrow> (\<exists>p. precisionSummary m samples (bq_precision q) = Inr p \<and>
     meetsPrecision (Some (ps_relativeHalfWidth p)) (bq_precision q) = Inr True)"

lemma finish_benchmark_valid:
  assumes "finish_benchmark mc q ck expected pd s0 st = (Inr r, st')" "br_valid r"
  obtains s pooled hostname st1 where "bt_summary s0 \<noteq> None" "s = s0"
    "so_write (sv_store mc) ''benchmark'' (bench_base q @ ''-result'')
       (enc_benchmark q ck (ex_nativeSha256 expected) hostname pd s pooled True False) st1 = (Inr (br_saved r), st')"
    "bq_purpose q = MeasurementPurpose \<longrightarrow> length (bt_batches s0) = 2 \<and>
       precise_enough (sv_math mc) q (case bt_summary s0 of Some m \<Rightarrow> bs_samples m | None \<Rightarrow> [])"
proof -
  from assms(1) obtain late st1 where l: "past_deadline (sv_host mc) (bq_deadlineMs q) st = (Inr late, st1)"
    and k: "(let (s, pooled) = pool_batches (sv_math mc) q (if late then s0\<lparr>bt_inconclusive := True\<rparr> else s0) in
     bindA (liftA (precision_failure q s pooled)) (\<lambda>precisionFailure.
     let inconclusive = inconclusive_run q s precisionFailure; valid = valid_run q s pooled inconclusive in
     bindA (mc_hostname mc) (\<lambda>hostname.
     bindA (so_write (sv_store mc) ''benchmark'' (bench_base q @ ''-result'')
       (enc_benchmark q ck (ex_nativeSha256 expected) hostname pd s pooled valid inconclusive)) (\<lambda>saved.
     returnA \<lparr>br_valid = valid, br_inconclusive = inconclusive, br_precisionFailure = precisionFailure,
       br_saved = saved, br_handles = bt_handles s @ [saved]\<rparr>)))) st1 = (Inr r, st')"
    unfolding finish_benchmark_def bindA_Inr' by blast
  define s1 where "s1 = (if late then s0\<lparr>bt_inconclusive := True\<rparr> else s0)"
  obtain s pooled where p: "pool_batches (sv_math mc) q s1 = (s, pooled)" by fastforce
  from k obtain pf hostname st2 st3 where w: "precision_failure q s pooled = Inr pf"
    "so_write (sv_store mc) ''benchmark'' (bench_base q @ ''-result'')
       (enc_benchmark q ck (ex_nativeSha256 expected) hostname pd s pooled (valid_run q s pooled (inconclusive_run q s pf))
         (inconclusive_run q s pf)) st2 = (Inr (br_saved r), st')"
    "br_valid r = valid_run q s pooled (inconclusive_run q s pf)"
    unfolding s1_def [symmetric] p Let_def case_prod_conv
    by (auto simp: bindA_Inr' returnA_def)
  from w(3) assms(2) have v: "bt_summary s \<noteq> None" "\<not> inconclusive_run q s pf" "bt_error s = None"
    "bq_purpose q = Smoke \<or> pooled \<noteq> None"
    by (auto simp: valid_run_def)
  have s: "s = s1" using p v(1) by (auto simp: pool_batches_def split: option.splits if_splits sum.splits)
  have "\<not> late" using v(2) s by (auto simp: inconclusive_run_def s1_def)
  with s have s0: "s = s0" by (simp add: s1_def)
  have "length (bt_batches s0) = 2 \<and>
       precise_enough (sv_math mc) q (case bt_summary s0 of Some m \<Rightarrow> bs_samples m | None \<Rightarrow> [])"
    if purpose: "bq_purpose q = MeasurementPurpose"
  proof -
    from v(4) purpose obtain ps where ps: "pooled = Some ps" by auto
    from v(1) s0 obtain m where m: "bt_summary s0 = Some m" by auto
    from p ps m s s0 purpose have "length (bt_batches s0) = 2" "precisionSummary (sv_math mc) (bs_samples m) (bq_precision q) = Inr ps"
      by (auto simp: pool_batches_def split: if_splits sum.splits)
    moreover from v(2) purpose have "\<not> pf" by (simp add: inconclusive_run_def)
    ultimately show ?thesis using w(1) v(3) ps m s0 purpose
      by (auto simp: precision_failure_def precise_enough_def res_simps)
  qed
  with w(2) v s0 assms(2) w(3) show ?thesis by (intro that [of s hostname pooled st2]) auto
qed

text \<open>
  C28: A benchmark that counts was controlled. When a requested benchmark is reported valid, its source
  was not dirty if it is scored, and its first batch counts: the command succeeded, afterwards the
  checkout was unchanged and the native library had the same hash, every sample ran on the checked
  processors, and the report validates against what was asked for. A scored one has exactly two such
  batches on the same versions, whose pooled samples have a confidence interval within the precision
  asked for. The saved record is the one of these samples.
\<close>

theorem valid_benchmark_is_controlled:
  assumes "runBenchmark mc inp st = (Inr r, st')" "br_valid r"
  shows "\<exists>q ck sha pd m1 s pooled hostname st1. benchmarkRequestSchema inp = Some q \<and> check_repetitions q = Inr () \<and>
    \<not> (bq_purpose q = MeasurementPurpose \<and> ck_dirty ck) \<and>
    counted_batch mc q ck (expectation_of mc q ck sha) pd 1 m1 \<and>
    so_write (sv_store mc) ''benchmark'' (bench_base q @ ''-result'')
      (enc_benchmark q ck sha hostname pd s pooled True False) st1 = (Inr (br_saved r), st') \<and>
    (bq_purpose q = MeasurementPurpose \<longrightarrow> (\<exists>m2.
       counted_batch mc q ck (expectation_of mc q ck sha) pd 2 m2 \<and>
       bs_javaVersion m1 = bs_javaVersion m2 \<and> bs_h2loadVersion m1 = bs_h2loadVersion m2 \<and>
       bt_batches s = [(batch_output q 1, bs_samples m1), (batch_output q 2, bs_samples m2)] \<and>
       precise_enough (sv_math mc) q (bs_samples m1 @ bs_samples m2)))"
proof -
  from assms(1) obtain q ck expected pd s st2 st3 st4 where q: "benchmarkRequestSchema inp = Some q"
    and prep: "prepare_benchmark mc q st2 = (Inr (ck, expected, pd), st3)"
    and runs: "run_batches mc q ck expected pd [1, 2] bench_start st3 = (Inr s, st4)"
    and fin: "finish_benchmark mc q ck expected pd s st4 = (Inr r, st')"
    unfolding runBenchmark_def bindA_Inr' liftA_Inr zparse_Inr split_paired_Ex case_prod_conv by blast
  from prepare_benchmark_Inr [OF prep] obtain sha where pre: "\<not> (bq_purpose q = MeasurementPurpose \<and> ck_dirty ck)"
    "check_repetitions q = Inr ()" "expected = expectation_of mc q ck sha" by blast
  obtain s' pooled hostname st5 where f: "bt_summary s \<noteq> None" "s' = s"
    "so_write (sv_store mc) ''benchmark'' (bench_base q @ ''-result'')
       (enc_benchmark q ck (ex_nativeSha256 expected) hostname pd s' pooled True False) st5 = (Inr (br_saved r), st')"
    "bq_purpose q = MeasurementPurpose \<longrightarrow> length (bt_batches s) = 2 \<and>
       precise_enough (sv_math mc) q (case bt_summary s of Some m \<Rightarrow> bs_samples m | None \<Rightarrow> [])"
    by (rule finish_benchmark_valid [OF fin assms(2)])
  have sha: "ex_nativeSha256 expected = sha" by (simp add: pre(3) expectation_of_def)
  note common = q pre(1,2) f(3) [unfolded sha f(2)]
  from run_batches_Inr [OF runs f(1)] show ?thesis
  proof (elim disjE exE)
    fix m1 assume m: "measured_once mc q ck expected pd s m1"
    then have "bq_purpose q \<noteq> MeasurementPurpose" using f(4) by (auto simp: measured_once_def)
    with m common show ?thesis unfolding measured_once_def pre(3) by blast
  next
    fix m1 m2 assume m: "measured_twice mc q ck expected pd s m1 m2"
    then obtain m where "bt_summary s = Some m" "bs_samples m = bs_samples m1 @ bs_samples m2"
      by (auto simp: measured_twice_def)
    with m f(4) have "precise_enough (sv_math mc) q (bs_samples m1 @ bs_samples m2)" by (simp add: measured_twice_def)
    with m common show ?thesis unfolding measured_twice_def pre(3) by blast
  qed
qed

theorem valid_benchmark_is_controlled_witness:
  "\<exists>b q ck sha pd m1. validateBenchmark sample_url sample_report (sample_expectation Smoke) = Inr b \<and>
     benchmarkRequestSchema smoke_input = Some q \<and> bq_purpose q = Smoke \<and>
     counted_batch (bench_machine sample_math sample_report) q ck (expectation_of (bench_machine sample_math sample_report) q ck sha) pd 1 m1"
proof -
  obtain b where b: "validateBenchmark sample_url sample_report (sample_expectation Smoke) = Inr b"
    using sample_validated by blast
  from smoke_benchmark [OF b, of sample_math] obtain r st' where
    "runBenchmark (bench_machine sample_math sample_report) smoke_input False = (Inr r, st')" "br_valid r" by blast
  from valid_benchmark_is_controlled [OF this] b smoke_request_read show ?thesis
    by (auto simp: smoke_request_def)
qed

section \<open>Repeatability\<close>

text \<open>A protocol whose six samples are precise enough.\<close>

definition protocol_passes :: "js_math \<Rightarrow> repeat_report \<Rightarrow> protocol \<Rightarrow> bool" where
  "protocol_passes m r p \<longleftrightarrow> length (rates_of r p) = 6 \<and>
     (\<exists>s. precisionSummary m (rates_of r p) (rr_precision r) = Inr s \<and>
        meetsPrecision (Some (ps_relativeHalfWidth s)) (rr_precision r) = Inr True)"

lemma settle_report_passed [simp]: "rr_passed (settle_report r failure) \<longleftrightarrow> failure = None \<or> rr_passed r"
  by (auto simp: settle_report_def split: option.splits)

lemma rates_of_pooled [simp]: "rates_of (r\<lparr>rr_pooled := ps\<rparr>) p = rates_of r p"
  by (simp add: rates_of_def)

text \<open>
  C39: The repeatability report passes exactly on precise samples. A report that has not passed yet is
  judged as passed if and only if no batch failed and, for HTTP/1 as for TLS with HTTP/2, there are
  six samples whose pooled confidence interval meets the precision the report names.
\<close>

theorem repeatability_passes_iff:
  "rr_passed (judge m (r\<lparr>rr_pooled := [], rr_passed := False\<rparr>) failure) \<longleftrightarrow>
     failure = None \<and> protocol_passes m r H1 \<and> protocol_passes m r TlsH2"
proof -
  let ?r = "r\<lparr>rr_pooled := [], rr_passed := False\<rparr>"
  have rates: "rates_of ?r p = rates_of r p" for p by (simp add: rates_of_def)
  show ?thesis
    by (cases failure)
      (auto simp: judge_def repeat_protocols_def protocol_passes_def rates rates_of_def res_simps
        split: sum.splits prod.splits if_splits bool.splits)
qed

section \<open>What a finish does not stop\<close>

text \<open>
  C40: A finish leaves the second batch of a benchmark running. That batch runs in a scope of its own,
  while a finish stops, of any run, the scopes of the first batches, of the profiles, of the steps
  and of the REPL; the scope of a second batch is none of them, so processes that survived the
  cleanup of a second batch survive the finish as well.
\<close>

theorem second_batch_not_stopped:
  "batch_prefix q 2 \<notin> set (benchmark_scopes runId) \<union> set (profile_scopes runId) \<union>
     {step_scope runId p n | p n. True} \<union> {replId runId}"
proof -
  have t: "last (batch_prefix q 2) = CHR ''t''" by (simp add: batch_prefix_def)
  have "last x \<noteq> CHR ''t''" if "x \<in> set (benchmark_scopes runId) \<union> set (profile_scopes runId)" for x
    using that by (auto simp: benchmark_scopes_def profile_scopes_def all_protocols_def all_events_def
        protocol_name_def profile_event_name_def)
  moreover have "last (replId runId) \<noteq> CHR ''t''" by (simp add: replId_def)
  moreover have "last (step_scope runId p n) \<noteq> CHR ''t''" for p n
  proof -
    have "last (dec_int n) \<in> set (dec_int n)" by (rule last_in_set) (simp add: dec_int_def)
    moreover have "CHR ''t'' \<notin> set (dec_int n)"
      using dec_nat_only_digits [of "CHR ''t''"] by (simp add: dec_int_def is_digit_def)
    moreover have "dec_int n \<noteq> []" by (simp add: dec_int_def)
    ultimately have "last (dec_int n) \<noteq> CHR ''t''" "last (step_scope runId p n) = last (dec_int n)"
      by (metis, simp add: step_scope_def)
    then show ?thesis by simp
  qed
  ultimately show ?thesis using t by auto
qed

end
