(* ===== verification/Spec2Isabelle.thy ===== *)
theory Spec2Isabelle
  imports Comparison_Claims Pi_Events Profile Counters Benchmark Tests Campaign_Claims Live_Claims Live_Run Pi_Claims Runner_Claims
begin

text \<open>
  Tempo, the measured-optimisation workflow under \<^verbatim>\<open>src/swamp\<close>: the model \<^verbatim>\<open>extensions/models/tempo.ts\<close>,
  its library \<^verbatim>\<open>extensions/models/_lib\<close> and the guard and tools \<^verbatim>\<open>pi/guard.ts\<close>, \<^verbatim>\<open>pi/restricted-tools.js\<close>
  of the inference processes it starts. A run prepares a worktree, measures a baseline, and then lets an
  inference service propose, implement and repair changes. A change is kept only when tests, a
  measurement and a review accept it; everything a run does is saved in a versioned resource store, so
  that it can be resumed, audited, and continued by another run.

  \<^bold>\<open>How the parts interact.\<close> A method of \<^verbatim>\<open>tempo.ts\<close> starts or resumes a run (\<^verbatim>\<open>run.ts\<close>). The loop
  of a run takes steps with the driver (\<^verbatim>\<open>driver.ts\<close>): the state machine (\<^verbatim>\<open>state.ts\<close>) reserves the next
  phase within the limits (\<^verbatim>\<open>control.ts\<close>), the reserved state is saved, the effect of the phase is
  performed (\<^verbatim>\<open>performLiveStep\<close>), its result is saved, and the state machine completes the step. Effects use
  the worktree (\<^verbatim>\<open>workspace.ts\<close>), scoped processes (\<^verbatim>\<open>process.ts\<close>, \<^verbatim>\<open>repl.ts\<close>), the archive
  (\<^verbatim>\<open>artifacts.ts\<close>), and the runners of tests, profiles, benchmarks and inference. The benchmarks of a
  measurement are read back, pooled and compared (\<^verbatim>\<open>measurement.ts\<close>), and the comparison gives the outcome.
  A run that continues another first verifies the exported evidence of it (\<^verbatim>\<open>campaign.ts\<close>).

  \<^bold>\<open>Theories and sources.\<close> Definitions have the names of the code; a record or datatype stands for each
  interface or union, \<open>'a res\<close> (an error or a value) for a function that may throw, and
  \<open>('st, 'a) action\<close> for an asynchronous one: it takes the state of the world, and what it did
  stays done whether it returns or throws.
  \<^item> Foundations: \<open>Tempo_Base\<close> (results, decimal numbers, identifiers, the hint collections), \<open>Json\<close> (JSON
    values and the combinators of zod), \<open>Js_Number\<close> (binary64 on rationals; the locale \<open>float_rounding\<close>),
    \<open>Js_Text\<close>, \<open>Store\<close> (actions; the resource store as the locale \<open>reliable_store\<close>), \<open>Host\<close> (the
    operations of Deno as one record, control structures of asynchronous code).
  \<^item> The run: \<open>Control\<close> (\<^verbatim>\<open>control.ts\<close>), \<open>Run_State\<close> (\<^verbatim>\<open>state.ts\<close>), \<open>Schemas\<close> (\<^verbatim>\<open>schemas.ts\<close>), \<open>Inference\<close>
    (\<^verbatim>\<open>inference.ts\<close>), \<open>Driver\<close> (\<^verbatim>\<open>driver.ts\<close>), \<open>Run_Config\<close>, \<open>Run_Start\<close>, \<open>Run_Execute\<close>, \<open>Run_Live\<close>
    (\<^verbatim>\<open>run.ts\<close>: schemas, starting, executing, the live steps), \<open>Tempo_Store\<close> and \<open>Methods\<close> (\<^verbatim>\<open>tempo.ts\<close>: the
    resource kinds, the methods), \<open>World\<close> (the store beside the rest of the world).
  \<^item> Processes: \<open>Process\<close> (\<^verbatim>\<open>process.ts\<close>, \<^verbatim>\<open>repl.ts\<close>), \<open>Tests\<close> (\<^verbatim>\<open>artifacts.ts\<close>, \<^verbatim>\<open>test-runner.ts\<close>),
    \<open>Workspace\<close> (\<^verbatim>\<open>workspace.ts\<close>), \<open>Support\<close> (\<^verbatim>\<open>support.ts\<close>), \<open>Guard\<close> (\<^verbatim>\<open>guard.ts\<close>), \<open>Restricted_Tools\<close>
    (\<^verbatim>\<open>restricted-tools.js\<close>), \<open>Pi_Events\<close> (\<^verbatim>\<open>pi.ts\<close>), \<open>Pi_Runner\<close> (\<^verbatim>\<open>pi-runner.ts\<close>).
  \<^item> Measuring: \<open>Statistics\<close> and \<open>Benchmark\<close> (\<^verbatim>\<open>benchmark.ts\<close>), \<open>Placement\<close> (\<^verbatim>\<open>placement.ts\<close>),
    \<open>Benchmark_Runner\<close> (\<^verbatim>\<open>benchmark-runner.ts\<close>), \<open>Measurement\<close> and \<open>Comparison\<close> (\<^verbatim>\<open>measurement.ts\<close>),
    \<open>Profile\<close> (\<^verbatim>\<open>profile.ts\<close>), \<open>Counters\<close> (\<^verbatim>\<open>counters.ts\<close>), \<open>Profile_Runner\<close> and \<open>Profile_Run\<close>
    (\<^verbatim>\<open>profile-runner.ts\<close>), \<open>Repeatability\<close> (\<^verbatim>\<open>repeatability.ts\<close>).
  \<^item> Continuing a run: \<open>Campaign\<close>, \<open>Campaign_Facts\<close>, \<open>Campaign_Export\<close> (\<^verbatim>\<open>campaign.ts\<close>).

  \<^bold>\<open>What is shown.\<close>
  \<^item> The state machine as a step relation (\<open>Run_Lifecycle\<close>, \<open>Run_Properties\<close>, \<open>Run_Claims\<close>): budgets are never
    exceeded, a run is bounded but for repeated finishes whose cleanup failed, the best version was accepted by tests, measurement and review, and a
    reported target is backed by them.
  \<^item> The driver refines it on any store that keeps the laws of the interface (\<open>Driver\<close>, \<open>Driver_Claims\<close>,
    interpreted by the store of \<^verbatim>\<open>tempo.ts\<close>): each saved step is one transition, every effect is recorded, recovery
    does the rest of an interrupted step and repeats nothing. The loop of a run ends whatever
    the effects of its steps do (\<open>Run_Execute\<close>, \<open>Execute_Claims\<close>); the live steps leave the records of
    the run alone (\<open>Live_Quiet\<close>), so a resumed run ends (\<open>Live_Run\<close>).
  \<^item> The live steps (\<open>Live_Claims\<close>): their outcome always completes the step, work is saved before the worktree
    moves, edits are snapshots. The inference process (\<open>Guard\<close>, \<open>Pi_Events\<close>, \<open>Pi_Claims\<close>): its tools work
    in the worktree or read inputs and references, under the policy that was written for it.
  \<^item> Verdicts (\<open>Control\<close>, \<open>Comparison_Claims\<close>, \<open>Statistics\<close>, \<open>Benchmark\<close>, \<open>Runner_Claims\<close>): an improvement is an
    improvement of the saved samples, rounding included, and a benchmark that counts was controlled.
  \<^item> Round trips of what is saved and read, and the evidence of a parent (\<open>Schemas\<close>, \<open>Run_Config\<close>,
    \<open>Campaign_Claims\<close>): the step records of an accepted parent are a run of the state machine.
  \<^item> \<open>Runner_Claims\<close> also shows a gap: a finish does not stop the scope of a benchmark's second batch.
  \<open>Live_World\<close> and \<open>Bench_World\<close> are concrete machines for the witnesses; \<open>Comparison_Claims\<close>, \<open>Execute_Claims\<close>
  and \<open>Campaign_Claims\<close> hold concrete runs of their own.

  \<^bold>\<open>Bounds and fuel.\<close> The loop of a run has the fuel \<open>run_fuel\<close>, twice the attempts plus four times the
  inference calls plus five: \<open>work_left\<close> of the limits decreases with every step and starts
  below it, so the loop never runs dry. Descents into directories (\<open>visit_support\<close>, \<open>visit_archive\<close>,
  \<open>visit_output\<close>) and the chain of parents (\<open>verify_chain\<close>) stop after 4096 levels with a RangeError, as a
  stack would; paths and bundles are far shorter. The probes of the REPL are the sixty of the code.
  The bisection of the critical value and the recurrences of its integrals have the counts of the code.

  \<^bold>\<open>Arguments of the model.\<close> Everything outside of the sources is an argument, with no law assumed unless a
  theorem names it: the host (files, programs, environment, clock), \<^verbatim>\<open>Math\<close>, \<^verbatim>\<open>JSON.parse\<close>, the printing and
  reading of numbers, \<^verbatim>\<open>new URL\<close> and \<^verbatim>\<open>pathToFileURL\<close>, hashes, collation, \<^verbatim>\<open>TextDecoder\<close>, the agent's tools.
  The named laws are those of git's references (\<open>git_reference_laws\<close>), of the store, of a file that is
  written (\<open>file_writer_laws\<close>), that files and programs do not write the records of a run
  (\<open>quiet_machine\<close>), and, for a policy file, that the parser inverts the printer on it.

  \<^bold>\<open>Not modelled.\<close> File modes and timestamps in records, which nothing reads back; the concurrency of
  \<^verbatim>\<open>Promise.all\<close> and of the four fetches at a time, done one after the other; descriptions, lifetimes and
  retention of resource kinds, data for the framework; the framework itself, which calls the methods;
  the web server in Clojure, C and Java that a run optimises, and its build; the tests, of which only
  the in-memory store is modelled as an instance of the store interface. Strings hold characters below 256,
  and the two zeros of binary64 are one value, which no code here tells apart.
\<close>

end
